(* ===== verification/Prelude.thy ===== *)
theory Prelude
  imports Main "HOL-Library.List_Lexorder" "HOL-Library.Char_ord"
begin

text \<open>
  Shared vocabulary of the development: results with errors as values, the Python string
  and integer functions the services call, and the list lemmas several components use.

  A Python \<open>str\<close> is a \<^typ>\<open>string\<close> whose characters are the code points below 256
  (Latin-1). The classification functions below follow CPython on that range, including the
  superscript digits, which \<open>str.isdigit\<close> accepts and \<open>int\<close> refuses. A code point above 255
  in a message literal (dashes, the rupee sign) is written as one stand-in control character.
\<close>

named_theorems svc_simps \<open>unfolding rules of the small request helpers\<close>

subsection \<open>Results\<close>

text \<open>A call that may raise: \<open>Inl\<close> is the exception, \<open>Inr\<close> the returned value.\<close>

definition bindR :: "'e + 'a \<Rightarrow> ('a \<Rightarrow> 'e + 'b) \<Rightarrow> 'e + 'b" where
  "bindR r f = (case r of Inl e \<Rightarrow> Inl e | Inr x \<Rightarrow> f x)"

lemma bindR_simps [simp]:
  "bindR (Inl e) f = Inl e"
  "bindR (Inr x) f = f x"
  by (simp_all add: bindR_def)

lemma bindR_eq_Inr [simp]: "bindR r f = Inr y \<longleftrightarrow> (\<exists>x. r = Inr x \<and> f x = Inr y)"
  by (cases r) auto

lemma bindR_eq_Inl: "bindR r f = Inl e \<longleftrightarrow> r = Inl e \<or> (\<exists>x. r = Inr x \<and> f x = Inl e)"
  by (cases r) auto

definition is_ok :: "'e + 'a \<Rightarrow> bool" where
  "is_ok r = (case r of Inl _ \<Rightarrow> False | Inr _ \<Rightarrow> True)"

lemma is_ok_simps [simp]: "is_ok (Inl e) = False" "is_ok (Inr x) = True"
  by (simp_all add: is_ok_def)

subsection \<open>Optional values\<close>

definition is_some :: "'a option \<Rightarrow> bool" where
  "is_some x = (case x of None \<Rightarrow> False | Some _ \<Rightarrow> True)"

lemma is_some_simps [simp]: "is_some None = False" "is_some (Some x) = True"
  by (simp_all add: is_some_def)

lemma is_some_iff: "is_some x \<longleftrightarrow> x \<noteq> None"
  by (cases x) auto

text \<open>Python's \<open>value or default\<close> on an optional string: both \<open>None\<close> and \<open>''\<close> are false.\<close>

definition str_or :: "string option \<Rightarrow> string \<Rightarrow> string" where
  "str_or s d = (case s of None \<Rightarrow> d | Some [] \<Rightarrow> d | Some v \<Rightarrow> v)"

definition or_none :: "string \<Rightarrow> string option" where
  "or_none s = (if s = [] then None else Some s)"

text \<open>Python's \<open>not value\<close> on an optional string.\<close>

definition opt_is_blank :: "string option \<Rightarrow> bool" where
  "opt_is_blank x = (case x of None \<Rightarrow> True | Some v \<Rightarrow> v = [])"

lemma opt_is_blank_simps [simp]: "opt_is_blank None" "opt_is_blank (Some v) = (v = [])"
  by (simp_all add: opt_is_blank_def)

subsection \<open>Characters\<close>

definition py_ord :: "char \<Rightarrow> nat" where
  "py_ord c = of_char c"

lemma py_ord_less_256 [simp]: "py_ord c < 256"
  by (simp add: py_ord_def of_char_def)

lemma py_ord_inject [simp]: "py_ord c = py_ord d \<longleftrightarrow> c = d"
  by (simp add: py_ord_def)

lemma py_ord_char_of [simp]: "n < 256 \<Longrightarrow> py_ord (char_of n) = n"
  by (simp add: py_ord_def)

definition py_isspace :: "char \<Rightarrow> bool" where
  "py_isspace c = (let n = py_ord c in (9 \<le> n \<and> n \<le> 13) \<or> (28 \<le> n \<and> n \<le> 32) \<or> n = 133 \<or> n = 160)"

definition ascii_digit :: "char \<Rightarrow> bool" where
  "ascii_digit c = (let n = py_ord c in 48 \<le> n \<and> n \<le> 57)"

text \<open>\<open>str.isdigit\<close> on one character: the ASCII digits and the superscripts two, three and one.\<close>

definition py_isdigit_char :: "char \<Rightarrow> bool" where
  "py_isdigit_char c = (ascii_digit c \<or> py_ord c \<in> {178, 179, 185})"

definition py_lower_char :: "char \<Rightarrow> char" where
  "py_lower_char c = (let n = py_ord c in
     if (65 \<le> n \<and> n \<le> 90) \<or> (192 \<le> n \<and> n \<le> 222 \<and> n \<noteq> 215) then char_of (n + 32) else c)"

text \<open>
  \<open>str.upper\<close>: the sharp s becomes two letters. The micro sign and the y with diaeresis, whose
  upper case lies outside Latin-1, are left unchanged.
\<close>

definition py_upper_char :: "char \<Rightarrow> string" where
  "py_upper_char c = (let n = py_ord c in
     if (97 \<le> n \<and> n \<le> 122) \<or> (224 \<le> n \<and> n \<le> 254 \<and> n \<noteq> 247) then [char_of (n - 32)]
     else if n = 223 then ''SS'' else [c])"

subsection \<open>Strings\<close>

definition py_lower :: "string \<Rightarrow> string" where
  "py_lower s = map py_lower_char s"

definition py_upper :: "string \<Rightarrow> string" where
  "py_upper s = concat (map py_upper_char s)"

definition py_lstrip :: "string \<Rightarrow> string" where
  "py_lstrip s = dropWhile py_isspace s"

definition py_strip :: "string \<Rightarrow> string" where
  "py_strip s = rev (dropWhile py_isspace (rev (dropWhile py_isspace s)))"

definition py_isdigit :: "string \<Rightarrow> bool" where
  "py_isdigit s = (s \<noteq> [] \<and> list_all py_isdigit_char s)"

text \<open>\<open>s.split(sep)\<close> for a one-character separator: always at least one part.\<close>

fun py_split :: "char \<Rightarrow> string \<Rightarrow> string list" where
  "py_split c [] = [[]]"
| "py_split c (x # xs) =
     (if x = c then [] # py_split c xs
      else (case py_split c xs of [] \<Rightarrow> [[x]] | p # ps \<Rightarrow> (x # p) # ps))"

fun py_join :: "string \<Rightarrow> string list \<Rightarrow> string" where
  "py_join sep [] = []"
| "py_join sep [p] = p"
| "py_join sep (p # ps) = p @ sep @ py_join sep ps"

definition is_prefix :: "string \<Rightarrow> string \<Rightarrow> bool" where
  "is_prefix p s = (take (length p) s = p)"

text \<open>\<open>s.partition(c)\<close>: the part before the separator, whether it was found, and the rest.\<close>

definition py_partition :: "char \<Rightarrow> string \<Rightarrow> string \<times> bool \<times> string" where
  "py_partition c s = (case dropWhile (\<lambda>x. x \<noteq> c) s of
      [] \<Rightarrow> (s, False, []) | _ # r \<Rightarrow> (takeWhile (\<lambda>x. x \<noteq> c) s, True, r))"

lemma py_split_not_Nil [simp]: "py_split c s \<noteq> []"
  by (induction s) (auto split: list.splits)

lemma py_split_no_sep: "c \<notin> set s \<Longrightarrow> py_split c s = [s]"
  by (induction s) auto

lemma py_split_sep: "c \<notin> set s \<Longrightarrow> py_split c (s @ c # t) = s # py_split c t"
  by (induction s) (auto split: list.splits)

lemma length_py_lower [simp]: "length (py_lower s) = length s"
  by (simp add: py_lower_def)

subsection \<open>Decimal numbers\<close>

definition digit_char :: "nat \<Rightarrow> char" where
  "digit_char d = char_of (48 + d)"

fun nat_digits :: "nat \<Rightarrow> string" where
  "nat_digits n = (if n < 10 then [digit_char n] else nat_digits (n div 10) @ [digit_char (n mod 10)])"

declare nat_digits.simps [simp del]

text \<open>\<open>str(n)\<close> for an \<open>int\<close>.\<close>

definition py_str_int :: "int \<Rightarrow> string" where
  "py_str_int i = (if i < 0 then CHR ''-'' # nat_digits (nat (- i)) else nat_digits (nat i))"

definition zfill :: "nat \<Rightarrow> string \<Rightarrow> string" where
  "zfill w s = replicate (w - length s) (CHR ''0'') @ s"

text \<open>The format \<open>{n:02d}\<close> (and \<open>{n:06d}\<close>) of a non-negative number.\<close>

definition fmt0 :: "nat \<Rightarrow> int \<Rightarrow> string" where
  "fmt0 w i = (if i < 0 then CHR ''-'' # zfill (w - 1) (nat_digits (nat (- i))) else zfill w (nat_digits (nat i)))"

fun digits_val :: "nat \<Rightarrow> string \<Rightarrow> nat" where
  "digits_val acc [] = acc"
| "digits_val acc (c # cs) = digits_val (10 * acc + (py_ord c - 48)) cs"

text \<open>
  \<open>int(s)\<close>: blanks around are ignored, an optional sign, then ASCII digits; anything else
  raises \<open>ValueError\<close> (\<open>None\<close>). Single underscores between digits are allowed, as in Python.
\<close>

definition py_int :: "string \<Rightarrow> int option" where
  "py_int s = (let t = py_strip s;
      neg = (case t of c # _ \<Rightarrow> c = CHR ''-'' | [] \<Rightarrow> False);
      body = (case t of c # r \<Rightarrow> if c = CHR ''-'' \<or> c = CHR ''+'' then r else t | [] \<Rightarrow> []);
      groups = py_split (CHR ''_'') body; n = int (digits_val 0 (concat groups))
    in if list_all (\<lambda>g. g \<noteq> [] \<and> list_all ascii_digit g) groups
       then Some (if neg then - n else n) else None)"

lemma py_ord_digit_char [simp]: "d < 10 \<Longrightarrow> py_ord (digit_char d) = 48 + d"
  by (simp add: py_ord_def digit_char_def)

lemma ascii_digit_digit_char [simp]: "d < 10 \<Longrightarrow> ascii_digit (digit_char d)"
  by (simp add: ascii_digit_def)

lemma nat_digits_not_Nil [simp]: "nat_digits n \<noteq> []"
  by (subst nat_digits.simps) simp

lemma nat_digits_ascii: "list_all ascii_digit (nat_digits n)"
proof (induction n rule: nat_digits.induct)
  case (1 n)
  then show ?case by (subst nat_digits.simps) auto
qed

lemma digits_val_append: "digits_val a (xs @ ys) = digits_val (digits_val a xs) ys"
  by (induction xs arbitrary: a) auto

lemma digits_val_nat_digits: "digits_val 0 (nat_digits n) = n"
proof (induction n rule: nat_digits.induct)
  case (1 n)
  then show ?case by (subst nat_digits.simps) (simp add: digits_val_append)
qed

lemma digits_val_replicate0: "digits_val 0 (replicate k (CHR ''0'') @ s) = digits_val 0 s"
proof -
  have "digits_val 0 (replicate k (CHR ''0'')) = 0"
    by (induction k) (simp_all add: py_ord_def)
  then show ?thesis by (simp add: digits_val_append)
qed

lemma ascii_digit_not_space: "ascii_digit c \<Longrightarrow> \<not> py_isspace c"
  by (auto simp: ascii_digit_def py_isspace_def Let_def)

lemma strip_no_space: "list_all (\<lambda>c. \<not> py_isspace c) s \<Longrightarrow> py_strip s = s"
proof -
  have keep: "list_all (\<lambda>c. \<not> py_isspace c) t \<Longrightarrow> dropWhile py_isspace t = t" for t
    by (cases t) auto
  assume "list_all (\<lambda>c. \<not> py_isspace c) s"
  then show ?thesis by (simp add: py_strip_def keep)
qed

lemma strip_ascii_digits: "list_all ascii_digit s \<Longrightarrow> py_strip s = s"
  by (rule strip_no_space) (auto simp: list_all_iff ascii_digit_not_space)

lemma ascii_digit_not_sign: "ascii_digit c \<Longrightarrow> c \<noteq> CHR ''-'' \<and> c \<noteq> CHR ''+''"
  by (auto simp: ascii_digit_def py_ord_def Let_def)

lemma py_int_digits:
  assumes "s \<noteq> []" and "list_all ascii_digit s"
  shows "py_int s = Some (int (digits_val 0 s))"
proof -
  obtain c r where s: "s = c # r" using assms(1) by (cases s) auto
  with assms(2) have "c \<noteq> CHR ''-''" "c \<noteq> CHR ''+''"
    by (auto dest: ascii_digit_not_sign)
  moreover have "CHR ''_'' \<notin> set s"
    using assms(2) by (auto simp: list_all_iff ascii_digit_def py_ord_def Let_def)
  ultimately show ?thesis
    using assms s py_split_no_sep [of "CHR ''_''" "c # r"]
    by (simp add: py_int_def strip_ascii_digits Let_def)
qed

lemma py_int_nat_digits: "py_int (nat_digits n) = Some (int n)"
  by (simp add: py_int_digits nat_digits_ascii digits_val_nat_digits)

lemma py_isdigit_int_nonneg:
  assumes "py_isdigit s" and "py_int s = Some g"
  shows "0 \<le> g"
proof -
  have "\<not> py_isspace c" if "py_isdigit_char c" for c
    using that by (auto simp: py_isdigit_char_def py_isspace_def ascii_digit_def Let_def)
  with assms(1) have strip: "py_strip s = s"
    by (intro strip_no_space) (auto simp: py_isdigit_def list_all_iff)
  have "py_isdigit_char c \<Longrightarrow> c \<noteq> CHR ''-''" for c
    by (auto simp: py_isdigit_char_def ascii_digit_def py_ord_def Let_def)
  with assms strip show ?thesis
    by (cases s) (auto simp: py_int_def Let_def py_isdigit_def split: if_splits)
qed

lemma py_isdigit_nat_digits: "py_isdigit (nat_digits n)"
  using nat_digits_ascii [of n]
  by (auto simp: py_isdigit_def py_isdigit_char_def list_all_iff)

lemma nat_digits_no_dot: "CHR ''.'' \<notin> set (nat_digits n)"
  using nat_digits_ascii [of n] by (auto simp: list_all_iff ascii_digit_def py_ord_def Let_def)

lemma zfill_digits:
  assumes "list_all ascii_digit s" and "s \<noteq> []"
  shows "py_int (zfill w s) = Some (int (digits_val 0 s))"
proof -
  have "list_all ascii_digit (zfill w s)" and "zfill w s \<noteq> []"
    using assms by (auto simp: zfill_def list_all_iff ascii_digit_def py_ord_def)
  then show ?thesis by (simp add: py_int_digits) (simp add: zfill_def digits_val_replicate0)
qed

text \<open>The em dash (U+2014) by its UTF-8 bytes.\<close>

definition EM_DASH :: string where "EM_DASH = map char_of [0xE2, 0x80, 0x94 :: nat]"

subsection \<open>Python integer conversions\<close>

text \<open>\<open>int(x / n)\<close> on a real quotient truncates towards zero.\<close>

definition trunc_div :: "int \<Rightarrow> int \<Rightarrow> int" where
  "trunc_div a b = (if 0 \<le> a then a div b else - ((- a) div b))"

definition ceil_div :: "int \<Rightarrow> int \<Rightarrow> int" where
  "ceil_div a b = - ((- a) div b)"

lemma trunc_div_nonneg [simp]: "0 \<le> a \<Longrightarrow> trunc_div a b = a div b"
  by (simp add: trunc_div_def)

lemma trunc_div_neg_le: "a \<le> 0 \<Longrightarrow> 0 < b \<Longrightarrow> trunc_div a b \<le> 0"
  by (auto simp: trunc_div_def pos_imp_zdiv_nonneg_iff)

subsection \<open>Lists of rows\<close>

text \<open>Python's \<open>min(values)\<close> and \<open>max(values)\<close> over a list that may be empty (SQL gives NULL).\<close>

definition min_opt :: "int list \<Rightarrow> int option" where
  "min_opt xs = (if xs = [] then None else Some (Min (set xs)))"

definition max_opt :: "int list \<Rightarrow> int option" where
  "max_opt xs = (if xs = [] then None else Some (Max (set xs)))"

lemma Max_set_ge: "xs \<noteq> [] \<Longrightarrow> (\<And>x. x \<in> set xs \<Longrightarrow> a \<le> x) \<Longrightarrow> a \<le> Max (set (xs :: int list))"
  by (meson List.finite_set Max_in set_empty)

lemma max_opt_None [simp]: "max_opt xs = None \<longleftrightarrow> xs = []"
  by (simp add: max_opt_def)

lemma max_opt_Some: "max_opt xs = Some l \<longleftrightarrow> l \<in> set xs \<and> (\<forall>x \<in> set xs. x \<le> l)"
proof (cases xs)
  case (Cons y ys)
  then have "Max (set xs) = l \<longleftrightarrow> l \<in> set xs \<and> (\<forall>x \<in> set xs. x \<le> l)"
    by (intro Max_eq_iff) auto
  with Cons show ?thesis by (auto simp: max_opt_def)
qed (simp add: max_opt_def)

lemma max_opt_mono:
  assumes "set xs \<subseteq> set ys" and "max_opt xs = Some l"
  shows "\<exists>l'. max_opt ys = Some l' \<and> l \<le> l'"
proof (cases "max_opt ys")
  case None
  with assms show ?thesis by (auto simp: max_opt_Some)
next
  case (Some l')
  with assms show ?thesis by (auto simp: max_opt_Some)
qed

text \<open>The first row of a query, \<open>None\<close> when there is none (\<open>db.one\<close>).\<close>

definition first_row :: "'a list \<Rightarrow> 'a option" where
  "first_row xs = (case xs of [] \<Rightarrow> None | x # _ \<Rightarrow> Some x)"

definition one_where :: "('a \<Rightarrow> bool) \<Rightarrow> 'a list \<Rightarrow> 'a option" where
  "one_where P xs = find P xs"

text \<open>\<open>UPDATE \<dots> SET f WHERE P\<close>: the rows of the table with the matching ones rewritten.\<close>

definition update_where :: "('a \<Rightarrow> bool) \<Rightarrow> ('a \<Rightarrow> 'a) \<Rightarrow> 'a list \<Rightarrow> 'a list" where
  "update_where P f xs = map (\<lambda>x. if P x then f x else x) xs"

lemma length_filter_mono:
  "(\<And>x. x \<in> set xs \<Longrightarrow> P x \<Longrightarrow> Q x) \<Longrightarrow> length (filter P xs) \<le> length (filter Q xs)"
  by (induction xs) auto

text \<open>A UNIQUE key over the rows a condition selects.\<close>

definition pairwise_ok :: "('a \<Rightarrow> bool) \<Rightarrow> ('a \<Rightarrow> 'a \<Rightarrow> bool) \<Rightarrow> 'a list \<Rightarrow> bool" where
  "pairwise_ok P E xs \<longleftrightarrow> (\<forall>a \<in> set xs. \<forall>b \<in> set xs. P a \<and> P b \<and> E a b \<longrightarrow> a = b)"

lemma one_where_append: "one_where P xs = None \<Longrightarrow> P x \<Longrightarrow> one_where P (xs @ [x]) = Some x"
  unfolding one_where_def by (induction xs) (auto split: if_splits)

lemma one_where_update_where:
  assumes "\<And>x. Q (f x) = Q x"
  shows "one_where Q (update_where P f xs) = map_option (\<lambda>x. if P x then f x else x) (one_where Q xs)"
  unfolding one_where_def update_where_def using assms by (induction xs) auto

lemma length_filter_update_where:
  assumes "\<And>x. Q (f x) \<Longrightarrow> P x \<Longrightarrow> Q x"
  shows "length (filter Q (update_where P f xs)) \<le> length (filter Q xs)"
proof (induction xs)
  case (Cons x xs)
  then show ?case using assms [of x] by (auto simp: update_where_def)
qed (simp add: update_where_def)

lemma filter_update_where_out:
  "(\<And>x. \<not> Q (f x)) \<Longrightarrow> filter Q (update_where P f xs) = filter (\<lambda>x. Q x \<and> \<not> P x) xs"
  by (induction xs) (simp_all add: update_where_def)

definition delete_where :: "('a \<Rightarrow> bool) \<Rightarrow> 'a list \<Rightarrow> 'a list" where
  "delete_where P xs = filter (\<lambda>x. \<not> P x) xs"

lemma one_where_Some: "one_where P xs = Some x \<Longrightarrow> x \<in> set xs \<and> P x"
  by (auto simp: one_where_def find_Some_iff)

lemma one_where_None: "one_where P xs = None \<longleftrightarrow> (\<forall>x \<in> set xs. \<not> P x)"
  by (auto simp: one_where_def find_None_iff)

lemma length_update_where [simp]: "length (update_where P f xs) = length xs"
  by (simp add: update_where_def)

lemma set_update_where: "set (update_where P f xs) = (\<lambda>x. if P x then f x else x) ` set xs"
  by (simp add: update_where_def)

lemma map_update_where_key:
  assumes "\<And>x. key (f x) = key x"
  shows "map key (update_where P f xs) = map key xs"
  using assms by (simp add: update_where_def)

lemma filter_update_where_id:
  assumes "\<And>x. Q x \<Longrightarrow> \<not> P x" and "\<And>x. P x \<Longrightarrow> \<not> Q (f x)"
  shows "filter Q (update_where P f xs) = filter Q xs"
  using assms by (induction xs) (auto simp: update_where_def)

lemma set_delete_where [simp]: "set (delete_where P xs) = {x \<in> set xs. \<not> P x}"
  by (auto simp: delete_where_def)

lemma distinct_map_delete_where: "distinct (map k xs) \<Longrightarrow> distinct (map k (delete_where P xs))"
  by (simp add: delete_where_def distinct_map_filter)

text \<open>\<open>dict.fromkeys(xs)\<close>: the first occurrence of each value, in order.\<close>

fun dedup_first :: "'a list \<Rightarrow> 'a list" where
  "dedup_first [] = []"
| "dedup_first (x # xs) = x # filter (\<lambda>y. y \<noteq> x) (dedup_first xs)"

lemma set_dedup_first [simp]: "set (dedup_first xs) = set xs"
  by (induction xs) auto

lemma distinct_dedup_first [simp]: "distinct (dedup_first xs)"
  by (induction xs) auto

end
