(* ===== verification/Errors.thy ===== *)
theory Errors
  imports Prelude
begin

text \<open>
  The domain errors of \<^verbatim>\<open>app/core/errors.py\<close> and their HTTP responses. An exception class of
  the source is a constructor; its detail text is the argument. Exceptions that are not
  \<open>AppError\<close>s are \<open>RuntimeError\<close>, \<open>ValueError\<close>, \<open>TypeError\<close>, \<open>KeyError\<close> and MySQL's
  integrity errors other than 1062.
\<close>

datatype app_error =
    BadRequest string
  | Unauthorized string "(string \<times> string) list"
  | Forbidden string
  | NotFound string
  | Conflict string
  | DuplicateKey "string option"
  | PayloadTooLarge string
  | Unprocessable string
  | UnsupportedMediaType string
  | TooManyRequests string int
  | ServiceUnavailable string
  | CaptchaRequired bool
  | IntegrityError int
  | RuntimeError string
  | ValueError
  | TypeError
  | KeyError

type_synonym 'a res = "app_error + 'a"

definition duplicate_messages :: "string \<rightharpoonup> string" where
  "duplicate_messages = map_of [
     (''username'', ''Username already exists''),
     (''uq_users_org_username'', ''Username already exists''),
     (''uq_student_admission_no'', ''Admission number already exists''),
     (''uq_student_org_admission_no'', ''Admission number already exists''),
     (''uq_student_section_roll'', ''Roll number already used in this section''),
     (''uq_users_single_principal'', ''There is already a principal. Only one principal is allowed.''),
     (''uq_users_org_principal'', ''There is already a principal. Only one principal is allowed.'')]"

definition duplicate_detail :: "string option \<Rightarrow> string" where
  "duplicate_detail key = (case duplicate_messages (case key of None \<Rightarrow> [] | Some k \<Rightarrow> k) of
     Some m \<Rightarrow> m | None \<Rightarrow> ''Record already exists'')"

text \<open>
  The regular expression \<^verbatim>\<open>for key '(?:[^'.]+\.)?([^']+)'\<close> at the current position, just after
  \<^verbatim>\<open>for key '\<close>: the quoted text, without its \<open>table.\<close> prefix when something follows it.
\<close>

definition quote_char :: char where
  "quote_char = char_of (39 :: nat)"

definition quoted_key :: "string \<Rightarrow> string option" where
  "quoted_key r = (let q = takeWhile (\<lambda>c. c \<noteq> quote_char) r; closed = length q < length r;
      p = takeWhile (\<lambda>c. c \<noteq> CHR ''.'') q; after = drop (Suc (length p)) q
    in if \<not> closed \<or> q = [] then None
       else if p \<noteq> [] \<and> length p < length q \<and> after \<noteq> [] then Some after else Some q)"

fun mysql_key :: "string \<Rightarrow> string option" where
  "mysql_key [] = None"
| "mysql_key (c # cs) =
     (let pat = ''for key '' @ [quote_char] in
      if is_prefix pat (c # cs) then
        (case quoted_key (drop (length pat) (c # cs)) of Some k \<Rightarrow> Some k | None \<Rightarrow> mysql_key cs)
      else mysql_key cs)"

definition duplicate_from_message :: "string \<Rightarrow> app_error" where
  "duplicate_from_message msg = DuplicateKey (mysql_key msg)"

subsection \<open>Responses\<close>

record response =
  status_code :: int
  detail :: string
  headers :: "(string \<times> string) list"
  extra :: "(string \<times> string) list"

definition bearer_invalid :: "(string \<times> string) list" where
  "bearer_invalid = [(''WWW-Authenticate'', ''Bearer error=\"invalid_token\"'')]"

text \<open>\<open>{**default_headers, **headers}\<close>: the caller's header wins over the class's.\<close>

definition merge_headers :: "(string \<times> string) list \<Rightarrow> (string \<times> string) list \<Rightarrow> (string \<times> string) list" where
  "merge_headers dflt hs = filter (\<lambda>(k, _). k \<notin> fst ` set hs) dflt @ hs"

definition plain_response :: "int \<Rightarrow> string \<Rightarrow> response" where
  "plain_response code d = \<lparr>status_code = code, detail = d, headers = [], extra = []\<rparr>"

text \<open>The three registered handlers; \<open>rid\<close> is the request id of the context.\<close>

fun error_response :: "string \<Rightarrow> app_error \<Rightarrow> response" where
  "error_response rid (BadRequest d) = plain_response 400 d"
| "error_response rid (Unauthorized d hs) =
     (plain_response 401 d)\<lparr>headers := merge_headers bearer_invalid hs\<rparr>"
| "error_response rid (Forbidden d) = plain_response 403 d"
| "error_response rid (NotFound d) = plain_response 404 d"
| "error_response rid (Conflict d) = plain_response 409 d"
| "error_response rid (DuplicateKey k) = plain_response 409 (duplicate_detail k)"
| "error_response rid (PayloadTooLarge d) = plain_response 413 d"
| "error_response rid (Unprocessable d) = plain_response 422 d"
| "error_response rid (UnsupportedMediaType d) = plain_response 415 d"
| "error_response rid (TooManyRequests d after) =
     (plain_response 429 d)\<lparr>headers := [(''Retry-After'', py_str_int (max 1 after))]\<rparr>"
| "error_response rid (ServiceUnavailable d) =
     (plain_response 503 d)\<lparr>headers := [(''Retry-After'', ''2'')]\<rparr>"
| "error_response rid (CaptchaRequired invalid) =
     (if invalid
      then (plain_response 428 ''Those characters didn't match. Type the characters in the new picture.'')
             \<lparr>extra := [(''code'', ''captcha_invalid'')]\<rparr>
      else (plain_response 428 ''Type the characters in the picture to continue.'')
             \<lparr>extra := [(''code'', ''captcha_required'')]\<rparr>)"
| "error_response rid (IntegrityError code) =
     (if code = 1452 then plain_response 400 ''Related record not found''
      else if code = 1451 then plain_response 409 ''Record is still in use''
      else plain_response 400 ''Invalid data'')"
| "error_response rid (RuntimeError m) =
     (plain_response 500 ''Internal server error'')\<lparr>extra := [(''request_id'', rid)]\<rparr>"
| "error_response rid ValueError =
     (plain_response 500 ''Internal server error'')\<lparr>extra := [(''request_id'', rid)]\<rparr>"
| "error_response rid TypeError =
     (plain_response 500 ''Internal server error'')\<lparr>extra := [(''request_id'', rid)]\<rparr>"
| "error_response rid KeyError =
     (plain_response 500 ''Internal server error'')\<lparr>extra := [(''request_id'', rid)]\<rparr>"

text \<open>The \<open>AppError\<close>s: what a service raises on purpose.\<close>

fun is_app_error :: "app_error \<Rightarrow> bool" where
  "is_app_error (IntegrityError _) = False"
| "is_app_error (RuntimeError _) = False"
| "is_app_error ValueError = False"
| "is_app_error TypeError = False"
| "is_app_error KeyError = False"
| "is_app_error _ = True"

fun is_conflict :: "app_error \<Rightarrow> bool" where
  "is_conflict (Conflict _) = True"
| "is_conflict (DuplicateKey _) = True"
| "is_conflict _ = False"

lemma app_error_not_500: "is_app_error e \<Longrightarrow> status_code (error_response rid e) \<noteq> 500"
  by (cases e) (auto simp: plain_response_def)

lemma conflict_409: "is_conflict e \<Longrightarrow> status_code (error_response rid e) = 409"
  by (cases e) (auto simp: plain_response_def)

end
