(* ===== verification/Config.thy ===== *)
theory Config
  imports Errors
begin

text \<open>
  Environment parsing (\<^verbatim>\<open>app/core/env.py\<close>) and the settings the modelled services read
  (\<^verbatim>\<open>app/core/config.py\<close>). The process environment is a map from names to values.
\<close>

type_synonym environ = "string \<rightharpoonup> string"

definition env_str :: "environ \<Rightarrow> string \<Rightarrow> string \<Rightarrow> string" where
  "env_str en name dflt = (case en name of None \<Rightarrow> dflt | Some v \<Rightarrow> py_strip v)"

definition env_int :: "environ \<Rightarrow> string \<Rightarrow> int \<Rightarrow> int option \<Rightarrow> int res" where
  "env_int en name dflt minimum =
     (case en name of None \<Rightarrow> Inr dflt
      | Some raw \<Rightarrow>
          if py_strip raw = [] then Inr dflt
          else (case py_int raw of
                  None \<Rightarrow> Inl (RuntimeError (name @ '' must be an integer''))
                | Some v \<Rightarrow>
                    (case minimum of
                       Some m \<Rightarrow> if v < m then Inl (RuntimeError (name @ '' must be >= '' @ py_str_int m))
                                 else Inr v
                     | None \<Rightarrow> Inr v)))"

definition env_bool :: "environ \<Rightarrow> string \<Rightarrow> bool \<Rightarrow> bool" where
  "env_bool en name dflt =
     (case en name of None \<Rightarrow> dflt
      | Some raw \<Rightarrow> if py_strip raw = [] then dflt
                    else py_lower (py_strip raw) \<in> {''1'', ''true'', ''yes'', ''on''})"

definition py_rstrip_char :: "char \<Rightarrow> string \<Rightarrow> string" where
  "py_rstrip_char c s = rev (dropWhile (\<lambda>x. x = c) (rev s))"

definition env_list :: "environ \<Rightarrow> string \<Rightarrow> string list" where
  "env_list en name = map (\<lambda>item. py_rstrip_char (CHR ''/'') (py_strip item))
     (filter (\<lambda>item. py_strip item \<noteq> [])
        (py_split (CHR '','') (case en name of None \<Rightarrow> [] | Some v \<Rightarrow> v)))"

lemma env_int_bound:
  "env_int en name dflt (Some m) = Inr v \<Longrightarrow> m \<le> dflt \<Longrightarrow> m \<le> v"
  by (auto simp: env_int_def split: option.splits if_splits)

subsection \<open>The settings of the modelled services\<close>

record settings =
  app_env :: string
  secret_key :: string
  access_token_minutes :: int
  refresh_idle_days :: int
  refresh_max_days :: int
  refresh_reuse_grace_seconds :: int
  max_sessions_per_user :: int
  login_window_minutes :: int
  login_max_failures_per_account :: int
  login_max_failures_per_ip :: int
  login_ip_flood_limit :: int
  login_max_failures_per_account_device :: int
  login_captcha_after_account_failures :: int
  login_captcha_after_ip_failures :: int
  captcha_ttl_seconds :: int
  captcha_max_per_ip :: int
  enforce_password_change :: bool
  require_user_email :: bool
  reset_code_ttl_minutes :: int
  reset_code_max_attempts :: int
  reset_max_wrong_codes_per_day :: int
  reset_max_codes_per_account :: int
  reset_max_requests_per_ip :: int
  reset_window_minutes :: int
  school_name :: string
  file_url_ttl_hours :: int
  default_org_code :: string
  platform_secret :: string
  firebase_credentials :: string

definition known_weak_secrets :: "string list" where
  "known_weak_secrets = ['''', ''x'', ''dev-secret-change-me'', ''change-me-in-production'',
     ''change-this-to-a-long-random-string'']"

text \<open>The start of \<open>load_settings\<close>: the environment name and the signing secret.\<close>

definition load_secret :: "environ \<Rightarrow> (string \<times> string) res" where
  "load_secret en =
     (let env = py_lower (env_str en ''APP_ENV'' ''production'') in
      if env \<noteq> ''production'' \<and> env \<noteq> ''development''
      then Inl (RuntimeError (''APP_ENV must be 'production' or 'development'' @ [quote_char]))
      else let key = env_str en ''SECRET_KEY'' '''' in
        if env = ''production'' \<and> (key \<in> set known_weak_secrets \<or> length key < 32)
        then Inl (RuntimeError ''SECRET_KEY is missing or too weak for production. Generate one with `openssl rand -hex 32`, or set APP_ENV=development for local work.'')
        else Inr (env, if key = [] then ''development-only-secret-key-not-for-production-use'' else key))"

text \<open>The integer limits, read in the order of the constructor call; the first bad one raises.\<close>

fun env_ints :: "environ \<Rightarrow> (string \<times> int \<times> int) list \<Rightarrow> int list res" where
  "env_ints en [] = Inr []"
| "env_ints en ((name, dflt, m) # rest) =
     bindR (env_int en name dflt (Some m)) (\<lambda>v. bindR (env_ints en rest) (\<lambda>vs. Inr (v # vs)))"

definition limits_before_device :: "(string \<times> int \<times> int) list" where
  "limits_before_device = [
     (''ACCESS_TOKEN_EXPIRE_MINUTES'', 15, 1), (''REFRESH_TOKEN_IDLE_DAYS'', 30, 1),
     (''REFRESH_TOKEN_MAX_DAYS'', 180, 1), (''REFRESH_REUSE_GRACE_SECONDS'', 60, 0),
     (''MAX_SESSIONS_PER_USER'', 10, 1), (''LOGIN_WINDOW_MINUTES'', 15, 1),
     (''LOGIN_MAX_FAILURES_PER_ACCOUNT'', 10, 1), (''LOGIN_MAX_FAILURES_PER_IP'', 50, 1),
     (''LOGIN_IP_FLOOD_LIMIT'', 500, 1)]"

definition limits_after_device :: "(string \<times> int \<times> int) list" where
  "limits_after_device = [
     (''LOGIN_CAPTCHA_AFTER_ACCOUNT_FAILURES'', 3, 1), (''LOGIN_CAPTCHA_AFTER_IP_FAILURES'', 20, 1),
     (''CAPTCHA_TTL_SECONDS'', 300, 30), (''CAPTCHA_MAX_PER_IP'', 300, 1),
     (''RESET_CODE_TTL_MINUTES'', 15, 1), (''RESET_CODE_MAX_ATTEMPTS'', 5, 1),
     (''RESET_MAX_WRONG_CODES_PER_DAY'', 20, 1), (''RESET_MAX_CODES_PER_ACCOUNT'', 5, 1),
     (''RESET_MAX_REQUESTS_PER_IP'', 100, 1), (''RESET_WINDOW_MINUTES'', 60, 1)]"

text \<open>\<open>LOGIN_MAX_FAILURES_PER_ACCOUNT_DEVICE\<close> falls back to the older per-address variable.\<close>

definition load_device_limit :: "environ \<Rightarrow> int res" where
  "load_device_limit en =
     bindR (env_int en ''LOGIN_MAX_FAILURES_PER_ACCOUNT_IP'' 5 (Some 1))
       (\<lambda>d. env_int en ''LOGIN_MAX_FAILURES_PER_ACCOUNT_DEVICE'' d (Some 1))"

definition build_settings :: "environ \<Rightarrow> string \<times> string \<Rightarrow> int list \<Rightarrow> int \<Rightarrow> int list \<Rightarrow> int \<Rightarrow> settings" where
  "build_settings en ek a dev b ttl = \<lparr>
     app_env = fst ek, secret_key = snd ek,
     access_token_minutes = a ! 0, refresh_idle_days = a ! 1, refresh_max_days = a ! 2,
     refresh_reuse_grace_seconds = a ! 3, max_sessions_per_user = a ! 4, login_window_minutes = a ! 5,
     login_max_failures_per_account = a ! 6, login_max_failures_per_ip = a ! 7,
     login_ip_flood_limit = a ! 8, login_max_failures_per_account_device = dev,
     login_captcha_after_account_failures = b ! 0, login_captcha_after_ip_failures = b ! 1,
     captcha_ttl_seconds = b ! 2, captcha_max_per_ip = b ! 3,
     enforce_password_change = env_bool en ''ENFORCE_PASSWORD_CHANGE'' False,
     require_user_email = env_bool en ''REQUIRE_USER_EMAIL'' False,
     reset_code_ttl_minutes = b ! 4, reset_code_max_attempts = b ! 5,
     reset_max_wrong_codes_per_day = b ! 6, reset_max_codes_per_account = b ! 7,
     reset_max_requests_per_ip = b ! 8, reset_window_minutes = b ! 9,
     school_name = (let n = env_str en ''SCHOOL_NAME'' ''School'' in if n = [] then ''School'' else n),
     file_url_ttl_hours = ttl,
     default_org_code = py_upper (py_strip (env_str en ''DEFAULT_ORG_CODE'' ''DEFAULT'')),
     platform_secret = env_str en ''PLATFORM_SECRET'' '''',
     firebase_credentials = env_str en ''FIREBASE_CREDENTIALS'' ''''\<rparr>"

definition load_settings :: "environ \<Rightarrow> settings res" where
  "load_settings en =
     bindR (load_secret en) (\<lambda>ek.
     bindR (env_ints en limits_before_device) (\<lambda>a.
     bindR (load_device_limit en) (\<lambda>dev.
     bindR (env_ints en limits_after_device) (\<lambda>b.
     bindR (env_int en ''FILE_URL_TTL_HOURS'' 24 (Some 1)) (\<lambda>ttl.
       Inr (build_settings en ek a dev b ttl))))))"

text \<open>What every service may assume of the settings.\<close>

definition settings_ok :: "settings \<Rightarrow> bool" where
  "settings_ok st \<longleftrightarrow>
     1 \<le> access_token_minutes st \<and> 1 \<le> refresh_idle_days st \<and> 1 \<le> refresh_max_days st
   \<and> 0 \<le> refresh_reuse_grace_seconds st \<and> 1 \<le> max_sessions_per_user st
   \<and> 1 \<le> login_window_minutes st \<and> 1 \<le> login_max_failures_per_account st
   \<and> 1 \<le> login_max_failures_per_ip st \<and> 1 \<le> login_ip_flood_limit st
   \<and> 1 \<le> login_max_failures_per_account_device st
   \<and> 1 \<le> login_captcha_after_account_failures st \<and> 1 \<le> login_captcha_after_ip_failures st
   \<and> 30 \<le> captcha_ttl_seconds st \<and> 1 \<le> captcha_max_per_ip st
   \<and> 1 \<le> reset_code_ttl_minutes st \<and> 1 \<le> reset_code_max_attempts st
   \<and> 1 \<le> reset_max_wrong_codes_per_day st \<and> 1 \<le> reset_max_codes_per_account st
   \<and> 1 \<le> reset_max_requests_per_ip st \<and> 1 \<le> reset_window_minutes st \<and> 1 \<le> file_url_ttl_hours st"

lemma env_ints_bounds:
  "env_ints en specs = Inr vs \<Longrightarrow> list_all (\<lambda>(_, d, m). m \<le> d) specs \<Longrightarrow>
   list_all2 (\<lambda>(_, _, m) v. m \<le> v) specs vs"
proof (induction specs arbitrary: vs)
  case Nil
  then show ?case by simp
next
  case (Cons s rest)
  obtain n d m where s: "s = (n, d, m)" by (cases s)
  from Cons.prems(1) s obtain v vs' where "env_int en n d (Some m) = Inr v"
    and "env_ints en rest = Inr vs'" and "vs = v # vs'" by auto
  with Cons s show ?case by (auto dest: env_int_bound)
qed

lemma device_limit_bound: "load_device_limit en = Inr d \<Longrightarrow> 1 \<le> d"
  by (auto simp: load_device_limit_def dest!: env_int_bound)

lemma load_settings_bounds:
  assumes "load_settings en = Inr st"
  shows "settings_ok st"
proof -
  from assms obtain ek a dev b ttl where
    a: "env_ints en limits_before_device = Inr a" and d: "load_device_limit en = Inr dev"
    and b: "env_ints en limits_after_device = Inr b"
    and t: "env_int en ''FILE_URL_TTL_HOURS'' 24 (Some 1) = Inr ttl"
    and st: "st = build_settings en ek a dev b ttl"
    by (auto simp: load_settings_def)
  have A: "list_all2 (\<lambda>(_, _, m) v. m \<le> v) limits_before_device a"
    using env_ints_bounds [OF a] by (simp add: limits_before_device_def)
  have B: "list_all2 (\<lambda>(_, _, m) v. m \<le> v) limits_after_device b"
    using env_ints_bounds [OF b] by (simp add: limits_after_device_def)
  from A B device_limit_bound [OF d] env_int_bound [OF t] show ?thesis
    unfolding settings_ok_def st build_settings_def limits_before_device_def limits_after_device_def
    by (auto simp: list_all2_Cons1)
qed

lemma production_secret_strong:
  assumes "load_settings en = Inr st" and "app_env st = ''production''"
  shows "32 \<le> length (secret_key st) \<and> secret_key st \<notin> set known_weak_secrets"
  using assms
  by (auto simp: load_settings_def load_secret_def Let_def build_settings_def not_less
      split: if_splits)

text \<open>The settings of an environment that sets nothing but a development mode.\<close>

definition dev_environ :: environ where
  "dev_environ = [''APP_ENV'' \<mapsto> ''development'']"

definition default_settings :: settings where
  "default_settings = build_settings dev_environ
     (''development'', ''development-only-secret-key-not-for-production-use'')
     [15, 30, 180, 60, 10, 15, 10, 50, 500] 5 [3, 20, 300, 300, 15, 5, 20, 5, 100, 60] 24"

lemma load_default: "load_settings dev_environ = Inr default_settings"
  by (simp add: load_settings_def load_secret_def load_device_limit_def env_int_def env_str_def
      limits_before_device_def limits_after_device_def default_settings_def dev_environ_def
      py_lower_def py_strip_def py_isspace_def py_lower_char_def py_ord_def Let_def)

end
