(* ===== verification/Calendar.thy ===== *)
theory Calendar
  imports Prelude
begin

text \<open>
  Dates and times. A Python \<open>date\<close> is its proleptic ordinal (\<open>date.toordinal()\<close>: 1 is
  Monday 0001-01-01); a \<open>datetime\<close> is the number of microseconds since the midnight of
  ordinal 0. Naive UTC times and school-local times are both values of this type; the code
  never compares one with the other.
\<close>

type_synonym date = int
type_synonym datetime = int

definition us_per_second :: int where "us_per_second = 1000000"
definition us_per_minute :: int where "us_per_minute = 60000000"
definition us_per_hour :: int where "us_per_hour = 3600000000"
definition us_per_day :: int where "us_per_day = 86400000000"

lemmas us_defs = us_per_second_def us_per_minute_def us_per_hour_def us_per_day_def

text \<open>\<open>int(td.total_seconds())\<close> of a \<open>timedelta\<close>.\<close>

definition int_seconds :: "int \<Rightarrow> int" where
  "int_seconds us = trunc_div us us_per_second"

definition date_of :: "datetime \<Rightarrow> date" where
  "date_of t = t div us_per_day"

definition datetime_at :: "date \<Rightarrow> int \<Rightarrow> int \<Rightarrow> datetime" where
  "datetime_at d hours minutes = d * us_per_day + (hours * 60 + minutes) * us_per_minute"

text \<open>\<open>date.weekday()\<close>: Monday is 0.\<close>

definition weekday :: "date \<Rightarrow> int" where
  "weekday d = (d + 6) mod 7"

definition SUNDAY :: int where "SUNDAY = 6"

lemma weekday_range: "0 \<le> weekday d \<and> weekday d < 7"
  by (simp add: weekday_def)

lemma monday_of: "weekday (d - weekday d) = 0"
proof -
  have "d - (d + 6) mod 7 + 6 = 7 * ((d + 6) div 7)" using mult_div_mod_eq [of 7 "d + 6"] by linarith
  then show ?thesis by (simp add: weekday_def)
qed

lemma weekday_add7: "weekday (d + 7) = weekday d"
  unfolding weekday_def using mod_add_self2 [of "d + 6" 7] by (simp add: algebra_simps)

lemma date_of_at:
  assumes "0 \<le> h * 60 + m" and "h * 60 + m < 1440"
  shows "date_of (datetime_at d h m) = d"
proof -
  let ?r = "(h * 60 + m) * us_per_minute"
  have "0 \<le> ?r" and "?r < us_per_day"
    using assms by (auto simp: us_defs)
  then show ?thesis by (simp add: date_of_def datetime_at_def)
qed

subsection \<open>The civil calendar\<close>

text \<open>
  Year, month and day of an ordinal, by counting from 1 March of year 0 in 400-year eras.
\<close>

definition civil :: "date \<Rightarrow> int \<times> int \<times> int" where
  "civil d = (let z = d + 305; era = z div 146097; doe = z mod 146097;
      yoe = (doe - doe div 1460 + doe div 36524 - doe div 146096) div 365;
      doy = doe - (365 * yoe + yoe div 4 - yoe div 100);
      mp = (5 * doy + 2) div 153;
      day = doy - (153 * mp + 2) div 5 + 1;
      month = (if mp < 10 then mp + 3 else mp - 9)
    in (yoe + era * 400 + (if month \<le> 2 then 1 else 0), month, day))"

definition year_of :: "date \<Rightarrow> int" where "year_of d = fst (civil d)"
definition month_of :: "date \<Rightarrow> int" where "month_of d = fst (snd (civil d))"
definition day_of :: "date \<Rightarrow> int" where "day_of d = snd (snd (civil d))"

text \<open>\<open>date(y, m, d).toordinal()\<close>.\<close>

definition ordinal :: "int \<Rightarrow> int \<Rightarrow> int \<Rightarrow> date" where
  "ordinal y m d = (let y' = (if m \<le> 2 then y - 1 else y); mp = (if m > 2 then m - 3 else m + 9);
      doy = (153 * mp + 2) div 5 + d - 1
    in 365 * y' + y' div 4 - y' div 100 + y' div 400 + doy - 305)"

text \<open>The English abbreviations of \<open>%a\<close> and \<open>%b\<close>.\<close>

definition day_abbr :: "int \<Rightarrow> string" where
  "day_abbr w = [''Mon'', ''Tue'', ''Wed'', ''Thu'', ''Fri'', ''Sat'', ''Sun''] ! nat w"

definition month_abbr :: "int \<Rightarrow> string" where
  "month_abbr m = [''Jan'', ''Feb'', ''Mar'', ''Apr'', ''May'', ''Jun'', ''Jul'', ''Aug'', ''Sep'',
     ''Oct'', ''Nov'', ''Dec''] ! nat (m - 1)"

lemma ordinal_2026_05_12: "ordinal 2026 5 12 = 739748"
  by (simp add: ordinal_def)

lemma civil_739748: "civil 739748 = (2026, 5, 12)"
  by code_simp

end
