(* ===== verification/Tables.thy ===== *)
theory Tables
  imports Config Calendar
begin

text \<open>
  The database: one record per table row, one list per table, and the request's
  environment. A table is the list of its rows in primary-key (insertion) order. Columns no
  modelled operation reads or writes are left out.
\<close>

datatype user_type = Admin | Principal | SubAdmin | Coordinator | Driver | Teacher | Student

fun role_name :: "user_type \<Rightarrow> string" where
  "role_name Admin = ''admin''"
| "role_name Principal = ''principal''"
| "role_name SubAdmin = ''sub_admin''"
| "role_name Coordinator = ''coordinator''"
| "role_name Driver = ''driver''"
| "role_name Teacher = ''teacher''"
| "role_name Student = ''student''"

definition MANAGERS :: "user_type list" where
  "MANAGERS = [Admin, Principal, SubAdmin, Coordinator]"

definition STAFF :: "user_type list" where
  "STAFF = MANAGERS @ [Teacher]"

definition NON_STUDENT :: "user_type list" where
  "NON_STUDENT = STAFF @ [Driver]"

definition ADMIN_MANAGED :: "user_type list" where
  "ADMIN_MANAGED = [Admin, Principal, SubAdmin]"

definition is_manager :: "user_type \<Rightarrow> bool" where
  "is_manager r = (r \<in> set MANAGERS)"

lemma is_manager_simps [simp]:
  "is_manager Admin" "is_manager Principal" "is_manager SubAdmin" "is_manager Coordinator"
  "\<not> is_manager Driver" "\<not> is_manager Teacher" "\<not> is_manager Student"
  by (simp_all add: is_manager_def MANAGERS_def)

subsection \<open>Accounts and sign-in\<close>

record org_row =
  o_id :: int
  o_code :: string
  o_name :: string
  o_active :: bool

record user_row =
  u_id :: int
  u_org :: int
  u_username :: string
  u_password_hash :: string
  u_full_name :: string
  u_email :: "string option"
  u_phone :: "string option"
  u_photo :: "string option"
  u_type :: user_type
  u_active :: bool
  u_left_on :: "date option"
  u_left_reason :: "string option"
  u_token_version :: int
  u_must_change :: bool
  u_password_changed_at :: "datetime option"

record session_row =
  s_id :: string
  s_user :: int
  s_salt :: string
  s_generation :: int
  s_rotated_at :: "datetime option"
  s_created_at :: datetime
  s_last_used_at :: datetime
  s_expires_at :: datetime
  s_absolute_expires_at :: datetime
  s_revoked_at :: "datetime option"
  s_revoke_reason :: "string option"
  s_ip :: "string option"
  s_user_agent :: "string option"

record attempt_row =
  a_username :: string
  a_ip :: "string option"
  a_device :: "string option"
  a_success :: bool
  a_created_at :: datetime

record captcha_row =
  c_id :: string
  c_digest :: string
  c_ip :: "string option"
  c_created_at :: datetime
  c_expires_at :: datetime
  c_used_at :: "datetime option"

record reset_code_row =
  rc_id :: int
  rc_user :: int
  rc_hash :: string
  rc_attempts :: int
  rc_created_at :: datetime
  rc_expires_at :: datetime
  rc_used_at :: "datetime option"
  rc_ip :: "string option"

record reset_request_row =
  rr_login :: string
  rr_ip :: "string option"
  rr_created_at :: datetime

record audit_row =
  au_org :: "int option"
  au_actor :: "int option"
  au_action :: string
  au_entity_type :: "string option"
  au_entity_id :: "string option"
  au_details :: "(string \<times> string) list option"
  au_ip :: "string option"
  au_request_id :: "string option"

record device_row =
  d_user :: int
  d_token :: string
  d_platform :: string
  d_session :: "string option"

subsection \<open>The school\<close>

record class_row =
  cl_id :: int
  cl_org :: int
  cl_name :: string
  cl_fee :: "int option"

record section_row =
  se_id :: int
  se_org :: int
  se_class :: int
  se_name :: string

record teacher_profile_row =
  tp_user :: int
  tp_designation :: "string option"
  tp_subject :: "string option"
  tp_qualification :: "string option"
  tp_joining :: "date option"
  tp_address :: "string option"

text \<open>The subjects of a class, and who teaches where: as class teacher or for a subject.\<close>

record subject_row =
  cs_class :: int
  cs_name :: string

record assignment_row =
  ta_id :: int
  ta_org :: int
  ta_teacher :: int
  ta_class :: int
  ta_section :: int
  ta_class_teacher :: bool
  ta_subject :: "string option"

record student_profile_row =
  sp_user :: int
  sp_org :: int
  sp_class :: "int option"
  sp_section :: "int option"
  sp_last_class :: "int option"
  sp_last_section :: "int option"
  sp_roll :: "string option"
  sp_admission :: "string option"
  sp_dob :: "date option"
  sp_father :: "string option"
  sp_mother :: "string option"
  sp_guardian_phone :: "string option"
  sp_address :: "string option"

text \<open>A vehicle, its trips (migration 0012) and the students who ride. A TIME column of the transport tables is its seconds.\<close>

datatype vehicle_status = InService | Maintenance
datatype vehicle_type = Bus | Van | OtherVehicle
datatype trip_type = Pickup | Drop

record vehicle_row =
  v_id :: int
  v_org :: int
  v_no :: string
  v_driver_name :: string
  v_driver_phone :: "string option"
  v_route :: "string option"
  v_capacity :: "int option"
  v_status :: vehicle_status
  v_type :: vehicle_type
  v_driver :: "int option"
  v_shift_name :: "string option"
  v_shift_start :: "int option"
  v_shift_end :: "int option"

record shift_row =
  sf_id :: int
  sf_org :: int
  sf_vehicle :: int
  sf_name :: string
  sf_trip :: trip_type
  sf_start :: int
  sf_end :: int
  sf_weekdays :: "int list"
  sf_active :: bool

text \<open>Latitude and longitude are whole millionths of a degree.\<close>

record stop_row =
  so_shift :: int
  so_student :: int
  so_order :: int
  so_time :: "int option"
  so_name :: "string option"
  so_landmark :: "string option"
  so_latitude :: "int option"
  so_longitude :: "int option"
  so_notes :: "string option"

record ride_row =
  rd_student :: int
  rd_org :: int
  rd_vehicle :: int
  rd_stop :: "string option"
  rd_pickup :: "int option"
  rd_drop :: "int option"

text \<open>
  Exams, their question papers and marks: a DECIMAL(6,2) column is its hundredths. An exam without a class is for all
  of them; a mark with the empty subject is for the whole exam.
\<close>

record exam_row =
  e_id :: int
  e_org :: int
  e_name :: string
  e_class :: "int option"
  e_start :: date
  e_end :: date
  e_published :: bool
  e_max :: "int option"
  e_paper :: "string option"
  e_paper_name :: "string option"

record paper_row =
  pa_id :: int
  pa_exam :: int
  pa_class :: int
  pa_subject :: string
  pa_path :: string
  pa_name :: "string option"
  pa_by :: int

record result_row =
  er_exam :: int
  er_student :: int
  er_subject :: string
  er_marks :: "int option"
  er_max :: "int option"
  er_grade :: "string option"
  er_remarks :: "string option"

text \<open>Homework of a section, who has handed it in, lesson plans and the timetable and syllabus files.\<close>

record attached =
  af_path :: string
  af_name :: string
  af_pdf :: bool

record homework_row =
  hw_id :: int
  hw_org :: int
  hw_class :: int
  hw_section :: int
  hw_subject :: "string option"
  hw_title :: string
  hw_note :: "string option"
  hw_due :: "date option"
  hw_by :: int
  hw_created_at :: datetime
  hw_file :: "attached option"

datatype submission_status = SubPending | Submitted | SubLate

record submission_row =
  hs_homework :: int
  hs_student :: int
  hs_status :: submission_status
  hs_by :: int

record lesson_row =
  lp_id :: int
  lp_org :: int
  lp_teacher :: int
  lp_class :: int
  lp_section :: "int option"
  lp_heading :: string
  lp_from :: "date option"
  lp_to :: "date option"
  lp_remark :: "string option"
  lp_created_at :: datetime

record lesson_file_row =
  lf_id :: int
  lf_plan :: int
  lf_path :: string
  lf_name :: string
  lf_type :: string

record document_row =
  dc_org :: int
  dc_class :: "int option"
  dc_section :: "int option"

record slot_row =
  t_id :: int
  t_org :: int
  t_teacher :: int
  t_day :: int
  t_period :: int
  t_class :: int
  t_section :: int
  t_subject :: "string option"

record holiday_row =
  h_id :: int
  h_org :: int
  h_date :: date
  h_name :: string
  h_description :: "string option"
  h_created_by :: int

datatype leave_status = LPending | LApproved | LRejected | LCancelled

fun leave_status_name :: "leave_status \<Rightarrow> string" where
  "leave_status_name LPending = ''pending''"
| "leave_status_name LApproved = ''approved''"
| "leave_status_name LRejected = ''rejected''"
| "leave_status_name LCancelled = ''cancelled''"

record leave_row =
  l_id :: int
  l_org :: int
  l_user :: int
  l_from :: date
  l_to :: date
  l_reason :: string
  l_status :: leave_status
  l_reviewed_by :: "int option"
  l_reviewed_at :: "datetime option"
  l_review_note :: "string option"
  l_created_at :: datetime

datatype salary_status = SalPaid | SalPending

record salary_row =
  sa_id :: int
  sa_org :: int
  sa_user :: int
  sa_month :: int
  sa_year :: int
  sa_amount :: int
  sa_status :: salary_status
  sa_note :: "string option"
  sa_created_by :: int

text \<open>A day of a staff member: \<open>in_time\<close> and \<open>out_time\<close> as seconds of the school day.\<close>

record staff_day_row =
  sd_id :: int
  sd_org :: int
  sd_user :: int
  sd_date :: date
  sd_in :: "int option"
  sd_out :: "int option"

datatype attendance_status = Present | Absent | OnLeave | HalfDay

record attendance_row =
  at_org :: int
  at_student :: int
  at_section :: int
  at_date :: date
  at_status :: attendance_status
  at_marked_by :: int

text \<open>
  Money is counted in paise: the columns are \<open>DECIMAL(10,2)\<close> and the amounts of the requests
  are whole paise.
\<close>

datatype pay_method = Cash | Card | Upi | Netbanking | Wallet

fun pay_method_name :: "pay_method \<Rightarrow> string" where
  "pay_method_name Cash = ''cash''"
| "pay_method_name Card = ''card''"
| "pay_method_name Upi = ''upi''"
| "pay_method_name Netbanking = ''netbanking''"
| "pay_method_name Wallet = ''wallet''"

datatype fee_status = FeePending | FeePaid

record fee_row =
  f_id :: int
  f_org :: int
  f_student :: int
  f_title :: string
  f_amount :: int
  f_due :: "date option"
  f_status :: fee_status
  f_paid_date :: "date option"
  f_method :: "pay_method option"
  f_created_at :: datetime

datatype payment_status = PaySuccess | PayPending | PayFailed

record payment_row =
  py_id :: int
  py_org :: int
  py_reference :: string
  py_student :: "int option"
  py_fee :: "int option"
  py_amount :: int
  py_method :: pay_method
  py_status :: payment_status
  py_created_at :: datetime

datatype claim_status = ClaimPending | ClaimApproved | ClaimRejected

fun claim_status_name :: "claim_status \<Rightarrow> string" where
  "claim_status_name ClaimPending = ''pending''"
| "claim_status_name ClaimApproved = ''approved''"
| "claim_status_name ClaimRejected = ''rejected''"

record claim_row =
  fc_id :: int
  fc_org :: int
  fc_fee :: int
  fc_student :: int
  fc_amount :: "int option"
  fc_method :: pay_method
  fc_reference_no :: "string option"
  fc_note :: "string option"
  fc_screenshot :: string
  fc_screenshot_name :: "string option"
  fc_status :: claim_status
  fc_reviewed_by :: "int option"
  fc_reviewed_at :: "datetime option"
  fc_review_note :: "string option"
  fc_created_at :: datetime

record break_row =
  b_after :: int
  b_minutes :: int
  b_label :: "string option"

record timings_row =
  st_org :: int
  st_start :: int
  st_prayer :: int
  st_period :: int
  st_periods_per_day :: int
  st_breaks :: "break_row list"
  st_updated_by :: int

text \<open>The statuses of a substitution request and its row (migration 0007).\<close>

datatype sub_status = Pending | Accepted | Declined | Cancelled | Withdrawn | Filled

fun sub_status_name :: "sub_status \<Rightarrow> string" where
  "sub_status_name Pending = ''pending''"
| "sub_status_name Accepted = ''accepted''"
| "sub_status_name Declined = ''declined''"
| "sub_status_name Cancelled = ''cancelled''"
| "sub_status_name Withdrawn = ''withdrawn''"
| "sub_status_name Filled = ''filled''"

record sub_row =
  r_id :: int
  r_org :: int
  r_leave :: "int option"
  r_requester :: int
  r_substitute :: int
  r_date :: date
  r_period :: int
  r_slot :: "int option"
  r_class :: int
  r_section :: int
  r_subject :: "string option"
  r_status :: sub_status
  r_note :: "string option"
  r_response_note :: "string option"
  r_responded_at :: "datetime option"
  r_created_at :: datetime
  r_updated_at :: datetime

text \<open>The \<open>data\<close> of a notification: where tapping it goes.\<close>

record notice_data =
  nd_route :: string
  nd_tab :: "string option"
  nd_id :: "int option"
  nd_web_path :: "string option"

record notification_row =
  n_user :: int
  n_type :: string
  n_title :: string
  n_body :: "string option"
  n_data :: "notice_data option"

record email_row =
  m_to :: "string option"
  m_subject :: string
  m_text :: string
  m_html :: string

subsection \<open>The database and the request\<close>

record db =
  bound_org :: "int option"
  orgs :: "org_row list"
  next_org :: int
  next_user :: int
  calendar_events :: "(int \<times> string \<times> string) list"
  users :: "user_row list"
  sessions :: "session_row list"
  attempts :: "attempt_row list"
  captchas :: "captcha_row list"
  reset_codes :: "reset_code_row list"
  next_reset_code :: int
  reset_requests :: "reset_request_row list"
  audit :: "audit_row list"
  devices :: "device_row list"
  classes :: "class_row list"
  sections :: "section_row list"
  teacher_profiles :: "teacher_profile_row list"
  assignments :: "assignment_row list"
  student_profiles :: "student_profile_row list"
  slots :: "slot_row list"
  next_slot :: int
  holidays :: "holiday_row list"
  leaves :: "leave_row list"
  timings :: "timings_row list"
  sub_requests :: "sub_row list"
  next_sub :: int
  notifications :: "notification_row list"
  push_jobs :: "notification_row list list"
  reset_jobs :: "(int \<times> string \<times> string option \<times> datetime) list"
  mails :: "email_row list"
  next_holiday :: int
  next_leave :: int
  salaries :: "salary_row list"
  next_salary :: int
  staff_days :: "staff_day_row list"
  next_staff_day :: int
  attendance :: "attendance_row list"
  fees :: "fee_row list"
  next_fee :: int
  payments :: "payment_row list"
  next_payment :: int
  fee_claims :: "claim_row list"
  next_claim :: int
  vehicles :: "vehicle_row list"
  next_vehicle :: int
  shifts :: "shift_row list"
  next_shift :: int
  shift_students :: "stop_row list"
  bus_students :: "ride_row list"
  class_subjects :: "subject_row list"
  next_class :: int
  next_section :: int
  next_assignment :: int
  exams :: "exam_row list"
  next_exam :: int
  exam_papers :: "paper_row list"
  next_paper :: int
  exam_results :: "result_row list"
  class_homework :: "homework_row list"
  next_homework :: int
  submissions :: "submission_row list"
  lesson_plans :: "lesson_row list"
  next_plan :: int
  lesson_files :: "lesson_file_row list"
  next_lesson_file :: int
  documents :: "document_row list"
  dropped_files :: "string list"

text \<open>
  The cryptographic functions the code takes from \<open>hmac\<close>, \<open>hashlib\<close>, \<open>argon2\<close> and \<open>jwt\<close>. They
  are parameters of the model: \<open>hmac_sha256 key message\<close> gives the 32 bytes of the MAC,
  \<open>argon2_hash\<close> the hash made with the salt drawn for this request, \<open>jwt_encode key claims\<close>
  the signed token and \<open>jwt_decode key now token\<close> what the library makes of a token at a
  second of the clock.
\<close>

datatype json_value = JNull | JBool bool | JInt int | JStr string | JOther

text \<open>The claims of an access token, as \<open>jwt.decode\<close> returns them.\<close>

record jwt_payload =
  p_typ :: json_value
  p_sub :: json_value
  p_sid :: json_value
  p_ver :: json_value
  p_role :: json_value
  p_org :: json_value
  p_iat :: int
  p_exp :: int

datatype jwt_result = JwtExpired | JwtInvalid | JwtPayload jwt_payload

record crypto =
  hmac_sha256 :: "string \<Rightarrow> string \<Rightarrow> string"
  sha256_hex :: "string \<Rightarrow> string"
  argon2_hash :: "string \<Rightarrow> string"
  argon2_verify :: "string \<Rightarrow> string \<Rightarrow> bool"
  argon2_needs_rehash :: "string \<Rightarrow> bool"
  jwt_encode :: "string \<Rightarrow> jwt_payload \<Rightarrow> string"
  jwt_decode :: "string \<Rightarrow> int \<Rightarrow> string \<Rightarrow> jwt_result"

text \<open>
  The context of one request: settings, the clocks (read once per request), the context
  variables of \<^verbatim>\<open>app/core/context.py\<close>, the database collation as the sort key two strings
  must share to compare equal, and the cryptographic functions.
\<close>

record ctx =
  conf :: settings
  utcnow :: datetime
  school_now :: datetime
  client_ip :: "string option"
  user_agent :: "string option"
  device_id :: "string option"
  request_id :: "string option"
  collation :: "string \<Rightarrow> string"
  prims :: crypto

definition school_today :: "ctx \<Rightarrow> date" where
  "school_today c = date_of (school_now c)"

text \<open>\<open>NOW()\<close> and \<open>CURRENT_TIMESTAMP\<close>: the school's clock in whole seconds.\<close>

definition mysql_now :: "ctx \<Rightarrow> datetime" where
  "mysql_now c = school_now c div us_per_second * us_per_second"

definition sql_eq :: "ctx \<Rightarrow> string \<Rightarrow> string \<Rightarrow> bool" where
  "sql_eq c a b = (collation c a = collation c b)"

lemma sql_eq_refl [simp]: "sql_eq c a a"
  by (simp add: sql_eq_def)

lemma sql_eq_sym: "sql_eq c a b = sql_eq c b a"
  by (auto simp: sql_eq_def)

lemma sql_eq_trans: "sql_eq c a b \<Longrightarrow> sql_eq c b d \<Longrightarrow> sql_eq c a d"
  by (simp add: sql_eq_def)

text \<open>A request handler: the database before, the outcome and the database after.\<close>

type_synonym 'a handler = "db \<Rightarrow> 'a res \<times> db"

text \<open>\<open>with db.transaction():\<close> \<dots> an exception leaves the database as it was at the start.\<close>

definition transaction :: "'a handler \<Rightarrow> 'a handler" where
  "transaction body s = (case body s of (Inl e, _) \<Rightarrow> (Inl e, s) | (Inr x, s') \<Rightarrow> (Inr x, s'))"

lemma transaction_error: "transaction body s = (Inl e, s') \<Longrightarrow> s' = s"
  by (auto simp: transaction_def split: prod.splits sum.splits)

lemma transaction_Inr: "transaction body s = (Inr x, s') \<longleftrightarrow> body s = (Inr x, s')"
  by (auto simp: transaction_def split: prod.splits sum.splits)

lemma transaction_Inl: "transaction body s = (Inl e, s') \<longleftrightarrow> (\<exists>s''. body s = (Inl e, s'')) \<and> s' = s"
  by (auto simp: transaction_def split: prod.splits sum.splits)

text \<open>\<open>db.org\<close>, \<open>db.has_org\<close> and \<open>db.bind_org\<close> of \<^verbatim>\<open>app/db/session.py\<close>.\<close>

definition org_of :: "db \<Rightarrow> int res" where
  "org_of s = (case bound_org s of
     None \<Rightarrow> Inl (RuntimeError ''No organisation bound to this database session'')
   | Some g \<Rightarrow> Inr g)"

definition bind_org :: "int \<Rightarrow> unit handler" where
  "bind_org g s = (case bound_org s of
     Some g' \<Rightarrow> if g' \<noteq> g
        then (Inl (RuntimeError ''This database session already belongs to another organisation''), s)
        else (Inr (), s)
   | None \<Rightarrow> (Inr (), s\<lparr>bound_org := Some g\<rparr>))"

lemma bind_org_stable: "bind_org g s = (Inr (), s') \<Longrightarrow> bound_org s' = Some g"
  by (auto simp: bind_org_def split: option.splits if_splits)

text \<open>The signed-in caller (\<open>CurrentUser\<close>).\<close>

record current_user =
  cu_id :: int
  cu_username :: string
  cu_full_name :: string
  cu_email :: "string option"
  cu_phone :: "string option"
  cu_type :: user_type
  cu_active :: bool
  cu_session :: string
  cu_must_change :: bool
  cu_org :: int
  cu_org_code :: string
  cu_org_name :: string

text \<open>The database of a fresh installation: no school, no user.\<close>

definition empty_db :: db where
  "empty_db = \<lparr>bound_org = None, orgs = [], next_org = 1, next_user = 1, calendar_events = [], users = [],
     sessions = [], attempts = [], captchas = [], reset_codes = [], next_reset_code = 1,
     reset_requests = [], audit = [], devices = [], classes = [], sections = [], teacher_profiles = [],
     assignments = [], student_profiles = [], slots = [], next_slot = 1, holidays = [], leaves = [],
     timings = [], sub_requests = [], next_sub = 1, notifications = [], push_jobs = [],
     reset_jobs = [], mails = [], next_holiday = 1, next_leave = 1, salaries = [], next_salary = 1,
     staff_days = [], next_staff_day = 1, attendance = [], fees = [], next_fee = 1, payments = [],
     next_payment = 1, fee_claims = [], next_claim = 1,
     vehicles = [], next_vehicle = 1, shifts = [], next_shift = 1, shift_students = [], bus_students = [],
     class_subjects = [], next_class = 1, next_section = 1, next_assignment = 1, exams = [], next_exam = 1, exam_papers = [],
     next_paper = 1, exam_results = [], class_homework = [], next_homework = 1, submissions = [], lesson_plans = [], next_plan = 1,
     lesson_files = [], next_lesson_file = 1, documents = [], dropped_files = []\<rparr>"

text \<open>\<open>audit.record\<close>: a row written inside the caller's transaction.\<close>

definition audit_record ::
  "ctx \<Rightarrow> int option \<Rightarrow> string \<Rightarrow> string option \<Rightarrow> string option \<Rightarrow> (string \<times> string) list \<Rightarrow> db \<Rightarrow> db" where
  "audit_record c actor action etype eid details s = s\<lparr>audit := audit s @ [\<lparr>
     au_org = bound_org s, au_actor = actor, au_action = action, au_entity_type = etype,
     au_entity_id = eid, au_details = (if details = [] then None else Some details),
     au_ip = client_ip c, au_request_id = request_id c\<rparr>]\<rparr>"

subsection \<open>Row stores\<close>

text \<open>
  The contract of a table keyed by a column, as the services use it: a lookup by key, a
  rewrite of the rows a condition selects and a deletion. The interpretations below are
  the tables of the model.
\<close>

locale keyed_rows =
  fixes key :: "'row \<Rightarrow> 'k"
    and rows :: "'s \<Rightarrow> 'row list"
    and set_rows :: "'row list \<Rightarrow> 's \<Rightarrow> 's"
  assumes rows_set: "rows (set_rows rs s) = rs"
    and set_set: "set_rows rs (set_rows rs' s) = set_rows rs s"
    and set_same: "set_rows (rows s) s = s"
begin

definition keys_unique :: "'s \<Rightarrow> bool" where
  "keys_unique s = distinct (map key (rows s))"

definition lookup :: "'k \<Rightarrow> 's \<Rightarrow> 'row option" where
  "lookup k s = one_where (\<lambda>x. key x = k) (rows s)"

definition rewrite :: "('row \<Rightarrow> bool) \<Rightarrow> ('row \<Rightarrow> 'row) \<Rightarrow> 's \<Rightarrow> 's" where
  "rewrite P f s = set_rows (update_where P f (rows s)) s"

definition append :: "'row \<Rightarrow> 's \<Rightarrow> 's" where
  "append x s = set_rows (rows s @ [x]) s"

definition delete :: "('row \<Rightarrow> bool) \<Rightarrow> 's \<Rightarrow> 's" where
  "delete P s = set_rows (delete_where P (rows s)) s"

lemma lookup_in: "lookup k s = Some x \<Longrightarrow> x \<in> set (rows s) \<and> key x = k"
  unfolding lookup_def by (rule one_where_Some)

lemma unique_row:
  "keys_unique s \<Longrightarrow> x \<in> set (rows s) \<Longrightarrow> y \<in> set (rows s) \<Longrightarrow> key x = key y \<Longrightarrow> x = y"
  by (auto simp: keys_unique_def distinct_map dest: inj_onD)

lemma lookup_unique:
  assumes "keys_unique s" and "x \<in> set (rows s)"
  shows "lookup (key x) s = Some x"
proof (cases "lookup (key x) s")
  case None
  with assms(2) show ?thesis by (auto simp: lookup_def one_where_None)
next
  case (Some y)
  with assms unique_row [of s y x] show ?thesis by (auto dest: lookup_in)
qed

lemma keys_unique_rewrite:
  "(\<And>x. key (f x) = key x) \<Longrightarrow> keys_unique s \<Longrightarrow> keys_unique (rewrite P f s)"
  by (simp add: keys_unique_def rewrite_def rows_set map_update_where_key)

lemma keys_unique_append: "keys_unique s \<Longrightarrow> lookup (key x) s = None \<Longrightarrow> keys_unique (append x s)"
  by (auto simp: keys_unique_def append_def rows_set lookup_def one_where_None)

lemma keys_unique_delete: "keys_unique s \<Longrightarrow> keys_unique (delete P s)"
  by (simp add: keys_unique_def delete_def rows_set distinct_map_delete_where)

lemma lookup_append_new: "lookup (key x) s = None \<Longrightarrow> lookup (key x) (append x s) = Some x"
proof -
  have "find P xs = None \<Longrightarrow> P x \<Longrightarrow> find P (xs @ [x]) = Some x" for P xs
    by (induction xs) (auto split: if_splits)
  then show "lookup (key x) s = None \<Longrightarrow> lookup (key x) (append x s) = Some x"
    by (simp add: lookup_def append_def rows_set one_where_def)
qed

lemma lookup_rewrite:
  assumes "\<And>x. key (f x) = key x"
  shows "lookup k (rewrite P f s) = map_option (\<lambda>x. if P x then f x else x) (lookup k s)"
proof -
  have "find (\<lambda>x. key x = k) (update_where P f xs)
      = map_option (\<lambda>x. if P x then f x else x) (find (\<lambda>x. key x = k) xs)" for xs
    using assms by (induction xs) (auto simp: update_where_def)
  then show ?thesis by (simp add: lookup_def rewrite_def rows_set one_where_def)
qed

end

interpretation sess: keyed_rows "\<lambda>r. collation c (s_id r)" sessions "\<lambda>rs. sessions_update (\<lambda>_. rs)"
  for c :: ctx
  by unfold_locales simp_all

interpretation subs: keyed_rows r_id sub_requests "\<lambda>rs. sub_requests_update (\<lambda>_. rs)"
  by unfold_locales simp_all

interpretation usrs: keyed_rows u_id users "\<lambda>rs. users_update (\<lambda>_. rs)"
  by unfold_locales simp_all

interpretation caps: keyed_rows "\<lambda>r. collation c (c_id r)" captchas "\<lambda>rs. captchas_update (\<lambda>_. rs)"
  for c :: ctx
  by unfold_locales simp_all

interpretation lvs: keyed_rows l_id leaves "\<lambda>rs. leaves_update (\<lambda>_. rs)"
  by unfold_locales simp_all

interpretation fes: keyed_rows f_id fees "\<lambda>rs. fees_update (\<lambda>_. rs)"
  by unfold_locales simp_all

interpretation clms: keyed_rows fc_id fee_claims "\<lambda>rs. fee_claims_update (\<lambda>_. rs)"
  by unfold_locales simp_all

interpretation codes: keyed_rows rc_id reset_codes "\<lambda>rs. reset_codes_update (\<lambda>_. rs)"
  by unfold_locales simp_all

end
