(* ===== verification/Security.thy ===== *)
theory Security
  imports Tables
begin

text \<open>
  The primitives of \<^verbatim>\<open>app/core/security.py\<close> and \<^verbatim>\<open>app/core/file_urls.py\<close>: passwords, access
  tokens, the refresh-token encoding, reset codes and signed file links. Keys are derived
  from the secret per purpose; HMAC, SHA-256, Argon2 and JWT are the parameters of \<open>crypto\<close>.
\<close>

definition JWT_ISSUER :: string where "JWT_ISSUER = ''school-api''"
definition CLOCK_SKEW_SECONDS :: int where "CLOCK_SKEW_SECONDS = 30"

definition derive_key :: "ctx \<Rightarrow> string \<Rightarrow> string" where
  "derive_key c purpose = hmac_sha256 (prims c) (secret_key (conf c)) (''school-api:'' @ purpose)"

definition b64_char :: "nat \<Rightarrow> char" where
  "b64_char n = (if n < 26 then char_of (65 + n) else if n < 52 then char_of (71 + n)
     else if n < 62 then char_of (n - 4) else if n = 62 then CHR ''-'' else CHR ''_'')"

text \<open>\<open>_b64\<close>: URL-safe base 64 without the padding.\<close>

fun b64 :: "string \<Rightarrow> string" where
  "b64 [] = []"
| "b64 [a] = [b64_char (py_ord a div 4), b64_char (py_ord a mod 4 * 16)]"
| "b64 [a, b] = [b64_char (py_ord a div 4), b64_char (py_ord a mod 4 * 16 + py_ord b div 16),
     b64_char (py_ord b mod 16 * 4)]"
| "b64 (a # b # d # r) = b64_char (py_ord a div 4) # b64_char (py_ord a mod 4 * 16 + py_ord b div 16)
     # b64_char (py_ord b mod 16 * 4 + py_ord d div 64) # b64_char (py_ord d mod 64) # b64 r"

definition is_ascii :: "string \<Rightarrow> bool" where
  "is_ascii s = list_all (\<lambda>c. py_ord c < 128) s"

text \<open>\<open>hmac.compare_digest\<close> on two \<open>str\<close>: a non-ASCII argument is a \<open>TypeError\<close>.\<close>

definition compare_digest :: "string \<Rightarrow> string \<Rightarrow> bool res" where
  "compare_digest a b = (if is_ascii a \<and> is_ascii b then Inr (a = b) else Inl TypeError)"

lemma py_ord_b64_char:
  assumes "n < 64"
  shows "py_ord (b64_char n) < 128 \<and> py_ord (b64_char n) \<noteq> 46"
proof -
  have "py_ord (CHR ''-'') = 45" and "py_ord (CHR ''_'') = 95"
    by (simp_all add: py_ord_def)
  with assms show ?thesis by (auto simp: b64_char_def)
qed

definition b64_alphabet :: "char \<Rightarrow> bool" where
  "b64_alphabet c = (\<exists>n < 64. c = b64_char n)"

lemma b64_alphabet_char: "n < 64 \<Longrightarrow> b64_alphabet (b64_char n)"
  by (auto simp: b64_alphabet_def)

lemma b64_alphabet_props:
  assumes "b64_alphabet c"
  shows "py_ord c < 128 \<and> c \<noteq> CHR ''.''"
proof -
  have "py_ord (CHR ''.'') = 46" by (simp add: py_ord_def)
  with assms show ?thesis by (auto simp: b64_alphabet_def dest: py_ord_b64_char)
qed

lemma b64_bounds:
  "py_ord a div 4 < 64"
  "py_ord a mod 4 * 16 + py_ord b div 16 < 64"
  "py_ord a mod 4 * 16 < 64"
  "py_ord b mod 16 * 4 + py_ord d div 64 < 64"
  "py_ord b mod 16 * 4 < 64"
proof -
  have lt: "py_ord x div 4 < 64" "py_ord x div 16 < 16" "py_ord x div 64 < 4" for x
    using py_ord_less_256 [of x] by (simp_all only: less_mult_imp_div_less)
  have md: "py_ord x mod 4 < 4" "py_ord x mod 16 < 16" for x by simp_all
  show "py_ord a div 4 < 64" by (rule lt)
  show "py_ord a mod 4 * 16 + py_ord b div 16 < 64" using md(1) [of a] lt(2) [of b] by linarith
  show "py_ord a mod 4 * 16 < 64" using md(1) [of a] by linarith
  show "py_ord b mod 16 * 4 + py_ord d div 64 < 64" using md(2) [of b] lt(3) [of d] by linarith
  show "py_ord b mod 16 * 4 < 64" using md(2) [of b] by linarith
qed

lemma b64_in_alphabet: "list_all b64_alphabet (b64 s)"
  by (induction s rule: b64.induct)
    (simp_all only: b64.simps list.pred_inject b64_alphabet_char b64_bounds simp_thms)

lemma b64_no_dot: "CHR ''.'' \<notin> set (b64 s)"
  using b64_in_alphabet [of s] b64_alphabet_props by (auto simp: list_all_iff)

lemma b64_ascii: "is_ascii (b64 s)"
  using b64_in_alphabet [of s] b64_alphabet_props by (auto simp: list_all_iff is_ascii_def)

lemma length_b64: "length (b64 s) = (4 * length s + 2) div 3"
proof (induction s rule: b64.induct)
  case (4 a b d r)
  have "(4 * (n + 3) + 2) div 3 = (4 * n + 2) div 3 + (4 :: nat)" for n by presburger
  from this [of "length r"] 4 show ?case by simp
qed simp_all

subsection \<open>Passwords\<close>

definition argon2_prefix :: string where "argon2_prefix = ''$argon2''"

definition hash_password :: "ctx \<Rightarrow> string \<Rightarrow> string" where
  "hash_password c pw = argon2_hash (prims c) pw"

definition verify_legacy_sha256 :: "ctx \<Rightarrow> string \<Rightarrow> string \<Rightarrow> bool res" where
  "verify_legacy_sha256 c pw stored = (case py_partition (CHR ''$'') stored of (salt, sep, _) \<Rightarrow>
     if \<not> sep then Inr False
     else compare_digest (salt @ ''$'' @ sha256_hex (prims c) (salt @ '':'' @ pw)) stored)"

text \<open>\<open>verify_password\<close>: whether the password matches and whether its hash should be replaced.\<close>

definition verify_password :: "ctx \<Rightarrow> string \<Rightarrow> string \<Rightarrow> (bool \<times> bool) res" where
  "verify_password c pw stored =
     (if is_prefix argon2_prefix stored then
        (if argon2_verify (prims c) stored pw then Inr (True, argon2_needs_rehash (prims c) stored)
         else Inr (False, False))
      else bindR (verify_legacy_sha256 c pw stored) (\<lambda>m. Inr (m, True)))"

text \<open>What the Argon2 library documents: a fresh hash has its prefix and verifies.\<close>

definition argon2_ok :: "crypto \<Rightarrow> bool" where
  "argon2_ok cr \<longleftrightarrow> (\<forall>pw. is_prefix argon2_prefix (argon2_hash cr pw)
     \<and> (\<forall>pw'. argon2_verify cr (argon2_hash cr pw) pw' \<longleftrightarrow> pw' = pw))"

lemma verify_fresh_hash:
  assumes "argon2_ok (prims c)"
  shows "\<exists>r. verify_password c pw' (hash_password c pw) = Inr (pw' = pw, r)"
  using assms by (auto simp: verify_password_def hash_password_def argon2_ok_def)

subsection \<open>Access tokens\<close>

record access_claims =
  ac_user_id :: int
  ac_session_id :: string
  ac_token_version :: int
  ac_role :: string
  ac_org_id :: "int option"

definition epoch_day :: date where "epoch_day = 719163"

text \<open>\<open>time.time()\<close> of a UTC clock reading, in microseconds since 1970.\<close>

definition unix_us :: "datetime \<Rightarrow> int" where
  "unix_us t = t - epoch_day * us_per_day"

definition unix_seconds :: "datetime \<Rightarrow> int" where
  "unix_seconds t = int_seconds (unix_us t)"

definition create_access_token ::
  "ctx \<Rightarrow> int \<Rightarrow> string \<Rightarrow> string \<Rightarrow> int \<Rightarrow> int option \<Rightarrow> string \<times> int" where
  "create_access_token c user_id role session_id token_version org_id =
     (let lifetime = access_token_minutes (conf c) * 60; now = unix_seconds (utcnow c);
          payload = \<lparr>p_typ = JStr ''access'', p_sub = JStr (py_str_int user_id), p_sid = JStr session_id,
            p_ver = JInt token_version, p_role = JStr role,
            p_org = (case org_id of None \<Rightarrow> JNull | Some g \<Rightarrow> JInt g),
            p_iat = now, p_exp = now + lifetime\<rparr>
      in (jwt_encode (prims c) (derive_key c ''access-token'') payload, lifetime))"

text \<open>\<open>int(value)\<close> and \<open>str(value)\<close> of a JSON value; \<open>None\<close> is \<open>TypeError\<close> or \<open>ValueError\<close>.\<close>

fun json_int :: "json_value \<Rightarrow> int option" where
  "json_int (JInt n) = Some n"
| "json_int (JStr s) = py_int s"
| "json_int (JBool b) = Some (if b then 1 else 0)"
| "json_int _ = None"

fun json_str :: "json_value \<Rightarrow> string" where
  "json_str (JStr s) = s"
| "json_str (JInt n) = py_str_int n"
| "json_str (JBool b) = (if b then ''True'' else ''False'')"
| "json_str JNull = ''None''"
| "json_str JOther = ''{}''"

datatype token_error = TokenExpired | TokenInvalid

definition decode_access_token :: "ctx \<Rightarrow> string \<Rightarrow> token_error + access_claims" where
  "decode_access_token c token =
     (case jwt_decode (prims c) (derive_key c ''access-token'') (unix_seconds (utcnow c)) token of
        JwtExpired \<Rightarrow> Inl TokenExpired
      | JwtInvalid \<Rightarrow> Inl TokenInvalid
      | JwtPayload p \<Rightarrow>
          if p_typ p \<noteq> JStr ''access'' then Inl TokenInvalid
          else (case (json_int (p_sub p), json_int (p_ver p),
                      if p_org p = JNull then Some None else map_option Some (json_int (p_org p))) of
                  (Some u, Some v, Some g) \<Rightarrow>
                    Inr \<lparr>ac_user_id = u, ac_session_id = json_str (p_sid p), ac_token_version = v,
                         ac_role = json_str (p_role p), ac_org_id = g\<rparr>
                | _ \<Rightarrow> Inl TokenInvalid))"

text \<open>
  What PyJWT documents: a token made with the same key decodes to its claims until its
  expiry plus the leeway, and is expired after that.
\<close>

definition jwt_ok :: "crypto \<Rightarrow> bool" where
  "jwt_ok cr \<longleftrightarrow> (\<forall>key now p. jwt_decode cr key now (jwt_encode cr key p)
     = (if p_exp p \<le> now - CLOCK_SKEW_SECONDS then JwtExpired else JwtPayload p))"

lemma py_int_str_int: "0 \<le> i \<Longrightarrow> py_int (py_str_int i) = Some i"
  by (simp add: py_str_int_def py_int_nat_digits)

lemma decode_created:
  assumes "jwt_ok (prims c)" and "0 \<le> uid"
    and keys: "prims c' = prims c" "secret_key (conf c') = secret_key (conf c)"
  shows "decode_access_token c' (fst (create_access_token c uid role sid ver org))
    = (if unix_seconds (utcnow c) + access_token_minutes (conf c) * 60
          \<le> unix_seconds (utcnow c') - CLOCK_SKEW_SECONDS then Inl TokenExpired
       else Inr \<lparr>ac_user_id = uid, ac_session_id = sid, ac_token_version = ver, ac_role = role,
                 ac_org_id = org\<rparr>)"
proof -
  have key: "derive_key c' p = derive_key c p" for p
    by (simp add: derive_key_def keys)
  show ?thesis
    using assms(1,2) keys
    by (auto simp: decode_access_token_def create_access_token_def Let_def jwt_ok_def key
        py_int_str_int split: option.splits)
qed

subsection \<open>Refresh tokens\<close>

definition REFRESH_PREFIX :: string where "REFRESH_PREFIX = ''rt1''"

definition refresh_mac :: "ctx \<Rightarrow> string \<Rightarrow> int \<Rightarrow> string \<Rightarrow> string" where
  "refresh_mac c session_id generation salt =
     b64 (hmac_sha256 (prims c) (derive_key c ''refresh-token'')
            (session_id @ ''.'' @ py_str_int generation @ ''.'' @ salt))"

definition build_refresh_token :: "ctx \<Rightarrow> string \<Rightarrow> int \<Rightarrow> string \<Rightarrow> string" where
  "build_refresh_token c session_id generation salt =
     REFRESH_PREFIX @ ''.'' @ session_id @ ''.'' @ py_str_int generation @ ''.''
       @ refresh_mac c session_id generation salt"

record refresh_parts =
  rp_session_id :: string
  rp_generation :: int
  rp_mac :: string

definition parts_match :: "ctx \<Rightarrow> refresh_parts \<Rightarrow> string \<Rightarrow> bool res" where
  "parts_match c p salt = compare_digest (rp_mac p) (refresh_mac c (rp_session_id p) (rp_generation p) salt)"

text \<open>
  \<open>parse_refresh_token\<close>. The generation is checked with \<open>isdigit\<close> and then converted with
  \<open>int\<close>, which raises on a superscript digit.
\<close>

definition parse_refresh_token :: "string option \<Rightarrow> refresh_parts option res" where
  "parse_refresh_token token =
     (case token of None \<Rightarrow> Inr None
      | Some t \<Rightarrow>
          if t = [] \<or> 200 < length t then Inr None
          else (case py_split (CHR ''.'') t of
                  [prefix, session_id, generation, mac] \<Rightarrow>
                    if prefix \<noteq> REFRESH_PREFIX then Inr None
                    else if length session_id \<noteq> 32 \<or> \<not> py_isdigit generation then Inr None
                    else (case py_int generation of
                            None \<Rightarrow> Inl ValueError
                          | Some g \<Rightarrow> Inr (Some \<lparr>rp_session_id = session_id, rp_generation = g,
                                                 rp_mac = mac\<rparr>))
                | _ \<Rightarrow> Inr None))"

text \<open>What \<open>hashlib\<close> documents of HMAC-SHA-256: 32 bytes.\<close>

definition hmac_ok :: "crypto \<Rightarrow> bool" where
  "hmac_ok cr \<longleftrightarrow> (\<forall>k m. length (hmac_sha256 cr k m) = 32)"

lemma length_refresh_mac: "hmac_ok (prims c) \<Longrightarrow> length (refresh_mac c sid g salt) = 43"
  by (simp add: refresh_mac_def length_b64 hmac_ok_def)

lemma refresh_mac_no_dot: "CHR ''.'' \<notin> set (refresh_mac c sid g salt)"
  by (simp add: refresh_mac_def b64_no_dot)

lemma py_split_four:
  assumes "d \<notin> set p" and "d \<notin> set q" and "d \<notin> set r" and "d \<notin> set t"
  shows "py_split d (p @ d # q @ d # r @ d # t) = [p, q, r, t]"
  using assms by (simp add: py_split_sep py_split_no_sep)

lemma parse_build:
  assumes "hmac_ok (prims c)" and "length sid = 32" and "CHR ''.'' \<notin> set sid"
    and "0 \<le> g" and "length (py_str_int g) \<le> 119"
  shows "parse_refresh_token (Some (build_refresh_token c sid g salt))
    = Inr (Some \<lparr>rp_session_id = sid, rp_generation = g, rp_mac = refresh_mac c sid g salt\<rparr>)"
proof -
  have gen: "py_str_int g = nat_digits (nat g)"
    using assms(4) by (simp add: py_str_int_def)
  have "CHR ''.'' \<notin> set REFRESH_PREFIX" by (simp add: REFRESH_PREFIX_def)
  then have "py_split (CHR ''.'') (build_refresh_token c sid g salt)
      = [REFRESH_PREFIX, sid, nat_digits (nat g), refresh_mac c sid g salt]"
    using assms(3) by (simp add: build_refresh_token_def gen py_split_four nat_digits_no_dot
        refresh_mac_no_dot)
  moreover have "build_refresh_token c sid g salt \<noteq> []"
    and "length (build_refresh_token c sid g salt) \<le> 200"
    using assms by (auto simp: build_refresh_token_def REFRESH_PREFIX_def length_refresh_mac)
  ultimately show ?thesis
    using assms(2,4) by (simp add: parse_refresh_token_def py_isdigit_nat_digits py_int_nat_digits)
qed

lemma built_parts_match:
  "parts_match c \<lparr>rp_session_id = sid, rp_generation = g, rp_mac = refresh_mac c sid g salt\<rparr> salt = Inr True"
  by (simp add: parts_match_def compare_digest_def refresh_mac_def b64_ascii)

lemma parse_refresh_generation_nonneg:
  assumes "parse_refresh_token tok = Inr (Some p)"
  shows "length (rp_session_id p) = 32 \<and> 0 \<le> rp_generation p"
  using assms
  by (auto simp: parse_refresh_token_def py_isdigit_int_nonneg split: option.splits if_splits list.splits)

subsection \<open>Password-reset codes\<close>

definition RESET_CODE_DIGITS :: nat where "RESET_CODE_DIGITS = 6"

text \<open>\<open>new_reset_code\<close> for the number \<open>secrets.randbelow(10 ** 6)\<close> drew.\<close>

definition new_reset_code :: "int \<Rightarrow> string" where
  "new_reset_code drawn = fmt0 RESET_CODE_DIGITS drawn"

definition hex_digit :: "nat \<Rightarrow> char" where
  "hex_digit n = (if n < 10 then char_of (48 + n) else char_of (87 + n))"

definition hexdigest :: "string \<Rightarrow> string" where
  "hexdigest bs = concat (map (\<lambda>b. [hex_digit (py_ord b div 16), hex_digit (py_ord b mod 16)]) bs)"

definition reset_code_digest :: "ctx \<Rightarrow> int \<Rightarrow> string \<Rightarrow> string" where
  "reset_code_digest c user_id code =
     hexdigest (hmac_sha256 (prims c) (derive_key c ''password-reset-code'')
                  (py_str_int user_id @ '':'' @ code))"

definition reset_code_matches :: "ctx \<Rightarrow> int \<Rightarrow> string \<Rightarrow> string \<Rightarrow> bool res" where
  "reset_code_matches c user_id code stored = compare_digest (reset_code_digest c user_id code) stored"

lemma hexdigest_ascii: "is_ascii (hexdigest bs)"
proof -
  have "n < 16 \<Longrightarrow> py_ord (hex_digit n) < 128" for n
    by (simp add: hex_digit_def)
  moreover have "py_ord b div 16 < 16" for b
    using py_ord_less_256 [of b] by (simp only: less_mult_imp_div_less)
  ultimately show ?thesis by (auto simp: is_ascii_def hexdigest_def list_all_iff)
qed

lemma reset_code_self: "reset_code_matches c u code (reset_code_digest c u code) = Inr True"
  by (simp add: reset_code_matches_def compare_digest_def reset_code_digest_def hexdigest_ascii)

subsection \<open>Signed file links\<close>

definition sign_file_path :: "ctx \<Rightarrow> string \<Rightarrow> int \<Rightarrow> string" where
  "sign_file_path c path expires_at =
     b64 (take 16 (hmac_sha256 (prims c) (derive_key c ''file-url'') (path @ '':'' @ py_str_int expires_at)))"

definition verify_file_signature :: "ctx \<Rightarrow> string \<Rightarrow> int \<Rightarrow> string \<Rightarrow> bool res" where
  "verify_file_signature c path expires_at signature =
     (if expires_at * us_per_second < unix_us (utcnow c) then Inr False
      else compare_digest (sign_file_path c path expires_at) signature)"

text \<open>\<open>_expiry\<close>: links issued inside one time bucket share their expiry.\<close>

definition link_expiry :: "ctx \<Rightarrow> int" where
  "link_expiry c = (let ttl = file_url_ttl_hours (conf c) * 3600; bucket = max (ttl div 2) 60;
      now = unix_seconds (utcnow c) in (now div bucket) * bucket + bucket + ttl)"

lemma link_expiry_bounds:
  assumes "settings_ok (conf c)"
  shows "unix_seconds (utcnow c) + file_url_ttl_hours (conf c) * 3600 < link_expiry c"
    and "link_expiry c \<le> unix_seconds (utcnow c) + max (file_url_ttl_hours (conf c) * 1800) 60
           + file_url_ttl_hours (conf c) * 3600"
proof -
  let ?b = "max (file_url_ttl_hours (conf c) * 3600 div 2) 60"
  let ?n = "unix_seconds (utcnow c)"
  have b: "0 < ?b" by simp
  have half: "file_url_ttl_hours (conf c) * 3600 div 2 = file_url_ttl_hours (conf c) * 1800" by simp
  have "?n = ?n div ?b * ?b + ?n mod ?b" by (rule div_mult_mod_eq [symmetric])
  moreover have "0 \<le> ?n mod ?b" and "?n mod ?b < ?b"
    using b by (auto intro: pos_mod_bound pos_mod_sign)
  ultimately show "?n + file_url_ttl_hours (conf c) * 3600 < link_expiry c"
    and "link_expiry c \<le> ?n + max (file_url_ttl_hours (conf c) * 1800) 60
           + file_url_ttl_hours (conf c) * 3600"
    unfolding link_expiry_def Let_def half [symmetric] by linarith+
qed

lemma signed_link_verifies:
  assumes "unix_us (utcnow c) \<le> e * us_per_second"
  shows "verify_file_signature c path e (sign_file_path c path e) = Inr True"
  using assms
  by (simp add: verify_file_signature_def compare_digest_def sign_file_path_def b64_ascii)

end
