(* ===== verification/Organisations.thy ===== *)
theory Organisations
  imports Security
begin

text \<open>
  Schools and their login codes, \<^verbatim>\<open>app/services/organisations.py\<close>.
\<close>

definition INVALID_CODE :: string where
  "INVALID_CODE = ''School codes are 2 to 30 letters, digits or hyphens''"
definition UNKNOWN_CODE :: string where
  "UNKNOWN_CODE = ''School code not found. Check the code with your school office.''"
definition DISABLED :: string where
  "DISABLED = ''This school's account is disabled. Contact the school office.''"
definition CODE_REQUIRED :: string where
  "CODE_REQUIRED = ''Enter your school code''"

definition DEFAULT_EVENTS :: "(string \<times> string) list" where
  "DEFAULT_EVENTS = [(''Holiday'', ''holiday''), (''Exam'', ''exam''), (''PTM'', ''event''),
     (''Annual Function Day'', ''event'')]"

definition upper_alnum :: "char \<Rightarrow> bool" where
  "upper_alnum ch = (ascii_digit ch \<or> (65 \<le> py_ord ch \<and> py_ord ch \<le> 90))"

text \<open>The pattern \<^verbatim>\<open>^[A-Z0-9][A-Z0-9-]{1,29}$\<close> (on a stripped value).\<close>

definition code_matches :: "string \<Rightarrow> bool" where
  "code_matches v = (case v of [] \<Rightarrow> False
     | ch # r \<Rightarrow> upper_alnum ch \<and> 1 \<le> length r \<and> length r \<le> 29
                \<and> list_all (\<lambda>x. upper_alnum x \<or> x = CHR ''-'') r)"

definition opt_str :: "string option \<Rightarrow> string" where
  "opt_str x = (case x of None \<Rightarrow> [] | Some v \<Rightarrow> v)"

definition normalize_code :: "string option \<Rightarrow> string res" where
  "normalize_code code = (let value = py_upper (py_strip (opt_str code)) in
     if code_matches value then Inr value else Inl (BadRequest INVALID_CODE))"

definition find_org :: "ctx \<Rightarrow> string \<Rightarrow> db \<Rightarrow> org_row option" where
  "find_org c code s = one_where (\<lambda>g. sql_eq c (o_code g) (py_upper (py_strip code))) (orgs s)"

definition resolve :: "ctx \<Rightarrow> string option \<Rightarrow> org_row handler" where
  "resolve c code s =
     (let typed = py_strip (opt_str code); raw = (if typed = [] then default_org_code (conf c) else typed) in
      if raw = [] then (Inl (BadRequest CODE_REQUIRED), s)
      else (case find_org c raw s of
              None \<Rightarrow> (Inl (BadRequest UNKNOWN_CODE), s)
            | Some g \<Rightarrow>
                if \<not> o_active g then (Inl (Forbidden DISABLED), s)
                else (case bind_org (o_id g) s of
                        (Inl e, s') \<Rightarrow> (Inl e, s')
                      | (Inr _, s') \<Rightarrow> (Inr g, s'))))"

definition public_info :: "ctx \<Rightarrow> string \<Rightarrow> db \<Rightarrow> (string \<times> string) res" where
  "public_info c code s =
     (case (if code_matches (py_upper (py_strip code)) then find_org c code s else None) of
        None \<Rightarrow> Inl (NotFound ''School not found'')
      | Some g \<Rightarrow> if o_active g then Inr (o_code g, o_name g) else Inl (NotFound ''School not found''))"

subsection \<open>The platform operator\<close>

record org_create_body =
  oc_code :: string
  oc_name :: string
  oc_admin_username :: string
  oc_admin_password :: string
  oc_admin_full_name :: string
  oc_admin_email :: "string option"

record created_org =
  co_id :: int
  co_code :: string
  co_name :: string
  co_admin_id :: int
  co_admin_username :: string

definition taken_error :: "string \<Rightarrow> app_error" where
  "taken_error code = Conflict (''The school code '' @ code @ '' is already taken'')"

definition operator_detail :: "string option \<Rightarrow> (string \<times> string) list" where
  "operator_detail operator = (case operator of None \<Rightarrow> [] | Some [] \<Rightarrow> [] | Some p \<Rightarrow> [(''operator'', p)])"

definition first_admin :: "ctx \<Rightarrow> org_create_body \<Rightarrow> int \<Rightarrow> int \<Rightarrow> user_row" where
  "first_admin c body org_id admin_id = \<lparr>u_id = admin_id, u_org = org_id,
     u_username = py_strip (oc_admin_username body), u_password_hash = hash_password c (oc_admin_password body),
     u_full_name = py_strip (oc_admin_full_name body),
     u_email = (case oc_admin_email body of Some [] \<Rightarrow> None | e \<Rightarrow> e), u_phone = None, u_photo = None,
     u_type = Admin, u_active = True, u_left_on = None, u_left_reason = None, u_token_version = 0, u_must_change = True,
     u_password_changed_at = None\<rparr>"

text \<open>
  \<open>create\<close>: the school, its first admin (who must change the password) and the default event
  names, in one transaction; the UNIQUE key on the code is the check the insert makes.
\<close>

definition create_org :: "ctx \<Rightarrow> org_create_body \<Rightarrow> string option \<Rightarrow> created_org handler" where
  "create_org c body operator s =
     (case normalize_code (Some (oc_code body)) of
        Inl e \<Rightarrow> (Inl e, s)
      | Inr code \<Rightarrow> transaction (\<lambda>s.
          if find_org c code s \<noteq> None then (Inl (taken_error code), s)
          else if one_where (\<lambda>g. sql_eq c (o_code g) code) (orgs s) \<noteq> None then (Inl (taken_error code), s)
          else
            (let org_id = next_org s; admin_id = next_user s;
                 s1 = s\<lparr>orgs := orgs s @ [\<lparr>o_id = org_id, o_code = code, o_name = py_strip (oc_name body),
                                          o_active = True\<rparr>], next_org := org_id + 1\<rparr>
             in (case bind_org org_id s1 of
                   (Inl e, s2) \<Rightarrow> (Inl e, s2)
                 | (Inr _, s2) \<Rightarrow>
                     (Inr \<lparr>co_id = org_id, co_code = code, co_name = py_strip (oc_name body),
                           co_admin_id = admin_id, co_admin_username = py_strip (oc_admin_username body)\<rparr>,
                      audit_record c None ''organisation.create'' (Some ''organisation'')
                        (Some (py_str_int org_id))
                        ([(''code'', code), (''name'', oc_name body),
                          (''admin_username'', oc_admin_username body)] @ operator_detail operator)
                        (s2\<lparr>users := users s2 @ [first_admin c body org_id admin_id],
                            next_user := admin_id + 1,
                            calendar_events := calendar_events s2
                              @ map (\<lambda>(t, k). (org_id, t, k)) DEFAULT_EVENTS\<rparr>))))) s)"

record org_update_body =
  ou_code :: "string option"
  ou_name :: "string option"
  ou_active :: "bool option"

definition update_org :: "ctx \<Rightarrow> string \<Rightarrow> org_update_body \<Rightarrow> string option \<Rightarrow> org_row option handler" where
  "update_org c code body operator s =
     (case (case ou_code body of None \<Rightarrow> Inr None
            | Some n \<Rightarrow> bindR (normalize_code (Some n)) (\<lambda>v. Inr (Some v))) of
        Inl e \<Rightarrow> (Inl e, s)
      | Inr new_code \<Rightarrow> transaction (\<lambda>s.
          (case normalize_code (Some code) of
             Inl e \<Rightarrow> (Inl e, s)
           | Inr current \<Rightarrow>
             (case one_where (\<lambda>g. sql_eq c (o_code g) current) (orgs s) of
                None \<Rightarrow> (Inl (NotFound ''School not found''), s)
              | Some g \<Rightarrow>
                  (let code' = (case new_code of None \<Rightarrow> o_code g | Some v \<Rightarrow> v);
                       name' = py_strip (case ou_name body of None \<Rightarrow> o_name g | Some n \<Rightarrow> n);
                       active' = (case ou_active body of None \<Rightarrow> o_active g | Some a \<Rightarrow> a)
                   in if code' \<noteq> o_code g \<and> find_org c code' s \<noteq> None
                      then (Inl (taken_error code'), s)
                      else if one_where (\<lambda>h. o_id h \<noteq> o_id g \<and> sql_eq c (o_code h) code') (orgs s) \<noteq> None
                      then (Inl (taken_error code'), s)
                      else (let s1 = s\<lparr>orgs := update_where (\<lambda>h. o_id h = o_id g)
                                  (\<lambda>h. h\<lparr>o_code := code', o_name := name', o_active := active'\<rparr>) (orgs s)\<rparr>
                            in (case bind_org (o_id g) s1 of
                                  (Inl e, s2) \<Rightarrow> (Inl e, s2)
                                | (Inr _, s2) \<Rightarrow>
                                    (let s3 = audit_record c None ''organisation.update''
                                          (Some ''organisation'') (Some (py_str_int (o_id g)))
                                          ((case new_code of None \<Rightarrow> [] | Some v \<Rightarrow> [(''code'', v)])
                                           @ (case ou_name body of None \<Rightarrow> [] | Some n \<Rightarrow> [(''name'', n)])
                                           @ (case ou_active body of None \<Rightarrow> []
                                              | Some a \<Rightarrow> [(''is_active'', if a then ''True'' else ''False'')])
                                           @ operator_detail operator) s2
                                     in (Inr (one_where (\<lambda>h. o_id h = o_id g) (orgs s3)), s3))))))) ) s)"

subsection \<open>Codes name at most one school\<close>

definition org_codes_unique :: "ctx \<Rightarrow> db \<Rightarrow> bool" where
  "org_codes_unique c s \<longleftrightarrow> distinct (map (\<lambda>g. collation c (o_code g)) (orgs s))
     \<and> distinct (map o_id (orgs s)) \<and> (\<forall>g \<in> set (orgs s). o_id g < next_org s)"

lemma resolve_Inr:
  assumes "resolve c code s = (Inr g, s')"
  shows "g \<in> set (orgs s) \<and> o_active g \<and> bound_org s' = Some (o_id g) \<and> s' = s\<lparr>bound_org := Some (o_id g)\<rparr>"
  using assms
  by (auto simp: resolve_def Let_def find_org_def bind_org_def dest: one_where_Some
      split: if_splits option.splits prod.splits sum.splits)

lemma resolve_effect:
  "resolve c code s = (r, s') \<Longrightarrow> s' = s \<or> (\<exists>g. s' = s\<lparr>bound_org := Some g\<rparr>)"
  by (auto simp: resolve_def Let_def bind_org_def split: if_splits option.splits)

lemma create_org_unique:
  assumes "org_codes_unique c s" and "create_org c body op s = (r, s')"
  shows "org_codes_unique c s'"
proof (cases r)
  case (Inl e)
  with assms show ?thesis
    by (auto simp: create_org_def transaction_def split: sum.splits if_splits prod.splits)
next
  case (Inr x)
  then obtain code where code: "normalize_code (Some (oc_code body)) = Inr code"
    and fresh: "one_where (\<lambda>g. sql_eq c (o_code g) code) (orgs s) = None"
    and orgs: "orgs s' = orgs s @ [\<lparr>o_id = next_org s, o_code = code, o_name = py_strip (oc_name body),
                                    o_active = True\<rparr>]" "next_org s' = next_org s + 1"
    using assms(2)
    by (auto simp: create_org_def transaction_def bind_org_def audit_record_def Let_def
        split: sum.splits if_splits option.splits)
  from assms(1) have "\<forall>g \<in> set (orgs s). o_id g < next_org s"
    by (simp add: org_codes_unique_def)
  with assms(1) fresh show ?thesis
    by (force simp: org_codes_unique_def orgs one_where_None sql_eq_def)
qed

end
