(* ===== verification/Throttle.thy ===== *)
theory Throttle
  imports Security
begin

text \<open>
  Brute-force protection, \<^verbatim>\<open>app/services/login_throttle.py\<close>: the sliding-window counters over
  \<open>auth_login_attempts\<close>, the verdict on an attempt and the recording of its outcome.
\<close>

definition RETENTION_DAYS :: int where "RETENTION_DAYS = 30"

record verdict =
  captcha_required :: bool

definition account_key :: "int \<Rightarrow> string \<Rightarrow> string" where
  "account_key org_id username = take 100 (py_str_int org_id @ '':'' @ py_lower (py_strip username))"

text \<open>SQL's null-safe equality \<^verbatim>\<open><=>\<close> on a text column.\<close>

fun null_eq :: "ctx \<Rightarrow> string option \<Rightarrow> string option \<Rightarrow> bool" where
  "null_eq c None None = True"
| "null_eq c (Some a) (Some b) = sql_eq c a b"
| "null_eq c _ _ = False"

lemma null_eq_refl [simp]: "null_eq c x x"
  by (cases x) simp_all

definition login_window :: "ctx \<Rightarrow> int" where
  "login_window c = login_window_minutes (conf c) * us_per_minute"

definition window_start :: "ctx \<Rightarrow> datetime" where
  "window_start c = utcnow c - login_window c"

definition last_success :: "ctx \<Rightarrow> string \<Rightarrow> db \<Rightarrow> datetime option" where
  "last_success c key s = max_opt (map a_created_at
     (filter (\<lambda>r. sql_eq c (a_username r) key \<and> a_success r \<and> window_start c \<le> a_created_at r) (attempts s)))"

definition account_since :: "ctx \<Rightarrow> string \<Rightarrow> db \<Rightarrow> datetime" where
  "account_since c key s = (case last_success c key s of
     None \<Rightarrow> window_start c | Some l \<Rightarrow> max (window_start c) l)"

text \<open>The same device or, for clients that send no device id, the same address.\<close>

definition same_pair :: "ctx \<Rightarrow> string option \<Rightarrow> string option \<Rightarrow> attempt_row \<Rightarrow> bool" where
  "same_pair c ip device r =
     (if device \<noteq> None \<and> device \<noteq> Some [] then null_eq c (a_device r) device
      else a_device r = None \<and> null_eq c (a_ip r) ip)"

definition counted_rows :: "ctx \<Rightarrow> string \<Rightarrow> string option \<Rightarrow> db \<Rightarrow> attempt_row list" where
  "counted_rows c key ip s = filter (\<lambda>r. \<not> a_success r \<and> window_start c \<le> a_created_at r
     \<and> (sql_eq c (a_username r) key \<or> null_eq c (a_ip r) ip)) (attempts s)"

definition account_hit :: "ctx \<Rightarrow> string \<Rightarrow> db \<Rightarrow> attempt_row \<Rightarrow> bool" where
  "account_hit c key s r = (sql_eq c (a_username r) key \<and> account_since c key s < a_created_at r)"

definition wait_seconds :: "datetime option \<Rightarrow> int \<Rightarrow> datetime \<Rightarrow> int" where
  "wait_seconds oldest window now = (case oldest of
     None \<Rightarrow> int_seconds window | Some t \<Rightarrow> max 1 (int_seconds (t + window - now)))"

text \<open>The three (count, limit, oldest) triples of one attempt.\<close>

definition limit_triples ::
  "ctx \<Rightarrow> string \<Rightarrow> string option \<Rightarrow> string option \<Rightarrow> bool \<Rightarrow> db \<Rightarrow> (int \<times> int \<times> datetime option) list" where
  "limit_triples c key ip device captcha_supported s =
     (let rows = counted_rows c key ip s;
          acct = filter (account_hit c key s) rows;
          pair = filter (same_pair c ip device) acct;
          ips = filter (\<lambda>r. null_eq c (a_ip r) ip) rows;
          ip_limit = (if captcha_supported then login_ip_flood_limit (conf c)
                      else login_max_failures_per_ip (conf c))
      in [(int (length acct), login_max_failures_per_account (conf c), min_opt (map a_created_at acct)),
          (int (length pair), login_max_failures_per_account_device (conf c), min_opt (map a_created_at pair)),
          (int (length ips), ip_limit, min_opt (map a_created_at ips))])"

definition assess ::
  "ctx \<Rightarrow> string \<Rightarrow> string option \<Rightarrow> string option \<Rightarrow> bool \<Rightarrow> db \<Rightarrow> verdict res" where
  "assess c key ip device captcha_supported s =
     (let limits = limit_triples c key ip device captcha_supported s;
          waits = map (\<lambda>(_, _, oldest). wait_seconds oldest (login_window c) (utcnow c))
                    (filter (\<lambda>(count, limit, _). limit \<le> count) limits)
      in if waits \<noteq> []
         then (let retry_after = Max (set waits); minutes = max 1 (ceil_div retry_after 60)
               in Inl (TooManyRequests (''Too many failed login attempts. Try again in ''
                    @ py_str_int minutes @ '' minute'' @ (if 1 < minutes then ''s'' else '''') @ ''.'')
                    retry_after))
         else Inr \<lparr>captcha_required = (captcha_supported
               \<and> (login_captcha_after_account_failures (conf c) \<le> fst (limits ! 0)
                  \<or> login_captcha_after_ip_failures (conf c) \<le> fst (limits ! 2)))\<rparr>)"

definition ensure_allowed :: "ctx \<Rightarrow> string \<Rightarrow> string option \<Rightarrow> string option \<Rightarrow> db \<Rightarrow> unit res" where
  "ensure_allowed c key ip device s = bindR (assess c key ip device False s) (\<lambda>_. Inr ())"

text \<open>\<open>DELETE \<dots> WHERE P LIMIT n\<close>: the first matching rows.\<close>

fun delete_limit :: "nat \<Rightarrow> ('a \<Rightarrow> bool) \<Rightarrow> 'a list \<Rightarrow> 'a list" where
  "delete_limit n P [] = []"
| "delete_limit n P (x # xs) =
     (if P x then (case n of 0 \<Rightarrow> x # xs | Suc m \<Rightarrow> delete_limit m P xs) else x # delete_limit n P xs)"

definition record_attempt ::
  "ctx \<Rightarrow> string \<Rightarrow> string option \<Rightarrow> bool \<Rightarrow> string option \<Rightarrow> db \<Rightarrow> db" where
  "record_attempt c key ip success device s = s\<lparr>attempts :=
     delete_limit 1000 (\<lambda>r. a_created_at r < utcnow c - RETENTION_DAYS * us_per_day)
       (attempts s @ [\<lparr>a_username = key, a_ip = ip, a_device = device, a_success = success,
                       a_created_at = utcnow c\<rparr>])\<rparr>"

subsection \<open>Counting\<close>

lemma set_delete_limit: "set (delete_limit n P xs) \<subseteq> set xs"
  by (induction n P xs rule: delete_limit.induct) (auto split: nat.splits)

lemma filter_delete_limit:
  "(\<And>x. Q x \<Longrightarrow> \<not> P x) \<Longrightarrow> filter Q (delete_limit n P xs) = filter Q xs"
proof (induction n P xs rule: delete_limit.induct)
  case (2 n P x xs)
  then show ?case by (auto split: nat.splits)
qed simp

text \<open>The failures that count against an account at the time of the request.\<close>

definition account_failures :: "ctx \<Rightarrow> string \<Rightarrow> db \<Rightarrow> nat" where
  "account_failures c key s = length (filter (\<lambda>r. \<not> a_success r \<and> account_hit c key s r
     \<and> window_start c \<le> a_created_at r) (attempts s))"

lemma account_since_ge: "window_start c \<le> account_since c key s"
  by (auto simp: account_since_def split: option.splits)

lemma account_filter:
  "filter (account_hit c key s) (counted_rows c key ip s)
    = filter (\<lambda>r. \<not> a_success r \<and> account_hit c key s r \<and> window_start c \<le> a_created_at r) (attempts s)"
  by (auto simp: counted_rows_def account_hit_def intro!: filter_cong)

lemma account_triple:
  "fst (limit_triples c key ip device cs s ! 0) = int (account_failures c key s)"
  by (simp add: limit_triples_def Let_def account_filter account_failures_def)

lemma wait_seconds_pos:
  assumes "settings_ok (conf c)"
  shows "1 \<le> wait_seconds oldest (login_window c) (utcnow c)"
proof -
  have "us_per_second \<le> login_window c"
    using assms by (auto simp: settings_ok_def login_window_def us_defs)
  then have "1 \<le> login_window c div us_per_second"
    by (simp add: us_defs zdiv_mono1 [of 1000000 "login_window c" 1000000, simplified])
  moreover have "0 \<le> login_window c"
    using assms by (auto simp: settings_ok_def login_window_def us_defs)
  ultimately show ?thesis
    by (auto simp: wait_seconds_def int_seconds_def split: option.splits)
qed

text \<open>A full counter refuses the attempt; the wait is at least one second.\<close>

lemma assess_blocked:
  assumes "settings_ok (conf c)"
    and "(n, lim, old) \<in> set (limit_triples c key ip device cs s)" and "lim \<le> n"
  shows "\<exists>m w. assess c key ip device cs s = Inl (TooManyRequests m w) \<and> 1 \<le> w"
proof -
  let ?ws = "map (\<lambda>(_, _, oldest). wait_seconds oldest (login_window c) (utcnow c))
      (filter (\<lambda>(count, limit, _). limit \<le> count) (limit_triples c key ip device cs s))"
  have ne: "?ws \<noteq> []"
    using assms(2,3) by (auto simp: filter_empty_conv)
  moreover have "1 \<le> x" if "x \<in> set ?ws" for x
    using that wait_seconds_pos [OF assms(1)] by auto
  ultimately have "1 \<le> Max (set ?ws)" by (rule Max_set_ge)
  with ne show ?thesis by (simp add: assess_def Let_def)
qed

lemma assess_ok_below:
  assumes "assess c key ip device cs s = Inr v"
    and "(n, lim, old) \<in> set (limit_triples c key ip device cs s)"
  shows "n < lim"
  using assms by (force simp: assess_def Let_def filter_empty_conv split: if_splits)

lemma assess_error_429:
  "assess c key ip device cs s = Inl e \<Longrightarrow> \<exists>m w. e = TooManyRequests m w"
  by (auto simp: assess_def Let_def split: if_splits)

lemma assess_ok_failures:
  assumes "assess c key ip device cs s = Inr v"
  shows "int (account_failures c key s) < login_max_failures_per_account (conf c)"
proof -
  have "limit_triples c key ip device cs s ! 0 \<in> set (limit_triples c key ip device cs s)"
    by (simp add: limit_triples_def Let_def)
  moreover have "limit_triples c key ip device cs s ! 0 =
      (int (account_failures c key s), login_max_failures_per_account (conf c),
       snd (snd (limit_triples c key ip device cs s ! 0)))"
    by (simp add: limit_triples_def Let_def account_filter account_failures_def)
  ultimately show ?thesis using assess_ok_below [OF assms] by metis
qed

end
