(* ===== verification/Captcha.thy ===== *)
theory Captcha
  imports Throttle
begin

text \<open>
  Picture challenges, \<^verbatim>\<open>app/services/captcha.py\<close>: issuing a challenge and using it up. The
  drawing of the picture is not modelled; the drawn id and text are arguments.
\<close>

definition ALPHABET :: string where "ALPHABET = ''ABCDEFGHJKMNPQRSTUVWXYZ23456789''"
definition CAPTCHA_LENGTH :: nat where "CAPTCHA_LENGTH = 5"

text \<open>\<open>_digest\<close>: blanks are dropped and letter case ignored.\<close>

definition normalise_answer :: "string \<Rightarrow> string" where
  "normalise_answer answer = py_upper (filter (\<lambda>ch. \<not> py_isspace ch) answer)"

definition captcha_digest :: "ctx \<Rightarrow> string \<Rightarrow> string \<Rightarrow> string" where
  "captcha_digest c captcha_id answer =
     hexdigest (hmac_sha256 (prims c) (derive_key c ''captcha'') (captcha_id @ '':'' @ normalise_answer answer))"

text \<open>\<open>new_text\<close> for the drawn indices.\<close>

definition new_text :: "nat list \<Rightarrow> string" where
  "new_text drawn = map (\<lambda>i. ALPHABET ! (i mod length ALPHABET)) (take CAPTCHA_LENGTH drawn)"

definition issue_captcha :: "ctx \<Rightarrow> string \<Rightarrow> string \<Rightarrow> string handler" where
  "issue_captcha c captcha_id txt s =
     (let now = utcnow c;
          recent = length (filter (\<lambda>r. null_eq c (c_ip r) (client_ip c)
                     \<and> now - login_window c \<le> c_created_at r) (captchas s))
      in if captcha_max_per_ip (conf c) \<le> int recent
         then (Inl (TooManyRequests ''Too many pictures requested. Try again in a few minutes.''
                 (login_window_minutes (conf c) * 60)), s)
         else if one_where (\<lambda>r. sql_eq c (c_id r) captcha_id) (captchas s) \<noteq> None
         then (Inl (DuplicateKey (Some ''PRIMARY'')), s)
         else (Inr captcha_id, s\<lparr>captchas := delete_limit 200 (\<lambda>r. c_expires_at r < now - us_per_hour)
                (captchas s @ [\<lparr>c_id = captcha_id, c_digest = captcha_digest c captcha_id txt,
                   c_ip = client_ip c, c_created_at = now,
                   c_expires_at = now + captcha_ttl_seconds (conf c) * us_per_second,
                   c_used_at = None\<rparr>])\<rparr>))"

text \<open>
  \<open>verify\<close>: an unused picture is marked used whatever the answer; the mark is committed
  before the error is raised.
\<close>

definition verify_captcha :: "ctx \<Rightarrow> string option \<Rightarrow> string option \<Rightarrow> unit handler" where
  "verify_captcha c captcha_id answer s =
     (if opt_is_blank captcha_id \<or> opt_is_blank answer then (Inl (CaptchaRequired False), s)
      else (let cid = take 32 (the captcha_id) in
        case transaction (\<lambda>s.
          case one_where (\<lambda>r. sql_eq c (c_id r) cid) (captchas s) of
            None \<Rightarrow> (Inr False, s)
          | Some row \<Rightarrow>
              if c_used_at row \<noteq> None then (Inr False, s)
              else (let s1 = s\<lparr>captchas := update_where (\<lambda>r. sql_eq c (c_id r) cid)
                        (\<lambda>r. r\<lparr>c_used_at := Some (utcnow c)\<rparr>) (captchas s)\<rparr>
                    in if c_expires_at row \<le> utcnow c then (Inr False, s1)
                       else (compare_digest (c_digest row) (captcha_digest c cid (the answer)), s1))) s of
          (Inl e, s') \<Rightarrow> (Inl e, s')
        | (Inr ok, s') \<Rightarrow> if ok then (Inr (), s') else (Inl (CaptchaRequired True), s')))"

end
