(* ===== verification/Sessions.thy ===== *)
theory Sessions
  imports Security "HOL-Library.Product_Lexorder"
begin

text \<open>
  Login sessions and refresh-token rotation, \<^verbatim>\<open>app/services/sessions.py\<close>. Random values (the
  new session's id and salt) are arguments.
\<close>

definition INVALID_REFRESH :: string where
  "INVALID_REFRESH = ''Invalid or expired refresh token''"

record issued_session =
  is_session_id :: string
  is_refresh_token :: string
  is_refresh_expires_in :: int

definition seconds_until :: "datetime \<Rightarrow> datetime \<Rightarrow> int" where
  "seconds_until moment now = max 0 (int_seconds (moment - now))"

text \<open>\<open>TOKEN_USER_SQL\<close>: a user joined with their organisation.\<close>

definition token_user :: "int \<Rightarrow> db \<Rightarrow> (user_row \<times> org_row) option" where
  "token_user uid s = (case one_where (\<lambda>u. u_id u = uid) (users s) of
     None \<Rightarrow> None
   | Some u \<Rightarrow> map_option (Pair u) (one_where (\<lambda>g. o_id g = u_org u) (orgs s)))"

definition session_dead :: "datetime \<Rightarrow> session_row \<Rightarrow> bool" where
  "session_dead now r = (s_revoked_at r \<noteq> None \<or> s_expires_at r < now \<or> s_absolute_expires_at r < now)"

definition mark_revoked :: "datetime \<Rightarrow> string \<Rightarrow> session_row \<Rightarrow> session_row" where
  "mark_revoked now reason r = r\<lparr>s_revoked_at := Some now, s_revoke_reason := Some reason\<rparr>"

text \<open>\<open>_revoke\<close>, \<open>revoke\<close> and \<open>revoke_all\<close>: only rows not revoked yet change.\<close>

definition revoke_id :: "ctx \<Rightarrow> string \<Rightarrow> string \<Rightarrow> db \<Rightarrow> db" where
  "revoke_id c sid reason s = s\<lparr>sessions :=
     update_where (\<lambda>r. sql_eq c (s_id r) sid \<and> s_revoked_at r = None) (mark_revoked (utcnow c) reason)
       (sessions s)\<rparr>"

definition revoke_all :: "ctx \<Rightarrow> int \<Rightarrow> string \<Rightarrow> db \<Rightarrow> db" where
  "revoke_all c uid reason s = s\<lparr>sessions :=
     update_where (\<lambda>r. s_user r = uid \<and> s_revoked_at r = None) (mark_revoked (utcnow c) reason)
       (sessions s)\<rparr>"

text \<open>
  \<open>_prune\<close>: the user's dead sessions are deleted, then the least recently used ones beyond
  \<open>max_sessions_per_user - 1\<close> are revoked.
\<close>

definition live_order :: "session_row \<Rightarrow> int \<times> int" where
  "live_order r = (- s_last_used_at r, - s_created_at r)"

definition prune :: "ctx \<Rightarrow> int \<Rightarrow> db \<Rightarrow> db" where
  "prune c uid s =
     (let s1 = s\<lparr>sessions := delete_where (\<lambda>r. s_user r = uid \<and> session_dead (utcnow c) r) (sessions s)\<rparr>;
          live = sort_key live_order (filter (\<lambda>r. s_user r = uid) (sessions s1));
          extras = drop (nat (max_sessions_per_user (conf c) - 1)) live
      in fold (\<lambda>r. revoke_id c (s_id r) ''session_limit'') extras s1)"

definition new_session_row :: "ctx \<Rightarrow> int \<Rightarrow> string \<Rightarrow> string \<Rightarrow> session_row" where
  "new_session_row c uid sid salt =
     (let now = utcnow c; absolute = now + refresh_max_days (conf c) * us_per_day
      in \<lparr>s_id = sid, s_user = uid, s_salt = salt, s_generation = 1, s_rotated_at = None,
          s_created_at = now, s_last_used_at = now,
          s_expires_at = min (now + refresh_idle_days (conf c) * us_per_day) absolute,
          s_absolute_expires_at = absolute, s_revoked_at = None, s_revoke_reason = None,
          s_ip = client_ip c, s_user_agent = user_agent c\<rparr>)"

text \<open>\<open>open_session\<close>; the insert fails on the primary key if the drawn id exists.\<close>

definition open_session :: "ctx \<Rightarrow> string \<Rightarrow> string \<Rightarrow> int \<Rightarrow> issued_session handler" where
  "open_session c sid salt uid s =
     (let s1 = prune c uid s; row = new_session_row c uid sid salt in
      if one_where (\<lambda>r. sql_eq c (s_id r) sid) (sessions s1) \<noteq> None
      then (Inl (DuplicateKey (Some ''PRIMARY'')), s1)
      else (Inr \<lparr>is_session_id = sid, is_refresh_token = build_refresh_token c sid 1 salt,
                 is_refresh_expires_in = seconds_until (s_expires_at row) (utcnow c)\<rparr>,
            s1\<lparr>sessions := sessions s1 @ [row]\<rparr>))"

subsection \<open>Rotation\<close>

definition within_grace :: "ctx \<Rightarrow> session_row \<Rightarrow> bool" where
  "within_grace c r = (case s_rotated_at r of None \<Rightarrow> False
     | Some t \<Rightarrow> utcnow c - t \<le> refresh_reuse_grace_seconds (conf c) * us_per_second)"

definition next_expiry :: "ctx \<Rightarrow> session_row \<Rightarrow> datetime" where
  "next_expiry c r = min (utcnow c + refresh_idle_days (conf c) * us_per_day) (s_absolute_expires_at r)"

definition bump_row :: "ctx \<Rightarrow> session_row \<Rightarrow> session_row" where
  "bump_row c r = r\<lparr>s_generation := s_generation r + 1, s_rotated_at := Some (utcnow c),
     s_last_used_at := utcnow c, s_expires_at := next_expiry c r, s_ip := client_ip c,
     s_user_agent := user_agent c\<rparr>"

definition issued_for :: "ctx \<Rightarrow> session_row \<Rightarrow> int \<Rightarrow> datetime \<Rightarrow> issued_session" where
  "issued_for c r generation expires_at = \<lparr>is_session_id = s_id r,
     is_refresh_token = build_refresh_token c (s_id r) generation (s_salt r),
     is_refresh_expires_in = seconds_until expires_at (utcnow c)\<rparr>"

text \<open>
  \<open>_rotate_locked\<close>. A \<open>None\<close> result commits what was written before it (a revocation);
  the caller raises afterwards.
\<close>

definition rotate_locked ::
  "ctx \<Rightarrow> session_row \<Rightarrow> int \<Rightarrow> db \<Rightarrow> ((user_row \<times> org_row) \<times> issued_session) option \<times> db" where
  "rotate_locked c row presented s =
     (if s_expires_at row \<le> utcnow c \<or> s_absolute_expires_at row \<le> utcnow c
      then (None, revoke_id c (s_id row) ''expired'' s)
      else (case token_user (s_user row) s of
        None \<Rightarrow> (None, revoke_id c (s_id row) ''user_inactive'' s)
      | Some (u, g) \<Rightarrow>
          if \<not> u_active u then (None, revoke_id c (s_id row) ''user_inactive'' s)
          else if \<not> o_active g then (None, s)
          else if presented = s_generation row
          then (Some ((u, g), issued_for c row (s_generation row + 1) (next_expiry c row)),
                s\<lparr>sessions := update_where (\<lambda>r. sql_eq c (s_id r) (s_id row)) (bump_row c) (sessions s)\<rparr>)
          else if presented = s_generation row - 1 \<and> within_grace c row
          then (Some ((u, g), issued_for c row (s_generation row) (s_expires_at row)), s)
          else (None, audit_record c (Some (s_user row)) ''auth.refresh_reuse_detected'' (Some ''session'')
                  (Some (s_id row))
                  [(''presented_generation'', py_str_int presented),
                   (''current_generation'', py_str_int (s_generation row))]
                  (revoke_id c (s_id row) ''reuse_detected'' s))))"

definition rotate :: "ctx \<Rightarrow> string option \<Rightarrow> ((user_row \<times> org_row) \<times> issued_session) handler" where
  "rotate c raw s = (case parse_refresh_token raw of
     Inl e \<Rightarrow> (Inl e, s)
   | Inr None \<Rightarrow> (Inl (Unauthorized INVALID_REFRESH []), s)
   | Inr (Some parts) \<Rightarrow>
       (case transaction (\<lambda>s. case one_where (\<lambda>r. sql_eq c (s_id r) (rp_session_id parts)) (sessions s) of
              None \<Rightarrow> (Inr None, s)
            | Some row \<Rightarrow>
                (case parts_match c parts (s_salt row) of
                   Inl e \<Rightarrow> (Inl e, s)
                 | Inr m \<Rightarrow>
                     if \<not> m \<or> s_revoked_at row \<noteq> None then (Inr None, s)
                     else (case rotate_locked c row (rp_generation parts) s of (res, s') \<Rightarrow> (Inr res, s')))) s of
          (Inl e, s') \<Rightarrow> (Inl e, s')
        | (Inr None, s') \<Rightarrow> (Inl (Unauthorized INVALID_REFRESH []), s')
        | (Inr (Some x), s') \<Rightarrow> (Inr x, s')))"

text \<open>\<open>session_id_from_refresh_token\<close>, used by logout.\<close>

definition session_id_from_refresh_token :: "ctx \<Rightarrow> string option \<Rightarrow> db \<Rightarrow> string option res" where
  "session_id_from_refresh_token c raw s = bindR (parse_refresh_token raw) (\<lambda>p. case p of
     None \<Rightarrow> Inr None
   | Some parts \<Rightarrow>
       (case one_where (\<lambda>r. sql_eq c (s_id r) (rp_session_id parts)) (sessions s) of
          None \<Rightarrow> Inr None
        | Some row \<Rightarrow> bindR (parts_match c parts (s_salt row))
            (\<lambda>m. Inr (if m then Some (rp_session_id parts) else None))))"

end
