(* ===== verification/Auth.thy ===== *)
theory Auth
  imports Organisations Captcha Sessions
begin

text \<open>
  Sign-in, access-token checks, refresh, logout and password changes,
  \<^verbatim>\<open>app/services/auth.py\<close>, with the device registrations it forgets
  (\<^verbatim>\<open>app/services/notifications.py\<close>).
\<close>

definition INVALID_CREDENTIALS :: string where
  "INVALID_CREDENTIALS = ''Invalid username or password''"
definition INVALID_TOKEN :: string where
  "INVALID_TOKEN = ''Invalid or expired token''"

definition invalid_credentials :: app_error where
  "invalid_credentials = Unauthorized INVALID_CREDENTIALS [(''WWW-Authenticate'', ''Bearer'')]"

record token_response =
  tr_access_token :: string
  tr_user_id :: int
  tr_user_type :: user_type
  tr_full_name :: string
  tr_expires_in :: int
  tr_refresh_token :: string
  tr_refresh_expires_in :: int
  tr_must_change_password :: bool
  tr_org_id :: int
  tr_org_code :: string
  tr_org_name :: string

definition make_token_response :: "ctx \<Rightarrow> user_row \<Rightarrow> org_row \<Rightarrow> issued_session \<Rightarrow> token_response" where
  "make_token_response c u g session =
     (case create_access_token c (u_id u) (role_name (u_type u)) (is_session_id session)
             (u_token_version u) (Some (u_org u)) of
        (access_token, expires_in) \<Rightarrow>
          \<lparr>tr_access_token = access_token, tr_user_id = u_id u, tr_user_type = u_type u,
           tr_full_name = u_full_name u, tr_expires_in = expires_in,
           tr_refresh_token = is_refresh_token session,
           tr_refresh_expires_in = is_refresh_expires_in session,
           tr_must_change_password = u_must_change u, tr_org_id = u_org u, tr_org_code = o_code g,
           tr_org_name = o_name g\<rparr>)"

subsection \<open>Login\<close>

definition record_failure :: "ctx \<Rightarrow> string \<Rightarrow> db \<Rightarrow> db" where
  "record_failure c key s = record_attempt c key (client_ip c) False (device_id c) s"

text \<open>The captcha gate of a login, after the throttle's verdict.\<close>

definition captcha_gate :: "ctx \<Rightarrow> verdict \<Rightarrow> string option \<Rightarrow> string option \<Rightarrow> unit handler" where
  "captcha_gate c v captcha_id answer s =
     (if captcha_required v then verify_captcha c captcha_id answer s else (Inr (), s))"

definition find_login :: "ctx \<Rightarrow> int \<Rightarrow> string \<Rightarrow> db \<Rightarrow> user_row option" where
  "find_login c org_id username s =
     one_where (\<lambda>u. u_org u = org_id \<and> sql_eq c (u_username u) username) (users s)"

definition set_hash :: "int \<Rightarrow> string \<Rightarrow> db \<Rightarrow> db" where
  "set_hash uid h s = s\<lparr>users := update_where (\<lambda>u. u_id u = uid) (\<lambda>u. u\<lparr>u_password_hash := h\<rparr>) (users s)\<rparr>"

text \<open>
  The password check of a login, for the account named and the counter key. The session id
  and salt drawn for the new session are \<open>sid\<close> and \<open>salt\<close>.
\<close>

definition check_password ::
  "ctx \<Rightarrow> string \<Rightarrow> string \<Rightarrow> org_row \<Rightarrow> string \<Rightarrow> string \<Rightarrow> string \<Rightarrow> token_response handler" where
  "check_password c sid salt g key username password s =
     (case find_login c (o_id g) username s of
        None \<Rightarrow> (Inl invalid_credentials, record_failure c key s)
      | Some u \<Rightarrow>
          (case verify_password c password (u_password_hash u) of
             Inl e \<Rightarrow> (Inl e, s)
           | Inr (matches, needs_rehash) \<Rightarrow>
               if \<not> matches then (Inl invalid_credentials, record_failure c key s)
               else if \<not> u_active u
               then (Inl (Forbidden (if u_left_on u \<noteq> None
                       then ''This account is marked as left the school. Contact the school office.''
                       else ''Account disabled'')), s)
               else (case transaction (\<lambda>s.
                       let s1 = (if needs_rehash then set_hash (u_id u) (hash_password c password) s else s)
                       in open_session c sid salt (u_id u)
                            (record_attempt c key (client_ip c) True (device_id c) s1)) s of
                       (Inl e, s') \<Rightarrow> (Inl e, s')
                     | (Inr session, s') \<Rightarrow> (Inr (make_token_response c u g session), s'))))"

definition login ::
  "ctx \<Rightarrow> string \<Rightarrow> string \<Rightarrow> string \<Rightarrow> string \<Rightarrow> string option \<Rightarrow> string option \<Rightarrow> string option \<Rightarrow> bool
    \<Rightarrow> token_response handler" where
  "login c sid salt username password org_code captcha_id captcha_answer captcha_supported s =
     (case resolve c org_code s of
        (Inl e, s1) \<Rightarrow> (Inl e, s1)
      | (Inr g, s1) \<Rightarrow>
          (let key = account_key (o_id g) username in
           case assess c key (client_ip c) (device_id c) captcha_supported s1 of
             Inl e \<Rightarrow> (Inl e, s1)
           | Inr v \<Rightarrow>
               (case captcha_gate c v captcha_id captcha_answer s1 of
                  (Inl e, s2) \<Rightarrow> (Inl e, s2)
                | (Inr _, s2) \<Rightarrow> check_password c sid salt g key username password s2)))"

subsection \<open>Access tokens\<close>

definition invalid_token :: app_error where
  "invalid_token = Unauthorized INVALID_TOKEN []"

definition token_error_response :: "token_error \<Rightarrow> app_error" where
  "token_error_response e = Unauthorized INVALID_TOKEN [(''WWW-Authenticate'',
     ''Bearer error=\"invalid_token\", error_description=\"'' @
     (case e of TokenExpired \<Rightarrow> ''expired'' | TokenInvalid \<Rightarrow> ''invalid'') @ ''\"'')]"

definition current_user_of :: "user_row \<Rightarrow> org_row \<Rightarrow> string \<Rightarrow> current_user" where
  "current_user_of u g sid = \<lparr>cu_id = u_id u, cu_username = u_username u, cu_full_name = u_full_name u,
     cu_email = u_email u, cu_phone = u_phone u, cu_type = u_type u, cu_active = u_active u,
     cu_session = sid, cu_must_change = u_must_change u, cu_org = u_org u, cu_org_code = o_code g,
     cu_org_name = o_name g\<rparr>"

definition authenticate :: "ctx \<Rightarrow> string \<Rightarrow> current_user handler" where
  "authenticate c token s = (case decode_access_token c token of
     Inl e \<Rightarrow> (Inl (token_error_response e), s)
   | Inr claims \<Rightarrow>
       (case token_user (ac_user_id claims) s of
          None \<Rightarrow> (Inl (Unauthorized ''User not found or inactive'' []), s)
        | Some (u, g) \<Rightarrow>
            (let session = one_where (\<lambda>r. sql_eq c (s_id r) (ac_session_id claims) \<and> s_user r = u_id u) (sessions s)
             in if \<not> u_active u then (Inl (Unauthorized ''User not found or inactive'' []), s)
                else if \<not> o_active g then (Inl (Unauthorized DISABLED []), s)
                else (case session of
                        None \<Rightarrow> (Inl invalid_token, s)
                      | Some r \<Rightarrow>
                          if u_token_version u \<noteq> ac_token_version claims \<or> s_revoked_at r \<noteq> None
                             \<or> (ac_org_id claims \<noteq> None \<and> ac_org_id claims \<noteq> Some (u_org u))
                          then (Inl invalid_token, s)
                          else (case bind_org (u_org u) s of
                                  (Inl e, s') \<Rightarrow> (Inl e, s')
                                | (Inr _, s') \<Rightarrow> (Inr (current_user_of u g (s_id r)), s'))))))"

definition refresh :: "ctx \<Rightarrow> string \<Rightarrow> token_response handler" where
  "refresh c refresh_token s = (case rotate c (Some refresh_token) s of
     (Inl e, s') \<Rightarrow> (Inl e, s')
   | (Inr ((u, g), session), s') \<Rightarrow> (Inr (make_token_response c u g session), s'))"

subsection \<open>Logout\<close>

definition forget_session_devices :: "ctx \<Rightarrow> string \<Rightarrow> db \<Rightarrow> db" where
  "forget_session_devices c sid s = s\<lparr>devices := delete_where
     (\<lambda>d. case d_session d of None \<Rightarrow> False | Some x \<Rightarrow> sql_eq c x sid) (devices s)\<rparr>"

definition forget_user_devices :: "int \<Rightarrow> db \<Rightarrow> db" where
  "forget_user_devices uid s = s\<lparr>devices := delete_where (\<lambda>d. d_user d = uid) (devices s)\<rparr>"

definition logout :: "ctx \<Rightarrow> current_user option \<Rightarrow> string option \<Rightarrow> unit handler" where
  "logout c user refresh_token s =
     (case (case user of Some u \<Rightarrow> Inr (Some (cu_session u))
            | None \<Rightarrow> session_id_from_refresh_token c refresh_token s) of
        Inl e \<Rightarrow> (Inl e, s)
      | Inr None \<Rightarrow> (Inr (), s)
      | Inr (Some sid) \<Rightarrow>
          if sid = [] then (Inr (), s)
          else (Inr (), forget_session_devices c sid (revoke_id c sid ''logout'' s)))"

definition bump_token_version :: "int \<Rightarrow> db \<Rightarrow> db" where
  "bump_token_version uid s = s\<lparr>users := update_where (\<lambda>u. u_id u = uid)
     (\<lambda>u. u\<lparr>u_token_version := u_token_version u + 1\<rparr>) (users s)\<rparr>"

definition logout_everywhere :: "ctx \<Rightarrow> current_user \<Rightarrow> db \<Rightarrow> db" where
  "logout_everywhere c user s =
     audit_record c (Some (cu_id user)) ''auth.logout_all'' (Some ''user'') (Some (py_str_int (cu_id user))) []
       (forget_user_devices (cu_id user)
         (revoke_all c (cu_id user) ''logout_all'' (bump_token_version (cu_id user) s)))"

subsection \<open>Passwords\<close>

definition set_password :: "ctx \<Rightarrow> int \<Rightarrow> string \<Rightarrow> string \<Rightarrow> db \<Rightarrow> db" where
  "set_password c uid new_password reason s = revoke_all c uid reason
     (s\<lparr>users := update_where (\<lambda>u. u_id u = uid)
         (\<lambda>u. u\<lparr>u_password_hash := hash_password c new_password, u_token_version := u_token_version u + 1,
              u_must_change := False, u_password_changed_at := Some (utcnow c)\<rparr>) (users s)\<rparr>)"

definition change_password ::
  "ctx \<Rightarrow> string \<Rightarrow> string \<Rightarrow> current_user \<Rightarrow> string \<Rightarrow> string \<Rightarrow> token_response handler" where
  "change_password c sid salt user current_password new_password s =
     (let key = account_key (cu_org user) (cu_username user) in
      case ensure_allowed c key (client_ip c) (device_id c) s of
        Inl e \<Rightarrow> (Inl e, s)
      | Inr _ \<Rightarrow>
          (case (case one_where (\<lambda>u. u_id u = cu_id user) (users s) of
                   None \<Rightarrow> Inr (False, False)
                 | Some u \<Rightarrow> verify_password c current_password (u_password_hash u)) of
             Inl e \<Rightarrow> (Inl e, s)
           | Inr (matches, _) \<Rightarrow>
               if \<not> matches then (Inl (BadRequest ''Current password is incorrect''), record_failure c key s)
               else if current_password = new_password
               then (Inl (BadRequest ''New password must be different from the current one''), s)
               else transaction (\<lambda>s.
                 (case open_session c sid salt (cu_id user)
                         (audit_record c (Some (cu_id user)) ''auth.password_changed'' (Some ''user'')
                           (Some (py_str_int (cu_id user))) []
                           (set_password c (cu_id user) new_password ''password_changed'' s)) of
                    (Inl e, s') \<Rightarrow> (Inl e, s')
                  | (Inr session, s') \<Rightarrow>
                      (case token_user (cu_id user) s' of
                         None \<Rightarrow> (Inl TypeError, s')
                       | Some (u, g) \<Rightarrow> (Inr (make_token_response c u g session), s')))) s))"

end
