(* ===== verification/Sessions_Props.thy ===== *)
theory Sessions_Props
  imports Sessions
begin

text \<open>
  What the session store keeps true (unique ids, an expiry inside the absolute lifetime, a
  bounded number of live sessions per user) and what a presented refresh token gets.
\<close>

subsection \<open>The invariant\<close>

definition row_wf :: "session_row \<Rightarrow> bool" where
  "row_wf r \<longleftrightarrow> 1 \<le> s_generation r \<and> s_expires_at r \<le> s_absolute_expires_at r"

definition sessions_wf :: "ctx \<Rightarrow> db \<Rightarrow> bool" where
  "sessions_wf c s \<longleftrightarrow> distinct (map (\<lambda>r. collation c (s_id r)) (sessions s)) \<and> list_all row_wf (sessions s)"

definition live_of :: "int \<Rightarrow> session_row \<Rightarrow> bool" where
  "live_of uid r \<longleftrightarrow> s_user r = uid \<and> s_revoked_at r = None"

definition live_count :: "int \<Rightarrow> db \<Rightarrow> nat" where
  "live_count uid s = length (filter (live_of uid) (sessions s))"

lemma mark_revoked_simps [simp]:
  "s_id (mark_revoked t x r) = s_id r" "s_user (mark_revoked t x r) = s_user r"
  "s_revoked_at (mark_revoked t x r) = Some t" "s_salt (mark_revoked t x r) = s_salt r"
  "row_wf (mark_revoked t x r) = row_wf r" "live_of uid (mark_revoked t x r) = False"
  by (simp_all add: mark_revoked_def row_wf_def live_of_def)

text \<open>A rewrite that keeps ids keeps well-formedness; one that makes no row live keeps the bound.\<close>

lemma wf_update:
  assumes "sessions_wf c s" and "\<And>r. s_id (f r) = s_id r" and "\<And>r. row_wf r \<Longrightarrow> row_wf (f r)"
  shows "sessions_wf c (s\<lparr>sessions := update_where P f (sessions s)\<rparr>)"
  using assms by (auto simp: sessions_wf_def map_update_where_key list_all_iff set_update_where)

lemma live_filter_le:
  assumes "\<And>r. live_of uid (f r) \<Longrightarrow> live_of uid r"
  shows "length (filter (live_of uid) (update_where P f rs)) \<le> length (filter (live_of uid) rs)"
  by (rule length_filter_update_where) (rule assms)

lemma live_update:
  assumes "\<And>r. live_of v (f r) \<Longrightarrow> live_of v r"
  shows "live_count v (s\<lparr>sessions := update_where P f (sessions s)\<rparr>) \<le> live_count v s"
  unfolding live_count_def using live_filter_le [of v f P "sessions s", OF assms] by simp

lemma revoke_id_wf: "sessions_wf c s \<Longrightarrow> sessions_wf c (revoke_id c' sid x s)"
  unfolding revoke_id_def by (rule wf_update) simp_all

lemma revoke_all_wf: "sessions_wf c s \<Longrightarrow> sessions_wf c (revoke_all c' uid x s)"
  unfolding revoke_all_def by (rule wf_update) simp_all

lemma revoke_id_live: "live_count v (revoke_id c sid x s) \<le> live_count v s"
  unfolding revoke_id_def by (rule live_update) simp

lemma revoke_all_live: "live_count v (revoke_all c uid x s) \<le> live_count v s"
  unfolding revoke_all_def by (rule live_update) simp

lemma revoke_all_none_live: "live_count uid (revoke_all c uid x s) = 0"
proof -
  have "filter (live_of uid) (update_where (\<lambda>r. s_user r = uid \<and> s_revoked_at r = None)
      (mark_revoked t x) rs) = []" for t rs
    by (induction rs) (simp_all add: update_where_def live_of_def)
  then show ?thesis by (simp add: live_count_def revoke_all_def)
qed

subsection \<open>Pruning\<close>

lemma fold_revoke:
  "fold (\<lambda>e. revoke_id c (s_id e) x) es s = s\<lparr>sessions := update_where
     (\<lambda>r. (\<exists>e \<in> set es. sql_eq c (s_id r) (s_id e)) \<and> s_revoked_at r = None)
     (mark_revoked (utcnow c) x) (sessions s)\<rparr>"
proof (induction es arbitrary: s)
  case Nil
  then show ?case by (simp add: update_where_def)
next
  case (Cons e es)
  have "update_where (\<lambda>r. (\<exists>e \<in> set es. sql_eq c (s_id r) (s_id e)) \<and> s_revoked_at r = None)
      (mark_revoked t x) (update_where (\<lambda>r. sql_eq c (s_id r) (s_id e) \<and> s_revoked_at r = None)
        (mark_revoked t x) rs)
    = update_where (\<lambda>r. (\<exists>e \<in> set (e # es). sql_eq c (s_id r) (s_id e)) \<and> s_revoked_at r = None)
        (mark_revoked t x) rs" for t rs
    by (induction rs) (auto simp: update_where_def)
  then have "sessions (revoke_id c (s_id e) x s) = update_where (\<lambda>r. sql_eq c (s_id r) (s_id e)
      \<and> s_revoked_at r = None) (mark_revoked (utcnow c) x) (sessions s) \<Longrightarrow> ?case"
    by (simp add: Cons.IH) (simp add: revoke_id_def)
  then show ?case by (simp add: revoke_id_def)
qed

lemma prune_wf: "sessions_wf c s \<Longrightarrow> sessions_wf c (prune c' uid s)"
  unfolding prune_def Let_def fold_revoke
  by (rule wf_update) (auto simp: sessions_wf_def distinct_map_delete_where list_all_iff)

text \<open>After the pruning at most \<open>max_sessions_per_user - 1\<close> sessions of the user are live.\<close>

lemma prune_live:
  assumes "sessions_wf c s"
  shows "live_count uid (prune c uid s) \<le> nat (max_sessions_per_user (conf c) - 1)"
proof -
  let ?k = "nat (max_sessions_per_user (conf c) - 1)"
  let ?rs = "delete_where (\<lambda>r. s_user r = uid \<and> session_dead (utcnow c) r) (sessions s)"
  let ?live = "sort_key live_order (filter (\<lambda>r. s_user r = uid) ?rs)"
  let ?gone = "\<lambda>r. \<exists>e \<in> set (drop ?k ?live). sql_eq c (s_id r) (s_id e)"
  have "distinct (map (\<lambda>r. collation c (s_id r)) ?rs)"
    using assms by (simp add: sessions_wf_def distinct_map_delete_where)
  then have dist: "distinct ?rs" by (simp add: distinct_map)
  have "filter (live_of uid) (sessions (prune c uid s))
      = filter (\<lambda>r. live_of uid r \<and> \<not> ?gone r) ?rs"
  proof -
    have "filter (live_of uid) (update_where (\<lambda>r. ?gone r \<and> s_revoked_at r = None)
        (mark_revoked (utcnow c) x) rs) = filter (\<lambda>r. live_of uid r \<and> \<not> ?gone r) rs" for x rs
      by (subst filter_update_where_out) (auto simp: live_of_def intro!: filter_cong)
    then show ?thesis by (simp add: prune_def Let_def fold_revoke)
  qed
  moreover have "set (filter (\<lambda>r. live_of uid r \<and> \<not> ?gone r) ?rs) \<subseteq> set (take ?k ?live)"
  proof
    fix r assume r: "r \<in> set (filter (\<lambda>r. live_of uid r \<and> \<not> ?gone r) ?rs)"
    then have "r \<in> set ?live" and "r \<notin> set (drop ?k ?live)"
      by (auto simp: live_of_def)
    then show "r \<in> set (take ?k ?live)"
      by (metis Un_iff append_take_drop_id set_append)
  qed
  ultimately have "live_count uid (prune c uid s) \<le> card (set (take ?k ?live))"
    using dist by (simp add: live_count_def distinct_card [symmetric] card_mono)
  also have "\<dots> \<le> ?k"
    using card_length [of "take ?k ?live"] by simp
  finally show ?thesis .
qed

lemma prune_live_other:
  assumes "v \<noteq> uid"
  shows "live_count v (prune c uid s) \<le> live_count v s"
proof -
  let ?rs = "delete_where (\<lambda>r. s_user r = uid \<and> session_dead (utcnow c) r) (sessions s)"
  have "live_count v (prune c uid s) \<le> live_count v (s\<lparr>sessions := ?rs\<rparr>)"
    unfolding prune_def Let_def fold_revoke by (rule live_update) simp
  also have "\<dots> = length (filter (\<lambda>r. \<not> (s_user r = uid \<and> session_dead (utcnow c) r))
      (filter (live_of v) (sessions s)))"
    by (simp add: live_count_def delete_where_def filter_filter conj_commute)
  also have "\<dots> \<le> live_count v s"
    unfolding live_count_def by (rule length_filter_le)
  finally show ?thesis .
qed

subsection \<open>Every operation keeps the invariant\<close>

lemma open_session_wf:
  assumes "sessions_wf c s" and "settings_ok (conf c)" and "open_session c sid salt uid s = (Inr x, s')"
  shows "sessions_wf c s'"
proof -
  from assms(3) have "one_where (\<lambda>r. sql_eq c (s_id r) sid) (sessions (prune c uid s)) = None"
    and s': "s' = (prune c uid s)\<lparr>sessions := sessions (prune c uid s) @ [new_session_row c uid sid salt]\<rparr>"
    by (auto simp: open_session_def Let_def split: if_splits)
  moreover have "s_id (new_session_row c uid sid salt) = sid"
    and "row_wf (new_session_row c uid sid salt)"
    by (simp_all add: new_session_row_def row_wf_def Let_def)
  ultimately show ?thesis
    using prune_wf [OF assms(1)] by (auto simp: sessions_wf_def one_where_None sql_eq_def)
qed

lemma open_session_live:
  assumes wf: "sessions_wf c s" and ok: "settings_ok (conf c)"
    and bound: "\<And>v. live_count v s \<le> nat (max_sessions_per_user (conf c))"
    and op: "open_session c sid salt uid s = (Inr x, s')"
  shows "live_count v s' \<le> nat (max_sessions_per_user (conf c))"
proof -
  let ?row = "new_session_row c uid sid salt"
  have s': "s' = (prune c uid s)\<lparr>sessions := sessions (prune c uid s) @ [?row]\<rparr>"
    using op by (auto simp: open_session_def Let_def split: if_splits)
  have "live_of v ?row \<longleftrightarrow> v = uid"
    by (auto simp: live_of_def new_session_row_def Let_def)
  then have count: "live_count v s' = live_count v (prune c uid s) + (if v = uid then 1 else 0)"
    by (simp add: s' live_count_def)
  show ?thesis
  proof (cases "v = uid")
    case True
    have "live_count v s' \<le> nat (max_sessions_per_user (conf c) - 1) + 1"
      using prune_live [OF wf] count True by simp
    moreover have "1 \<le> max_sessions_per_user (conf c)"
      using ok by (simp add: settings_ok_def)
    ultimately show ?thesis by linarith
  next
    case False
    then show ?thesis using prune_live_other [of v uid c s] bound [of v] count by simp
  qed
qed

lemma bump_row_simps [simp]:
  "s_id (bump_row c r) = s_id r" "s_user (bump_row c r) = s_user r" "s_salt (bump_row c r) = s_salt r"
  "s_revoked_at (bump_row c r) = s_revoked_at r" "s_generation (bump_row c r) = s_generation r + 1"
  "live_of v (bump_row c r) = live_of v r" "s_expires_at (bump_row c r) = next_expiry c r"
  "s_absolute_expires_at (bump_row c r) = s_absolute_expires_at r"
  "s_rotated_at (bump_row c r) = Some (utcnow c)"
  by (simp_all add: bump_row_def live_of_def)

lemma bump_row_wf: "row_wf r \<Longrightarrow> row_wf (bump_row c r)"
  by (simp add: row_wf_def next_expiry_def)

lemma audit_sessions [simp]: "sessions (audit_record c a b e i d s) = sessions s"
  by (simp add: audit_record_def)

lemma rotate_locked_keeps:
  assumes "rotate_locked c row g s = (res, s')" and "sessions_wf c0 s"
  shows "sessions_wf c0 s' \<and> live_count v s' \<le> live_count v s"
proof -
  have audited: "sessions_wf c0 (audit_record c a b e i d t) = sessions_wf c0 t"
    "live_count v (audit_record c a b e i d t) = live_count v t" for a b e i d t
    by (simp_all add: sessions_wf_def live_count_def)
  have bumped: "sessions_wf c0 (s\<lparr>sessions := update_where P (bump_row c) (sessions s)\<rparr>)"
    "live_count v (s\<lparr>sessions := update_where P (bump_row c) (sessions s)\<rparr>) \<le> live_count v s" for P
    using assms(2) by (auto intro!: wf_update live_update bump_row_wf)
  from assms show ?thesis
    by (auto simp: rotate_locked_def audited bumped revoke_id_wf revoke_id_live
        split: if_splits option.splits)
qed

text \<open>A refresh either leaves the database alone or is what \<open>_rotate_locked\<close> did to it.\<close>

lemma rotate_effect:
  assumes "rotate c raw s = (res, s')"
  shows "s' = s \<or> (\<exists>row g r. rotate_locked c row g s = (r, s'))"
proof (cases "parse_refresh_token raw")
  case (Inl e)
  with assms show ?thesis by (simp add: rotate_def)
next
  case (Inr p)
  show ?thesis
  proof (cases p)
    case None
    with assms Inr show ?thesis by (simp add: rotate_def)
  next
    case (Some parts)
    let ?row = "one_where (\<lambda>r. sql_eq c (s_id r) (rp_session_id parts)) (sessions s)"
    show ?thesis
    proof (cases "rotate_locked c (the ?row) (rp_generation parts) s")
      case (Pair r t)
      with assms Inr Some have "s' = s \<or> s' = t"
        by (auto simp: rotate_def transaction_def split: option.splits sum.splits if_splits)
      with Pair show ?thesis by blast
    qed
  qed
qed

lemma rotate_keeps:
  assumes "rotate c raw s = (res, s')" and "sessions_wf c0 s"
  shows "sessions_wf c0 s' \<and> live_count v s' \<le> live_count v s"
  using rotate_effect [OF assms(1)] rotate_locked_keeps assms(2) by blast

text \<open>
  The steps of the session store: sign-ins, refreshes and revocations, each at its own
  clock and address but under the same settings and collation.
\<close>

definition same_site :: "ctx \<Rightarrow> ctx \<Rightarrow> bool" where
  "same_site c c' \<longleftrightarrow> conf c' = conf c \<and> collation c' = collation c"

inductive session_step :: "ctx \<Rightarrow> db \<Rightarrow> db \<Rightarrow> bool" for c where
  opened: "same_site c c' \<Longrightarrow> open_session c' sid salt uid s = (Inr x, s') \<Longrightarrow> session_step c s s'"
| rotated: "same_site c c' \<Longrightarrow> rotate c' raw s = (res, s') \<Longrightarrow> session_step c s s'"
| revoked: "same_site c c' \<Longrightarrow> session_step c s (revoke_id c' sid reason s)"
| revoked_all: "same_site c c' \<Longrightarrow> session_step c s (revoke_all c' uid reason s)"

inductive session_run :: "ctx \<Rightarrow> db \<Rightarrow> db \<Rightarrow> bool" for c where
  start: "session_run c s s"
| step: "session_run c s t \<Longrightarrow> session_step c t u \<Longrightarrow> session_run c s u"

lemma wf_same_site: "same_site c c' \<Longrightarrow> sessions_wf c' s = sessions_wf c s"
  by (simp add: sessions_wf_def same_site_def)

definition session_inv :: "ctx \<Rightarrow> db \<Rightarrow> bool" where
  "session_inv c s \<longleftrightarrow> sessions_wf c s \<and> (\<forall>v. live_count v s \<le> nat (max_sessions_per_user (conf c)))"

lemma session_inv_mono:
  assumes "session_inv c s" and "sessions_wf c s'" and "\<And>v. live_count v s' \<le> live_count v s"
  shows "session_inv c s'"
  using assms le_trans unfolding session_inv_def by blast

lemma session_step_inv:
  assumes "session_step c s s'" and "session_inv c s" and "settings_ok (conf c)"
  shows "session_inv c s'"
  using assms(1)
proof cases
  case (opened c' sid salt uid x)
  note same = wf_same_site [OF opened(1)]
  have conf: "conf c' = conf c" using opened(1) by (simp add: same_site_def)
  have wf: "sessions_wf c' s" using assms(2) by (simp add: same session_inv_def)
  have ok: "settings_ok (conf c')" using assms(3) by (simp add: conf)
  have b: "\<And>v. live_count v s \<le> nat (max_sessions_per_user (conf c'))"
    using assms(2) by (simp add: session_inv_def conf)
  show ?thesis
    using open_session_wf [OF wf ok opened(2)] open_session_live [OF wf ok b opened(2)]
    by (simp add: session_inv_def same conf)
next
  case (rotated c' raw res)
  have "sessions_wf c s" using assms(2) by (simp add: session_inv_def)
  with rotate_keeps [OF rotated(2)] show ?thesis
    by (intro session_inv_mono [OF assms(2)]) simp_all
next
  case (revoked c' sid reason)
  have "sessions_wf c s" using assms(2) by (simp add: session_inv_def)
  with revoked show ?thesis
    by (intro session_inv_mono [OF assms(2)]) (simp_all add: revoke_id_wf revoke_id_live)
next
  case (revoked_all c' uid reason)
  have "sessions_wf c s" using assms(2) by (simp add: session_inv_def)
  with revoked_all show ?thesis
    by (intro session_inv_mono [OF assms(2)]) (simp_all add: revoke_all_wf revoke_all_live)
qed

lemma session_run_inv:
  assumes "session_run c s s'" and "session_inv c s" and "settings_ok (conf c)"
  shows "session_inv c s'"
  using assms by (induction rule: session_run.induct) (auto intro: session_step_inv)

lemma session_inv_empty: "sessions s = [] \<Longrightarrow> session_inv c s"
  by (simp add: session_inv_def sessions_wf_def live_count_def)

subsection \<open>What a presented token gets\<close>

definition token_ready :: "ctx \<Rightarrow> string \<Rightarrow> int \<Rightarrow> bool" where
  "token_ready c sid g \<longleftrightarrow> hmac_ok (prims c) \<and> length sid = 32 \<and> CHR ''.'' \<notin> set sid
     \<and> 0 \<le> g \<and> length (py_str_int g) \<le> 119"

text \<open>A genuine token of a stored session reaches \<open>_rotate_locked\<close> with its generation.\<close>

lemma rotate_genuine:
  assumes "token_ready c (s_id row) g"
    and "one_where (\<lambda>r. sql_eq c (s_id r) (s_id row)) (sessions s) = Some row"
    and "s_revoked_at row = None"
  shows "rotate c (Some (build_refresh_token c (s_id row) g (s_salt row))) s
    = (case rotate_locked c row g s of
         (None, s') \<Rightarrow> (Inl (Unauthorized INVALID_REFRESH []), s')
       | (Some x, s') \<Rightarrow> (Inr x, s'))"
proof -
  have parse: "parse_refresh_token (Some (build_refresh_token c (s_id row) g (s_salt row)))
      = Inr (Some \<lparr>rp_session_id = s_id row, rp_generation = g,
                   rp_mac = refresh_mac c (s_id row) g (s_salt row)\<rparr>)"
    using assms(1) by (simp add: token_ready_def parse_build)
  show ?thesis
    using assms(2,3)
    by (auto simp: rotate_def parse transaction_def built_parts_match split: prod.splits option.splits)
qed

text \<open>A token of a revoked session is refused and changes nothing.\<close>

lemma rotate_revoked:
  assumes "token_ready c (s_id row) g"
    and "one_where (\<lambda>r. sql_eq c (s_id r) (s_id row)) (sessions s) = Some row"
    and "s_revoked_at row \<noteq> None"
  shows "rotate c (Some (build_refresh_token c (s_id row) g (s_salt row))) s
    = (Inl (Unauthorized INVALID_REFRESH []), s)"
proof -
  have "parse_refresh_token (Some (build_refresh_token c (s_id row) g (s_salt row)))
      = Inr (Some \<lparr>rp_session_id = s_id row, rp_generation = g,
                   rp_mac = refresh_mac c (s_id row) g (s_salt row)\<rparr>)"
    using assms(1) by (simp add: token_ready_def parse_build)
  with assms(2,3) show ?thesis
    by (simp add: rotate_def transaction_def built_parts_match)
qed

definition row_current :: "ctx \<Rightarrow> session_row \<Rightarrow> db \<Rightarrow> user_row \<Rightarrow> org_row \<Rightarrow> bool" where
  "row_current c row s u g \<longleftrightarrow> utcnow c < s_expires_at row \<and> utcnow c < s_absolute_expires_at row
     \<and> token_user (s_user row) s = Some (u, g) \<and> u_active u \<and> o_active g"

lemma rotate_locked_current:
  assumes "row_current c row s u g"
  shows "rotate_locked c row (s_generation row) s =
    (Some ((u, g), issued_for c row (s_generation row + 1) (next_expiry c row)),
     s\<lparr>sessions := update_where (\<lambda>r. sql_eq c (s_id r) (s_id row)) (bump_row c) (sessions s)\<rparr>)"
  using assms by (auto simp: rotate_locked_def row_current_def)

lemma rotate_locked_grace:
  assumes "row_current c row s u g" and "within_grace c row"
  shows "rotate_locked c row (s_generation row - 1) s =
    (Some ((u, g), issued_for c row (s_generation row) (s_expires_at row)), s)"
  using assms by (auto simp: rotate_locked_def row_current_def)

text \<open>Any other generation of a live session is a replay: the session is revoked.\<close>

lemma rotate_locked_replay:
  assumes "row_current c row s u g" and "presented \<noteq> s_generation row"
    and "\<not> (presented = s_generation row - 1 \<and> within_grace c row)"
  shows "fst (rotate_locked c row presented s) = None"
    and "sessions (snd (rotate_locked c row presented s)) = sessions (revoke_id c (s_id row) ''reuse_detected'' s)"
  using assms by (auto simp: rotate_locked_def row_current_def)

lemma lookup_after_update:
  assumes "one_where (\<lambda>r. sql_eq c (s_id r) sid) rs = Some row" and "P row"
    and "\<And>r. s_id (f r) = s_id r"
  shows "one_where (\<lambda>r. sql_eq c (s_id r) sid) (update_where P f rs) = Some (f row)"
proof -
  have "find (\<lambda>r. sql_eq c (s_id r) sid) (update_where P f rs)
      = map_option (\<lambda>r. if P r then f r else r) (find (\<lambda>r. sql_eq c (s_id r) sid) rs)"
    using assms(3) by (induction rs) (auto simp: update_where_def)
  then show ?thesis using assms(1,2) by (simp add: one_where_def)
qed

text \<open>
  Two requests racing with the same token: the second one, inside the grace period, gets
  the very token the first one was given, and changes nothing.
\<close>

lemma rotate_race:
  assumes ready: "token_ready c (s_id row) (s_generation row)" "token_ready c (s_id row) (s_generation row + 1)"
    and look: "one_where (\<lambda>r. sql_eq c (s_id r) (s_id row)) (sessions s) = Some row"
    and live: "s_revoked_at row = None" and cur: "row_current c row s u g"
    and later: "same_site c c'" "prims c' = prims c"
      "utcnow c' - utcnow c \<le> refresh_reuse_grace_seconds (conf c) * us_per_second"
      "utcnow c' < next_expiry c row" "utcnow c' < s_absolute_expires_at row"
    and tok: "tok = build_refresh_token c (s_id row) (s_generation row) (s_salt row)"
    and first: "rotate c (Some tok) s = (Inr (ug, iss), s1)"
  shows "\<exists>iss'. rotate c' (Some tok) s1 = (Inr (ug, iss'), s1)
    \<and> is_refresh_token iss' = is_refresh_token iss \<and> is_session_id iss' = is_session_id iss"
proof -
  let ?row' = "bump_row c row"
  have s1: "s1 = s\<lparr>sessions := update_where (\<lambda>r. sql_eq c (s_id r) (s_id row)) (bump_row c) (sessions s)\<rparr>"
    and ug: "ug = (u, g)" and iss: "iss = issued_for c row (s_generation row + 1) (next_expiry c row)"
    using first rotate_genuine [OF ready(1) look live] rotate_locked_current [OF cur]
    by (auto simp: tok)
  have site: "conf c' = conf c" "sql_eq c' = sql_eq c" "derive_key c' = derive_key c"
    using later(1,2) by (auto simp: same_site_def sql_eq_def derive_key_def fun_eq_iff)
  have mac: "build_refresh_token c' = build_refresh_token c"
    by (simp add: build_refresh_token_def refresh_mac_def site later(2) fun_eq_iff)
  have look': "one_where (\<lambda>r. sql_eq c' (s_id r) (s_id ?row')) (sessions s1) = Some ?row'"
    using lookup_after_update [OF look, of "\<lambda>r. sql_eq c (s_id r) (s_id row)" "bump_row c"]
    by (simp add: s1 site)
  have "token_user (s_user ?row') s1 = token_user (s_user row) s"
    by (simp add: s1 token_user_def split: option.split)
  then have cur': "row_current c' ?row' s1 u g"
    using cur later(4,5) by (simp add: row_current_def)
  have grace: "within_grace c' ?row'"
    using later(3) by (simp add: within_grace_def site)
  have ready': "token_ready c' (s_id ?row') (s_generation row)"
    using ready(1) later(2) by (simp add: token_ready_def)
  have "rotate_locked c' ?row' (s_generation row) s1
      = (Some ((u, g), issued_for c' ?row' (s_generation row + 1) (s_expires_at ?row')), s1)"
    using rotate_locked_grace [OF cur' grace] by simp
  moreover have "rotate c' (Some tok) s1 = (case rotate_locked c' ?row' (s_generation row) s1 of
         (None, s') \<Rightarrow> (Inl (Unauthorized INVALID_REFRESH []), s')
       | (Some x, s') \<Rightarrow> (Inr x, s'))"
    using rotate_genuine [OF ready' look'] live by (simp add: tok mac)
  ultimately show ?thesis
    by (simp add: ug iss issued_for_def mac)
qed

text \<open>
  A replayed token revokes its session; from then on the legitimate holder's token is
  refused too.
\<close>

lemma rotate_theft:
  assumes ready: "token_ready c (s_id row) g0" "token_ready c (s_id row) (s_generation row)"
    and look: "one_where (\<lambda>r. sql_eq c (s_id r) (s_id row)) (sessions s) = Some row"
    and live: "s_revoked_at row = None" and cur: "row_current c row s u g"
    and old: "g0 \<noteq> s_generation row" "\<not> (g0 = s_generation row - 1 \<and> within_grace c row)"
  shows "\<exists>s1. rotate c (Some (build_refresh_token c (s_id row) g0 (s_salt row))) s
        = (Inl (Unauthorized INVALID_REFRESH []), s1)
      \<and> rotate c (Some (build_refresh_token c (s_id row) (s_generation row) (s_salt row))) s1
        = (Inl (Unauthorized INVALID_REFRESH []), s1)"
proof -
  define s1 where "s1 = snd (rotate_locked c row g0 s)"
  let ?row' = "mark_revoked (utcnow c) ''reuse_detected'' row"
  note replay = rotate_locked_replay [OF cur old]
  have "rotate_locked c row g0 s = (None, s1)"
    using replay(1) by (simp add: s1_def prod_eq_iff)
  then have first: "rotate c (Some (build_refresh_token c (s_id row) g0 (s_salt row))) s
      = (Inl (Unauthorized INVALID_REFRESH []), s1)"
    using rotate_genuine [OF ready(1) look live] by simp
  have "sessions s1 = update_where (\<lambda>r. sql_eq c (s_id r) (s_id row) \<and> s_revoked_at r = None)
      (mark_revoked (utcnow c) ''reuse_detected'') (sessions s)"
    using replay(2) by (simp add: s1_def revoke_id_def)
  then have look': "one_where (\<lambda>r. sql_eq c (s_id r) (s_id ?row')) (sessions s1) = Some ?row'"
    using lookup_after_update [OF look, of "\<lambda>r. sql_eq c (s_id r) (s_id row) \<and> s_revoked_at r = None"
        "mark_revoked (utcnow c) ''reuse_detected''"] live by simp
  have "rotate c (Some (build_refresh_token c (s_id ?row') (s_generation row) (s_salt ?row'))) s1
      = (Inl (Unauthorized INVALID_REFRESH []), s1)"
    using rotate_revoked [OF _ look'] ready(2) by simp
  with first show ?thesis by auto
qed

end
