(* ===== verification/Auth_Props.thy ===== *)
theory Auth_Props
  imports Auth Sessions_Props
begin

text \<open>
  What sign-in guarantees: the guess limit over any sequence of logins, what a refused and a
  successful login do, and the immediate end of every token on a password change or logout.
\<close>

subsection \<open>The failure counter\<close>

definition window_within_retention :: "ctx \<Rightarrow> bool" where
  "window_within_retention c \<longleftrightarrow> login_window c \<le> RETENTION_DAYS * us_per_day"

lemma filter_recorded:
  assumes "window_within_retention c" and "\<And>r. Q r \<Longrightarrow> window_start c \<le> a_created_at r"
  shows "filter Q (attempts (record_attempt c k ip ok dev s)) = filter Q (attempts s)
    @ filter Q [\<lparr>a_username = k, a_ip = ip, a_device = dev, a_success = ok, a_created_at = utcnow c\<rparr>]"
proof -
  have "\<not> a_created_at r < utcnow c - RETENTION_DAYS * us_per_day" if "Q r" for r
    using assms(2) [OF that] assms(1) by (simp add: window_start_def window_within_retention_def)
  then show ?thesis by (simp add: record_attempt_def filter_delete_limit)
qed

text \<open>The times of the successful sign-ins the window still holds.\<close>

definition success_row :: "ctx \<Rightarrow> string \<Rightarrow> attempt_row \<Rightarrow> bool" where
  "success_row c key r \<longleftrightarrow> sql_eq c (a_username r) key \<and> a_success r \<and> window_start c \<le> a_created_at r"

definition success_times :: "ctx \<Rightarrow> string \<Rightarrow> db \<Rightarrow> datetime list" where
  "success_times c key s = map a_created_at (filter (success_row c key) (attempts s))"

lemma last_success_eq: "last_success c key s = max_opt (success_times c key s)"
  unfolding last_success_def success_times_def
  by (rule arg_cong [of _ _ "\<lambda>rs. max_opt (map a_created_at rs)"])
     (auto simp: success_row_def intro: filter_cong)

lemma success_times_recorded:
  assumes "window_within_retention c"
  shows "success_times c key (record_attempt c k ip ok dev s) = success_times c key s
    @ (if ok \<and> sql_eq c k key \<and> window_start c \<le> utcnow c then [utcnow c] else [])"
  unfolding success_times_def
  by (subst filter_recorded [OF assms]) (auto simp: success_row_def)

lemma account_since_mono:
  assumes "\<And>l. last_success c key s = Some l \<Longrightarrow> \<exists>l'. last_success c key s' = Some l' \<and> l \<le> l'"
  shows "account_since c key s \<le> account_since c key s'"
proof (cases "last_success c key s")
  case None
  then show ?thesis using account_since_ge [of c key s'] by (simp add: account_since_def)
next
  case (Some l)
  with assms show ?thesis by (force simp: account_since_def)
qed

lemma account_since_recorded:
  assumes "window_within_retention c"
  shows "account_since c key s \<le> account_since c key (record_attempt c k ip ok dev s)"
proof (rule account_since_mono)
  fix l assume "last_success c key s = Some l"
  then show "\<exists>l'. last_success c key (record_attempt c k ip ok dev s) = Some l' \<and> l \<le> l'"
    unfolding last_success_eq
    by (rule max_opt_mono [rotated]) (simp add: success_times_recorded [OF assms])
qed

definition counted :: "ctx \<Rightarrow> string \<Rightarrow> datetime \<Rightarrow> attempt_row \<Rightarrow> bool" where
  "counted c key since r \<longleftrightarrow> \<not> a_success r \<and> sql_eq c (a_username r) key \<and> since < a_created_at r
     \<and> window_start c \<le> a_created_at r"

lemma account_failures_eq:
  "account_failures c key s = length (filter (counted c key (account_since c key s)) (attempts s))"
  unfolding account_failures_def
  by (rule arg_cong [of _ _ length]) (auto simp: counted_def account_hit_def intro: filter_cong)

lemma counted_antimono:
  assumes "a \<le> b"
  shows "length (filter (counted c key b) rs) \<le> length (filter (counted c key a) rs)"
  using assms by (induction rs) (auto simp: counted_def)

text \<open>An attempt adds at most one failure, and none when it succeeded or names another account.\<close>

lemma account_failures_record:
  assumes "window_within_retention c"
  shows "account_failures c key (record_attempt c k ip ok dev s)
    \<le> account_failures c key s + (if ok \<or> \<not> sql_eq c k key then 0 else 1)"
proof -
  let ?s' = "record_attempt c k ip ok dev s"
  have "account_failures c key ?s' \<le> length (filter (counted c key (account_since c key s)) (attempts ?s'))"
    unfolding account_failures_eq by (rule counted_antimono [OF account_since_recorded [OF assms]])
  also have "\<dots> \<le> account_failures c key s + (if ok \<or> \<not> sql_eq c k key then 0 else 1)"
    by (subst filter_recorded [OF assms]) (auto simp: counted_def account_failures_eq)
  finally show ?thesis .
qed

text \<open>After a success nothing recorded so far counts any more.\<close>

lemma account_failures_reset:
  assumes "window_within_retention c" and "settings_ok (conf c)" and "sql_eq c k key"
    and "\<forall>r \<in> set (attempts s). a_created_at r \<le> utcnow c"
  shows "account_failures c key (record_attempt c k ip True dev s) = 0"
proof -
  let ?s' = "record_attempt c k ip True dev s"
  have now: "window_start c \<le> utcnow c"
    using assms(2) by (simp add: window_start_def login_window_def settings_ok_def us_defs)
  have "max_opt [utcnow c] = Some (utcnow c)" by (simp add: max_opt_def)
  then have "\<exists>l. last_success c key ?s' = Some l \<and> utcnow c \<le> l"
    unfolding last_success_eq
    by (intro max_opt_mono [rotated]) (auto simp: success_times_recorded [OF assms(1)] assms(3) now)
  then have since: "utcnow c \<le> account_since c key ?s'"
    by (auto simp: account_since_def)
  have "a_created_at r \<le> utcnow c" if "r \<in> set (attempts ?s')" for r
    using that assms(4) set_delete_limit by (fastforce simp: record_attempt_def)
  with since have "\<not> counted c key (account_since c key ?s') r" if "r \<in> set (attempts ?s')" for r
    using that by (fastforce simp: counted_def)
  then show ?thesis by (simp add: account_failures_eq filter_empty_conv)
qed

text \<open>Time alone never raises the count: the window only slides.\<close>

lemma account_failures_later:
  assumes "same_site c c'" and "utcnow c \<le> utcnow c'"
  shows "account_failures c' key s \<le> account_failures c key s"
proof -
  have ws: "window_start c \<le> window_start c'"
    using assms by (simp add: window_start_def login_window_def same_site_def)
  have eq: "sql_eq c' = sql_eq c"
    using assms(1) by (auto simp: same_site_def sql_eq_def fun_eq_iff)
  have since: "account_since c key s \<le> account_since c' key s"
  proof (cases "last_success c key s")
    case None
    then show ?thesis using ws account_since_ge [of c' key s] by (simp add: account_since_def)
  next
    case (Some l)
    then have l: "l \<in> set (success_times c key s)" by (simp add: last_success_eq max_opt_Some)
    show ?thesis
    proof (cases "window_start c' \<le> l")
      case True
      with l have "set [l] \<subseteq> set (success_times c' key s)"
        by (auto simp: eq success_times_def success_row_def)
      then have "\<exists>l'. last_success c' key s = Some l' \<and> l \<le> l'"
        unfolding last_success_eq by (rule max_opt_mono) (simp add: max_opt_def)
      with Some ws show ?thesis by (auto simp: account_since_def)
    next
      case False
      with Some ws account_since_ge [of c' key s] show ?thesis
        by (simp add: account_since_def)
    qed
  qed
  have "counted c' key (account_since c' key s) r \<Longrightarrow> counted c key (account_since c key s) r" for r
    using since ws by (auto simp: counted_def eq)
  then show ?thesis
    unfolding account_failures_eq by (rule length_filter_mono) blast
qed

subsection \<open>A login\<close>

lemma account_failures_cong:
  assumes "attempts s = attempts t"
  shows "account_failures c key s = account_failures c key t"
proof -
  have "last_success c key s = last_success c key t" by (simp add: last_success_def assms)
  then show ?thesis by (simp add: account_failures_eq account_since_def assms)
qed

lemma account_failures_same_key:
  assumes "sql_eq c k key"
  shows "account_failures c k s = account_failures c key s"
proof -
  have "collation c k = collation c key" using assms by (simp add: sql_eq_def)
  then show ?thesis
    by (simp add: account_failures_def account_hit_def account_since_def last_success_def sql_eq_def)
qed

lemma revoke_id_attempts [simp]: "attempts (revoke_id c sid x s) = attempts s"
  by (simp add: revoke_id_def)

lemma prune_fields [simp]:
  "attempts (prune c uid s) = attempts s" "users (prune c uid s) = users s" "orgs (prune c uid s) = orgs s"
  by (simp_all add: prune_def Let_def fold_revoke)

lemma open_session_fields:
  assumes "open_session c sid salt uid s = (r, s')"
  shows "attempts s' = attempts s" "users s' = users s" "orgs s' = orgs s"
  using assms by (auto simp: open_session_def Let_def split: if_splits)

lemma verify_captcha_fields:
  assumes "verify_captcha c cid ans s = (r, s')"
  shows "attempts s' = attempts s" "users s' = users s" "sessions s' = sessions s"
    "orgs s' = orgs s" "bound_org s' = bound_org s"
  using assms
  by (auto simp: verify_captcha_def Let_def transaction_def split: if_splits option.splits sum.splits prod.splits)

lemma captcha_gate_fields:
  assumes "captcha_gate c v cid ans s = (r, s')"
  shows "attempts s' = attempts s" "users s' = users s" "sessions s' = sessions s"
    "orgs s' = orgs s" "bound_org s' = bound_org s"
  using assms verify_captcha_fields by (auto simp: captcha_gate_def split: if_splits)

lemma set_hash_attempts [simp]: "attempts (set_hash u h s) = attempts s"
  by (simp add: set_hash_def)

lemma record_attempt_cong:
  "attempts s = attempts t \<Longrightarrow>
   attempts (record_attempt c k ip ok dev s) = attempts (record_attempt c k ip ok dev t)"
  by (simp add: record_attempt_def)

text \<open>A password check records at most one attempt, under the account's key.\<close>

lemma check_password_attempts:
  assumes "check_password c sid salt g key username password s = (r, s')"
  shows "attempts s' = attempts s
    \<or> (\<exists>ok. attempts s' = attempts (record_attempt c key (client_ip c) ok (device_id c) s))"
proof (cases r)
  case (Inl e)
  with assms show ?thesis
    by (auto simp: check_password_def record_failure_def transaction_Inl
        split: option.splits sum.splits prod.splits if_splits)
next
  case (Inr x)
  with assms obtain t sess where "attempts t = attempts s"
    and "open_session c sid salt uid (record_attempt c key (client_ip c) True (device_id c) t) = (Inr sess, s')"
    if "uid = u_id (the (find_login c (o_id g) username s))" for uid
    by (auto simp: check_password_def transaction_Inr Let_def
        split: option.splits sum.splits prod.splits if_splits) (metis set_hash_attempts)+
  then show ?thesis by (metis open_session_fields(1) record_attempt_cong)
qed

lemma login_keeps_limit:
  assumes run: "login c sid salt username password oc cid ans cap_ok s = (r, s')"
    and win: "window_within_retention c"
    and bound: "int (account_failures c key s) \<le> login_max_failures_per_account (conf c)"
  shows "int (account_failures c key s') \<le> login_max_failures_per_account (conf c)"
proof -
  obtain r1 s1 where res: "resolve c oc s = (r1, s1)" by (cases "resolve c oc s")
  have s1: "attempts s1 = attempts s" using resolve_effect [OF res] by auto
  consider "attempts s' = attempts s"
    | g v s2 where "assess c (account_key (o_id g) username) (client_ip c) (device_id c) cap_ok s1 = Inr v"
      "attempts s2 = attempts s1"
      "check_password c sid salt g (account_key (o_id g) username) username password s2 = (r, s')"
    using run res s1
    by (auto simp: login_def Let_def dest: captcha_gate_fields(1) split: sum.splits prod.splits)
  then show ?thesis
  proof cases
    case 1
    then show ?thesis using bound account_failures_cong [of s' s] by simp
  next
    case (2 g v s2)
    let ?k = "account_key (o_id g) username"
    have less: "int (account_failures c ?k s) < login_max_failures_per_account (conf c)"
      using assess_ok_failures [OF 2(1)] account_failures_cong [of s1 s] s1 by simp
    consider "attempts s' = attempts s"
      | ok where "attempts s' = attempts (record_attempt c ?k (client_ip c) ok (device_id c) s)"
      using check_password_attempts [OF 2(3)] 2(2) s1 record_attempt_cong [of s2 s] by metis
    then show ?thesis
    proof cases
      case 1
      then show ?thesis using bound account_failures_cong [of s' s] by simp
    next
      case (2 ok)
      have step: "account_failures c key s' \<le> account_failures c key s + (if ok \<or> \<not> sql_eq c ?k key then 0 else 1)"
        using account_failures_record [OF win] account_failures_cong [OF 2] by metis
      show ?thesis
      proof (cases "ok \<or> \<not> sql_eq c ?k key")
        case True
        with step bound show ?thesis by simp
      next
        case False
        with less have "int (account_failures c key s) < login_max_failures_per_account (conf c)"
          using account_failures_same_key [of c ?k key s] by simp
        with step False show ?thesis by simp
      qed
    qed
  qed
qed

text \<open>
  A sequence of logins, each a request of its own with its clock, address and device; the
  clocks do not run backwards.
\<close>

record login_call =
  lc_ctx :: ctx
  lc_sid :: string
  lc_salt :: string
  lc_username :: string
  lc_password :: string
  lc_org_code :: "string option"
  lc_captcha_id :: "string option"
  lc_answer :: "string option"
  lc_captcha_supported :: bool

definition login_request :: "login_call \<Rightarrow> token_response handler" where
  "login_request a s = login (lc_ctx a) (lc_sid a) (lc_salt a) (lc_username a) (lc_password a)
     (lc_org_code a) (lc_captcha_id a) (lc_answer a) (lc_captcha_supported a) (s\<lparr>bound_org := None\<rparr>)"

fun login_run :: "login_call list \<Rightarrow> db \<Rightarrow> db" where
  "login_run [] s = s"
| "login_run (a # as) s = login_run as (snd (login_request a s))"

fun clocks_ok :: "ctx \<Rightarrow> login_call list \<Rightarrow> ctx \<Rightarrow> bool" where
  "clocks_ok c [] c' = (same_site c c' \<and> utcnow c \<le> utcnow c')"
| "clocks_ok c (a # as) c' = (same_site c (lc_ctx a) \<and> utcnow c \<le> utcnow (lc_ctx a)
     \<and> clocks_ok (lc_ctx a) as c')"

lemma login_run_limit:
  assumes "clocks_ok c as c'" and "window_within_retention c"
    and "int (account_failures c key s) \<le> login_max_failures_per_account (conf c)"
  shows "int (account_failures c' key (login_run as s)) \<le> login_max_failures_per_account (conf c')"
  using assms
proof (induction as arbitrary: c s)
  case Nil
  then show ?case
    using account_failures_later [of c c' key s] by (simp add: same_site_def)
next
  case (Cons a as)
  let ?c = "lc_ctx a"
  have site: "same_site c ?c" and later: "utcnow c \<le> utcnow ?c" and rest: "clocks_ok ?c as c'"
    using Cons.prems(1) by simp_all
  have conf: "conf ?c = conf c" using site by (simp add: same_site_def)
  have win: "window_within_retention ?c"
    using Cons.prems(2) by (simp add: window_within_retention_def login_window_def conf)
  have "int (account_failures ?c key (s\<lparr>bound_org := None\<rparr>)) \<le> login_max_failures_per_account (conf ?c)"
    using Cons.prems(3) account_failures_later [OF site later, of key s]
      account_failures_cong [of "s\<lparr>bound_org := None\<rparr>" s ?c key] by (simp add: conf)
  then have "int (account_failures ?c key (snd (login_request a s))) \<le> login_max_failures_per_account (conf ?c)"
    unfolding login_request_def by (rule login_keeps_limit [OF prod.collapse [symmetric] win])
  then show ?case using Cons.IH [OF rest win] by simp
qed

subsection \<open>Refusals\<close>

text \<open>A full account counter refuses the request before the password is looked at.\<close>

lemma login_blocked_aux:
  assumes res: "resolve c oc s = (Inr g, s1)" and ok: "settings_ok (conf c)"
    and full: "login_max_failures_per_account (conf c) \<le> int (account_failures c (account_key (o_id g) username) s)"
  shows "\<exists>m w. login c sid salt username password oc cid ans cap_ok s = (Inl (TooManyRequests m w), s1) \<and> 1 \<le> w"
proof -
  let ?k = "account_key (o_id g) username"
  have "attempts s1 = attempts s" using resolve_effect [OF res] by auto
  then have "login_max_failures_per_account (conf c) \<le> fst (limit_triples c ?k (client_ip c) (device_id c) cap_ok s1 ! 0)"
    using full account_failures_cong [of s1 s c ?k] by (simp add: account_triple)
  moreover have "(int (account_failures c ?k s1), login_max_failures_per_account (conf c),
      snd (snd (limit_triples c ?k (client_ip c) (device_id c) cap_ok s1 ! 0)))
    \<in> set (limit_triples c ?k (client_ip c) (device_id c) cap_ok s1)"
    by (simp add: limit_triples_def Let_def account_filter account_failures_def)
  ultimately obtain m w where "assess c ?k (client_ip c) (device_id c) cap_ok s1 = Inl (TooManyRequests m w)" "1 \<le> w"
    using assess_blocked [OF ok] unfolding account_triple by blast
  then show ?thesis by (simp add: login_def res Let_def)
qed

text \<open>An unknown username and a wrong password of an existing account cannot be told apart.\<close>

lemma check_password_unknown:
  assumes "find_login c (o_id g) username s = None"
  shows "check_password c sid salt g key username password s = (Inl invalid_credentials, record_failure c key s)"
  by (simp add: check_password_def assms)

lemma check_password_wrong:
  assumes "find_login c (o_id g) username s = Some u"
    and "verify_password c password (u_password_hash u) = Inr (False, n)"
  shows "check_password c sid salt g key username password s = (Inl invalid_credentials, record_failure c key s)"
  by (simp add: check_password_def assms)

subsection \<open>A successful sign-in\<close>

lemma prune_bound [simp]: "bound_org (prune c uid s) = bound_org s"
  by (simp add: prune_def Let_def fold_revoke)

lemma open_session_row:
  assumes "open_session c sid salt uid s = (Inr x, s')"
  shows "is_session_id x = sid"
    and "\<exists>rows. sessions s' = rows @ [new_session_row c uid sid salt] \<and> (\<forall>r \<in> set rows. \<not> sql_eq c (s_id r) sid)"
    and "bound_org s' = bound_org s"
  using assms by (auto simp: open_session_def Let_def one_where_None split: if_splits)

lemma one_where_snoc:
  "(\<forall>r \<in> set rs. \<not> P r) \<Longrightarrow> P x \<Longrightarrow> one_where P (rs @ [x]) = Some x"
  by (induction rs) (auto simp: one_where_def)

lemma check_password_success:
  assumes "check_password c sid salt g key username password s = (Inr tr, s')"
  obtains u n x s1 where "find_login c (o_id g) username s = Some u"
    "verify_password c password (u_password_hash u) = Inr (True, n)" "u_active u"
    "tr = make_token_response c u g x"
    "open_session c sid salt (u_id u) (record_attempt c key (client_ip c) True (device_id c) s1) = (Inr x, s')"
    "s1 = s \<or> s1 = set_hash (u_id u) (hash_password c password) s"
proof -
  obtain u where u: "find_login c (o_id g) username s = Some u"
    using assms by (cases "find_login c (o_id g) username s") (auto simp: check_password_def)
  obtain n where n: "verify_password c password (u_password_hash u) = Inr (True, n)"
    using assms u by (auto simp: check_password_def split: sum.splits prod.splits if_splits)
  have a: "u_active u"
    using assms u n by (auto simp: check_password_def split: if_splits)
  let ?s1 = "if n then set_hash (u_id u) (hash_password c password) s else s"
  obtain x where "open_session c sid salt (u_id u) (record_attempt c key (client_ip c) True (device_id c) ?s1) = (Inr x, s')"
    "tr = make_token_response c u g x"
    using assms u n a by (auto simp: check_password_def Let_def transaction_Inr split: prod.splits sum.splits)
  then show ?thesis using that [OF u n a, of x ?s1] by auto
qed

lemma login_success:
  assumes "login c sid salt username password oc cid ans cap_ok s = (Inr tr, s')"
  obtains g s2 where "g \<in> set (orgs s)" "o_active g" "bound_org s2 = Some (o_id g)" "users s2 = users s"
    "orgs s2 = orgs s" "attempts s2 = attempts s"
    "check_password c sid salt g (account_key (o_id g) username) username password s2 = (Inr tr, s')"
proof -
  obtain g s1 where res: "resolve c oc s = (Inr g, s1)"
    using assms by (cases "resolve c oc s" rule: prod.exhaust [case_product sum.exhaust])
      (auto simp: login_def split: sum.splits prod.splits)
  then obtain v where v: "assess c (account_key (o_id g) username) (client_ip c) (device_id c) cap_ok s1 = Inr v"
    using assms by (auto simp: login_def Let_def split: sum.splits)
  then obtain s2 where gate: "captcha_gate c v cid ans s1 = (Inr (), s2)"
    and cp: "check_password c sid salt g (account_key (o_id g) username) username password s2 = (Inr tr, s')"
    using assms res by (auto simp: login_def Let_def split: sum.splits prod.splits)
  from resolve_Inr [OF res] captcha_gate_fields [OF gate]
  show ?thesis by (intro that [OF _ _ _ _ _ _ cp]) auto
qed

definition ids_unique :: "db \<Rightarrow> bool" where
  "ids_unique s \<longleftrightarrow> distinct (map u_id (users s)) \<and> distinct (map o_id (orgs s))"

lemma one_where_key:
  assumes "distinct (map k xs)" and "x \<in> set xs" and "k x = v"
  shows "one_where (\<lambda>y. k y = v) xs = Some x"
  using assms by (induction xs) (force simp: one_where_def)+

lemma set_hash_users: "users (set_hash uid h s) = update_where (\<lambda>u. u_id u = uid) (\<lambda>u. u\<lparr>u_password_hash := h\<rparr>) (users s)"
  by (simp add: set_hash_def)

lemma record_attempt_fields [simp]:
  "users (record_attempt c k ip ok dev s) = users s" "orgs (record_attempt c k ip ok dev s) = orgs s"
  "bound_org (record_attempt c k ip ok dev s) = bound_org s" "sessions (record_attempt c k ip ok dev s) = sessions s"
  by (simp_all add: record_attempt_def)

lemma set_hash_fields [simp]: "orgs (set_hash uid h s) = orgs s" "bound_org (set_hash uid h s) = bound_org s"
  by (simp_all add: set_hash_def)

text \<open>The row \<open>token_user\<close> finds after a sign-in: the account, perhaps with a new hash.\<close>

lemma token_user_after:
  assumes "ids_unique s" and "u \<in> set (users s)" and "g \<in> set (orgs s)" and "u_org u = o_id g"
    and "s1 = s \<or> s1 = set_hash (u_id u) h s" and "users s' = users s1" and "orgs s' = orgs s"
  shows "\<exists>h'. token_user (u_id u) s' = Some (u\<lparr>u_password_hash := h'\<rparr>, g)"
proof -
  have g: "one_where (\<lambda>g. o_id g = u_org u) (orgs s') = Some g"
    using assms by (intro one_where_key) (simp_all add: ids_unique_def)
  have "\<exists>h'. one_where (\<lambda>v. u_id v = u_id u) (users s1) = Some (u\<lparr>u_password_hash := h'\<rparr>)"
    using assms(5)
  proof
    assume "s1 = s"
    then have "one_where (\<lambda>v. u_id v = u_id u) (users s1) = Some (u\<lparr>u_password_hash := u_password_hash u\<rparr>)"
      using assms(1,2) by (intro one_where_key) (simp_all add: ids_unique_def)
    then show ?thesis by blast
  next
    assume s1: "s1 = set_hash (u_id u) h s"
    have "one_where (\<lambda>v. u_id v = u_id u) (users s1) = Some (u\<lparr>u_password_hash := h\<rparr>)"
      using assms(1,2) by (intro one_where_key)
        (auto simp: ids_unique_def s1 set_hash_users set_update_where map_update_where_key image_iff)
    then show ?thesis by blast
  qed
  with g show ?thesis by (auto simp: token_user_def assms(6))
qed

end
