(* ===== verification/Auth_Tokens.thy ===== *)
theory Auth_Tokens
  imports Auth_Props
begin

text \<open>
  Which access and refresh tokens are accepted, and when they stop being accepted: the token
  of a fresh login works until it expires, no token works without a live session, and a
  password change or \<open>logout_everywhere\<close> ends them all. Pictures are for one guess.
\<close>

lemma make_token_response_fields:
  "tr_access_token (make_token_response c u g x) =
     fst (create_access_token c (u_id u) (role_name (u_type u)) (is_session_id x) (u_token_version u) (Some (u_org u)))"
  "tr_expires_in (make_token_response c u g x) = access_token_minutes (conf c) * 60"
  by (simp_all add: make_token_response_def create_access_token_def Let_def)

text \<open>\<open>authenticate\<close> with a decoded token of a session that is live.\<close>

lemma authenticate_live:
  assumes "decode_access_token c tok = Inr \<lparr>ac_user_id = u_id u, ac_session_id = sid, ac_token_version = u_token_version u,
        ac_role = ro, ac_org_id = Some (u_org u)\<rparr>"
    and "token_user (u_id u) s = Some (u', g)" and "u' = u\<lparr>u_password_hash := h\<rparr>"
    and "one_where (\<lambda>r. sql_eq c (s_id r) sid \<and> s_user r = u_id u) (sessions s) = Some r"
    and "s_revoked_at r = None" and "u_active u" and "o_active g" and "bound_org s = None"
  shows "authenticate c tok s = (Inr (current_user_of u g (s_id r)), s\<lparr>bound_org := Some (u_org u)\<rparr>)"
  using assms by (simp add: authenticate_def bind_org_def current_user_of_def)

lemma login_authenticates_aux:
  assumes run: "login c sid salt username password oc cid ans cap_ok s = (Inr tr, s')"
    and uniq: "ids_unique s" and ids: "\<forall>u \<in> set (users s). 0 \<le> u_id u"
    and jwt: "jwt_ok (prims c)" and site: "same_site c c'" "prims c' = prims c"
    and fresh: "unix_seconds (utcnow c') < unix_seconds (utcnow c) + tr_expires_in tr + CLOCK_SKEW_SECONDS"
  shows "\<exists>cu s''. authenticate c' (tr_access_token tr) (s'\<lparr>bound_org := None\<rparr>) = (Inr cu, s'')
    \<and> cu_id cu = tr_user_id tr \<and> cu_type cu = tr_user_type tr \<and> cu_org cu = tr_org_id tr \<and> cu_session cu = sid
    \<and> bound_org s'' = Some (tr_org_id tr) \<and> sessions s'' = sessions s'"
proof -
  from login_success [OF run] obtain g s2 where g: "g \<in> set (orgs s)" "o_active g" "bound_org s2 = Some (o_id g)"
    and s2: "users s2 = users s" "orgs s2 = orgs s"
    and cp: "check_password c sid salt g (account_key (o_id g) username) username password s2 = (Inr tr, s')"
    by blast
  from check_password_success [OF cp] obtain u n x s1 where u: "find_login c (o_id g) username s2 = Some u" "u_active u"
    and tr: "tr = make_token_response c u g x"
    and op: "open_session c sid salt (u_id u)
        (record_attempt c (account_key (o_id g) username) (client_ip c) True (device_id c) s1) = (Inr x, s')"
    and s1: "s1 = s2 \<or> s1 = set_hash (u_id u) (hash_password c password) s2"
    by blast
  have mem: "u \<in> set (users s)" "u_org u = o_id g"
    using u(1) s2 by (auto simp: find_login_def dest: one_where_Some)
  have fields: "users s' = users s1" "orgs s' = orgs s2" "bound_org s' = Some (o_id g)"
    using open_session_fields [OF op] open_session_row(3) [OF op] s1 g(3) by auto
  obtain h where tu: "token_user (u_id u) s' = Some (u\<lparr>u_password_hash := h\<rparr>, g)"
    using token_user_after [of s2 u g s1 "hash_password c password" s'] uniq mem g s1 fields
    by (auto simp: ids_unique_def s2)
  then have tu': "token_user (u_id u) (s'\<lparr>bound_org := None\<rparr>) = Some (u\<lparr>u_password_hash := h\<rparr>, g)"
    by (simp add: token_user_def split: option.splits)
  obtain rows where rows: "sessions s' = rows @ [new_session_row c (u_id u) sid salt]"
    "\<forall>r \<in> set rows. \<not> sql_eq c (s_id r) sid"
    using open_session_row(2) [OF op] by blast
  have eq: "sql_eq c' = sql_eq c" "conf c' = conf c"
    using site by (auto simp: same_site_def sql_eq_def fun_eq_iff)
  have found: "one_where (\<lambda>r. sql_eq c' (s_id r) sid \<and> s_user r = u_id u) (sessions s')
      = Some (new_session_row c (u_id u) sid salt)"
    unfolding rows(1) using rows(2) by (intro one_where_snoc) (auto simp: eq new_session_row_def Let_def)
  have "decode_access_token c' (tr_access_token tr) = Inr \<lparr>ac_user_id = u_id u, ac_session_id = sid,
      ac_token_version = u_token_version u, ac_role = role_name (u_type u), ac_org_id = Some (u_org u)\<rparr>"
    unfolding tr make_token_response_fields
    by (subst decode_created [OF jwt])
       (use ids mem site fresh open_session_row(1) [OF op] in
         \<open>auto simp: eq tr make_token_response_fields\<close>)
  from authenticate_live [OF this tu' refl _ _ u(2) g(2)] found
  show ?thesis
    by (simp add: tr make_token_response_def create_access_token_def Let_def current_user_of_def mem(2)
        new_session_row_def)
qed

subsection \<open>No live session, no token\<close>

lemma one_where_live:
  assumes "one_where P rs = Some r" and "live_of uid r"
  shows "filter (live_of uid) rs \<noteq> []"
  using one_where_Some [OF assms(1)] assms(2) by (auto simp: filter_empty_conv)

lemma authenticate_needs_live:
  assumes "authenticate c tok s = (Inr cu, s')"
  shows "0 < live_count (cu_id cu) s"
proof -
  obtain cl :: access_claims and u g r where "token_user (ac_user_id cl) s = Some (u, g)" and "cu = current_user_of u g (s_id r)"
    and "one_where (\<lambda>r. sql_eq c (s_id r) (ac_session_id cl) \<and> s_user r = u_id u) (sessions s) = Some r"
    and "s_revoked_at r = None"
    using assms by (auto simp: authenticate_def Let_def split: sum.splits option.splits if_splits prod.splits)
  then have "filter (live_of (cu_id cu)) (sessions s) \<noteq> []"
    by (intro one_where_live) (auto simp: live_of_def current_user_of_def dest: one_where_Some)
  then show ?thesis by (simp add: live_count_def)
qed

lemma token_user_id: "token_user uid s = Some (u, g) \<Longrightarrow> u_id u = uid"
  by (auto simp: token_user_def dest: one_where_Some split: option.splits)

lemma rotate_needs_live:
  assumes "rotate c raw s = (Inr ((u, g), iss), s')"
  shows "0 < live_count (u_id u) s"
proof -
  obtain parts :: refresh_parts and row s1 where row: "one_where (\<lambda>r. sql_eq c (s_id r) (rp_session_id parts)) (sessions s) = Some row"
    and live: "s_revoked_at row = None"
    and lk: "rotate_locked c row (rp_generation parts) s = (Some ((u, g), iss), s1)"
    using assms by (auto simp: rotate_def transaction_Inr transaction_Inl split: sum.splits option.splits if_splits prod.splits)
  have "token_user (s_user row) s = Some (u, g)"
    using lk by (auto simp: rotate_locked_def split: if_splits option.splits prod.splits)
  with live have "live_of (u_id u) row" by (auto simp: live_of_def dest: token_user_id)
  with one_where_live [OF row] show ?thesis by (simp add: live_count_def)
qed

lemma signed_out:
  assumes "live_count uid s = 0"
  shows "authenticate c tok s = (Inr cu, s') \<Longrightarrow> cu_id cu \<noteq> uid"
    and "refresh c rt s = (Inr tr, s'') \<Longrightarrow> tr_user_id tr \<noteq> uid"
proof -
  show "authenticate c tok s = (Inr cu, s') \<Longrightarrow> cu_id cu \<noteq> uid"
    using authenticate_needs_live assms by fastforce
next
  assume "refresh c rt s = (Inr tr, s'')"
  then obtain u g x where "rotate c (Some rt) s = (Inr ((u, g), x), s'')" "tr = make_token_response c u g x"
    by (auto simp: refresh_def split: sum.splits prod.splits)
  then show "tr_user_id tr \<noteq> uid"
    using rotate_needs_live [of c "Some rt" s u g x s''] assms
    by (auto simp: make_token_response_def split: prod.splits)
qed

lemma set_password_none_live: "live_count uid (set_password c uid pw reason s) = 0"
  by (simp add: set_password_def revoke_all_none_live)

lemma logout_everywhere_none_live: "live_count (cu_id user) (logout_everywhere c user s) = 0"
proof -
  have "live_count (cu_id user) (logout_everywhere c user s)
      = live_count (cu_id user) (revoke_all c (cu_id user) ''logout_all'' (bump_token_version (cu_id user) s))"
    by (simp add: logout_everywhere_def live_count_def forget_user_devices_def)
  then show ?thesis by (simp add: revoke_all_none_live)
qed

text \<open>A changed password leaves one live session of the user, the one it was changed from.\<close>

lemma prune_none_live: "live_count uid s = 0 \<Longrightarrow> live_count uid (prune c uid s) = 0"
proof -
  assume "live_count uid s = 0"
  then have none: "\<And>r. r \<in> set (sessions s) \<Longrightarrow> \<not> live_of uid r"
    by (auto simp: live_count_def filter_empty_conv)
  have "\<not> live_of uid r" if "r \<in> set (sessions (prune c uid s))" for r
    using that none by (auto simp: prune_def Let_def fold_revoke set_update_where split: if_splits)
  then show ?thesis by (simp add: live_count_def filter_empty_conv)
qed

lemma open_session_only:
  assumes "open_session c sid salt uid s = (Inr x, s')" and "live_count uid s = 0"
  shows "live_count uid s' = 1"
  using assms prune_none_live [OF assms(2), of c]
  by (auto simp: open_session_def Let_def live_count_def live_of_def new_session_row_def split: if_splits)

lemma change_password_aux:
  assumes "change_password c sid salt user old new s = (Inr tr, s')"
  shows "live_count (cu_id user) s' = 1"
proof -
  let ?s1 = "audit_record c (Some (cu_id user)) ''auth.password_changed'' (Some ''user'')
    (Some (py_str_int (cu_id user))) [] (set_password c (cu_id user) new ''password_changed'' s)"
  obtain x where op: "open_session c sid salt (cu_id user) ?s1 = (Inr x, s')"
    using assms by (auto simp: change_password_def Let_def transaction_Inr transaction_Inl
        split: sum.splits prod.splits if_splits option.splits)
  have "live_count (cu_id user) ?s1 = 0"
    using set_password_none_live by (simp add: live_count_def)
  then show ?thesis by (rule open_session_only [OF op])
qed

subsection \<open>One guess per picture\<close>

lemma verify_captcha_once_aux:
  assumes first: "verify_captcha c (Some i) (Some a) s = (r, s1)" and ascii: "r \<noteq> Inl TypeError" and answered: "a \<noteq> []"
    and site: "same_site c c'"
  shows "\<exists>b. verify_captcha c' (Some i) ans s1 = (Inl (CaptchaRequired b), s1)"
proof -
  have eq: "sql_eq c' = sql_eq c"
    using site by (auto simp: same_site_def sql_eq_def fun_eq_iff)
  let ?P = "\<lambda>r. sql_eq c (c_id r) (take 32 i)"
  have "i = [] \<or> opt_is_blank ans \<or> one_where ?P (captchas s1) = None
      \<or> (\<exists>row. one_where ?P (captchas s1) = Some row \<and> c_used_at row \<noteq> None)"
  proof (cases "i = []")
    case False
    show ?thesis
    proof (cases "one_where ?P (captchas s)")
      case None
      with first False answered have "s1 = s"
        by (auto simp: verify_captcha_def Let_def transaction_def split: if_splits)
      with None show ?thesis by simp
    next
      case (Some row)
      show ?thesis
      proof (cases "c_used_at row = None")
        case True
        let ?f = "\<lambda>r. r\<lparr>c_used_at := Some (utcnow c)\<rparr>"
        have "captchas s1 = update_where ?P ?f (captchas s)"
          using first ascii False Some True answered
          by (auto simp: verify_captcha_def Let_def transaction_def compare_digest_def
              split: if_splits sum.splits prod.splits)
        moreover have "find ?P (update_where ?P ?f xs) = map_option ?f (find ?P xs)" for xs :: "captcha_row list"
          by (induction xs) (auto simp: update_where_def)
        ultimately have "one_where ?P (captchas s1) = Some (?f row)"
          using Some by (simp add: one_where_def)
        then show ?thesis by simp
      next
        case False
        then show ?thesis
          using first Some \<open>i \<noteq> []\<close> answered
          by (auto simp: verify_captcha_def Let_def transaction_def split: if_splits)
      qed
    qed
  qed blast
  then show ?thesis
    using first by (auto simp: verify_captcha_def Let_def transaction_def eq opt_is_blank_def split: if_splits)
qed

end
