(* ===== verification/Demo.thy ===== *)
theory Demo
  imports Auth
begin

text \<open>
  The concrete environment of the witnesses: a cryptography that computes and meets the
  hypotheses on the libraries (a token is a readable list of its claims behind its key), the
  development settings, and a small school.
\<close>

subsection \<open>A token format that can be read back\<close>

definition net :: "string \<Rightarrow> string" where
  "net s = nat_digits (length s) @ CHR '':'' # s"

definition unnet :: "string \<Rightarrow> string \<times> string" where
  "unnet s = (let n = digits_val 0 (takeWhile ascii_digit s); r = tl (dropWhile ascii_digit s)
     in (take n r, drop n r))"

lemma unnet_net: "unnet (net s @ t) = (s, t)"
proof -
  have d: "\<forall>c \<in> set (nat_digits (length s)). ascii_digit c"
    using nat_digits_ascii by (auto simp: list_all_iff)
  have c: "\<not> ascii_digit (CHR '':'')" by (simp add: ascii_digit_def py_ord_def)
  show ?thesis
    using d c by (simp add: net_def unnet_def Let_def digits_val_nat_digits)
qed

lemma unnet_net_end [simp]: "unnet (net s) = (s, [])"
  using unnet_net [of s "[]"] by simp

definition int_text :: "int \<Rightarrow> string" where
  "int_text i = (if i < 0 then CHR ''-'' # nat_digits (nat (- i)) else nat_digits (nat i))"

definition text_int :: "string \<Rightarrow> int" where
  "text_int s = (if s \<noteq> [] \<and> hd s = CHR ''-'' then - int (digits_val 0 (tl s)) else int (digits_val 0 s))"

lemma text_int_text [simp]: "text_int (int_text i) = i"
proof -
  have "nat_digits n = x # xs \<Longrightarrow> x \<noteq> CHR ''-''" for n x xs
    using nat_digits_ascii [of n] by (auto dest: ascii_digit_not_sign)
  then have "hd (nat_digits n) \<noteq> CHR ''-''" for n
    using nat_digits_not_Nil [of n] by (cases "nat_digits n") auto
  then show ?thesis by (simp add: text_int_def int_text_def digits_val_nat_digits)
qed

fun json_text :: "json_value \<Rightarrow> string" where
  "json_text JNull = ''n''"
| "json_text (JBool b) = (if b then ''t'' else ''f'')"
| "json_text (JInt i) = CHR ''i'' # int_text i"
| "json_text (JStr s) = CHR ''s'' # s"
| "json_text JOther = ''o''"

definition text_json :: "string \<Rightarrow> json_value" where
  "text_json s = (if s = ''n'' then JNull else if s = ''t'' then JBool True else if s = ''f'' then JBool False
     else if s = ''o'' then JOther else if hd s = CHR ''i'' then JInt (text_int (tl s)) else JStr (tl s))"

lemma text_json_text [simp]: "text_json (json_text v) = v"
  by (cases v) (auto simp: text_json_def)

definition demo_jwt_encode :: "string \<Rightarrow> jwt_payload \<Rightarrow> string" where
  "demo_jwt_encode key p = concat (map net [key, json_text (p_typ p), json_text (p_sub p), json_text (p_sid p),
     json_text (p_ver p), json_text (p_role p), json_text (p_org p), int_text (p_iat p), int_text (p_exp p)])"

fun unnets :: "nat \<Rightarrow> string \<Rightarrow> string list" where
  "unnets 0 s = []"
| "unnets (Suc n) s = (case unnet s of (a, r) \<Rightarrow> a # unnets n r)"

lemma unnets_nets: "unnets (length xs) (concat (map net xs)) = xs"
  by (induction xs) (simp_all add: unnet_net)

definition demo_jwt_decode :: "string \<Rightarrow> int \<Rightarrow> string \<Rightarrow> jwt_result" where
  "demo_jwt_decode key now token = (case unnets 9 token of
     [k, ty, su, si, ve, ro, og, ia, ex] \<Rightarrow>
       if k \<noteq> key then JwtInvalid
       else if text_int ex \<le> now - CLOCK_SKEW_SECONDS then JwtExpired
       else JwtPayload \<lparr>p_typ = text_json ty, p_sub = text_json su, p_sid = text_json si, p_ver = text_json ve,
          p_role = text_json ro, p_org = text_json og, p_iat = text_int ia, p_exp = text_int ex\<rparr>
   | _ \<Rightarrow> JwtInvalid)"

lemma demo_jwt: "demo_jwt_decode key now (demo_jwt_encode key p)
    = (if p_exp p \<le> now - CLOCK_SKEW_SECONDS then JwtExpired else JwtPayload p)"
proof -
  let ?xs = "[key, json_text (p_typ p), json_text (p_sub p), json_text (p_sid p),
     json_text (p_ver p), json_text (p_role p), json_text (p_org p), int_text (p_iat p), int_text (p_exp p)]"
  have "unnets (length ?xs) (concat (map net ?xs)) = ?xs" by (rule unnets_nets)
  moreover have "length ?xs = 9" by simp
  ultimately have "unnets 9 (demo_jwt_encode key p) = ?xs" by (simp only: demo_jwt_encode_def)
  then show ?thesis by (simp add: demo_jwt_decode_def)
qed

subsection \<open>Cryptography and settings\<close>

definition demo_crypto :: crypto where
  "demo_crypto = \<lparr>hmac_sha256 = (\<lambda>key m. take 32 (rev m @ key @ replicate 32 (CHR ''x''))),
     sha256_hex = (\<lambda>s. s), argon2_hash = (\<lambda>pw. argon2_prefix @ pw),
     argon2_verify = (\<lambda>h pw. h = argon2_prefix @ pw), argon2_needs_rehash = (\<lambda>h. False),
     jwt_encode = demo_jwt_encode, jwt_decode = demo_jwt_decode\<rparr>"

lemma demo_jwt_ok: "jwt_ok demo_crypto"
  by (simp add: jwt_ok_def demo_crypto_def demo_jwt)

lemma demo_hmac_ok: "hmac_ok demo_crypto"
  by (auto simp: hmac_ok_def demo_crypto_def min_def)

lemma demo_argon2_ok: "argon2_ok demo_crypto"
  by (auto simp: argon2_ok_def demo_crypto_def is_prefix_def)

definition demo_settings :: settings where
  "demo_settings = \<lparr>app_env = ''development'', secret_key = ''k'',
     access_token_minutes = 15, refresh_idle_days = 30, refresh_max_days = 180,
     refresh_reuse_grace_seconds = 60, max_sessions_per_user = 10, login_window_minutes = 15,
     login_max_failures_per_account = 10, login_max_failures_per_ip = 50,
     login_ip_flood_limit = 500, login_max_failures_per_account_device = 5,
     login_captcha_after_account_failures = 3, login_captcha_after_ip_failures = 20,
     captcha_ttl_seconds = 300, captcha_max_per_ip = 300,
     enforce_password_change = False, require_user_email = False,
     reset_code_ttl_minutes = 15, reset_code_max_attempts = 5,
     reset_max_wrong_codes_per_day = 20, reset_max_codes_per_account = 5,
     reset_max_requests_per_ip = 100, reset_window_minutes = 60,
     school_name = ''School'', file_url_ttl_hours = 24, default_org_code = ''DEFAULT'',
     platform_secret = '''', firebase_credentials = ''''\<rparr>"

lemma demo_settings_ok [simp]: "settings_ok demo_settings"
  by (simp add: settings_ok_def demo_settings_def)

text \<open>Tuesday 12 May 2026, 06:00 UTC, and later seconds of that day.\<close>

definition demo_time :: "int \<Rightarrow> datetime" where
  "demo_time sec = 739748 * us_per_day + 6 * us_per_hour + sec * us_per_second"

definition demo :: "int \<Rightarrow> ctx" where
  "demo sec = \<lparr>conf = demo_settings, utcnow = demo_time sec,
     school_now = demo_time sec + 5 * us_per_hour + 30 * us_per_minute,
     client_ip = Some ''10.0.0.7'', user_agent = Some ''app'', device_id = None,
     request_id = Some ''r1'', collation = (\<lambda>s. s), prims = demo_crypto\<rparr>"

lemma demo_fields [simp]:
  "conf (demo t) = demo_settings" "prims (demo t) = demo_crypto" "sql_eq (demo t) = (=)"
  "utcnow (demo t) = demo_time t" "client_ip (demo t) = Some ''10.0.0.7''" "device_id (demo t) = None"
  by (simp_all add: demo_def sql_eq_def fun_eq_iff)

lemma demo_settings_fields [simp]:
  "default_org_code demo_settings = ''DEFAULT''" "login_window_minutes demo_settings = 15"
  "login_max_failures_per_account demo_settings = 10" "login_max_failures_per_ip demo_settings = 50"
  "login_max_failures_per_account_device demo_settings = 5" "max_sessions_per_user demo_settings = 10"
  "login_ip_flood_limit demo_settings = 500" "secret_key demo_settings = ''k''"
  "refresh_idle_days demo_settings = 30" "refresh_max_days demo_settings = 180"
  "access_token_minutes demo_settings = 15" "refresh_reuse_grace_seconds demo_settings = 60"
  "reset_window_minutes demo_settings = 60" "reset_max_codes_per_account demo_settings = 5"
  "reset_code_max_attempts demo_settings = 5" "reset_max_wrong_codes_per_day demo_settings = 20"
  "reset_code_ttl_minutes demo_settings = 15" "reset_max_requests_per_ip demo_settings = 100"
  by (simp_all add: demo_settings_def)

lemma demo_strings:
  "py_upper ''DEFAULT'' = ''DEFAULT''" "py_strip [] = []" "py_strip ''DEFAULT'' = ''DEFAULT''" "account_key 1 ''asha'' = ''1:asha''"
  by code_simp+

subsection \<open>A small school\<close>

definition demo_org :: org_row where
  "demo_org = \<lparr>o_id = 1, o_code = ''DEFAULT'', o_name = ''Model School'', o_active = True\<rparr>"

definition demo_user :: "int \<Rightarrow> string \<Rightarrow> user_type \<Rightarrow> user_row" where
  "demo_user uid name ty = \<lparr>u_id = uid, u_org = 1, u_username = name, u_password_hash = argon2_prefix @ ''pw'',
     u_full_name = name, u_email = Some (name @ ''@x.in''), u_phone = None, u_photo = None, u_type = ty,
     u_active = True, u_left_on = None, u_left_reason = None, u_token_version = 0, u_must_change = False,
     u_password_changed_at = None\<rparr>"

definition demo_db :: db where
  "demo_db = empty_db\<lparr>orgs := [demo_org], next_org := 2,
     users := [demo_user 1 ''head'' Principal, demo_user 2 ''asha'' Teacher, demo_user 3 ''ravi'' Teacher,
               demo_user 4 ''mira'' Student],
     next_user := 5\<rparr>"

lemma demo_db_fields [simp]:
  "bound_org demo_db = None" "orgs demo_db = [demo_org]" "sessions demo_db = []" "attempts demo_db = []"
  "captchas demo_db = []" "reset_codes demo_db = []" "reset_requests demo_db = []" "next_user demo_db = 5"
  "next_reset_code demo_db = 1"
  "users demo_db = [demo_user 1 ''head'' Principal, demo_user 2 ''asha'' Teacher, demo_user 3 ''ravi'' Teacher,
     demo_user 4 ''mira'' Student]"
  by (simp_all add: demo_db_def empty_db_def)

lemma demo_org_fields [simp]:
  "o_id demo_org = 1" "o_code demo_org = ''DEFAULT''" "o_name demo_org = ''Model School''" "o_active demo_org"
  by (simp_all add: demo_org_def)

lemma demo_user_fields [simp]:
  "u_id (demo_user i n t) = i" "u_org (demo_user i n t) = 1" "u_username (demo_user i n t) = n"
  "u_password_hash (demo_user i n t) = argon2_prefix @ ''pw''" "u_type (demo_user i n t) = t"
  "u_active (demo_user i n t)" "u_token_version (demo_user i n t) = 0"
  "u_email (demo_user i n t) = Some (n @ ''@x.in'')" "u_full_name (demo_user i n t) = n"
  by (simp_all add: demo_user_def)

lemma demo_resolve:
  "resolve (demo t) None demo_db = (Inr demo_org, demo_db\<lparr>bound_org := Some 1\<rparr>)"
  by (simp add: resolve_def find_org_def one_where_def opt_str_def bind_org_def demo_strings Let_def)

lemma demo_password: "verify_password (demo t) pw (argon2_prefix @ ''pw'') = Inr (pw = ''pw'', False)"
  by (simp add: verify_password_def is_prefix_def demo_crypto_def)

lemma demo_assess: "attempts s = [] \<Longrightarrow> assess (demo t) k ip dev False s = Inr \<lparr>captcha_required = False\<rparr>"
  by (simp add: assess_def limit_triples_def counted_rows_def)

lemma demo_login:
  "\<exists>tr s'. login (demo t) ''s1'' ''salt'' ''asha'' ''pw'' None None None False demo_db = (Inr tr, s')"
  by (simp add: login_def demo_resolve demo_assess captcha_gate_def check_password_def find_login_def
      one_where_def demo_password transaction_def open_session_def record_attempt_def prune_def
      delete_where_def Let_def)

end
