(* ===== verification/Auth_Claims.thy ===== *)
theory Auth_Claims
  imports Auth_Tokens Demo
begin

text \<open>
  The properties of sign-in and sessions, each with a witness in the environment of
  \<open>Demo\<close>.
\<close>

subsection \<open>The guess limit\<close>


definition demo_call :: "int \<Rightarrow> string \<Rightarrow> login_call" where
  "demo_call t pw = \<lparr>lc_ctx = demo t, lc_sid = ''s1'', lc_salt = ''salt'', lc_username = ''asha'',
     lc_password = pw, lc_org_code = None, lc_captcha_id = None, lc_answer = None,
     lc_captcha_supported = False\<rparr>"

lemma demo_window: "window_within_retention (demo t)"
  by (simp add: window_within_retention_def login_window_def RETENTION_DAYS_def us_defs)

lemma demo_site: "same_site (demo t) (demo t')"
  by (simp add: same_site_def demo_def)

lemma demo_later [simp]: "demo_time t \<le> demo_time t' \<longleftrightarrow> t \<le> t'"
  by (simp add: demo_time_def us_defs)

lemma demo_no_failures: "attempts s = [] \<Longrightarrow> account_failures (demo t) key s = 0"
  by (simp add: account_failures_def)


text \<open>Once an account's counter is full, a login is refused with 429 and a wait of at least one
  second whatever the password is, and nothing but the school of the request is written.\<close>

lemma login_blocked:
  assumes "resolve c oc s = (Inr g, s1)" and "settings_ok (conf c)"
    and "login_max_failures_per_account (conf c) \<le> int (account_failures c (account_key (o_id g) username) s)"
  shows "\<exists>m w. login c sid salt username password oc cid ans cap_ok s = (Inl (TooManyRequests m w), s1)
    \<and> 1 \<le> w \<and> s1 = s\<lparr>bound_org := Some (o_id g)\<rparr>"
  using login_blocked_aux [OF assms] resolve_Inr [OF assms(1)] by metis

definition demo_locked :: db where
  "demo_locked = demo_db\<lparr>attempts := replicate 10 \<lparr>a_username = ''1:asha'', a_ip = None, a_device = None,
     a_success = False, a_created_at = demo_time 0\<rparr>\<rparr>"

lemma demo_locked_resolve: "resolve (demo t) None demo_locked = (Inr demo_org, demo_locked\<lparr>bound_org := Some 1\<rparr>)"
  by (simp add: resolve_def find_org_def one_where_def opt_str_def bind_org_def demo_strings demo_locked_def Let_def)

lemma demo_locked_full: "account_failures (demo 5) ''1:asha'' demo_locked = 10"
proof -
  have "account_since (demo 5) ''1:asha'' demo_locked < demo_time 0"
    by (simp add: account_since_def last_success_def demo_locked_def max_opt_def window_start_def login_window_def
        demo_time_def us_defs)
  moreover have "window_start (demo 5) \<le> demo_time 0"
    by (simp add: window_start_def login_window_def demo_time_def us_defs)
  ultimately show ?thesis by (simp add: account_failures_def account_hit_def demo_locked_def)
qed

lemma login_blocked_witness:
  "\<exists>m w. login (demo 5) ''s1'' ''salt'' ''asha'' ''pw'' None None None False demo_locked
     = (Inl (TooManyRequests m w), demo_locked\<lparr>bound_org := Some 1\<rparr>)"
  using login_blocked [OF demo_locked_resolve, of 5 "''asha''" "''s1''" "''salt''" "''pw''" None None False]
  by (auto simp: demo_strings demo_locked_full)

subsection \<open>What a refused login tells\<close>

text \<open>The parts of a login before the password check do not read the accounts.\<close>

lemma resolve_users:
  "resolve c oc (s\<lparr>users := us\<rparr>) = (case resolve c oc s of (r, s') \<Rightarrow> (r, s'\<lparr>users := us\<rparr>))"
  by (auto simp: resolve_def find_org_def bind_org_def Let_def split: option.splits)

lemma assess_users: "assess c k ip dev cs (s\<lparr>users := us\<rparr>) = assess c k ip dev cs s"
proof -
  have since: "account_since c k (s\<lparr>users := us\<rparr>) = account_since c k s"
    by (simp add: account_since_def last_success_def)
  have hit: "account_hit c k (s\<lparr>users := us\<rparr>) = account_hit c k s"
    unfolding account_hit_def [abs_def] since ..
  have rows: "counted_rows c k ip (s\<lparr>users := us\<rparr>) = counted_rows c k ip s"
    by (simp add: counted_rows_def)
  show ?thesis unfolding assess_def limit_triples_def hit rows since ..
qed

lemma captcha_gate_users:
  "captcha_gate c v cid ans (s\<lparr>users := us\<rparr>) = (case captcha_gate c v cid ans s of (r, s') \<Rightarrow> (r, s'\<lparr>users := us\<rparr>))"
  by (auto simp: captcha_gate_def verify_captcha_def transaction_def Let_def
      split: option.splits sum.splits prod.splits if_splits)

text \<open>C28: A refused login does not tell whether the account exists: against a school without the
  username and against one where the password is wrong, the same request gets the same answer and
  records the same attempts, whatever throttling or captcha is in force.\<close>

theorem login_hides_accounts:
  assumes unknown: "\<forall>g. find_login c g username s = None"
    and wrong: "\<forall>g u. find_login c g username (s\<lparr>users := us\<rparr>) = Some u
        \<longrightarrow> (\<exists>n. verify_password c password (u_password_hash u) = Inr (False, n))"
  shows "login c sid salt username password oc cid ans cap_ok (s\<lparr>users := us\<rparr>)
    = (case login c sid salt username password oc cid ans cap_ok s of (r, s') \<Rightarrow> (r, s'\<lparr>users := us\<rparr>))"
proof -
  obtain r1 s1 where res: "resolve c oc s = (r1, s1)" by (cases "resolve c oc s")
  show ?thesis
  proof (cases r1)
    case (Inl e)
    then show ?thesis by (simp add: login_def resolve_users res)
  next
    case (Inr g)
    let ?k = "account_key (o_id g) username"
    show ?thesis
    proof (cases "assess c ?k (client_ip c) (device_id c) cap_ok s1")
      case (Inl e)
      then show ?thesis by (simp add: login_def resolve_users res Inr assess_users)
    next
      case v: (Inr v)
      obtain r2 s2 where gate: "captcha_gate c v cid ans s1 = (r2, s2)" by (cases "captcha_gate c v cid ans s1")
      have us: "users s2 = users s"
        using captcha_gate_fields(2) [OF gate] resolve_effect [OF res] by auto
      have "find_login c (o_id g) username s2 = None"
        using unknown us by (simp add: find_login_def)
      then have old: "check_password c sid salt g ?k username password s2 = (Inl invalid_credentials, record_failure c ?k s2)"
        by (rule check_password_unknown)
      have "check_password c sid salt g ?k username password (s2\<lparr>users := us\<rparr>)
          = (Inl invalid_credentials, record_failure c ?k (s2\<lparr>users := us\<rparr>))"
      proof (cases "find_login c (o_id g) username (s2\<lparr>users := us\<rparr>)")
        case None
        then show ?thesis by (rule check_password_unknown)
      next
        case (Some u)
        then have "find_login c (o_id g) username (s\<lparr>users := us\<rparr>) = Some u" by (simp add: find_login_def)
        with wrong obtain n where "verify_password c password (u_password_hash u) = Inr (False, n)" by blast
        with Some show ?thesis by (rule check_password_wrong)
      qed
      with old show ?thesis
        by (simp add: login_def resolve_users res Inr v assess_users captcha_gate_users gate Let_def
            record_failure_def record_attempt_def split: sum.split)
    qed
  qed
qed

theorem login_hides_accounts_witness:
  "fst (login (demo 0) ''s1'' ''salt'' ''asha'' ''wrong'' None None None False (demo_db\<lparr>users := [demo_user 2 ''asha'' Teacher]\<rparr>))
   = fst (login (demo 0) ''s1'' ''salt'' ''asha'' ''wrong'' None None None False (demo_db\<lparr>users := []\<rparr>))"
proof -
  have "login (demo 0) ''s1'' ''salt'' ''asha'' ''wrong'' None None None False ((demo_db\<lparr>users := []\<rparr>)\<lparr>users := [demo_user 2 ''asha'' Teacher]\<rparr>)
    = (case login (demo 0) ''s1'' ''salt'' ''asha'' ''wrong'' None None None False (demo_db\<lparr>users := []\<rparr>) of
        (r, s') \<Rightarrow> (r, s'\<lparr>users := [demo_user 2 ''asha'' Teacher]\<rparr>))"
    by (rule login_hides_accounts)
      (auto simp: find_login_def one_where_def demo_password split: if_splits)
  then show ?thesis by (simp split: prod.splits)
qed

subsection \<open>A successful login\<close>


lemma demo_login_expires:
  assumes "login (demo t) sid salt u pw oc cid ans cap_ok s = (Inr tr, s')"
  shows "tr_expires_in tr = 900"
proof -
  from login_success [OF assms] obtain g s2 where
    "check_password (demo t) sid salt g (account_key (o_id g) u) u pw s2 = (Inr tr, s')" by metis
  from check_password_success [OF this] obtain v x where "tr = make_token_response (demo t) v g x" by metis
  then show ?thesis by (simp add: make_token_response_fields)
qed


text \<open>A successful login clears the account's failure counter: wrong passwords before it no longer
  count.\<close>

lemma login_clears_failures:
  assumes "login c sid salt username password oc cid ans cap_ok s = (Inr tr, s')"
    and "window_within_retention c" and "settings_ok (conf c)"
    and "\<forall>r \<in> set (attempts s). a_created_at r \<le> utcnow c"
  shows "account_failures c (account_key (tr_org_id tr) username) s' = 0"
proof -
  from login_success [OF assms(1)] obtain g s2 where g: "attempts s2 = attempts s"
    "check_password c sid salt g (account_key (o_id g) username) username password s2 = (Inr tr, s')" by metis
  let ?k = "account_key (o_id g) username"
  from check_password_success [OF g(2)] obtain u x s1 where u: "find_login c (o_id g) username s2 = Some u"
    and tr: "tr = make_token_response c u g x"
    and op: "open_session c sid salt (u_id u) (record_attempt c ?k (client_ip c) True (device_id c) s1) = (Inr x, s')"
    and s1: "attempts s1 = attempts s"
    using g(1) by (metis set_hash_attempts)
  have "tr_org_id tr = o_id g"
    using u by (auto simp: tr make_token_response_def find_login_def dest: one_where_Some split: prod.split)
  moreover have "account_failures c ?k s' = account_failures c ?k (record_attempt c ?k (client_ip c) True (device_id c) s1)"
    by (rule account_failures_cong) (rule open_session_fields(1) [OF op])
  ultimately show ?thesis
    using account_failures_reset [OF assms(2,3), of ?k ?k s1] assms(4) s1 by simp
qed

theorem login_clears_failures_witness:
  "\<exists>tr s'. login (demo 0) ''s1'' ''salt'' ''asha'' ''pw'' None None None False demo_db = (Inr tr, s')
     \<and> account_failures (demo 0) (account_key (tr_org_id tr) ''asha'') s' = 0"
proof -
  obtain tr s' where run: "login (demo 0) ''s1'' ''salt'' ''asha'' ''pw'' None None None False demo_db = (Inr tr, s')"
    using demo_login by blast
  show ?thesis using run login_clears_failures [OF run demo_window] by auto
qed

end
