(* ===== verification/Session_Claims.thy ===== *)
theory Session_Claims
  imports Auth_Claims
begin

text \<open>
  The properties of sessions, refresh tokens, password changes, pictures and signed links.
\<close>

subsection \<open>Signing out\<close>



text \<open>Logging out everywhere ends every access and refresh token of the user at once.\<close>

lemma logout_everywhere_signs_out:
  "cu_id user = tr_user_id tr \<Longrightarrow> \<not> (\<exists>s1. refresh c' rt (logout_everywhere c user s) = (Inr tr, s1))
   \<and> (cu_id cu = cu_id user \<longrightarrow> \<not> (\<exists>s1. authenticate c' tok (logout_everywhere c user s) = (Inr cu, s1)))"
  using signed_out [OF logout_everywhere_none_live] by metis

definition demo_user_ctx :: current_user where
  "demo_user_ctx = current_user_of (demo_user 2 ''asha'' Teacher) demo_org ''s1''"

theorem logout_everywhere_signs_out_witness:
  "\<not> (\<exists>s1. authenticate (demo 5) ''tok'' (logout_everywhere (demo 4) demo_user_ctx demo_db) = (Inr demo_user_ctx, s1))"
  using logout_everywhere_signs_out [of demo_user_ctx
      "make_token_response (demo 4) (demo_user 2 ''asha'' Teacher) demo_org undefined" "demo 5" "''r''" "demo 4" demo_db
      demo_user_ctx "''tok''"]
  by (simp add: demo_user_ctx_def current_user_of_def make_token_response_def split: prod.split)

text \<open>A user who changes their password is left with exactly one live session, the one the answer
  carries tokens for.\<close>

lemma change_password_one_session:
  assumes "change_password c sid salt user old new s = (Inr tr, s')"
  shows "live_count (cu_id user) s' = 1"
  using change_password_aux [OF assms] .

lemma demo_change:
  "\<exists>tr s'. change_password (demo 0) ''s1'' ''salt'' demo_user_ctx ''pw'' ''new'' demo_db = (Inr tr, s')"
  by (simp add: change_password_def demo_user_ctx_def current_user_of_def ensure_allowed_def demo_assess Let_def
      one_where_def demo_password transaction_def set_password_def revoke_all_def update_where_def audit_record_def
      open_session_def prune_def delete_where_def token_user_def)

theorem change_password_one_session_witness:
  "\<exists>tr s'. change_password (demo 0) ''s1'' ''salt'' demo_user_ctx ''pw'' ''new'' demo_db = (Inr tr, s')
     \<and> live_count (cu_id demo_user_ctx) s' = 1"
  using demo_change change_password_one_session by blast

subsection \<open>The session store\<close>


lemma demo_open: "\<exists>x s'. open_session (demo t) ''s1'' ''salt'' 2 demo_db = (Inr x, s')"
  by (simp add: open_session_def prune_def delete_where_def Let_def one_where_def)


subsection \<open>Refresh tokens\<close>

text \<open>A refresh token parses back to the session, generation and MAC it was built from, and its
  MAC is accepted for the session's salt.\<close>

lemma refresh_token_roundtrip:
  assumes "hmac_ok (prims c)" and "length sid = 32" and "CHR ''.'' \<notin> set sid" and "0 \<le> g"
    and "length (py_str_int g) \<le> 119"
  shows "\<exists>p. parse_refresh_token (Some (build_refresh_token c sid g salt)) = Inr (Some p)
    \<and> rp_session_id p = sid \<and> rp_generation p = g \<and> parts_match c p salt = Inr True"
  using parse_build [OF assms] built_parts_match by simp

theorem refresh_token_roundtrip_witness:
  "\<exists>p. parse_refresh_token (Some (build_refresh_token (demo 0) (replicate 32 (CHR ''a'')) 7 ''salt'')) = Inr (Some p)
    \<and> rp_generation p = 7"
proof -
  have "length (py_str_int 7) \<le> 119" by code_simp
  then show ?thesis
    using refresh_token_roundtrip [of "demo 0" "replicate 32 (CHR ''a'')" 7 "''salt''"] by (auto simp: demo_hmac_ok)
qed

text \<open>C6: Two requests that race with one refresh token get the same new token, and the second changes
  nothing: a retry inside the grace period is not taken for theft.\<close>

theorem refresh_race_idempotent:
  assumes "token_ready c (s_id row) (s_generation row)" "token_ready c (s_id row) (s_generation row + 1)"
    and "one_where (\<lambda>r. sql_eq c (s_id r) (s_id row)) (sessions s) = Some row"
    and "s_revoked_at row = None" and "row_current c row s u g"
    and "same_site c c'" "prims c' = prims c"
    and "utcnow c' - utcnow c \<le> refresh_reuse_grace_seconds (conf c) * us_per_second"
    and "utcnow c' < next_expiry c row" "utcnow c' < s_absolute_expires_at row"
    and "tok = build_refresh_token c (s_id row) (s_generation row) (s_salt row)"
    and "rotate c (Some tok) s = (Inr (ug, iss), s1)"
  shows "\<exists>iss'. rotate c' (Some tok) s1 = (Inr (ug, iss'), s1)
    \<and> is_refresh_token iss' = is_refresh_token iss \<and> is_session_id iss' = is_session_id iss"
  by (rule rotate_race [OF assms])

definition demo_session :: session_row where
  "demo_session = \<lparr>s_id = replicate 32 (CHR ''a''), s_user = 2, s_salt = ''salt'', s_generation = 3,
     s_rotated_at = None, s_created_at = demo_time 0, s_last_used_at = demo_time 0,
     s_expires_at = demo_time 1000, s_absolute_expires_at = demo_time 5000, s_revoked_at = None,
     s_revoke_reason = None, s_ip = None, s_user_agent = None\<rparr>"

definition demo_signed_in :: db where
  "demo_signed_in = demo_db\<lparr>sessions := [demo_session]\<rparr>"

lemma demo_session_fields [simp]:
  "s_id demo_session = replicate 32 (CHR ''a'')" "s_user demo_session = 2" "s_generation demo_session = 3"
  "s_salt demo_session = ''salt''" "s_revoked_at demo_session = None" "s_expires_at demo_session = demo_time 1000"
  "s_absolute_expires_at demo_session = demo_time 5000" "s_rotated_at demo_session = None"
  by (simp_all add: demo_session_def)

lemma demo_signed_in_fields [simp]:
  "sessions demo_signed_in = [demo_session]" "users demo_signed_in = users demo_db" "orgs demo_signed_in = orgs demo_db"
  by (simp_all add: demo_signed_in_def)

lemma demo_less [simp]: "demo_time t < demo_time t' \<longleftrightarrow> t < t'"
  by (simp add: demo_time_def us_defs)

lemma demo_ready: "g \<in> {2, 3, 4} \<Longrightarrow> token_ready (demo t) (replicate 32 (CHR ''a'')) g"
proof -
  have "length (py_str_int 2) \<le> 119" "length (py_str_int 3) \<le> 119" "length (py_str_int 4) \<le> 119" by code_simp+
  then show "g \<in> {2, 3, 4} \<Longrightarrow> token_ready (demo t) (replicate 32 (CHR ''a'')) g"
    by (auto simp: token_ready_def demo_hmac_ok)
qed

lemma demo_current: "t < 1000 \<Longrightarrow> row_current (demo t) demo_session demo_signed_in (demo_user 2 ''asha'' Teacher) demo_org"
  by (simp add: row_current_def token_user_def one_where_def)

lemma demo_lookup: "one_where (\<lambda>r. sql_eq (demo t) (s_id r) (s_id demo_session)) (sessions demo_signed_in) = Some demo_session"
  by (simp add: one_where_def)

lemma demo_rotates:
  "t < 1000 \<Longrightarrow> \<exists>iss s1. rotate (demo t) (Some (build_refresh_token (demo t) (s_id demo_session) 3 (s_salt demo_session))) demo_signed_in
     = (Inr ((demo_user 2 ''asha'' Teacher, demo_org), iss), s1)"
  using rotate_genuine [OF _ demo_lookup, of t 3] rotate_locked_current [OF demo_current, of t] by (simp add: demo_ready)

theorem refresh_race_idempotent_witness:
  "\<exists>tok iss s1 iss'. rotate (demo 10) (Some tok) demo_signed_in = (Inr ((demo_user 2 ''asha'' Teacher, demo_org), iss), s1)
     \<and> rotate (demo 40) (Some tok) s1 = (Inr ((demo_user 2 ''asha'' Teacher, demo_org), iss'), s1)
     \<and> is_refresh_token iss' = is_refresh_token iss"
proof -
  let ?tok = "build_refresh_token (demo 10) (s_id demo_session) 3 (s_salt demo_session)"
  obtain iss s1 where first: "rotate (demo 10) (Some ?tok) demo_signed_in = (Inr ((demo_user 2 ''asha'' Teacher, demo_org), iss), s1)"
    using demo_rotates [of 10] by auto
  have "\<exists>iss'. rotate (demo 40) (Some ?tok) s1 = (Inr ((demo_user 2 ''asha'' Teacher, demo_org), iss'), s1)
     \<and> is_refresh_token iss' = is_refresh_token iss \<and> is_session_id iss' = is_session_id iss"
    by (rule refresh_race_idempotent [OF _ _ demo_lookup _ demo_current demo_site _ _ _ _ _ first])
      (simp_all add: demo_ready next_expiry_def demo_time_def us_defs)
  with first show ?thesis by blast
qed

text \<open>C4: A replayed refresh token (an older generation, or one outside the grace period) revokes its
  session: the replay is refused and so is the newest token of the session, whoever holds it.\<close>

theorem refresh_theft_revokes:
  assumes "token_ready c (s_id row) g0" "token_ready c (s_id row) (s_generation row)"
    and "one_where (\<lambda>r. sql_eq c (s_id r) (s_id row)) (sessions s) = Some row"
    and "s_revoked_at row = None" and "row_current c row s u g"
    and "g0 \<noteq> s_generation row" "\<not> (g0 = s_generation row - 1 \<and> within_grace c row)"
  shows "\<exists>s1. rotate c (Some (build_refresh_token c (s_id row) g0 (s_salt row))) s
        = (Inl (Unauthorized INVALID_REFRESH []), s1)
      \<and> rotate c (Some (build_refresh_token c (s_id row) (s_generation row) (s_salt row))) s1
        = (Inl (Unauthorized INVALID_REFRESH []), s1)"
  by (rule rotate_theft [OF assms])

theorem refresh_theft_revokes_witness:
  "\<exists>s1. rotate (demo 20) (Some (build_refresh_token (demo 20) (s_id demo_session) 2 (s_salt demo_session))) demo_signed_in
        = (Inl (Unauthorized INVALID_REFRESH []), s1)
      \<and> rotate (demo 20) (Some (build_refresh_token (demo 20) (s_id demo_session) (s_generation demo_session) (s_salt demo_session))) s1
        = (Inl (Unauthorized INVALID_REFRESH []), s1)"
  by (rule refresh_theft_revokes [OF _ _ demo_lookup _ demo_current])
    (simp_all add: demo_ready within_grace_def)

text \<open>A refresh token whose generation is a superscript digit passes \<open>isdigit\<close> and makes \<open>int\<close>
  raise: the request ends in an internal error instead of the documented 401, without signing in.\<close>

lemma refresh_superscript_crash:
  assumes "length sid = 32" and "CHR ''.'' \<notin> set sid"
  shows "refresh c (''rt1.'' @ sid @ ''.'' @ [char_of (0xB2 :: nat)] @ ''.x'') s = (Inl ValueError, s)"
proof -
  let ?t = "REFRESH_PREFIX @ CHR ''.'' # sid @ CHR ''.'' # [char_of (0xB2 :: nat)] @ CHR ''.'' # ''x''"
  have d: "char_of (0xB2 :: nat) \<noteq> CHR ''.''" by code_simp
  have "py_split (CHR ''.'') ?t = [REFRESH_PREFIX, sid, [char_of (0xB2 :: nat)], ''x'']"
    by (rule py_split_four) (use assms(2) d in \<open>auto simp: REFRESH_PREFIX_def\<close>)
  moreover have "py_isdigit [char_of (0xB2 :: nat)]" "py_int [char_of (0xB2 :: nat)] = None" by code_simp+
  ultimately have "parse_refresh_token (Some ?t) = Inl ValueError"
    using assms(1) by (simp add: parse_refresh_token_def REFRESH_PREFIX_def)
  then show ?thesis by (simp add: refresh_def rotate_def REFRESH_PREFIX_def)
qed

theorem refresh_superscript_crash_witness:
  "refresh (demo 0) (''rt1.'' @ replicate 32 (CHR ''a'') @ ''.'' @ [char_of (0xB2 :: nat)] @ ''.x'') demo_db
     = (Inl ValueError, demo_db)"
  by (rule refresh_superscript_crash) simp_all

subsection \<open>Pictures and links\<close>

text \<open>A captcha picture is good for one guess: once an answer was checked, right or wrong, any
  further answer to the same picture is refused and changes nothing.\<close>

lemma captcha_single_use:
  assumes "verify_captcha c (Some i) (Some a) s = (r, s1)" and "r \<noteq> Inl TypeError" and "a \<noteq> []"
    and "same_site c c'"
  shows "\<exists>b. verify_captcha c' (Some i) ans s1 = (Inl (CaptchaRequired b), s1)"
  by (rule verify_captcha_once_aux [OF assms])

definition demo_picture :: db where
  "demo_picture = demo_db\<lparr>captchas := [\<lparr>c_id = ''p1'', c_digest = captcha_digest (demo 0) ''p1'' ''ABCDE'', c_ip = None,
     c_created_at = demo_time 0, c_expires_at = demo_time 300, c_used_at = None\<rparr>]\<rparr>"

lemma captcha_single_use_witness:
  "\<exists>s1. verify_captcha (demo 5) (Some ''p1'') (Some ''ABCDE'') demo_picture = (Inr (), s1)
     \<and> (\<exists>b. verify_captcha (demo 6) (Some ''p1'') (Some ''ABCDE'') s1 = (Inl (CaptchaRequired b), s1))"
proof -
  have self: "compare_digest (captcha_digest (demo 0) ''p1'' ''ABCDE'') (captcha_digest (demo 5) ''p1'' ''ABCDE'') = Inr True"
    by (simp add: captcha_digest_def derive_key_def compare_digest_def hexdigest_ascii b64_ascii)
  obtain s1 where first: "verify_captcha (demo 5) (Some ''p1'') (Some ''ABCDE'') demo_picture = (Inr (), s1)"
    by (simp add: verify_captcha_def demo_picture_def transaction_def one_where_def self Let_def)
  from captcha_single_use [OF this _ _ demo_site] first show ?thesis by auto
qed

lemma int_seconds_upper: "u < (int_seconds u + 1) * us_per_second"
proof -
  have k: "(0 :: int) < 1000000" by simp
  have up: "u = u div 1000000 * 1000000 + u mod 1000000" "u mod 1000000 < 1000000"
    and down: "- u = (- u) div 1000000 * 1000000 + (- u) mod 1000000" "0 \<le> (- u) mod 1000000"
    using k by (simp_all only: div_mult_mod_eq pos_mod_bound pos_mod_sign)
  show ?thesis
  proof (cases "0 \<le> u")
    case True
    then have "int_seconds u = u div 1000000" by (simp add: int_seconds_def us_per_second_def)
    then obtain q r where "u = q * 1000000 + r" "r < 1000000" "int_seconds u = q" using up by metis
    then show ?thesis by (simp only: us_per_second_def distrib_right)
  next
    case False
    then have "int_seconds u = - ((- u) div 1000000)"
      by (simp only: int_seconds_def trunc_div_def us_per_second_def if_False)
    then obtain q r where "- u = q * 1000000 + r" "0 \<le> r" "int_seconds u = - q" using down by metis
    then show ?thesis by (simp only: us_per_second_def distrib_right)
  qed
qed

text \<open>A signed file link works from the moment it is issued, for at least the configured hours, and
  any signature for it is refused after its expiry.\<close>

lemma signed_link_lifetime:
  assumes "settings_ok (conf c)" and "conf c' = conf c" and "prims c' = prims c"
    and "unix_us (utcnow c') \<le> unix_us (utcnow c) + file_url_ttl_hours (conf c) * 3600 * us_per_second"
  shows "verify_file_signature c' path (link_expiry c) (sign_file_path c path (link_expiry c)) = Inr True
    \<and> (link_expiry c * us_per_second < unix_us (utcnow c'')
        \<longrightarrow> verify_file_signature c'' path (link_expiry c) sig = Inr False)"
proof -
  have same: "sign_file_path c' = sign_file_path c"
    by (simp add: sign_file_path_def derive_key_def assms fun_eq_iff)
  let ?n = "unix_seconds (utcnow c)" and ?h = "file_url_ttl_hours (conf c) * 3600"
  have "?n + 1 + ?h \<le> link_expiry c"
    using link_expiry_bounds(1) [OF assms(1)] by simp
  then have "(?n + 1 + ?h) * us_per_second \<le> link_expiry c * us_per_second"
    by (simp add: us_per_second_def)
  moreover have "unix_us (utcnow c) < (?n + 1) * us_per_second"
    unfolding unix_seconds_def by (rule int_seconds_upper)
  moreover have "(?n + 1 + ?h) * us_per_second = (?n + 1) * us_per_second + ?h * us_per_second"
    by (simp add: algebra_simps)
  ultimately have "unix_us (utcnow c') \<le> link_expiry c * us_per_second"
    using assms(4) by linarith
  then show ?thesis
    using signed_link_verifies [of c' "link_expiry c" path] by (simp add: same verify_file_signature_def [of c''])
qed

theorem signed_link_lifetime_witness:
  "verify_file_signature (demo 3600) ''a/b.pdf'' (link_expiry (demo 0)) (sign_file_path (demo 0) ''a/b.pdf'' (link_expiry (demo 0))) = Inr True"
  using signed_link_lifetime [of "demo 0" "demo 3600" "''a/b.pdf''"]
  by (simp add: demo_settings_def settings_ok_def unix_us_def demo_time_def us_defs)

end
