(* ===== verification/Password_Reset.thy ===== *)
theory Password_Reset
  imports Auth
begin

text \<open>
  Forgotten passwords, \<^verbatim>\<open>app/services/password_reset.py\<close>: requesting a code, the background job
  that issues it, and redeeming it, with the limits on requests and guesses. The drawn code and
  the new session's id and salt are arguments. An account is a user row with the name of its
  school (the query joins \<open>organisations\<close>).
\<close>

definition INVALID_RESET_CODE :: string where
  "INVALID_RESET_CODE = ''Invalid or expired code''"
definition RESET_RETENTION_DAYS :: int where "RESET_RETENTION_DAYS = 30"
definition MAX_LISTED_ACCOUNTS :: nat where "MAX_LISTED_ACCOUNTS = 20"

definition reset_login :: "string \<Rightarrow> string" where
  "reset_login typed = take 110 (py_lower (py_strip typed))"

definition login_key :: "int \<Rightarrow> string \<Rightarrow> string" where
  "login_key org_id typed = take 120 (py_str_int org_id @ '':'' @ reset_login typed)"

definition guess_key :: "string \<Rightarrow> string" where
  "guess_key key = take 100 (''reset:'' @ key)"

definition well_formed_code :: "string \<Rightarrow> bool" where
  "well_formed_code s = (length s = RESET_CODE_DIGITS \<and> py_isdigit s)"

subsection \<open>Emails\<close>

fun html_escape :: "string \<Rightarrow> string" where
  "html_escape [] = []"
| "html_escape (c # cs) =
     (if c = CHR ''&'' then ''&amp;'' else if c = CHR ''<'' then ''&lt;'' else if c = CHR ''>'' then ''&gt;''
      else if c = CHR ''\"'' then ''&quot;'' else if c = quote_char then ''&#x27;'' else [c]) @ html_escape cs"

definition html_paragraphs :: "string list \<Rightarrow> string" where
  "html_paragraphs ps = concat (map (\<lambda>p. ''<p>'' @ p @ ''</p>'') ps)"

definition greeting :: "user_row \<Rightarrow> string" where
  "greeting u = ''Hello '' @ u_full_name u @ '',''"

definition school_of :: "ctx \<Rightarrow> string \<Rightarrow> string" where
  "school_of c org_name = (if org_name = [] then school_name (conf c) else org_name)"

text \<open>A line break, and a text in single quotes.\<close>

definition NL :: string where "NL = [char_of (10 :: nat)]"
definition quoted :: "string \<Rightarrow> string" where "quoted s = [quote_char] @ s @ [quote_char]"

definition email_text :: "string list \<Rightarrow> string \<Rightarrow> string" where
  "email_text ls school = py_join (NL @ NL) ls @ NL @ NL @ EM_DASH @ '' '' @ school @ NL"

definition code_email :: "ctx \<Rightarrow> user_row \<Rightarrow> string \<Rightarrow> string \<Rightarrow> email_row" where
  "code_email c u org_name reset_code =
     (let school = school_of c org_name;
          first = greeting u;
          intro = ''Use this code to reset the password of the '' @ school @ '' account ''
                  @ quoted (u_username u) @ '':'';
          note = ''The code expires in '' @ py_str_int (reset_code_ttl_minutes (conf c))
                 @ '' minutes. If you did not ask for it, ignore this email; your password stays the same.''
      in \<lparr>m_to = u_email u, m_subject = ''Your '' @ school @ '' password reset code'',
          m_text = email_text [first, intro, reset_code, note] school,
          m_html = html_paragraphs [html_escape first, html_escape intro,
            ''<strong style=\"font-size:28px;letter-spacing:6px\">'' @ reset_code @ ''</strong>'',
            html_escape note, EM_DASH @ '' '' @ html_escape school]\<rparr>)"

definition several_accounts_email :: "ctx \<Rightarrow> string \<Rightarrow> (user_row \<times> string) list \<Rightarrow> email_row" where
  "several_accounts_email c address accounts =
     (let school = school_of c (snd (hd accounts));
          names = map (\<lambda>(u, _). u_username u @ '' ('' @ u_full_name u @ '')'') accounts;
          intro = ''This email address is linked to several '' @ school @ '' accounts:'';
          outro = ''To reset a password, open the app, choose '' @ quoted ''Forgot password''
                  @ '' and enter the username of the account. If you did not ask for this, ignore this email.'';
          to = str_or (u_email (fst (hd accounts))) address
      in \<lparr>m_to = Some to, m_subject = ''Your '' @ school @ '' accounts'',
          m_text = intro @ NL @ NL @ py_join NL (map (\<lambda>n. ''  - '' @ n) names) @ NL @ NL @ outro
                   @ NL @ NL @ EM_DASH @ '' '' @ school @ NL,
          m_html = html_paragraphs [html_escape intro, py_join ''<br>'' (map html_escape names),
            html_escape outro, EM_DASH @ '' '' @ html_escape school]\<rparr>)"

text \<open>\<open>strftime("%d %b %Y, %I:%M %p")\<close>.\<close>

definition stamp_12h :: "datetime \<Rightarrow> string" where
  "stamp_12h t = (let d = date_of t; mins = t mod us_per_day div us_per_minute;
       h = mins div 60; h12 = (if h mod 12 = 0 then 12 else h mod 12)
     in fmt0 2 (day_of d) @ '' '' @ month_abbr (month_of d) @ '' '' @ py_str_int (year_of d) @ '', ''
        @ fmt0 2 h12 @ '':'' @ fmt0 2 (mins mod 60) @ '' '' @ (if h < 12 then ''AM'' else ''PM''))"

definition password_changed_email :: "ctx \<Rightarrow> user_row \<Rightarrow> string \<Rightarrow> email_row" where
  "password_changed_email c u org_name =
     (let school = school_of c org_name;
          ls = [greeting u,
                ''The password of the '' @ school @ '' account '' @ quoted (u_username u) @ '' was reset on ''
                  @ stamp_12h (school_now c) @ ''. All devices were signed out.'',
                ''If this was not you, contact the school office straight away.'']
      in \<lparr>m_to = u_email u, m_subject = ''Your '' @ school @ '' password was changed'',
          m_text = email_text ls school,
          m_html = html_paragraphs (map html_escape ls @ [EM_DASH @ '' '' @ html_escape school])\<rparr>)"

text \<open>\<open>email.send_after_commit\<close>: messages without an address are dropped.\<close>

definition send_after_commit :: "email_row list \<Rightarrow> db \<Rightarrow> db" where
  "send_after_commit ms s = s\<lparr>mails := mails s @ filter (\<lambda>m. \<not> opt_is_blank (m_to m)) ms\<rparr>"

subsection \<open>Asking for a code\<close>

definition reset_window :: "ctx \<Rightarrow> int" where
  "reset_window c = reset_window_minutes (conf c) * us_per_minute"

definition reset_rows :: "ctx \<Rightarrow> (reset_request_row \<Rightarrow> bool) \<Rightarrow> db \<Rightarrow> reset_request_row list" where
  "reset_rows c P s = filter (\<lambda>r. utcnow c - reset_window c \<le> rr_created_at r \<and> P r) (reset_requests s)"

definition ensure_request_allowed :: "ctx \<Rightarrow> string \<Rightarrow> string option \<Rightarrow> db \<Rightarrow> unit res" where
  "ensure_request_allowed c key ip s =
     (let by_login = reset_rows c (\<lambda>r. sql_eq c (rr_login r) key) s;
          by_ip = reset_rows c (\<lambda>r. null_eq c (rr_ip r) ip) s;
          limits = [(int (length by_login), reset_max_codes_per_account (conf c), min_opt (map rr_created_at by_login)),
                    (int (length by_ip), reset_max_requests_per_ip (conf c), min_opt (map rr_created_at by_ip))];
          waits = map (\<lambda>(_, _, oldest). wait_seconds oldest (reset_window c) (utcnow c))
                    (filter (\<lambda>(count, limit, _). limit \<le> count) limits)
      in if waits = [] then Inr ()
         else (let retry_after = Max (set waits); minutes = max 1 (ceil_div retry_after 60)
               in Inl (TooManyRequests (''Too many reset requests. Try again in '' @ py_str_int minutes
                    @ '' minute'' @ (if 1 < minutes then ''s'' else '''') @ ''.'') retry_after)))"

text \<open>\<open>request_code\<close>; the job queued for the background worker goes to \<open>reset_jobs\<close>.\<close>

definition request_code :: "ctx \<Rightarrow> string \<Rightarrow> string option \<Rightarrow> int handler" where
  "request_code c typed org_code s =
     (case resolve c org_code s of
        (Inl e, s1) \<Rightarrow> (Inl e, s1)
      | (Inr g, s1) \<Rightarrow>
          (let key = login_key (o_id g) typed; ip = client_ip c; now = utcnow c in
           case ensure_request_allowed c key ip s1 of
             Inl e \<Rightarrow> (Inl e, s1)
           | Inr _ \<Rightarrow>
               (Inr (reset_code_ttl_minutes (conf c) * 60),
                s1\<lparr>reset_requests := delete_limit 1000 (\<lambda>r. rr_created_at r < now - RESET_RETENTION_DAYS * us_per_day)
                     (reset_requests s1 @ [\<lparr>rr_login = key, rr_ip = ip, rr_created_at = now\<rparr>]),
                   reset_jobs := reset_jobs s1 @ [(o_id g, reset_login typed, ip, now)]\<rparr>)))"

subsection \<open>Issuing it\<close>

definition with_org :: "db \<Rightarrow> user_row list \<Rightarrow> (user_row \<times> string) list" where
  "with_org s us = concat (map (\<lambda>u. map (\<lambda>g. (u, o_name g)) (filter (\<lambda>g. o_id g = u_org u) (orgs s))) us)"

definition find_accounts :: "ctx \<Rightarrow> int \<Rightarrow> string \<Rightarrow> db \<Rightarrow> (user_row \<times> string) list" where
  "find_accounts c org_id typed s =
     (if typed = [] then []
      else (case first_row (with_org s (filter (\<lambda>u. u_org u = org_id \<and> sql_eq c (u_username u) typed) (users s))) of
              Some u \<Rightarrow> [u]
            | None \<Rightarrow>
                if CHR ''@'' \<notin> set typed then []
                else take MAX_LISTED_ACCOUNTS (with_org s (sort_key u_id (filter (\<lambda>u. u_org u = org_id \<and> u_active u
                       \<and> (case u_email u of None \<Rightarrow> False | Some a \<Rightarrow> sql_eq c a typed)) (users s))))))"

text \<open>Codes of a user that still stand are used up; only the new one is valid.\<close>

definition use_up_codes :: "int \<Rightarrow> datetime \<Rightarrow> db \<Rightarrow> db" where
  "use_up_codes uid now s = s\<lparr>reset_codes := update_where (\<lambda>r. rc_user r = uid \<and> rc_used_at r = None)
     (\<lambda>r. r\<lparr>rc_used_at := Some now\<rparr>) (reset_codes s)\<rparr>"

definition issue_code ::
  "ctx \<Rightarrow> int \<Rightarrow> user_row \<Rightarrow> string \<Rightarrow> string option \<Rightarrow> datetime \<Rightarrow> db \<Rightarrow> db" where
  "issue_code c drawn u org_name ip now s =
     (let recent = length (filter (\<lambda>r. rc_user r = u_id u \<and> now - reset_window c \<le> rc_created_at r) (reset_codes s))
      in if reset_max_codes_per_account (conf c) \<le> int recent then s
         else (let s1 = use_up_codes (u_id u) now s; reset_code = new_reset_code drawn in
           send_after_commit [code_email c u org_name reset_code]
             (s1\<lparr>next_reset_code := next_reset_code s1 + 1,
                reset_codes := reset_codes s1 @ [\<lparr>rc_id = next_reset_code s1, rc_user = u_id u,
                  rc_hash = reset_code_digest c (u_id u) reset_code, rc_attempts = 0, rc_created_at = now,
                  rc_expires_at = now + reset_code_ttl_minutes (conf c) * us_per_minute,
                  rc_used_at = None, rc_ip = ip\<rparr>]\<rparr>)))"

text \<open>The background job, on a connection of its own.\<close>

definition handle_request ::
  "ctx \<Rightarrow> int \<Rightarrow> int \<times> string \<times> string option \<times> datetime \<Rightarrow> unit handler" where
  "handle_request c drawn job s =
     (case job of (org_id, typed, ip, now) \<Rightarrow>
      (case bind_org org_id s of
         (Inl e, s1) \<Rightarrow> (Inl e, s1)
       | (Inr _, s1) \<Rightarrow>
           (let s2 = s1\<lparr>reset_codes := delete_limit 1000
                  (\<lambda>r. rc_created_at r < now - RESET_RETENTION_DAYS * us_per_day) (reset_codes s1)\<rparr>;
                accounts = find_accounts c org_id typed s2
            in (Inr (), case accounts of
                  [] \<Rightarrow> s2
                | [(u, org_name)] \<Rightarrow>
                    if u_active u \<and> \<not> opt_is_blank (u_email u) then issue_code c drawn u org_name ip now s2 else s2
                | _ \<Rightarrow> send_after_commit [several_accounts_email c typed accounts] s2))))"

subsection \<open>Redeeming it\<close>

definition newest_code :: "int \<Rightarrow> db \<Rightarrow> reset_code_row option" where
  "newest_code uid s = first_row (sort_key (\<lambda>r. (- rc_created_at r, - rc_id r))
     (filter (\<lambda>r. rc_user r = uid \<and> rc_used_at r = None) (reset_codes s)))"

definition wrong_codes_today :: "ctx \<Rightarrow> int \<Rightarrow> db \<Rightarrow> int" where
  "wrong_codes_today c uid s = sum_list (map rc_attempts
     (filter (\<lambda>r. rc_user r = uid \<and> utcnow c - us_per_day \<le> rc_created_at r) (reset_codes s)))"

definition code_live :: "ctx \<Rightarrow> int \<Rightarrow> reset_code_row \<Rightarrow> db \<Rightarrow> bool" where
  "code_live c uid r s = (utcnow c < rc_expires_at r \<and> rc_attempts r < reset_code_max_attempts (conf c)
     \<and> wrong_codes_today c uid s < reset_max_wrong_codes_per_day (conf c))"

definition code_used :: "ctx \<Rightarrow> int \<Rightarrow> db \<Rightarrow> db" where
  "code_used c rid s = s\<lparr>reset_codes := update_where (\<lambda>r. rc_id r = rid)
     (\<lambda>r. r\<lparr>rc_used_at := Some (utcnow c)\<rparr>) (reset_codes s)\<rparr>"

definition code_guessed :: "ctx \<Rightarrow> reset_code_row \<Rightarrow> db \<Rightarrow> db" where
  "code_guessed c row s = (let attempts' = rc_attempts row + 1; burnt = reset_code_max_attempts (conf c) \<le> attempts'
     in s\<lparr>reset_codes := update_where (\<lambda>r. rc_id r = rc_id row)
          (\<lambda>r. r\<lparr>rc_attempts := attempts', rc_used_at := (if burnt then Some (utcnow c) else None)\<rparr>)
          (reset_codes s)\<rparr>)"

text \<open>
  The transaction of \<open>_redeem\<close>: \<open>Inr None\<close> commits a wrong guess and raises afterwards.
  \<open>finish\<close> is \<open>then\<close> (\<open>None\<close> for \<open>verify_code\<close>).
\<close>

definition redeem_tx ::
  "ctx \<Rightarrow> int \<Rightarrow> string \<Rightarrow> string \<Rightarrow> (user_row \<Rightarrow> string \<Rightarrow> 'r handler) option \<Rightarrow> 'r option option handler" where
  "redeem_tx c org_id typed given finish s =
     (let key = login_key org_id typed; ip = client_ip c;
          accounts = (if well_formed_code given then find_accounts c org_id (reset_login typed) s else []);
          user = (case accounts of [(u, n)] \<Rightarrow> if u_active u then Some (u, n) else None | _ \<Rightarrow> None);
          row = newest_code (case user of Some (u, _) \<Rightarrow> u_id u | None \<Rightarrow> 0) s;
          miss = (\<lambda>s. (Inr None, record_attempt c (guess_key key) ip False None s))
      in case row of
           None \<Rightarrow> miss s
         | Some r \<Rightarrow>
             (case user of
                None \<Rightarrow> if utcnow c < rc_expires_at r \<and> rc_attempts r < reset_code_max_attempts (conf c)
                        then (Inl TypeError, s) else miss s
              | Some (u, n) \<Rightarrow>
                  if code_live c (u_id u) r s
                  then (case reset_code_matches c (u_id u) given (rc_hash r) of
                          Inl e \<Rightarrow> (Inl e, s)
                        | Inr True \<Rightarrow>
                            (case finish of
                               None \<Rightarrow> (Inr (Some None), s)
                             | Some f \<Rightarrow>
                                 (case f u n (record_attempt c (account_key org_id (u_username u)) ip True None
                                        (code_used c (rc_id r) s)) of
                                    (Inl e, s') \<Rightarrow> (Inl e, s')
                                  | (Inr x, s') \<Rightarrow> (Inr (Some (Some x)), s')))
                        | Inr False \<Rightarrow> miss (code_guessed c r s))
                  else miss s))"

definition redeem ::
  "ctx \<Rightarrow> string \<Rightarrow> string option \<Rightarrow> string option \<Rightarrow> (user_row \<Rightarrow> string \<Rightarrow> 'r handler) option \<Rightarrow> 'r option handler" where
  "redeem c typed given org_code finish s =
     (case resolve c org_code s of
        (Inl e, s1) \<Rightarrow> (Inl e, s1)
      | (Inr g, s1) \<Rightarrow>
          (case ensure_allowed c (guess_key (login_key (o_id g) typed)) (client_ip c) None s1 of
             Inl e \<Rightarrow> (Inl e, s1)
           | Inr _ \<Rightarrow>
               (case transaction (redeem_tx c (o_id g) typed (py_strip (str_or given '''')) finish) s1 of
                  (Inl e, s2) \<Rightarrow> (Inl e, s2)
                | (Inr None, s2) \<Rightarrow> (Inl (BadRequest INVALID_RESET_CODE), s2)
                | (Inr (Some x), s2) \<Rightarrow> (Inr x, s2))))"

definition verify_code :: "ctx \<Rightarrow> string \<Rightarrow> string option \<Rightarrow> string option \<Rightarrow> unit option handler" where
  "verify_code c typed given org_code s = redeem c typed given org_code None s"

definition finish_reset :: "ctx \<Rightarrow> string \<Rightarrow> string \<Rightarrow> string \<Rightarrow> user_row \<Rightarrow> string \<Rightarrow> token_response handler" where
  "finish_reset c sid salt new_password u org_name s =
     (case open_session c sid salt (u_id u)
             (audit_record c (Some (u_id u)) ''auth.password_reset'' (Some ''user'') (Some (py_str_int (u_id u))) []
               (set_password c (u_id u) new_password ''password_reset'' s)) of
        (Inl e, s') \<Rightarrow> (Inl e, s')
      | (Inr session, s') \<Rightarrow>
          (let s2 = send_after_commit [password_changed_email c u org_name] s' in
           case token_user (u_id u) s' of
             None \<Rightarrow> (Inl TypeError, s2)
           | Some (fresh, g) \<Rightarrow> (Inr (make_token_response c fresh g session), s2)))"

definition reset_password ::
  "ctx \<Rightarrow> string \<Rightarrow> string \<Rightarrow> string \<Rightarrow> string option \<Rightarrow> string \<Rightarrow> string option \<Rightarrow> token_response option handler" where
  "reset_password c sid salt typed given new_password org_code s =
     redeem c typed given org_code (Some (finish_reset c sid salt new_password)) s"

end
