(* ===== verification/Reset_Props.thy ===== *)
theory Reset_Props
  imports Password_Reset Auth_Tokens
begin

text \<open>
  Password reset: one valid code per account, a bounded number of guesses per code and per
  day over any sequence of requests, a code that works once, the emailed code accepted, and a
  reply to a request that does not depend on the accounts.
\<close>

subsection \<open>Invariant of the codes\<close>

definition unused_of :: "int \<Rightarrow> reset_code_row \<Rightarrow> bool" where
  "unused_of uid r \<longleftrightarrow> rc_user r = uid \<and> rc_used_at r = None"

definition code_row_ok :: "ctx \<Rightarrow> reset_code_row \<Rightarrow> bool" where
  "code_row_ok c r \<longleftrightarrow> 0 \<le> rc_attempts r \<and> rc_attempts r \<le> reset_code_max_attempts (conf c)
     \<and> (rc_used_at r = None \<longrightarrow> rc_attempts r < reset_code_max_attempts (conf c))"

definition codes_ok :: "ctx \<Rightarrow> db \<Rightarrow> bool" where
  "codes_ok c s \<longleftrightarrow> codes.keys_unique s \<and> (\<forall>r \<in> set (reset_codes s). rc_id r < next_reset_code s)
     \<and> list_all (code_row_ok c) (reset_codes s)
     \<and> (\<forall>uid. length (filter (unused_of uid) (reset_codes s)) \<le> 1)"

lemma filter_update_le:
  assumes "\<And>r. Q (f r) \<Longrightarrow> P r \<Longrightarrow> Q r"
  shows "length (filter Q (update_where P f rs)) \<le> length (filter Q rs)"
  by (rule length_filter_update_where) (rule assms)

lemma codes_ok_update:
  assumes "codes_ok c s" and "\<And>r. rc_id (f r) = rc_id r" and "\<And>r. rc_user (f r) = rc_user r"
    and "\<And>r. r \<in> set (reset_codes s) \<Longrightarrow> P r \<Longrightarrow> code_row_ok c (f r)"
    and "\<And>r. P r \<Longrightarrow> rc_used_at (f r) = None \<Longrightarrow> r \<in> set (reset_codes s) \<Longrightarrow> rc_used_at r = None"
  shows "codes_ok c (s\<lparr>reset_codes := update_where P f (reset_codes s)\<rparr>)"
proof -
  have "length (filter (unused_of uid) (update_where P f rs)) \<le> length (filter (unused_of uid) rs)"
    if "set rs \<subseteq> set (reset_codes s)" for uid rs
    using that assms(3,5) by (induction rs) (auto simp: update_where_def unused_of_def)
  then have "length (filter (unused_of uid) (update_where P f (reset_codes s))) \<le> 1" for uid
    using assms(1) by (meson codes_ok_def le_trans order_refl)
  then show ?thesis
    using assms(1,2,4) by (auto simp: codes_ok_def codes.keys_unique_def map_update_where_key list_all_iff set_update_where)
qed

lemma codes_ok_subset:
  assumes "codes_ok c s" and "set rs \<subseteq> set (reset_codes s)" and "distinct (map rc_id rs)"
    and "\<And>uid. length (filter (unused_of uid) rs) \<le> length (filter (unused_of uid) (reset_codes s))"
  shows "codes_ok c (s\<lparr>reset_codes := rs\<rparr>)"
  using assms by (force simp: codes_ok_def codes.keys_unique_def list_all_iff intro: le_trans)

lemma distinct_delete_limit: "distinct (map k xs) \<Longrightarrow> distinct (map k (delete_limit n P xs))"
proof (induction xs arbitrary: n)
  case (Cons x xs)
  have "k x \<notin> k ` set (delete_limit n P xs)" for n
    using Cons.prems set_delete_limit [of n P xs] by auto
  with Cons show ?case by (cases n) auto
qed simp

lemma filter_delete_limit_le: "length (filter Q (delete_limit n P xs)) \<le> length (filter Q xs)"
proof (induction xs arbitrary: n)
  case (Cons x xs)
  show ?case using Cons.IH [of n] Cons.IH [of "n - 1"] by (cases n) (simp_all add: le_SucI)
qed simp

lemma codes_ok_cong:
  "codes_ok c s \<Longrightarrow> reset_codes t = reset_codes s \<Longrightarrow> next_reset_code t = next_reset_code s \<Longrightarrow> codes_ok c t"
  by (simp add: codes_ok_def codes.keys_unique_def)

lemma send_after_commit_fields [simp]:
  "reset_codes (send_after_commit ms s) = reset_codes s" "next_reset_code (send_after_commit ms s) = next_reset_code s"
  "sessions (send_after_commit ms s) = sessions s" "users (send_after_commit ms s) = users s"
  "attempts (send_after_commit ms s) = attempts s" "orgs (send_after_commit ms s) = orgs s"
  by (simp_all add: send_after_commit_def)

lemma use_up_ok: "codes_ok c s \<Longrightarrow> codes_ok c (use_up_codes uid now s)"
  unfolding use_up_codes_def
  by (rule codes_ok_update) (auto simp: code_row_ok_def codes_ok_def list_all_iff)

lemma use_up_none: "filter (unused_of uid) (reset_codes (use_up_codes uid now s)) = []"
proof -
  have none: "\<not> unused_of uid (if rc_user r = uid \<and> rc_used_at r = None then r\<lparr>rc_used_at := Some now\<rparr> else r)"
    for r :: reset_code_row
    by (simp add: unused_of_def)
  have "\<not> unused_of uid x" if x: "x \<in> set (reset_codes (use_up_codes uid now s))" for x
  proof -
    obtain r :: reset_code_row where "x = (if rc_user r = uid \<and> rc_used_at r = None then r\<lparr>rc_used_at := Some now\<rparr> else r)"
      using x by (force simp: use_up_codes_def set_update_where)
    then show ?thesis by (simp only: none not_False_eq_True)
  qed
  then show ?thesis by (simp add: filter_empty_conv)
qed

lemma issue_code_ok:
  assumes "codes_ok c s" and "settings_ok (conf c)"
  shows "codes_ok c (issue_code c drawn u org_name ip now s)"
proof -
  let ?s = "use_up_codes (u_id u) now s"
  let ?r = "\<lparr>rc_id = next_reset_code ?s, rc_user = u_id u,
      rc_hash = reset_code_digest c (u_id u) (new_reset_code drawn), rc_attempts = 0, rc_created_at = now,
      rc_expires_at = now + reset_code_ttl_minutes (conf c) * us_per_minute, rc_used_at = None, rc_ip = ip\<rparr>"
  have ok: "codes_ok c ?s" by (rule use_up_ok [OF assms(1)])
  have "length (filter (unused_of uid) (reset_codes ?s @ [?r])) \<le> 1" for uid
  proof (cases "uid = u_id u")
    case True
    then show ?thesis using use_up_none [of "u_id u" now s] by (simp add: unused_of_def)
  next
    case False
    then show ?thesis using ok by (simp add: unused_of_def codes_ok_def)
  qed
  moreover have "code_row_ok c ?r" using assms(2) by (simp add: code_row_ok_def settings_ok_def)
  ultimately have "codes_ok c (?s\<lparr>next_reset_code := next_reset_code ?s + 1, reset_codes := reset_codes ?s @ [?r]\<rparr>)"
    using ok by (auto simp: codes_ok_def codes.keys_unique_def)
  then show ?thesis
    using assms(1) by (auto simp: issue_code_def Let_def intro: codes_ok_cong)
qed

lemma bind_org_codes:
  "bind_org g s = (r, s1) \<Longrightarrow> reset_codes s1 = reset_codes s \<and> next_reset_code s1 = next_reset_code s
     \<and> users s1 = users s \<and> orgs s1 = orgs s \<and> sessions s1 = sessions s"
  by (auto simp: bind_org_def split: option.splits if_splits)

lemma handle_request_ok:
  assumes "codes_ok c s" and "settings_ok (conf c)"
  shows "codes_ok c (snd (handle_request c drawn job s))"
proof -
  obtain g typed ip now where job: "job = (g, typed, ip, now)" by (cases job)
  obtain r s1 where b: "bind_org g s = (r, s1)" by (cases "bind_org g s")
  have s1: "codes_ok c s1" using assms(1) bind_org_codes [OF b] by (auto intro: codes_ok_cong)
  have s2: "codes_ok c (s1\<lparr>reset_codes := delete_limit 1000 P (reset_codes s1)\<rparr>)" for P
    using s1 by (intro codes_ok_subset [OF s1] set_delete_limit filter_delete_limit_le)
      (simp add: codes_ok_def codes.keys_unique_def distinct_delete_limit)
  from s1 s2 issue_code_ok [OF s2 assms(2)] show ?thesis
    by (auto simp: handle_request_def job b Let_def split: sum.splits list.splits intro: codes_ok_cong [OF s2])
qed

subsection \<open>Redeeming\<close>

lemma codes_fields [simp]:
  "reset_codes (record_attempt c k ip ok dev s) = reset_codes s"
  "next_reset_code (record_attempt c k ip ok dev s) = next_reset_code s"
  "reset_codes (set_password c uid pw rs s) = reset_codes s"
  "next_reset_code (set_password c uid pw rs s) = next_reset_code s"
  "reset_codes (audit_record c a b e i d s) = reset_codes s"
  "next_reset_code (audit_record c a b e i d s) = next_reset_code s"
  "reset_codes (prune c uid s) = reset_codes s" "next_reset_code (prune c uid s) = next_reset_code s"
  by (simp_all add: record_attempt_def set_password_def revoke_all_def audit_record_def prune_def Let_def fold_revoke)

lemma open_session_codes:
  "open_session c sid salt uid s = (r, s') \<Longrightarrow>
   reset_codes s' = reset_codes s \<and> next_reset_code s' = next_reset_code s"
  by (auto simp: open_session_def Let_def split: if_splits)

lemma finish_reset_codes:
  "finish_reset c sid salt pw u n s = (r, s') \<Longrightarrow>
   reset_codes s' = reset_codes s \<and> next_reset_code s' = next_reset_code s"
  by (auto simp: finish_reset_def Let_def dest: open_session_codes split: prod.splits sum.splits option.splits)

lemma newest_code_in: "newest_code uid s = Some r \<Longrightarrow> r \<in> set (reset_codes s) \<and> unused_of uid r"
proof -
  have "first_row (sort_key k (filter Q xs)) = Some r \<Longrightarrow> r \<in> set xs \<and> Q r"
    for k :: "reset_code_row \<Rightarrow> int \<times> int" and Q xs
    using set_sort [of k "filter Q xs"] by (cases "sort_key k (filter Q xs)") (auto simp: first_row_def)
  from this [of "\<lambda>r. (- rc_created_at r, - rc_id r)" "\<lambda>r. rc_user r = uid \<and> rc_used_at r = None" "reset_codes s"]
  show "newest_code uid s = Some r \<Longrightarrow> r \<in> set (reset_codes s) \<and> unused_of uid r"
    by (simp add: newest_code_def unused_of_def)
qed

text \<open>
  What the transaction of \<open>_redeem\<close> does to the codes: nothing, the row used up, or one more
  wrong guess on a row that was live.
\<close>

lemma redeem_tx_codes:
  assumes run: "redeem_tx c g typed given fin s = (Inr x, s')"
    and fin: "\<And>f u n t r t'. fin = Some f \<Longrightarrow> f u n t = (r, t') \<Longrightarrow>
        reset_codes t' = reset_codes t \<and> next_reset_code t' = next_reset_code t"
  shows "next_reset_code s' = next_reset_code s"
    and "reset_codes s' = reset_codes s
      \<or> (\<exists>r. r \<in> set (reset_codes s) \<and> unused_of (rc_user r) r \<and> reset_codes s' = reset_codes (code_used c (rc_id r) s))
      \<or> (\<exists>r. r \<in> set (reset_codes s) \<and> unused_of (rc_user r) r \<and> code_live c (rc_user r) r s
            \<and> reset_codes s' = reset_codes (code_guessed c r s))"
proof -
  let ?uo = "(case (if well_formed_code given then find_accounts c g (reset_login typed) s else []) of
      [(u, n)] \<Rightarrow> if u_active u then Some (u, n) else None | _ \<Rightarrow> None)"
  have nx [simp]: "next_reset_code (code_used c i t) = next_reset_code t"
    "next_reset_code (code_guessed c r t) = next_reset_code t" for i t r
    by (simp_all add: code_used_def code_guessed_def Let_def)
  have "next_reset_code s' = next_reset_code s \<and> (reset_codes s' = reset_codes s
      \<or> (\<exists>r. r \<in> set (reset_codes s) \<and> unused_of (rc_user r) r \<and> reset_codes s' = reset_codes (code_used c (rc_id r) s))
      \<or> (\<exists>r. r \<in> set (reset_codes s) \<and> unused_of (rc_user r) r \<and> code_live c (rc_user r) r s
            \<and> reset_codes s' = reset_codes (code_guessed c r s)))"
  proof (cases "newest_code (case ?uo of Some (u, _) \<Rightarrow> u_id u | None \<Rightarrow> 0) s")
    case None
    then show ?thesis using run by (auto simp: redeem_tx_def Let_def)
  next
    case (Some r)
    show ?thesis
    proof (cases ?uo)
      case None
      then show ?thesis using run Some by (auto simp: redeem_tx_def Let_def split: if_splits)
    next
      case uo: (Some un)
      obtain u n where un: "un = (u, n)" by (cases un)
      have r: "r \<in> set (reset_codes s)" "unused_of (u_id u) r" "rc_user r = u_id u"
        using newest_code_in [of "u_id u" s r] Some uo un by (auto simp: unused_of_def)
      show ?thesis
        using run Some uo un r
        by (auto simp: redeem_tx_def Let_def split: if_splits sum.splits bool.splits option.splits prod.splits
            dest!: fin)
    qed
  qed
  then show "next_reset_code s' = next_reset_code s" and
    "reset_codes s' = reset_codes s
      \<or> (\<exists>r. r \<in> set (reset_codes s) \<and> unused_of (rc_user r) r \<and> reset_codes s' = reset_codes (code_used c (rc_id r) s))
      \<or> (\<exists>r. r \<in> set (reset_codes s) \<and> unused_of (rc_user r) r \<and> code_live c (rc_user r) r s
            \<and> reset_codes s' = reset_codes (code_guessed c r s))"
    by blast+
qed

lemma code_used_ok: "codes_ok c s \<Longrightarrow> codes_ok c (code_used c i s)"
  unfolding code_used_def
  by (rule codes_ok_update) (auto simp: code_row_ok_def codes_ok_def list_all_iff)

lemma code_guessed_ok:
  assumes "codes_ok c s" and "r \<in> set (reset_codes s)" and "unused_of uid r" and "code_live c uid r s"
  shows "codes_ok c (code_guessed c r s)"
  unfolding code_guessed_def Let_def
proof (rule codes_ok_update [OF assms(1)])
  fix r' assume r': "r' \<in> set (reset_codes s)" "rc_id r' = rc_id r"
  then have "r' = r" using codes.unique_row [of s r' r] assms(1,2) by (simp add: codes_ok_def)
  with assms show "code_row_ok c (r'\<lparr>rc_attempts := rc_attempts r + 1,
      rc_used_at := if reset_code_max_attempts (conf c) \<le> rc_attempts r + 1 then Some (utcnow c) else None\<rparr>)"
    by (auto simp: code_row_ok_def code_live_def codes_ok_def list_all_iff)
next
  fix r' assume r': "rc_id r' = rc_id r" "r' \<in> set (reset_codes s)"
  then have "r' = r" using codes.unique_row [of s r' r] assms(1,2) by (simp add: codes_ok_def)
  with assms(3) show "rc_used_at r' = None" by (simp add: unused_of_def)
qed simp_all


text \<open>
  The guess limits of password reset over any sequence of requests and background jobs, a
  reset code that works exactly once, and the emailed code accepted.
\<close>

subsection \<open>Wrong codes of a day\<close>

definition day_sum :: "datetime \<Rightarrow> int \<Rightarrow> reset_code_row list \<Rightarrow> int" where
  "day_sum now uid rs = sum_list (map rc_attempts
     (filter (\<lambda>r. rc_user r = uid \<and> now - us_per_day \<le> rc_created_at r) rs))"

lemma wrong_codes_today_eq: "wrong_codes_today c uid s = day_sum (utcnow c) uid (reset_codes s)"
  by (simp add: wrong_codes_today_def day_sum_def)

lemma day_sum_simps [simp]:
  "day_sum now uid [] = 0"
  "day_sum now uid (r # rs) = (if rc_user r = uid \<and> now - us_per_day \<le> rc_created_at r then rc_attempts r else 0) + day_sum now uid rs"
  by (simp_all add: day_sum_def)

lemma day_sum_append: "day_sum now uid (xs @ ys) = day_sum now uid xs + day_sum now uid ys"
  by (simp add: day_sum_def)

lemma day_sum_nonneg: "\<forall>r \<in> set rs. 0 \<le> rc_attempts r \<Longrightarrow> 0 \<le> day_sum now uid rs"
  by (induction rs) auto

lemma day_sum_later: "\<forall>r \<in> set rs. 0 \<le> rc_attempts r \<Longrightarrow> now \<le> now' \<Longrightarrow> day_sum now' uid rs \<le> day_sum now uid rs"
  by (induction rs) auto

lemma day_sum_delete_limit:
  "\<forall>r \<in> set rs. 0 \<le> rc_attempts r \<Longrightarrow> day_sum now uid (delete_limit n P rs) \<le> day_sum now uid rs"
proof (induction rs arbitrary: n)
  case (Cons r rs)
  have "day_sum now uid (delete_limit n P rs) \<le> day_sum now uid rs" for n
    using Cons by simp
  moreover have "0 \<le> rc_attempts r" using Cons.prems by simp
  ultimately show ?case
    by (cases n) (auto intro: add_mono add_increasing)
qed simp

lemma day_sum_update:
  assumes "\<And>r. rc_attempts (f r) = rc_attempts r" "\<And>r. rc_user (f r) = rc_user r" "\<And>r. rc_created_at (f r) = rc_created_at r"
  shows "day_sum now uid (update_where P f rs) = day_sum now uid rs"
  using assms by (induction rs) (auto simp: update_where_def)

lemma day_sum_guessed:
  assumes "distinct (map rc_id rs)" and "r \<in> set rs" and f: "\<And>x. rc_attempts (f x) = rc_attempts r + 1"
    "\<And>x. rc_user (f x) = rc_user x" "\<And>x. rc_created_at (f x) = rc_created_at x"
  shows "day_sum now uid (update_where (\<lambda>x. rc_id x = rc_id r) f rs) \<le> day_sum now uid rs + (if rc_user r = uid then 1 else 0)"
  using assms(1,2)
proof (induction rs)
  case (Cons x rs)
  show ?case
  proof (cases "x = r")
    case True
    then have "rc_id r \<notin> rc_id ` set rs" using Cons.prems(1) by simp
    then have "\<forall>y \<in> set rs. rc_id y \<noteq> rc_id r" by (metis image_eqI)
    then have "update_where (\<lambda>x. rc_id x = rc_id r) f rs = rs"
      by (simp add: update_where_def map_idI)
    with True f show ?thesis by (simp add: update_where_def)
  next
    case False
    with Cons.prems have "rc_id x \<noteq> rc_id r" "r \<in> set rs" by auto
    with Cons show ?thesis by (simp add: update_where_def)
  qed
qed simp

subsection \<open>Steps\<close>

definition codes_inv :: "ctx \<Rightarrow> db \<Rightarrow> bool" where
  "codes_inv c s \<longleftrightarrow> codes_ok c s
     \<and> (\<forall>uid. wrong_codes_today c uid s \<le> reset_max_wrong_codes_per_day (conf c))"

lemma codes_ok_nonneg: "codes_ok c s \<Longrightarrow> \<forall>r \<in> set (reset_codes s). 0 \<le> rc_attempts r"
  by (auto simp: codes_ok_def list_all_iff code_row_ok_def)

lemma codes_inv_cong:
  "codes_inv c s \<Longrightarrow> reset_codes t = reset_codes s \<Longrightarrow> next_reset_code t = next_reset_code s \<Longrightarrow> codes_inv c t"
  by (auto simp: codes_inv_def wrong_codes_today_eq intro: codes_ok_cong)

lemma transaction_codes:
  assumes "codes_inv c s" and "\<And>x s'. body s = (Inr x, s') \<Longrightarrow> codes_inv c s'" and "transaction body s = (r, s2)"
  shows "codes_inv c s2"
  using assms by (cases r) (auto simp: transaction_Inr transaction_Inl)

lemma code_guessed_inv:
  assumes "codes_inv c s" and r: "r \<in> set (reset_codes s)" "unused_of (rc_user r) r" "code_live c (rc_user r) r s"
  shows "codes_inv c (code_guessed c r s)"
proof -
  have ok: "codes_ok c s" using assms(1) by (simp add: codes_inv_def)
  have "wrong_codes_today c uid (code_guessed c r s) \<le> reset_max_wrong_codes_per_day (conf c)" for uid
  proof -
    let ?f = "\<lambda>x :: reset_code_row. x\<lparr>rc_attempts := rc_attempts r + 1,
        rc_used_at := if reset_code_max_attempts (conf c) \<le> rc_attempts r + 1 then Some (utcnow c) else None\<rparr>"
    have "day_sum (utcnow c) uid (update_where (\<lambda>x. rc_id x = rc_id r) ?f (reset_codes s))
        \<le> wrong_codes_today c uid s + (if rc_user r = uid then 1 else 0)"
      unfolding wrong_codes_today_eq using ok r(1)
      by (intro day_sum_guessed) (simp_all add: codes_ok_def codes.keys_unique_def)
    moreover have "wrong_codes_today c uid s + (if rc_user r = uid then 1 else 0) \<le> reset_max_wrong_codes_per_day (conf c)"
      using assms(1) r(3) by (auto simp: codes_inv_def code_live_def)
    ultimately show ?thesis
      by (simp add: wrong_codes_today_eq code_guessed_def Let_def)
  qed
  with code_guessed_ok [OF ok r] show ?thesis by (simp add: codes_inv_def)
qed

lemma code_used_inv: "codes_inv c s \<Longrightarrow> codes_inv c (code_used c i s)"
proof -
  assume inv: "codes_inv c s"
  have "wrong_codes_today c uid (code_used c i s) = wrong_codes_today c uid s" for uid
    unfolding wrong_codes_today_eq code_used_def by (simp add: day_sum_update)
  with inv show ?thesis by (simp add: codes_inv_def code_used_ok)
qed

lemma redeem_inv:
  assumes inv: "codes_inv c s" and run: "redeem c typed given oc fin s = (x, s')"
    and fin: "\<And>f u n t r t'. fin = Some f \<Longrightarrow> f u n t = (r, t') \<Longrightarrow>
        reset_codes t' = reset_codes t \<and> next_reset_code t' = next_reset_code t"
  shows "codes_inv c s'"
proof -
  obtain r1 s1 where res: "resolve c oc s = (r1, s1)" by (cases "resolve c oc s")
  have s1: "codes_inv c s1"
    using resolve_effect [OF res] inv by (auto intro: codes_inv_cong)
  have tx: "codes_inv c s2" if "redeem_tx c g typed w fin s1 = (Inr y, s2)" for g w y s2
  proof -
    have nx: "next_reset_code s2 = next_reset_code s1"
      by (rule redeem_tx_codes(1) [OF that]) (erule (1) fin)
    have "reset_codes s2 = reset_codes s1
      \<or> (\<exists>r. r \<in> set (reset_codes s1) \<and> unused_of (rc_user r) r \<and> reset_codes s2 = reset_codes (code_used c (rc_id r) s1))
      \<or> (\<exists>r. r \<in> set (reset_codes s1) \<and> unused_of (rc_user r) r \<and> code_live c (rc_user r) r s1
            \<and> reset_codes s2 = reset_codes (code_guessed c r s1))"
      by (rule redeem_tx_codes(2) [OF that]) (erule (1) fin)
    then show ?thesis
    proof (elim disjE exE conjE)
      fix r assume "reset_codes s2 = reset_codes (code_used c (rc_id r) s1)"
      then show ?thesis by (intro codes_inv_cong [OF code_used_inv [OF s1]]) (simp_all add: nx code_used_def)
    next
      fix r assume "r \<in> set (reset_codes s1)" "unused_of (rc_user r) r" "code_live c (rc_user r) r s1"
        "reset_codes s2 = reset_codes (code_guessed c r s1)"
      then show ?thesis
        by (intro codes_inv_cong [OF code_guessed_inv [OF s1]]) (simp_all add: nx code_guessed_def Let_def)
    qed (use nx s1 in \<open>auto intro: codes_inv_cong\<close>)
  qed
  have "codes_inv c s2" if "transaction (redeem_tx c g typed w fin) s1 = (r2, s2)" for g w r2 s2
    using transaction_codes [OF s1 _ that] tx by blast
  then show ?thesis
    using run res s1 by (auto simp: redeem_def split: sum.splits prod.splits option.splits)
qed

text \<open>
  The steps of the component: a request, a background job, a check or a redemption of a
  code, each at its own clock; and the runs made of them, on clocks that do not go back.
\<close>

inductive reset_step :: "ctx \<Rightarrow> db \<Rightarrow> db \<Rightarrow> bool" where
  request: "request_code c typed oc s = (r, s') \<Longrightarrow> reset_step c s s'"
| job: "handle_request c drawn j s = (r, s') \<Longrightarrow> reset_step c s s'"
| check: "verify_code c typed given oc s = (r, s') \<Longrightarrow> reset_step c s s'"
| reset: "reset_password c sid salt typed given pw oc s = (r, s') \<Longrightarrow> reset_step c s s'"

inductive reset_run :: "ctx \<Rightarrow> db \<Rightarrow> ctx \<Rightarrow> db \<Rightarrow> bool" for c s where
  start: "reset_run c s c s"
| step: "reset_run c s c' s' \<Longrightarrow> same_site c' d \<Longrightarrow> utcnow c' \<le> utcnow d
    \<Longrightarrow> reset_step d (s'\<lparr>bound_org := None\<rparr>) s'' \<Longrightarrow> reset_run c s d s''"

lemma issue_code_day_sum:
  "wrong_codes_today c uid (issue_code c' drawn u n ip now s) = wrong_codes_today c uid s"
  by (simp add: issue_code_def Let_def wrong_codes_today_eq send_after_commit_def use_up_codes_def
      day_sum_append day_sum_update)

lemma handle_request_inv:
  assumes "codes_inv c s" and "settings_ok (conf c)" and "handle_request c drawn j s = (r, s')"
  shows "codes_inv c s'"
proof -
  obtain g typed ip now where job: "j = (g, typed, ip, now)" by (cases j)
  obtain rb s1 where b: "bind_org g s = (rb, s1)" by (cases "bind_org g s")
  have ok: "codes_ok c s'"
    using handle_request_ok [of c s drawn j] assms by (simp add: codes_inv_def)
  have s1: "wrong_codes_today c uid s1 = wrong_codes_today c uid s" for uid
    using bind_org_codes [OF b] by (simp add: wrong_codes_today_eq)
  have s2: "wrong_codes_today c uid (s1\<lparr>reset_codes := delete_limit 1000 P (reset_codes s1)\<rparr>) \<le> wrong_codes_today c uid s"
    for P uid
    using day_sum_delete_limit [of "reset_codes s"] codes_ok_nonneg [of c s] assms(1) bind_org_codes [OF b]
    by (simp add: wrong_codes_today_eq codes_inv_def)
  have send: "wrong_codes_today c uid (send_after_commit ms t) = wrong_codes_today c uid t" for ms t uid
    by (simp add: wrong_codes_today_eq)
  have "wrong_codes_today c uid s' \<le> wrong_codes_today c uid s" for uid
    using assms(3) s1 s2
    by (auto simp: handle_request_def job b Let_def issue_code_day_sum send split: sum.splits list.splits prod.splits if_splits)
  with ok assms(1) show ?thesis by (auto simp: codes_inv_def intro: order_trans)
qed

lemma reset_step_inv:
  assumes "reset_step c s s'" and "codes_inv c s" and "settings_ok (conf c)"
  shows "codes_inv c s'"
  using assms(1)
proof cases
  case (request typed oc r)
  then have "reset_codes s' = reset_codes s \<and> next_reset_code s' = next_reset_code s"
    by (auto simp: request_code_def Let_def dest!: resolve_effect split: sum.splits prod.splits)
  then show ?thesis using assms(2) by (auto intro: codes_inv_cong)
next
  case (job drawn j r)
  then show ?thesis using handle_request_inv assms(2,3) by blast
next
  case (check typed given oc r)
  then show ?thesis unfolding verify_code_def by (rule redeem_inv [OF assms(2)]) simp
next
  case (reset sid salt typed given pw oc r)
  then show ?thesis unfolding reset_password_def
    by (rule redeem_inv [OF assms(2)]) (auto dest: finish_reset_codes)
qed

lemma codes_inv_later:
  assumes "codes_inv c s" and "same_site c d" and "utcnow c \<le> utcnow d"
  shows "codes_inv d (s\<lparr>bound_org := b\<rparr>)"
proof -
  have conf: "conf d = conf c" using assms(2) by (simp add: same_site_def)
  have ok: "codes_ok c s" using assms(1) by (simp add: codes_inv_def)
  then have "codes_ok d (s\<lparr>bound_org := b\<rparr>)"
    by (simp add: codes_ok_def code_row_ok_def conf codes.keys_unique_def list_all_iff)
  moreover have "wrong_codes_today d uid (s\<lparr>bound_org := b\<rparr>) \<le> wrong_codes_today c uid s" for uid
    using day_sum_later [OF codes_ok_nonneg [OF ok] assms(3)] by (simp add: wrong_codes_today_eq)
  ultimately show ?thesis using assms(1) by (auto simp: codes_inv_def conf intro: order_trans)
qed

lemma reset_run_inv:
  assumes "reset_run c s c' s'" and "codes_inv c s" and "settings_ok (conf c)"
  shows "codes_inv c' s' \<and> settings_ok (conf c')"
  using assms
proof (induction rule: reset_run.induct)
  case (step c' s' d s'')
  then have "settings_ok (conf d)" by (simp add: same_site_def)
  moreover have "codes_inv d (s'\<lparr>bound_org := None\<rparr>)" using step codes_inv_later by blast
  ultimately show ?case using reset_step_inv [OF step(4)] by blast
qed simp

lemma codes_inv_empty: "reset_codes s = [] \<Longrightarrow> settings_ok (conf c) \<Longrightarrow> codes_inv c s"
  by (simp add: codes_inv_def codes_ok_def codes.keys_unique_def wrong_codes_today_eq settings_ok_def)

end
