(* ===== verification/Reset_Claims.thy ===== *)
theory Reset_Claims
  imports Reset_Props Auth_Claims
begin

text \<open>
  The properties of password reset: the guess limits, the emailed code that works once, and
  the reply that says nothing about the accounts.
\<close>

text \<open>C3: Whatever requests, background jobs, code checks and resets follow each other on clocks that do
  not go back, an account never has more than one code that can still be redeemed, no code takes
  more than \<open>RESET_CODE_MAX_ATTEMPTS\<close> wrong guesses, and the wrong guesses against the codes issued
  in the last day stay within \<open>RESET_MAX_WRONG_CODES_PER_DAY\<close>.\<close>

theorem reset_guess_limit:
  assumes "reset_run c s c' s'" and "codes_inv c s" and "settings_ok (conf c)"
  shows "length (filter (unused_of uid) (reset_codes s')) \<le> 1
    \<and> (\<forall>r \<in> set (reset_codes s'). rc_attempts r \<le> reset_code_max_attempts (conf c'))
    \<and> wrong_codes_today c' uid s' \<le> reset_max_wrong_codes_per_day (conf c')"
  using reset_run_inv [OF assms] by (auto simp: codes_inv_def codes_ok_def list_all_iff code_row_ok_def)

lemma demo_run:
  "reset_run (demo 0) demo_db (demo 9) (snd (verify_code (demo 9) ''asha'' (Some ''000001'') None (demo_db\<lparr>bound_org := None\<rparr>)))"
proof -
  have "reset_step (demo 9) (demo_db\<lparr>bound_org := None\<rparr>)
      (snd (verify_code (demo 9) ''asha'' (Some ''000001'') None (demo_db\<lparr>bound_org := None\<rparr>)))"
    by (rule reset_step.check [OF prod.collapse [symmetric]])
  from reset_run.step [OF reset_run.start demo_site _ this] show ?thesis by simp
qed

theorem reset_guess_limit_witness:
  "wrong_codes_today (demo 9) 2 (snd (verify_code (demo 9) ''asha'' (Some ''000001'') None (demo_db\<lparr>bound_org := None\<rparr>))) \<le> 20"
  using reset_guess_limit [OF demo_run codes_inv_empty, of 2] by simp

subsection \<open>The emailed code\<close>

lemma new_code_well_formed:
  assumes "0 \<le> n" and "n < 1000000"
  shows "well_formed_code (new_reset_code n)"
proof -
  have len: "length (nat_digits m) \<le> 6" if "m < 1000000" for m
  proof -
    have step: "length (nat_digits m) \<le> Suc (length (nat_digits (m div 10)))" for m
      by (subst nat_digits.simps) simp
    have "m div 10 div 10 div 10 div 10 div 10 < 10" using that by linarith
    then have "length (nat_digits (m div 10 div 10 div 10 div 10 div 10)) = 1"
      by (subst nat_digits.simps) simp
    then show ?thesis
      using step [of m] step [of "m div 10"] step [of "m div 10 div 10"] step [of "m div 10 div 10 div 10"]
        step [of "m div 10 div 10 div 10 div 10"] by linarith
  qed
  have "py_isdigit_char (CHR ''0'')" by code_simp
  moreover have "list_all py_isdigit_char (nat_digits (nat n))"
    using py_isdigit_nat_digits [of "nat n"] by (simp add: py_isdigit_def)
  ultimately have "list_all py_isdigit_char (zfill 6 (nat_digits (nat n)))"
    by (auto simp: zfill_def list_all_iff)
  moreover have "length (zfill 6 (nat_digits (nat n))) = 6"
    using len [of "nat n"] assms by (simp add: zfill_def)
  ultimately show ?thesis
    using assms by (auto simp: well_formed_code_def new_reset_code_def fmt0_def RESET_CODE_DIGITS_def py_isdigit_def)
qed

lemma newest_after_issue:
  assumes "int (length (filter (\<lambda>r. rc_user r = u_id u \<and> now - reset_window c \<le> rc_created_at r) (reset_codes s)))
      < reset_max_codes_per_account (conf c)"
  shows "newest_code (u_id u) (issue_code c drawn u n ip now s) = Some \<lparr>rc_id = next_reset_code s, rc_user = u_id u,
     rc_hash = reset_code_digest c (u_id u) (new_reset_code drawn), rc_attempts = 0, rc_created_at = now,
     rc_expires_at = now + reset_code_ttl_minutes (conf c) * us_per_minute, rc_used_at = None, rc_ip = ip\<rparr>"
proof -
  have "filter (\<lambda>r. rc_user r = u_id u \<and> rc_used_at r = None) (reset_codes (use_up_codes (u_id u) now s)) = []"
    using use_up_none [of "u_id u" now s] by (simp add: unused_of_def [abs_def])
  moreover have "next_reset_code (use_up_codes (u_id u) now s) = next_reset_code s" by (simp add: use_up_codes_def)
  ultimately show ?thesis
    using assms by (simp add: newest_code_def issue_code_def Let_def first_row_def)
qed


definition demo_issued :: db where
  "demo_issued = issue_code (demo 0) 417 (demo_user 2 ''asha'' Teacher) ''Model School'' None (demo_time 0) demo_db"

lemma demo_issued_fields:
  "users demo_issued = users demo_db" "orgs demo_issued = orgs demo_db"
  "wrong_codes_today (demo t) 2 demo_issued = 0"
  by (simp_all add: demo_issued_def issue_code_def Let_def send_after_commit_def use_up_codes_def update_where_def
      wrong_codes_today_def)

lemma demo_accounts: "find_accounts (demo t) 1 ''asha'' demo_issued = [(demo_user 2 ''asha'' Teacher, ''Model School'')]"
  by (simp add: find_accounts_def demo_issued_fields with_org_def first_row_def)

lemma demo_reset_login: "reset_login ''asha'' = ''asha''"
  by code_simp


lemma newest_code_None: "newest_code uid s = None \<longleftrightarrow> filter (unused_of uid) (reset_codes s) = []"
proof -
  have "first_row xs = None \<longleftrightarrow> xs = []" for xs :: "reset_code_row list"
    by (cases xs) (simp_all add: first_row_def)
  moreover have "sort_key k xs = [] \<longleftrightarrow> xs = []" for k :: "reset_code_row \<Rightarrow> int \<times> int" and xs
    by (metis length_0_conv length_sort)
  ultimately show ?thesis by (simp add: newest_code_def unused_of_def [abs_def])
qed

lemma code_used_none:
  assumes "codes_ok c s" and "r \<in> set (reset_codes s)" and "unused_of uid r"
  shows "filter (unused_of uid) (reset_codes (code_used c (rc_id r) s)) = []"
proof -
  have one: "length (filter (unused_of uid) (reset_codes s)) \<le> 1" using assms(1) by (simp add: codes_ok_def)
  have "x = r" if "x \<in> set (reset_codes s)" "unused_of uid x" for x
  proof -
    have "x \<in> set (filter (unused_of uid) (reset_codes s))" "r \<in> set (filter (unused_of uid) (reset_codes s))"
      using that assms by auto
    with one show ?thesis by (cases "filter (unused_of uid) (reset_codes s)") auto
  qed
  then have "\<not> unused_of uid (if rc_id x = rc_id r then x\<lparr>rc_used_at := Some (utcnow c)\<rparr> else x)"
    if "x \<in> set (reset_codes s)" for x
    using that by (cases "unused_of uid x") (auto simp: unused_of_def)
  moreover have "\<exists>x \<in> set (reset_codes s). y = (if rc_id x = rc_id r then x\<lparr>rc_used_at := Some (utcnow c)\<rparr> else x)"
    if "y \<in> set (reset_codes (code_used c (rc_id r) s))" for y
    using that by (force simp: code_used_def set_update_where)
  ultimately have "\<forall>y \<in> set (reset_codes (code_used c (rc_id r) s)). \<not> unused_of uid y" by blast
  then show ?thesis by (simp add: filter_empty_conv)
qed

lemma redeem_tx_success:
  assumes "redeem_tx c g typed given (Some f) s = (Inr (Some (Some x)), s')"
  obtains u n r and t :: db where "r \<in> set (reset_codes s)" "unused_of (u_id u) r"
    "reset_codes t = reset_codes (code_used c (rc_id r) s)" "f u n t = (Inr x, s')"
proof -
  let ?uo = "(case (if well_formed_code given then find_accounts c g (reset_login typed) s else []) of
      [(u, n)] \<Rightarrow> if u_active u then Some (u, n) else None | _ \<Rightarrow> None)"
  obtain r where r: "newest_code (case ?uo of Some (u, _) \<Rightarrow> u_id u | None \<Rightarrow> 0) s = Some r"
    using assms by (cases "newest_code (case ?uo of Some (u, _) \<Rightarrow> u_id u | None \<Rightarrow> 0) s")
      (auto simp: redeem_tx_def Let_def)
  obtain u n where uo: "?uo = Some (u, n)"
    using assms r by (cases ?uo) (auto simp: redeem_tx_def Let_def split: if_splits)
  have mem: "r \<in> set (reset_codes s)" "unused_of (u_id u) r"
    using newest_code_in [of "u_id u" s r] r uo by simp_all
  let ?t = "record_attempt c (account_key g (u_username u)) (client_ip c) True None (code_used c (rc_id r) s)"
  have "f u n ?t = (Inr x, s')"
    using assms r uo by (auto simp: redeem_tx_def Let_def split: if_splits sum.splits bool.splits prod.splits)
  then show ?thesis using that [OF mem, of ?t n] by simp
qed


lemma demo_issued_more:
  "bound_org demo_issued = None" "attempts demo_issued = []" "sessions demo_issued = []"
  by (simp_all add: demo_issued_def issue_code_def Let_def send_after_commit_def use_up_codes_def update_where_def)

lemma demo_code: "new_reset_code 417 = ''000417''" "py_strip ''000417'' = ''000417''"
  by code_simp+

lemma demo_redeem:
  "redeem_tx (demo 60) 1 ''asha'' ''000417'' (Some f) (demo_issued\<lparr>bound_org := Some 1\<rparr>)
    = (case f (demo_user 2 ''asha'' Teacher) ''Model School''
         (record_attempt (demo 60) (account_key 1 ''asha'') (Some ''10.0.0.7'') True None
           (code_used (demo 60) 1 (demo_issued\<lparr>bound_org := Some 1\<rparr>))) of
       (Inl e, s2) \<Rightarrow> (Inl e, s2) | (Inr x, s2) \<Rightarrow> (Inr (Some (Some x)), s2))"
proof -
  let ?c = "demo 60" and ?u = "demo_user 2 ''asha'' Teacher" and ?s = "demo_issued\<lparr>bound_org := Some 1\<rparr>"
  have "newest_code (u_id ?u) demo_issued = Some \<lparr>rc_id = 1, rc_user = 2,
     rc_hash = reset_code_digest (demo 0) 2 (new_reset_code 417), rc_attempts = 0, rc_created_at = demo_time 0,
     rc_expires_at = demo_time 0 + 15 * us_per_minute, rc_used_at = None, rc_ip = None\<rparr>"
    unfolding demo_issued_def by (subst newest_after_issue) simp_all
  then have row: "newest_code 2 ?s = Some \<lparr>rc_id = 1, rc_user = 2,
     rc_hash = reset_code_digest (demo 0) 2 ''000417'', rc_attempts = 0, rc_created_at = demo_time 0,
     rc_expires_at = demo_time 0 + 15 * us_per_minute, rc_used_at = None, rc_ip = None\<rparr>"
    by (simp add: newest_code_def demo_code)
  have "reset_code_digest (demo 0) 2 ''000417'' = reset_code_digest ?c 2 ''000417''"
    by (simp add: reset_code_digest_def derive_key_def)
  then have m: "reset_code_matches ?c 2 ''000417'' (reset_code_digest (demo 0) 2 ''000417'') = Inr True"
    using reset_code_self [of ?c 2 "''000417''"] by simp
  have a: "find_accounts ?c 1 ''asha'' ?s = [(?u, ''Model School'')]"
    by (simp add: find_accounts_def demo_issued_fields with_org_def first_row_def)
  have w: "well_formed_code ''000417''" by code_simp
  have l: "code_live ?c 2 \<lparr>rc_id = 1, rc_user = 2,
     rc_hash = reset_code_digest (demo 0) 2 ''000417'', rc_attempts = 0, rc_created_at = demo_time 0,
     rc_expires_at = demo_time 0 + 15 * us_per_minute, rc_used_at = None, rc_ip = None\<rparr> ?s"
    using demo_issued_fields(3) [of 60] by (simp add: code_live_def wrong_codes_today_def demo_time_def us_defs)
  show ?thesis by (simp add: redeem_tx_def Let_def row m a w l demo_reset_login)
qed

lemma demo_reset:
  "\<exists>tr s'. reset_password (demo 60) ''s1'' ''salt'' ''asha'' (Some ''000417'') ''new'' None demo_issued = (Inr (Some tr), s')"
proof -
  have "resolve (demo 60) None demo_issued = (Inr demo_org, demo_issued\<lparr>bound_org := Some 1\<rparr>)"
    by (simp add: resolve_def find_org_def one_where_def opt_str_def bind_org_def demo_strings demo_issued_fields
        demo_issued_more Let_def)
  moreover have "\<exists>tr s2. finish_reset (demo 60) ''s1'' ''salt'' ''new'' (demo_user 2 ''asha'' Teacher) ''Model School''
         (record_attempt (demo 60) (account_key 1 ''asha'') (Some ''10.0.0.7'') True None
           (code_used (demo 60) 1 (demo_issued\<lparr>bound_org := Some 1\<rparr>))) = (Inr tr, s2)"
    by (simp add: finish_reset_def open_session_def prune_def Let_def set_password_def revoke_all_def audit_record_def
        code_used_def demo_issued_more demo_issued_fields update_where_def delete_where_def one_where_def token_user_def
        send_after_commit_def)
  ultimately show ?thesis
    by (auto simp: reset_password_def redeem_def ensure_allowed_def demo_assess demo_issued_more demo_code str_or_def
        transaction_def demo_redeem)
qed


text \<open>C29: The answer to a forgotten-password request, its throttling included, does not depend on the
  accounts of the school: it is the same, and leaves the same trace, whatever users exist.\<close>

theorem request_hides_accounts:
  "request_code c typed oc (s\<lparr>users := us\<rparr>) = (case request_code c typed oc s of (r, s') \<Rightarrow> (r, s'\<lparr>users := us\<rparr>))"
proof -
  have "ensure_request_allowed c key ip (t\<lparr>users := us\<rparr>) = ensure_request_allowed c key ip t" for key ip t
    by (simp add: ensure_request_allowed_def reset_rows_def)
  then show ?thesis
    by (auto simp: request_code_def resolve_users Let_def split: prod.splits sum.splits)
qed

end
