(* ===== verification/Access.thy ===== *)
theory Access
  imports Auth "HOL-Library.Multiset"
begin

text \<open>
  Who may see or change what: \<^verbatim>\<open>app/services/access.py\<close>, the request guards of
  \<^verbatim>\<open>app/dependencies.py\<close>, and the pages of \<^verbatim>\<open>app/services/pagination.py\<close>.
\<close>

subsection \<open>Assignments\<close>

record assignment_view =
  av_row :: assignment_row
  av_class_name :: string
  av_section_name :: string
  av_student_count :: nat

text \<open>\<open>get_assignments\<close>: the joins drop an assignment whose class or section is gone.\<close>

definition get_assignments :: "int \<Rightarrow> int option \<Rightarrow> int option \<Rightarrow> db \<Rightarrow> assignment_view list res" where
  "get_assignments teacher_id class_id section_id s = bindR (org_of s) (\<lambda>g. Inr (concat (map (\<lambda>a.
     concat (map (\<lambda>cl. map (\<lambda>se. \<lparr>av_row = a, av_class_name = cl_name cl, av_section_name = se_name se,
         av_student_count = length (filter (\<lambda>p. sp_section p = Some (ta_section a)) (student_profiles s))\<rparr>)
       (filter (\<lambda>se. se_id se = ta_section a) (sections s))) (filter (\<lambda>cl. cl_id cl = ta_class a) (classes s))))
     (filter (\<lambda>a. ta_org a = g \<and> ta_teacher a = teacher_id
        \<and> (case class_id of None \<Rightarrow> True | Some x \<Rightarrow> ta_class a = x)
        \<and> (case section_id of None \<Rightarrow> True | Some x \<Rightarrow> ta_section a = x)) (assignments s)))))"

text \<open>\<open>_has_assignment\<close>: \<open>class_id <=> NULL\<close> matches nothing, the column is never null.\<close>

definition has_assignment :: "int \<Rightarrow> int option \<Rightarrow> int option \<Rightarrow> bool \<Rightarrow> db \<Rightarrow> bool res" where
  "has_assignment teacher_id class_id section_id class_teacher_only s = bindR (org_of s) (\<lambda>g. Inr
     (\<exists>a \<in> set (assignments s). ta_org a = g \<and> ta_teacher a = teacher_id \<and> class_id = Some (ta_class a)
        \<and> (case section_id of None \<Rightarrow> True | Some x \<Rightarrow> ta_section a = x)
        \<and> (class_teacher_only \<longrightarrow> ta_class_teacher a)))"

definition is_assigned :: "current_user \<Rightarrow> int option \<Rightarrow> int option \<Rightarrow> db \<Rightarrow> bool res" where
  "is_assigned user class_id section_id s = has_assignment (cu_id user) class_id section_id False s"

definition is_class_teacher :: "current_user \<Rightarrow> int option \<Rightarrow> int option \<Rightarrow> db \<Rightarrow> bool res" where
  "is_class_teacher user class_id section_id s = has_assignment (cu_id user) class_id section_id True s"

definition ensure_can_view_section :: "current_user \<Rightarrow> int option \<Rightarrow> int option \<Rightarrow> db \<Rightarrow> unit res" where
  "ensure_can_view_section user class_id section_id s =
     (if is_manager (cu_type user) then Inr ()
      else bindR (if cu_type user = Teacher then is_assigned user class_id section_id s else Inr False)
        (\<lambda>ok. if ok then Inr () else Inl (Forbidden ''Not assigned to this class/section'')))"

definition ensure_can_edit_students :: "current_user \<Rightarrow> int option \<Rightarrow> int option \<Rightarrow> db \<Rightarrow> unit res" where
  "ensure_can_edit_students user class_id section_id s =
     (if is_manager (cu_type user) then Inr ()
      else bindR (if cu_type user = Teacher then is_class_teacher user class_id section_id s else Inr False)
        (\<lambda>ok. if ok then Inr ()
               else Inl (Forbidden ''Only the class teacher (or admins) can manage students here'')))"

definition ensure_students_in_section :: "int \<Rightarrow> int list \<Rightarrow> db \<Rightarrow> unit res" where
  "ensure_students_in_section section_id student_ids s =
     (if student_ids = [] then Inr ()
      else bindR (org_of s) (\<lambda>g.
        let found = map sp_user (filter (\<lambda>p. sp_org p = g \<and> sp_section p = Some section_id
                       \<and> sp_user p \<in> set student_ids) (student_profiles s));
            outside = sort (filter (\<lambda>i. i \<notin> set found) (remdups student_ids))
        in if outside = [] then Inr ()
           else Inl (BadRequest (''Students not in this section: '' @ py_join '', '' (map py_str_int outside)))))"

subsection \<open>Request guards\<close>

text \<open>\<open>_PASSWORD_CHANGE_PATHS\<close>: reachable while a password change is pending.\<close>

definition PASSWORD_CHANGE_PATHS :: "string list" where
  "PASSWORD_CHANGE_PATHS = [''/auth/me'', ''/auth/change-password'', ''/auth/logout'', ''/auth/logout-all'']"

definition get_current_user :: "ctx \<Rightarrow> string \<Rightarrow> string option \<Rightarrow> current_user handler" where
  "get_current_user c path creds s = (case creds of
     None \<Rightarrow> (Inl (Unauthorized ''Missing token'' [(''WWW-Authenticate'', ''Bearer'')]), s)
   | Some token \<Rightarrow> (case authenticate c token s of
       (Inl e, s') \<Rightarrow> (Inl e, s')
     | (Inr user, s') \<Rightarrow>
         if enforce_password_change (conf c) \<and> cu_must_change user \<and> path \<notin> set PASSWORD_CHANGE_PATHS
         then (Inl (Forbidden ''Password change required''), s') else (Inr user, s')))"

definition get_optional_user :: "ctx \<Rightarrow> string option \<Rightarrow> current_user option handler" where
  "get_optional_user c creds s = (case creds of
     None \<Rightarrow> (Inr None, s)
   | Some token \<Rightarrow> (case authenticate c token s of
       (Inl (Unauthorized m h), s') \<Rightarrow> (Inr None, s')
     | (Inl e, s') \<Rightarrow> (Inl e, s')
     | (Inr user, s') \<Rightarrow> (Inr (Some user), s')))"

definition require_roles :: "user_type list \<Rightarrow> current_user \<Rightarrow> current_user res" where
  "require_roles roles user = (if cu_type user \<notin> set roles
     then Inl (Forbidden (''Requires role: '' @ py_join '', '' (map role_name roles))) else Inr user)"

text \<open>The characters of \<^verbatim>\<open>[\w.@+\- ]\<close> among the 256 a header value can hold.\<close>

definition operator_char :: "char \<Rightarrow> bool" where
  "operator_char ch = (let n = py_ord ch in ascii_digit ch \<or> 65 \<le> n \<and> n \<le> 90 \<or> 97 \<le> n \<and> n \<le> 122
     \<or> ch \<in> set ''_.@+- '' \<or> n \<in> {0xAA, 0xB2, 0xB3, 0xB5, 0xB9, 0xBA, 0xBC, 0xBD, 0xBE}
     \<or> 0xC0 \<le> n \<and> n \<noteq> 0xD7 \<and> n \<noteq> 0xF7)"

definition platform_operator :: "ctx \<Rightarrow> string option \<Rightarrow> string option \<Rightarrow> string option res" where
  "platform_operator c secret actor_header =
     (if platform_secret (conf c) = [] then Inl (NotFound ''Not Found'')
      else if opt_is_blank secret \<or> the secret \<noteq> platform_secret (conf c)
      then Inl (Forbidden ''Invalid platform secret'')
      else (let actor = py_strip (str_or actor_header '''')
            in Inr (if actor \<noteq> [] \<and> length actor \<le> 120 \<and> list_all operator_char actor then Some actor else None)))"

subsection \<open>Pages\<close>

definition MAX_PAGE_SIZE :: nat where "MAX_PAGE_SIZE = 500"

record page =
  pg_limit :: "nat option"
  pg_offset :: nat

record 'a page_result =
  pr_rows :: "'a list"
  pr_total :: "nat option"

text \<open>
  \<open>page_params\<close>: the bounds FastAPI checks (422 otherwise), and \<open>fetch\<close>. The query's rows come in
  whatever order the database has them; \<open>key\<close> is the \<^verbatim>\<open>ORDER BY\<close>.
\<close>

definition page_params :: "int option \<Rightarrow> int \<Rightarrow> page res" where
  "page_params limit offset =
     (if (case limit of None \<Rightarrow> False | Some l \<Rightarrow> l < 1 \<or> int MAX_PAGE_SIZE < l) \<or> offset < 0
      then Inl (Unprocessable ''limit must be 1 to 500, offset at least 0'')
      else Inr \<lparr>pg_limit = map_option nat limit, pg_offset = nat offset\<rparr>)"

definition fetch :: "('a \<Rightarrow> 'k::linorder) \<Rightarrow> 'a list \<Rightarrow> page option \<Rightarrow> nat option \<Rightarrow> 'a page_result" where
  "fetch key rows page default_limit = (case page of
     Some p \<Rightarrow> (case pg_limit p of
        Some n \<Rightarrow> \<lparr>pr_rows = take n (drop (pg_offset p) (sort_key key rows)), pr_total = Some (length rows)\<rparr>
      | None \<Rightarrow> \<lparr>pr_rows = (case default_limit of None \<Rightarrow> sort_key key rows
                   | Some l \<Rightarrow> if l = 0 then sort_key key rows else take l (sort_key key rows)), pr_total = None\<rparr>)
   | None \<Rightarrow> \<lparr>pr_rows = (case default_limit of None \<Rightarrow> sort_key key rows
                | Some l \<Rightarrow> if l = 0 then sort_key key rows else take l (sort_key key rows)), pr_total = None\<rparr>)"

subsection \<open>Laws\<close>

lemma has_assignment_no_class: "has_assignment t None sec ct s = Inr b \<Longrightarrow> \<not> b"
  by (auto simp: has_assignment_def)

lemma students_in_section_iff:
  assumes "bound_org s = Some g"
  shows "ensure_students_in_section sec ids s = Inr () \<longleftrightarrow>
    (\<forall>i \<in> set ids. \<exists>p \<in> set (student_profiles s). sp_org p = g \<and> sp_section p = Some sec \<and> sp_user p = i)"
proof -
  have "sort (filter (\<lambda>i. i \<notin> S) (remdups ids)) = [] \<longleftrightarrow> (\<forall>i \<in> set ids. i \<in> S)" for S
    by (metis (no_types, lifting) filter_empty_conv length_0_conv length_sort set_remdups)
  moreover have "(\<forall>i \<in> set ids. i \<in> set (map sp_user (filter (\<lambda>p. sp_org p = g \<and> sp_section p = Some sec
        \<and> sp_user p \<in> set ids) ps)))
    \<longleftrightarrow> (\<forall>i \<in> set ids. \<exists>p \<in> set ps. sp_org p = g \<and> sp_section p = Some sec \<and> sp_user p = i)"
    for ps :: "student_profile_row list"
    by (force simp: image_iff)
  ultimately show ?thesis using assms
    by (simp add: ensure_students_in_section_def org_of_def Let_def)
qed

text \<open>Two reads of the same rows are ordered the same, however the database returns them.\<close>

lemma sort_key_unique:
  assumes "mset xs = mset ys" and "inj_on key (set xs)"
  shows "sort_key key xs = sort_key key ys"
  by (rule sort_key_inj_key_eq) (use assms in simp_all)

lemma pages_concat:
  "concat (map (\<lambda>i. take n (drop (i * n) xs)) [0..<k]) = take (k * n) xs"
proof (induction k)
  case (Suc k)
  have "take (Suc k * n) xs = take (k * n + n) xs" by (simp add: add.commute)
  with Suc show ?case by (simp add: take_add del: mult_Suc)
qed simp

end
