(* ===== verification/Timings.thy ===== *)
theory Timings
  imports Access
begin

text \<open>
  School timings: the validated body of \<^verbatim>\<open>app/models/school_timings.py\<close> and the computations of
  \<^verbatim>\<open>app/services/school_timings.py\<close>. A TIME column is its minutes after midnight.
\<close>

definition MINUTES_PER_DAY :: int where "MINUTES_PER_DAY = 1440"

text \<open>\<open>hm\<close>, and reading such a text back (\<open>map(int, value.split(":"))\<close>).\<close>

definition hm :: "int \<Rightarrow> string" where
  "hm m = fmt0 2 (m div 60) @ '':'' @ fmt0 2 (m mod 60)"

definition hm_parts :: "string \<Rightarrow> (int \<times> int) option" where
  "hm_parts v = (case py_split (CHR '':'') v of
     [h, m] \<Rightarrow> (case (py_int h, py_int m) of (Some a, Some b) \<Rightarrow> Some (a, b) | _ \<Rightarrow> None)
   | _ \<Rightarrow> None)"

subsection \<open>The body of a request\<close>

record timings_body =
  tb_start :: string
  tb_prayer :: int
  tb_period :: int
  tb_per_day :: int
  tb_breaks :: "break_row list"

text \<open>The pattern \<open>_HM\<close> and the validator \<open>_valid_time\<close>.\<close>

definition hm_pattern :: "string \<Rightarrow> bool" where
  "hm_pattern v = (case v of
     [a, b, d, e, f] \<Rightarrow> ((a = CHR ''0'' \<or> a = CHR ''1'') \<and> ascii_digit b \<or> a = CHR ''2'' \<and> b \<in> set ''0123'')
        \<and> d = CHR '':'' \<and> e \<in> set ''012345'' \<and> ascii_digit f
   | _ \<Rightarrow> False)"

definition valid_time :: "string \<Rightarrow> string res" where
  "valid_time raw =
     (let v0 = py_strip raw;
          v1 = (if length v0 = 4 \<and> v0 ! 1 = CHR '':'' then CHR ''0'' # v0 else v0);
          v2 = (if length v1 = 8 \<and> v1 ! 5 = CHR '':'' then take 5 v1 else v1)
      in if hm_pattern v2 then Inr v2 else Inl (Unprocessable ''start_time must be HH:MM''))"

text \<open>\<open>_check_day\<close>: the loop over the breaks with the set of periods seen, then the end of the day.\<close>

definition ELLIPSIS :: string where "ELLIPSIS = map char_of [0xE2, 0x80, 0xA6 :: nat]"

fun check_breaks :: "int \<Rightarrow> int list \<Rightarrow> break_row list \<Rightarrow> unit res" where
  "check_breaks n seen [] = Inr ()"
| "check_breaks n seen (b # bs) =
     (if \<not> (1 \<le> b_after b \<and> b_after b \<le> n - 1)
      then Inl (Unprocessable (''A break must come after period 1 '' @ ELLIPSIS @ '' '' @ py_str_int (n - 1)))
      else if b_after b \<in> set seen
      then Inl (Unprocessable (''Only one break after period '' @ py_str_int (b_after b)))
      else check_breaks n (b_after b # seen) bs)"

definition day_end :: "int \<Rightarrow> int \<Rightarrow> int \<Rightarrow> int \<Rightarrow> break_row list \<Rightarrow> int" where
  "day_end start prayer period n breaks = start + prayer + period * n + sum_list (map b_minutes breaks)"

definition parse_timings :: "timings_body \<Rightarrow> timings_body res" where
  "parse_timings b =
     (if list_ex (\<lambda>x. b_minutes x < 1 \<or> 180 < b_minutes x \<or> (case b_label x of None \<Rightarrow> False | Some l \<Rightarrow> 60 < length l))
           (tb_breaks b)
         \<or> tb_prayer b < 0 \<or> 120 < tb_prayer b \<or> tb_period b < 10 \<or> 180 < tb_period b
         \<or> tb_per_day b < 1 \<or> 12 < tb_per_day b
      then Inl (Unprocessable ''a field is out of range'')
      else bindR (valid_time (tb_start b)) (\<lambda>v.
        bindR (check_breaks (tb_per_day b) [] (tb_breaks b)) (\<lambda>_.
          case hm_parts v of
            None \<Rightarrow> Inl ValueError
          | Some (h, m) \<Rightarrow>
              if MINUTES_PER_DAY \<le> day_end (h * 60 + m) (tb_prayer b) (tb_period b) (tb_per_day b) (tb_breaks b)
              then Inl (Unprocessable ''The school day must end before midnight'')
              else Inr (b\<lparr>tb_start := v\<rparr>))))"

subsection \<open>Periods\<close>

record period_entry =
  pe_period :: int
  pe_start :: string
  pe_end :: string

text \<open>\<open>after.get(p, 0)\<close> of the dict built from the breaks: the last one of a period counts.\<close>

definition break_after :: "break_row list \<Rightarrow> int \<Rightarrow> int" where
  "break_after breaks p = (case map_of (rev (map (\<lambda>b. (b_after b, b_minutes b)) breaks)) p of
     None \<Rightarrow> 0 | Some m \<Rightarrow> m)"

fun periods_loop :: "int \<Rightarrow> int \<Rightarrow> break_row list \<Rightarrow> nat \<Rightarrow> int \<Rightarrow> int \<Rightarrow> period_entry list" where
  "periods_loop n period breaks 0 p at = []"
| "periods_loop n period breaks (Suc k) p at =
     \<lparr>pe_period = p, pe_start = hm at, pe_end = hm (at + period)\<rparr>
     # periods_loop n period breaks k (p + 1) (at + (period + (if p < n then break_after breaks p else 0)))"

definition compute_periods :: "int \<Rightarrow> int \<Rightarrow> int \<Rightarrow> int \<Rightarrow> break_row list \<Rightarrow> period_entry list" where
  "compute_periods start prayer period n breaks = periods_loop n period breaks (nat n) 1 (start + prayer)"

subsection \<open>Reading and saving\<close>

definition load_timings :: "int \<Rightarrow> db \<Rightarrow> timings_row option" where
  "load_timings g s = one_where (\<lambda>t. st_org t = g) (timings s)"

record timings_payload =
  tp_start_time :: string
  tp_prayer_minutes :: int
  tp_period_minutes :: int
  tp_periods_per_day :: int
  tp_breaks :: "break_row list"
  tp_periods :: "period_entry list"
  tp_updated_by_name :: "string option"

definition timings_payload_of :: "timings_row \<Rightarrow> db \<Rightarrow> timings_payload" where
  "timings_payload_of t s = (let breaks = sort_key b_after (st_breaks t) in
     \<lparr>tp_start_time = hm (st_start t), tp_prayer_minutes = st_prayer t, tp_period_minutes = st_period t,
      tp_periods_per_day = st_periods_per_day t, tp_breaks = breaks,
      tp_periods = compute_periods (st_start t) (st_prayer t) (st_period t) (st_periods_per_day t) breaks,
      tp_updated_by_name = map_option u_full_name (one_where (\<lambda>u. u_id u = st_updated_by t) (users s))\<rparr>)"

definition get_timings :: "db \<Rightarrow> timings_payload option res" where
  "get_timings s = bindR (org_of s) (\<lambda>g. Inr (map_option (\<lambda>t. timings_payload_of t s) (load_timings g s)))"

type_synonym times = "int \<Rightarrow> period_entry option"

definition period_times :: "db \<Rightarrow> times res" where
  "period_times s = bindR (get_timings s) (\<lambda>t. Inr (case t of None \<Rightarrow> (\<lambda>_. None)
     | Some p \<Rightarrow> map_of (rev (map (\<lambda>e. (pe_period e, e)) (tp_periods p)))))"

definition periods_per_day :: "db \<Rightarrow> int option res" where
  "periods_per_day s = bindR (org_of s) (\<lambda>g. Inr (map_option st_periods_per_day (load_timings g s)))"

text \<open>\<open>period_start\<close>: \<open>datetime\<close> raises outside 00:00 to 23:59.\<close>

definition period_start :: "date \<Rightarrow> int \<Rightarrow> times \<Rightarrow> datetime option res" where
  "period_start day period tt = (case tt period of
     None \<Rightarrow> Inr None
   | Some e \<Rightarrow> (case hm_parts (pe_start e) of
       None \<Rightarrow> Inl ValueError
     | Some (h, m) \<Rightarrow> if 0 \<le> h \<and> h < 24 \<and> 0 \<le> m \<and> m < 60 then Inr (Some (datetime_at day h m)) else Inl ValueError))"

text \<open>The teachers with classes after the last period, by name.\<close>

definition teachers_beyond :: "ctx \<Rightarrow> int \<Rightarrow> int \<Rightarrow> db \<Rightarrow> (int \<times> string) list" where
  "teachers_beyond c g n s = sort_key (\<lambda>(_, name). collation c name) (remdups (concat (map (\<lambda>t.
     map (\<lambda>u. (u_id u, u_full_name u)) (filter (\<lambda>u. u_id u = t_teacher t) (users s)))
     (filter (\<lambda>t. t_org t = g \<and> n < t_period t) (slots s)))))"

definition timings_details :: "timings_body \<Rightarrow> bool \<Rightarrow> (string \<times> string) list" where
  "timings_details b deleted = [(''start_time'', tb_start b), (''prayer_minutes'', py_str_int (tb_prayer b)),
     (''period_minutes'', py_str_int (tb_period b)), (''periods_per_day'', py_str_int (tb_per_day b)),
     (''breaks'', py_join '', '' (map (\<lambda>x. py_str_int (b_after x) @ '': '' @ py_str_int (b_minutes x)) (tb_breaks b))),
     (''deleted_slots_after_period'', if deleted then ''True'' else ''False'')]"

text \<open>\<open>INSERT \<dots> ON DUPLICATE KEY UPDATE\<close>: one row per school.\<close>

definition store_timings :: "timings_row \<Rightarrow> db \<Rightarrow> db" where
  "store_timings t s = s\<lparr>timings := (if list_ex (\<lambda>r. st_org r = st_org t) (timings s)
     then update_where (\<lambda>r. st_org r = st_org t) (\<lambda>_. t) (timings s) else timings s @ [t])\<rparr>"

text \<open>\<open>save_timings\<close>, for a body that passed \<open>parse_timings\<close>.\<close>

definition save_timings :: "ctx \<Rightarrow> current_user \<Rightarrow> timings_body \<Rightarrow> bool \<Rightarrow> timings_payload option handler" where
  "save_timings c actor b force s =
     (case transaction (\<lambda>s. case (org_of s, hm_parts (tb_start b)) of
        (Inl e, _) \<Rightarrow> (Inl e, s)
      | (Inr _, None) \<Rightarrow> (Inl ValueError, s)
      | (Inr g, Some (h, m)) \<Rightarrow>
          (let beyond = teachers_beyond c g (tb_per_day b) s in
           if beyond \<noteq> [] \<and> \<not> force
           then (Inl (Conflict (''These teachers have classes after period '' @ py_str_int (tb_per_day b) @ '': ''
                   @ py_join '', '' (map snd beyond)
                   @ ''. Move those classes first, or save with ?force=true to delete them.'')), s)
           else (let s1 = (if beyond \<noteq> [] then s\<lparr>slots := delete_where (\<lambda>t. t_org t = g \<and> tb_per_day b < t_period t) (slots s)\<rparr>
                           else s)
             in (Inr (), audit_record c (Some (cu_id actor)) ''school_timings.update'' (Some ''school_timings'')
                  (Some (py_str_int g)) (timings_details b (beyond \<noteq> []))
                  (store_timings \<lparr>st_org = g, st_start = h * 60 + m, st_prayer = tb_prayer b, st_period = tb_period b,
                     st_periods_per_day = tb_per_day b, st_breaks = sort_key b_after (tb_breaks b),
                     st_updated_by = cu_id actor\<rparr> s1))))) s of
        (Inl e, s') \<Rightarrow> (Inl e, s')
      | (Inr _, s') \<Rightarrow> (get_timings s', s'))"

subsection \<open>Laws\<close>

lemma fmt0_2_parse:
  assumes "0 \<le> n"
  shows "py_int (fmt0 2 n) = Some n" and "CHR '':'' \<notin> set (fmt0 2 n)"
proof -
  have "list_all ascii_digit (nat_digits (nat n))" by (rule nat_digits_ascii)
  then have "py_int (zfill 2 (nat_digits (nat n))) = Some n"
    using assms by (simp add: zfill_digits digits_val_nat_digits)
  then show "py_int (fmt0 2 n) = Some n" using assms by (simp add: fmt0_def)
  have "\<not> ascii_digit (CHR '':'')" by (simp add: ascii_digit_def py_ord_def)
  then have "CHR '':'' \<notin> set (nat_digits (nat n))"
    using nat_digits_ascii [of "nat n"] by (auto simp: list_all_iff)
  then show "CHR '':'' \<notin> set (fmt0 2 n)" using assms by (auto simp: fmt0_def zfill_def)
qed

lemma hm_parts_hm:
  assumes "0 \<le> m"
  shows "hm_parts (hm m) = Some (m div 60, m mod 60)"
proof -
  have "0 \<le> m div 60" "0 \<le> m mod 60" using assms by (simp_all add: pos_imp_zdiv_nonneg_iff)
  then show ?thesis
    by (simp add: hm_parts_def hm_def py_split_sep py_split_no_sep fmt0_2_parse)
qed

text \<open>What a stored row may be relied on for.\<close>

definition timings_row_ok :: "timings_row \<Rightarrow> bool" where
  "timings_row_ok t \<longleftrightarrow> 0 \<le> st_start t \<and> 0 \<le> st_prayer t \<and> 10 \<le> st_period t \<and> 1 \<le> st_periods_per_day t
     \<and> list_all (\<lambda>b. 1 \<le> b_minutes b \<and> 1 \<le> b_after b \<and> b_after b < st_periods_per_day t) (st_breaks t)
     \<and> distinct (map b_after (st_breaks t))
     \<and> day_end (st_start t) (st_prayer t) (st_period t) (st_periods_per_day t) (st_breaks t) < MINUTES_PER_DAY"

lemma breaks_nonneg: "timings_row_ok t \<Longrightarrow> 0 \<le> sum_list (map b_minutes (filter P (st_breaks t)))"
  by (force simp: timings_row_ok_def list_all_iff intro!: sum_list_nonneg)

text \<open>The minute a period starts, in closed form.\<close>

definition period_minute :: "timings_row \<Rightarrow> nat \<Rightarrow> int" where
  "period_minute t i = st_start t + st_prayer t + int i * st_period t
     + sum_list (map b_minutes (filter (\<lambda>b. b_after b \<le> int i) (st_breaks t)))"

lemma map_of_rev: "distinct (map fst xs) \<Longrightarrow> map_of (rev xs) = map_of xs"
proof (induction xs)
  case (Cons x xs)
  then have "map_of xs (fst x) = None" by (simp add: map_of_eq_None_iff)
  with Cons show ?case by (cases x) (auto simp: map_add_def fun_eq_iff split: option.split)
qed simp

lemma break_after_sum:
  assumes "distinct (map b_after bs)"
  shows "break_after bs p = sum_list (map b_minutes (filter (\<lambda>b. b_after b = p) bs))"
proof -
  have d: "distinct (map fst (map (\<lambda>b. (b_after b, b_minutes b)) bs))"
    using assms by (simp add: comp_def)
  have "map_of (rev (map (\<lambda>b. (b_after b, b_minutes b)) bs)) = map_of (map (\<lambda>b. (b_after b, b_minutes b)) bs)"
    by (rule map_of_rev [OF d])
  moreover have "(case map_of (map (\<lambda>b. (b_after b, b_minutes b)) bs) p of None \<Rightarrow> 0 | Some m \<Rightarrow> m)
      = sum_list (map b_minutes (filter (\<lambda>b. b_after b = p) bs))"
    using assms
  proof (induction bs)
    case (Cons b bs)
    show ?case
    proof (cases "b_after b = p")
      case True
      then have "filter (\<lambda>b. b_after b = p) bs = []"
        using Cons.prems by (simp add: filter_empty_conv) (metis image_eqI)
      with True show ?thesis by simp
    next
      case False
      with Cons show ?thesis by simp
    qed
  qed simp
  ultimately show ?thesis by (simp add: break_after_def)
qed

lemma breaks_upto_Suc:
  "sum_list (map b_minutes (filter (\<lambda>b. b_after b \<le> int (Suc i)) bs))
    = sum_list (map b_minutes (filter (\<lambda>b. b_after b \<le> int i) bs))
      + sum_list (map b_minutes (filter (\<lambda>b. b_after b = int (Suc i)) bs))"
  by (induction bs) auto

lemma period_minute_Suc:
  assumes "timings_row_ok t"
  shows "period_minute t (Suc i) = period_minute t i + st_period t + break_after (st_breaks t) (int (Suc i))"
  using assms break_after_sum [of "st_breaks t" "int (Suc i)"] breaks_upto_Suc [of i "st_breaks t"]
  by (simp add: period_minute_def timings_row_ok_def algebra_simps)

lemma periods_loop_eq:
  assumes "timings_row_ok t" and "int (i + k) = st_periods_per_day t"
  shows "periods_loop (st_periods_per_day t) (st_period t) (st_breaks t) k (int (Suc i)) (period_minute t i)
    = map (\<lambda>j. \<lparr>pe_period = int (Suc j), pe_start = hm (period_minute t j),
        pe_end = hm (period_minute t j + st_period t)\<rparr>) [i..<i + k]"
  using assms(2)
proof (induction k arbitrary: i)
  case (Suc k)
  show ?case
  proof (cases k)
    case 0
    then show ?thesis by simp
  next
    case (Suc k')
    then have "int (Suc i) < st_periods_per_day t" using Suc.prems by simp
    then have step: "period_minute t i + (st_period t + (if int (Suc i) < st_periods_per_day t
        then break_after (st_breaks t) (int (Suc i)) else 0)) = period_minute t (Suc i)"
      using period_minute_Suc [OF assms(1), of i] by simp
    have len: "int (Suc i + k) = st_periods_per_day t" using Suc.prems by simp
    have nx: "int (Suc i) + 1 = int (Suc (Suc i))" by simp
    have upt: "[i..<i + Suc k] = i # [Suc i..<Suc i + k]" by (simp add: upt_conv_Cons)
    show ?thesis
      by (simp only: periods_loop.simps step nx Suc.IH [OF len] upt list.map)
  qed
qed simp

lemma compute_periods_eq:
  assumes "timings_row_ok t"
  shows "compute_periods (st_start t) (st_prayer t) (st_period t) (st_periods_per_day t) (st_breaks t)
    = map (\<lambda>j. \<lparr>pe_period = int (Suc j), pe_start = hm (period_minute t j),
        pe_end = hm (period_minute t j + st_period t)\<rparr>) [0..<nat (st_periods_per_day t)]"
proof -
  have "filter (\<lambda>b. b_after b \<le> 0) (st_breaks t) = []"
    using assms by (auto simp: timings_row_ok_def list_all_iff filter_empty_conv)
  then have "period_minute t 0 = st_start t + st_prayer t" by (simp add: period_minute_def)
  moreover have "int (0 + nat (st_periods_per_day t)) = st_periods_per_day t"
    using assms by (simp add: timings_row_ok_def)
  ultimately show ?thesis
    using periods_loop_eq [OF assms, of 0 "nat (st_periods_per_day t)"] by (simp add: compute_periods_def)
qed

text \<open>The last period ends exactly at the minute the validator of the body checks.\<close>

lemma last_period_end:
  assumes "timings_row_ok t"
  shows "period_minute t (nat (st_periods_per_day t) - 1) + st_period t
    = day_end (st_start t) (st_prayer t) (st_period t) (st_periods_per_day t) (st_breaks t)"
proof -
  have n: "1 \<le> st_periods_per_day t" using assms by (simp add: timings_row_ok_def)
  define k where "k = nat (st_periods_per_day t) - 1"
  have k: "st_periods_per_day t = int k + 1" using n by (simp add: k_def)
  have "filter (\<lambda>b. b_after b \<le> int k) (st_breaks t) = st_breaks t"
    using assms by (auto simp: timings_row_ok_def list_all_iff filter_id_conv k)
  then have "period_minute t k + st_period t
      = day_end (st_start t) (st_prayer t) (st_period t) (st_periods_per_day t) (st_breaks t)"
    by (simp add: period_minute_def day_end_def k algebra_simps)
  then show ?thesis by (simp only: k_def)
qed

lemma period_minute_mono:
  assumes "timings_row_ok t" and "i \<le> j"
  shows "period_minute t i + int (j - i) * st_period t \<le> period_minute t j"
  using assms(2)
proof (induction j)
  case (Suc j)
  show ?case
  proof (cases "i = Suc j")
    case False
    with Suc have IH: "period_minute t i + int (j - i) * st_period t \<le> period_minute t j" by simp
    have "0 \<le> break_after (st_breaks t) (int (Suc j))"
      using assms(1) break_after_sum [of "st_breaks t" "int (Suc j)"] breaks_nonneg [OF assms(1)]
      by (simp add: timings_row_ok_def)
    with IH False Suc.prems period_minute_Suc [OF assms(1), of j] show ?thesis
      by (simp add: Suc_diff_le algebra_simps)
  qed simp
qed simp

lemma period_minute_bounds:
  assumes "timings_row_ok t" and "i < nat (st_periods_per_day t)"
  shows "0 \<le> period_minute t i" and "period_minute t i + st_period t < MINUTES_PER_DAY"
proof -
  have ok: "0 \<le> st_start t" "0 \<le> st_prayer t" "10 \<le> st_period t" using assms(1) by (simp_all add: timings_row_ok_def)
  have zero: "0 \<le> period_minute t 0"
    using breaks_nonneg [OF assms(1)] ok by (simp add: period_minute_def)
  have "0 \<le> int i * st_period t" using ok by simp
  then show "0 \<le> period_minute t i"
    using period_minute_mono [OF assms(1), of 0 i] zero by simp
  have le: "i \<le> nat (st_periods_per_day t) - 1" using assms(2) by arith
  have "0 \<le> int (nat (st_periods_per_day t) - 1 - i) * st_period t" using ok by simp
  then have "period_minute t i \<le> period_minute t (nat (st_periods_per_day t) - 1)"
    using order_trans [OF _ period_minute_mono [OF assms(1) le]] by simp
  then show "period_minute t i + st_period t < MINUTES_PER_DAY"
    using last_period_end [OF assms(1)] assms(1) by (simp add: timings_row_ok_def)
qed

end
