(* ===== verification/Notify.thy ===== *)
theory Notify
  imports Auth "HOL-Library.Multiset"
begin

text \<open>
  In-app notifications and push messages, \<^verbatim>\<open>app/services/notify.py\<close>. Characters beyond Latin-1 are
  written as their UTF-8 bytes. What Firebase answers to a batch is a parameter of the push job.
\<close>

definition FCM_BATCH :: nat where "FCM_BATCH = 500"

record item =
  it_user :: int
  it_title :: string
  it_body :: "string option"
  it_data :: "notice_data option"

function chunks :: "nat \<Rightarrow> 'a list \<Rightarrow> 'a list list" where
  "chunks n xs = (if xs = [] \<or> n = 0 then [] else take n xs # chunks n (drop n xs))"
  by pat_completeness auto
termination by (relation "measure (\<lambda>(n, xs). length xs)") auto

declare chunks.simps [simp del]

definition push_configured :: "ctx \<Rightarrow> bool" where
  "push_configured c = (firebase_credentials (conf c) \<noteq> [])"

definition notification_of :: "string \<Rightarrow> item \<Rightarrow> notification_row" where
  "notification_of kind i = \<lparr>n_user = it_user i, n_type = kind, n_title = take 200 (it_title i),
     n_body = it_body i, n_data = it_data i\<rparr>"

definition notify_each :: "ctx \<Rightarrow> item list \<Rightarrow> string \<Rightarrow> bool \<Rightarrow> db \<Rightarrow> db" where
  "notify_each c items kind push s =
     (let rows = map (notification_of kind) (filter (\<lambda>i. it_user i \<noteq> 0) items) in
      if rows = [] then s
      else (let s1 = s\<lparr>notifications := notifications s @ rows\<rparr> in
        if \<not> push \<or> \<not> push_configured c then s1
        else s1\<lparr>push_jobs := push_jobs s1 @ chunks FCM_BATCH rows\<rparr>))"

definition notify :: "ctx \<Rightarrow> int list \<Rightarrow> string \<Rightarrow> string \<Rightarrow> string option \<Rightarrow> notice_data option \<Rightarrow> db \<Rightarrow> db" where
  "notify c user_ids kind title body data s = notify_each c
     (map (\<lambda>uid. \<lparr>it_user = uid, it_title = title, it_body = body, it_data = data\<rparr>) (dedup_first user_ids)) kind True s"

subsection \<open>Push\<close>

record push_message =
  pm_token :: string
  pm_title :: string
  pm_body :: "string option"
  pm_type :: string
  pm_data :: "notice_data option"

datatype fcm_result = FcmSent | FcmUnregistered | FcmInvalidArgument | FcmOther

definition push_message_of :: "string \<Rightarrow> notification_row \<Rightarrow> push_message" where
  "push_message_of token n = \<lparr>pm_token = token, pm_title = n_title n,
     pm_body = (if opt_is_blank (n_body n) then None else n_body n), pm_type = n_type n, pm_data = n_data n\<rparr>"

definition tokens_of :: "int \<Rightarrow> db \<Rightarrow> string list" where
  "tokens_of uid s = map d_token (filter (\<lambda>d. d_user d = uid) (devices s))"

text \<open>The tokens Firebase reports as gone; \<open>zip\<close> is strict, so a short answer is a \<open>ValueError\<close>.\<close>

fun invalid_tokens :: "(push_message list \<Rightarrow> fcm_result list) \<Rightarrow> push_message list list \<Rightarrow> string list res" where
  "invalid_tokens fcm [] = Inr []"
| "invalid_tokens fcm (chunk # rest) =
     (let answer = fcm chunk in
      if length answer \<noteq> length chunk then Inl ValueError
      else bindR (invalid_tokens fcm rest) (\<lambda>ts.
        Inr (map (\<lambda>(m, r). pm_token m) (filter (\<lambda>(m, r). r = FcmUnregistered \<or> r = FcmInvalidArgument) (zip chunk answer)) @ ts)))"

definition send_push :: "bool \<Rightarrow> (push_message list \<Rightarrow> fcm_result list) \<Rightarrow> notification_row list \<Rightarrow> unit handler" where
  "send_push app_ready fcm payload s =
     (if \<not> app_ready then (Inr (), s)
      else (let outgoing = concat (map (\<lambda>n. map (\<lambda>t. push_message_of t n) (tokens_of (n_user n) s)) payload) in
        case invalid_tokens fcm (chunks FCM_BATCH outgoing) of
          Inl e \<Rightarrow> (Inl e, s)
        | Inr invalid \<Rightarrow> (Inr (), s\<lparr>devices := delete_where (\<lambda>d. d_token d \<in> set invalid) (devices s)\<rparr>)))"

subsection \<open>Texts\<close>

definition EN_DASH :: string where "EN_DASH = map char_of [0xE2, 0x80, 0x93 :: nat]"
definition RUPEE :: string where "RUPEE = map char_of [0xE2, 0x82, 0xB9 :: nat]"

definition day_month :: "date \<Rightarrow> string" where
  "day_month d = py_str_int (day_of d) @ '' '' @ month_abbr (month_of d)"

definition weekday_date :: "date \<Rightarrow> string" where
  "weekday_date d = day_abbr (weekday d) @ '' '' @ py_str_int (day_of d) @ '' '' @ month_abbr (month_of d)"

definition date_range :: "date \<Rightarrow> date \<Rightarrow> string" where
  "date_range a b = (if a = b then day_month a
     else if (year_of a, month_of a) = (year_of b, month_of b)
     then py_str_int (day_of a) @ EN_DASH @ py_str_int (day_of b) @ '' '' @ month_abbr (month_of b)
     else day_month a @ EN_DASH @ day_month b)"

text \<open>\<open>inr\<close> of an amount in paise (a DECIMAL with two places): the Indian grouping of the digits.\<close>

function pair_groups :: "string \<Rightarrow> string list \<Rightarrow> string list" where
  "pair_groups head groups =
     (if 2 < length head then pair_groups (take (length head - 2) head) (drop (length head - 2) head # groups)
      else if head \<noteq> [] then head # groups else groups)"
  by pat_completeness auto
termination by (relation "measure (\<lambda>(h, g). length h)") auto

declare pair_groups.simps [simp del]

definition indian_digits :: "string \<Rightarrow> string" where
  "indian_digits digits = (if 3 < length digits
     then py_join '','' (pair_groups (take (length digits - 3) digits) []) @ '','' @ drop (length digits - 3) digits
     else digits)"

definition inr :: "int \<Rightarrow> string" where
  "inr paise = (let rupees = abs paise div 100; p = abs paise mod 100;
       t = RUPEE @ indian_digits (py_str_int rupees) @ (if p \<noteq> 0 then ''.'' @ fmt0 2 p else '''')
     in if paise < 0 then ''-'' @ t else t)"

definition first_name :: "string option \<Rightarrow> string" where
  "first_name full_name = (let full = str_or full_name ''''; first = hd (py_split (CHR '' '') (py_strip full))
     in if first = [] then full else first)"

subsection \<open>Routes\<close>

definition STAFF_ROUTES :: "(string \<times> string) list" where
  "STAFF_ROUTES = [(''fee'', ''FeesAdmin''), (''notice'', ''StaffNotices''), (''leave'', ''Leaves'')]"

definition STUDENT_ROUTES :: "(string \<times> string) list" where
  "STUDENT_ROUTES = [(''attendance'', ''Attendance''), (''fee'', ''Fees''), (''notice'', ''Notices''),
     (''homework'', ''Homework''), (''timetable'', ''StudentTimetable''), (''syllabus'', ''Syllabus''),
     (''event'', ''Events''), (''remark'', ''Remarks''), (''class_announcement'', ''ClassAnnouncements'')]"

definition WEB_PATHS :: "(string \<times> string) list" where
  "WEB_PATHS = [(''fee'', ''/fees''), (''notice'', ''/notices''), (''leave'', ''/leaves'')]"

definition route :: "string \<Rightarrow> bool \<Rightarrow> notice_data res" where
  "route kind student = (case map_of (if student then STUDENT_ROUTES else STAFF_ROUTES) kind of
     None \<Rightarrow> Inl KeyError
   | Some r \<Rightarrow> Inr \<lparr>nd_route = r, nd_tab = None, nd_id = None, nd_web_path = map_of WEB_PATHS kind\<rparr>)"

definition substitution_route :: "int \<Rightarrow> string option \<Rightarrow> notice_data" where
  "substitution_route rid tab =
     (if tab = Some ''outgoing''
      then \<lparr>nd_route = ''Substitutions'', nd_tab = Some ''outgoing'', nd_id = Some rid,
            nd_web_path = Some (''/substitutions?tab=outgoing&id='' @ py_str_int rid)\<rparr>
      else if tab = Some ''incoming''
      then \<lparr>nd_route = ''Substitutions'', nd_tab = Some ''incoming'', nd_id = Some rid,
            nd_web_path = Some (''/substitutions?id='' @ py_str_int rid)\<rparr>
      else \<lparr>nd_route = ''Substitutions'', nd_tab = None, nd_id = Some rid,
            nd_web_path = Some (''/substitutions?id='' @ py_str_int rid)\<rparr>)"

definition manager_ids :: "int option \<Rightarrow> db \<Rightarrow> int list res" where
  "manager_ids exclude s = bindR (org_of s) (\<lambda>g. Inr (filter (\<lambda>i. Some i \<noteq> exclude)
     (map u_id (filter (\<lambda>u. u_org u = g \<and> u_active u \<and> is_manager (u_type u)) (users s)))))"

subsection \<open>Laws\<close>

lemma concat_chunks: "0 < n \<Longrightarrow> concat (chunks n xs) = xs"
  by (induction n xs rule: chunks.induct) (subst chunks.simps, auto)

lemma chunks_bound: "ch \<in> set (chunks n xs) \<Longrightarrow> length ch \<le> n \<and> ch \<noteq> []"
  by (induction n xs rule: chunks.induct) (subst (asm) (2) chunks.simps, auto split: if_splits)

lemma concat_pair_groups: "concat (pair_groups h gs) = h @ concat gs"
  by (induction h gs rule: pair_groups.induct) (subst pair_groups.simps, auto)

text \<open>Nothing but the inbox and the push jobs changes.\<close>

lemma notify_each_frame:
  "notify_each c items kind push s = s\<lparr>notifications := notifications (notify_each c items kind push s),
     push_jobs := push_jobs (notify_each c items kind push s)\<rparr>"
  by (simp add: notify_each_def Let_def)

lemma notify_frame [simp]:
  "sub_requests (notify_each c items kind p s) = sub_requests s" "next_sub (notify_each c items kind p s) = next_sub s"
  "users (notify_each c items kind p s) = users s" "slots (notify_each c items kind p s) = slots s"
  "leaves (notify_each c items kind p s) = leaves s" "holidays (notify_each c items kind p s) = holidays s"
  "bound_org (notify_each c items kind p s) = bound_org s" "timings (notify_each c items kind p s) = timings s"
  "classes (notify_each c items kind p s) = classes s" "sections (notify_each c items kind p s) = sections s"
  by (simp_all add: notify_each_def Let_def)

lemma notify_frame' [simp]:
  "sub_requests (notify c us kind t b d s) = sub_requests s" "next_sub (notify c us kind t b d s) = next_sub s"
  "users (notify c us kind t b d s) = users s" "slots (notify c us kind t b d s) = slots s"
  "leaves (notify c us kind t b d s) = leaves s" "holidays (notify c us kind t b d s) = holidays s"
  "bound_org (notify c us kind t b d s) = bound_org s" "timings (notify c us kind t b d s) = timings s"
  "classes (notify c us kind t b d s) = classes s" "sections (notify c us kind t b d s) = sections s"
  by (simp_all add: notify_def)

end
