(* ===== verification/Substitutions.thy ===== *)
theory Substitutions
  imports Timings Notify
begin

text \<open>
  Substitute teachers, \<^verbatim>\<open>app/services/substitutions.py\<close>, on the table of migration 0007 with its three
  UNIQUE keys. Row and user locks do nothing in a model of one transaction at a time.
\<close>

definition MAX_RANGE_DAYS :: int where "MAX_RANGE_DAYS = 31"

definition is_open :: "sub_status \<Rightarrow> bool" where
  "is_open st = (st = Pending \<or> st = Accepted)"

definition clean_note :: "string option \<Rightarrow> string option" where
  "clean_note note = or_none (py_strip (str_or note ''''))"

subsection \<open>The table\<close>

text \<open>
  The UNIQUE keys: \<open>ux_sub_req_one_cover\<close> and \<open>ux_sub_req_sub_busy\<close> over accepted rows,
  \<open>ux_sub_req_no_dup\<close> over open ones. \<open>sub_conflict\<close> names the key a row would break among others.
\<close>

definition same_cover :: "sub_row \<Rightarrow> sub_row \<Rightarrow> bool" where
  "same_cover a b = (r_requester a = r_requester b \<and> r_date a = r_date b \<and> r_period a = r_period b)"

definition same_sub :: "sub_row \<Rightarrow> sub_row \<Rightarrow> bool" where
  "same_sub a b = (r_substitute a = r_substitute b \<and> r_date a = r_date b \<and> r_period a = r_period b)"

definition sub_conflict :: "sub_row list \<Rightarrow> sub_row \<Rightarrow> string option" where
  "sub_conflict others r =
     (if r_status r = Accepted \<and> list_ex (\<lambda>x. r_status x = Accepted \<and> same_cover x r) others
      then Some ''ux_sub_req_one_cover''
      else if r_status r = Accepted \<and> list_ex (\<lambda>x. r_status x = Accepted \<and> same_sub x r) others
      then Some ''ux_sub_req_sub_busy''
      else if is_open (r_status r) \<and> list_ex (\<lambda>x. is_open (r_status x) \<and> same_cover x r \<and> same_sub x r) others
      then Some ''ux_sub_req_no_dup'' else None)"

definition insert_sub :: "sub_row \<Rightarrow> int handler" where
  "insert_sub r s = (case sub_conflict (sub_requests s) r of
     Some k \<Rightarrow> (Inl (DuplicateKey (Some k)), s)
   | None \<Rightarrow> (Inr (next_sub s), s\<lparr>sub_requests := sub_requests s @ [r\<lparr>r_id := next_sub s\<rparr>],
                                next_sub := next_sub s + 1\<rparr>))"

text \<open>An UPDATE of the row with an id to an accepted one, checked against the other rows.\<close>

definition accept_row :: "ctx \<Rightarrow> string option \<Rightarrow> sub_row \<Rightarrow> sub_row" where
  "accept_row c note r = r\<lparr>r_status := Accepted, r_responded_at := Some (mysql_now c), r_response_note := note,
     r_updated_at := mysql_now c\<rparr>"

definition update_accept :: "ctx \<Rightarrow> int \<Rightarrow> string option \<Rightarrow> unit handler" where
  "update_accept c rid note s = (case one_where (\<lambda>r. r_id r = rid) (sub_requests s) of
     None \<Rightarrow> (Inr (), s)
   | Some r \<Rightarrow> (case sub_conflict (filter (\<lambda>x. r_id x \<noteq> rid) (sub_requests s)) (accept_row c note r) of
       Some k \<Rightarrow> (Inl (DuplicateKey (Some k)), s)
     | None \<Rightarrow> (Inr (), s\<lparr>sub_requests := update_where (\<lambda>x. r_id x = rid) (accept_row c note) (sub_requests s)\<rparr>)))"

text \<open>Updates to a closed status break no key.\<close>

definition close_rows :: "ctx \<Rightarrow> (sub_row \<Rightarrow> bool) \<Rightarrow> sub_status \<Rightarrow> db \<Rightarrow> db" where
  "close_rows c P st s = s\<lparr>sub_requests := update_where P
     (\<lambda>r. r\<lparr>r_status := st, r_updated_at := mysql_now c\<rparr>) (sub_requests s)\<rparr>"

definition answer_row :: "ctx \<Rightarrow> int \<Rightarrow> sub_status \<Rightarrow> string option \<Rightarrow> db \<Rightarrow> db" where
  "answer_row c rid st note s = s\<lparr>sub_requests := update_where (\<lambda>r. r_id r = rid)
     (\<lambda>r. r\<lparr>r_status := st, r_responded_at := Some (mysql_now c), r_response_note := note,
          r_updated_at := mysql_now c\<rparr>) (sub_requests s)\<rparr>"

subsection \<open>Shape\<close>

text \<open>A row of \<open>SUB_SELECT\<close>: the joins drop a request whose class, section or people are gone.\<close>

record sub_view =
  sv_row :: sub_row
  sv_class_name :: string
  sv_section_name :: string
  sv_requester_name :: string
  sv_requester_photo :: "string option"
  sv_substitute_name :: string
  sv_substitute_photo :: "string option"

definition user_by_id :: "int \<Rightarrow> db \<Rightarrow> user_row option" where
  "user_by_id uid s = one_where (\<lambda>u. u_id u = uid) (users s)"

definition class_name_of :: "int \<Rightarrow> db \<Rightarrow> string option" where
  "class_name_of i s = map_option cl_name (one_where (\<lambda>x. cl_id x = i) (classes s))"

definition section_name_of :: "int \<Rightarrow> db \<Rightarrow> string option" where
  "section_name_of i s = map_option se_name (one_where (\<lambda>x. se_id x = i) (sections s))"

definition join_sub :: "db \<Rightarrow> sub_row \<Rightarrow> sub_view option" where
  "join_sub s r = (case (class_name_of (r_class r) s, section_name_of (r_section r) s,
        user_by_id (r_requester r) s, user_by_id (r_substitute r) s) of
     (Some cn, Some sn, Some q, Some u) \<Rightarrow> Some \<lparr>sv_row = r, sv_class_name = cn, sv_section_name = sn,
        sv_requester_name = u_full_name q, sv_requester_photo = u_photo q,
        sv_substitute_name = u_full_name u, sv_substitute_photo = u_photo u\<rparr>
   | _ \<Rightarrow> None)"

definition sub_select :: "(sub_row \<Rightarrow> bool) \<Rightarrow> db \<Rightarrow> sub_view list" where
  "sub_select P s = List.map_filter (join_sub s) (filter P (sub_requests s))"

record shaped =
  sh_row :: sub_row
  sh_day :: int
  sh_start :: "string option"
  sh_end :: "string option"
  sh_class_name :: string
  sh_section_name :: string
  sh_requester_name :: string
  sh_requester_photo :: "string option"
  sh_substitute_name :: string
  sh_substitute_photo :: "string option"
  sh_can_withdraw :: bool

definition can_withdraw :: "ctx \<Rightarrow> sub_row \<Rightarrow> times \<Rightarrow> bool res" where
  "can_withdraw c r tt =
     (if r_status r \<noteq> Accepted then Inr False
      else bindR (period_start (r_date r) (r_period r) tt) (\<lambda>starts. Inr (case starts of
        None \<Rightarrow> school_today c \<le> r_date r | Some t \<Rightarrow> school_now c < t)))"

definition shape :: "ctx \<Rightarrow> times \<Rightarrow> sub_view \<Rightarrow> shaped res" where
  "shape c tt v = (let r = sv_row v; entry = tt (r_period r) in
     bindR (can_withdraw c r tt) (\<lambda>w. Inr
       \<lparr>sh_row = r, sh_day = weekday (r_date r), sh_start = map_option pe_start entry, sh_end = map_option pe_end entry,
        sh_class_name = sv_class_name v, sh_section_name = sv_section_name v,
        sh_requester_name = sv_requester_name v, sh_requester_photo = sv_requester_photo v,
        sh_substitute_name = sv_substitute_name v, sh_substitute_photo = sv_substitute_photo v,
        sh_can_withdraw = w\<rparr>))"

fun mapR :: "('a \<Rightarrow> 'e + 'b) \<Rightarrow> 'a list \<Rightarrow> 'e + 'b list" where
  "mapR f [] = Inr []"
| "mapR f (x # xs) = bindR (f x) (\<lambda>y. bindR (mapR f xs) (\<lambda>ys. Inr (y # ys)))"

definition get_shaped :: "ctx \<Rightarrow> int \<Rightarrow> times option \<Rightarrow> db \<Rightarrow> shaped option res" where
  "get_shaped c rid tt s = bindR (org_of s) (\<lambda>g.
     case sub_select (\<lambda>r. r_id r = rid \<and> r_org r = g) s of
       [] \<Rightarrow> Inr None
     | v # _ \<Rightarrow> bindR (case tt of Some t \<Rightarrow> Inr t | None \<Rightarrow> period_times s)
         (\<lambda>t. bindR (shape c t v) (\<lambda>x. Inr (Some x))))"

definition for_leave :: "ctx \<Rightarrow> int \<Rightarrow> db \<Rightarrow> shaped list res" where
  "for_leave c leave_id s = bindR (period_times s) (\<lambda>tt. bindR (org_of s) (\<lambda>g.
     mapR (shape c tt) (sort_key (\<lambda>v. (r_date (sv_row v), r_period (sv_row v), - r_created_at (sv_row v), - r_id (sv_row v)))
       (sub_select (\<lambda>r. r_org r = g \<and> r_leave r = Some leave_id) s))))"

subsection \<open>Helpers\<close>

definition requester_id :: "current_user \<Rightarrow> int option \<Rightarrow> int res" where
  "requester_id user teacher_id = (case teacher_id of
     None \<Rightarrow> Inr (cu_id user)
   | Some t \<Rightarrow> if t = cu_id user then Inr (cu_id user)
       else if \<not> is_manager (cu_type user)
       then Inl (Forbidden ''You can only plan substitutes for your own classes'') else Inr t)"

definition MIDDOT :: string where "MIDDOT = [char_of (0xB7 :: nat)]"

definition period_label :: "date \<Rightarrow> int \<Rightarrow> string \<Rightarrow> string \<Rightarrow> string option \<Rightarrow> times \<Rightarrow> string" where
  "period_label day period class_name section_name subject tt =
     py_join ('' '' @ MIDDOT @ '' '') ([weekday_date day]
       @ (case tt period of None \<Rightarrow> [] | Some e \<Rightarrow> [pe_start e @ EN_DASH @ pe_end e])
       @ [py_join '' '' (filter (\<lambda>p. p \<noteq> []) [class_name @ ''-'' @ section_name, str_or subject ''''])])"

definition has_class :: "int \<Rightarrow> int \<Rightarrow> date \<Rightarrow> int \<Rightarrow> db \<Rightarrow> bool" where
  "has_class g teacher day period s = list_ex (\<lambda>t. t_org t = g \<and> t_teacher t = teacher \<and> t_day t = weekday day
     \<and> t_period t = period) (slots s)"

definition is_covering :: "int \<Rightarrow> int \<Rightarrow> date \<Rightarrow> int \<Rightarrow> db \<Rightarrow> bool" where
  "is_covering g teacher day period s = list_ex (\<lambda>r. r_org r = g \<and> r_substitute r = teacher \<and> r_date r = day
     \<and> r_period r = period \<and> r_status r = Accepted) (sub_requests s)"

definition leave_counts :: "leave_row \<Rightarrow> bool" where
  "leave_counts l = (l_status l = LPending \<or> l_status l = LApproved)"

definition is_on_leave :: "int \<Rightarrow> int \<Rightarrow> date \<Rightarrow> db \<Rightarrow> bool" where
  "is_on_leave g teacher day s = list_ex (\<lambda>l. l_org l = g \<and> l_user l = teacher \<and> leave_counts l
     \<and> l_from l \<le> day \<and> day \<le> l_to l) (leaves s)"

definition busy_reason :: "int \<Rightarrow> date \<Rightarrow> int \<Rightarrow> db \<Rightarrow> string option res" where
  "busy_reason teacher day period s = bindR (org_of s) (\<lambda>g. Inr
     (if has_class g teacher day period s then Some ''has a class''
      else if is_covering g teacher day period s then Some ''is already covering''
      else if is_on_leave g teacher day s then Some ''is on leave'' else None))"

definition holiday_name :: "date \<Rightarrow> db \<Rightarrow> string option res" where
  "holiday_name day s = bindR (org_of s) (\<lambda>g. Inr
     (map_option h_name (one_where (\<lambda>h. h_org h = g \<and> h_date h = day) (holidays s))))"

subsection \<open>Create\<close>

text \<open>The row to cover: the requester's slot with its class and section.\<close>

definition slot_of :: "int \<Rightarrow> int \<Rightarrow> date \<Rightarrow> int \<Rightarrow> db \<Rightarrow> (slot_row \<times> string \<times> string) option" where
  "slot_of g teacher day period s = first_row (List.map_filter (\<lambda>t. case (class_name_of (t_class t) s, section_name_of (t_section t) s) of
       (Some cn, Some sn) \<Rightarrow> Some (t, cn, sn) | _ \<Rightarrow> None)
     (filter (\<lambda>t. t_org t = g \<and> t_teacher t = teacher \<and> t_day t = weekday day \<and> t_period t = period) (slots s)))"

definition covered_by :: "int \<Rightarrow> date \<Rightarrow> int \<Rightarrow> db \<Rightarrow> string option" where
  "covered_by requester day period s = first_row (List.map_filter (\<lambda>r. map_option u_full_name (user_by_id (r_substitute r) s))
     (filter (\<lambda>r. r_requester r = requester \<and> r_date r = day \<and> r_period r = period \<and> r_status r = Accepted) (sub_requests s)))"

text \<open>The checks of \<open>create\<close> before the insert: the slot to cover and the substitute, or the error.\<close>

definition check_day :: "ctx \<Rightarrow> date \<Rightarrow> db \<Rightarrow> int res" where
  "check_day c day s =
     (if day < school_today c then Inl (BadRequest (weekday_date day @ '' is in the past''))
      else if weekday day = SUNDAY then Inl (BadRequest (weekday_date day @ '' is a Sunday''))
      else bindR (holiday_name day s) (\<lambda>h.
        if \<not> opt_is_blank h then Inl (BadRequest (weekday_date day @ '' is a holiday ('' @ the h @ '')''))
        else org_of s))"

definition check_leave :: "int \<Rightarrow> int \<Rightarrow> date \<Rightarrow> int option \<Rightarrow> db \<Rightarrow> unit res" where
  "check_leave g requester day leave_id s = (case leave_id of
     None \<Rightarrow> Inr ()
   | Some l \<Rightarrow> (case one_where (\<lambda>x. l_id x = l \<and> l_user x = requester \<and> l_org x = g) (leaves s) of
       None \<Rightarrow> Inl (NotFound ''Leave request not found'')
     | Some x \<Rightarrow>
         if l_status x = LRejected \<or> l_status x = LCancelled
         then Inl (Conflict (''That leave request was '' @ leave_status_name (l_status x)))
         else if \<not> (l_from x \<le> day \<and> day \<le> l_to x)
         then Inl (BadRequest (weekday_date day @ '' is not inside that leave'')) else Inr ()))"

definition asked_already :: "string \<Rightarrow> int \<Rightarrow> date \<Rightarrow> string" where
  "asked_already name period day = name @ '' has already been asked for period '' @ py_str_int period @ '' on ''
     @ weekday_date day"

definition create_checks ::
  "ctx \<Rightarrow> int \<Rightarrow> string \<Rightarrow> date \<Rightarrow> int \<Rightarrow> int \<Rightarrow> int option \<Rightarrow> bool \<Rightarrow> db
    \<Rightarrow> (int \<times> (slot_row \<times> string \<times> string) \<times> user_row) res" where
  "create_checks c req req_name day period substitute_id leave_id own s =
     bindR (check_day c day s) (\<lambda>g. case slot_of g req day period s of
       None \<Rightarrow> Inl (BadRequest ((if own then ''You have'' else req_name @ '' has'') @ '' no class in period ''
                 @ py_str_int period @ '' on '' @ weekday_date day))
     | Some sl \<Rightarrow> (case one_where (\<lambda>u. u_id u = substitute_id \<and> u_org u = g \<and> u_type u = Teacher \<and> u_active u) (users s) of
         None \<Rightarrow> Inl (NotFound ''Substitute teacher not found'')
       | Some u \<Rightarrow>
           if u_id u = req then Inl (BadRequest (''A teacher can'' @ [quote_char] @ ''t be their own substitute''))
           else bindR (busy_reason (u_id u) day period s) (\<lambda>busy.
             if busy \<noteq> None then Inl (Conflict (u_full_name u @ '' is not free in period '' @ py_str_int period @ '' that day''))
             else (case covered_by req day period s of
               Some n \<Rightarrow> Inl (Conflict (''Period '' @ py_str_int period @ '' is already covered by '' @ n))
             | None \<Rightarrow>
                 if list_ex (\<lambda>r. r_requester r = req \<and> r_substitute r = u_id u \<and> r_date r = day \<and> r_period r = period
                      \<and> is_open (r_status r)) (sub_requests s)
                 then Inl (Conflict (asked_already (u_full_name u) period day))
                 else bindR (check_leave g req day leave_id s) (\<lambda>_. Inr (g, sl, u))))))"

definition new_sub_row ::
  "ctx \<Rightarrow> int \<Rightarrow> int \<Rightarrow> date \<Rightarrow> int \<Rightarrow> slot_row \<Rightarrow> user_row \<Rightarrow> int option \<Rightarrow> string option \<Rightarrow> sub_row" where
  "new_sub_row c g req day period t u leave_id note = \<lparr>r_id = 0, r_org = g, r_leave = leave_id, r_requester = req,
     r_substitute = u_id u, r_date = day, r_period = period, r_slot = Some (t_id t), r_class = t_class t,
     r_section = t_section t, r_subject = t_subject t, r_status = Pending, r_note = clean_note note,
     r_response_note = None, r_responded_at = None, r_created_at = mysql_now c, r_updated_at = mysql_now c\<rparr>"

definition create ::
  "ctx \<Rightarrow> int \<Rightarrow> string \<Rightarrow> date \<Rightarrow> int \<Rightarrow> int \<Rightarrow> int option \<Rightarrow> string option \<Rightarrow> bool \<Rightarrow> int handler" where
  "create c req req_name day period substitute_id leave_id note own s =
     (case create_checks c req req_name day period substitute_id leave_id own s of
        Inl e \<Rightarrow> (Inl e, s)
      | Inr (g, (t, cn, sn), u) \<Rightarrow>
          (case insert_sub (new_sub_row c g req day period t u leave_id note) s of
             (Inl e, s') \<Rightarrow> (Inl (Conflict (asked_already (u_full_name u) period day)), s')
           | (Inr rid, s1) \<Rightarrow>
               (case period_times s1 of
                  Inl e \<Rightarrow> (Inl e, s1)
                | Inr tt \<Rightarrow> (Inr rid, notify c [u_id u] ''substitution_request''
                    (req_name @ '' asks you to take Period '' @ py_str_int period)
                    (Some (period_label day period cn sn (t_subject t) tt))
                    (Some (substitution_route rid (Some ''incoming''))) s1))))"

record sub_body =
  sb_date :: date
  sb_period :: int
  sb_substitute :: int
  sb_leave :: "int option"
  sb_note :: "string option"
  sb_teacher :: "int option"

definition create_request :: "ctx \<Rightarrow> current_user \<Rightarrow> sub_body \<Rightarrow> shaped option handler" where
  "create_request c user body s =
     (case requester_id user (sb_teacher body) of
        Inl e \<Rightarrow> (Inl e, s)
      | Inr req \<Rightarrow>
          (case transaction (\<lambda>s. case org_of s of Inl e \<Rightarrow> (Inl e, s) | Inr g \<Rightarrow>
             (case one_where (\<lambda>u. u_id u = req \<and> u_org u = g \<and> u_active u \<and> u_type u \<in> set STAFF) (users s) of
                None \<Rightarrow> (Inl (NotFound ''Teacher not found''), s)
              | Some q \<Rightarrow> create c (u_id q) (u_full_name q) (sb_date body) (sb_period body) (sb_substitute body)
                  (sb_leave body) (sb_note body) (req = cu_id user) s)) s of
             (Inl e, s') \<Rightarrow> (Inl e, s')
           | (Inr rid, s') \<Rightarrow> (get_shaped c rid None s', s')))"

fun error_detail :: "app_error \<Rightarrow> string" where
  "error_detail (BadRequest d) = d"
| "error_detail (Forbidden d) = d"
| "error_detail (NotFound d) = d"
| "error_detail (Conflict d) = d"
| "error_detail (Unprocessable d) = d"
| "error_detail (DuplicateKey k) = duplicate_detail k"
| "error_detail _ = ''''"

text \<open>\<open>create_many\<close>: an \<open>AppError\<close> that is no conflict becomes one.\<close>

fun create_many :: "ctx \<Rightarrow> int \<Rightarrow> string \<Rightarrow> (date \<times> int \<times> int) list \<Rightarrow> int \<Rightarrow> unit handler" where
  "create_many c req req_name [] leave_id s = (Inr (), s)"
| "create_many c req req_name ((day, period, sub) # items) leave_id s =
     (case create c req req_name day period sub (Some leave_id) None True s of
        (Inl e, s') \<Rightarrow> (Inl (if is_app_error e \<and> \<not> is_conflict e then Conflict (error_detail e) else e), s')
      | (Inr _, s') \<Rightarrow> create_many c req req_name items leave_id s')"

end
