(* ===== verification/Sub_Responses.thy ===== *)
theory Sub_Responses
  imports Substitutions
begin

text \<open>
  The second half of \<^verbatim>\<open>app/services/substitutions.py\<close>: answers to a request, cancellations, lists,
  who is available, and the coverage of leaves.
\<close>

subsection \<open>Responses\<close>

definition load_for_update :: "int \<Rightarrow> db \<Rightarrow> sub_row res" where
  "load_for_update rid s = bindR (org_of s) (\<lambda>g.
     case one_where (\<lambda>r. r_id r = rid \<and> r_org r = g) (sub_requests s) of
       None \<Rightarrow> Inl (NotFound ''Substitution request not found'')
     | Some r \<Rightarrow> Inr r)"

text \<open>\<open>_names\<close>: requester, substitute, class and section, or nothing when one is missing.\<close>

record sub_names =
  nm_requester :: string
  nm_substitute :: string
  nm_class :: string
  nm_section :: string

definition names_of :: "sub_row \<Rightarrow> db \<Rightarrow> sub_names option" where
  "names_of r s = (case (user_by_id (r_requester r) s, user_by_id (r_substitute r) s,
        class_name_of (r_class r) s, section_name_of (r_section r) s) of
     (Some q, Some u, Some cn, Some sn) \<Rightarrow> Some \<lparr>nm_requester = u_full_name q, nm_substitute = u_full_name u,
        nm_class = cn, nm_section = sn\<rparr>
   | _ \<Rightarrow> None)"

text \<open>\<open>names.get(key)\<close> inside an f-string: a missing one reads \<open>None\<close>.\<close>

definition get_name :: "(sub_names \<Rightarrow> string) \<Rightarrow> sub_names option \<Rightarrow> string" where
  "get_name f n = (case n of None \<Rightarrow> ''None'' | Some x \<Rightarrow> f x)"

definition only_substitute :: "current_user \<Rightarrow> sub_row \<Rightarrow> unit res" where
  "only_substitute user r =
     (if r_substitute r = cu_id user then Inr ()
      else if cu_id user = r_requester r \<or> is_manager (cu_type user)
      then Inl (Forbidden ''Only the teacher who was asked can answer this request'')
      else Inl (NotFound ''Substitution request not found''))"

definition already :: "sub_status \<Rightarrow> app_error" where
  "already st = Conflict (''This request is already '' @ sub_status_name st)"

definition on_period :: "sub_row \<Rightarrow> string" where
  "on_period r = ''Period '' @ py_str_int (r_period r) @ '' on '' @ weekday_date (r_date r)"

text \<open>\<open>_fill_others\<close>.\<close>

definition fill_others :: "ctx \<Rightarrow> sub_row \<Rightarrow> db \<Rightarrow> db" where
  "fill_others c row s =
     (let others = filter (\<lambda>r. same_cover r row \<and> r_status r = Pending \<and> r_id r \<noteq> r_id row) (sub_requests s) in
      if others = [] then s
      else (let s1 = close_rows c (\<lambda>r. r_id r \<in> set (map r_id others)) Filled s;
                name = (case user_by_id (r_substitute row) s of None \<Rightarrow> ''None'' | Some u \<Rightarrow> u_full_name u)
            in notify_each c (map (\<lambda>x. \<lparr>it_user = r_substitute x, it_title = ''No longer needed: '' @ on_period row,
                 it_body = Some (name @ '' is covering''),
                 it_data = Some (substitution_route (r_id x) (Some ''incoming''))\<rparr>) others)
               ''substitution_update'' True s1))"

text \<open>The transaction of \<open>accept\<close>; \<open>Inr (Some name)\<close> when another teacher had the period already.\<close>

definition accept_tx :: "ctx \<Rightarrow> current_user \<Rightarrow> int \<Rightarrow> string option \<Rightarrow> string option handler" where
  "accept_tx c user rid note s =
     (case load_for_update rid s of
        Inl e \<Rightarrow> (Inl e, s)
      | Inr row \<Rightarrow>
          (case only_substitute user row of
             Inl e \<Rightarrow> (Inl e, s)
           | Inr _ \<Rightarrow>
               if r_status row \<noteq> Pending then (Inl (already (r_status row)), s)
               else (case covered_by (r_requester row) (r_date row) (r_period row) s of
                  Some name \<Rightarrow> (Inr (Some name), close_rows c (\<lambda>r. r_id r = rid) Filled s)
                | None \<Rightarrow>
                    (case busy_reason (cu_id user) (r_date row) (r_period row) s of
                       Inl e \<Rightarrow> (Inl e, s)
                     | Inr (Some _) \<Rightarrow> (Inl (Conflict (''You are not free in period '' @ py_str_int (r_period row)
                                              @ '' that day'')), s)
                     | Inr None \<Rightarrow>
                         (case update_accept c rid (clean_note note) s of
                            (Inl e, s1) \<Rightarrow> (Inl e, s1)
                          | (Inr _, s1) \<Rightarrow>
                              (let s2 = fill_others c row s1; names = names_of row s2 in
                               case (names, period_times s2) of
                                 (None, _) \<Rightarrow> (Inl KeyError, s2)
                               | (_, Inl e) \<Rightarrow> (Inl e, s2)
                               | (Some n, Inr tt) \<Rightarrow> (Inr None, notify c [r_requester row] ''substitution_update''
                                   (nm_substitute n @ '' will take '' @ on_period row)
                                   (Some (period_label (r_date row) (r_period row) (nm_class n) (nm_section n) (r_subject row) tt))
                                   (Some (substitution_route rid (Some ''outgoing''))) s2)))))))"

definition accept :: "ctx \<Rightarrow> current_user \<Rightarrow> int \<Rightarrow> string option \<Rightarrow> shaped option handler" where
  "accept c user rid note s =
     (case load_for_update rid s of
        Inl e \<Rightarrow> (Inl e, s)
      | Inr _ \<Rightarrow>
          (case transaction (accept_tx c user rid note) s of
             (Inl (DuplicateKey k), s') \<Rightarrow> (Inl (Conflict (if k = Some ''ux_sub_req_sub_busy''
                then ''You are already covering another class in that period''
                else ''Someone else just took this period'')), s')
           | (Inl e, s') \<Rightarrow> (Inl e, s')
           | (Inr (Some name), s') \<Rightarrow> (Inl (Conflict (name @ '' already took this period'')), s')
           | (Inr None, s') \<Rightarrow> (get_shaped c rid None s', s')))"

definition decline_tx :: "ctx \<Rightarrow> current_user \<Rightarrow> int \<Rightarrow> string option \<Rightarrow> unit handler" where
  "decline_tx c user rid note s =
     (case load_for_update rid s of
        Inl e \<Rightarrow> (Inl e, s)
      | Inr row \<Rightarrow>
          (case only_substitute user row of
             Inl e \<Rightarrow> (Inl e, s)
           | Inr _ \<Rightarrow>
               if r_status row \<noteq> Pending then (Inl (already (r_status row)), s)
               else (let n = clean_note note; s1 = answer_row c rid Declined n s in
                 (Inr (), notify c [r_requester row] ''substitution_update''
                    (get_name nm_substitute (names_of row s1) @ '' can'' @ [quote_char] @ ''t take '' @ on_period row) n
                    (Some (substitution_route rid (Some ''outgoing''))) s1))))"

definition decline :: "ctx \<Rightarrow> current_user \<Rightarrow> int \<Rightarrow> string option \<Rightarrow> shaped option handler" where
  "decline c user rid note s = (case transaction (decline_tx c user rid note) s of
     (Inl e, s') \<Rightarrow> (Inl e, s') | (Inr _, s') \<Rightarrow> (get_shaped c rid None s', s'))"

definition withdraw_notices :: "ctx \<Rightarrow> sub_row \<Rightarrow> string option \<Rightarrow> unit handler" where
  "withdraw_notices c row n s =
     (let names = names_of row s;
          title = get_name nm_substitute names @ '' can no longer take '' @ on_period row;
          text = ''Please find someone else'' @ (case n of None \<Rightarrow> '''' | Some x \<Rightarrow> '' '' @ EM_DASH @ '' '' @ x);
          s1 = notify c [r_requester row] ''substitution_update'' title (Some text)
                 (Some (substitution_route (r_id row) (Some ''outgoing''))) s
      in if r_date row \<le> school_today c + 1
         then (case manager_ids None s1 of
            Inl e \<Rightarrow> (Inl e, s1)
          | Inr ms \<Rightarrow> (Inr (), notify c (filter (\<lambda>m. m \<noteq> r_requester row \<and> m \<noteq> r_substitute row) ms)
              ''substitution_update'' title
              (Some (get_name nm_requester names @ [quote_char] @ ''s class '' @ get_name nm_class names @ ''-''
                 @ get_name nm_section names @ '' needs a substitute''))
              (Some (substitution_route (r_id row) None)) s1))
         else (Inr (), s1))"

definition withdraw_tx :: "ctx \<Rightarrow> times \<Rightarrow> current_user \<Rightarrow> int \<Rightarrow> string option \<Rightarrow> unit handler" where
  "withdraw_tx c tt user rid note s =
     (case load_for_update rid s of
        Inl e \<Rightarrow> (Inl e, s)
      | Inr row \<Rightarrow>
          (case only_substitute user row of
             Inl e \<Rightarrow> (Inl e, s)
           | Inr _ \<Rightarrow>
               if r_status row \<noteq> Accepted then (Inl (Conflict ''Only an accepted request can be withdrawn''), s)
               else (case can_withdraw c row tt of
                  Inl e \<Rightarrow> (Inl e, s)
                | Inr False \<Rightarrow> (Inl (Conflict ''This period has already started''), s)
                | Inr True \<Rightarrow>
                    (let n = clean_note note in withdraw_notices c row n (answer_row c rid Withdrawn n s)))))"

definition withdraw :: "ctx \<Rightarrow> current_user \<Rightarrow> int \<Rightarrow> string option \<Rightarrow> shaped option handler" where
  "withdraw c user rid note s = (case period_times s of
     Inl e \<Rightarrow> (Inl e, s)
   | Inr tt \<Rightarrow> (case transaction (withdraw_tx c tt user rid note) s of
       (Inl e, s') \<Rightarrow> (Inl e, s') | (Inr _, s') \<Rightarrow> (get_shaped c rid (Some tt) s', s')))"

definition notify_cancelled :: "ctx \<Rightarrow> sub_row list \<Rightarrow> string option \<Rightarrow> db \<Rightarrow> db" where
  "notify_cancelled c rows note s = notify_each c
     (map (\<lambda>r. \<lparr>it_user = r_substitute r, it_title = ''Request withdrawn: '' @ on_period r, it_body = note,
        it_data = Some (substitution_route (r_id r) (Some ''incoming''))\<rparr>) rows) ''substitution_update'' True s"

definition cancel_tx :: "ctx \<Rightarrow> current_user \<Rightarrow> int \<Rightarrow> string option \<Rightarrow> unit handler" where
  "cancel_tx c user rid note s =
     (case load_for_update rid s of
        Inl e \<Rightarrow> (Inl e, s)
      | Inr row \<Rightarrow>
          if r_requester row \<noteq> cu_id user \<and> \<not> is_manager (cu_type user)
          then (Inl (if r_substitute row = cu_id user
                  then Forbidden ''Use decline or withdraw for requests sent to you''
                  else NotFound ''Substitution request not found''), s)
          else if \<not> is_open (r_status row) then (Inl (already (r_status row)), s)
          else (Inr (), notify_cancelled c [row] (clean_note note) (close_rows c (\<lambda>r. r_id r = rid) Cancelled s)))"

definition cancel :: "ctx \<Rightarrow> current_user \<Rightarrow> int \<Rightarrow> string option \<Rightarrow> shaped option handler" where
  "cancel c user rid note s = (case transaction (cancel_tx c user rid note) s of
     (Inl e, s') \<Rightarrow> (Inl e, s') | (Inr _, s') \<Rightarrow> (get_shaped c rid None s', s'))"

definition cancel_for_leave :: "ctx \<Rightarrow> int \<Rightarrow> (date \<times> date) option \<Rightarrow> db \<Rightarrow> int \<times> db" where
  "cancel_for_leave c leave_id keep s =
     (let rows = filter (\<lambda>r. r_leave r = Some leave_id \<and> is_open (r_status r)
            \<and> (case keep of None \<Rightarrow> True | Some (a, b) \<Rightarrow> r_date r < a \<or> b < r_date r)) (sub_requests s)
      in if rows = [] then (0, s)
         else (int (length rows), notify_cancelled c rows None
                (close_rows c (\<lambda>r. r_id r \<in> set (map r_id rows)) Cancelled s)))"

definition link_standalone :: "ctx \<Rightarrow> int \<Rightarrow> int \<Rightarrow> date \<Rightarrow> date \<Rightarrow> unit handler" where
  "link_standalone c req leave_id from_date to_date s = (case org_of s of
     Inl e \<Rightarrow> (Inl e, s)
   | Inr g \<Rightarrow> (Inr (), s\<lparr>sub_requests := update_where (\<lambda>r. r_org r = g \<and> r_requester r = req \<and> r_leave r = None
        \<and> is_open (r_status r) \<and> from_date \<le> r_date r \<and> r_date r \<le> to_date)
        (\<lambda>r. r\<lparr>r_leave := Some leave_id, r_updated_at := mysql_now c\<rparr>) (sub_requests s)\<rparr>))"

subsection \<open>Lists\<close>

definition list_key :: "sub_view \<Rightarrow> int \<times> int \<times> int" where
  "list_key v = (- r_date (sv_row v), r_period (sv_row v), - r_id (sv_row v))"

definition list_rows ::
  "ctx \<Rightarrow> (sub_row \<Rightarrow> bool) \<Rightarrow> string option \<Rightarrow> date option \<Rightarrow> date option \<Rightarrow> page option \<Rightarrow> db \<Rightarrow> shaped page_result res" where
  "list_rows c P status from_date to_date page s = bindR (org_of s) (\<lambda>g.
     let rows = sub_select (\<lambda>r. r_org r = g \<and> P r
           \<and> (opt_is_blank status \<or> sub_status_name (r_status r) = the status)
           \<and> (case from_date of None \<Rightarrow> True | Some d \<Rightarrow> d \<le> r_date r)
           \<and> (case to_date of None \<Rightarrow> True | Some d \<Rightarrow> r_date r \<le> d)) s;
         result = fetch list_key rows page None
     in bindR (period_times s) (\<lambda>tt. bindR (mapR (shape c tt) (pr_rows result))
          (\<lambda>xs. Inr \<lparr>pr_rows = xs, pr_total = pr_total result\<rparr>)))"

definition incoming :: "ctx \<Rightarrow> current_user \<Rightarrow> string option \<Rightarrow> date option \<Rightarrow> date option \<Rightarrow> page option \<Rightarrow> db \<Rightarrow> shaped page_result res" where
  "incoming c user status from_date to_date page s =
     list_rows c (\<lambda>r. r_substitute r = cu_id user) status from_date to_date page s"

definition outgoing :: "ctx \<Rightarrow> current_user \<Rightarrow> string option \<Rightarrow> date option \<Rightarrow> date option \<Rightarrow> page option \<Rightarrow> db \<Rightarrow> shaped page_result res" where
  "outgoing c user status from_date to_date page s =
     list_rows c (\<lambda>r. r_requester r = cu_id user) status from_date to_date page s"

definition list_all_requests ::
  "ctx \<Rightarrow> string option \<Rightarrow> date option \<Rightarrow> date option \<Rightarrow> date option \<Rightarrow> int option \<Rightarrow> page option \<Rightarrow> db \<Rightarrow> shaped page_result res" where
  "list_all_requests c status from_date to_date day teacher_id page s =
     list_rows c (\<lambda>r. (case day of None \<Rightarrow> True | Some d \<Rightarrow> r_date r = d)
        \<and> (case teacher_id of None \<Rightarrow> True | Some t \<Rightarrow> t = 0 \<or> r_requester r = t \<or> r_substitute r = t))
       status from_date to_date page s"

definition get_one :: "ctx \<Rightarrow> current_user \<Rightarrow> int \<Rightarrow> db \<Rightarrow> shaped res" where
  "get_one c user rid s = bindR (get_shaped c rid None s) (\<lambda>x. case x of
     None \<Rightarrow> Inl (NotFound ''Substitution request not found'')
   | Some v \<Rightarrow> if \<not> is_manager (cu_type user) \<and> cu_id user \<noteq> r_requester (sh_row v) \<and> cu_id user \<noteq> r_substitute (sh_row v)
       then Inl (NotFound ''Substitution request not found'') else Inr v)"

subsection \<open>Availability\<close>

record teacher_view =
  tv_id :: int
  tv_full_name :: string
  tv_photo :: "string option"
  tv_subject :: "string option"

record period_view =
  pv_slot :: slot_row
  pv_class_name :: string
  pv_section_name :: string
  pv_start :: "string option"
  pv_end :: "string option"
  pv_requests :: "shaped list"
  pv_available :: "teacher_view list"

record day_view =
  dv_date :: date
  dv_holiday :: "string option"
  dv_periods :: "period_view list"

text \<open>The active teachers of the school but the requester, with the subject of their profile.\<close>

definition other_teachers :: "int \<Rightarrow> int \<Rightarrow> db \<Rightarrow> teacher_view list" where
  "other_teachers g req s = map (\<lambda>u. \<lparr>tv_id = u_id u, tv_full_name = u_full_name u, tv_photo = u_photo u,
       tv_subject = Option.bind (one_where (\<lambda>p. tp_user p = u_id u) (teacher_profiles s)) tp_subject\<rparr>)
     (filter (\<lambda>u. u_org u = g \<and> u_type u = Teacher \<and> u_active u \<and> u_id u \<noteq> req) (users s))"

text \<open>The three sets \<open>free\<close> looks at, read once for the whole range.\<close>

definition busy_slots :: "int \<Rightarrow> int list \<Rightarrow> db \<Rightarrow> (int \<times> int \<times> int) list" where
  "busy_slots g weekdays s = (if weekdays = [] then []
     else map (\<lambda>t. (t_teacher t, t_day t, t_period t)) (filter (\<lambda>t. t_org t = g \<and> t_day t \<in> set weekdays) (slots s)))"

definition covering_rows :: "int \<Rightarrow> date \<Rightarrow> date \<Rightarrow> db \<Rightarrow> sub_row list" where
  "covering_rows g week_start week_end s = filter (\<lambda>r. r_org r = g \<and> r_status r = Accepted
     \<and> week_start \<le> r_date r \<and> r_date r \<le> week_end) (sub_requests s)"

definition leave_spans :: "int \<Rightarrow> date \<Rightarrow> date \<Rightarrow> db \<Rightarrow> (int \<times> date \<times> date) list" where
  "leave_spans g from_date to_date s = map (\<lambda>l. (l_user l, l_from l, l_to l))
     (filter (\<lambda>l. l_org l = g \<and> leave_counts l \<and> l_from l \<le> to_date \<and> from_date \<le> l_to l) (leaves s))"

definition free_teacher ::
  "(int \<times> int \<times> int) list \<Rightarrow> sub_row list \<Rightarrow> (int \<times> date \<times> date) list \<Rightarrow> int \<Rightarrow> date \<Rightarrow> int \<Rightarrow> bool" where
  "free_teacher busy cov spans tid d period =
     ((tid, weekday d, period) \<notin> set busy
      \<and> \<not> list_ex (\<lambda>r. r_substitute r = tid \<and> r_date r = d \<and> r_period r = period) cov
      \<and> \<not> list_ex (\<lambda>(u, a, b). u = tid \<and> a \<le> d \<and> d \<le> b) spans)"

definition same_subject :: "string option \<Rightarrow> string option \<Rightarrow> bool" where
  "same_subject teaches wanted = (\<not> opt_is_blank wanted \<and> \<not> opt_is_blank teaches
     \<and> list_ex (\<lambda>p. py_lower (py_strip p) = py_lower (py_strip (the wanted))) (py_split (CHR '','') (the teaches)))"

definition covers_in_week :: "sub_row list \<Rightarrow> int \<Rightarrow> date \<Rightarrow> nat" where
  "covers_in_week cov tid monday = length (filter (\<lambda>r. r_substitute r = tid \<and> r_date r - weekday (r_date r) = monday) cov)"

definition available_for ::
  "(int \<times> int \<times> int) list \<Rightarrow> sub_row list \<Rightarrow> (int \<times> date \<times> date) list \<Rightarrow> teacher_view list \<Rightarrow> date \<Rightarrow> slot_row \<Rightarrow> teacher_view list" where
  "available_for busy cov spans teachers d slot =
     sort_key (\<lambda>t. (\<not> same_subject (tv_subject t) (t_subject slot), covers_in_week cov (tv_id t) (d - weekday d),
                    py_lower (tv_full_name t), tv_id t))
       (filter (\<lambda>t. free_teacher busy cov spans (tv_id t) d (t_period slot)) teachers)"

definition my_slots :: "int \<Rightarrow> int \<Rightarrow> db \<Rightarrow> (slot_row \<times> string \<times> string) list" where
  "my_slots g req s = List.map_filter (\<lambda>t. case (class_name_of (t_class t) s, section_name_of (t_section t) s) of
       (Some cn, Some sn) \<Rightarrow> Some (t, cn, sn) | _ \<Rightarrow> None)
     (sort_key (\<lambda>t. (t_day t, t_period t)) (filter (\<lambda>t. t_org t = g \<and> t_teacher t = req) (slots s)))"

text \<open>The days of the range that are not Sundays.\<close>

definition range_dates :: "date \<Rightarrow> date \<Rightarrow> date list" where
  "range_dates a b = filter (\<lambda>d. weekday d \<noteq> SUNDAY) [a..b]"

definition availability_days ::
  "ctx \<Rightarrow> int \<Rightarrow> int \<Rightarrow> date \<Rightarrow> date \<Rightarrow> times \<Rightarrow> db \<Rightarrow> day_view list res" where
  "availability_days c g req from_date to_date tt s =
     (let dates = range_dates from_date to_date;
          busy = busy_slots g (remdups (map weekday dates)) s;
          cov = covering_rows g (from_date - weekday from_date) (to_date + (SUNDAY - weekday to_date)) s;
          spans = leave_spans g from_date to_date s;
          teachers = other_teachers g req s;
          asked = sort_key (\<lambda>v. (- r_created_at (sv_row v), - r_id (sv_row v)))
            (sub_select (\<lambda>r. r_org r = g \<and> r_requester r = req \<and> from_date \<le> r_date r \<and> r_date r \<le> to_date) s)
      in bindR (mapR (shape c tt) asked) (\<lambda>shaped_rows. Inr (map (\<lambda>d.
           let holiday = map_option h_name (one_where (\<lambda>h. h_org h = g \<and> h_date h = d) (holidays s)) in
           \<lparr>dv_date = d, dv_holiday = holiday, dv_periods = (if \<not> opt_is_blank holiday then [] else
              map (\<lambda>(t, cn, sn). \<lparr>pv_slot = t, pv_class_name = cn, pv_section_name = sn,
                   pv_start = map_option pe_start (tt (t_period t)), pv_end = map_option pe_end (tt (t_period t)),
                   pv_requests = filter (\<lambda>x. r_date (sh_row x) = d \<and> r_period (sh_row x) = t_period t) shaped_rows,
                   pv_available = available_for busy cov spans teachers d t\<rparr>)
                (filter (\<lambda>(t, _, _). t_day t = weekday d) (my_slots g req s)))\<rparr>) dates)))"

definition availability ::
  "ctx \<Rightarrow> current_user \<Rightarrow> date \<Rightarrow> date \<Rightarrow> int option \<Rightarrow> int option \<Rightarrow> db \<Rightarrow> day_view list res" where
  "availability c user from_date to_date leave_id teacher_id s =
     bindR (requester_id user teacher_id) (\<lambda>req.
       if to_date < from_date
       then Inl (BadRequest ([quote_char] @ ''to'' @ [quote_char] @ '' must be on or after '' @ [quote_char] @ ''from'' @ [quote_char]))
       else if MAX_RANGE_DAYS < to_date - from_date + 1
       then Inl (BadRequest (''Choose at most '' @ py_str_int MAX_RANGE_DAYS @ '' days at a time''))
       else bindR (org_of s) (\<lambda>g.
         if (case leave_id of None \<Rightarrow> False
             | Some l \<Rightarrow> one_where (\<lambda>x. l_id x = l \<and> l_user x = req \<and> l_org x = g) (leaves s) = None)
         then Inl (NotFound ''Leave request not found'')
         else bindR (period_times s) (\<lambda>tt. availability_days c g req from_date to_date tt s)))"

subsection \<open>Coverage of leaves\<close>

record coverage_counts =
  cv_periods :: int
  cv_covered :: int
  cv_pending :: int

text \<open>The dict of states: an accepted request is never overwritten.\<close>

definition cover_state :: "sub_row list \<Rightarrow> int \<times> date \<times> int \<Rightarrow> sub_status option" where
  "cover_state rows = fold (\<lambda>r st. let k = (r_requester r, r_date r, r_period r) in
     if st k \<noteq> Some Accepted then st(k := Some (r_status r)) else st) rows (\<lambda>_. None)"

definition teaching_periods :: "int \<Rightarrow> int \<Rightarrow> int \<Rightarrow> db \<Rightarrow> int list" where
  "teaching_periods g teacher day s = remdups (map t_period
     (filter (\<lambda>t. t_org t = g \<and> t_teacher t = teacher \<and> t_day t = day) (slots s)))"

definition leave_periods :: "int \<Rightarrow> leave_row \<Rightarrow> date list \<Rightarrow> db \<Rightarrow> (date \<times> int) list" where
  "leave_periods g lv hols s = concat (map (\<lambda>d. map (Pair d) (teaching_periods g (l_user lv) (weekday d) s))
     (filter (\<lambda>d. weekday d \<noteq> SUNDAY \<and> d \<notin> set hols) [l_from lv..l_to lv]))"

definition coverage_of :: "int \<Rightarrow> date list \<Rightarrow> (int \<times> date \<times> int \<Rightarrow> sub_status option) \<Rightarrow> db \<Rightarrow> leave_row \<Rightarrow> coverage_counts option" where
  "coverage_of g hols state s lv =
     (if \<not> list_ex (\<lambda>t. t_org t = g \<and> t_teacher t = l_user lv) (slots s) then None
      else (let ps = leave_periods g lv hols s in Some
        \<lparr>cv_periods = int (length ps),
         cv_covered = int (length (filter (\<lambda>(d, p). state (l_user lv, d, p) = Some Accepted) ps)),
         cv_pending = int (length (filter (\<lambda>(d, p). state (l_user lv, d, p) = Some Pending) ps))\<rparr>))"

definition coverage :: "leave_row list \<Rightarrow> db \<Rightarrow> (leave_row \<times> coverage_counts option) list res" where
  "coverage lvs s = (if lvs = [] then Inr [] else bindR (org_of s) (\<lambda>g.
     let first = Min (set (map l_from lvs)); last = Max (set (map l_to lvs));
         hols = map h_date (filter (\<lambda>h. h_org h = g \<and> first \<le> h_date h \<and> h_date h \<le> last) (holidays s));
         state = cover_state (filter (\<lambda>r. r_requester r \<in> l_user ` set lvs \<and> first \<le> r_date r \<and> r_date r \<le> last
                   \<and> is_open (r_status r)) (sub_requests s))
     in Inr (map (\<lambda>lv. (lv, coverage_of g hols state s lv)) lvs)))"

end
