(* ===== verification/Sub_Props.thy ===== *)
theory Sub_Props
  imports Sub_Responses
begin

text \<open>
  What the substitution requests keep true over every operation: unique ids, at most one accepted
  cover per period and per substitute, no pending request left beside an accepted one, and statuses
  that only move along the documented arrows.
\<close>

subsection \<open>The invariant\<close>

definition accepted :: "sub_row \<Rightarrow> bool" where "accepted r \<longleftrightarrow> r_status r = Accepted"

text \<open>The three UNIQUE keys and the primary key.\<close>

definition keys_ok :: "db \<Rightarrow> bool" where
  "keys_ok s \<longleftrightarrow> subs.keys_unique s \<and> (\<forall>r \<in> set (sub_requests s). r_id r < next_sub s)
     \<and> pairwise_ok accepted same_cover (sub_requests s) \<and> pairwise_ok accepted same_sub (sub_requests s)
     \<and> pairwise_ok (\<lambda>r. is_open (r_status r)) (\<lambda>a b. same_cover a b \<and> same_sub a b) (sub_requests s)
     \<and> (\<forall>r \<in> set (sub_requests s). r_requester r \<noteq> r_substitute r)"

definition settled :: "db \<Rightarrow> bool" where
  "settled s \<longleftrightarrow> (\<forall>a \<in> set (sub_requests s). \<forall>b \<in> set (sub_requests s).
     accepted a \<and> same_cover a b \<longrightarrow> r_status b \<noteq> Pending)"

definition subs_inv :: "db \<Rightarrow> bool" where
  "subs_inv s \<longleftrightarrow> keys_ok s \<and> settled s"

definition same_keys :: "sub_row \<Rightarrow> sub_row \<Rightarrow> bool" where
  "same_keys r r' \<longleftrightarrow> r_id r' = r_id r \<and> r_org r' = r_org r \<and> r_requester r' = r_requester r
     \<and> r_substitute r' = r_substitute r \<and> r_date r' = r_date r \<and> r_period r' = r_period r
     \<and> r_class r' = r_class r \<and> r_section r' = r_section r \<and> r_subject r' = r_subject r"

lemma same_keys_cover: "same_keys a a' \<Longrightarrow> same_keys b b' \<Longrightarrow> same_cover a' b' = same_cover a b"
  by (simp add: same_keys_def same_cover_def)

lemma same_keys_sub: "same_keys a a' \<Longrightarrow> same_keys b b' \<Longrightarrow> same_sub a' b' = same_sub a b"
  by (simp add: same_keys_def same_sub_def)

text \<open>Rewriting rows so that each keeps its status or is closed keeps everything.\<close>

lemma inv_map:
  assumes "subs_inv s" and keys: "\<And>r. same_keys r (f r)"
    and st: "\<And>r. r \<in> set (sub_requests s) \<Longrightarrow> r_status (f r) = r_status r \<or> \<not> is_open (r_status (f r))"
  shows "subs_inv (s\<lparr>sub_requests := map f (sub_requests s)\<rparr>)"
proof -
  have bk: "accepted (f r) \<Longrightarrow> accepted r" "is_open (r_status (f r)) \<Longrightarrow> is_open (r_status r)"
    "r_status (f r) = Pending \<Longrightarrow> r_status r = Pending" if "r \<in> set (sub_requests s)" for r
    using st [OF that] by (auto simp: accepted_def is_open_def)
  have ids: "map r_id (map f (sub_requests s)) = map r_id (sub_requests s)"
    using keys by (simp add: same_keys_def)
  have pw: "pairwise_ok P E (map f (sub_requests s))"
    if "pairwise_ok P E (sub_requests s)" and "\<And>r. r \<in> set (sub_requests s) \<Longrightarrow> P (f r) \<Longrightarrow> P r"
      and "\<And>a b. E (f a) (f b) = E a b" for P E
    using that by (auto simp: pairwise_ok_def)
  have "keys_ok (s\<lparr>sub_requests := map f (sub_requests s)\<rparr>)"
    unfolding keys_ok_def
  proof (intro conjI)
    show "subs.keys_unique (s\<lparr>sub_requests := map f (sub_requests s)\<rparr>)"
      using assms(1) unfolding subs_inv_def keys_ok_def subs.keys_unique_def by (simp add: ids del: map_map)
    show "\<forall>r \<in> set (sub_requests (s\<lparr>sub_requests := map f (sub_requests s)\<rparr>)). r_id r < next_sub (s\<lparr>sub_requests := map f (sub_requests s)\<rparr>)"
      using assms(1) keys by (auto simp: subs_inv_def keys_ok_def same_keys_def)
    show "pairwise_ok accepted same_cover (sub_requests (s\<lparr>sub_requests := map f (sub_requests s)\<rparr>))"
      using assms(1) same_keys_cover [OF keys keys] bk(1) by (auto simp: subs_inv_def keys_ok_def intro!: pw)
    show "pairwise_ok accepted same_sub (sub_requests (s\<lparr>sub_requests := map f (sub_requests s)\<rparr>))"
      using assms(1) same_keys_sub [OF keys keys] bk(1) by (auto simp: subs_inv_def keys_ok_def intro!: pw)
    show "pairwise_ok (\<lambda>r. is_open (r_status r)) (\<lambda>a b. same_cover a b \<and> same_sub a b)
        (sub_requests (s\<lparr>sub_requests := map f (sub_requests s)\<rparr>))"
      using assms(1) same_keys_cover [OF keys keys] same_keys_sub [OF keys keys] bk(2)
      by (auto simp: subs_inv_def keys_ok_def intro!: pw)
    show "\<forall>r \<in> set (sub_requests (s\<lparr>sub_requests := map f (sub_requests s)\<rparr>)). r_requester r \<noteq> r_substitute r"
      using assms(1) keys by (auto simp: subs_inv_def keys_ok_def same_keys_def)
  qed
  moreover have "r_status (f b) \<noteq> Pending"
    if "a \<in> set (sub_requests s)" "b \<in> set (sub_requests s)" "accepted (f a)" "same_cover (f a) (f b)" for a b
    using that bk(1) [OF that(1)] bk(3) [OF that(2)] same_keys_cover [OF keys keys, of a b] assms(1)
    unfolding subs_inv_def settled_def by blast
  then have "settled (s\<lparr>sub_requests := map f (sub_requests s)\<rparr>)" by (auto simp: settled_def)
  ultimately show ?thesis by (simp add: subs_inv_def)
qed

lemma inv_cong:
  "subs_inv s \<Longrightarrow> sub_requests t = sub_requests s \<Longrightarrow> next_sub t = next_sub s \<Longrightarrow> subs_inv t"
  by (simp add: subs_inv_def keys_ok_def settled_def subs.keys_unique_def)

lemma inv_update:
  assumes "subs_inv s" and "\<And>r. same_keys r (f r)"
    and "\<And>r. r \<in> set (sub_requests s) \<Longrightarrow> P r \<Longrightarrow> r_status (f r) = r_status r \<or> \<not> is_open (r_status (f r))"
  shows "subs_inv (s\<lparr>sub_requests := update_where P f (sub_requests s)\<rparr>)"
  unfolding update_where_def
  by (rule inv_map [OF assms(1)]) (use assms(2,3) in \<open>auto simp: same_keys_def\<close>)

lemma close_rows_inv: "subs_inv s \<Longrightarrow> \<not> is_open st \<Longrightarrow> subs_inv (close_rows c P st s)"
  unfolding close_rows_def by (rule inv_update) (simp_all add: same_keys_def)

lemma answer_row_inv: "subs_inv s \<Longrightarrow> \<not> is_open st \<Longrightarrow> subs_inv (answer_row c rid st note s)"
  unfolding answer_row_def by (rule inv_update) (simp_all add: same_keys_def)

subsection \<open>Creating\<close>

lemma insert_sub_inv:
  assumes "subs_inv s" and "insert_sub r s = (Inr i, s')" and "r_status r = Pending"
    and "r_requester r \<noteq> r_substitute r"
    and "\<forall>x \<in> set (sub_requests s). accepted x \<longrightarrow> \<not> same_cover x r"
  shows "subs_inv s'"
proof -
  let ?r = "r\<lparr>r_id := next_sub s\<rparr>"
  have s': "s' = s\<lparr>sub_requests := sub_requests s @ [?r], next_sub := next_sub s + 1\<rparr>"
    and free: "\<forall>x \<in> set (sub_requests s). is_open (r_status x) \<longrightarrow> \<not> (same_cover x r \<and> same_sub x r)"
    using assms(2,3) by (auto simp: insert_sub_def sub_conflict_def is_open_def list_ex_iff split: option.splits if_splits)
  have sym: "same_cover a b = same_cover b a" "same_sub a b = same_sub b a" for a b
    by (auto simp: same_cover_def same_sub_def)
  have new: "same_cover x ?r = same_cover x r" "same_sub x ?r = same_sub x r"
    "same_cover ?r x = same_cover x r" "same_sub ?r x = same_sub x r" for x
    by (auto simp: same_cover_def same_sub_def)
  have pend: "\<not> accepted ?r" "r_status ?r = Pending" using assms(3) by (simp_all add: accepted_def)
  have "pairwise_ok (\<lambda>r. is_open (r_status r)) (\<lambda>a b. same_cover a b \<and> same_sub a b) (sub_requests s @ [?r])"
    using assms(1) free by (auto simp: pairwise_ok_def subs_inv_def keys_ok_def new)
  moreover have "pairwise_ok accepted E (sub_requests s @ [?r])" if "pairwise_ok accepted E (sub_requests s)" for E
    using that pend by (auto simp: pairwise_ok_def)
  moreover have "settled (s\<lparr>sub_requests := sub_requests s @ [?r], next_sub := next_sub s + 1\<rparr>)"
    using assms(1,5) pend by (auto simp: settled_def subs_inv_def new)
  ultimately show ?thesis
    using assms(1,4) by (force simp: s' subs_inv_def keys_ok_def subs.keys_unique_def)
qed

text \<open>What the checks of \<open>create\<close> establish. The joins on users find every substitute of a request
  when the foreign keys hold.\<close>

definition subs_fk :: "db \<Rightarrow> bool" where
  "subs_fk s \<longleftrightarrow> (\<forall>r \<in> set (sub_requests s). user_by_id (r_substitute r) s \<noteq> None \<and> user_by_id (r_requester r) s \<noteq> None
     \<and> class_name_of (r_class r) s \<noteq> None \<and> section_name_of (r_section r) s \<noteq> None)"

lemma map_filter_empty: "List.map_filter f xs = [] \<longleftrightarrow> (\<forall>x \<in> set xs. f x = None)"
  by (induction xs) (auto simp: List.map_filter_def split: option.splits)

lemma first_row_None: "first_row xs = None \<longleftrightarrow> xs = []"
  by (cases xs) (simp_all add: first_row_def)

lemma covered_by_None:
  assumes "subs_fk s"
  shows "covered_by q d p s = None \<longleftrightarrow>
    (\<forall>r \<in> set (sub_requests s). r_requester r = q \<and> r_date r = d \<and> r_period r = p \<longrightarrow> \<not> accepted r)"
  using assms by (auto simp: covered_by_def first_row_None map_filter_empty subs_fk_def accepted_def)

lemma create_checks_ok:
  assumes "create_checks c req name day period sub leave_id own s = Inr (g, (t, cn, sn), u)"
  shows "bound_org s = Some g" and "school_today c \<le> day" and "weekday day \<noteq> SUNDAY"
    and "slot_of g req day period s = Some (t, cn, sn)"
    and "u \<in> set (users s)" and "u_id u = sub" and "u_type u = Teacher" and "u_active u" and "u_org u = g"
    and "u_id u \<noteq> req" and "busy_reason sub day period s = Inr None" and "covered_by req day period s = None"
    and "check_leave g req day leave_id s = Inr ()"
proof -
  obtain g0 where cd: "check_day c day s = Inr g0"
    using assms by (cases "check_day c day s") (auto simp: create_checks_def)
  obtain sl where sl: "slot_of g0 req day period s = Some sl"
    using assms cd by (cases "slot_of g0 req day period s") (auto simp: create_checks_def)
  obtain v where v: "one_where (\<lambda>u. u_id u = sub \<and> u_org u = g0 \<and> u_type u = Teacher \<and> u_active u) (users s) = Some v"
    using assms cd sl
    by (cases "one_where (\<lambda>u. u_id u = sub \<and> u_org u = g0 \<and> u_type u = Teacher \<and> u_active u) (users s)")
      (auto simp: create_checks_def)
  have req: "u_id v \<noteq> req" using assms cd sl v by (auto simp: create_checks_def)
  have busy: "busy_reason (u_id v) day period s = Inr None"
    using assms cd sl v req by (cases "busy_reason (u_id v) day period s") (auto simp: create_checks_def split: if_splits)
  have cov: "covered_by req day period s = None"
    using assms cd sl v req busy by (cases "covered_by req day period s") (auto simp: create_checks_def)
  have dup: "\<not> list_ex (\<lambda>r. r_requester r = req \<and> r_substitute r = u_id v \<and> r_date r = day \<and> r_period r = period
      \<and> is_open (r_status r)) (sub_requests s)"
    using assms cd sl v req busy cov by (auto simp: create_checks_def split: if_splits)
  have rest: "check_leave g0 req day leave_id s = Inr ()" "g0 = g" "sl = (t, cn, sn)" "v = u"
    using assms cd sl v req busy cov dup by (auto simp: create_checks_def)
  show "bound_org s = Some g" "school_today c \<le> day" "weekday day \<noteq> SUNDAY"
    using cd rest by (auto simp: check_day_def org_of_def split: if_splits option.splits)
  show "u \<in> set (users s)" "u_id u = sub" "u_type u = Teacher" "u_active u" "u_org u = g"
    using one_where_Some [OF v] rest by simp_all
  then show "busy_reason sub day period s = Inr None" using busy rest by simp
  show "slot_of g req day period s = Some (t, cn, sn)" "u_id u \<noteq> req" "covered_by req day period s = None"
    "check_leave g req day leave_id s = Inr ()"
    using sl rest req cov by simp_all
qed

lemma create_effect:
  assumes "create c req name day period sub leave_id note own s = (Inr i, s')"
  obtains g t cn sn u s1 where "create_checks c req name day period sub leave_id own s = Inr (g, (t, cn, sn), u)"
    "insert_sub (new_sub_row c g req day period t u leave_id note) s = (Inr i, s1)"
    "sub_requests s' = sub_requests s1" "next_sub s' = next_sub s1"
  using assms
  by (auto simp: create_def split: sum.splits prod.splits)

lemma create_inv:
  assumes "subs_inv s" and "subs_fk s" and "create c req name day period sub leave_id note own s = (Inr i, s')"
  shows "subs_inv s'"
proof -
  from create_effect [OF assms(3)] obtain g t cn sn u s1 where
    ch: "create_checks c req name day period sub leave_id own s = Inr (g, (t, cn, sn), u)"
    and ins: "insert_sub (new_sub_row c g req day period t u leave_id note) s = (Inr i, s1)"
    and s': "sub_requests s' = sub_requests s1" "next_sub s' = next_sub s1" by metis
  have "subs_inv s1"
  proof (rule insert_sub_inv [OF assms(1) ins])
    show "\<forall>x \<in> set (sub_requests s). accepted x \<longrightarrow> \<not> same_cover x (new_sub_row c g req day period t u leave_id note)"
      using create_checks_ok(12) [OF ch] covered_by_None [OF assms(2)] by (auto simp: same_cover_def new_sub_row_def)
  qed (use create_checks_ok(10) [OF ch] in \<open>auto simp: new_sub_row_def\<close>)
  then show ?thesis by (rule inv_cong) (use s' in simp_all)
qed

lemma create_many_inv:
  assumes "subs_inv s" and "subs_fk s" and "create_many c req name items leave_id s = (Inr x, s')"
    and fk: "\<And>d p b s i s'. create c req name d p b (Some leave_id) None True s = (Inr i, s') \<Longrightarrow> subs_fk s \<Longrightarrow> subs_fk s'"
  shows "subs_inv s'"
  using assms(1-3)
proof (induction items arbitrary: s)
  case (Cons it items)
  obtain d p b where it: "it = (d, p, b)" by (cases it)
  then obtain i s1 where c: "create c req name d p b (Some leave_id) None True s = (Inr i, s1)"
    and rest: "create_many c req name items leave_id s1 = (Inr x, s')"
    using Cons.prems(3) by (auto split: sum.splits prod.splits)
  show ?case using Cons.IH [OF create_inv [OF Cons.prems(1,2) c] fk [OF c Cons.prems(2)] rest] .
qed simp

lemma create_fk:
  assumes "create c req name d p b leave_id note own s = (Inr i, s')" and "subs_fk s"
    and "user_by_id req s \<noteq> None"
  shows "subs_fk s'"
proof -
  from create_effect [OF assms(1)] obtain g t cn sn u s1 where
    ch: "create_checks c req name d p b leave_id own s = Inr (g, (t, cn, sn), u)"
    and ins: "insert_sub (new_sub_row c g req d p t u leave_id note) s = (Inr i, s1)"
    and s': "sub_requests s' = sub_requests s1" by metis
  have frame: "users s' = users s" "classes s' = classes s" "sections s' = sections s"
    using assms(1) ch by (auto simp: create_def insert_sub_def split: option.splits sum.splits prod.splits)
  have s1: "sub_requests s1 = sub_requests s @ [(new_sub_row c g req d p t u leave_id note)\<lparr>r_id := next_sub s\<rparr>]"
    using ins by (auto simp: insert_sub_def split: option.splits)
  have "(t, cn, sn) \<in> set (List.map_filter (\<lambda>t. case (class_name_of (t_class t) s, section_name_of (t_section t) s) of
       (Some cn, Some sn) \<Rightarrow> Some (t, cn, sn) | _ \<Rightarrow> None)
     (filter (\<lambda>t. t_org t = g \<and> t_teacher t = req \<and> t_day t = weekday d \<and> t_period t = p) (slots s)))"
    using create_checks_ok(4) [OF ch] by (auto simp: slot_of_def first_row_def split: list.splits)
  then have "class_name_of (t_class t) s \<noteq> None" "section_name_of (t_section t) s \<noteq> None"
    by (auto simp: List.map_filter_def split: option.splits)
  moreover have "user_by_id (u_id u) s \<noteq> None"
    using create_checks_ok(5) [OF ch] by (auto simp: user_by_id_def one_where_None)
  ultimately show ?thesis
    using assms(2,3) frame by (auto simp: subs_fk_def s' s1 new_sub_row_def user_by_id_def class_name_of_def section_name_of_def)
qed

subsection \<open>Accepting\<close>

lemma load_ok: "load_for_update rid s = Inr row \<Longrightarrow> row \<in> set (sub_requests s) \<and> r_id row = rid \<and> bound_org s = Some (r_org row)"
  by (auto simp: load_for_update_def org_of_def dest: one_where_Some split: option.splits)

lemma accept_tx_cases:
  assumes "accept_tx c user rid note s = (Inr res, s')"
  obtains (taken) row name where "load_for_update rid s = Inr row" "r_substitute row = cu_id user"
      "r_status row = Pending" "covered_by (r_requester row) (r_date row) (r_period row) s = Some name"
      "res = Some name" "s' = close_rows c (\<lambda>r. r_id r = rid) Filled s"
  | (won) row s1 where "load_for_update rid s = Inr row" "r_substitute row = cu_id user"
      "r_status row = Pending" "covered_by (r_requester row) (r_date row) (r_period row) s = None"
      "busy_reason (cu_id user) (r_date row) (r_period row) s = Inr None" "res = None"
      "update_accept c rid (clean_note note) s = (Inr (), s1)"
      "sub_requests s' = sub_requests (fill_others c row s1)" "next_sub s' = next_sub (fill_others c row s1)"
proof -
  obtain row where l: "load_for_update rid s = Inr row"
    using assms by (cases "load_for_update rid s") (auto simp: accept_tx_def)
  have o: "only_substitute user row = Inr ()"
    using assms l by (cases "only_substitute user row") (auto simp: accept_tx_def)
  then have sub: "r_substitute row = cu_id user" by (auto simp: only_substitute_def split: if_splits)
  have p: "r_status row = Pending" using assms l o by (auto simp: accept_tx_def split: if_splits)
  show ?thesis
  proof (cases "covered_by (r_requester row) (r_date row) (r_period row) s")
    case (Some name)
    then show ?thesis using taken [OF l sub p] assms l o p by (auto simp: accept_tx_def)
  next
    case None
    then obtain s1 where "busy_reason (cu_id user) (r_date row) (r_period row) s = Inr None"
      "update_accept c rid (clean_note note) s = (Inr (), s1)" "res = None"
      "sub_requests s' = sub_requests (fill_others c row s1)" "next_sub s' = next_sub (fill_others c row s1)"
      using assms l o p by (auto simp: accept_tx_def Let_def split: sum.splits prod.splits option.splits)
    with None show ?thesis using won [OF l sub p] by blast
  qed
qed

lemma fill_others_rows:
  "sub_requests (fill_others c row s) = map (\<lambda>r. if r_id r \<in> r_id ` {x \<in> set (sub_requests s). same_cover x row \<and> r_status x = Pending \<and> r_id x \<noteq> r_id row}
       then r\<lparr>r_status := Filled, r_updated_at := mysql_now c\<rparr> else r) (sub_requests s)"
  "next_sub (fill_others c row s) = next_sub s"
  by (auto simp: fill_others_def Let_def close_rows_def update_where_def filter_empty_conv map_idI intro!: map_idI [symmetric])

lemma update_accept_ok:
  assumes "update_accept c rid note s = (Inr x, s1)" and "row \<in> set (sub_requests s)" and "r_id row = rid"
    and "subs.keys_unique s"
  shows "s1 = s\<lparr>sub_requests := update_where (\<lambda>x. r_id x = rid) (accept_row c note) (sub_requests s)\<rparr>"
    and "\<forall>x \<in> set (sub_requests s). r_id x \<noteq> rid \<longrightarrow> accepted x \<longrightarrow> \<not> same_cover x row \<and> \<not> same_sub x row"
proof -
  have one: "one_where (\<lambda>r. r_id r = rid) (sub_requests s) = Some row"
    using subs.lookup_unique [OF assms(4,2)] by (simp add: subs.lookup_def assms(3))
  have keys: "same_cover x (accept_row c note row) = same_cover x row" "same_sub x (accept_row c note row) = same_sub x row" for x
    by (simp_all add: same_cover_def same_sub_def accept_row_def)
  have st: "r_status (accept_row c note row) = Accepted" by (simp add: accept_row_def)
  show "s1 = s\<lparr>sub_requests := update_where (\<lambda>x. r_id x = rid) (accept_row c note) (sub_requests s)\<rparr>"
    using assms(1) one by (auto simp: update_accept_def split: option.splits)
  show "\<forall>x \<in> set (sub_requests s). r_id x \<noteq> rid \<longrightarrow> accepted x \<longrightarrow> \<not> same_cover x row \<and> \<not> same_sub x row"
    using assms(1) one
    by (auto simp: update_accept_def sub_conflict_def list_ex_iff accepted_def keys st split: option.splits if_splits)
qed

text \<open>The rows after a successful \<open>accept\<close>: the winner accepted, its rivals filled, the rest untouched.\<close>

definition won_rows :: "ctx \<Rightarrow> sub_row \<Rightarrow> string option \<Rightarrow> sub_row \<Rightarrow> sub_row" where
  "won_rows c row note r = (if r_id r = r_id row then accept_row c note r
     else if same_cover r row \<and> r_status r = Pending then r\<lparr>r_status := Filled, r_updated_at := mysql_now c\<rparr> else r)"

lemma won_rows_keys: "same_keys r (won_rows c row note r)"
  by (simp add: won_rows_def same_keys_def accept_row_def)

lemma fill_after_accept:
  assumes "subs.keys_unique s" and "row \<in> set (sub_requests s)"
    and s1: "s1 = s\<lparr>sub_requests := update_where (\<lambda>x. r_id x = r_id row) (accept_row c note) (sub_requests s)\<rparr>"
  shows "sub_requests (fill_others c row s1) = map (won_rows c row note) (sub_requests s)"
proof -
  let ?g = "\<lambda>x. if r_id x = r_id row then accept_row c note x else x"
  let ?S = "r_id ` {x \<in> set (sub_requests s1). same_cover x row \<and> r_status x = Pending \<and> r_id x \<noteq> r_id row}"
  have rows: "sub_requests s1 = map ?g (sub_requests s)" by (simp add: s1 update_where_def)
  have id: "r_id (?g x) = r_id x" for x by (simp add: accept_row_def)
  have S: "r_id x \<in> ?S \<longleftrightarrow> same_cover x row \<and> r_status x = Pending \<and> r_id x \<noteq> r_id row"
    if "x \<in> set (sub_requests s)" for x
  proof
    assume "r_id x \<in> ?S"
    then obtain y where y: "y \<in> set (sub_requests s)" "r_id (?g y) = r_id x" "same_cover (?g y) row"
      "r_status (?g y) = Pending" "r_id (?g y) \<noteq> r_id row"
      by (auto simp: rows)
    then have "y = x" using subs.unique_row [OF assms(1) y(1) that] id [of y] by simp
    with y show "same_cover x row \<and> r_status x = Pending \<and> r_id x \<noteq> r_id row" by (simp split: if_splits)
  next
    assume "same_cover x row \<and> r_status x = Pending \<and> r_id x \<noteq> r_id row"
    with that show "r_id x \<in> ?S" by (auto simp: rows intro!: rev_image_eqI [of x])
  qed
  have "sub_requests (fill_others c row s1) = map (\<lambda>x. let r = ?g x in
      if r_id r \<in> ?S then r\<lparr>r_status := Filled, r_updated_at := mysql_now c\<rparr> else r) (sub_requests s)"
    unfolding fill_others_rows(1) by (simp add: rows Let_def)
  also have "\<dots> = map (won_rows c row note) (sub_requests s)"
    using S id by (auto simp: won_rows_def Let_def)
  finally show ?thesis .
qed

end
