(* ===== verification/Sub_Machine.thy ===== *)
theory Sub_Machine
  imports Sub_Props
begin

text \<open>
  The substitution requests as a state machine: every operation keeps the invariant and moves each
  status along a documented arrow; the runs made of the operations.
\<close>

lemma won_rows_inv:
  assumes inv: "subs_inv s" and row: "row \<in> set (sub_requests s)" "r_status row = Pending"
    and free: "\<forall>x \<in> set (sub_requests s). r_id x \<noteq> r_id row \<longrightarrow> accepted x \<longrightarrow> \<not> same_cover x row \<and> \<not> same_sub x row"
    and s': "sub_requests s' = map (won_rows c row note) (sub_requests s)" "next_sub s' = next_sub s"
  shows "subs_inv s'"
proof -
  let ?w = "won_rows c row note"
  have uniq: "subs.keys_unique s" using inv by (simp add: subs_inv_def keys_ok_def)
  have acc: "accepted (?w a) \<Longrightarrow> a = row \<or> accepted a \<and> r_id a \<noteq> r_id row" if "a \<in> set (sub_requests s)" for a
    using subs.unique_row [OF uniq that row(1)] by (auto simp: won_rows_def accepted_def split: if_splits)
  have open_st: "is_open (r_status (?w a)) \<Longrightarrow> is_open (r_status a)" if "a \<in> set (sub_requests s)" for a
    using subs.unique_row [OF uniq that row(1)] row(2) by (auto simp: won_rows_def is_open_def split: if_splits)
  have pend: "r_status (?w a) = Pending \<Longrightarrow> r_status a = Pending \<and> \<not> same_cover a row" if "a \<in> set (sub_requests s)" for a
    by (auto simp: won_rows_def accept_row_def split: if_splits)
  have cov: "same_cover (?w a) (?w b) = same_cover a b" and sub: "same_sub (?w a) (?w b) = same_sub a b" for a b
    using same_keys_cover [OF won_rows_keys won_rows_keys] same_keys_sub [OF won_rows_keys won_rows_keys] by blast+
  have sym: "same_cover a b = same_cover b a" "same_sub a b = same_sub b a" for a b
    by (auto simp: same_cover_def same_sub_def)
  have ids: "map r_id (map ?w (sub_requests s)) = map r_id (sub_requests s)"
    using won_rows_keys by (simp add: same_keys_def)
  have "pairwise_ok accepted same_cover (map ?w (sub_requests s))"
    using acc free cov sym inv unfolding pairwise_ok_def subs_inv_def keys_ok_def by (simp, metis)
  moreover have "pairwise_ok accepted same_sub (map ?w (sub_requests s))"
    using acc free sub sym inv unfolding pairwise_ok_def subs_inv_def keys_ok_def by (simp, metis)
  moreover have "pairwise_ok (\<lambda>r. is_open (r_status r)) (\<lambda>a b. same_cover a b \<and> same_sub a b) (map ?w (sub_requests s))"
    using open_st cov sub inv unfolding pairwise_ok_def subs_inv_def keys_ok_def by (simp, metis)
  moreover have "\<forall>r \<in> set (map ?w (sub_requests s)). r_requester r \<noteq> r_substitute r \<and> r_id r < next_sub s"
    using won_rows_keys inv by (auto simp: same_keys_def subs_inv_def keys_ok_def)
  moreover have "settled s'"
    using acc pend cov sym inv unfolding settled_def s' subs_inv_def by (simp, metis)
  ultimately show ?thesis
    using uniq unfolding subs_inv_def keys_ok_def subs.keys_unique_def s' ids by blast
qed

lemma accept_tx_inv:
  assumes "subs_inv s" and "accept_tx c user rid note s = (Inr res, s')"
  shows "subs_inv s'"
  using assms(2)
proof (cases rule: accept_tx_cases)
  case (taken row name)
  then show ?thesis using close_rows_inv [OF assms(1)] by (simp add: is_open_def)
next
  case (won row s1)
  have uniq: "subs.keys_unique s" using assms(1) by (simp add: subs_inv_def keys_ok_def)
  have row: "row \<in> set (sub_requests s)" "r_id row = rid" using load_ok [OF won(1)] by simp_all
  note up = update_accept_ok [OF won(7) row uniq]
  have rows: "sub_requests s' = map (won_rows c row (clean_note note)) (sub_requests s)"
    using fill_after_accept [OF uniq row(1)] up(1) won(8) row(2) by simp
  have "next_sub s' = next_sub s" using won(9) fill_others_rows(2) up(1) by simp
  then show ?thesis
    using won_rows_inv [OF assms(1) row(1) won(3) _ rows] up(2) row(2) by simp
qed

subsection \<open>Documented moves\<close>

text \<open>The arrows of the module's docstring.\<close>

fun documented :: "sub_status \<Rightarrow> sub_status \<Rightarrow> bool" where
  "documented Pending t = (t \<in> {Accepted, Declined, Cancelled, Filled})"
| "documented Accepted t = (t \<in> {Withdrawn, Cancelled})"
| "documented _ t = False"

definition row_evolves :: "sub_row \<Rightarrow> sub_row \<Rightarrow> bool" where
  "row_evolves r r' \<longleftrightarrow> same_keys r r' \<and> (r_status r' = r_status r \<or> documented (r_status r) (r_status r'))"

text \<open>The old rows evolve in place; new rows come after them, pending.\<close>

definition evolves :: "db \<Rightarrow> db \<Rightarrow> bool" where
  "evolves s s' \<longleftrightarrow> (\<exists>old new. sub_requests s' = old @ new \<and> list_all2 row_evolves (sub_requests s) old
     \<and> list_all (\<lambda>r. r_status r = Pending) new)"

lemma evolves_refl: "sub_requests s' = sub_requests s \<Longrightarrow> evolves s s'"
  unfolding evolves_def by (intro exI [of _ "sub_requests s"] exI [of _ "[]"])
    (auto simp: list_all2_same row_evolves_def same_keys_def)

lemma evolves_map:
  assumes "sub_requests s' = map f (sub_requests s)"
    and "\<And>r. r \<in> set (sub_requests s) \<Longrightarrow> row_evolves r (f r)"
  shows "evolves s s'"
  unfolding evolves_def
  by (intro exI [of _ "sub_requests s'"] exI [of _ "[]"]) (use assms in \<open>simp add: list_all2_conv_all_nth\<close>)

lemma create_evolves:
  assumes "create c req name day period sub leave_id note own s = (Inr i, s')"
  shows "\<exists>r. sub_requests s' = sub_requests s @ [r] \<and> r_status r = Pending"
proof -
  from create_effect [OF assms] obtain g t cn sn u s1 where
    ins: "insert_sub (new_sub_row c g req day period t u leave_id note) s = (Inr i, s1)"
    and s': "sub_requests s' = sub_requests s1" by metis
  then show ?thesis by (auto simp: insert_sub_def new_sub_row_def split: option.splits)
qed

lemma create_many_evolves:
  "create_many c req name items leave_id s = (Inr x, s') \<Longrightarrow>
   \<exists>new. sub_requests s' = sub_requests s @ new \<and> list_all (\<lambda>r. r_status r = Pending) new"
proof (induction items arbitrary: s)
  case (Cons it items)
  obtain d p b where it: "it = (d, p, b)" by (cases it)
  then obtain i s1 where c: "create c req name d p b (Some leave_id) None True s = (Inr i, s1)"
    and rest: "create_many c req name items leave_id s1 = (Inr x, s')"
    using Cons.prems by (auto split: sum.splits prod.splits)
  from create_evolves [OF c] Cons.IH [OF rest] show ?case by auto
qed simp

lemma evolves_new: "sub_requests s' = sub_requests s @ new \<Longrightarrow> list_all (\<lambda>r. r_status r = Pending) new \<Longrightarrow> evolves s s'"
  unfolding evolves_def by (intro exI [of _ "sub_requests s"] exI [of _ new])
    (auto simp: list_all2_same row_evolves_def same_keys_def)

lemma evolves_one: "sub_requests s' = sub_requests s @ [r] \<Longrightarrow> r_status r = Pending \<Longrightarrow> evolves s s'"
  using evolves_new [of s' s "[r]"] by simp

lemma close_evolves:
  assumes "\<And>r. r \<in> set (sub_requests s) \<Longrightarrow> P r \<Longrightarrow> documented (r_status r) st"
    and "sub_requests s' = sub_requests (close_rows c P st s)"
  shows "evolves s s'"
  by (rule evolves_map [where f = "\<lambda>r. if P r then r\<lparr>r_status := st, r_updated_at := mysql_now c\<rparr> else r"])
    (use assms in \<open>auto simp: close_rows_def update_where_def row_evolves_def same_keys_def\<close>)

lemma answer_evolves:
  assumes "\<And>r. r \<in> set (sub_requests s) \<Longrightarrow> r_id r = rid \<Longrightarrow> documented (r_status r) st"
    and "sub_requests s' = sub_requests (answer_row c rid st n s)"
  shows "evolves s s'"
  by (rule evolves_map [where f = "\<lambda>r. if r_id r = rid then r\<lparr>r_status := st, r_responded_at := Some (mysql_now c),
        r_response_note := n, r_updated_at := mysql_now c\<rparr> else r"])
    (use assms in \<open>auto simp: answer_row_def update_where_def row_evolves_def same_keys_def\<close>)

lemma accept_tx_evolves:
  assumes "subs_inv s" and "accept_tx c user rid note s = (Inr res, s')"
  shows "evolves s s'"
proof -
  have uniq: "subs.keys_unique s" using assms(1) by (simp add: subs_inv_def keys_ok_def)
  from assms(2) show ?thesis
  proof (cases rule: accept_tx_cases)
    case (taken row name)
    have row: "row \<in> set (sub_requests s)" "r_id row = rid" using load_ok [OF taken(1)] by simp_all
    show ?thesis
      by (rule close_evolves [where P = "\<lambda>r. r_id r = rid" and st = Filled])
        (use subs.unique_row [OF uniq _ row(1)] row(2) taken in auto)
  next
    case (won row s1)
    have row: "row \<in> set (sub_requests s)" "r_id row = rid" using load_ok [OF won(1)] by simp_all
    have rows: "sub_requests s' = map (won_rows c row (clean_note note)) (sub_requests s)"
      using fill_after_accept [OF uniq row(1)] update_accept_ok(1) [OF won(7) row uniq] won(8) row(2) by simp
    show ?thesis
    proof (rule evolves_map [OF rows])
      fix r assume r: "r \<in> set (sub_requests s)"
      show "row_evolves r (won_rows c row (clean_note note) r)"
        using won_rows_keys subs.unique_row [OF uniq r row(1)] won(3)
        by (auto simp: row_evolves_def won_rows_def accept_row_def same_keys_def)
    qed
  qed
qed

subsection \<open>Operations and runs\<close>

lemma tx_success:
  "(case transaction body s of (Inl e, t) \<Rightarrow> (Inl e, t) | (Inr x, t) \<Rightarrow> (k t, t)) = (r, s') \<Longrightarrow>
   s' = s \<or> (\<exists>x. body s = (Inr x, s'))"
  by (auto simp: transaction_def split: prod.splits sum.splits)

lemma decline_rows:
  assumes "decline c user rid note s = (r, s')"
  shows "s' = s \<or> (\<exists>row n. load_for_update rid s = Inr row \<and> r_status row = Pending \<and> r_substitute row = cu_id user
    \<and> sub_requests s' = sub_requests (answer_row c rid Declined n s) \<and> next_sub s' = next_sub s)"
  using tx_success [OF assms [unfolded decline_def]]
  by (auto simp: decline_tx_def only_substitute_def Let_def answer_row_def split: sum.splits if_splits)

lemma withdraw_notices_rows:
  "withdraw_notices c row n s = (r, s') \<Longrightarrow> sub_requests s' = sub_requests s \<and> next_sub s' = next_sub s"
  by (auto simp: withdraw_notices_def Let_def split: sum.splits if_splits)

lemma withdraw_rows:
  assumes "withdraw c user rid note s = (r, s')"
  shows "s' = s \<or> (\<exists>row n. load_for_update rid s = Inr row \<and> r_status row = Accepted \<and> r_substitute row = cu_id user
    \<and> sub_requests s' = sub_requests (answer_row c rid Withdrawn n s) \<and> next_sub s' = next_sub s)"
proof (cases "period_times s")
  case (Inl e)
  then show ?thesis using assms by (simp add: withdraw_def)
next
  case (Inr tt)
  then have "s' = s \<or> (\<exists>x. withdraw_tx c tt user rid note s = (Inr x, s'))"
    using assms by (intro tx_success) (simp add: withdraw_def)
  then show ?thesis
    by (auto simp: withdraw_tx_def only_substitute_def Let_def answer_row_def dest!: withdraw_notices_rows
        split: sum.splits if_splits bool.splits)
qed

lemma cancel_rows:
  assumes "cancel c user rid note s = (r, s')"
  shows "s' = s \<or> (\<exists>row. load_for_update rid s = Inr row \<and> is_open (r_status row)
    \<and> (r_requester row = cu_id user \<or> is_manager (cu_type user))
    \<and> sub_requests s' = sub_requests (close_rows c (\<lambda>r. r_id r = rid) Cancelled s) \<and> next_sub s' = next_sub s)"
  using tx_success [OF assms [unfolded cancel_def]]
  by (auto simp: cancel_tx_def notify_cancelled_def close_rows_def split: sum.splits if_splits)

lemma accept_rows:
  assumes "accept c user rid note s = (r, s')"
  shows "s' = s \<or> (\<exists>res. accept_tx c user rid note s = (Inr res, s'))"
proof (cases "accept_tx c user rid note s")
  case (Pair res s1)
  show ?thesis
  proof (cases res)
    case (Inl e)
    then show ?thesis using assms Pair
      by (cases e) (auto simp: accept_def transaction_def split: sum.splits)
  next
    case (Inr x)
    then show ?thesis using assms Pair
      by (auto simp: accept_def transaction_def split: sum.splits option.splits)
  qed
qed

lemma create_request_rows:
  assumes "create_request c user body s = (r, s')"
  shows "s' = s \<or> (\<exists>q name i. user_by_id q s \<noteq> None
    \<and> create c q name (sb_date body) (sb_period body) (sb_substitute body) (sb_leave body) (sb_note body)
        (q = cu_id user) s = (Inr i, s'))"
proof (cases "requester_id user (sb_teacher body)")
  case (Inl e)
  then show ?thesis using assms by (simp add: create_request_def)
next
  case (Inr req)
  have "s' = s \<or> (\<exists>i g q. one_where (\<lambda>u. u_id u = req \<and> u_org u = g \<and> u_active u \<and> u_type u \<in> set STAFF) (users s) = Some q
      \<and> create c (u_id q) (u_full_name q) (sb_date body) (sb_period body) (sb_substitute body) (sb_leave body) (sb_note body)
          (req = cu_id user) s = (Inr i, s'))"
    using assms Inr
    by (auto simp: create_request_def transaction_def split: sum.splits prod.splits option.splits)
  then show ?thesis
    by (auto simp: user_by_id_def one_where_None dest!: one_where_Some)
qed

text \<open>
  The operations on the table, each a request of its own. The foreign keys of the table, which the
  database enforces, are what \<open>create\<close> needs for its joins to find every request.
\<close>

inductive sub_step :: "ctx \<Rightarrow> db \<Rightarrow> db \<Rightarrow> bool" where
  create_one: "subs_fk s \<Longrightarrow> create_request c user body s = (r, s') \<Longrightarrow> sub_step c s s'"
| create_all: "subs_fk s \<Longrightarrow> user_by_id req s \<noteq> None \<Longrightarrow>
    transaction (create_many c req name items leave_id) s = (r', s') \<Longrightarrow> sub_step c s s'"
| accept: "accept c user rid note s = (r, s') \<Longrightarrow> sub_step c s s'"
| decline: "decline c user rid note s = (r, s') \<Longrightarrow> sub_step c s s'"
| withdraw: "withdraw c user rid note s = (r, s') \<Longrightarrow> sub_step c s s'"
| cancel: "cancel c user rid note s = (r, s') \<Longrightarrow> sub_step c s s'"
| cancel_leave: "cancel_for_leave c leave_id keep s = (n, s') \<Longrightarrow> sub_step c s s'"
| link: "link_standalone c req leave_id a b s = (r', s') \<Longrightarrow> sub_step c s s'"

inductive sub_run :: "db \<Rightarrow> db \<Rightarrow> bool" where
  start: "sub_run s s"
| step: "sub_run s t \<Longrightarrow> sub_step c t u \<Longrightarrow> sub_run s u"

lemma create_many_tx_inv:
  assumes "subs_inv s" and "subs_fk s" and "user_by_id req s \<noteq> None"
    and "create_many c req name items leave_id s = (Inr x, s')"
  shows "subs_inv s'"
  using assms
proof (induction items arbitrary: s)
  case (Cons it items)
  obtain d p b where it: "it = (d, p, b)" by (cases it)
  then obtain i s1 where c: "create c req name d p b (Some leave_id) None True s = (Inr i, s1)"
    and rest: "create_many c req name items leave_id s1 = (Inr x, s')"
    using Cons.prems(4) by (auto split: sum.splits prod.splits)
  have "users s1 = users s"
    using c by (auto simp: create_def insert_sub_def split: option.splits sum.splits prod.splits)
  then have "user_by_id req s1 \<noteq> None" using Cons.prems(3) by (simp add: user_by_id_def)
  from Cons.IH [OF create_inv [OF Cons.prems(1,2) c] create_fk [OF c Cons.prems(2,3)] this rest]
  show ?case .
qed simp

lemma cancel_leave_rows:
  assumes "cancel_for_leave c leave_id keep s = (n, s')"
  shows "sub_requests s' = sub_requests s \<and> next_sub s' = next_sub s \<or> (\<exists>rows. set rows \<subseteq> set (sub_requests s)
    \<and> (\<forall>r \<in> set rows. is_open (r_status r))
    \<and> sub_requests s' = sub_requests (close_rows c (\<lambda>r. r_id r \<in> set (map r_id rows)) Cancelled s) \<and> next_sub s' = next_sub s)"
proof -
  let ?rows = "filter (\<lambda>r. r_leave r = Some leave_id \<and> is_open (r_status r)
            \<and> (case keep of None \<Rightarrow> True | Some (a, b) \<Rightarrow> r_date r < a \<or> b < r_date r)) (sub_requests s)"
  show ?thesis
  proof (cases "?rows = []")
    case True
    then show ?thesis using assms by (simp add: cancel_for_leave_def)
  next
    case False
    then have "sub_requests s' = sub_requests (close_rows c (\<lambda>r. r_id r \<in> set (map r_id ?rows)) Cancelled s)" "next_sub s' = next_sub s"
      using assms by (auto simp: cancel_for_leave_def Let_def notify_cancelled_def close_rows_def)
    then show ?thesis by (intro disjI2 exI [of _ ?rows]) auto
  qed
qed

lemma link_rows:
  assumes "link_standalone c req leave_id a b s = (r, s')"
  shows "s' = s \<or> (\<exists>P. s' = s\<lparr>sub_requests := update_where P
     (\<lambda>r. r\<lparr>r_leave := Some leave_id, r_updated_at := mysql_now c\<rparr>) (sub_requests s)\<rparr>)"
  using assms by (auto simp: link_standalone_def split: sum.splits)

lemma answer_inv:
  assumes "subs_inv s" and "\<not> is_open st" and "sub_requests s' = sub_requests (answer_row c rid st n s)" "next_sub s' = next_sub s"
  shows "subs_inv s'"
  by (rule inv_cong [OF answer_row_inv [OF assms(1,2)] assms(3)]) (simp add: assms(4) answer_row_def)

lemma close_inv:
  assumes "subs_inv s" and "\<not> is_open st" and "sub_requests s' = sub_requests (close_rows c P st s)" "next_sub s' = next_sub s"
  shows "subs_inv s'"
  by (rule inv_cong [OF close_rows_inv [OF assms(1,2)] assms(3)]) (simp add: assms(4) close_rows_def)

lemma sub_step_inv:
  assumes "sub_step c s s'" and "subs_inv s"
  shows "subs_inv s'"
  using assms(1)
proof cases
  case (create_one user body r)
  from create_request_rows [OF create_one(2)] show ?thesis
    using assms(2) create_inv [OF assms(2) create_one(1)] by blast
next
  case (create_all req name items leave_id r')
  then show ?thesis
    using assms(2) create_many_tx_inv [OF assms(2) create_all(1,2)]
    by (cases r') (auto simp: transaction_Inr transaction_Inl)
next
  case (accept user rid nt r)
  from accept_rows [OF accept] show ?thesis using assms(2) accept_tx_inv by blast
next
  case (decline user rid nt r)
  from decline_rows [OF decline] show ?thesis
    using assms(2) answer_inv [OF assms(2), of Declined] by (auto simp: is_open_def)
next
  case (withdraw user rid nt r)
  from withdraw_rows [OF withdraw] show ?thesis
    using assms(2) answer_inv [OF assms(2), of Withdrawn] by (auto simp: is_open_def)
next
  case (cancel user rid nt r)
  from cancel_rows [OF cancel] show ?thesis
    using assms(2) close_inv [OF assms(2), of Cancelled] inv_cong [OF assms(2)] by (auto simp: is_open_def)
next
  case (cancel_leave leave_id keep n)
  from cancel_leave_rows [OF cancel_leave] show ?thesis
    using assms(2) close_inv [OF assms(2), of Cancelled] inv_cong [OF assms(2)] by (auto simp: is_open_def)
next
  case (link req leave_id a b r')
  from link_rows [OF link] show ?thesis
    using assms(2) by (auto intro!: inv_update simp: same_keys_def)
qed

lemma sub_run_inv: "sub_run s s' \<Longrightarrow> subs_inv s \<Longrightarrow> subs_inv s'"
  by (induction rule: sub_run.induct) (auto intro: sub_step_inv)

lemma status_of_loaded:
  assumes "subs_inv s" and "load_for_update rid s = Inr row" and "r \<in> set (sub_requests s)" and "r_id r = rid"
  shows "r = row"
  using assms load_ok [OF assms(2)] subs.unique_row [of s r row] by (simp add: subs_inv_def keys_ok_def)

lemma answer_evolves_loaded:
  assumes "subs_inv s" and "load_for_update rid s = Inr row" and "documented (r_status row) st"
    and "sub_requests s' = sub_requests (answer_row c rid st n s)"
  shows "evolves s s'"
  by (rule answer_evolves [OF _ assms(4)]) (use status_of_loaded [OF assms(1,2)] assms(3) in auto)

lemma close_evolves_loaded:
  assumes "subs_inv s" and "load_for_update rid s = Inr row" and "documented (r_status row) st"
    and "sub_requests s' = sub_requests (close_rows c (\<lambda>r. r_id r = rid) st s)"
  shows "evolves s s'"
  by (rule close_evolves [OF _ assms(4)]) (use status_of_loaded [OF assms(1,2)] assms(3) in auto)

lemma sub_step_evolves:
  assumes "sub_step c s s'" and "subs_inv s"
  shows "evolves s s'"
  using assms(1)
proof cases
  case (create_one user body r)
  from create_request_rows [OF create_one(2)] show ?thesis
    by (auto intro: evolves_refl evolves_one dest!: create_evolves)
next
  case (create_all req name items leave_id r')
  then show ?thesis
    by (cases r') (auto simp: transaction_Inr transaction_Inl intro: evolves_refl dest!: create_many_evolves intro: evolves_new)
next
  case (accept user rid nt r)
  from accept_rows [OF accept] show ?thesis using evolves_refl accept_tx_evolves [OF assms(2)] by blast
next
  case (decline user rid nt r)
  from decline_rows [OF decline] show ?thesis
    by (auto intro: evolves_refl answer_evolves_loaded [OF assms(2)])
next
  case (withdraw user rid nt r)
  from withdraw_rows [OF withdraw] show ?thesis
    by (auto intro: evolves_refl answer_evolves_loaded [OF assms(2)])
next
  case (cancel user rid nt r)
  from cancel_rows [OF cancel] show ?thesis
    by (auto intro: evolves_refl close_evolves_loaded [OF assms(2)] simp: is_open_def)
next
  case (cancel_leave leave_id keep n)
  from cancel_leave_rows [OF cancel_leave] show ?thesis
  proof
    assume "\<exists>rows. set rows \<subseteq> set (sub_requests s) \<and> (\<forall>r \<in> set rows. is_open (r_status r))
      \<and> sub_requests s' = sub_requests (close_rows c (\<lambda>r. r_id r \<in> set (map r_id rows)) Cancelled s) \<and> next_sub s' = next_sub s"
    then obtain rows where rows: "set rows \<subseteq> set (sub_requests s)" "\<forall>r \<in> set rows. is_open (r_status r)"
      "sub_requests s' = sub_requests (close_rows c (\<lambda>r. r_id r \<in> set (map r_id rows)) Cancelled s)" by blast
    show ?thesis
    proof (rule close_evolves [OF _ rows(3)])
      fix r assume r: "r \<in> set (sub_requests s)" "r_id r \<in> set (map r_id rows)"
      then obtain x where "x \<in> set rows" "r_id x = r_id r" by auto
      then have "x = r" using subs.unique_row [of s x r] assms(2) r(1) rows(1) by (auto simp: subs_inv_def keys_ok_def)
      with \<open>x \<in> set rows\<close> rows(2) show "documented (r_status r) Cancelled" by (auto simp: is_open_def)
    qed
  qed (auto intro: evolves_refl)
next
  case (link req leave_id a b r')
  from link_rows [OF link] show ?thesis
  proof
    assume "\<exists>P. s' = s\<lparr>sub_requests := update_where P
       (\<lambda>r. r\<lparr>r_leave := Some leave_id, r_updated_at := mysql_now c\<rparr>) (sub_requests s)\<rparr>"
    then obtain P where "s' = s\<lparr>sub_requests := update_where P
       (\<lambda>r. r\<lparr>r_leave := Some leave_id, r_updated_at := mysql_now c\<rparr>) (sub_requests s)\<rparr>" by blast
    then have "sub_requests s' = map (\<lambda>r. if P r then r\<lparr>r_leave := Some leave_id, r_updated_at := mysql_now c\<rparr> else r)
        (sub_requests s)" by (simp add: update_where_def)
    then show ?thesis by (rule evolves_map) (simp add: row_evolves_def same_keys_def)
  qed (auto intro: evolves_refl)
qed

end
