(* ===== verification/Sub_Claims.thy ===== *)
theory Sub_Claims
  imports Sub_Machine Demo
begin

text \<open>
  The properties of the substitution requests, with witnesses in a school of two teachers, one class
  and a period on Wednesdays.
\<close>

subsection \<open>A school with a timetable\<close>

definition demo_slot :: slot_row where
  "demo_slot = \<lparr>t_id = 7, t_org = 1, t_teacher = 2, t_day = 2, t_period = 3, t_class = 5, t_section = 6,
     t_subject = Some ''Maths''\<rparr>"

definition demo_school :: db where
  "demo_school = demo_db\<lparr>bound_org := Some 1, classes := [\<lparr>cl_id = 5, cl_org = 1, cl_name = ''Class 5'', cl_fee = Some 150000\<rparr>],
     sections := [\<lparr>se_id = 6, se_org = 1, se_class = 5, se_name = ''B''\<rparr>], slots := [demo_slot]\<rparr>"

definition demo_teacher :: current_user where
  "demo_teacher = current_user_of (demo_user 2 ''asha'' Teacher) demo_org ''s1''"

definition demo_colleague :: current_user where
  "demo_colleague = current_user_of (demo_user 3 ''ravi'' Teacher) demo_org ''s2''"

definition demo_ask :: sub_body where
  "demo_ask = \<lparr>sb_date = 739749, sb_period = 3, sb_substitute = 3, sb_leave = None, sb_note = None, sb_teacher = None\<rparr>"

lemma demo_school_fields [simp]:
  "bound_org demo_school = Some 1" "users demo_school = users demo_db" "sub_requests demo_school = []"
  "next_sub demo_school = 1" "slots demo_school = [demo_slot]" "leaves demo_school = []" "holidays demo_school = []"
  "timings demo_school = []" "orgs demo_school = [demo_org]"
  "classes demo_school = [\<lparr>cl_id = 5, cl_org = 1, cl_name = ''Class 5'', cl_fee = Some 150000\<rparr>]"
  "sections demo_school = [\<lparr>se_id = 6, se_org = 1, se_class = 5, se_name = ''B''\<rparr>]"
  by (simp_all add: demo_school_def demo_db_def empty_db_def)

lemma demo_school_inv: "subs_inv demo_school" and demo_school_fk: "subs_fk demo_school"
  by (simp_all add: subs_inv_def keys_ok_def settled_def pairwise_ok_def subs.keys_unique_def subs_fk_def)

lemma demo_today: "school_today (demo 0) = 739748"
  by (simp add: school_today_def date_of_def demo_def demo_time_def us_defs)

definition demo_asked_row :: sub_row where
  "demo_asked_row = (new_sub_row (demo 0) 1 2 739749 3 demo_slot (demo_user 3 ''ravi'' Teacher) None None)\<lparr>r_id := 1\<rparr>"

lemma demo_checks:
  "create_checks (demo 0) 2 ''asha'' 739749 3 3 None True demo_school
    = Inr (1, (demo_slot, ''Class 5'', ''B''), demo_user 3 ''ravi'' Teacher)"
  by (simp add: create_checks_def check_day_def demo_today holiday_name_def org_of_def one_where_def weekday_def
      SUNDAY_def slot_of_def demo_slot_def class_name_of_def section_name_of_def first_row_def List.map_filter_def
      busy_reason_def has_class_def is_covering_def is_on_leave_def covered_by_def check_leave_def)

lemma demo_create: "\<exists>s'. create_request (demo 0) demo_teacher demo_ask demo_school
     = (get_shaped (demo 0) 1 None s', s') \<and> sub_requests s' = [demo_asked_row] \<and> users s' = users demo_db
     \<and> bound_org s' = Some 1 \<and> slots s' = [demo_slot] \<and> leaves s' = [] \<and> timings s' = []
     \<and> classes s' = classes demo_school \<and> sections s' = sections demo_school"
  by (simp add: create_request_def requester_id_def demo_ask_def demo_teacher_def current_user_of_def transaction_def
      org_of_def one_where_def STAFF_def create_def demo_checks insert_sub_def sub_conflict_def period_times_def
      get_timings_def load_timings_def demo_asked_row_def)

text \<open>C2: Over any run of the operations on substitution requests, no period of a teacher has two accepted
  covers, no teacher covers two periods at the same time, no request is still pending for a period
  that is covered, and nobody is their own substitute.\<close>

theorem cover_invariant:
  assumes "sub_run s s'" and "subs_inv s"
  shows "\<forall>a \<in> set (sub_requests s'). \<forall>b \<in> set (sub_requests s').
      (accepted a \<and> accepted b \<and> (same_cover a b \<or> same_sub a b) \<longrightarrow> a = b)
    \<and> (accepted a \<and> same_cover a b \<longrightarrow> r_status b \<noteq> Pending) \<and> r_requester a \<noteq> r_substitute a"
proof (intro ballI conjI)
  fix a b assume ab: "a \<in> set (sub_requests s')" "b \<in> set (sub_requests s')"
  have inv: "subs_inv s'" by (rule sub_run_inv [OF assms])
  then have "pairwise_ok accepted same_cover (sub_requests s')" "pairwise_ok accepted same_sub (sub_requests s')"
    by (simp_all add: subs_inv_def keys_ok_def)
  with ab show "accepted a \<and> accepted b \<and> (same_cover a b \<or> same_sub a b) \<longrightarrow> a = b"
    unfolding pairwise_ok_def by metis
  show "accepted a \<and> same_cover a b \<longrightarrow> r_status b \<noteq> Pending" and "r_requester a \<noteq> r_substitute a"
    using inv ab by (simp_all add: subs_inv_def keys_ok_def settled_def)
qed

theorem cover_invariant_witness:
  "\<exists>s'. sub_run demo_school s' \<and> sub_requests s' = [demo_asked_row] \<and> (\<forall>a \<in> set (sub_requests s'). r_requester a \<noteq> r_substitute a)"
proof -
  obtain s' r where run: "create_request (demo 0) demo_teacher demo_ask demo_school = (r, s')"
    and rows: "sub_requests s' = [demo_asked_row]" using demo_create by blast
  have "sub_run demo_school s'"
    by (rule sub_run.step [OF sub_run.start sub_step.create_one [OF demo_school_fk run]])
  with cover_invariant [OF this demo_school_inv] rows show ?thesis by blast
qed

text \<open>A request never changes its people, date or period, and its status only moves along the
  documented arrows (pending to accepted, declined, cancelled or filled; accepted to withdrawn or
  cancelled); a new request starts pending.\<close>

lemma statuses_documented:
  assumes "sub_step c s s'" and "subs_inv s"
  shows "\<exists>old new. sub_requests s' = old @ new \<and> list_all2 row_evolves (sub_requests s) old
     \<and> list_all (\<lambda>r. r_status r = Pending) new"
  using sub_step_evolves [OF assms] by (simp add: evolves_def)

theorem statuses_documented_witness:
  "\<exists>s'. sub_step (demo 0) demo_school s' \<and> (\<exists>new. sub_requests s' = new \<and> list_all (\<lambda>r. r_status r = Pending) new \<and> new \<noteq> [])"
proof -
  obtain s' r where run: "create_request (demo 0) demo_teacher demo_ask demo_school = (r, s')"
    and rows: "sub_requests s' = [demo_asked_row]" using demo_create by blast
  note st = sub_step.create_one [OF demo_school_fk run]
  from statuses_documented [OF st demo_school_inv] st rows show ?thesis by auto
qed

subsection \<open>Accepting\<close>

definition one_school :: "db \<Rightarrow> bool" where
  "one_school s \<longleftrightarrow> (\<forall>a \<in> set (sub_requests s). \<forall>b \<in> set (sub_requests s). r_substitute a = r_substitute b \<longrightarrow> r_org a = r_org b)"

lemma busy_free_not_covering:
  assumes "busy_reason t d p s = Inr None" and "bound_org s = Some g"
  shows "\<not> has_class g t d p s" "\<not> is_covering g t d p s" "\<not> is_on_leave g t d s"
  using assms by (auto simp: busy_reason_def org_of_def split: if_splits)

text \<open>The UNIQUE keys are only a guard against races: taken one at a time, no accept ever runs into
  one, because the checks before the update already exclude it.\<close>

lemma accept_no_duplicate_key:
  assumes "subs_inv s" and "subs_fk s" and "one_school s"
  shows "fst (accept_tx c user rid note s) \<noteq> Inl (DuplicateKey k)"
proof
  assume dup: "fst (accept_tx c user rid note s) = Inl (DuplicateKey k)"
  have uniq: "subs.keys_unique s" using assms(1) by (simp add: subs_inv_def keys_ok_def)
  obtain row where l: "load_for_update rid s = Inr row"
    using dup by (cases "load_for_update rid s") (auto simp: accept_tx_def load_for_update_def org_of_def split: option.splits)
  note row = load_ok [OF l]
  have sub: "only_substitute user row = Inr ()"
    using dup l by (auto simp: accept_tx_def only_substitute_def split: if_splits)
  then have who: "r_substitute row = cu_id user" by (auto simp: only_substitute_def split: if_splits)
  have pend: "r_status row = Pending" using dup l sub by (auto simp: accept_tx_def already_def split: if_splits)
  have cov: "covered_by (r_requester row) (r_date row) (r_period row) s = None"
    using dup l sub pend by (auto simp: accept_tx_def split: option.splits)
  have busy: "busy_reason (cu_id user) (r_date row) (r_period row) s = Inr None"
    using dup l sub pend cov row
    by (cases "busy_reason (cu_id user) (r_date row) (r_period row) s")
      (auto simp: accept_tx_def busy_reason_def org_of_def split: option.splits if_splits)
  have one: "one_where (\<lambda>r. r_id r = rid) (sub_requests s) = Some row"
    using subs.lookup_unique [OF uniq, of row] row by (simp add: subs.lookup_def)
  have "\<not> (r_status x = Accepted \<and> (same_cover x row \<or> same_sub x row))" if "x \<in> set (sub_requests s)" for x
  proof -
    have "\<not> (accepted x \<and> same_cover x row)"
      using covered_by_None [OF assms(2)] cov that by (auto simp: same_cover_def)
    moreover have "\<not> (accepted x \<and> same_sub x row)"
    proof
      assume x: "accepted x \<and> same_sub x row"
      then have "r_org x = r_org row" using assms(3) that row unfolding one_school_def same_sub_def by blast
      with x that who have "is_covering (r_org row) (cu_id user) (r_date row) (r_period row) s"
        by (auto simp: is_covering_def list_ex_iff same_sub_def accepted_def)
      with busy_free_not_covering(2) [OF busy] row show False by blast
    qed
    ultimately show ?thesis by (auto simp: accepted_def)
  qed
  moreover have "\<not> (is_open (r_status x) \<and> same_cover x row \<and> same_sub x row)"
    if "x \<in> set (sub_requests s)" "r_id x \<noteq> rid" for x
    using that assms(1) pend row by (auto simp: subs_inv_def keys_ok_def pairwise_ok_def is_open_def)
  ultimately have "sub_conflict (filter (\<lambda>x. r_id x \<noteq> rid) (sub_requests s)) (accept_row c (clean_note note) row) = None"
    by (auto simp: sub_conflict_def accept_row_def list_ex_iff same_cover_def same_sub_def)
  then have "update_accept c rid (clean_note note) s
      = (Inr (), s\<lparr>sub_requests := update_where (\<lambda>x. r_id x = rid) (accept_row c (clean_note note)) (sub_requests s)\<rparr>)"
    by (simp add: update_accept_def one)
  with dup l sub pend cov busy show False
    by (auto simp: accept_tx_def Let_def period_times_def get_timings_def org_of_def split: option.splits sum.splits)
qed

definition demo_asked :: db where
  "demo_asked = demo_school\<lparr>sub_requests := [demo_asked_row], next_sub := 2\<rparr>"

lemma demo_asked_row_fields:
  "r_id demo_asked_row = 1" "r_org demo_asked_row = 1" "r_requester demo_asked_row = 2" "r_substitute demo_asked_row = 3"
  "r_status demo_asked_row = Pending" "r_date demo_asked_row = 739749" "r_period demo_asked_row = 3"
  "r_class demo_asked_row = 5" "r_section demo_asked_row = 6" "r_subject demo_asked_row = Some ''Maths''"
  by (simp_all add: demo_asked_row_def new_sub_row_def demo_slot_def)

lemma demo_asked_facts: "subs_inv demo_asked" "subs_fk demo_asked" "one_school demo_asked"
  by (simp_all add: demo_asked_def subs_inv_def keys_ok_def settled_def pairwise_ok_def subs.keys_unique_def subs_fk_def
      one_school_def demo_asked_row_fields accepted_def user_by_id_def one_where_def class_name_of_def section_name_of_def)

theorem accept_no_duplicate_key_witness:
  "fst (accept_tx (demo 0) demo_colleague 1 None demo_asked) \<noteq> Inl (DuplicateKey (Some ''ux_sub_req_one_cover''))"
  by (rule accept_no_duplicate_key [OF demo_asked_facts])

text \<open>C21: Only the teacher who was asked can accept; when they do, exactly their request becomes accepted,
  every other pending request for the period becomes filled, and no other request changes.\<close>

theorem accept_effect:
  assumes "accept_tx c user rid note s = (Inr None, s')" and "subs_inv s"
  shows "\<exists>row. row \<in> set (sub_requests s) \<and> r_id row = rid \<and> r_substitute row = cu_id user \<and> r_status row = Pending
    \<and> sub_requests s' = map (won_rows c row (clean_note note)) (sub_requests s)"
  using assms(1)
proof (cases rule: accept_tx_cases)
  case (won row s1)
  have uniq: "subs.keys_unique s" using assms(2) by (simp add: subs_inv_def keys_ok_def)
  have row: "row \<in> set (sub_requests s)" "r_id row = rid" using load_ok [OF won(1)] by simp_all
  have "sub_requests s' = map (won_rows c row (clean_note note)) (sub_requests s)"
    using fill_after_accept [OF uniq row(1)] update_accept_ok(1) [OF won(7) row uniq] won(8) row(2) by simp
  with row won show ?thesis by blast
qed simp

lemma demo_accepts: "\<exists>s'. accept_tx (demo 0) demo_colleague 1 None demo_asked = (Inr None, s')"
  by (simp add: accept_tx_def load_for_update_def org_of_def one_where_def demo_asked_def demo_asked_row_fields
      only_substitute_def demo_colleague_def current_user_of_def covered_by_def first_row_def List.map_filter_def
      busy_reason_def has_class_def is_covering_def is_on_leave_def demo_slot_def update_accept_def sub_conflict_def
      accept_row_def fill_others_def update_where_def Let_def names_of_def user_by_id_def class_name_of_def
      section_name_of_def period_times_def get_timings_def load_timings_def)

theorem accept_effect_witness:
  "\<exists>s' row. accept_tx (demo 0) demo_colleague 1 None demo_asked = (Inr None, s') \<and> r_status row = Pending
     \<and> sub_requests s' = map (won_rows (demo 0) row (clean_note None)) (sub_requests demo_asked)"
  using demo_accepts accept_effect [OF _ demo_asked_facts(1)] by blast

end
