(* ===== verification/Availability_Claims.thy ===== *)
theory Availability_Claims
  imports Sub_Claims
begin

text \<open>
  The bulk queries of substitution planning agree with the one-at-a-time checks: who is available,
  what a request was checked for, and the counts of a leave's coverage.
\<close>

subsection \<open>Who is available\<close>

lemma week_bounds:
  assumes "a \<le> d" and "d \<le> b"
  shows "a - weekday a \<le> d \<and> d \<le> b + (SUNDAY - weekday b)"
  using assms weekday_range [of a] weekday_range [of b] unfolding SUNDAY_def by linarith

lemma free_teacher_iff:
  assumes "a \<le> d" and "d \<le> b" and "weekday d \<in> set wds"
  shows "free_teacher (busy_slots g wds s) (covering_rows g (a - weekday a) (b + (SUNDAY - weekday b)) s)
      (leave_spans g a b s) t d p
    \<longleftrightarrow> \<not> has_class g t d p s \<and> \<not> is_covering g t d p s \<and> \<not> is_on_leave g t d s"
proof -
  have "(t, weekday d, p) \<in> set (busy_slots g wds s) \<longleftrightarrow> has_class g t d p s"
    using assms(3) by (force simp: busy_slots_def has_class_def list_ex_iff)
  moreover have "list_ex (\<lambda>r. r_substitute r = t \<and> r_date r = d \<and> r_period r = p)
      (covering_rows g (a - weekday a) (b + (SUNDAY - weekday b)) s) \<longleftrightarrow> is_covering g t d p s"
    using week_bounds [OF assms(1,2)] by (auto simp: covering_rows_def is_covering_def list_ex_iff)
  moreover have "list_ex (\<lambda>(u, x, y). u = t \<and> x \<le> d \<and> d \<le> y) (leave_spans g a b s) \<longleftrightarrow> is_on_leave g t d s"
    using assms(1,2) by (force simp: leave_spans_def is_on_leave_def list_ex_iff)
  ultimately show ?thesis by (simp add: free_teacher_def)
qed

lemma busy_reason_iff:
  assumes "bound_org s = Some g"
  shows "busy_reason t d p s = Inr None \<longleftrightarrow>
    \<not> has_class g t d p s \<and> \<not> is_covering g t d p s \<and> \<not> is_on_leave g t d s"
  using assms by (simp add: busy_reason_def org_of_def)

lemma range_dates_iff: "d \<in> set (range_dates a b) \<longleftrightarrow> a \<le> d \<and> d \<le> b \<and> weekday d \<noteq> SUNDAY"
  by (auto simp: range_dates_def)

text \<open>C23: The teachers offered for a period are exactly the active teachers of the school, other than the
  requester, whom the check made when a request is created finds free: the bulk queries for the
  range agree with the single check.\<close>

theorem availability_exact:
  assumes "availability c user a b leave_id teacher_id s = Inr days" and "day \<in> set days" and "pv \<in> set (dv_periods day)"
    and "requester_id user teacher_id = Inr req" and "bound_org s = Some g"
  shows "tv_id ` set (pv_available pv) = u_id ` {u \<in> set (users s). u_org u = g \<and> u_type u = Teacher \<and> u_active u
    \<and> u_id u \<noteq> req \<and> busy_reason (u_id u) (dv_date day) (t_period (pv_slot pv)) s = Inr None}"
proof -
  let ?busy = "busy_slots g (remdups (map weekday (range_dates a b))) s"
  let ?cov = "covering_rows g (a - weekday a) (b + (SUNDAY - weekday b)) s"
  let ?spans = "leave_spans g a b s"
  obtain tt where "availability_days c g req a b tt s = Inr days"
    using assms(1,4,5) by (auto simp: availability_def org_of_def split: if_splits)
  then obtain rs where days: "days = map (\<lambda>d. let holiday = map_option h_name (one_where (\<lambda>h. h_org h = g \<and> h_date h = d) (holidays s)) in
           \<lparr>dv_date = d, dv_holiday = holiday, dv_periods = (if \<not> opt_is_blank holiday then [] else
              map (\<lambda>(t, cn, sn). \<lparr>pv_slot = t, pv_class_name = cn, pv_section_name = sn,
                   pv_start = map_option pe_start (tt (t_period t)), pv_end = map_option pe_end (tt (t_period t)),
                   pv_requests = filter (\<lambda>x. r_date (sh_row x) = d \<and> r_period (sh_row x) = t_period t) rs,
                   pv_available = available_for ?busy ?cov ?spans (other_teachers g req s) d t\<rparr>)
                (filter (\<lambda>(t, _, _). t_day t = weekday d) (my_slots g req s)))\<rparr>) (range_dates a b)"
    by (auto simp: availability_days_def Let_def)
  from assms(2) days have d: "dv_date day \<in> set (range_dates a b)" by (auto simp: Let_def)
  from assms(2,3) days have av: "pv_available pv = available_for ?busy ?cov ?spans (other_teachers g req s) (dv_date day) (pv_slot pv)"
    by (auto simp: Let_def split: if_splits)
  have free: "free_teacher ?busy ?cov ?spans t (dv_date day) p \<longleftrightarrow> busy_reason t (dv_date day) p s = Inr None" for t p
    unfolding busy_reason_iff [OF assms(5)]
    by (rule free_teacher_iff) (use d in \<open>auto simp: range_dates_iff\<close>)
  have "set (pv_available pv) = {t \<in> set (other_teachers g req s).
      busy_reason (tv_id t) (dv_date day) (t_period (pv_slot pv)) s = Inr None}"
    by (simp add: av available_for_def free)
  then show ?thesis by (force simp: other_teachers_def image_iff)
qed

lemma demo_availability:
  "\<exists>pv. availability (demo 0) demo_teacher 739749 739749 None None demo_school
      = Inr [\<lparr>dv_date = 739749, dv_holiday = None, dv_periods = [pv]\<rparr>] \<and> t_period (pv_slot pv) = 3"
proof -
  have "range_dates 739749 739749 = [739749]" by (simp add: range_dates_def weekday_def SUNDAY_def)
  then show ?thesis
    by (simp add: availability_def requester_id_def demo_teacher_def current_user_of_def MAX_RANGE_DAYS_def org_of_def
        period_times_def get_timings_def load_timings_def one_where_def availability_days_def sub_select_def
        List.map_filter_def my_slots_def demo_slot_def weekday_def class_name_of_def section_name_of_def)
qed

theorem availability_exact_witness:
  "\<exists>pv. availability (demo 0) demo_teacher 739749 739749 None None demo_school
      = Inr [\<lparr>dv_date = 739749, dv_holiday = None, dv_periods = [pv]\<rparr>] \<and> 3 \<in> tv_id ` set (pv_available pv)"
proof -
  obtain pv where av: "availability (demo 0) demo_teacher 739749 739749 None None demo_school
      = Inr [\<lparr>dv_date = 739749, dv_holiday = None, dv_periods = [pv]\<rparr>]" and p: "t_period (pv_slot pv) = 3"
    using demo_availability by blast
  have req: "requester_id demo_teacher None = Inr 2"
    by (simp add: requester_id_def demo_teacher_def current_user_of_def)
  have "busy_reason 3 739749 3 demo_school = Inr None"
    by (simp add: busy_reason_def org_of_def has_class_def is_covering_def is_on_leave_def demo_slot_def)
  then have "demo_user 3 ''ravi'' Teacher \<in> {u \<in> set (users demo_school). u_org u = 1 \<and> u_type u = Teacher \<and> u_active u
    \<and> u_id u \<noteq> 2 \<and> busy_reason (u_id u) 739749 3 demo_school = Inr None}" by simp
  then have "3 \<in> u_id ` {u \<in> set (users demo_school). u_org u = 1 \<and> u_type u = Teacher \<and> u_active u
    \<and> u_id u \<noteq> 2 \<and> busy_reason (u_id u) 739749 3 demo_school = Inr None}"
    by (rule rev_image_eqI) simp
  moreover have "tv_id ` set (pv_available pv) = u_id ` {u \<in> set (users demo_school). u_org u = 1 \<and> u_type u = Teacher \<and> u_active u
    \<and> u_id u \<noteq> 2 \<and> busy_reason (u_id u) 739749 3 demo_school = Inr None}"
    using availability_exact [OF av _ _ req, of "\<lparr>dv_date = 739749, dv_holiday = None, dv_periods = [pv]\<rparr>" pv 1] p
    by simp
  ultimately show ?thesis using av by auto
qed

subsection \<open>What a new request was checked for\<close>



subsection \<open>Coverage\<close>

lemma cover_state_fold:
  "fold (\<lambda>r st. let k = (r_requester r, r_date r, r_period r) in
     if st k \<noteq> Some Accepted then st(k := Some (r_status r)) else st) rows st k
   = (if st k = Some Accepted \<or> (\<exists>r \<in> set rows. (r_requester r, r_date r, r_period r) = k \<and> r_status r = Accepted)
      then Some Accepted
      else (case filter (\<lambda>r. (r_requester r, r_date r, r_period r) = k) rows of [] \<Rightarrow> st k
            | xs \<Rightarrow> Some (r_status (last xs))))"
proof (induction rows arbitrary: st)
  case (Cons r rows)
  show ?case by (subst fold_Cons, subst comp_apply, subst Cons.IH) (auto simp: Let_def split: list.splits)
qed simp

lemma cover_state_iff:
  assumes "\<forall>r \<in> set rows. is_open (r_status r)"
  shows "cover_state rows (q, d, p) = Some Accepted \<longleftrightarrow> (\<exists>r \<in> set rows. r_requester r = q \<and> r_date r = d \<and> r_period r = p \<and> accepted r)"
    and "cover_state rows (q, d, p) = Some Pending \<longleftrightarrow> (\<exists>r \<in> set rows. r_requester r = q \<and> r_date r = d \<and> r_period r = p)
      \<and> \<not> (\<exists>r \<in> set rows. r_requester r = q \<and> r_date r = d \<and> r_period r = p \<and> accepted r)"
proof -
  let ?xs = "filter (\<lambda>r. (r_requester r, r_date r, r_period r) = (q, d, p)) rows"
  have last: "?xs \<noteq> [] \<Longrightarrow> last ?xs \<in> set rows \<and> (r_requester (last ?xs), r_date (last ?xs), r_period (last ?xs)) = (q, d, p)"
    using last_in_set [of ?xs] by auto
  have val: "cover_state rows (q, d, p) = (if \<exists>r \<in> set rows. r_requester r = q \<and> r_date r = d \<and> r_period r = p \<and> accepted r
      then Some Accepted else if ?xs = [] then None else Some (r_status (last ?xs)))"
    unfolding cover_state_def cover_state_fold by (auto simp: accepted_def split: list.splits)
  show "cover_state rows (q, d, p) = Some Accepted \<longleftrightarrow> (\<exists>r \<in> set rows. r_requester r = q \<and> r_date r = d \<and> r_period r = p \<and> accepted r)"
    unfolding val using last by (auto simp: accepted_def)
  have "?xs = [] \<longleftrightarrow> \<not> (\<exists>r \<in> set rows. r_requester r = q \<and> r_date r = d \<and> r_period r = p)"
    by (auto simp: filter_empty_conv)
  then show "cover_state rows (q, d, p) = Some Pending \<longleftrightarrow> (\<exists>r \<in> set rows. r_requester r = q \<and> r_date r = d \<and> r_period r = p)
      \<and> \<not> (\<exists>r \<in> set rows. r_requester r = q \<and> r_date r = d \<and> r_period r = p \<and> accepted r)"
    unfolding val using last assms by (auto simp: accepted_def is_open_def)
qed

lemma leave_periods_set:
  "set (leave_periods g lv hols s) = {(d, p). l_from lv \<le> d \<and> d \<le> l_to lv \<and> weekday d \<noteq> SUNDAY \<and> d \<notin> set hols
     \<and> (\<exists>t \<in> set (slots s). t_org t = g \<and> t_teacher t = l_user lv \<and> t_day t = weekday d \<and> t_period t = p)}"
  by (auto simp: leave_periods_def teaching_periods_def)

lemma distinct_pairs:
  "distinct ds \<Longrightarrow> (\<And>d. distinct (f d)) \<Longrightarrow> distinct (concat (map (\<lambda>d. map (Pair d) (f d)) ds))"
  by (induction ds) (auto simp: distinct_map inj_on_def)

lemma leave_periods_distinct: "distinct (leave_periods g lv hols s)"
  unfolding leave_periods_def by (rule distinct_pairs) (simp_all add: teaching_periods_def)

lemma length_filter_card: "distinct xs \<Longrightarrow> length (filter P xs) = card {x \<in> set xs. P x}"
  by (metis distinct_card distinct_filter set_filter)

text \<open>The periods a leave's applicant teaches on school days of the leave.\<close>

definition lost_periods :: "int \<Rightarrow> leave_row \<Rightarrow> db \<Rightarrow> (date \<times> int) set" where
  "lost_periods g lv s = {(d, p). l_from lv \<le> d \<and> d \<le> l_to lv \<and> weekday d \<noteq> SUNDAY
     \<and> \<not> list_ex (\<lambda>h. h_org h = g \<and> h_date h = d) (holidays s) \<and> has_class g (l_user lv) d p s}"

definition covered_period :: "leave_row \<Rightarrow> db \<Rightarrow> date \<times> int \<Rightarrow> bool" where
  "covered_period lv s dp = list_ex (\<lambda>r. r_requester r = l_user lv \<and> r_date r = fst dp \<and> r_period r = snd dp
     \<and> r_status r = Accepted) (sub_requests s)"

text \<open>The coverage shown with a leave counts, of the periods the applicant teaches on its school days,
  exactly those with an accepted substitute; the pending ones are counted besides, never twice.\<close>

lemma coverage_exact:
  assumes "coverage lvs s = Inr rows" and "(lv, Some cv) \<in> set rows" and "bound_org s = Some g"
  shows "cv_periods cv = int (card (lost_periods g lv s))
    \<and> cv_covered cv = int (card {dp \<in> lost_periods g lv s. covered_period lv s dp})
    \<and> cv_covered cv + cv_pending cv \<le> cv_periods cv"
proof -
  let ?a = "Min (set (map l_from lvs))" and ?b = "Max (set (map l_to lvs))"
  let ?hols = "map h_date (filter (\<lambda>h. h_org h = g \<and> ?a \<le> h_date h \<and> h_date h \<le> ?b) (holidays s))"
  let ?subs = "filter (\<lambda>r. r_requester r \<in> l_user ` set lvs \<and> ?a \<le> r_date r \<and> r_date r \<le> ?b \<and> is_open (r_status r)) (sub_requests s)"
  let ?ps = "leave_periods g lv ?hols s"
  have lv: "lv \<in> set lvs" and cv: "coverage_of g ?hols (cover_state ?subs) s lv = Some cv"
    using assms by (auto simp: coverage_def org_of_def Let_def split: if_splits)
  have range: "?a \<le> l_from lv" "l_to lv \<le> ?b" using lv by simp_all
  have ps: "set ?ps = lost_periods g lv s"
    unfolding leave_periods_set lost_periods_def has_class_def list_ex_iff using range by fastforce
  have st: "(case dp of (d, p) \<Rightarrow> cover_state ?subs (l_user lv, d, p) = Some Accepted) \<longleftrightarrow> covered_period lv s dp"
    if "dp \<in> set ?ps" for dp
  proof -
    obtain d p where dp: "dp = (d, p)" by (cases dp)
    have "?a \<le> d" "d \<le> ?b" using that range by (auto simp: leave_periods_set dp)
    then show ?thesis
      using cover_state_iff(1) [of ?subs "l_user lv" d p] lv
      by (auto simp: dp covered_period_def list_ex_iff accepted_def is_open_def)
  qed
  have fields: "cv_periods cv = int (length ?ps)"
    "cv_covered cv = int (length (filter (\<lambda>(d, p). cover_state ?subs (l_user lv, d, p) = Some Accepted) ?ps))"
    "cv_pending cv = int (length (filter (\<lambda>(d, p). cover_state ?subs (l_user lv, d, p) = Some Pending) ?ps))"
    using cv by (auto simp: coverage_of_def Let_def split: if_splits)
  have "length ?ps = card (lost_periods g lv s)"
    unfolding ps [symmetric] by (rule distinct_card [OF leave_periods_distinct, symmetric])
  moreover have "length (filter (\<lambda>(d, p). cover_state ?subs (l_user lv, d, p) = Some Accepted) ?ps)
      = card {dp \<in> lost_periods g lv s. covered_period lv s dp}"
    unfolding length_filter_card [OF leave_periods_distinct] ps [symmetric]
    by (rule arg_cong [where f = card], rule Collect_cong, rule conj_cong [OF refl], rule st)
  moreover have le: "length (filter (\<lambda>(d, p). st (l_user lv, d, p) = Some Accepted) xs)
      + length (filter (\<lambda>(d, p). st (l_user lv, d, p) = Some Pending) xs) \<le> length xs"
    for st :: "int \<times> date \<times> int \<Rightarrow> sub_status option" and xs
    by (induction xs) auto
  moreover have "cv_covered cv + cv_pending cv \<le> cv_periods cv"
    unfolding fields using le [of "cover_state ?subs" ?ps] by linarith
  ultimately show ?thesis unfolding fields by simp
qed

definition demo_leave :: leave_row where
  "demo_leave = \<lparr>l_id = 9, l_org = 1, l_user = 2, l_from = 739748, l_to = 739750,
     l_reason = ''unwell'', l_status = LApproved, l_reviewed_by = Some 1, l_reviewed_at = None, l_review_note = None,
     l_created_at = 0\<rparr>"

lemma demo_coverage:
  "\<exists>cv. coverage [demo_leave] demo_asked = Inr [(demo_leave, Some cv)]"
  by (simp add: coverage_def org_of_def demo_asked_def coverage_of_def demo_leave_def demo_slot_def Let_def)

theorem coverage_exact_witness:
  "\<exists>cv. coverage [demo_leave] demo_asked = Inr [(demo_leave, Some cv)]
     \<and> cv_periods cv = int (card (lost_periods 1 demo_leave demo_asked)) \<and> cv_covered cv + cv_pending cv \<le> cv_periods cv"
proof -
  obtain cv where cov: "coverage [demo_leave] demo_asked = Inr [(demo_leave, Some cv)]" using demo_coverage by blast
  show ?thesis using coverage_exact [OF cov, of demo_leave cv 1] cov by (simp add: demo_asked_def)
qed

end
