(* ===== verification/Handlers.thy ===== *)
theory Handlers
  imports Tables
begin

text \<open>
  The steps a service function is made of, as handlers: a query that may raise, a write, a guard
  with its error, and their sequence. A raised error ends the sequence where it stands; the
  enclosing \<open>transaction\<close> takes the writes back.
\<close>

definition bindH :: "'a handler \<Rightarrow> ('a \<Rightarrow> 'b handler) \<Rightarrow> 'b handler" where
  "bindH m k s = (case m s of (Inl e, s') \<Rightarrow> (Inl e, s') | (Inr x, s') \<Rightarrow> k x s')"

definition ret :: "'a \<Rightarrow> 'a handler" where
  "ret x s = (Inr x, s)"

definition raise :: "app_error \<Rightarrow> 'a handler" where
  "raise e s = (Inl e, s)"

definition check :: "bool \<Rightarrow> app_error \<Rightarrow> unit handler" where
  "check b e s = (if b then (Inr (), s) else (Inl e, s))"

definition query :: "(db \<Rightarrow> 'a res) \<Rightarrow> 'a handler" where
  "query f s = (f s, s)"

definition reads :: "(db \<Rightarrow> 'a) \<Rightarrow> 'a handler" where
  "reads f s = (Inr (f s), s)"

definition writes :: "(db \<Rightarrow> db) \<Rightarrow> unit handler" where
  "writes f s = (Inr (), f s)"

text \<open>The row a query must find.\<close>

definition found :: "(db \<Rightarrow> 'a option) \<Rightarrow> app_error \<Rightarrow> 'a handler" where
  "found f e s = (case f s of None \<Rightarrow> (Inl e, s) | Some x \<Rightarrow> (Inr x, s))"

subsection \<open>What a finished sequence did\<close>

lemma bindH_Inr [svc_simps]:
  "bindH m k s = (Inr y, s') \<longleftrightarrow> (\<exists>x s1. m s = (Inr x, s1) \<and> k x s1 = (Inr y, s'))"
  by (auto simp: bindH_def split: prod.splits sum.splits)

lemma bindH_Inl:
  "bindH m k s = (Inl e, s') \<longleftrightarrow> m s = (Inl e, s') \<or> (\<exists>x s1. m s = (Inr x, s1) \<and> k x s1 = (Inl e, s'))"
  by (auto simp: bindH_def split: prod.splits sum.splits)

lemma ret_iff [svc_simps]: "ret x s = (r, s') \<longleftrightarrow> r = Inr x \<and> s' = s"
  by (auto simp: ret_def)

lemma raise_iff [svc_simps]: "raise e s = (r, s') \<longleftrightarrow> r = Inl e \<and> s' = s"
  by (auto simp: raise_def)

lemma check_iff [svc_simps]: "check b e s = (Inr u, s') \<longleftrightarrow> b \<and> s' = s"
  by (auto simp: check_def)

lemma check_Inl: "check b e s = (Inl e', s') \<longleftrightarrow> \<not> b \<and> e' = e \<and> s' = s"
  by (auto simp: check_def)

lemma query_iff [svc_simps]: "query f s = (r, s') \<longleftrightarrow> f s = r \<and> s' = s"
  by (auto simp: query_def)

lemma reads_iff [svc_simps]: "reads f s = (r, s') \<longleftrightarrow> r = Inr (f s) \<and> s' = s"
  by (auto simp: reads_def)

lemma writes_iff [svc_simps]: "writes f s = (r, s') \<longleftrightarrow> r = Inr () \<and> s' = f s"
  by (auto simp: writes_def)

lemma found_iff [svc_simps]: "found f e s = (Inr x, s') \<longleftrightarrow> f s = Some x \<and> s' = s"
  by (auto simp: found_def split: option.splits)

lemma found_Inl: "found f e s = (Inl e', s') \<longleftrightarrow> f s = None \<and> e' = e \<and> s' = s"
  by (auto simp: found_def split: option.splits)

declare transaction_Inr [svc_simps]

lemma transaction_cases:
  assumes "transaction body s = (r, s')"
  obtains (failed) e where "r = Inl e" "s' = s" | (finished) x where "r = Inr x" "body s = (Inr x, s')"
  using assms by (cases r) (auto simp: transaction_Inr transaction_Inl)

lemma transaction_keeps:
  "transaction body s = (r, s') \<Longrightarrow> P s \<Longrightarrow> (\<And>x. body s = (Inr x, s') \<Longrightarrow> P s') \<Longrightarrow> P s'"
  by (erule transaction_cases) auto

lemmas handler_defs = bindH_def ret_def raise_def check_def query_def reads_def writes_def found_def

end
