(* ===== verification/Hr.thy ===== *)
theory Hr
  imports Sub_Responses Handlers
begin

text \<open>
  Holidays, leave requests, salaries and the daily check-in of the staff, \<^verbatim>\<open>app/services/hr.py\<close>.
  Deleting a leave sets \<open>leave_id\<close> of its substitution requests to NULL (their foreign key).
\<close>

subsection \<open>Holidays\<close>

definition list_holidays :: "int option \<Rightarrow> db \<Rightarrow> (holiday_row \<times> string option) list res" where
  "list_holidays year s = bindR (org_of s) (\<lambda>g. Inr (map (\<lambda>h. (h, map_option u_full_name (user_by_id (h_created_by h) s)))
     (sort_key h_date (filter (\<lambda>h. h_org h = g
        \<and> (case year of None \<Rightarrow> True | Some y \<Rightarrow> y = 0 \<or> year_of (h_date h) = y)) (holidays s)))))"

definition HOLIDAY_TAKEN :: app_error where
  "HOLIDAY_TAKEN = Conflict ''A holiday already exists on that date''"

text \<open>
  The UNIQUE key (school, date) makes the insert raise what the query before it found already;
  both become the same conflict.
\<close>

definition create_holiday :: "current_user \<Rightarrow> date \<Rightarrow> string \<Rightarrow> string option \<Rightarrow> int handler" where
  "create_holiday actor day name description = bindH (query org_of) (\<lambda>g.
     bindH (reads (list_ex (\<lambda>h. h_org h = g \<and> h_date h = day) \<circ> holidays)) (\<lambda>taken.
     bindH (check (\<not> taken) HOLIDAY_TAKEN) (\<lambda>_.
     bindH (reads next_holiday) (\<lambda>i.
     bindH (writes (\<lambda>s. s\<lparr>holidays := holidays s @ [\<lparr>h_id = i, h_org = g, h_date = day, h_name = name,
         h_description = description, h_created_by = cu_id actor\<rparr>], next_holiday := i + 1\<rparr>)) (\<lambda>_. ret i)))))"

definition update_holiday :: "int \<Rightarrow> date \<Rightarrow> string \<Rightarrow> string option \<Rightarrow> int handler" where
  "update_holiday hid day name description = bindH (query org_of) (\<lambda>g.
     bindH (reads (list_ex (\<lambda>h. h_org h = g \<and> h_date h = day \<and> h_id h \<noteq> hid) \<circ> holidays)) (\<lambda>taken.
     bindH (check (\<not> taken) HOLIDAY_TAKEN) (\<lambda>_.
     bindH (writes (\<lambda>s. s\<lparr>holidays := update_where (\<lambda>h. h_id h = hid \<and> h_org h = g)
         (\<lambda>h. h\<lparr>h_date := day, h_name := name, h_description := description\<rparr>) (holidays s)\<rparr>)) (\<lambda>_.
     bindH (reads (list_ex (\<lambda>h. h_id h = hid \<and> h_org h = g) \<circ> holidays)) (\<lambda>there.
     bindH (check there (NotFound ''Holiday not found'')) (\<lambda>_. ret hid))))))"

definition delete_holiday :: "int \<Rightarrow> int handler" where
  "delete_holiday hid = bindH (query org_of) (\<lambda>g.
     bindH (reads (list_ex (\<lambda>h. h_id h = hid \<and> h_org h = g) \<circ> holidays)) (\<lambda>there.
     bindH (check there (NotFound ''Holiday not found'')) (\<lambda>_.
     bindH (writes (\<lambda>s. s\<lparr>holidays := delete_where (\<lambda>h. h_id h = hid \<and> h_org h = g) (holidays s)\<rparr>))
       (\<lambda>_. ret hid))))"

subsection \<open>Leave requests\<close>

text \<open>The body, checked by \<open>LeaveCreate\<close>: \<open>items\<close> are the substitutions asked for, as (date, period, teacher).\<close>

record leave_body =
  lb_from :: date
  lb_to :: date
  lb_reason :: string
  lb_items :: "(date \<times> int \<times> int) list"

definition parse_leave :: "leave_body \<Rightarrow> leave_body res" where
  "parse_leave b =
     (if lb_reason b = [] \<or> 255 < length (lb_reason b) \<or> 200 < length (lb_items b)
         \<or> list_ex (\<lambda>(_, p, _). p < 1 \<or> 12 < p) (lb_items b)
      then Inl (Unprocessable ''Invalid request'')
      else if lb_to b < lb_from b then Inl (Unprocessable ''to_date must be on/after from_date'')
      else Inr b)"

record leave_view =
  lw_row :: leave_row
  lw_name :: string
  lw_type :: user_type
  lw_photo :: "string option"
  lw_reviewer :: "string option"

definition leave_select :: "(leave_row \<Rightarrow> bool) \<Rightarrow> db \<Rightarrow> leave_view list" where
  "leave_select P s = List.map_filter (\<lambda>l. map_option (\<lambda>u. \<lparr>lw_row = l, lw_name = u_full_name u, lw_type = u_type u,
       lw_photo = u_photo u, lw_reviewer = (case l_reviewed_by l of None \<Rightarrow> None
          | Some r \<Rightarrow> map_option u_full_name (user_by_id r s))\<rparr>) (user_by_id (l_user l) s))
     (filter P (leaves s))"

definition leave_dates :: "date \<Rightarrow> date \<Rightarrow> string" where
  "leave_dates a b = date_range a b"

definition leave_route :: "db \<Rightarrow> notice_data res" where
  "leave_route s = route ''leave'' False"

definition new_leave_row :: "ctx \<Rightarrow> int \<Rightarrow> int \<Rightarrow> int \<Rightarrow> leave_body \<Rightarrow> leave_row" where
  "new_leave_row c i g user b = \<lparr>l_id = i, l_org = g, l_user = user, l_from = lb_from b, l_to = lb_to b,
     l_reason = lb_reason b, l_status = LPending, l_reviewed_by = None, l_reviewed_at = None,
     l_review_note = None, l_created_at = mysql_now c\<rparr>"

definition notify_managers :: "ctx \<Rightarrow> current_user \<Rightarrow> string \<Rightarrow> string option \<Rightarrow> unit handler" where
  "notify_managers c actor title body = bindH (query (manager_ids (Some (cu_id actor)))) (\<lambda>ids.
     bindH (query leave_route) (\<lambda>d. writes (notify c ids ''leave'' title body (Some d))))"

definition request_leave :: "ctx \<Rightarrow> current_user \<Rightarrow> leave_body \<Rightarrow> int handler" where
  "request_leave c actor b = transaction (
     bindH (reads (list_ex (\<lambda>l. l_user l = cu_id actor \<and> l_status l = LPending) \<circ> leaves)) (\<lambda>busy.
     bindH (check (\<not> busy) (Conflict ''You already have a pending leave request'')) (\<lambda>_.
     bindH (query org_of) (\<lambda>g.
     bindH (reads next_leave) (\<lambda>i.
     bindH (writes (\<lambda>s. s\<lparr>leaves := leaves s @ [new_leave_row c i g (cu_id actor) b], next_leave := i + 1\<rparr>)) (\<lambda>_.
     bindH (create_many c (cu_id actor) (cu_full_name actor) (lb_items b) i) (\<lambda>_.
     bindH (link_standalone c (cu_id actor) i (lb_from b) (lb_to b)) (\<lambda>_.
     bindH (notify_managers c actor (cu_full_name actor @ '' applied for leave '' @ leave_dates (lb_from b) (lb_to b))
       (Some (lb_reason b))) (\<lambda>_. ret i)))))))))"

text \<open>The lists: the leaves of a page with their coverage.\<close>

definition leave_page :: "(leave_view \<Rightarrow> 'k::linorder) \<Rightarrow> (leave_row \<Rightarrow> bool) \<Rightarrow> page option \<Rightarrow> db
    \<Rightarrow> ((leave_view \<times> coverage_counts option) page_result) res" where
  "leave_page key P page s =
     (let result = fetch key (leave_select P s) page None
      in bindR (coverage (map lw_row (pr_rows result)) s) (\<lambda>cs.
           Inr \<lparr>pr_rows = zip (pr_rows result) (map snd cs), pr_total = pr_total result\<rparr>))"

definition my_leaves :: "current_user \<Rightarrow> page option \<Rightarrow> db \<Rightarrow> ((leave_view \<times> coverage_counts option) page_result) res" where
  "my_leaves actor page s = bindR (org_of s) (\<lambda>g.
     leave_page (\<lambda>v. (- l_created_at (lw_row v), - l_id (lw_row v))) (\<lambda>l. l_org l = g \<and> l_user l = cu_id actor) page s)"

definition list_leaves :: "string option \<Rightarrow> page option \<Rightarrow> db \<Rightarrow> ((leave_view \<times> coverage_counts option) page_result) res" where
  "list_leaves status page s = bindR (org_of s) (\<lambda>g.
     leave_page (\<lambda>v. (if l_status (lw_row v) = LPending then 0 else 1 :: int, - l_created_at (lw_row v), - l_id (lw_row v)))
       (\<lambda>l. l_org l = g \<and> (opt_is_blank status \<or> leave_status_name (l_status l) = the status)) page s)"

definition visible_leave :: "current_user \<Rightarrow> int \<Rightarrow> db \<Rightarrow> leave_view res" where
  "visible_leave actor lid s = bindR (org_of s) (\<lambda>g.
     case first_row (leave_select (\<lambda>l. l_id l = lid \<and> l_org l = g) s) of
       None \<Rightarrow> Inl (NotFound ''Leave request not found'')
     | Some v \<Rightarrow> if l_user (lw_row v) \<noteq> cu_id actor \<and> \<not> is_manager (cu_type actor)
         then Inl (NotFound ''Leave request not found'') else Inr v)"

definition get_leave :: "ctx \<Rightarrow> current_user \<Rightarrow> int \<Rightarrow> db \<Rightarrow> (leave_view \<times> coverage_counts option \<times> shaped list) res" where
  "get_leave c actor lid s = bindR (visible_leave actor lid s) (\<lambda>v.
     bindR (coverage [lw_row v] s) (\<lambda>cs.
     bindR (for_leave c lid s) (\<lambda>subs. Inr (v, snd (hd cs), subs))))"

definition leave_by_id :: "int \<Rightarrow> db \<Rightarrow> leave_row option" where
  "leave_by_id lid s = one_where (\<lambda>l. l_id l = lid) (leaves s)"

definition set_leave :: "int \<Rightarrow> (leave_row \<Rightarrow> leave_row) \<Rightarrow> db \<Rightarrow> db" where
  "set_leave lid f s = s\<lparr>leaves := update_where (\<lambda>l. l_id l = lid) f (leaves s)\<rparr>"

definition cancel_subs :: "ctx \<Rightarrow> int \<Rightarrow> (date \<times> date) option \<Rightarrow> unit handler" where
  "cancel_subs c lid keep = writes (\<lambda>s. snd (cancel_for_leave c lid keep s))"

definition update_leave :: "ctx \<Rightarrow> current_user \<Rightarrow> int \<Rightarrow> leave_body \<Rightarrow> (leave_view \<times> coverage_counts option \<times> shaped list) handler" where
  "update_leave c actor lid b = bindH (transaction (
     bindH (query (visible_leave actor lid)) (\<lambda>_.
     bindH (found (leave_by_id lid) TypeError) (\<lambda>l.
     bindH (check (l_user l = cu_id actor) (Forbidden ''Only the applicant can edit a leave request'')) (\<lambda>_.
     bindH (check (l_status l = LPending) (Conflict ''Only pending requests can be edited'')) (\<lambda>_.
     bindH (writes (set_leave lid (\<lambda>l. l\<lparr>l_from := lb_from b, l_to := lb_to b, l_reason := lb_reason b\<rparr>))) (\<lambda>_.
     bindH (cancel_subs c lid (Some (lb_from b, lb_to b))) (\<lambda>_.
     bindH (create_many c (cu_id actor) (cu_full_name actor) (lb_items b) lid) (\<lambda>_.
     link_standalone c (cu_id actor) lid (lb_from b) (lb_to b))))))))))
     (\<lambda>_. query (get_leave c actor lid))"

text \<open>\<open>DELETE FROM leave_requests\<close>, with the foreign key of the substitution requests.\<close>

definition drop_leave :: "int \<Rightarrow> db \<Rightarrow> db" where
  "drop_leave lid s = s\<lparr>leaves := delete_where (\<lambda>l. l_id l = lid) (leaves s),
     sub_requests := update_where (\<lambda>r. r_leave r = Some lid) (\<lambda>r. r\<lparr>r_leave := None\<rparr>) (sub_requests s)\<rparr>"

definition delete_leave :: "ctx \<Rightarrow> current_user \<Rightarrow> int \<Rightarrow> unit handler" where
  "delete_leave c actor lid = transaction (
     bindH (query (visible_leave actor lid)) (\<lambda>_.
     bindH (found (leave_by_id lid) TypeError) (\<lambda>l.
     bindH (check (l_status l = LPending \<or> l_status l = LApproved)
       (Conflict (''This leave request is already '' @ leave_status_name (l_status l)))) (\<lambda>_.
     bindH (check (l_user l = cu_id actor \<and> (l_status l = LPending \<or> school_today c < l_from l)
         \<or> is_manager (cu_type actor) \<and> school_today c < l_from l)
       (Conflict ''This leave has already started'')) (\<lambda>_.
     bindH (cancel_subs c lid None) (\<lambda>_.
     bindH (if l_status l = LPending then writes (drop_leave lid)
       else bindH (writes (set_leave lid (\<lambda>l. l\<lparr>l_status := LCancelled\<rparr>))) (\<lambda>_.
         bindH (reads (user_by_id (l_user l))) (\<lambda>u.
         notify_managers c actor ((case u of None \<Rightarrow> ''None'' | Some u \<Rightarrow> u_full_name u) @ quote_char # ''s approved leave ''
           @ leave_dates (l_from l) (l_to l) @ '' was cancelled'') None))) (\<lambda>_.
     writes (audit_record c (Some (cu_id actor)) (if l_status l = LPending then ''leave.delete'' else ''leave.cancel'')
       (Some ''leave_request'') (Some (py_str_int lid)) [(''user_id'', py_str_int (l_user l))]))))))))"

text \<open>\<open>review_leave\<close>: \<open>approve\<close> tells which of the two routes called it.\<close>

definition review_status :: "bool \<Rightarrow> leave_status" where
  "review_status approve = (if approve then LApproved else LRejected)"

definition review_leave :: "ctx \<Rightarrow> current_user \<Rightarrow> int \<Rightarrow> bool \<Rightarrow> string option \<Rightarrow> int handler" where
  "review_leave c actor lid approve note = transaction (
     bindH (query org_of) (\<lambda>g.
     bindH (found (\<lambda>s. one_where (\<lambda>l. l_id l = lid \<and> l_org l = g) (leaves s)) (NotFound ''Leave request not found'')) (\<lambda>l.
     bindH (check (l_status l = LPending) (Conflict (''Already '' @ leave_status_name (l_status l)))) (\<lambda>_.
     bindH (writes (\<lambda>s. s\<lparr>leaves := update_where (\<lambda>l. l_id l = lid \<and> l_status l = LPending)
         (\<lambda>l. l\<lparr>l_status := review_status approve, l_reviewed_by := Some (cu_id actor),
               l_reviewed_at := Some (mysql_now c), l_review_note := note\<rparr>) (leaves s)\<rparr>)) (\<lambda>_.
     bindH (if approve then ret () else cancel_subs c lid None) (\<lambda>_.
     bindH (writes (audit_record c (Some (cu_id actor)) (''leave.'' @ leave_status_name (review_status approve))
         (Some ''leave_request'') (Some (py_str_int lid)) [(''user_id'', py_str_int (l_user l))])) (\<lambda>_.
     bindH (query leave_route) (\<lambda>d.
     bindH (writes (notify c [l_user l] ''leave'' (''Your leave ('' @ leave_dates (l_from l) (l_to l) @ '') was ''
         @ leave_status_name (review_status approve)) note (Some d))) (\<lambda>_. ret lid)))))))))"

subsection \<open>Salaries\<close>

definition my_salaries :: "current_user \<Rightarrow> db \<Rightarrow> (salary_row \<times> string option) list" where
  "my_salaries actor s = map (\<lambda>r. (r, map_option u_full_name (user_by_id (sa_created_by r) s)))
     (sort_key (\<lambda>r. (- sa_year r, - sa_month r)) (filter (\<lambda>r. sa_user r = cu_id actor) (salaries s)))"

definition list_salaries :: "ctx \<Rightarrow> int option \<Rightarrow> page option \<Rightarrow> db \<Rightarrow> ((salary_row \<times> user_row) page_result) res" where
  "list_salaries c user_id page s = bindR (org_of s) (\<lambda>g. Inr (fetch
     (\<lambda>(r, u). (- sa_year r, - sa_month r, collation c (u_full_name u), sa_id r))
     (List.map_filter (\<lambda>r. map_option (Pair r) (user_by_id (sa_user r) s))
       (filter (\<lambda>r. sa_org r = g \<and> (case user_id of None \<Rightarrow> True | Some i \<Rightarrow> sa_user r = i)) (salaries s))) page None))"

record salary_body =
  sy_user :: int
  sy_month :: int
  sy_year :: int
  sy_amount :: int
  sy_status :: salary_status
  sy_note :: "string option"

definition same_month :: "salary_body \<Rightarrow> salary_row \<Rightarrow> bool" where
  "same_month b r \<longleftrightarrow> sa_user r = sy_user b \<and> sa_year r = sy_year b \<and> sa_month r = sy_month b"

definition store_salary :: "int \<Rightarrow> int \<Rightarrow> salary_body \<Rightarrow> db \<Rightarrow> db" where
  "store_salary g actor b s =
     (if list_ex (same_month b) (salaries s)
      then s\<lparr>salaries := update_where (same_month b)
             (\<lambda>r. r\<lparr>sa_amount := sy_amount b, sa_status := sy_status b, sa_note := sy_note b\<rparr>) (salaries s)\<rparr>
      else s\<lparr>salaries := salaries s @ [\<lparr>sa_id = next_salary s, sa_org = g, sa_user = sy_user b, sa_month = sy_month b,
             sa_year = sy_year b, sa_amount = sy_amount b, sa_status = sy_status b, sa_note = sy_note b,
             sa_created_by = actor\<rparr>], next_salary := next_salary s + 1\<rparr>)"

definition save_salary :: "ctx \<Rightarrow> current_user \<Rightarrow> salary_body \<Rightarrow> unit handler" where
  "save_salary c actor b = transaction (
     bindH (query org_of) (\<lambda>g.
     bindH (found (\<lambda>s. one_where (\<lambda>u. u_id u = sy_user b \<and> u_org u = g \<and> u_type u \<noteq> Student) (users s))
       (NotFound ''Staff member not found'')) (\<lambda>_.
     bindH (writes (store_salary g (cu_id actor) b)) (\<lambda>_.
     writes (audit_record c (Some (cu_id actor)) ''salary.save'' (Some ''user'') (Some (py_str_int (sy_user b)))
       [(''user_id'', py_str_int (sy_user b)), (''month'', py_str_int (sy_month b)), (''year'', py_str_int (sy_year b)),
        (''amount'', py_str_int (sy_amount b)), (''status'', if sy_status b = SalPaid then ''paid'' else ''pending''),
        (''note'', case sy_note b of None \<Rightarrow> ''None'' | Some n \<Rightarrow> n)])))))"

definition delete_salary :: "ctx \<Rightarrow> current_user \<Rightarrow> int \<Rightarrow> int handler" where
  "delete_salary c actor sid = transaction (
     bindH (query org_of) (\<lambda>g.
     bindH (reads (list_ex (\<lambda>r. sa_id r = sid \<and> sa_org r = g) \<circ> salaries)) (\<lambda>there.
     bindH (check there (NotFound ''Salary record not found'')) (\<lambda>_.
     bindH (writes (\<lambda>s. s\<lparr>salaries := delete_where (\<lambda>r. sa_id r = sid \<and> sa_org r = g) (salaries s)\<rparr>)) (\<lambda>_.
     bindH (writes (audit_record c (Some (cu_id actor)) ''salary.delete'' (Some ''salary_record'') (Some (py_str_int sid)) []))
       (\<lambda>_. ret sid))))))"

subsection \<open>Staff attendance\<close>

text \<open>\<open>_now_time\<close> as seconds of the school day, and \<open>_clock\<close>, the text shown for it.\<close>

definition now_time :: "ctx \<Rightarrow> int" where
  "now_time c = school_now c mod us_per_day div us_per_second"

definition clock_text :: "int \<Rightarrow> string" where
  "clock_text t = (let sec = t mod 86400 in
     fmt0 2 (sec div 3600) @ '':'' @ fmt0 2 (sec mod 3600 div 60) @ '':'' @ fmt0 2 (sec mod 60))"

definition staff_day :: "int \<Rightarrow> date \<Rightarrow> db \<Rightarrow> staff_day_row option" where
  "staff_day uid day s = one_where (\<lambda>r. sd_user r = uid \<and> sd_date r = day) (staff_days s)"

definition my_today :: "ctx \<Rightarrow> current_user \<Rightarrow> db \<Rightarrow> string option \<times> string option \<times> date" where
  "my_today c actor s = (case staff_day (cu_id actor) (school_today c) s of
     Some r \<Rightarrow> (map_option clock_text (sd_in r), map_option clock_text (sd_out r), sd_date r)
   | None \<Rightarrow> (None, None, school_today c))"

definition set_staff_day :: "int \<Rightarrow> (staff_day_row \<Rightarrow> staff_day_row) \<Rightarrow> db \<Rightarrow> db" where
  "set_staff_day i f s = s\<lparr>staff_days := update_where (\<lambda>r. sd_id r = i) f (staff_days s)\<rparr>"

text \<open>Midnight is the empty \<open>timedelta\<close>, which counts as no time at all.\<close>

definition checked_in :: "staff_day_row \<Rightarrow> bool" where
  "checked_in r \<longleftrightarrow> (case sd_in r of None \<Rightarrow> False | Some t \<Rightarrow> t \<noteq> 0)"

definition check_in :: "ctx \<Rightarrow> current_user \<Rightarrow> string handler" where
  "check_in c actor = transaction (
     bindH (reads (staff_day (cu_id actor) (school_today c))) (\<lambda>row.
     bindH (case row of
        Some r \<Rightarrow> bindH (check (\<not> checked_in r) (Conflict ''Already checked in today''))
          (\<lambda>_. writes (set_staff_day (sd_id r) (\<lambda>r. r\<lparr>sd_in := Some (now_time c)\<rparr>)))
      | None \<Rightarrow> bindH (query org_of) (\<lambda>g. writes (\<lambda>s. s\<lparr>staff_days := staff_days s @ [\<lparr>sd_id = next_staff_day s,
          sd_org = g, sd_user = cu_id actor, sd_date = school_today c, sd_in = Some (now_time c), sd_out = None\<rparr>],
          next_staff_day := next_staff_day s + 1\<rparr>)))
     (\<lambda>_. ret (clock_text (now_time c)))))"

definition check_out :: "ctx \<Rightarrow> current_user \<Rightarrow> string handler" where
  "check_out c actor = transaction (
     bindH (reads (staff_day (cu_id actor) (school_today c))) (\<lambda>row.
     bindH (case row of
        None \<Rightarrow> raise (BadRequest ''Check in first'')
      | Some r \<Rightarrow> bindH (check (checked_in r) (BadRequest ''Check in first''))
          (\<lambda>_. writes (set_staff_day (sd_id r) (\<lambda>r. r\<lparr>sd_out := Some (now_time c)\<rparr>))))
     (\<lambda>_. ret (clock_text (now_time c)))))"

definition my_attendance_history :: "current_user \<Rightarrow> db \<Rightarrow> (date \<times> string option \<times> string option) list" where
  "my_attendance_history actor s = map (\<lambda>r. (sd_date r, map_option clock_text (sd_in r), map_option clock_text (sd_out r)))
     (take 60 (sort_key (\<lambda>r. - sd_date r) (filter (\<lambda>r. sd_user r = cu_id actor) (staff_days s))))"

definition staff_attendance_by_day :: "ctx \<Rightarrow> date option \<Rightarrow> page option \<Rightarrow> db
    \<Rightarrow> ((user_row \<times> string option \<times> string option) page_result) res" where
  "staff_attendance_by_day c day page s = bindR (org_of s) (\<lambda>g.
     let result = fetch (\<lambda>(r, u). (collation c (u_full_name u), sd_id r))
           (List.map_filter (\<lambda>r. map_option (Pair r) (user_by_id (sd_user r) s))
             (filter (\<lambda>r. sd_org r = g \<and> sd_date r = (case day of None \<Rightarrow> school_today c | Some d \<Rightarrow> d)) (staff_days s)))
           page None
     in Inr \<lparr>pr_rows = map (\<lambda>(r, u). (u, map_option clock_text (sd_in r), map_option clock_text (sd_out r))) (pr_rows result),
             pr_total = pr_total result\<rparr>)"

end
