(* ===== verification/Hr_Props.thy ===== *)
theory Hr_Props
  imports Hr Sub_Machine
begin

text \<open>
  Leaves and substitution requests together: every open request that belongs to a leave belongs to
  its applicant, falls inside it and the leave still stands; nobody has two pending leaves.
\<close>

definition leave_stands :: "leave_row \<Rightarrow> bool" where
  "leave_stands l \<longleftrightarrow> l_status l = LPending \<or> l_status l = LApproved"

definition covers_link :: "leave_row \<Rightarrow> sub_row \<Rightarrow> bool" where
  "covers_link l r \<longleftrightarrow> r_leave r = Some (l_id l) \<and> l_user l = r_requester r \<and> leave_stands l
     \<and> l_from l \<le> r_date r \<and> r_date r \<le> l_to l"

definition link_ok :: "db \<Rightarrow> sub_row \<Rightarrow> bool" where
  "link_ok s r \<longleftrightarrow> (is_open (r_status r) \<and> r_leave r \<noteq> None \<longrightarrow> (\<exists>l \<in> set (leaves s). covers_link l r))"

definition leave_links_ok :: "db \<Rightarrow> bool" where
  "leave_links_ok s \<longleftrightarrow> (\<forall>r \<in> set (sub_requests s). link_ok s r)"

definition leaves_wf :: "db \<Rightarrow> bool" where
  "leaves_wf s \<longleftrightarrow> lvs.keys_unique s \<and> (\<forall>l \<in> set (leaves s). l_id l < next_leave s)
     \<and> pairwise_ok (\<lambda>l. l_status l = LPending) (\<lambda>a b. l_user a = l_user b) (leaves s)"

definition links_kept :: "sub_row \<Rightarrow> sub_row \<Rightarrow> bool" where
  "links_kept r r' \<longleftrightarrow> r_leave r' = r_leave r \<and> r_requester r' = r_requester r \<and> r_date r' = r_date r
     \<and> (is_open (r_status r') \<longrightarrow> is_open (r_status r))"

lemma links_map:
  assumes "leave_links_ok s" and "leaves s' = leaves s" and "sub_requests s' = map f (sub_requests s)"
    and "\<And>r. r \<in> set (sub_requests s) \<Longrightarrow> links_kept r (f r)"
  shows "leave_links_ok s'"
  unfolding leave_links_ok_def
proof
  fix x assume "x \<in> set (sub_requests s')"
  then obtain r where r: "r \<in> set (sub_requests s)" "x = f r" using assms(3) by auto
  then show "link_ok s' x"
    using assms(1,2) assms(4) [OF r(1)] by (auto simp: leave_links_ok_def link_ok_def links_kept_def covers_link_def)
qed


lemma links_cong:
  "leave_links_ok s \<Longrightarrow> sub_requests s' = sub_requests s \<Longrightarrow> leaves s' = leaves s \<Longrightarrow> leave_links_ok s'"
  by (simp add: leave_links_ok_def link_ok_def)

lemma wf_cong:
  "leaves_wf s \<Longrightarrow> leaves s' = leaves s \<Longrightarrow> next_leave s' = next_leave s \<Longrightarrow> leaves_wf s'"
  by (simp add: leaves_wf_def lvs.keys_unique_def)

subsection \<open>Frames\<close>

lemma notify_next_leave [simp]:
  "next_leave (notify_each c items kind p s) = next_leave s" "next_leave (notify c us kind t b d s) = next_leave s"
  by (simp_all add: notify_def notify_each_def Let_def)

lemma create_frame:
  assumes "create c req name day period sub leave_id note own s = (Inr i, s')"
  shows "leaves s' = leaves s" "next_leave s' = next_leave s" "users s' = users s" "bound_org s' = bound_org s"
  using assms by (auto simp: create_def insert_sub_def split: option.splits sum.splits prod.splits)

lemma create_many_frame:
  "create_many c req name items leave_id s = (Inr x, s') \<Longrightarrow>
   leaves s' = leaves s \<and> next_leave s' = next_leave s \<and> users s' = users s \<and> bound_org s' = bound_org s"
proof (induction items arbitrary: s)
  case (Cons it items)
  obtain d p b where it: "it = (d, p, b)" by (cases it)
  then obtain i s1 where "create c req name d p b (Some leave_id) None True s = (Inr i, s1)"
    and "create_many c req name items leave_id s1 = (Inr x, s')"
    using Cons.prems by (auto split: sum.splits prod.splits)
  with Cons.IH create_frame show ?case by metis
qed simp

subsection \<open>Creating and linking\<close>

lemma check_leave_link:
  "check_leave g req day (Some i) s = Inr () \<Longrightarrow>
    \<exists>l \<in> set (leaves s). l_id l = i \<and> l_user l = req \<and> leave_stands l \<and> l_from l \<le> day \<and> day \<le> l_to l"
  by (cases "one_where (\<lambda>x. l_id x = i \<and> l_user x = req \<and> l_org x = g) (leaves s)")
    (auto simp: check_leave_def leave_stands_def dest!: one_where_Some split: if_splits leave_status.splits
      intro: leave_status.exhaust)

lemma create_links:
  assumes "leave_links_ok s" and "create c req name day period sub leave_id note own s = (Inr i, s')"
  shows "leave_links_ok s'"
proof -
  from create_effect [OF assms(2)] obtain g t cn sn u s1 where
    ch: "create_checks c req name day period sub leave_id own s = Inr (g, (t, cn, sn), u)"
    and ins: "insert_sub (new_sub_row c g req day period t u leave_id note) s = (Inr i, s1)"
    and s': "sub_requests s' = sub_requests s1" by metis
  have rows: "sub_requests s' = sub_requests s @ [(new_sub_row c g req day period t u leave_id note)\<lparr>r_id := next_sub s\<rparr>]"
    using ins s' by (auto simp: insert_sub_def split: option.splits)
  have "link_ok s' ((new_sub_row c g req day period t u leave_id note)\<lparr>r_id := next_sub s\<rparr>)"
  proof (cases leave_id)
    case (Some l)
    with check_leave_link create_checks_ok(13) [OF ch] create_frame(1) [OF assms(2)] show ?thesis
      by (fastforce simp: link_ok_def covers_link_def new_sub_row_def)
  qed (simp add: link_ok_def new_sub_row_def)
  moreover have "link_ok s' r" if "r \<in> set (sub_requests s)" for r
    using assms(1) that create_frame(1) [OF assms(2)] by (simp add: leave_links_ok_def link_ok_def)
  ultimately show ?thesis by (auto simp: leave_links_ok_def rows)
qed

lemma create_many_links:
  "leave_links_ok s \<Longrightarrow> create_many c req name items leave_id s = (Inr x, s') \<Longrightarrow> leave_links_ok s'"
proof (induction items arbitrary: s)
  case (Cons it items)
  obtain d p b where it: "it = (d, p, b)" by (cases it)
  then obtain i s1 where "create c req name d p b (Some leave_id) None True s = (Inr i, s1)"
    and "create_many c req name items leave_id s1 = (Inr x, s')"
    using Cons.prems(2) by (auto split: sum.splits prod.splits)
  with Cons.IH create_links [OF Cons.prems(1)] show ?case by metis
qed simp

lemma link_standalone_links:
  assumes "leave_links_ok s" and "link_standalone c req i a b s = (Inr u, s')"
    and "l \<in> set (leaves s)" "l_id l = i" "l_user l = req" "leave_stands l" "l_from l = a" "l_to l = b"
  shows "leave_links_ok s'"
proof -
  obtain g where s': "s' = s\<lparr>sub_requests := update_where (\<lambda>r. r_org r = g \<and> r_requester r = req \<and> r_leave r = None
        \<and> is_open (r_status r) \<and> a \<le> r_date r \<and> r_date r \<le> b)
        (\<lambda>r. r\<lparr>r_leave := Some i, r_updated_at := mysql_now c\<rparr>) (sub_requests s)\<rparr>"
    using assms(2) by (auto simp: link_standalone_def split: sum.splits)
  have "covers_link l (r\<lparr>r_leave := Some i, r_updated_at := t\<rparr>)"
    if "r_requester r = req" "a \<le> r_date r" "r_date r \<le> b" for r t
    using that assms(4-8) by (simp add: covers_link_def)
  then show ?thesis
    using assms(1,3) unfolding s' leave_links_ok_def link_ok_def
    by (auto simp: set_update_where covers_link_def)
qed

subsection \<open>Closing the requests of a leave\<close>

lemma cancel_subs_rows:
  assumes "cancel_for_leave c i keep s = (n, s')"
  shows "\<exists>f. sub_requests s' = map f (sub_requests s) \<and> (\<forall>r. links_kept r (f r)) \<and> (\<forall>r \<in> set (sub_requests s).
      is_open (r_status (f r)) \<longrightarrow> r_leave r = Some i \<longrightarrow> (case keep of None \<Rightarrow> False | Some (a, b) \<Rightarrow> a \<le> r_date r \<and> r_date r \<le> b))"
    and "leaves s' = leaves s" "next_leave s' = next_leave s" "users s' = users s" "bound_org s' = bound_org s"
proof -
  let ?P = "\<lambda>r. r_leave r = Some i \<and> is_open (r_status r)
            \<and> (case keep of None \<Rightarrow> True | Some (a, b) \<Rightarrow> r_date r < a \<or> b < r_date r)"
  let ?f = "\<lambda>r. if r_id r \<in> set (map r_id (filter ?P (sub_requests s)))
      then r\<lparr>r_status := Cancelled, r_updated_at := mysql_now c\<rparr> else r"
  have "sub_requests s' = map ?f (sub_requests s)"
  proof (cases "filter ?P (sub_requests s) = []")
    case True
    then have "s' = s" using assms by (simp add: cancel_for_leave_def)
    then show ?thesis unfolding True by simp
  next
    case False
    then show ?thesis
      using assms by (auto simp: cancel_for_leave_def Let_def notify_cancelled_def close_rows_def update_where_def)
  qed
  moreover have "links_kept r (?f r)" for r by (simp add: links_kept_def is_open_def)
  moreover have "case keep of None \<Rightarrow> False | Some (a, b) \<Rightarrow> a \<le> r_date r \<and> r_date r \<le> b"
    if r: "r \<in> set (sub_requests s)" "is_open (r_status (?f r))" "r_leave r = Some i" for r
  proof -
    have "r_id r \<notin> set (map r_id (filter ?P (sub_requests s)))" using r(2) by (auto simp: is_open_def)
    then have "\<not> ?P r" using r(1) by auto
    moreover have "is_open (r_status r)" using r(2) by (auto simp: is_open_def split: if_splits)
    ultimately show ?thesis using r(3) by (auto split: option.splits)
  qed
  ultimately show "\<exists>f. sub_requests s' = map f (sub_requests s) \<and> (\<forall>r. links_kept r (f r)) \<and> (\<forall>r \<in> set (sub_requests s).
      is_open (r_status (f r)) \<longrightarrow> r_leave r = Some i \<longrightarrow> (case keep of None \<Rightarrow> False | Some (a, b) \<Rightarrow> a \<le> r_date r \<and> r_date r \<le> b))"
    by (intro exI [of _ ?f]) simp
qed (use assms in \<open>auto simp: cancel_for_leave_def Let_def notify_cancelled_def close_rows_def split: if_splits\<close>)

lemma fk_map:
  assumes "subs_fk s" and "sub_requests s' = map f (sub_requests s)" and "\<And>r. same_keys r (f r)"
    and "users s' = users s" "classes s' = classes s" "sections s' = sections s"
  shows "subs_fk s'"
proof -
  have "r_substitute (f r) = r_substitute r" "r_requester (f r) = r_requester r" "r_class (f r) = r_class r"
    "r_section (f r) = r_section r" for r using assms(3) [of r] by (simp_all add: same_keys_def)
  with assms(1,2,4-6) show ?thesis
    by (simp add: subs_fk_def user_by_id_def class_name_of_def section_name_of_def)
qed

lemma cancel_subs_fk:
  assumes "cancel_for_leave c i keep s = (n, s')" and "subs_fk s"
  shows "subs_fk s'"
proof -
  let ?P = "\<lambda>r. r_leave r = Some i \<and> is_open (r_status r)
            \<and> (case keep of None \<Rightarrow> True | Some (a, b) \<Rightarrow> r_date r < a \<or> b < r_date r)"
  show ?thesis
  proof (cases "filter ?P (sub_requests s) = []")
    case True
    then have "s' = s" using assms by (simp add: cancel_for_leave_def)
    then show ?thesis using assms(2) by simp
  next
    case False
    let ?ids = "set (map r_id (filter ?P (sub_requests s)))"
    have eqs: "sub_requests s' = map (\<lambda>r. if r_id r \<in> ?ids then r\<lparr>r_status := Cancelled, r_updated_at := mysql_now c\<rparr> else r)
      (sub_requests s)" "users s' = users s" "classes s' = classes s" "sections s' = sections s"
      using assms False by (auto simp: cancel_for_leave_def Let_def notify_cancelled_def close_rows_def update_where_def)
    show ?thesis by (rule fk_map [OF assms(2) eqs(1) _ eqs(2-4)]) (simp add: same_keys_def)
  qed
qed

subsection \<open>The operations on requests\<close>

definition same_leaves :: "db \<Rightarrow> db \<Rightarrow> bool" where
  "same_leaves s s' \<longleftrightarrow> leaves s' = leaves s \<and> next_leave s' = next_leave s"

lemma row_writes_leaves [simp]:
  "leaves (answer_row c i st n s) = leaves s" "next_leave (answer_row c i st n s) = next_leave s"
  "leaves (close_rows c P st s) = leaves s" "next_leave (close_rows c P st s) = next_leave s"
  "leaves (fill_others c row s) = leaves s" "next_leave (fill_others c row s) = next_leave s"
  by (simp_all add: answer_row_def close_rows_def fill_others_def Let_def)

lemma accept_tx_leaves: "accept_tx c user rid note s = (Inr res, s') \<Longrightarrow> same_leaves s s'"
  by (auto simp: accept_tx_def update_accept_def Let_def same_leaves_def split: sum.splits if_splits option.splits prod.splits)

lemma accept_leaves: "accept c user rid note s = (r, s') \<Longrightarrow> same_leaves s s'"
  by (drule accept_rows) (auto simp: accept_tx_leaves, simp add: same_leaves_def)

lemma decline_leaves:
  assumes "decline c user rid note s = (r, s')"
  shows "same_leaves s s'"
  using tx_success [OF assms [unfolded decline_def]]
  by (auto simp: decline_tx_def Let_def same_leaves_def split: sum.splits if_splits)

lemma withdraw_notices_leaves: "withdraw_notices c row n s = (r, s') \<Longrightarrow> same_leaves s s'"
  by (auto simp: withdraw_notices_def Let_def same_leaves_def split: sum.splits if_splits)

lemma withdraw_leaves:
  assumes "withdraw c user rid note s = (r, s')"
  shows "same_leaves s s'"
proof (cases "period_times s")
  case (Inr tt)
  then have "s' = s \<or> (\<exists>x. withdraw_tx c tt user rid note s = (Inr x, s'))"
    using assms by (intro tx_success) (simp add: withdraw_def)
  then show ?thesis
    by (auto simp: withdraw_tx_def Let_def same_leaves_def dest!: withdraw_notices_leaves split: sum.splits if_splits bool.splits)
qed (use assms in \<open>simp add: withdraw_def same_leaves_def\<close>)

lemma cancel_leaves:
  assumes "cancel c user rid note s = (r, s')"
  shows "same_leaves s s'"
  using tx_success [OF assms [unfolded cancel_def]]
  by (auto simp: cancel_tx_def notify_cancelled_def same_leaves_def split: sum.splits if_splits)

lemma create_request_leaves: "create_request c user body s = (r, s') \<Longrightarrow> same_leaves s s'"
  by (drule create_request_rows) (auto simp: same_leaves_def create_frame)

lemma answer_links:
  assumes "leave_links_ok s" and "\<not> is_open st" and "same_leaves s s'"
    and "sub_requests s' = sub_requests (answer_row c rid st n s)"
  shows "leave_links_ok s'"
  by (rule links_map [OF assms(1), where f = "\<lambda>r. if r_id r = rid then r\<lparr>r_status := st,
      r_responded_at := Some (mysql_now c), r_response_note := n, r_updated_at := mysql_now c\<rparr> else r"])
    (use assms in \<open>auto simp: same_leaves_def answer_row_def update_where_def links_kept_def\<close>)

lemma close_links:
  assumes "leave_links_ok s" and "\<not> is_open st" and "same_leaves s s'"
    and "sub_requests s' = sub_requests (close_rows c P st s)"
  shows "leave_links_ok s'"
  by (rule links_map [OF assms(1), where f = "\<lambda>r. if P r then r\<lparr>r_status := st, r_updated_at := mysql_now c\<rparr> else r"])
    (use assms in \<open>auto simp: same_leaves_def close_rows_def update_where_def links_kept_def\<close>)

lemma won_rows_links:
  assumes "r_id r = r_id row \<Longrightarrow> is_open (r_status r)"
  shows "links_kept r (won_rows c row n r)"
  using assms by (auto simp: links_kept_def won_rows_def accept_row_def is_open_def)

lemma accept_tx_links:
  assumes "subs_inv s" and "leave_links_ok s" and "accept_tx c user rid note s = (Inr res, s')"
  shows "leave_links_ok s'"
  using assms(3)
proof (cases rule: accept_tx_cases)
  case (taken row name)
  then show ?thesis using close_links [OF assms(2), of Filled s'] by (simp add: is_open_def same_leaves_def)
next
  case (won row s1)
  have uniq: "subs.keys_unique s" using assms(1) by (simp add: subs_inv_def keys_ok_def)
  have row: "row \<in> set (sub_requests s)" "r_id row = rid" using load_ok [OF won(1)] by simp_all
  have rows: "sub_requests s' = map (won_rows c row (clean_note note)) (sub_requests s)"
    using fill_after_accept [OF uniq row(1)] update_accept_ok(1) [OF won(7) row uniq] won(8) row(2) by simp
  show ?thesis
  proof (rule links_map [OF assms(2) _ rows])
    show "leaves s' = leaves s" using accept_tx_leaves [OF assms(3)] by (simp add: same_leaves_def)
    fix r assume r: "r \<in> set (sub_requests s)"
    have "r_id r = r_id row \<Longrightarrow> r = row" by (rule subs.unique_row [OF uniq r row(1)])
    with won(3) show "links_kept r (won_rows c row (clean_note note) r)"
      by (intro won_rows_links) (auto simp: is_open_def)
  qed
qed

text \<open>The five operations of the substitution service keep the links.\<close>

inductive request_op :: "ctx \<Rightarrow> db \<Rightarrow> db \<Rightarrow> bool" where
  create_op: "subs_fk s \<Longrightarrow> create_request c user body s = (r, s') \<Longrightarrow> request_op c s s'"
| accept_op: "accept c user rid note s = (r, s') \<Longrightarrow> request_op c s s'"
| decline_op: "decline c user rid note s = (r, s') \<Longrightarrow> request_op c s s'"
| withdraw_op: "withdraw c user rid note s = (r, s') \<Longrightarrow> request_op c s s'"
| cancel_op: "cancel c user rid note s = (r, s') \<Longrightarrow> request_op c s s'"

lemma request_op_step: "request_op c s s' \<Longrightarrow> sub_step c s s'"
  by (induction rule: request_op.induct) (auto intro: sub_step.intros)

lemma request_op_leaves: "request_op c s s' \<Longrightarrow> same_leaves s s'"
  by (induction rule: request_op.induct)
    (auto intro: create_request_leaves accept_leaves decline_leaves withdraw_leaves cancel_leaves)

lemma request_op_links:
  assumes "request_op c s s'" and "subs_inv s" and "leave_links_ok s"
  shows "leave_links_ok s'"
  using assms(1)
proof cases
  case (create_op user body r)
  from create_request_rows [OF create_op(2)] show ?thesis using create_links [OF assms(3)] assms(3) by blast
next
  case (accept_op user rid nt r)
  from accept_rows [OF accept_op] show ?thesis using accept_tx_links [OF assms(2,3)] assms(3) by blast
next
  case (decline_op user rid nt r)
  from decline_rows [OF decline_op] show ?thesis
    using answer_links [OF assms(3) _ decline_leaves [OF decline_op]] assms(3) by (auto simp: is_open_def)
next
  case (withdraw_op user rid nt r)
  from withdraw_rows [OF withdraw_op] show ?thesis
    using answer_links [OF assms(3) _ withdraw_leaves [OF withdraw_op]] assms(3) by (auto simp: is_open_def)
next
  case (cancel_op user rid nt r)
  from cancel_rows [OF cancel_op] show ?thesis
    using close_links [OF assms(3) _ cancel_leaves [OF cancel_op]] assms(3) by (auto simp: is_open_def)
qed

subsection \<open>The operations on leaves\<close>

definition school_inv :: "db \<Rightarrow> bool" where
  "school_inv s \<longleftrightarrow> subs_inv s \<and> leaves_wf s \<and> leave_links_ok s"

lemma links_transfer:
  assumes "leave_links_ok s" and "sub_requests s' = map f (sub_requests s)" and "\<And>r. links_kept r (f r)"
    and "\<And>r l. r \<in> set (sub_requests s) \<Longrightarrow> is_open (r_status (f r)) \<Longrightarrow> l \<in> set (leaves s) \<Longrightarrow> covers_link l r
      \<Longrightarrow> \<exists>l' \<in> set (leaves s'). covers_link l' (f r)"
  shows "leave_links_ok s'"
  unfolding leave_links_ok_def
proof
  fix x assume "x \<in> set (sub_requests s')"
  then obtain r where r: "r \<in> set (sub_requests s)" "x = f r" using assms(2) by auto
  have k: "links_kept r (f r)" by (rule assms(3))
  show "link_ok s' x"
    unfolding link_ok_def r(2)
  proof
    assume o: "is_open (r_status (f r)) \<and> r_leave (f r) \<noteq> None"
    then have "is_open (r_status r) \<and> r_leave r \<noteq> None" using k by (simp add: links_kept_def)
    then obtain l where "l \<in> set (leaves s)" "covers_link l r"
      using assms(1) r(1) unfolding leave_links_ok_def link_ok_def by blast
    with assms(4) [OF r(1)] o show "\<exists>l' \<in> set (leaves s'). covers_link l' (f r)" by blast
  qed
qed

lemma covers_link_kept: "links_kept r (f r) \<Longrightarrow> covers_link l r \<Longrightarrow> covers_link l (f r)"
  by (simp add: covers_link_def links_kept_def)

lemma wf_update_leaves:
  assumes "leaves_wf s" and "\<And>l. l_id (f l) = l_id l" and "\<And>l. l_user (f l) = l_user l"
    and "\<And>l. P l \<Longrightarrow> l_status (f l) = LPending \<Longrightarrow> l_status l = LPending"
    and "leaves s' = update_where P f (leaves s)" "next_leave s' = next_leave s"
  shows "leaves_wf s'"
proof -
  let ?g = "\<lambda>l. if P l then f l else l"
  have ls: "leaves s' = map ?g (leaves s)" using assms(5) by (simp add: update_where_def)
  have "map l_id (leaves s') = map l_id (leaves s)" using assms(2) by (simp add: ls)
  moreover have "pairwise_ok (\<lambda>l. l_status l = LPending) (\<lambda>a b. l_user a = l_user b) (leaves s')"
    unfolding pairwise_ok_def
  proof (intro ballI impI)
    fix a b assume a: "a \<in> set (leaves s')" and b: "b \<in> set (leaves s')"
      and p: "l_status a = LPending \<and> l_status b = LPending \<and> l_user a = l_user b"
    obtain x y where x: "x \<in> set (leaves s)" "a = ?g x" and y: "y \<in> set (leaves s)" "b = ?g y"
      using a b ls by auto
    have "l_status x = LPending" "l_status y = LPending" using p x(2) y(2) assms(4) by (auto split: if_splits)
    moreover have "l_user x = l_user y" using p x(2) y(2) assms(3) by (simp split: if_splits)
    ultimately have "x = y" using assms(1) x(1) y(1) unfolding leaves_wf_def pairwise_ok_def by blast
    with x y show "a = b" by simp
  qed
  moreover have "\<forall>l \<in> set (leaves s'). l_id l < next_leave s'"
    using assms(1,2,6) by (auto simp: ls leaves_wf_def)
  ultimately show ?thesis using assms(1) by (simp add: leaves_wf_def lvs.keys_unique_def)
qed

lemma notify_managers_frame:
  "notify_managers c actor title body s = (r, s') \<Longrightarrow> same_leaves s s' \<and> sub_requests s' = sub_requests s \<and> next_sub s' = next_sub s"
  by (cases r) (auto simp: notify_managers_def svc_simps bindH_Inl same_leaves_def)

lemma cancel_subs_inv: "subs_inv s \<Longrightarrow> subs_inv (snd (cancel_for_leave c i keep s))"
  by (rule sub_step_inv [OF sub_step.cancel_leave]) (simp_all add: prod_eq_iff)

lemma link_inv: "link_standalone c req i a b s = (r, s') \<Longrightarrow> subs_inv s \<Longrightarrow> subs_inv s'"
  by (rule sub_step_inv [OF sub_step.link])

lemma link_frame: "link_standalone c req i a b s = (r, s') \<Longrightarrow> same_leaves s s'"
  by (drule link_rows) (auto simp: same_leaves_def)

lemma audit_frame [simp]:
  "leaves (audit_record c a x e i d s) = leaves s" "next_leave (audit_record c a x e i d s) = next_leave s"
  "sub_requests (audit_record c a x e i d s) = sub_requests s" "next_sub (audit_record c a x e i d s) = next_sub s"
  by (simp_all add: audit_record_def)

lemma request_leave_inv:
  assumes "request_leave c actor b s = (r, s')" and "school_inv s" and "subs_fk s" and "user_by_id (cu_id actor) s \<noteq> None"
  shows "school_inv s'"
  using assms(1) unfolding request_leave_def
proof (cases rule: transaction_cases)
  case failed
  then show ?thesis using assms(2) by simp
next
  case (finished i)
  from finished(2) obtain g s2 s3 where
    busy: "\<not> list_ex (\<lambda>l. l_user l = cu_id actor \<and> l_status l = LPending) (leaves s)"
    and many: "create_many c (cu_id actor) (cu_full_name actor) (lb_items b) (next_leave s)
        (s\<lparr>leaves := leaves s @ [new_leave_row c (next_leave s) g (cu_id actor) b], next_leave := next_leave s + 1\<rparr>) = (Inr (), s2)"
    and link: "link_standalone c (cu_id actor) (next_leave s) (lb_from b) (lb_to b) s2 = (Inr (), s3)"
    and nt: "notify_managers c actor (cu_full_name actor @ '' applied for leave '' @ leave_dates (lb_from b) (lb_to b))
        (Some (lb_reason b)) s3 = (Inr (), s')"
    by (auto simp: svc_simps)
  define l where "l = new_leave_row c (next_leave s) g (cu_id actor) b"
  let ?s1 = "s\<lparr>leaves := leaves s @ [l], next_leave := next_leave s + 1\<rparr>"
  note many = many [folded l_def]
  have inv: "subs_inv s" "leaves_wf s" "leave_links_ok s" using assms(2) by (simp_all add: school_inv_def)
  have l: "l_id l = next_leave s" "l_user l = cu_id actor" "leave_stands l" "l_from l = lb_from b" "l_to l = lb_to b"
    by (simp_all add: l_def new_leave_row_def leave_stands_def)
  have "subs_inv ?s1" by (rule inv_cong [OF inv(1)]) simp_all
  then have "subs_inv s2"
    using create_many_tx_inv [OF _ _ _ many] assms(3,4) by (simp add: subs_fk_def user_by_id_def class_name_of_def section_name_of_def)
  then have "subs_inv s3" using link_inv [OF link] by blast
  then have "subs_inv s'" using notify_managers_frame [OF nt] by (auto intro: inv_cong)
  moreover have "leaves_wf ?s1"
    using inv(2) busy l(1,2) by (force simp: leaves_wf_def lvs.keys_unique_def pairwise_ok_def list_ex_iff)
  then have "leaves_wf s'"
    using create_many_frame [OF many] link_frame [OF link] notify_managers_frame [OF nt] by (auto simp: same_leaves_def intro: wf_cong)
  moreover have "leave_links_ok ?s1" using inv(3) by (auto simp: leave_links_ok_def link_ok_def)
  then have "leave_links_ok s2" by (rule create_many_links [OF _ many])
  then have "leave_links_ok s3"
    by (rule link_standalone_links [OF _ link _ l]) (use create_many_frame [OF many] in simp)
  then have "leave_links_ok s'" using notify_managers_frame [OF nt] by (auto simp: same_leaves_def intro: links_cong)
  ultimately show ?thesis by (simp add: school_inv_def)
qed


lemma cancel_subs_links:
  assumes "cancel_for_leave c i keep s = (n, s')" and "leave_links_ok s"
  shows "leave_links_ok s'"
proof -
  obtain f where f: "sub_requests s' = map f (sub_requests s)" "\<forall>r. links_kept r (f r)"
    using cancel_subs_rows(1) [OF assms(1)] by blast
  show ?thesis by (rule links_map [OF assms(2) cancel_subs_rows(2) [OF assms(1)] f(1)]) (simp add: f(2))
qed

text \<open>Once the requests of a leave are closed, its row may change or go.\<close>

lemma set_leave_links:
  assumes links: "leave_links_ok s" and "lvs.keys_unique s" and l: "l \<in> set (leaves s)"
    and cancelled: "cancel_for_leave c (l_id l) keep s = (n, s1)"
    and same: "sub_requests s' = sub_requests s1" "leaves s' = update_where (\<lambda>x. l_id x = l_id l) f (leaves s)"
    and f: "l_id (f l) = l_id l" "l_user (f l) = l_user l"
    and keep: "\<And>a b. keep = Some (a, b) \<Longrightarrow> leave_stands (f l) \<and> l_from (f l) = a \<and> l_to (f l) = b"
  shows "leave_links_ok s'"
proof -
  obtain g where g: "sub_requests s1 = map g (sub_requests s)" "\<forall>r. links_kept r (g r)"
    and closed: "\<forall>r \<in> set (sub_requests s). is_open (r_status (g r)) \<longrightarrow> r_leave r = Some (l_id l) \<longrightarrow>
       (case keep of None \<Rightarrow> False | Some (a, b) \<Rightarrow> a \<le> r_date r \<and> r_date r \<le> b)"
    using cancel_subs_rows(1) [OF cancelled] by blast
  show ?thesis
  proof (rule links_transfer [OF links])
    show "sub_requests s' = map g (sub_requests s)" using same g(1) by simp
    show "links_kept r (g r)" for r using g(2) by simp
    fix r k assume r: "r \<in> set (sub_requests s)" and o: "is_open (r_status (g r))"
      and k: "k \<in> set (leaves s)" "covers_link k r"
    show "\<exists>l' \<in> set (leaves s'). covers_link l' (g r)"
    proof (cases "l_id k = l_id l")
      case True
      then have kl: "k = l" using lvs.unique_row [OF assms(2) k(1) l] by blast
      then have "r_leave r = Some (l_id l)" using k(2) by (simp add: covers_link_def)
      then obtain a b where ab: "keep = Some (a, b)" "a \<le> r_date r" "r_date r \<le> b"
        using closed r o by (cases keep) auto
      have "covers_link (f l) r" using keep [OF ab(1)] f k(2) ab(2,3) by (simp add: covers_link_def kl)
      then have "covers_link (f l) (g r)" by (rule covers_link_kept [rotated]) (use g(2) in simp)
      moreover have "f l \<in> set (leaves s')" using same(2) l by (auto simp: set_update_where)
      ultimately show ?thesis by blast
    next
      case False
      then have "k \<in> set (leaves s')" using same(2) k(1) by (auto simp: set_update_where)
      moreover have "covers_link k (g r)" by (rule covers_link_kept [OF _ k(2)]) (use g(2) in simp)
      ultimately show ?thesis by blast
    qed
  qed
qed

lemma leave_by_id_Some: "leave_by_id i s = Some l \<Longrightarrow> l \<in> set (leaves s) \<and> l_id l = i"
  unfolding leave_by_id_def by (drule one_where_Some) simp

text \<open>Closing requests and rewriting a leave commute: the two tables are different.\<close>

lemma cancel_after_set:
  "sub_requests t = sub_requests s \<Longrightarrow> sub_requests (snd (cancel_for_leave c i keep t)) = sub_requests (snd (cancel_for_leave c i keep s))"
  by (simp add: cancel_for_leave_def Let_def notify_cancelled_def close_rows_def)

lemma set_leave_simps [simp]:
  "sub_requests (set_leave i f s) = sub_requests s" "next_sub (set_leave i f s) = next_sub s"
  "leaves (set_leave i f s) = update_where (\<lambda>l. l_id l = i) f (leaves s)"
  "next_leave (set_leave i f s) = next_leave s" "users (set_leave i f s) = users s"
  by (simp_all add: set_leave_def)

lemma cancel_subs_iff [svc_simps]:
  "cancel_subs c i keep s = (Inr u, s') \<longleftrightarrow> (\<exists>n. cancel_for_leave c i keep s = (n, s'))"
  by (cases "cancel_for_leave c i keep s") (auto simp: cancel_subs_def writes_iff)

lemma update_leave_inv:
  assumes "update_leave c actor lid b s = (r, s')" and "school_inv s" and "subs_fk s" and "user_by_id (cu_id actor) s \<noteq> None"
  shows "school_inv s'"
proof -
  obtain body where "transaction body s = (Inr (), s') \<or> s' = s" and body: "body =
     (bindH (query (visible_leave actor lid)) (\<lambda>_.
     bindH (found (leave_by_id lid) TypeError) (\<lambda>l.
     bindH (check (l_user l = cu_id actor) (Forbidden ''Only the applicant can edit a leave request'')) (\<lambda>_.
     bindH (check (l_status l = LPending) (Conflict ''Only pending requests can be edited'')) (\<lambda>_.
     bindH (writes (set_leave lid (\<lambda>l. l\<lparr>l_from := lb_from b, l_to := lb_to b, l_reason := lb_reason b\<rparr>))) (\<lambda>_.
     bindH (cancel_subs c lid (Some (lb_from b, lb_to b))) (\<lambda>_.
     bindH (create_many c (cu_id actor) (cu_full_name actor) (lb_items b) lid) (\<lambda>_.
     link_standalone c (cu_id actor) lid (lb_from b) (lb_to b)))))))))"
    using assms(1) by (cases r) (auto simp: update_leave_def svc_simps bindH_Inl transaction_Inl)
  then consider (same) "s' = s" | (fin) "body s = (Inr (), s')" by (auto simp: transaction_Inr)
  then show ?thesis
  proof cases
    case same
    then show ?thesis using assms(2) by simp
  next
    case fin
    let ?f = "\<lambda>l. l\<lparr>l_from := lb_from b, l_to := lb_to b, l_reason := lb_reason b\<rparr>"
    from fin obtain l n s2 s3 where l: "leave_by_id lid s = Some l" "l_user l = cu_id actor" "l_status l = LPending"
      and cancelled: "cancel_for_leave c lid (Some (lb_from b, lb_to b)) (set_leave lid ?f s) = (n, s2)"
      and many: "create_many c (cu_id actor) (cu_full_name actor) (lb_items b) lid s2 = (Inr (), s3)"
      and link: "link_standalone c (cu_id actor) lid (lb_from b) (lb_to b) s3 = (Inr (), s')"
      unfolding body by (auto simp: svc_simps)
    have lin: "l \<in> set (leaves s)" "l_id l = lid" using leave_by_id_Some [OF l(1)] by simp_all
    have inv: "subs_inv s" "leaves_wf s" "leave_links_ok s" using assms(2) by (simp_all add: school_inv_def)
    note fr = cancel_subs_rows(2-5) [OF cancelled]
    have fk: "subs_fk (set_leave lid ?f s)" using assms(3)
      by (simp add: subs_fk_def user_by_id_def class_name_of_def section_name_of_def set_leave_def)
    have "subs_inv (set_leave lid ?f s)" by (rule inv_cong [OF inv(1)]) simp_all
    then have "subs_inv s2" using cancel_subs_inv [of "set_leave lid ?f s" c lid "Some (lb_from b, lb_to b)"] cancelled by simp
    moreover have "subs_fk s2" by (rule cancel_subs_fk [OF cancelled fk])
    moreover have "user_by_id (cu_id actor) s2 \<noteq> None" using assms(4) fr by (simp add: user_by_id_def)
    ultimately have "subs_inv s3" using create_many_tx_inv [OF _ _ _ many] by blast
    then have "subs_inv s'" using link_inv [OF link] by blast
    moreover have "leaves_wf s2" by (rule wf_update_leaves [OF inv(2), of ?f "\<lambda>l. l_id l = lid"]) (use fr in simp_all)
    then have "leaves_wf s'"
      using create_many_frame [OF many] link_frame [OF link] by (auto simp: same_leaves_def intro: wf_cong)
    moreover have "leave_links_ok s2"
    proof (rule set_leave_links [OF inv(3) _ lin(1), of c _ "fst (cancel_for_leave c lid (Some (lb_from b, lb_to b)) s)"])
      show "lvs.keys_unique s" using inv(2) by (simp add: leaves_wf_def)
      show "cancel_for_leave c (l_id l) (Some (lb_from b, lb_to b)) s = (fst (cancel_for_leave c lid (Some (lb_from b, lb_to b)) s),
          snd (cancel_for_leave c lid (Some (lb_from b, lb_to b)) s))" by (simp add: lin(2))
      show "sub_requests s2 = sub_requests (snd (cancel_for_leave c lid (Some (lb_from b, lb_to b)) s))"
        using cancelled cancel_after_set [of "set_leave lid ?f s" s c lid] by (metis set_leave_simps(1) snd_conv)
      show "leaves s2 = update_where (\<lambda>x. l_id x = l_id l) ?f (leaves s)" using fr by (simp add: lin(2))
    qed (use l(3) in \<open>auto simp: leave_stands_def\<close>)
    then have "leave_links_ok s3" by (rule create_many_links [OF _ many])
    then have "leave_links_ok s'"
    proof (rule link_standalone_links [OF _ link, where l = "?f l"])
      show "?f l \<in> set (leaves s3)" using create_many_frame [OF many] fr lin by (auto simp: set_update_where)
    qed (use lin l in \<open>simp_all add: leave_stands_def\<close>)
    ultimately show ?thesis by (simp add: school_inv_def)
  qed
qed


lemma manager_frames [simp]:
  "leaves (snd (notify_managers c actor t b s)) = leaves s"
  by (rule prod.collapse [THEN sym, THEN notify_managers_frame, THEN conjunct1, unfolded same_leaves_def, THEN conjunct1])

lemma drop_leave_simps [simp]:
  "leaves (drop_leave i s) = delete_where (\<lambda>l. l_id l = i) (leaves s)" "next_leave (drop_leave i s) = next_leave s"
  "sub_requests (drop_leave i s) = update_where (\<lambda>r. r_leave r = Some i) (\<lambda>r. r\<lparr>r_leave := None\<rparr>) (sub_requests s)"
  "next_sub (drop_leave i s) = next_sub s"
  by (simp_all add: drop_leave_def)

lemma drop_leave_inv:
  assumes "school_inv s" and "cancel_for_leave c i None s = (n, s1)"
  shows "school_inv (drop_leave i s1)"
proof -
  have inv: "subs_inv s" "leaves_wf s" "leave_links_ok s" using assms(1) by (simp_all add: school_inv_def)
  note fr = cancel_subs_rows(2-3) [OF assms(2)]
  have "subs_inv s1" using cancel_subs_inv [OF inv(1), of c i None] assms(2) by simp
  then have "subs_inv (drop_leave i s1)"
    by (rule inv_cong [OF inv_update [where f = "\<lambda>r. r\<lparr>r_leave := None\<rparr>" and P = "\<lambda>r. r_leave r = Some i"]])
      (simp_all add: same_keys_def)
  moreover have "leaves_wf (drop_leave i s1)"
    using inv(2) fr by (auto simp: leaves_wf_def lvs.keys_unique_def pairwise_ok_def delete_where_def distinct_map_filter)
  moreover have "leave_links_ok (drop_leave i s1)"
    unfolding leave_links_ok_def
  proof
    fix x assume x: "x \<in> set (sub_requests (drop_leave i s1))"
    show "link_ok (drop_leave i s1) x"
      unfolding link_ok_def
    proof
      assume o: "is_open (r_status x) \<and> r_leave x \<noteq> None"
      then have "x \<in> set (sub_requests s1)" "r_leave x \<noteq> Some i" using x by (auto simp: set_update_where)
      then obtain l where "l \<in> set (leaves s1)" "covers_link l x"
        using cancel_subs_links [OF assms(2) inv(3)] o unfolding leave_links_ok_def link_ok_def by blast
      with \<open>r_leave x \<noteq> Some i\<close> show "\<exists>l \<in> set (leaves (drop_leave i s1)). covers_link l x"
        by (intro bexI [of _ l]) (auto simp: covers_link_def delete_where_def)
    qed
  qed
  ultimately show ?thesis by (simp add: school_inv_def)
qed

lemma close_leave_inv:
  assumes "school_inv s" and "cancel_for_leave c lid None s = (n, s1)"
    and "\<And>l. l_id (f l) = l_id l" "\<And>l. l_user (f l) = l_user l" "\<And>l. l_status (f l) \<noteq> LPending"
    and l: "l \<in> set (leaves s)" "l_id l = lid"
    and "sub_requests s' = sub_requests s1" "next_sub s' = next_sub s1" "next_leave s' = next_leave s"
    and ls: "leaves s' = update_where (\<lambda>x. l_id x = lid) f (leaves s)"
  shows "school_inv s'"
proof -
  have inv: "subs_inv s" "leaves_wf s" "leave_links_ok s" using assms(1) by (simp_all add: school_inv_def)
  have "subs_inv s1" using cancel_subs_inv [OF inv(1), of c lid None] assms(2) by simp
  then have "subs_inv s'" by (rule inv_cong) (use assms(8,9) in simp_all)
  moreover have "leaves_wf s'" by (rule wf_update_leaves [OF inv(2) assms(3,4) _ ls assms(10)]) (use assms(5) in simp)
  moreover have "leave_links_ok s'"
    by (rule set_leave_links [OF inv(3) _ l(1) _ assms(8), of c None n f])
      (use assms(2-4) l ls inv(2) in \<open>simp_all add: leaves_wf_def\<close>)
  ultimately show ?thesis by (simp add: school_inv_def)
qed

lemma delete_leave_inv:
  assumes "delete_leave c actor lid s = (r, s')" and "school_inv s"
  shows "school_inv s'"
  using assms(1) unfolding delete_leave_def
proof (cases rule: transaction_cases)
  case failed
  then show ?thesis using assms(2) by simp
next
  case (finished x)
  from finished(2) obtain l n s1 s2 where l: "leave_by_id lid s = Some l"
    and st: "l_status l = LPending \<or> l_status l = LApproved"
    and cancelled: "cancel_for_leave c lid None s = (n, s1)"
    and what: "(if l_status l = LPending then writes (drop_leave lid)
       else bindH (writes (set_leave lid (\<lambda>l. l\<lparr>l_status := LCancelled\<rparr>))) (\<lambda>_.
         bindH (reads (user_by_id (l_user l))) (\<lambda>u.
         notify_managers c actor ((case u of None \<Rightarrow> ''None'' | Some u \<Rightarrow> u_full_name u) @ quote_char # ''s approved leave ''
           @ leave_dates (l_from l) (l_to l) @ '' was cancelled'') None))) s1 = (Inr (), s2)"
    and s': "sub_requests s' = sub_requests s2" "next_sub s' = next_sub s2" "same_leaves s2 s'"
    by (auto simp: svc_simps same_leaves_def)
  have lin: "l \<in> set (leaves s)" "l_id l = lid" using leave_by_id_Some [OF l] by simp_all
  show ?thesis
  proof (cases "l_status l = LPending")
    case True
    then have "s2 = drop_leave lid s1" using what by (simp add: svc_simps)
    then have "school_inv s2" using drop_leave_inv [OF assms(2) cancelled] by simp
    then show ?thesis using s' by (auto simp: school_inv_def same_leaves_def intro: inv_cong wf_cong links_cong)
  next
    case False
    then obtain t b where "notify_managers c actor t b (set_leave lid (\<lambda>l. l\<lparr>l_status := LCancelled\<rparr>) s1) = (Inr (), s2)"
      using what by (auto simp: svc_simps)
    note nt = notify_managers_frame [OF this]
    show ?thesis
      by (rule close_leave_inv [OF assms(2) cancelled, where f = "\<lambda>l. l\<lparr>l_status := LCancelled\<rparr>"])
        (use lin nt s' cancel_subs_rows(2-3) [OF cancelled] in \<open>simp_all add: same_leaves_def\<close>)
  qed
qed

lemma review_leave_inv:
  assumes "review_leave c actor lid ok nt s = (r, s')" and "school_inv s"
  shows "school_inv s'"
  using assms(1) unfolding review_leave_def
proof (cases rule: transaction_cases)
  case failed
  then show ?thesis using assms(2) by simp
next
  case (finished x)
  let ?f = "\<lambda>l. l\<lparr>l_status := review_status ok, l_reviewed_by := Some (cu_id actor),
               l_reviewed_at := Some (mysql_now c), l_review_note := nt\<rparr>"
  let ?t = "s\<lparr>leaves := update_where (\<lambda>l. l_id l = lid \<and> l_status l = LPending) ?f (leaves s)\<rparr>"
  from finished(2) obtain g l s1 where l: "one_where (\<lambda>l. l_id l = lid \<and> l_org l = g) (leaves s) = Some l"
    and st: "l_status l = LPending"
    and what: "(if ok then ret () else cancel_subs c lid None) ?t = (Inr (), s1)"
    and s': "sub_requests s' = sub_requests s1" "next_sub s' = next_sub s1" "same_leaves s1 s'"
    by (auto simp: svc_simps same_leaves_def)
  have lin: "l \<in> set (leaves s)" "l_id l = lid" using one_where_Some [OF l] by simp_all
  have inv: "subs_inv s" "leaves_wf s" "leave_links_ok s" using assms(2) by (simp_all add: school_inv_def)
  have one: "update_where (\<lambda>l. l_id l = lid \<and> l_status l = LPending) ?f (leaves s) = update_where (\<lambda>l. l_id l = lid) ?f (leaves s)"
    unfolding update_where_def
  proof (intro map_cong refl)
    fix x assume x: "x \<in> set (leaves s)"
    have "l_id x = lid \<Longrightarrow> x = l" using lvs.unique_row [OF _ x lin(1)] inv(2) lin(2) by (simp add: leaves_wf_def)
    then show "(if l_id x = lid \<and> l_status x = LPending then ?f x else x) = (if l_id x = lid then ?f x else x)"
      using st by auto
  qed
  show ?thesis
  proof (cases ok)
    case True
    then have s1: "s1 = ?t" using what by (simp add: svc_simps)
    have "subs_inv s'" by (rule inv_cong [OF inv(1)]) (use s' s1 in simp_all)
    moreover have "leaves_wf s'"
      by (rule wf_update_leaves [OF inv(2), of ?f "\<lambda>l. l_id l = lid \<and> l_status l = LPending"])
        (use s' s1 True in \<open>simp_all add: same_leaves_def\<close>)
    moreover have "leave_links_ok s'"
    proof (rule links_transfer [OF inv(3), where f = id])
      fix r k assume k: "k \<in> set (leaves s)" "covers_link k r"
      let ?k = "if l_id k = lid \<and> l_status k = LPending then ?f k else k"
      have "?k \<in> set (leaves s')" using k s' s1 by (auto simp: same_leaves_def update_where_def)
      moreover have "covers_link ?k r" using k(2) True by (auto simp: covers_link_def leave_stands_def review_status_def)
      ultimately show "\<exists>l' \<in> set (leaves s'). covers_link l' (id r)" by auto
    qed (use s' s1 in \<open>simp_all add: links_kept_def\<close>)
    ultimately show ?thesis by (simp add: school_inv_def)
  next
    case False
    then obtain n where cancelled: "cancel_for_leave c lid None ?t = (n, s1)" using what by (auto simp: svc_simps)
    let ?u = "cancel_for_leave c lid None s"
    have "subs_inv ?t" by (rule inv_cong [OF inv(1)]) simp_all
    then have "subs_inv s1" using cancel_subs_inv [of ?t c lid None] cancelled by simp
    then have "subs_inv s'" by (rule inv_cong) (use s' in simp_all)
    moreover have ls: "leaves s' = update_where (\<lambda>l. l_id l = lid) ?f (leaves s)" "next_leave s' = next_leave s"
      using s'(3) cancel_subs_rows(2,3) [OF cancelled] one by (simp_all add: same_leaves_def)
    then have "leaves_wf s'"
      by (intro wf_update_leaves [OF inv(2) _ _ _ ls]) (use False in \<open>simp_all add: review_status_def\<close>)
    moreover have "leave_links_ok s'"
    proof (rule set_leave_links [OF inv(3) _ lin(1), of c None "fst ?u" "snd ?u" _ ?f])
      show "sub_requests s' = sub_requests (snd ?u)"
        using s'(1) cancelled cancel_after_set [of ?t s c lid None] by simp
    qed (use inv(2) lin ls in \<open>simp_all add: leaves_wf_def\<close>)
    ultimately show ?thesis by (simp add: school_inv_def)
  qed
qed

text \<open>Everything that may happen to leaves and requests, and its runs.\<close>

inductive school_step :: "ctx \<Rightarrow> db \<Rightarrow> db \<Rightarrow> bool" where
  request: "request_op c s s' \<Longrightarrow> school_step c s s'"
| apply_leave: "subs_fk s \<Longrightarrow> user_by_id (cu_id actor) s \<noteq> None \<Longrightarrow> request_leave c actor b s = (r, s') \<Longrightarrow> school_step c s s'"
| edit_leave: "subs_fk s \<Longrightarrow> user_by_id (cu_id actor) s \<noteq> None \<Longrightarrow> update_leave c actor lid b s = (r', s') \<Longrightarrow> school_step c s s'"
| drop: "delete_leave c actor lid s = (r'', s') \<Longrightarrow> school_step c s s'"
| review: "review_leave c actor lid ok nt s = (r, s') \<Longrightarrow> school_step c s s'"

inductive school_run :: "db \<Rightarrow> db \<Rightarrow> bool" where
  start: "school_run s s"
| step: "school_run s t \<Longrightarrow> school_step c t u \<Longrightarrow> school_run s u"

lemma request_op_inv:
  assumes "request_op c s s'" and "school_inv s"
  shows "school_inv s'"
  using assms sub_step_inv [OF request_op_step [OF assms(1)]] request_op_links [OF assms(1)]
    request_op_leaves [OF assms(1)]
  by (auto simp: school_inv_def same_leaves_def intro: wf_cong)

lemma school_step_inv: "school_step c s s' \<Longrightarrow> school_inv s \<Longrightarrow> school_inv s'"
  by (erule school_step.cases)
    (auto intro: request_op_inv request_leave_inv update_leave_inv delete_leave_inv review_leave_inv)

lemma school_run_inv: "school_run s s' \<Longrightarrow> school_inv s \<Longrightarrow> school_inv s'"
  by (induction rule: school_run.induct) (auto intro: school_step_inv)

end
