(* ===== verification/Hr_Claims.thy ===== *)
theory Hr_Claims
  imports Hr_Props Sub_Claims
begin

text \<open>
  The properties of the staff service: leaves and the substitutions asked for with them, who may
  withdraw a leave and when, and the daily check-in.
\<close>

lemma demo_school_inv_all: "school_inv demo_school"
  by (simp add: school_inv_def demo_school_inv leaves_wf_def lvs.keys_unique_def pairwise_ok_def leave_links_ok_def)

definition demo_leave_body :: leave_body where
  "demo_leave_body = \<lparr>lb_from = 739749, lb_to = 739750, lb_reason = ''fever'', lb_items = [(739749, 3, 3)]\<rparr>"

definition demo_leave_row :: leave_row where
  "demo_leave_row = new_leave_row (demo 0) 1 1 2 demo_leave_body"

definition demo_on_leave :: db where
  "demo_on_leave = demo_school\<lparr>leaves := [demo_leave_row], next_leave := 2\<rparr>"

lemma demo_on_leave_fields [simp]:
  "bound_org demo_on_leave = Some 1" "users demo_on_leave = users demo_db" "sub_requests demo_on_leave = []"
  "next_sub demo_on_leave = 1" "slots demo_on_leave = [demo_slot]" "leaves demo_on_leave = [demo_leave_row]"
  "holidays demo_on_leave = []" "timings demo_on_leave = []" "orgs demo_on_leave = [demo_org]"
  "classes demo_on_leave = classes demo_school" "sections demo_on_leave = sections demo_school"
  by (simp_all add: demo_on_leave_def)

lemma demo_leave_fields [simp]:
  "l_id demo_leave_row = 1" "l_org demo_leave_row = 1" "l_user demo_leave_row = 2" "l_from demo_leave_row = 739749"
  "l_to demo_leave_row = 739750" "l_status demo_leave_row = LPending"
  by (simp_all add: demo_leave_row_def new_leave_row_def demo_leave_body_def)

lemma demo_on_leave_inv: "school_inv demo_on_leave"
  by (simp add: school_inv_def subs_inv_def keys_ok_def settled_def subs.keys_unique_def leaves_wf_def
      lvs.keys_unique_def pairwise_ok_def leave_links_ok_def demo_on_leave_def)

lemma demo_leave_checks:
  "create_checks (demo 0) 2 ''asha'' 739749 3 3 (Some 1) True demo_on_leave
    = Inr (1, (demo_slot, ''Class 5'', ''B''), demo_user 3 ''ravi'' Teacher)"
  by (simp add: create_checks_def check_day_def demo_today holiday_name_def org_of_def one_where_def weekday_def
      SUNDAY_def slot_of_def demo_slot_def class_name_of_def section_name_of_def first_row_def List.map_filter_def
      busy_reason_def has_class_def is_covering_def is_on_leave_def covered_by_def check_leave_def)

lemma demo_teacher_fields [simp]:
  "cu_id demo_teacher = 2" "cu_full_name demo_teacher = ''asha''" "cu_type demo_teacher = Teacher"
  by (simp_all add: demo_teacher_def current_user_of_def)

lemma demo_leave_body_fields [simp]:
  "lb_from demo_leave_body = 739749" "lb_to demo_leave_body = 739750" "lb_items demo_leave_body = [(739749, 3, 3)]"
  by (simp_all add: demo_leave_body_def)

lemma demo_request_leave:
  "\<exists>s'. request_leave (demo 0) demo_teacher demo_leave_body demo_school = (Inr 1, s') \<and> leaves s' = [demo_leave_row]
     \<and> sub_requests s' = [(new_sub_row (demo 0) 1 2 739749 3 demo_slot (demo_user 3 ''ravi'' Teacher) (Some 1) None)\<lparr>r_id := 1\<rparr>]"
proof -
  have s: "demo_school\<lparr>leaves := [demo_leave_row], next_leave := 2\<rparr> = demo_on_leave"
    by (simp add: demo_on_leave_def)
  obtain d where d: "route ''leave'' False = Inr d"
    by (cases "route ''leave'' False") (auto simp: route_def STAFF_ROUTES_def)
  have n: "next_leave demo_school = 1" by (simp add: demo_school_def demo_db_def empty_db_def)
  show ?thesis
    unfolding request_leave_def
    by (simp add: handler_defs transaction_def org_of_def n s demo_leave_row_def [symmetric] create_def demo_leave_checks
      insert_sub_def sub_conflict_def Let_def period_times_def get_timings_def load_timings_def one_where_def
      link_standalone_def notify_managers_def manager_ids_def leave_route_def d update_where_def)
      (simp add: new_sub_row_def)
qed

text \<open>C31: Over any run of the operations on leaves and substitution requests, an open request that
  belongs to a leave has the leave's applicant as its requester, a date inside the leave, and a leave
  that still stands (pending or approved); and nobody has two pending leaves.\<close>

theorem leave_cover_invariant:
  assumes "school_run s s'" and "school_inv s"
  shows "(\<forall>r \<in> set (sub_requests s'). \<forall>i. is_open (r_status r) \<and> r_leave r = Some i \<longrightarrow>
      (\<exists>l \<in> set (leaves s'). l_id l = i \<and> l_user l = r_requester r \<and> l_status l \<in> {LPending, LApproved}
         \<and> l_from l \<le> r_date r \<and> r_date r \<le> l_to l))
    \<and> (\<forall>a \<in> set (leaves s'). \<forall>b \<in> set (leaves s').
         l_status a = LPending \<and> l_status b = LPending \<and> l_user a = l_user b \<longrightarrow> a = b)"
proof (intro conjI ballI allI impI)
  have inv: "school_inv s'" by (rule school_run_inv [OF assms])
  fix r i assume "r \<in> set (sub_requests s')" and o: "is_open (r_status r) \<and> r_leave r = Some i"
  then obtain l where "l \<in> set (leaves s')" "covers_link l r"
    using inv by (auto simp: school_inv_def leave_links_ok_def link_ok_def)
  with o show "\<exists>l \<in> set (leaves s'). l_id l = i \<and> l_user l = r_requester r \<and> l_status l \<in> {LPending, LApproved}
         \<and> l_from l \<le> r_date r \<and> r_date r \<le> l_to l"
    by (intro bexI [of _ l]) (simp_all add: covers_link_def leave_stands_def)
next
  have "pairwise_ok (\<lambda>l. l_status l = LPending) (\<lambda>a b. l_user a = l_user b) (leaves s')"
    using school_run_inv [OF assms] by (simp add: school_inv_def leaves_wf_def)
  then show "a = b" if "a \<in> set (leaves s')" "b \<in> set (leaves s')"
    "l_status a = LPending \<and> l_status b = LPending \<and> l_user a = l_user b" for a b
    using that unfolding pairwise_ok_def by blast
qed

theorem leave_cover_invariant_witness:
  "\<exists>s'. school_run demo_school s' \<and> leaves s' = [demo_leave_row] \<and> (\<exists>r \<in> set (sub_requests s').
     is_open (r_status r) \<and> r_leave r = Some 1 \<and> l_from demo_leave_row \<le> r_date r \<and> r_date r \<le> l_to demo_leave_row)"
proof -
  obtain s' where run: "request_leave (demo 0) demo_teacher demo_leave_body demo_school = (Inr 1, s')"
    and ls: "leaves s' = [demo_leave_row]"
    and rows: "sub_requests s' = [(new_sub_row (demo 0) 1 2 739749 3 demo_slot (demo_user 3 ''ravi'' Teacher) (Some 1) None)\<lparr>r_id := 1\<rparr>]"
    using demo_request_leave by blast
  have "school_step (demo 0) demo_school s'"
    by (rule school_step.apply_leave [OF demo_school_fk _ run]) (simp add: user_by_id_def one_where_def)
  then have st: "school_run demo_school s'" by (rule school_run.step [OF school_run.start])
  from leave_cover_invariant [OF st demo_school_inv_all] st ls rows show ?thesis
    by (auto simp: new_sub_row_def is_open_def)
qed

subsection \<open>Reviewing and withdrawing\<close>

definition no_open_cover :: "int \<Rightarrow> db \<Rightarrow> bool" where
  "no_open_cover i s = list_all (\<lambda>r. r_leave r = Some i \<longrightarrow> \<not> is_open (r_status r)) (sub_requests s)"

lemma cancel_no_open:
  assumes "cancel_for_leave c i None s = (n, s')"
  shows "no_open_cover i s'"
proof -
  obtain f where f: "sub_requests s' = map f (sub_requests s)" "\<forall>r. links_kept r (f r)"
    and "\<forall>r \<in> set (sub_requests s). is_open (r_status (f r)) \<longrightarrow> r_leave r = Some i \<longrightarrow> False"
    using cancel_subs_rows(1) [OF assms] by auto
  then show ?thesis by (auto simp: no_open_cover_def list_all_iff links_kept_def)
qed

lemma no_open_cong: "sub_requests s' = sub_requests s \<Longrightarrow> no_open_cover i s' = no_open_cover i s"
  by (simp add: no_open_cover_def)


text \<open>A leave is decided once: a review finds it pending, writes the decision and its author on it,
  closes every open substitution request of a rejected leave, and a second review is refused.\<close>

lemma leave_decided_once:
  assumes "review_leave c actor lid approve nt s = (Inr i, s')" and "school_inv s"
  shows "\<exists>l \<in> set (leaves s). l_id l = lid \<and> l_status l = LPending
    \<and> leaves s' = update_where (\<lambda>x. l_id x = lid) (\<lambda>l. l\<lparr>l_status := (if approve then LApproved else LRejected),
         l_reviewed_by := Some (cu_id actor), l_reviewed_at := Some (mysql_now c), l_review_note := nt\<rparr>) (leaves s)
    \<and> (\<not> approve \<longrightarrow> no_open_cover lid s')
    \<and> (\<forall>c2 actor2 approve2 nt2. \<exists>e. review_leave c2 actor2 lid approve2 nt2 s' = (Inl (Conflict e), s'))"
proof -
  let ?f = "\<lambda>l. l\<lparr>l_status := (if approve then LApproved else LRejected),
         l_reviewed_by := Some (cu_id actor), l_reviewed_at := Some (mysql_now c), l_review_note := nt\<rparr>"
  let ?t = "s\<lparr>leaves := update_where (\<lambda>l. l_id l = lid \<and> l_status l = LPending) ?f (leaves s)\<rparr>"
  from assms(1) obtain g l s1 where g: "org_of s = Inr g"
    and l: "one_where (\<lambda>l. l_id l = lid \<and> l_org l = g) (leaves s) = Some l"
    and st: "l_status l = LPending"
    and what: "(if approve then ret () else cancel_subs c lid None) ?t = (Inr (), s1)"
    and s': "sub_requests s' = sub_requests s1" "same_leaves s1 s'" "bound_org s' = bound_org s1"
    by (auto simp: review_leave_def transaction_Inr svc_simps same_leaves_def review_status_def audit_record_def)
  have lin: "l \<in> set (leaves s)" "l_id l = lid" "l_org l = g" using one_where_Some [OF l] by simp_all
  have uniq: "\<And>x. x \<in> set (leaves s) \<Longrightarrow> l_id x = lid \<Longrightarrow> x = l"
    using lvs.unique_row [of s _ l] assms(2) lin by (auto simp: school_inv_def leaves_wf_def)
  have "leaves s1 = leaves ?t" "bound_org s1 = bound_org s"
    using what cancel_subs_rows(2,5) [of c lid None ?t _ s1] by (auto simp: svc_simps split: if_splits)
  then have ls: "leaves s' = update_where (\<lambda>x. l_id x = lid) ?f (leaves s)" and org: "bound_org s' = bound_org s"
    using s' uniq st by (auto simp: same_leaves_def update_where_def)
  moreover have "\<not> approve \<longrightarrow> no_open_cover lid s'"
    using what cancel_no_open [of c lid ?t _ s1] no_open_cong [OF s'(1), of lid] by (auto simp: svc_simps)
  moreover have "\<exists>e. review_leave c2 actor2 lid ok2 nt2 s' = (Inl (Conflict e), s')" for c2 actor2 ok2 nt2
  proof -
    have "one_where (\<lambda>l. l_id l = lid \<and> l_org l = g) (leaves s')
        = map_option (\<lambda>x. if l_id x = lid then ?f x else x) (one_where (\<lambda>l. l_id l = lid \<and> l_org l = g) (leaves s))"
      unfolding ls by (rule one_where_update_where) simp
    then have "one_where (\<lambda>l. l_id l = lid \<and> l_org l = g) (leaves s') = Some (?f l)"
      using l lin by simp
    then show ?thesis
      using g org by (simp add: review_leave_def transaction_def handler_defs org_of_def split: option.splits)
  qed
  ultimately show ?thesis using lin st by blast
qed

definition demo_head :: current_user where
  "demo_head = current_user_of (demo_user 1 ''head'' Principal) demo_org ''s0''"

lemma demo_head_fields [simp]: "cu_id demo_head = 1" "cu_full_name demo_head = ''head''" "cu_type demo_head = Principal"
  by (simp_all add: demo_head_def current_user_of_def)

theorem leave_decided_once_witness:
  "\<exists>s'. review_leave (demo 0) demo_head 1 False (Some ''no'') demo_on_leave = (Inr 1, s')
    \<and> map l_status (leaves s') = [LRejected] \<and> no_open_cover 1 s'"
proof -
  obtain d where d: "route ''leave'' False = Inr d"
    by (cases "route ''leave'' False") (auto simp: route_def STAFF_ROUTES_def)
  have "\<exists>s'. review_leave (demo 0) demo_head 1 False (Some ''no'') demo_on_leave = (Inr 1, s')"
    by (simp add: review_leave_def transaction_def handler_defs org_of_def one_where_def cancel_subs_def
        cancel_for_leave_def leave_route_def d)
  then obtain s' where run: "review_leave (demo 0) demo_head 1 False (Some ''no'') demo_on_leave = (Inr 1, s')" by blast
  from leave_decided_once [OF this demo_on_leave_inv] run show ?thesis by (auto simp: update_where_def)
qed

text \<open>A leave is withdrawn only while it may be: a pending one by its applicant, any that still stands
  before its first day by its applicant or a manager; its open substitution requests are closed, a pending
  leave goes and an approved one stays as cancelled.\<close>

lemma leave_withdrawal:
  assumes "delete_leave c actor lid s = (Inr (), s')" and "school_inv s"
  shows "\<exists>l. leave_by_id lid s = Some l \<and> no_open_cover lid s'
    \<and> (l_user l = cu_id actor \<or> is_manager (cu_type actor))
    \<and> (if l_status l = LPending then l_user l = cu_id actor \<or> school_today c < l_from l
       else l_status l = LApproved \<and> school_today c < l_from l)
    \<and> leave_by_id lid s' = (if l_status l = LPending then None else Some (l\<lparr>l_status := LCancelled\<rparr>))"
proof -
  from assms(1) obtain l n s1 s2 where l: "leave_by_id lid s = Some l"
    and st: "l_status l = LPending \<or> l_status l = LApproved"
    and may: "l_user l = cu_id actor \<and> (l_status l = LPending \<or> school_today c < l_from l)
         \<or> is_manager (cu_type actor) \<and> school_today c < l_from l"
    and cancelled: "cancel_for_leave c lid None s = (n, s1)"
    and what: "(if l_status l = LPending then writes (drop_leave lid)
       else bindH (writes (set_leave lid (\<lambda>l. l\<lparr>l_status := LCancelled\<rparr>))) (\<lambda>_.
         bindH (reads (user_by_id (l_user l))) (\<lambda>u.
         notify_managers c actor ((case u of None \<Rightarrow> ''None'' | Some u \<Rightarrow> u_full_name u) @ quote_char # ''s approved leave ''
           @ leave_dates (l_from l) (l_to l) @ '' was cancelled'') None))) s1 = (Inr (), s2)"
    and s': "sub_requests s' = sub_requests s2" "leaves s' = leaves s2"
    by (auto simp: delete_leave_def transaction_Inr svc_simps)
  have lin: "l \<in> set (leaves s)" "l_id l = lid" using leave_by_id_Some [OF l] by simp_all
  note closed = cancel_no_open [OF cancelled]
  note fr = cancel_subs_rows(2) [OF cancelled]
  show ?thesis
  proof (cases "l_status l = LPending")
    case True
    then have s2: "s2 = drop_leave lid s1" using what by (simp add: svc_simps)
    have "no_open_cover lid s'" using closed s'(1) s2 by (auto simp: no_open_cover_def list_all_iff set_update_where)
    moreover have "leave_by_id lid s' = None" using s'(2) s2 by (auto simp: leave_by_id_def one_where_None delete_where_def)
    ultimately show ?thesis using l may True by auto
  next
    case False
    then obtain t b where "notify_managers c actor t b (set_leave lid (\<lambda>l. l\<lparr>l_status := LCancelled\<rparr>) s1) = (Inr (), s2)"
      using what by (auto simp: svc_simps)
    note nt = notify_managers_frame [OF this]
    have "no_open_cover lid s'" using closed s'(1) nt no_open_cong [of s' s1 lid] by simp
    moreover have "leave_by_id lid s' = Some (l\<lparr>l_status := LCancelled\<rparr>)"
      using s'(2) nt fr l lvs.lookup_rewrite [of "\<lambda>l. l\<lparr>l_status := LCancelled\<rparr>" lid "\<lambda>x. l_id x = lid" s] lin
      by (simp add: same_leaves_def leave_by_id_def lvs.lookup_def lvs.rewrite_def)
    ultimately show ?thesis using l may st False by auto
  qed
qed


lemma leave_withdrawal_witness:
  "\<exists>s'. delete_leave (demo 0) demo_teacher 1 demo_on_leave = (Inr (), s') \<and> leave_by_id 1 s' = None"
proof -
  have "\<exists>s'. delete_leave (demo 0) demo_teacher 1 demo_on_leave = (Inr (), s')"
    by (simp add: delete_leave_def transaction_def handler_defs org_of_def one_where_def cancel_subs_def user_by_id_def
        cancel_for_leave_def visible_leave_def leave_select_def leave_by_id_def List.map_filter_def first_row_def)
  then obtain s' where run: "delete_leave (demo 0) demo_teacher 1 demo_on_leave = (Inr (), s')" by blast
  have "leave_by_id 1 demo_on_leave = Some demo_leave_row" by (simp add: leave_by_id_def one_where_def)
  with leave_withdrawal [OF run demo_on_leave_inv] run show ?thesis by auto
qed

subsection \<open>Checking in and out\<close>

lemma staff_day_after_set:
  "staff_day u d s = Some r \<Longrightarrow> sd_id r = i \<Longrightarrow> (\<And>x. sd_user (f x) = sd_user x) \<Longrightarrow> (\<And>x. sd_date (f x) = sd_date x)
    \<Longrightarrow> staff_day u d (set_staff_day i f s) = Some (f r)"
  by (simp add: staff_day_def set_staff_day_def one_where_update_where)

lemma staff_day_appended:
  "staff_day u d s = None \<Longrightarrow> sd_user r = u \<Longrightarrow> sd_date r = d \<Longrightarrow> one_where (\<lambda>r. sd_user r = u \<and> sd_date r = d) (staff_days s @ [r]) = Some r"
  by (simp add: staff_day_def one_where_append)

lemma check_in_row:
  assumes "check_in c a s = (Inr t, s1)"
  shows "\<exists>r. staff_day (cu_id a) (school_today c) s1 = Some r \<and> sd_in r = Some (now_time c)"
proof (cases "staff_day (cu_id a) (school_today c) s")
  case None
  then obtain g where s1: "s1 = s\<lparr>staff_days := staff_days s @ [\<lparr>sd_id = next_staff_day s,
          sd_org = g, sd_user = cu_id a, sd_date = school_today c, sd_in = Some (now_time c), sd_out = None\<rparr>],
          next_staff_day := next_staff_day s + 1\<rparr>"
    using assms by (auto simp: check_in_def svc_simps)
  show ?thesis
    using staff_day_appended [OF None] by (simp add: s1 staff_day_def)
next
  case (Some r)
  then have "s1 = set_staff_day (sd_id r) (\<lambda>r. r\<lparr>sd_in := Some (now_time c)\<rparr>) s"
    using assms by (auto simp: check_in_def svc_simps)
  with staff_day_after_set [OF Some refl] show ?thesis by simp
qed

text \<open>A check-out after a check-in of the same day is refused exactly when the check-in was in the
  first second of the day: its time is then the empty time delta, which the code takes for no check-in;
  and only then is a second check-in of the day accepted.\<close>

lemma midnight_check_in:
  assumes "check_in c a s = (Inr t, s1)" and "school_today c2 = school_today c"
  shows "((fst (check_out c2 a s1) = Inl (BadRequest ''Check in first'')) = (now_time c = 0))
    \<and> ((fst (check_in c2 a s1) = Inl (Conflict ''Already checked in today'')) = (now_time c \<noteq> 0))"
proof -
  obtain r where r: "staff_day (cu_id a) (school_today c) s1 = Some r" "sd_in r = Some (now_time c)"
    using check_in_row [OF assms(1)] by blast
  then show ?thesis
    using assms(2) by (auto simp: check_out_def check_in_def transaction_def handler_defs checked_in_def)
qed

theorem midnight_check_in_witness:
  "\<exists>t s1. check_in (demo 0) demo_teacher demo_school = (Inr t, s1) \<and> now_time (demo 0) \<noteq> 0
     \<and> fst (check_in (demo 60) demo_teacher s1) = Inl (Conflict ''Already checked in today'')"
proof -
  have n: "now_time (demo 0) \<noteq> 0" by (simp add: now_time_def demo_def demo_time_def us_defs)
  have t: "school_today (demo 60) = school_today (demo 0)" by (simp add: school_today_def date_of_def demo_def demo_time_def us_defs)
  have "\<exists>t s1. check_in (demo 0) demo_teacher demo_school = (Inr t, s1)"
    by (simp add: check_in_def transaction_def handler_defs staff_day_def org_of_def one_where_def demo_school_def demo_db_def empty_db_def)
  then obtain t s1 where run: "check_in (demo 0) demo_teacher demo_school = (Inr t, s1)" by blast
  from midnight_check_in [OF run t] n run show ?thesis by auto
qed

end
