(* ===== verification/Fees.thy ===== *)
theory Fees
  imports Complex_Main Notify Access Handlers
begin

text \<open>
  Fees, the parents' payment claims and the payment history, \<^verbatim>\<open>app/services/fees.py\<close> and
  \<^verbatim>\<open>app/services/payments.py\<close>. Amounts are whole paise, as the DECIMAL columns hold them. The
  bodies carry a number, which the insert rounds; the texts and the audit rows round it their own way.
  The reference a payment gets is drawn by \<open>secrets\<close>: it is an argument, and the UNIQUE key of its column
  is a branch. Every operation locks the rows it changes, so it runs as one step.
\<close>

subsection \<open>Effective status\<close>

text \<open>A pending fee past its due date shows as overdue; nothing stores it.\<close>

definition effective_status :: "ctx \<Rightarrow> fee_row \<Rightarrow> string" where
  "effective_status c f = (case f_status f of
     FeePaid \<Rightarrow> ''paid''
   | FeePending \<Rightarrow> (case f_due f of None \<Rightarrow> ''pending''
       | Some d \<Rightarrow> if d < school_today c then ''overdue'' else ''pending''))"

definition amount_where :: "(fee_row \<Rightarrow> bool) \<Rightarrow> fee_row list \<Rightarrow> int" where
  "amount_where P fs = sum_list (map f_amount (filter P fs))"

record fee_stats =
  fs_collected :: int
  fs_pending :: int
  fs_overdue :: int
  fs_total :: int

text \<open>\<open>stats\<close>; the collection rate is the rounded quotient of two of its fields.\<close>

definition fee_stats_of :: "ctx \<Rightarrow> db \<Rightarrow> fee_stats res" where
  "fee_stats_of c s = bindR (org_of s) (\<lambda>g. let fs = filter (\<lambda>f. f_org f = g) (fees s) in Inr
     \<lparr>fs_collected = amount_where (\<lambda>f. f_status f = FeePaid) fs,
      fs_pending = amount_where (\<lambda>f. effective_status c f = ''pending'') fs,
      fs_overdue = amount_where (\<lambda>f. effective_status c f = ''overdue'') fs,
      fs_total = amount_where (\<lambda>f. True) fs\<rparr>)"

text \<open>The columns the LEFT JOINs to the profile, class and section give a student.\<close>

record student_card =
  sc_roll :: "string option"
  sc_class :: "string option"
  sc_section :: "string option"

definition student_card_of :: "int \<Rightarrow> db \<Rightarrow> student_card" where
  "student_card_of uid s = (case one_where (\<lambda>p. sp_user p = uid) (student_profiles s) of
     None \<Rightarrow> \<lparr>sc_roll = None, sc_class = None, sc_section = None\<rparr>
   | Some p \<Rightarrow> \<lparr>sc_roll = sp_roll p,
       sc_class = (case sp_class p of None \<Rightarrow> None
          | Some i \<Rightarrow> map_option cl_name (one_where (\<lambda>c. cl_id c = i) (classes s))),
       sc_section = (case sp_section p of None \<Rightarrow> None
          | Some i \<Rightarrow> map_option se_name (one_where (\<lambda>x. se_id x = i) (sections s)))\<rparr>)"

record debtor_view =
  dv_student :: int
  dv_name :: string
  dv_card :: student_card
  dv_total :: int
  dv_overdue :: int
  dv_count :: nat

definition pending_students :: "ctx \<Rightarrow> page option \<Rightarrow> db \<Rightarrow> (debtor_view page_result) res" where
  "pending_students c page s = bindR (org_of s) (\<lambda>g.
     let due = filter (\<lambda>f. f_org f = g \<and> f_status f = FeePending) (fees s);
         owed = (\<lambda>u. filter (\<lambda>f. f_student f = u_id u) due)
     in Inr (fetch (\<lambda>v. (- dv_overdue v, - dv_total v, dv_student v))
          (map (\<lambda>u. \<lparr>dv_student = u_id u, dv_name = u_full_name u, dv_card = student_card_of (u_id u) s,
              dv_total = amount_where (\<lambda>f. True) (owed u),
              dv_overdue = amount_where (\<lambda>f. effective_status c f = ''overdue'') (owed u),
              dv_count = length (owed u)\<rparr>)
            (filter (\<lambda>u. owed u \<noteq> []) (users s))) page None))"

record fee_view =
  fv_row :: fee_row
  fv_status :: string
  fv_name :: string
  fv_card :: student_card

definition list_fees :: "ctx \<Rightarrow> string option \<Rightarrow> int option \<Rightarrow> page option \<Rightarrow> db \<Rightarrow> (fee_view page_result) res" where
  "list_fees c status student page s = bindR (org_of s) (\<lambda>g.
     Inr (fetch (\<lambda>v. (- f_created_at (fv_row v), - f_id (fv_row v)))
       (List.map_filter (\<lambda>f. map_option (\<lambda>u. \<lparr>fv_row = f, fv_status = effective_status c f, fv_name = u_full_name u,
            fv_card = student_card_of (f_student f) s\<rparr>) (one_where (\<lambda>u. u_id u = f_student f) (users s)))
         (filter (\<lambda>f. f_org f = g \<and> (case student of None \<Rightarrow> True | Some i \<Rightarrow> f_student f = i)
            \<and> (opt_is_blank status \<or> effective_status c f = the status)) (fees s))) page None))"

subsection \<open>New fees\<close>

definition fee_route :: "db \<Rightarrow> notice_data res" where
  "fee_route s = route ''fee'' True"

text \<open>
  MySQL rounds a number half up when it stores it, \<open>Decimal.quantize\<close> half to even when \<open>inr\<close> shows
  it. The check \<open>gt=0\<close> is on the number before: 0.001 passes and is stored as 0.00.
\<close>

definition to_paise :: "rat \<Rightarrow> int" where
  "to_paise x = \<lfloor>x * 100 + 1/2\<rfloor>"

definition shown_paise :: "rat \<Rightarrow> int" where
  "shown_paise x = (let d = x * 100; n = \<lfloor>d\<rfloor>; r = d - of_int n in
     if r < 1/2 then n else if 1/2 < r then n + 1 else if even n then n else n + 1)"

definition notify_new_fee :: "ctx \<Rightarrow> int list \<Rightarrow> string \<Rightarrow> int \<Rightarrow> date option \<Rightarrow> unit handler" where
  "notify_new_fee c students title amount due = bindH (query fee_route) (\<lambda>d.
     writes (notify c students ''fee'' (''New fee: '' @ title @ '' '' @ EM_DASH @ '' '' @ inr amount
       @ (case due of None \<Rightarrow> '''' | Some day \<Rightarrow> '' due '' @ day_month day)) None (Some d)))"

definition new_fee_row :: "ctx \<Rightarrow> int \<Rightarrow> int \<Rightarrow> string \<Rightarrow> int \<Rightarrow> date option \<Rightarrow> int \<Rightarrow> fee_row" where
  "new_fee_row c g student title amount due i = \<lparr>f_id = i, f_org = g, f_student = student, f_title = title,
     f_amount = amount, f_due = due, f_status = FeePending, f_paid_date = None, f_method = None,
     f_created_at = mysql_now c\<rparr>"

definition insert_fee :: "ctx \<Rightarrow> int \<Rightarrow> int \<Rightarrow> string \<Rightarrow> int \<Rightarrow> date option \<Rightarrow> db \<Rightarrow> db" where
  "insert_fee c g student title amount due s = s\<lparr>fees := fees s @ [new_fee_row c g student title amount due (next_fee s)],
     next_fee := next_fee s + 1\<rparr>"

text \<open>The bodies, as \<open>FeeCreate\<close> and \<open>FeeGenerate\<close> check them.\<close>

record fee_body =
  fb_student :: int
  fb_title :: string
  fb_amount :: rat
  fb_due :: "date option"

definition parse_fee :: "fee_body \<Rightarrow> fee_body res" where
  "parse_fee b = (if fb_title b = [] \<or> 100 < length (fb_title b) \<or> fb_amount b \<le> 0
     then Inl (Unprocessable ''Invalid request'') else Inr b)"

definition create_fee :: "ctx \<Rightarrow> current_user \<Rightarrow> fee_body \<Rightarrow> int handler" where
  "create_fee c actor b = transaction (
     bindH (query org_of) (\<lambda>g.
     bindH (found (\<lambda>s. one_where (\<lambda>u. u_id u = fb_student b \<and> u_org u = g \<and> u_type u = Student) (users s))
       (NotFound ''Student not found'')) (\<lambda>_.
     bindH (reads next_fee) (\<lambda>i.
     bindH (writes (insert_fee c g (fb_student b) (fb_title b) (to_paise (fb_amount b)) (fb_due b))) (\<lambda>_.
     bindH (writes (audit_record c (Some (cu_id actor)) ''fee.create'' (Some ''fee'') (Some (py_str_int i))
       [(''student_id'', py_str_int (fb_student b)), (''title'', fb_title b), (''amount'', py_str_int (shown_paise (fb_amount b)))])) (\<lambda>_.
     bindH (notify_new_fee c [fb_student b] (fb_title b) (shown_paise (fb_amount b)) (fb_due b)) (\<lambda>_. ret i)))))))"

record generate_body =
  gb_class :: int
  gb_title :: string
  gb_due :: "date option"

text \<open>The active students of a class, and those of them without a fee of the title yet.\<close>

definition class_students :: "int \<Rightarrow> db \<Rightarrow> int list" where
  "class_students cid s = map sp_user (filter (\<lambda>p. sp_class p = Some cid
     \<and> list_ex (\<lambda>u. u_id u = sp_user p \<and> u_active u) (users s)) (student_profiles s))"

definition without_fee :: "ctx \<Rightarrow> int \<Rightarrow> string \<Rightarrow> db \<Rightarrow> int list" where
  "without_fee c cid title s = filter (\<lambda>i. \<not> list_ex (\<lambda>f. f_student f = i \<and> sql_eq c (f_title f) title) (fees s))
     (class_students cid s)"

definition generate_class_fees :: "ctx \<Rightarrow> current_user \<Rightarrow> generate_body \<Rightarrow> (nat \<times> nat) handler" where
  "generate_class_fees c actor b = transaction (
     bindH (query org_of) (\<lambda>g.
     bindH (found (\<lambda>s. one_where (\<lambda>x. cl_id x = gb_class b \<and> cl_org x = g) (classes s)) (NotFound ''Class not found'')) (\<lambda>cls.
     bindH (check (cl_fee cls \<noteq> None \<and> cl_fee cls \<noteq> Some 0)
       (BadRequest (''This class has no fee amount set '' @ EM_DASH @ '' edit the class first''))) (\<lambda>_.
     bindH (reads (length \<circ> class_students (gb_class b))) (\<lambda>students.
     bindH (reads (without_fee c (gb_class b) (gb_title b))) (\<lambda>new_for.
     bindH (writes (fold (\<lambda>i. insert_fee c g i (gb_title b) (the (cl_fee cls)) (gb_due b)) (sort new_for))) (\<lambda>_.
     bindH (if new_for = [] then ret ()
       else bindH (writes (audit_record c (Some (cu_id actor)) ''fee.generate'' (Some ''class'')
              (Some (py_str_int (gb_class b))) [(''title'', gb_title b), (''created'', py_str_int (int (length new_for)))]))
            (\<lambda>_. notify_new_fee c new_for (gb_title b) (the (cl_fee cls)) (gb_due b))) (\<lambda>_.
     ret (length new_for, students)))))))))"

subsection \<open>Paying\<close>

definition notify_paid :: "ctx \<Rightarrow> fee_row \<Rightarrow> unit handler" where
  "notify_paid c f = bindH (query fee_route) (\<lambda>d.
     writes (notify c [f_student f] ''fee'' (''Payment received: '' @ f_title f @ '' '' @ inr (f_amount f)) None (Some d)))"

text \<open>The insert into \<open>transactions\<close>, whose UNIQUE reference may be taken.\<close>

definition insert_payment :: "ctx \<Rightarrow> (int \<Rightarrow> payment_row) \<Rightarrow> int handler" where
  "insert_payment c row s = (let p = row (next_payment s) in
     if list_ex (\<lambda>x. sql_eq c (py_reference x) (py_reference p)) (payments s)
     then (Inl (DuplicateKey (Some ''reference'')), s)
     else (Inr (next_payment s), s\<lparr>payments := payments s @ [p], next_payment := next_payment s + 1\<rparr>))"

definition fee_payment :: "ctx \<Rightarrow> fee_row \<Rightarrow> pay_method \<Rightarrow> string \<Rightarrow> int \<Rightarrow> payment_row" where
  "fee_payment c f m reference i = \<lparr>py_id = i, py_org = f_org f, py_reference = reference, py_student = Some (f_student f),
     py_fee = Some (f_id f), py_amount = f_amount f, py_method = m, py_status = PaySuccess, py_created_at = mysql_now c\<rparr>"

definition mark_paid :: "ctx \<Rightarrow> string \<Rightarrow> fee_row \<Rightarrow> pay_method \<Rightarrow> string option handler" where
  "mark_paid c reference f m =
     bindH (reads (list_ex (\<lambda>x. f_id x = f_id f \<and> f_status x = FeePending) \<circ> fees)) (\<lambda>changed.
     bindH (writes (\<lambda>s. s\<lparr>fees := update_where (\<lambda>x. f_id x = f_id f \<and> f_status x = FeePending)
         (\<lambda>x. x\<lparr>f_status := FeePaid, f_paid_date := Some (school_today c), f_method := Some m\<rparr>) (fees s)\<rparr>)) (\<lambda>_.
     if \<not> changed then ret None
     else bindH (insert_payment c (fee_payment c f m reference)) (\<lambda>_. ret (Some reference))))"

definition fee_in :: "int \<Rightarrow> int \<Rightarrow> db \<Rightarrow> fee_row option" where
  "fee_in g fid s = one_where (\<lambda>f. f_id f = fid \<and> f_org f = g) (fees s)"

definition pay_fee :: "ctx \<Rightarrow> string \<Rightarrow> current_user \<Rightarrow> int \<Rightarrow> pay_method \<Rightarrow> string handler" where
  "pay_fee c reference actor fid m = transaction (
     bindH (query org_of) (\<lambda>g.
     bindH (found (fee_in g fid) (NotFound ''Fee not found'')) (\<lambda>f.
     bindH (if f_status f \<noteq> FeePaid then mark_paid c reference f m else ret None) (\<lambda>paid.
     bindH (case paid of None \<Rightarrow> raise (Conflict ''Already paid'') | Some r \<Rightarrow> ret r) (\<lambda>r.
     bindH (writes (audit_record c (Some (cu_id actor)) ''fee.pay'' (Some ''fee'') (Some (py_str_int fid))
       [(''method'', pay_method_name m), (''amount'', py_str_int (f_amount f)), (''reference'', r)])) (\<lambda>_.
     bindH (notify_paid c f) (\<lambda>_. ret r)))))))"

text \<open>
  \<open>DELETE FROM fees\<close>: a claim left on the fee stops it (RESTRICT), payments keep their row and
  lose the link (SET NULL).
\<close>

definition drop_fee :: "int \<Rightarrow> unit handler" where
  "drop_fee fid s =
     (if list_ex (\<lambda>k. fc_fee k = fid) (fee_claims s) then (Inl (IntegrityError 1451), s)
      else (Inr (), s\<lparr>fees := delete_where (\<lambda>f. f_id f = fid) (fees s),
             payments := update_where (\<lambda>p. py_fee p = Some fid) (\<lambda>p. p\<lparr>py_fee := None\<rparr>) (payments s)\<rparr>))"

definition delete_fee :: "ctx \<Rightarrow> current_user \<Rightarrow> int \<Rightarrow> int handler" where
  "delete_fee c actor fid = transaction (
     bindH (query org_of) (\<lambda>g.
     bindH (found (fee_in g fid) (NotFound ''Fee not found'')) (\<lambda>f.
     bindH (check (f_status f \<noteq> FeePaid)
       (Conflict (''This fee has been paid, so it can'' @ quote_char # ''t be deleted: the payment record has to stay.''))) (\<lambda>_.
     bindH (reads (list_ex (\<lambda>k. fc_fee k = fid \<and> (fc_status k = ClaimPending \<or> fc_status k = ClaimApproved)) \<circ> fee_claims)) (\<lambda>claimed.
     bindH (check (\<not> claimed)
       (Conflict ''A parent has sent a payment proof for this fee. Approve or reject it before deleting the fee.'')) (\<lambda>_.
     bindH (writes (\<lambda>s. s\<lparr>fee_claims := delete_where (\<lambda>k. fc_fee k = fid \<and> fc_status k = ClaimRejected) (fee_claims s)\<rparr>)) (\<lambda>_.
     bindH (drop_fee fid) (\<lambda>_.
     bindH (writes (audit_record c (Some (cu_id actor)) ''fee.delete'' (Some ''fee'') (Some (py_str_int fid))
       [(''student_id'', py_str_int (f_student f)), (''title'', f_title f), (''amount'', py_str_int (f_amount f)),
        (''status'', ''pending'')])) (\<lambda>_. ret fid)))))))))"

subsection \<open>Claims: a payment proof sent by a parent\<close>

definition trimmed :: "nat \<Rightarrow> string option \<Rightarrow> string option" where
  "trimmed n t = or_none (take n (py_strip (str_or t '''')))"

definition new_claim_row :: "ctx \<Rightarrow> int \<Rightarrow> fee_row \<Rightarrow> int \<Rightarrow> pay_method \<Rightarrow> string option \<Rightarrow> string option
    \<Rightarrow> string \<times> string option \<Rightarrow> int \<Rightarrow> claim_row" where
  "new_claim_row c g f student m reference_no nt file i = \<lparr>fc_id = i, fc_org = g, fc_fee = f_id f, fc_student = student,
     fc_amount = Some (f_amount f), fc_method = m, fc_reference_no = trimmed 100 reference_no, fc_note = trimmed 255 nt,
     fc_screenshot = fst file, fc_screenshot_name = snd file, fc_status = ClaimPending, fc_reviewed_by = None,
     fc_reviewed_at = None, fc_review_note = None, fc_created_at = mysql_now c\<rparr>"

text \<open>\<open>stored\<close> is what \<open>storage.save_upload\<close> gives for the file: its path and name, or why it is refused.\<close>

definition submit_claim :: "ctx \<Rightarrow> (string \<times> string option) res \<Rightarrow> current_user \<Rightarrow> int \<Rightarrow> pay_method
    \<Rightarrow> string option \<Rightarrow> string option \<Rightarrow> int handler" where
  "submit_claim c stored student fid m reference_no nt = transaction (
     bindH (query org_of) (\<lambda>g.
     bindH (found (\<lambda>s. one_where (\<lambda>f. f_id f = fid \<and> f_student f = cu_id student \<and> f_org f = g) (fees s))
       (NotFound ''Fee not found'')) (\<lambda>f.
     bindH (check (f_status f \<noteq> FeePaid) (Conflict ''This fee is already paid'')) (\<lambda>_.
     bindH (reads (list_ex (\<lambda>k. fc_fee k = fid \<and> fc_status k = ClaimPending) \<circ> fee_claims)) (\<lambda>open_claim.
     bindH (check (\<not> open_claim) (Conflict ''A claim for this fee is already under review'')) (\<lambda>_.
     bindH (query (\<lambda>_. stored)) (\<lambda>file.
     bindH (reads next_claim) (\<lambda>i.
     bindH (writes (\<lambda>s. s\<lparr>fee_claims := fee_claims s @ [new_claim_row c g f (cu_id student) m reference_no nt file i],
       next_claim := i + 1\<rparr>)) (\<lambda>_. ret i)))))))))"

record claim_view =
  cv_row :: claim_row
  cv_fee :: fee_row
  cv_name :: string
  cv_card :: student_card
  cv_reviewer :: "string option"

definition claim_select :: "(claim_row \<Rightarrow> bool) \<Rightarrow> db \<Rightarrow> claim_view list" where
  "claim_select P s = List.map_filter (\<lambda>k. case (one_where (\<lambda>f. f_id f = fc_fee k) (fees s),
        one_where (\<lambda>u. u_id u = fc_student k) (users s)) of
       (Some f, Some u) \<Rightarrow> Some \<lparr>cv_row = k, cv_fee = f, cv_name = u_full_name u, cv_card = student_card_of (fc_student k) s,
          cv_reviewer = (case fc_reviewed_by k of None \<Rightarrow> None
            | Some r \<Rightarrow> map_option u_full_name (one_where (\<lambda>x. u_id x = r) (users s)))\<rparr>
     | _ \<Rightarrow> None) (filter P (fee_claims s))"

definition my_claims :: "current_user \<Rightarrow> page option \<Rightarrow> db \<Rightarrow> (claim_view page_result) res" where
  "my_claims student page s = bindR (org_of s) (\<lambda>g. Inr (fetch (\<lambda>v. (- fc_created_at (cv_row v), - fc_id (cv_row v)))
     (claim_select (\<lambda>k. fc_org k = g \<and> fc_student k = cu_id student) s) page None))"

definition claim_stats :: "db \<Rightarrow> (nat \<times> nat \<times> nat \<times> nat) res" where
  "claim_stats s = bindR (org_of s) (\<lambda>g. let ks = filter (\<lambda>k. fc_org k = g) (fee_claims s);
       n = (\<lambda>st. length (filter (\<lambda>k. fc_status k = st) ks))
     in Inr (length ks, n ClaimPending, n ClaimApproved, n ClaimRejected))"

definition list_claims :: "string option \<Rightarrow> page option \<Rightarrow> db \<Rightarrow> (claim_view page_result) res" where
  "list_claims status page s = bindR (org_of s) (\<lambda>g. Inr (fetch
     (\<lambda>v. (if fc_status (cv_row v) = ClaimPending then 0 else 1 :: int, - fc_created_at (cv_row v), - fc_id (cv_row v)))
     (claim_select (\<lambda>k. fc_org k = g \<and> (opt_is_blank status \<or> claim_status_name (fc_status k) = the status)) s) page None))"

definition lock_pending_claim :: "int \<Rightarrow> claim_row handler" where
  "lock_pending_claim kid = bindH (query org_of) (\<lambda>g.
     bindH (found (\<lambda>s. one_where (\<lambda>k. fc_id k = kid \<and> fc_org k = g) (fee_claims s)) (NotFound ''Claim not found'')) (\<lambda>k.
     bindH (check (fc_status k = ClaimPending) (Conflict (''Claim already '' @ claim_status_name (fc_status k)))) (\<lambda>_. ret k)))"

definition review_claim_row :: "ctx \<Rightarrow> claim_status \<Rightarrow> int \<Rightarrow> string option \<Rightarrow> claim_row \<Rightarrow> claim_row" where
  "review_claim_row c st actor nt k = k\<lparr>fc_status := st, fc_reviewed_by := Some actor,
     fc_reviewed_at := Some (mysql_now c), fc_review_note := nt\<rparr>"

definition write_review :: "ctx \<Rightarrow> claim_status \<Rightarrow> int \<Rightarrow> int \<Rightarrow> string option \<Rightarrow> db \<Rightarrow> db" where
  "write_review c st actor kid nt s = s\<lparr>fee_claims := update_where (\<lambda>k. fc_id k = kid)
     (review_claim_row c st actor nt) (fee_claims s)\<rparr>"

definition approve_claim :: "ctx \<Rightarrow> string \<Rightarrow> current_user \<Rightarrow> int \<Rightarrow> string option \<Rightarrow> pay_method option \<Rightarrow> string option handler" where
  "approve_claim c reference actor kid nt method = transaction (
     bindH (lock_pending_claim kid) (\<lambda>k.
     bindH (reads (\<lambda>s. one_where (\<lambda>f. f_id f = fc_fee k) (fees s))) (\<lambda>fee.
     bindH (writes (write_review c ClaimApproved (cu_id actor) kid nt)) (\<lambda>_.
     bindH (case fee of None \<Rightarrow> ret None
        | Some f \<Rightarrow> if f_status f \<noteq> FeePaid then mark_paid c reference f (case method of None \<Rightarrow> fc_method k | Some m \<Rightarrow> m)
            else ret None) (\<lambda>paid.
     bindH (writes (audit_record c (Some (cu_id actor)) ''fee_claim.approve'' (Some ''fee_claim'') (Some (py_str_int kid))
       [(''fee_id'', py_str_int (fc_fee k)), (''method'', pay_method_name (case method of None \<Rightarrow> fc_method k | Some m \<Rightarrow> m)),
        (''reference'', case paid of None \<Rightarrow> ''None'' | Some r \<Rightarrow> r)])) (\<lambda>_.
     bindH (case fee of None \<Rightarrow> ret () | Some f \<Rightarrow> notify_paid c f) (\<lambda>_. ret paid)))))))"

definition reject_claim :: "ctx \<Rightarrow> current_user \<Rightarrow> int \<Rightarrow> string option \<Rightarrow> int handler" where
  "reject_claim c actor kid nt = transaction (
     bindH (lock_pending_claim kid) (\<lambda>k.
     bindH (writes (write_review c ClaimRejected (cu_id actor) kid nt)) (\<lambda>_.
     bindH (writes (audit_record c (Some (cu_id actor)) ''fee_claim.reject'' (Some ''fee_claim'') (Some (py_str_int kid))
       [(''fee_id'', py_str_int (fc_fee k)), (''note'', case nt of None \<Rightarrow> ''None'' | Some t \<Rightarrow> t)])) (\<lambda>_.
     bindH (reads (\<lambda>s. case one_where (\<lambda>f. f_id f = fc_fee k) (fees s) of None \<Rightarrow> ''fee'' | Some f \<Rightarrow> f_title f)) (\<lambda>fee_title.
     bindH (query fee_route) (\<lambda>d.
     bindH (writes (if opt_is_blank nt
         then notify c [fc_student k] ''fee'' (''Payment proof rejected: '' @ fee_title) None (Some d)
         else notify c [fc_student k] ''fee'' (''Payment proof rejected: '' @ the nt) (Some fee_title) (Some d)))
       (\<lambda>_. ret kid)))))))"

subsection \<open>The payment history\<close>

definition paid_total :: "(payment_row \<Rightarrow> bool) \<Rightarrow> payment_row list \<Rightarrow> int" where
  "paid_total P ps = sum_list (map py_amount (filter (\<lambda>p. py_status p = PaySuccess \<and> P p) ps))"

text \<open>Today's and this month's collection, and the two counts the success rate is the quotient of.\<close>

definition payment_stats :: "ctx \<Rightarrow> db \<Rightarrow> (int \<times> int \<times> nat \<times> nat) res" where
  "payment_stats c s = bindR (org_of s) (\<lambda>g.
     let ps = filter (\<lambda>p. py_org p = g) (payments s); today = school_today c; day = (\<lambda>p. date_of (py_created_at p))
     in Inr (paid_total (\<lambda>p. day p = today) ps,
             paid_total (\<lambda>p. year_of (day p) = year_of today \<and> month_of (day p) = month_of today) ps,
             length ps, length (filter (\<lambda>p. py_status p = PaySuccess) ps)))"

definition list_transactions :: "page option \<Rightarrow> db \<Rightarrow> ((payment_row \<times> string option \<times> string option) page_result) res" where
  "list_transactions page s = bindR (org_of s) (\<lambda>g. Inr (fetch (\<lambda>(p, _, _). (- py_created_at p, - py_id p))
     (map (\<lambda>p. (p, case py_student p of None \<Rightarrow> None | Some i \<Rightarrow> map_option u_full_name (one_where (\<lambda>u. u_id u = i) (users s)),
              case py_fee p of None \<Rightarrow> None | Some i \<Rightarrow> map_option f_title (one_where (\<lambda>f. f_id f = i) (fees s))))
       (filter (\<lambda>p. py_org p = g) (payments s))) page (Some 200)))"

record payment_body =
  pb_student :: "int option"
  pb_amount :: rat
  pb_method :: pay_method
  pb_status :: payment_status

definition parse_payment :: "payment_body \<Rightarrow> payment_body res" where
  "parse_payment b = (if pb_amount b \<le> 0 then Inl (Unprocessable ''Invalid request'') else Inr b)"

definition payment_status_name :: "payment_status \<Rightarrow> string" where
  "payment_status_name st = (case st of PaySuccess \<Rightarrow> ''success'' | PayPending \<Rightarrow> ''pending'' | PayFailed \<Rightarrow> ''failed'')"

definition create_payment :: "ctx \<Rightarrow> string \<Rightarrow> current_user \<Rightarrow> payment_body \<Rightarrow> (int \<times> string) handler" where
  "create_payment c reference actor b = transaction (
     bindH (query org_of) (\<lambda>g.
     bindH (case pb_student b of None \<Rightarrow> ret ()
       | Some i \<Rightarrow> bindH (reads (list_ex (\<lambda>u. u_id u = i \<and> u_org u = g \<and> u_type u = Student) \<circ> users))
           (\<lambda>there. check there (NotFound ''Student not found''))) (\<lambda>_.
     bindH (insert_payment c (\<lambda>i. \<lparr>py_id = i, py_org = g, py_reference = reference, py_student = pb_student b, py_fee = None,
         py_amount = to_paise (pb_amount b), py_method = pb_method b, py_status = pb_status b, py_created_at = mysql_now c\<rparr>)) (\<lambda>i.
     bindH (writes (audit_record c (Some (cu_id actor)) ''transaction.create'' (Some ''transaction'') (Some (py_str_int i))
       [(''reference'', reference), (''student_id'', case pb_student b of None \<Rightarrow> ''None'' | Some k \<Rightarrow> py_str_int k),
        (''amount'', py_str_int (shown_paise (pb_amount b))), (''method'', pay_method_name (pb_method b)),
        (''status'', payment_status_name (pb_status b))])) (\<lambda>_. ret (i, reference))))))"

end
