(* ===== verification/Fees_Props.thy ===== *)
theory Fees_Props
  imports Fees
begin

text \<open>
  The books: a fee is paid exactly when the history holds one successful payment of its amount, and
  every operation keeps them so.
\<close>

definition fee_payments :: "int \<Rightarrow> db \<Rightarrow> payment_row list" where
  "fee_payments i s = filter (\<lambda>p. py_fee p = Some i) (payments s)"

type_synonym receipt = "int \<times> int option \<times> int \<times> payment_status"

definition receipt_of :: "payment_row \<Rightarrow> receipt" where
  "receipt_of p = (py_org p, py_student p, py_amount p, py_status p)"

definition receipts_due :: "fee_row \<Rightarrow> receipt list" where
  "receipts_due f = (if f_status f = FeePaid then [(f_org f, Some (f_student f), f_amount f, PaySuccess)] else [])"

definition settled_fee :: "db \<Rightarrow> fee_row \<Rightarrow> bool" where
  "settled_fee s f \<longleftrightarrow> map receipt_of (fee_payments (f_id f) s) = receipts_due f"

definition claim_ok :: "db \<Rightarrow> claim_row \<Rightarrow> bool" where
  "claim_ok s k \<longleftrightarrow> fc_id k < next_claim s \<and> (\<exists>f \<in> set (fees s). f_id f = fc_fee k \<and> f_student f = fc_student k \<and> f_org f = fc_org k
     \<and> (fc_status k = ClaimApproved \<longrightarrow> f_status f = FeePaid))"

definition books_ok :: "db \<Rightarrow> bool" where
  "books_ok s \<longleftrightarrow> fes.keys_unique s \<and> (\<forall>f \<in> set (fees s). f_id f < next_fee s \<and> settled_fee s f)
     \<and> (\<forall>p \<in> set (payments s). \<forall>i. py_fee p = Some i \<longrightarrow> i \<in> f_id ` set (fees s))
     \<and> clms.keys_unique s \<and> (\<forall>k \<in> set (fee_claims s). claim_ok s k)
     \<and> pairwise_ok (\<lambda>k. fc_status k = ClaimPending) (\<lambda>a b. fc_fee a = fc_fee b) (fee_claims s)"

definition same_books :: "db \<Rightarrow> db \<Rightarrow> bool" where
  "same_books s s' \<longleftrightarrow> fees s' = fees s \<and> next_fee s' = next_fee s \<and> payments s' = payments s
     \<and> fee_claims s' = fee_claims s \<and> next_claim s' = next_claim s"

text \<open>The class of a \<open>generate\<close> call and its fee.\<close>

definition cl_org_fee :: "int \<Rightarrow> generate_body \<Rightarrow> int \<Rightarrow> db \<Rightarrow> bool" where
  "cl_org_fee g b y s \<longleftrightarrow> bound_org s = Some g \<and> y \<noteq> 0
     \<and> (\<exists>x. one_where (\<lambda>x. cl_id x = gb_class b \<and> cl_org x = g) (classes s) = Some x \<and> cl_fee x = Some y)"

definition same_people :: "db \<Rightarrow> db \<Rightarrow> bool" where
  "same_people s s' \<longleftrightarrow> users s' = users s \<and> student_profiles s' = student_profiles s \<and> classes s' = classes s
     \<and> bound_org s' = bound_org s"

lemma people_writes [simp]:
  "users (audit_record c a x e i d s) = users s" "student_profiles (audit_record c a x e i d s) = student_profiles s"
  "classes (audit_record c a x e i d s) = classes s" "bound_org (audit_record c a x e i d s) = bound_org s"
  "student_profiles (notify c us k t b n s) = student_profiles s"
  by (simp_all add: audit_record_def notify_def notify_each_def Let_def)

lemma insert_fee_people [simp]:
  "users (insert_fee c g st t a d s) = users s" "student_profiles (insert_fee c g st t a d s) = student_profiles s"
  "classes (insert_fee c g st t a d s) = classes s" "bound_org (insert_fee c g st t a d s) = bound_org s"
  by (simp_all add: insert_fee_def)

lemma insert_fees_people [simp]:
  "users (fold (\<lambda>i. insert_fee c g i t a d) ids s) = users s"
  "student_profiles (fold (\<lambda>i. insert_fee c g i t a d) ids s) = student_profiles s"
  "classes (fold (\<lambda>i. insert_fee c g i t a d) ids s) = classes s"
  "bound_org (fold (\<lambda>i. insert_fee c g i t a d) ids s) = bound_org s"
  by (induction ids arbitrary: s) simp_all

lemma books_cong: "books_ok s \<Longrightarrow> same_books s s' \<Longrightarrow> books_ok s'"
  by (simp add: books_ok_def same_books_def fes.keys_unique_def clms.keys_unique_def settled_fee_def fee_payments_def claim_ok_def)

subsection \<open>Frames\<close>

lemma books_frame [simp]:
  "fees (audit_record c a x e i d s) = fees s" "next_fee (audit_record c a x e i d s) = next_fee s"
  "payments (audit_record c a x e i d s) = payments s" "fee_claims (audit_record c a x e i d s) = fee_claims s"
  "next_claim (audit_record c a x e i d s) = next_claim s"
  "fees (notify c us k t b n s) = fees s" "next_fee (notify c us k t b n s) = next_fee s"
  "payments (notify c us k t b n s) = payments s" "fee_claims (notify c us k t b n s) = fee_claims s"
  "next_claim (notify c us k t b n s) = next_claim s"
  by (simp_all add: audit_record_def notify_def notify_each_def Let_def)

lemma notify_fee_books:
  "notify_new_fee c is t a d s = (Inr u, s') \<Longrightarrow> same_books s s'"
  "notify_paid c f s = (Inr u, s') \<Longrightarrow> same_books s s'"
  by (auto simp: notify_new_fee_def notify_paid_def svc_simps same_books_def)

lemma notify_paid_opt:
  "(case fee of None \<Rightarrow> ret () | Some f \<Rightarrow> notify_paid c f) s = (Inr u, s') \<Longrightarrow> same_books s s'"
  by (auto simp: svc_simps same_books_def dest!: notify_fee_books split: option.splits)

lemma fee_of: "one_where P (fees s) = Some f \<Longrightarrow> f \<in> set (fees s) \<and> P f"
  by (rule one_where_Some)

lemma fee_in_Some: "fee_in g i s = Some f \<Longrightarrow> f \<in> set (fees s) \<and> f_id f = i \<and> f_org f = g"
  unfolding fee_in_def by (drule one_where_Some) simp

lemma unique_fee:
  "books_ok s \<Longrightarrow> f \<in> set (fees s) \<Longrightarrow> f' \<in> set (fees s) \<Longrightarrow> f_id f = f_id f' \<Longrightarrow> f = f'"
  by (rule fes.unique_row [of s]) (auto simp: books_ok_def)

subsection \<open>The changes the operations are made of\<close>

definition fee_kept :: "fee_row \<Rightarrow> fee_row \<Rightarrow> bool" where
  "fee_kept x y \<longleftrightarrow> f_id y = f_id x \<and> f_student y = f_student x \<and> f_org y = f_org x
     \<and> (f_status x = FeePaid \<longrightarrow> f_status y = FeePaid)"

lemma claim_transfer:
  assumes "claim_ok s k" and "next_claim s \<le> next_claim s'"
    and "\<And>x. x \<in> set (fees s) \<Longrightarrow> f_id x = fc_fee k \<Longrightarrow> \<exists>y \<in> set (fees s'). fee_kept x y"
  shows "claim_ok s' k"
proof -
  obtain x where x: "x \<in> set (fees s)" "f_id x = fc_fee k" "f_student x = fc_student k" "f_org x = fc_org k"
    "fc_status k = ClaimApproved \<longrightarrow> f_status x = FeePaid" "fc_id k < next_claim s"
    using assms(1) by (auto simp: claim_ok_def)
  obtain y where "y \<in> set (fees s')" "fee_kept x y" using assms(3) [OF x(1,2)] by blast
  with x assms(2) show ?thesis unfolding claim_ok_def by (auto simp: fee_kept_def intro!: bexI [of _ y])
qed

lemma insert_fee_books:
  assumes "books_ok s"
  shows "books_ok (insert_fee c g st t a d s)"
proof -
  let ?s = "insert_fee c g st t a d s"
  have fp: "fee_payments i ?s = fee_payments i s" for i by (simp add: fee_payments_def insert_fee_def)
  have none: "fee_payments (next_fee s) s = []"
    using assms by (fastforce simp: books_ok_def fee_payments_def filter_empty_conv)
  have "distinct (map f_id (fees ?s))" "\<forall>f \<in> set (fees ?s). f_id f < next_fee ?s \<and> settled_fee ?s f"
    using assms fp none
    by (auto simp: books_ok_def insert_fee_def new_fee_row_def fes.keys_unique_def settled_fee_def receipts_due_def)
  moreover have "\<forall>k \<in> set (fee_claims ?s). claim_ok ?s k"
    using assms by (auto simp: books_ok_def insert_fee_def claim_ok_def)
  ultimately show ?thesis using assms
    unfolding books_ok_def fes.keys_unique_def clms.keys_unique_def by (auto simp: insert_fee_def)
qed

lemma settle_books:
  assumes "books_ok s" and f: "f \<in> set (fees s)" "f_status f = FeePending"
    and fs: "fees s' = update_where (\<lambda>x. f_id x = f_id f \<and> f_status x = FeePending)
         (\<lambda>x. x\<lparr>f_status := FeePaid, f_paid_date := d, f_method := m\<rparr>) (fees s)" "next_fee s' = next_fee s"
    and ps: "payments s' = payments s @ [p]" "receipt_of p = (f_org f, Some (f_student f), f_amount f, PaySuccess)" "py_fee p = Some (f_id f)"
    and ks: "fee_claims s' = fee_claims s" "next_claim s' = next_claim s"
  shows "books_ok s'"
proof -
  let ?g = "\<lambda>x. x\<lparr>f_status := FeePaid, f_paid_date := d, f_method := m\<rparr>"
  have fs': "fees s' = map (\<lambda>x. if f_id x = f_id f then ?g x else x) (fees s)"
    unfolding fs update_where_def using unique_fee [OF assms(1) _ f(1)] f(2) by (intro map_cong) auto
  have ids: "map f_id (fees s') = map f_id (fees s)" by (simp add: fs')
  have "settled_fee s' x'" if x': "x' \<in> set (fees s')" for x'
  proof -
    obtain x where x: "x \<in> set (fees s)" "x' = (if f_id x = f_id f then ?g x else x)" using x' fs' by auto
    have old: "settled_fee s x" using assms(1) x(1) by (simp add: books_ok_def)
    show ?thesis
    proof (cases "f_id x = f_id f")
      case True
      then have "x = f" using unique_fee [OF assms(1) x(1) f(1)] by simp
      then show ?thesis using old x(2) f(2) ps
        by (simp add: settled_fee_def fee_payments_def receipts_due_def)
    next
      case False
      then show ?thesis using old x(2) ps by (auto simp: settled_fee_def fee_payments_def)
    qed
  qed
  moreover have "claim_ok s' k" if k: "k \<in> set (fee_claims s)" for k
  proof (rule claim_transfer)
    show "claim_ok s k" using assms(1) k by (simp add: books_ok_def)
    fix x assume "x \<in> set (fees s)"
    then have "(if f_id x = f_id f then ?g x else x) \<in> set (fees s')" by (auto simp: fs')
    then show "\<exists>y \<in> set (fees s'). fee_kept x y" by (rule bexI [rotated]) (simp add: fee_kept_def)
  qed (simp add: ks)
  moreover have "\<forall>f \<in> set (fees s'). f_id f < next_fee s'" using assms(1) fs(2) by (auto simp: fs' books_ok_def)
  moreover have "i \<in> f_id ` set (fees s')" if q: "q \<in> set (payments s')" "py_fee q = Some i" for q i
  proof -
    have "i \<in> set (map f_id (fees s))" using q assms(1) f(1) ps unfolding books_ok_def by auto
    then show ?thesis unfolding ids [symmetric] by simp
  qed
  ultimately show ?thesis
    using assms(1) ids ks unfolding books_ok_def fes.keys_unique_def clms.keys_unique_def by simp
qed

lemma drop_books:
  assumes "books_ok s" and f: "f \<in> set (fees s)" "f_status f = FeePending" "f_id f = i"
    and ks: "fee_claims s' = delete_where (\<lambda>k. fc_fee k = i \<and> fc_status k = ClaimRejected) (fee_claims s)" "next_claim s' = next_claim s"
    and left: "\<not> list_ex (\<lambda>k. fc_fee k = i) (fee_claims s')"
    and fs: "fees s' = delete_where (\<lambda>f. f_id f = i) (fees s)" "next_fee s' = next_fee s"
    and ps: "payments s' = update_where (\<lambda>p. py_fee p = Some i) (\<lambda>p. p\<lparr>py_fee := None\<rparr>) (payments s)"
  shows "books_ok s'"
proof -
  have none: "fee_payments i s = []"
    using assms(1) f by (auto simp: books_ok_def settled_fee_def receipts_due_def)
  then have same: "payments s' = payments s"
    unfolding ps update_where_def fee_payments_def by (auto simp: filter_empty_conv intro: map_idI)
  have settled: "settled_fee s' x" if "x \<in> set (fees s')" for x
    using that assms(1) same fs by (auto simp: books_ok_def settled_fee_def fee_payments_def delete_where_def)
  have links: "j \<in> f_id ` set (fees s')" if p: "p \<in> set (payments s')" "py_fee p = Some j" for p j
  proof -
    have "j \<in> f_id ` set (fees s)" using p assms(1) same by (simp add: books_ok_def)
    moreover have "j \<noteq> i" using p same none by (auto simp: fee_payments_def filter_empty_conv)
    ultimately show ?thesis using fs by (auto simp: delete_where_def)
  qed
  have claims: "claim_ok s' k" if k: "k \<in> set (fee_claims s')" for k
  proof -
    have old: "k \<in> set (fee_claims s)" "fc_fee k \<noteq> i" using k ks left by (auto simp: delete_where_def list_ex_iff)
    show ?thesis
    proof (rule claim_transfer)
      show "claim_ok s k" using assms(1) old(1) by (simp add: books_ok_def)
      fix x assume "x \<in> set (fees s)" "f_id x = fc_fee k"
      then have "x \<in> set (fees s')" using old(2) by (simp add: fs delete_where_def)
      then show "\<exists>y \<in> set (fees s'). fee_kept x y" by (rule bexI [rotated]) (simp add: fee_kept_def)
    qed (simp add: ks)
  qed
  have "pairwise_ok (\<lambda>k. fc_status k = ClaimPending) (\<lambda>a b. fc_fee a = fc_fee b) (fee_claims s')"
    using assms(1) ks unfolding books_ok_def pairwise_ok_def by (auto simp: delete_where_def)
  moreover have "distinct (map f_id (fees s'))" "distinct (map fc_id (fee_claims s'))"
    using assms(1) fs ks by (auto simp: books_ok_def fes.keys_unique_def clms.keys_unique_def distinct_map_delete_where)
  moreover have "\<forall>f \<in> set (fees s'). f_id f < next_fee s'" using assms(1) fs by (auto simp: books_ok_def delete_where_def)
  ultimately show ?thesis using settled links claims
    unfolding books_ok_def fes.keys_unique_def clms.keys_unique_def by blast
qed

lemma new_claim_books:
  assumes "books_ok s" and f: "f \<in> set (fees s)" "f_id f = fc_fee k" "f_student f = fc_student k" "f_org f = fc_org k"
    and k: "fc_id k = next_claim s" "fc_status k = ClaimPending"
    and only: "\<not> list_ex (\<lambda>x. fc_fee x = fc_fee k \<and> fc_status x = ClaimPending) (fee_claims s)"
    and s': "fees s' = fees s" "next_fee s' = next_fee s" "payments s' = payments s"
      "fee_claims s' = fee_claims s @ [k]" "next_claim s' = next_claim s + 1"
  shows "books_ok s'"
proof -
  have fresh: "x \<in> set (fee_claims s) \<Longrightarrow> fc_id x < next_claim s" for x
    using assms(1) by (simp add: books_ok_def claim_ok_def)
  then have "distinct (map fc_id (fee_claims s'))"
    using assms(1) k s' by (fastforce simp: books_ok_def clms.keys_unique_def)
  moreover have "\<forall>x \<in> set (fee_claims s'). claim_ok s' x"
    using assms(1) f k s' by (fastforce simp: books_ok_def claim_ok_def)
  moreover have "pairwise_ok (\<lambda>k. fc_status k = ClaimPending) (\<lambda>a b. fc_fee a = fc_fee b) (fee_claims s')"
    using assms(1) only s' unfolding books_ok_def pairwise_ok_def list_ex_iff by auto
  moreover have "\<forall>f \<in> set (fees s'). f_id f < next_fee s' \<and> settled_fee s' f"
    using assms(1) s' by (simp add: books_ok_def settled_fee_def fee_payments_def)
  ultimately show ?thesis using assms(1) s'
    unfolding books_ok_def fes.keys_unique_def clms.keys_unique_def by simp
qed

lemma review_books:
  assumes "books_ok s" and st: "st \<noteq> ClaimPending"
    and paid: "st = ClaimApproved \<Longrightarrow> \<exists>k f. k \<in> set (fee_claims s) \<and> fc_id k = i \<and> f \<in> set (fees s) \<and> f_id f = fc_fee k \<and> f_status f = FeePaid"
    and s': "fees s' = fees s" "next_fee s' = next_fee s" "payments s' = payments s"
      "fee_claims s' = update_where (\<lambda>k. fc_id k = i) (review_claim_row c st a nt) (fee_claims s)" "next_claim s' = next_claim s"
  shows "books_ok s'"
proof -
  let ?g = "\<lambda>k. if fc_id k = i then review_claim_row c st a nt k else k"
  have ks: "fee_claims s' = map ?g (fee_claims s)" using s'(4) by (simp add: update_where_def)
  have ids: "map fc_id (fee_claims s') = map fc_id (fee_claims s)" by (simp add: ks review_claim_row_def)
  have keep: "fc_fee (?g k) = fc_fee k" "fc_student (?g k) = fc_student k" "fc_org (?g k) = fc_org k" "fc_id (?g k) = fc_id k"
    "fc_status (?g k) = (if fc_id k = i then st else fc_status k)" for k
    by (simp_all add: review_claim_row_def)
  have "claim_ok s' (?g k)" if k: "k \<in> set (fee_claims s)" for k
  proof -
    have "claim_ok s k" using assms(1) k by (simp add: books_ok_def)
    then obtain f where f: "f \<in> set (fees s)" "f_id f = fc_fee k" "f_student f = fc_student k" "f_org f = fc_org k"
      "fc_status k = ClaimApproved \<longrightarrow> f_status f = FeePaid" and n: "fc_id k < next_claim s" by (auto simp: claim_ok_def)
    have "f_status f = FeePaid" if app: "fc_status (?g k) = ClaimApproved"
    proof (cases "fc_id k = i")
      case True
      then have "st = ClaimApproved" using app by (simp add: review_claim_row_def)
      then obtain k' f' where kf: "k' \<in> set (fee_claims s)" "fc_id k' = i" "f' \<in> set (fees s)" "f_id f' = fc_fee k'" "f_status f' = FeePaid"
        using paid by blast
      have "k' = k" using clms.unique_row [OF _ kf(1) k] assms(1) kf(2) True by (simp add: books_ok_def)
      then have "f' = f" using unique_fee [OF assms(1) kf(3) f(1)] kf(4) f(2) by simp
      then show ?thesis using kf(5) by simp
    qed (use app f(5) in simp)
    with f n show ?thesis unfolding claim_ok_def keep s'(1,5) by blast
  qed
  then have "\<forall>k \<in> set (fee_claims s'). claim_ok s' k" unfolding ks set_map by blast
  moreover have "pairwise_ok (\<lambda>k. fc_status k = ClaimPending) (\<lambda>a b. fc_fee a = fc_fee b) (fee_claims s')"
    using assms(1) st unfolding books_ok_def pairwise_ok_def ks by (auto simp: review_claim_row_def)
  moreover have "\<forall>f \<in> set (fees s'). f_id f < next_fee s' \<and> settled_fee s' f"
    using assms(1) s' by (simp add: books_ok_def settled_fee_def fee_payments_def)
  ultimately show ?thesis using assms(1) s'(1-3) ids
    unfolding books_ok_def fes.keys_unique_def clms.keys_unique_def by simp
qed

lemma other_payment_books:
  assumes "books_ok s" and "py_fee p = None" and s': "fees s' = fees s" "next_fee s' = next_fee s"
    "payments s' = payments s @ [p]" "fee_claims s' = fee_claims s" "next_claim s' = next_claim s"
  shows "books_ok s'"
proof -
  have "\<forall>f \<in> set (fees s'). f_id f < next_fee s' \<and> settled_fee s' f"
    using assms by (simp add: books_ok_def settled_fee_def fee_payments_def)
  moreover have "\<forall>k \<in> set (fee_claims s'). claim_ok s' k" using assms by (simp add: books_ok_def claim_ok_def)
  moreover have "\<forall>q \<in> set (payments s'). \<forall>i. py_fee q = Some i \<longrightarrow> i \<in> f_id ` set (fees s')"
    using assms by (auto simp: books_ok_def)
  ultimately show ?thesis using assms(1) s'
    unfolding books_ok_def fes.keys_unique_def clms.keys_unique_def by simp
qed

subsection \<open>The operations\<close>

lemma insert_payment_ok:
  "insert_payment c row s = (Inr i, s') \<longleftrightarrow> i = next_payment s
     \<and> \<not> list_ex (\<lambda>x. sql_eq c (py_reference x) (py_reference (row (next_payment s)))) (payments s)
     \<and> s' = s\<lparr>payments := payments s @ [row (next_payment s)], next_payment := next_payment s + 1\<rparr>"
  by (auto simp: insert_payment_def Let_def)

lemma mark_paid_books:
  assumes "mark_paid c reference f m s = (Inr paid, s')" and "books_ok s" and f: "f \<in> set (fees s)" "f_status f = FeePending"
  shows "books_ok s' \<and> paid = Some reference \<and> (\<exists>x \<in> set (fees s'). f_id x = f_id f \<and> f_status x = FeePaid)
    \<and> fee_claims s' = fee_claims s \<and> next_claim s' = next_claim s"
proof -
  have "list_ex (\<lambda>x. f_id x = f_id f \<and> f_status x = FeePending) (fees s)" using f by (auto simp: list_ex_iff)
  then have s': "fees s' = update_where (\<lambda>x. f_id x = f_id f \<and> f_status x = FeePending)
         (\<lambda>x. x\<lparr>f_status := FeePaid, f_paid_date := Some (school_today c), f_method := Some m\<rparr>) (fees s)"
    "next_fee s' = next_fee s" "payments s' = payments s @ [fee_payment c f m reference (next_payment s)]"
    "fee_claims s' = fee_claims s" "next_claim s' = next_claim s" "paid = Some reference"
    using assms(1) by (auto simp: mark_paid_def svc_simps insert_payment_ok)
  have "books_ok s'"
    by (rule settle_books [OF assms(2) f s'(1-3)]) (use s'(4,5) in \<open>simp_all add: fee_payment_def receipt_of_def\<close>)
  moreover have "f\<lparr>f_status := FeePaid, f_paid_date := Some (school_today c), f_method := Some m\<rparr> \<in> set (fees s')"
    using f by (auto simp: s'(1) set_update_where)
  then have "\<exists>x \<in> set (fees s'). f_id x = f_id f \<and> f_status x = FeePaid" by (rule bexI [rotated]) simp
  ultimately show ?thesis using s' by simp
qed

inductive fee_step :: "ctx \<Rightarrow> db \<Rightarrow> db \<Rightarrow> bool" where
  create: "create_fee c actor b s = (r, s') \<Longrightarrow> fee_step c s s'"
| generate: "generate_class_fees c actor gb s = (r', s') \<Longrightarrow> fee_step c s s'"
| pay: "pay_fee c reference actor fid m s = (r'', s') \<Longrightarrow> fee_step c s s'"
| delete: "delete_fee c actor fid s = (r, s') \<Longrightarrow> fee_step c s s'"
| submit: "submit_claim c stored student fid m reference_no nt s = (r, s') \<Longrightarrow> fee_step c s s'"
| approve: "approve_claim c reference actor kid nt method s = (r3, s') \<Longrightarrow> fee_step c s s'"
| reject: "reject_claim c actor kid nt s = (r, s') \<Longrightarrow> fee_step c s s'"
| manual_payment: "create_payment c reference actor pb s = (r4, s') \<Longrightarrow> fee_step c s s'"

inductive fee_run :: "db \<Rightarrow> db \<Rightarrow> bool" where
  start: "fee_run s s"
| step: "fee_run s t \<Longrightarrow> fee_step c t u \<Longrightarrow> fee_run s u"

lemma lock_ok:
  "lock_pending_claim kid s = (Inr k, s') \<Longrightarrow> s' = s \<and> k \<in> set (fee_claims s) \<and> fc_id k = kid \<and> fc_status k = ClaimPending"
  by (auto simp: lock_pending_claim_def svc_simps dest!: one_where_Some)

text \<open>What each operation does to the books: nothing, or the change named here.\<close>

lemma create_fee_shape:
  assumes "create_fee c actor b s = (r, s')"
  obtains "s' = s" | g where "same_books (insert_fee c g (fb_student b) (fb_title b) (to_paise (fb_amount b)) (fb_due b) s) s'"
  using assms unfolding create_fee_def
proof (cases rule: transaction_cases)
  case (finished x)
  then show thesis using that(2) by (auto simp: svc_simps same_books_def dest!: notify_fee_books)
qed (use that in blast)

lemma generate_shape:
  assumes "generate_class_fees c actor b s = (r, s')"
  obtains e where "s' = s" "r = Inl e" | g y where "cl_org_fee g b y s" and "same_books (fold (\<lambda>i. insert_fee c g i (gb_title b) y (gb_due b))
     (sort (without_fee c (gb_class b) (gb_title b) s)) s) s'"
    and "r = Inr (length (without_fee c (gb_class b) (gb_title b) s), length (class_students (gb_class b) s))"
    and "users s' = users s" "student_profiles s' = student_profiles s" "classes s' = classes s" "bound_org s' = bound_org s"
  using assms unfolding generate_class_fees_def
proof (cases rule: transaction_cases)
  case (finished x)
  let ?new = "without_fee c (gb_class b) (gb_title b) s"
  from finished(2) obtain g y where cls: "cl_org_fee g b y s" and x: "x = (length ?new, length (class_students (gb_class b) s))"
    and "(if ?new = [] then ret () else bindH (writes (audit_record c (Some (cu_id actor)) ''fee.generate'' (Some ''class'')
              (Some (py_str_int (gb_class b))) [(''title'', gb_title b), (''created'', py_str_int (int (length ?new)))]))
            (\<lambda>_. notify_new_fee c ?new (gb_title b) y (gb_due b)))
       (fold (\<lambda>i. insert_fee c g i (gb_title b) y (gb_due b)) (sort ?new) s) = (Inr (), s')"
    by (auto simp: svc_simps cl_org_fee_def org_of_def split: option.splits cong: if_cong)
  then have "same_books (fold (\<lambda>i. insert_fee c g i (gb_title b) y (gb_due b)) (sort ?new) s) s'
    \<and> same_people (fold (\<lambda>i. insert_fee c g i (gb_title b) y (gb_due b)) (sort ?new) s) s'"
    by (auto simp: svc_simps same_books_def same_people_def notify_new_fee_def split: if_splits)
  then show thesis using that(2) [OF cls] finished(1) x by (auto simp: same_people_def)
qed (use that in blast)

lemma pay_fee_shape:
  assumes "pay_fee c reference actor fid m s = (r, s')"
  obtains "s' = s" | f s1 where "f \<in> set (fees s)" "f_id f = fid" "f_status f = FeePending"
    "mark_paid c reference f m s = (Inr (Some reference), s1)" "same_books s1 s'"
  using assms unfolding pay_fee_def
proof (cases rule: transaction_cases)
  case (finished x)
  from finished(2) obtain g f p s1 where f: "fee_in g fid s = Some f"
    and paid: "(if f_status f \<noteq> FeePaid then mark_paid c reference f m else ret None) s = (Inr (Some p), s1)"
    and s': "same_books s1 s'"
    by (auto simp: svc_simps same_books_def dest!: notify_fee_books split: option.splits)
  moreover from paid have "f_status f = FeePending" "mark_paid c reference f m s = (Inr (Some p), s1)"
    by (cases "f_status f"; auto simp: svc_simps)+
  moreover from this(2) have "p = reference" by (auto simp: mark_paid_def svc_simps split: if_splits)
  ultimately show thesis using that(2) fee_in_Some [OF f] by blast
qed (use that in blast)

lemma delete_fee_shape:
  assumes "delete_fee c actor fid s = (r, s')"
  obtains "s' = s" | f s1 where "f \<in> set (fees s)" "f_status f = FeePending" "f_id f = fid"
    "\<not> list_ex (\<lambda>k. fc_fee k = fid \<and> (fc_status k = ClaimPending \<or> fc_status k = ClaimApproved)) (fee_claims s)"
    "drop_fee fid (s\<lparr>fee_claims := delete_where (\<lambda>k. fc_fee k = fid \<and> fc_status k = ClaimRejected) (fee_claims s)\<rparr>)
      = (Inr (), s1)" "same_books s1 s'"
  using assms unfolding delete_fee_def
proof (cases rule: transaction_cases)
  case (finished x)
  from finished(2) obtain g f s1 where f: "fee_in g fid s = Some f" "f_status f \<noteq> FeePaid"
    and rest: "\<not> list_ex (\<lambda>k. fc_fee k = fid \<and> (fc_status k = ClaimPending \<or> fc_status k = ClaimApproved)) (fee_claims s)"
      "drop_fee fid (s\<lparr>fee_claims := delete_where (\<lambda>k. fc_fee k = fid \<and> fc_status k = ClaimRejected) (fee_claims s)\<rparr>)
        = (Inr (), s1)" "same_books s1 s'"
    by (auto simp: svc_simps same_books_def)
  have "f_status f = FeePending" using f(2) by (cases "f_status f") simp_all
  with that(2) fee_in_Some [OF f(1)] rest show thesis by blast
qed (use that in blast)

lemma submit_claim_shape:
  assumes "submit_claim c stored student fid m reference_no nt s = (r, s')"
  obtains "s' = s" | g f up where "f \<in> set (fees s)" "f_id f = fid" "f_student f = cu_id student" "f_org f = g"
    "\<not> list_ex (\<lambda>k. fc_fee k = fid \<and> fc_status k = ClaimPending) (fee_claims s)"
    "s' = s\<lparr>fee_claims := fee_claims s @ [new_claim_row c g f (cu_id student) m reference_no nt up (next_claim s)],
       next_claim := next_claim s + 1\<rparr>"
  using assms unfolding submit_claim_def
proof (cases rule: transaction_cases)
  case (finished x)
  then show thesis using that(2) by (auto simp: svc_simps dest!: one_where_Some)
qed (use that in blast)

lemma reject_claim_shape:
  assumes "reject_claim c actor kid nt s = (r, s')"
  obtains "s' = s" | k where "k \<in> set (fee_claims s)" "fc_id k = kid" "fc_status k = ClaimPending"
    "same_books (write_review c ClaimRejected (cu_id actor) kid nt s) s'"
  using assms unfolding reject_claim_def
proof (cases rule: transaction_cases)
  case (finished x)
  then show thesis using that(2) by (auto simp: svc_simps same_books_def dest!: lock_ok split: if_splits)
qed (use that in blast)

lemma approve_claim_shape:
  assumes "approve_claim c reference actor kid nt method s = (r, s')"
  obtains "s' = s" | k paid s1 where "k \<in> set (fee_claims s)" "fc_id k = kid" "fc_status k = ClaimPending"
    "(case one_where (\<lambda>f. f_id f = fc_fee k) (fees s) of None \<Rightarrow> ret None
        | Some f \<Rightarrow> if f_status f \<noteq> FeePaid then mark_paid c reference f (case method of None \<Rightarrow> fc_method k | Some m \<Rightarrow> m)
            else ret None) (write_review c ClaimApproved (cu_id actor) kid nt s) = (Inr paid, s1)"
    "same_books s1 s'"
  using assms unfolding approve_claim_def
proof (cases rule: transaction_cases)
  case (finished x)
  then show thesis using that(2) by (auto simp: svc_simps same_books_def dest!: lock_ok notify_paid_opt)
qed (use that in blast)

lemma create_payment_shape:
  assumes "create_payment c reference actor b s = (r, s')"
  obtains "s' = s" | p :: payment_row where "py_fee p = None" "payments s' = payments s @ [p]"
    "fees s' = fees s" "next_fee s' = next_fee s" "fee_claims s' = fee_claims s" "next_claim s' = next_claim s"
  using assms unfolding create_payment_def
proof (cases rule: transaction_cases)
  case (finished x)
  from finished(2) obtain g where p: "payments s' = payments s @ [\<lparr>py_id = next_payment s, py_org = g,
       py_reference = reference, py_student = pb_student b, py_fee = None, py_amount = to_paise (pb_amount b),
       py_method = pb_method b, py_status = pb_status b, py_created_at = mysql_now c\<rparr>]"
    and same: "fees s' = fees s" "next_fee s' = next_fee s" "fee_claims s' = fee_claims s" "next_claim s' = next_claim s"
    by (auto simp: svc_simps insert_payment_ok split: option.splits)
  show thesis by (rule that(2) [OF _ p same]) simp
qed (use that in blast)

lemma create_fee_inv: "create_fee c actor b s = (r, s') \<Longrightarrow> books_ok s \<Longrightarrow> books_ok s'"
  by (erule create_fee_shape) (auto intro: books_cong insert_fee_books)

lemma insert_fees_books: "books_ok s \<Longrightarrow> books_ok (fold (\<lambda>i. insert_fee c g i t a d) ids s)"
  by (induction ids arbitrary: s) (simp_all add: insert_fee_books)

lemma generate_inv: "generate_class_fees c actor b s = (r, s') \<Longrightarrow> books_ok s \<Longrightarrow> books_ok s'"
  by (erule generate_shape) (auto intro: books_cong insert_fees_books)

lemma pay_fee_inv: "pay_fee c reference actor fid m s = (r, s') \<Longrightarrow> books_ok s \<Longrightarrow> books_ok s'"
  by (erule pay_fee_shape) (auto intro: books_cong dest!: mark_paid_books)

lemma delete_fee_inv:
  assumes "delete_fee c actor fid s = (r, s')" and "books_ok s"
  shows "books_ok s'"
  using assms(1)
proof (cases rule: delete_fee_shape)
  case (2 f s1)
  from drop_books [OF assms(2) 2(1-3)] have "books_ok s1"
    using 2(5) by (auto simp: drop_fee_def split: if_splits)
  then show ?thesis using 2(6) by (rule books_cong)
qed (use assms in simp)

lemma submit_claim_inv:
  assumes "submit_claim c stored student fid m reference_no nt s = (r, s')" and "books_ok s"
  shows "books_ok s'"
  using assms(1)
proof (cases rule: submit_claim_shape)
  case (2 g f up)
  show ?thesis
    by (rule new_claim_books [OF assms(2), of f "new_claim_row c g f (cu_id student) m reference_no nt up (next_claim s)"])
      (use 2 in \<open>simp_all add: new_claim_row_def\<close>)
qed (use assms in simp)

lemma reject_claim_inv:
  assumes "reject_claim c actor kid nt s = (r, s')" and "books_ok s"
  shows "books_ok s'"
  using assms(1)
proof (cases rule: reject_claim_shape)
  case (2 k)
  have "books_ok (write_review c ClaimRejected (cu_id actor) kid nt s)"
    by (rule review_books [OF assms(2), of ClaimRejected]) (simp_all add: write_review_def)
  then show ?thesis using 2(4) by (rule books_cong)
qed (use assms in simp)

lemma create_payment_inv:
  assumes "create_payment c reference actor b s = (r, s')" and "books_ok s"
  shows "books_ok s'"
  using assms(1)
proof (cases rule: create_payment_shape)
  case (2 p)
  show ?thesis by (rule other_payment_books [OF assms(2) 2(1,3,4,2,5,6)])
qed (use assms in simp)

lemma approve_claim_inv:
  assumes "approve_claim c reference actor kid nt method s = (r, s')" and "books_ok s"
  shows "books_ok s'"
  using assms(1)
proof (cases rule: approve_claim_shape)
  case (2 k paid s1)
  define t where "t = write_review c ClaimApproved (cu_id actor) kid nt s"
  note k = 2(1-3) and pay = 2(4) [folded t_def] and s' = 2(5)
  have "claim_ok s k" using assms(2) k(1) by (simp add: books_ok_def)
  then obtain f0 where f0: "f0 \<in> set (fees s)" "f_id f0 = fc_fee k" by (auto simp: claim_ok_def)
  then obtain f where f: "one_where (\<lambda>f. f_id f = fc_fee k) (fees s) = Some f"
    by (cases "one_where (\<lambda>f. f_id f = fc_fee k) (fees s)") (auto simp: one_where_None)
  have fin: "f \<in> set (fees s)" "f_id f = fc_fee k" using one_where_Some [OF f] by simp_all
  have "books_ok s1"
  proof (cases "f_status f")
    case FeePaid
    then have "s1 = t" using pay f by (simp add: svc_simps)
    moreover have "books_ok t"
      by (rule review_books [OF assms(2), of ClaimApproved]) (use k fin FeePaid in \<open>auto simp: t_def write_review_def\<close>)
    ultimately show ?thesis by simp
  next
    case FeePending
    define m where "m = (case method of None \<Rightarrow> fc_method k | Some m \<Rightarrow> m)"
    let ?f = "\<lambda>x. x\<lparr>f_status := FeePaid, f_paid_date := Some (school_today c), f_method := Some m\<rparr>"
    let ?u = "s\<lparr>fees := update_where (\<lambda>x. f_id x = f_id f \<and> f_status x = FeePending) ?f (fees s),
       payments := payments s @ [fee_payment c f m reference (next_payment s)]\<rparr>"
    have "mark_paid c reference f m t = (Inr paid, s1)" using pay f FeePending by (simp add: m_def)
    moreover have "list_ex (\<lambda>x. f_id x = f_id f \<and> f_status x = FeePending) (fees s)" using fin FeePending by (auto simp: list_ex_iff)
    ultimately have s1: "fees s1 = fees ?u" "next_fee s1 = next_fee s" "payments s1 = payments ?u"
      "fee_claims s1 = fee_claims t" "next_claim s1 = next_claim s"
      by (auto simp: mark_paid_def svc_simps insert_payment_ok t_def write_review_def)
    have u: "books_ok ?u"
      by (rule settle_books [OF assms(2) fin(1) FeePending, where p = "fee_payment c f m reference (next_payment s)"]) (simp_all add: fee_payment_def receipt_of_def)
    have "?f f \<in> set (fees ?u)" using fin FeePending by (auto simp: set_update_where)
    with k fin show ?thesis
      by (intro review_books [OF u, of ClaimApproved kid]) (auto simp: s1 t_def write_review_def intro!: exI [of _ k] exI [of _ "?f f"])
  qed
  then show ?thesis using s' by (rule books_cong)
qed (use assms in simp)

lemma fee_step_books: "fee_step c s s' \<Longrightarrow> books_ok s \<Longrightarrow> books_ok s'"
  by (erule fee_step.cases)
    (auto intro: create_fee_inv generate_inv pay_fee_inv delete_fee_inv submit_claim_inv approve_claim_inv
      reject_claim_inv create_payment_inv)

lemma fee_run_books: "fee_run s s' \<Longrightarrow> books_ok s \<Longrightarrow> books_ok s'"
  by (induction rule: fee_run.induct) (auto intro: fee_step_books)

subsection \<open>What is written stays\<close>

text \<open>Payments are only added; a paid fee and an approved claim keep their row as it is.\<close>

definition history_kept :: "db \<Rightarrow> db \<Rightarrow> bool" where
  "history_kept s s' \<longleftrightarrow> (\<exists>new. payments s' = payments s @ new)
     \<and> (\<forall>f \<in> set (fees s). f_status f = FeePaid \<longrightarrow> f \<in> set (fees s'))
     \<and> (\<forall>k \<in> set (fee_claims s). fc_status k = ClaimApproved \<longrightarrow> k \<in> set (fee_claims s'))"

lemma kept_refl [simp]: "history_kept s s"
  by (simp add: history_kept_def)

lemma kept_trans: "history_kept s t \<Longrightarrow> history_kept t u \<Longrightarrow> history_kept s u"
  by (fastforce simp: history_kept_def)

lemma kept_same: "same_books s s' \<Longrightarrow> history_kept s s'"
  by (simp add: history_kept_def same_books_def)

lemma kept_insert_fees: "history_kept s (fold (\<lambda>i. insert_fee c g i t a d) ids s)"
proof (induction ids arbitrary: s)
  case (Cons i ids)
  have "history_kept s (insert_fee c g i t a d s)" by (simp add: history_kept_def insert_fee_def)
  then show ?case using kept_trans [OF _ Cons.IH] by simp
qed simp

lemma kept_mark_paid: "mark_paid c reference f m s = (Inr paid, s') \<Longrightarrow> history_kept s s'"
  by (auto simp: mark_paid_def svc_simps insert_payment_ok history_kept_def set_update_where split: if_splits)

lemma kept_review:
  assumes "clms.keys_unique s" and k: "k \<in> set (fee_claims s)" "fc_id k = kid" "fc_status k = ClaimPending"
  shows "history_kept s (write_review c st a kid nt s)"
proof -
  have "x \<in> set (fee_claims (write_review c st a kid nt s))" if x: "x \<in> set (fee_claims s)" "fc_status x = ClaimApproved" for x
  proof -
    have "fc_id x \<noteq> kid" using clms.unique_row [OF assms(1) x(1) k(1)] k(2,3) x(2) by auto
    then show ?thesis using x by (auto simp: write_review_def set_update_where)
  qed
  then show ?thesis by (simp add: history_kept_def write_review_def)
qed

lemma kept_drop:
  assumes "books_ok s" and f: "f \<in> set (fees s)" "f_status f = FeePending" "f_id f = fid"
    and free: "\<not> list_ex (\<lambda>k. fc_fee k = fid \<and> (fc_status k = ClaimPending \<or> fc_status k = ClaimApproved)) (fee_claims s)"
    and drop: "drop_fee fid (s\<lparr>fee_claims := delete_where (\<lambda>k. fc_fee k = fid \<and> fc_status k = ClaimRejected) (fee_claims s)\<rparr>)
      = (Inr (), s')"
  shows "history_kept s s'"
proof -
  have s': "fees s' = delete_where (\<lambda>f. f_id f = fid) (fees s)"
    "payments s' = update_where (\<lambda>p. py_fee p = Some fid) (\<lambda>p. p\<lparr>py_fee := None\<rparr>) (payments s)"
    "fee_claims s' = delete_where (\<lambda>k. fc_fee k = fid \<and> fc_status k = ClaimRejected) (fee_claims s)"
    using drop by (auto simp: drop_fee_def split: if_splits)
  have "fee_payments fid s = []" using assms(1) f by (auto simp: books_ok_def settled_fee_def receipts_due_def)
  then have "payments s' = payments s"
    unfolding s' update_where_def fee_payments_def by (auto simp: filter_empty_conv intro: map_idI)
  moreover have "x \<in> set (fees s')" if x: "x \<in> set (fees s)" "f_status x = FeePaid" for x
  proof -
    have "f_id x \<noteq> fid" using unique_fee [OF assms(1) x(1) f(1)] f(2,3) x(2) by auto
    then show ?thesis using x by (simp add: s' delete_where_def)
  qed
  moreover have "k \<in> set (fee_claims s')" if "k \<in> set (fee_claims s)" "fc_status k = ClaimApproved" for k
    using that by (simp add: s' delete_where_def)
  ultimately show ?thesis by (simp add: history_kept_def)
qed

lemma fee_step_kept:
  assumes "fee_step c s s'" and ok: "books_ok s"
  shows "history_kept s s'"
proof -
  have uniq: "clms.keys_unique s" using ok by (simp add: books_ok_def)
  show ?thesis
    using assms(1)
  proof cases
    case (create actor b r)
    then show ?thesis
      by (cases rule: create_fee_shape) (auto dest: kept_same simp: history_kept_def insert_fee_def)
  next
    case (generate actor b r)
    then show ?thesis
      by (cases rule: generate_shape) (auto intro: kept_trans [OF kept_insert_fees kept_same])
  next
    case (pay reference actor fid m r)
    then show ?thesis
      by (cases rule: pay_fee_shape) (auto intro: kept_trans [OF kept_mark_paid kept_same])
  next
    case (delete actor fid r)
    then show ?thesis
      by (cases rule: delete_fee_shape) (auto intro: kept_trans [OF kept_drop [OF ok] kept_same])
  next
    case (submit stored student fid m reference_no nt r)
    then show ?thesis by (cases rule: submit_claim_shape) (auto simp: history_kept_def)
  next
    case (approve reference actor kid nt how r)
    then show ?thesis
    proof (cases rule: approve_claim_shape)
      case (2 k paid s1)
      have "history_kept (write_review c ClaimApproved (cu_id actor) kid nt s) s1"
        using 2(4) by (auto simp: svc_simps dest: kept_mark_paid split: option.splits if_splits)
      then show ?thesis using kept_trans [OF kept_review [OF uniq 2(1-3)]] kept_trans kept_same [OF 2(5)] by blast
    qed simp
  next
    case (reject actor kid nt r)
    then show ?thesis
      by (cases rule: reject_claim_shape) (auto intro: kept_trans [OF kept_review [OF uniq] kept_same])
  next
    case (manual_payment reference actor b r)
    then show ?thesis by (cases rule: create_payment_shape) (auto simp: history_kept_def)
  qed
qed

lemma fee_run_kept: "fee_run s s' \<Longrightarrow> books_ok s \<Longrightarrow> history_kept s s'"
  by (induction rule: fee_run.induct) (auto intro: kept_trans fee_step_kept fee_run_books)

end
