(* ===== verification/Fees_Claims.thy ===== *)
theory Fees_Claims
  imports Fees_Props Hr_Claims
begin

text \<open>
  The properties of the fees: the books balance, paying has exactly one winner, generating is
  idempotent and nothing that was paid disappears.
\<close>

subsection \<open>Sums\<close>

lemma sum_list_swap:
  "sum_list (map (\<lambda>x. sum_list (map (h x) ys)) xs) = sum_list (map (\<lambda>y. sum_list (map (\<lambda>x. h x y) xs)) ys)"
  for h :: "'a \<Rightarrow> 'b \<Rightarrow> int"
  by (induction xs) (simp_all add: sum_list_addf)

lemma sum_list_one:
  fixes a :: int
  assumes "distinct (map k xs)"
  shows "sum_list (map (\<lambda>x. if j = k x then a else 0) xs) = (if j \<in> k ` set xs then a else 0)"
proof -
  have "sum_list (map (\<lambda>y. if j = y then a else 0) ys) = (if j \<in> set ys then a else 0)" if "distinct ys" for ys
    using that by (induction ys) auto
  from this [OF assms] show ?thesis by (simp add: comp_def)
qed

lemma collected_balance:
  assumes ok: "books_ok s"
  shows "amount_where (\<lambda>f. f_status f = FeePaid) (filter (\<lambda>f. f_org f = g) (fees s))
    = paid_total (\<lambda>p. py_fee p \<noteq> None) (filter (\<lambda>p. py_org p = g) (payments s))"
proof -
  let ?fs = "filter (\<lambda>f. f_org f = g) (fees s)"
  let ?h = "\<lambda>f p. if py_fee p = Some (f_id f) then py_amount p else 0"
  have one: "(if f_status f = FeePaid then f_amount f else 0) = sum_list (map (?h f) (payments s))" if f: "f \<in> set ?fs" for f
  proof -
    have "map receipt_of (fee_payments (f_id f) s) = receipts_due f" using ok f by (simp add: books_ok_def settled_fee_def)
    then have "map (fst \<circ> snd \<circ> snd) (map receipt_of (fee_payments (f_id f) s)) = map (fst \<circ> snd \<circ> snd) (receipts_due f)" by simp
    then have "map py_amount (fee_payments (f_id f) s) = (if f_status f = FeePaid then [f_amount f] else [])"
      by (auto simp: receipts_due_def receipt_of_def comp_def)
    then have "sum_list (map py_amount (fee_payments (f_id f) s)) = (if f_status f = FeePaid then f_amount f else 0)" by simp
    then show ?thesis by (simp add: fee_payments_def sum_list_map_filter')
  qed
  have dist: "distinct (map f_id ?fs)" using ok by (simp add: books_ok_def fes.keys_unique_def distinct_map_filter)
  have inner: "sum_list (map (\<lambda>f. ?h f p) ?fs) = (if py_org p = g \<and> py_status p = PaySuccess \<and> py_fee p \<noteq> None then py_amount p else 0)"
    if p: "p \<in> set (payments s)" for p
  proof (cases "py_fee p")
    case (Some i)
    have "sum_list (map (\<lambda>f. if i = f_id f then py_amount p else 0) ?fs) = (if i \<in> f_id ` set ?fs then py_amount p else 0)"
      by (rule sum_list_one [OF dist])
    moreover have "i \<in> f_id ` set (fees s)" using ok p Some by (simp add: books_ok_def)
    then obtain f where f: "f \<in> set (fees s)" "f_id f = i" by auto
    then have "map receipt_of (fee_payments i s) = receipts_due f" using ok by (auto simp: books_ok_def settled_fee_def)
    moreover have "receipt_of p \<in> set (map receipt_of (fee_payments i s))" using p Some by (simp add: fee_payments_def)
    ultimately have sum: "sum_list (map (\<lambda>f. if i = f_id f then py_amount p else 0) ?fs) = (if i \<in> f_id ` set ?fs then py_amount p else 0)"
      and rc: "py_org p = f_org f" "py_status p = PaySuccess"
      by (auto simp: receipts_due_def receipt_of_def split: if_splits)
    have "i \<in> f_id ` set ?fs \<longleftrightarrow> f_org f = g"
    proof
      assume "i \<in> f_id ` set ?fs"
      then obtain x where "x \<in> set (fees s)" "f_org x = g" "f_id x = i" by auto
      then show "f_org f = g" using unique_fee [OF ok _ f(1)] f(2) by metis
    qed (use f in auto)
    with sum rc Some show ?thesis by simp
  qed (simp add: sum_list_0)
  have "amount_where (\<lambda>f. f_status f = FeePaid) ?fs = sum_list (map (\<lambda>f. if f_status f = FeePaid then f_amount f else 0) ?fs)"
    by (simp only: amount_where_def sum_list_map_filter')
  also have "\<dots> = sum_list (map (\<lambda>f. sum_list (map (?h f) (payments s))) ?fs)"
    by (rule arg_cong [where f = sum_list], rule map_cong [OF refl one])
  also have "\<dots> = sum_list (map (\<lambda>p. sum_list (map (\<lambda>f. ?h f p) ?fs)) (payments s))" by (rule sum_list_swap)
  also have "\<dots> = sum_list (map (\<lambda>p. if py_org p = g \<and> py_status p = PaySuccess \<and> py_fee p \<noteq> None then py_amount p else 0) (payments s))"
    by (rule arg_cong [where f = sum_list], rule map_cong [OF refl inner])
  also have "\<dots> = paid_total (\<lambda>p. py_fee p \<noteq> None) (filter (\<lambda>p. py_org p = g) (payments s))"
    by (simp only: paid_total_def filter_filter sum_list_map_filter' conj_ac)
  finally show ?thesis .
qed

subsection \<open>A school with a fee\<close>

definition demo_fee :: fee_row where
  "demo_fee = new_fee_row (demo 0) 1 4 ''Term 1'' 1250000 (Some 739760) 1"

definition demo_billed :: db where
  "demo_billed = demo_school\<lparr>fees := [demo_fee], next_fee := 2\<rparr>"

lemma demo_billed_fields [simp]:
  "bound_org demo_billed = Some 1" "users demo_billed = users demo_db" "fees demo_billed = [demo_fee]" "next_fee demo_billed = 2"
  "payments demo_billed = []" "next_payment demo_billed = 1" "fee_claims demo_billed = []" "next_claim demo_billed = 1"
  by (simp_all add: demo_billed_def demo_school_def demo_db_def empty_db_def)

lemma demo_fee_fields [simp]:
  "f_id demo_fee = 1" "f_org demo_fee = 1" "f_student demo_fee = 4" "f_amount demo_fee = 1250000" "f_status demo_fee = FeePending"
  by (simp_all add: demo_fee_def new_fee_row_def)

lemma demo_billed_ok: "books_ok demo_billed"
  by (simp add: books_ok_def fes.keys_unique_def clms.keys_unique_def settled_fee_def fee_payments_def receipts_due_def pairwise_ok_def)

lemma demo_fee_route: "\<exists>d. route ''fee'' True = Inr d"
  by (cases "route ''fee'' True") (auto simp: route_def STUDENT_ROUTES_def)

lemma demo_pay:
  "\<exists>s'. pay_fee (demo 0) ''TXN1'' demo_head 1 Upi demo_billed = (Inr ''TXN1'', s')
     \<and> payments s' = [fee_payment (demo 0) demo_fee Upi ''TXN1'' 1] \<and> bound_org s' = Some 1"
proof -
  obtain d where d: "route ''fee'' True = Inr d" using demo_fee_route by blast
  show ?thesis
    by (simp add: pay_fee_def transaction_def handler_defs org_of_def fee_in_def one_where_def mark_paid_def
        insert_payment_def notify_paid_def fee_route_def d Let_def)
qed

text \<open>C30: Over any run of the fee operations the books balance: a paid fee has exactly one payment, a
  successful one of its amount, student and school, an unpaid fee has none, and the collected total of the
  fee page is the sum of the successful fee payments of the history.\<close>

theorem books_balance:
  assumes "fee_run s s'" and "books_ok s"
  shows "(\<forall>f \<in> set (fees s'). map (\<lambda>p. (py_org p, py_student p, py_amount p, py_status p))
        (filter (\<lambda>p. py_fee p = Some (f_id f)) (payments s'))
      = (if f_status f = FeePaid then [(f_org f, Some (f_student f), f_amount f, PaySuccess)] else []))
    \<and> (\<forall>c g st. bound_org s' = Some g \<and> fee_stats_of c s' = Inr st \<longrightarrow>
        fs_collected st = paid_total (\<lambda>p. py_fee p \<noteq> None) (filter (\<lambda>p. py_org p = g) (payments s')))"
proof (intro conjI ballI allI impI)
  have ok: "books_ok s'" by (rule fee_run_books [OF assms])
  fix f assume "f \<in> set (fees s')"
  then have "settled_fee s' f" using ok by (simp add: books_ok_def)
  moreover have "receipt_of = (\<lambda>p. (py_org p, py_student p, py_amount p, py_status p))" by (simp add: receipt_of_def fun_eq_iff)
  ultimately show "map (\<lambda>p. (py_org p, py_student p, py_amount p, py_status p))
        (filter (\<lambda>p. py_fee p = Some (f_id f)) (payments s'))
      = (if f_status f = FeePaid then [(f_org f, Some (f_student f), f_amount f, PaySuccess)] else [])"
    by (simp add: settled_fee_def fee_payments_def receipts_due_def)
next
  fix c g st assume "bound_org s' = Some g \<and> fee_stats_of c s' = Inr st"
  then have "fs_collected st = amount_where (\<lambda>f. f_status f = FeePaid) (filter (\<lambda>f. f_org f = g) (fees s'))"
    by (auto simp: fee_stats_of_def org_of_def Let_def)
  then show "fs_collected st = paid_total (\<lambda>p. py_fee p \<noteq> None) (filter (\<lambda>p. py_org p = g) (payments s'))"
    using collected_balance [OF fee_run_books [OF assms]] by simp
qed

theorem books_balance_witness:
  "\<exists>s'. fee_run demo_billed s' \<and> length (payments s') = 1 \<and> (\<exists>st. fee_stats_of (demo 0) s' = Inr st \<and> fs_collected st = 1250000)"
proof -
  obtain s' where run: "pay_fee (demo 0) ''TXN1'' demo_head 1 Upi demo_billed = (Inr ''TXN1'', s')"
    and ps: "payments s' = [fee_payment (demo 0) demo_fee Upi ''TXN1'' 1]" and g: "bound_org s' = Some 1" using demo_pay by blast
  have r: "fee_run demo_billed s'" by (rule fee_run.step [OF fee_run.start fee_step.pay [OF run]])
  obtain st where st: "fee_stats_of (demo 0) s' = Inr st" using g by (auto simp: fee_stats_of_def org_of_def Let_def)
  have "fs_collected st = paid_total (\<lambda>p. py_fee p \<noteq> None) (filter (\<lambda>p. py_org p = 1) (payments s'))"
    using books_balance [OF r demo_billed_ok] g st by blast
  then have "fs_collected st = 1250000" by (simp add: ps paid_total_def fee_payment_def)
  with r ps st show ?thesis by auto
qed


subsection \<open>Generating\<close>

lemma insert_fees_rows:
  "\<exists>new. fees (fold (\<lambda>i. insert_fee c g i t a d) ids s) = fees s @ new \<and> length new = length ids"
proof (induction ids arbitrary: s)
  case (Cons i ids)
  have row: "fees (insert_fee c g i t a d s) = fees s @ [new_fee_row c g i t a d (next_fee s)]" by (simp add: insert_fee_def)
  obtain new where "fees (fold (\<lambda>i. insert_fee c g i t a d) ids (insert_fee c g i t a d s))
      = fees s @ new_fee_row c g i t a d (next_fee s) # new" "length new = length ids"
    using Cons.IH [of "insert_fee c g i t a d s"] row by auto
  then show ?case by (intro exI [of _ "new_fee_row c g i t a d (next_fee s) # new"]) simp
qed simp

lemma insert_fees_has:
  "i \<in> set ids \<Longrightarrow> \<exists>f \<in> set (fees (fold (\<lambda>i. insert_fee c g i t a d) ids s)). f_student f = i \<and> f_title f = t"
proof (induction ids arbitrary: s)
  case (Cons j ids)
  have keep: "f \<in> set (fees s) \<Longrightarrow> f \<in> set (fees (fold (\<lambda>i. insert_fee c g i t a d) ids s))" for f s
    by (induction ids arbitrary: s) (simp_all add: insert_fee_def)
  show ?case
  proof (cases "i = j")
    case True
    have "new_fee_row c g j t a d (next_fee s) \<in> set (fees (insert_fee c g j t a d s))" by (simp add: insert_fee_def)
    from keep [OF this] True show ?thesis by (auto simp: new_fee_row_def intro!: bexI)
  qed (use Cons in simp)
qed simp

text \<open>C34: Generating the fees of a class is idempotent: afterwards every active student of the class has
  a fee of the title, nobody who had one got a second, and the same call again creates nothing.\<close>

theorem generate_idempotent:
  assumes "generate_class_fees c actor b s = (Inr (created, students), s')"
  shows "created = length (without_fee c (gb_class b) (gb_title b) s) \<and> students = length (class_students (gb_class b) s)
    \<and> length (fees s') = length (fees s) + created
    \<and> (\<forall>i \<in> set (class_students (gb_class b) s'). \<exists>f \<in> set (fees s'). f_student f = i \<and> sql_eq c (f_title f) (gb_title b))
    \<and> (\<forall>actor2. generate_class_fees c actor2 b s' = (Inr (0, students), s'))"
  using assms
proof (cases rule: generate_shape)
  case (2 g y)
  let ?new = "without_fee c (gb_class b) (gb_title b) s"
  let ?t = "fold (\<lambda>i. insert_fee c g i (gb_title b) y (gb_due b)) (sort ?new) s"
  have fs: "fees s' = fees ?t" using 2(2) by (simp add: same_books_def)
  have cs: "class_students (gb_class b) s' = class_students (gb_class b) s" using 2(4-6) by (simp add: class_students_def)
  have has: "\<exists>f \<in> set (fees s'). f_student f = i \<and> sql_eq c (f_title f) (gb_title b)" if i: "i \<in> set (class_students (gb_class b) s)" for i
  proof (cases "i \<in> set ?new")
    case True
    then have "i \<in> set (sort ?new)" by simp
    from insert_fees_has [OF this, of c g "gb_title b" y "gb_due b" s] fs show ?thesis by (auto intro: sql_eq_refl)
  next
    case False
    then have "\<exists>f \<in> set (fees s). f_student f = i \<and> sql_eq c (f_title f) (gb_title b)"
      using i by (auto simp: without_fee_def list_ex_iff)
    with insert_fees_rows [of c g "gb_title b" y "gb_due b" "sort ?new" s] show ?thesis by (auto simp: fs)
  qed
  then have none: "without_fee c (gb_class b) (gb_title b) s' = []"
    by (auto simp: without_fee_def filter_empty_conv list_ex_iff cs)
  obtain x where "bound_org s' = Some g" "y \<noteq> 0"
    "one_where (\<lambda>x. cl_id x = gb_class b \<and> cl_org x = g) (classes s') = Some x" "cl_fee x = Some y"
    using 2(1,6,7) by (auto simp: cl_org_fee_def)
  then have "generate_class_fees c actor2 b s' = (Inr (0, length (class_students (gb_class b) s)), s')" for actor2
    by (simp add: generate_class_fees_def transaction_def handler_defs org_of_def none cs)
  moreover have "length (fees s') = length (fees s) + length ?new"
    using insert_fees_rows [of c g "gb_title b" y "gb_due b" "sort ?new" s] by (auto simp: fs)
  ultimately show ?thesis using has 2(3) cs by simp
qed (use assms in simp)

definition demo_enrolled :: db where
  "demo_enrolled = demo_school\<lparr>student_profiles := [\<lparr>sp_user = 4, sp_org = 1, sp_class = Some 5, sp_section = Some 6, sp_last_class = None, sp_last_section = None,
     sp_roll = Some ''1'', sp_admission = Some ''A1'', sp_dob = None, sp_father = None, sp_mother = None, sp_guardian_phone = None,
     sp_address = None\<rparr>]\<rparr>"

lemma demo_generate:
  "\<exists>s'. generate_class_fees (demo 0) demo_head \<lparr>gb_class = 5, gb_title = ''Term 2'', gb_due = None\<rparr> demo_enrolled = (Inr (1, 1), s')"
proof -
  obtain d where d: "route ''fee'' True = Inr d" using demo_fee_route by blast
  show ?thesis
    by (simp add: generate_class_fees_def transaction_def handler_defs org_of_def demo_enrolled_def demo_school_def one_where_def
        without_fee_def class_students_def insert_fee_def notify_new_fee_def fee_route_def d demo_db_def empty_db_def)
qed

theorem generate_idempotent_witness:
  "\<exists>s'. generate_class_fees (demo 0) demo_head \<lparr>gb_class = 5, gb_title = ''Term 2'', gb_due = None\<rparr> demo_enrolled = (Inr (1, 1), s')
    \<and> generate_class_fees (demo 0) demo_head \<lparr>gb_class = 5, gb_title = ''Term 2'', gb_due = None\<rparr> s' = (Inr (0, 1), s')"
  using demo_generate generate_idempotent by blast

subsection \<open>The history\<close>

text \<open>C33: Over any run of the fee operations nothing that was paid disappears or changes: payments are
  only appended, paid fees and approved claims keep their row.\<close>

theorem money_never_erased:
  assumes "fee_run s s'" and "books_ok s"
  shows "(\<exists>new. payments s' = payments s @ new) \<and> (\<forall>f \<in> set (fees s). f_status f = FeePaid \<longrightarrow> f \<in> set (fees s'))
    \<and> (\<forall>k \<in> set (fee_claims s). fc_status k = ClaimApproved \<longrightarrow> k \<in> set (fee_claims s'))"
  using fee_run_kept [OF assms] by (simp add: history_kept_def)

definition demo_paid_fee :: fee_row where
  "demo_paid_fee = demo_fee\<lparr>f_status := FeePaid, f_paid_date := Some 739748, f_method := Some Cash\<rparr>"

definition demo_settled :: db where
  "demo_settled = demo_school\<lparr>fees := [demo_paid_fee], next_fee := 2,
     payments := [fee_payment (demo 0) demo_fee Cash ''TXN1'' 1], next_payment := 2\<rparr>"

lemma demo_settled_fields [simp]:
  "bound_org demo_settled = Some 1" "fees demo_settled = [demo_paid_fee]" "next_fee demo_settled = 2"
  "payments demo_settled = [fee_payment (demo 0) demo_fee Cash ''TXN1'' 1]" "fee_claims demo_settled = []"
  by (simp_all add: demo_settled_def demo_school_def demo_db_def empty_db_def)

lemma demo_settled_ok: "books_ok demo_settled"
  by (simp add: books_ok_def fes.keys_unique_def clms.keys_unique_def settled_fee_def fee_payments_def receipts_due_def
      receipt_of_def fee_payment_def pairwise_ok_def demo_paid_fee_def)

theorem money_never_erased_witness:
  "\<exists>s' r. delete_fee (demo 0) demo_head 1 demo_settled = (r, s') \<and> demo_paid_fee \<in> set (fees s')"
proof -
  obtain r s' where run: "delete_fee (demo 0) demo_head 1 demo_settled = (r, s')" by fastforce
  have "fee_run demo_settled s'" by (rule fee_run.step [OF fee_run.start fee_step.delete [OF run]])
  from money_never_erased [OF this demo_settled_ok] run show ?thesis by (auto simp: demo_paid_fee_def)
qed

subsection \<open>Rounding\<close>

text \<open>An amount the body check accepts as positive is stored as nothing.\<close>

lemma fee_rounds_to_zero:
  "parse_fee \<lparr>fb_student = 4, fb_title = ''Fine'', fb_amount = 1/1000, fb_due = None\<rparr>
     = Inr \<lparr>fb_student = 4, fb_title = ''Fine'', fb_amount = 1/1000, fb_due = None\<rparr>"
  "to_paise (1/1000) = 0"
  by (simp_all add: parse_fee_def to_paise_def floor_eq_iff)

end
