(* ===== verification/Jobs.thy ===== *)
theory Jobs
  imports "HOL-Library.Product_Lexorder" Calendar Errors
begin

text \<open>
  The background queue, \<^verbatim>\<open>app/services/background.py\<close> and the table of migration 0016: jobs are
  rows, run by any number of workers. What a job's function does is outside the queue: a run of it
  \<open>Returned\<close> or \<open>Raised\<close> an error. Importing a task's module and opening an encrypted payload are
  parameters.
\<close>

subsection \<open>The table\<close>

datatype job_status = JobPending | JobRunning | JobFailed | JobDone

record job_row =
  j_id :: int
  j_kind :: string
  j_payload :: "string option"
  j_status :: job_status
  j_attempts :: int
  j_max :: int
  j_run_after :: datetime
  j_locked_by :: "string option"
  j_locked_at :: "datetime option"
  j_error :: "string option"
  j_created :: datetime
  j_finished :: "datetime option"

record job_queue =
  jobs :: "job_row list"
  next_job :: int

datatype job_outcome = Returned | Raised string

definition BACKOFF_SECONDS :: "int list" where "BACKOFF_SECONDS = [10, 60, 300, 1800, 7200]"
definition CLAIM_BATCH :: nat where "CLAIM_BATCH = 20"
definition HANDLER_PREFIX :: string where "HANDLER_PREFIX = ''app.''"

definition job_of :: "int \<Rightarrow> job_queue \<Rightarrow> job_row option" where
  "job_of i q = one_where (\<lambda>j. j_id j = i) (jobs q)"

definition set_job :: "int \<Rightarrow> (job_row \<Rightarrow> job_row) \<Rightarrow> job_queue \<Rightarrow> job_queue" where
  "set_job i f q = q\<lparr>jobs := update_where (\<lambda>j. j_id j = i) f (jobs q)\<rparr>"

subsection \<open>Registered tasks\<close>

text \<open>
  \<open>_handler\<close>: the task of a name among those registered, importing its module when it is one of the
  program's. \<open>imports\<close> gives the tasks a module registers, None when importing it raises.
\<close>

datatype lookup_result = TaskFound | TaskUnknown | ImportFailed

definition module_of :: "string \<Rightarrow> string" where
  "module_of name = takeWhile (\<lambda>c. c \<noteq> CHR '':'') name"

definition find_task :: "(string \<Rightarrow> string list option) \<Rightarrow> string \<Rightarrow> string list \<Rightarrow> lookup_result \<times> string list" where
  "find_task imports name tasks =
     (if name \<in> set tasks then (TaskFound, tasks)
      else if is_prefix HANDLER_PREFIX (module_of name) then
        (case imports (module_of name) of
           None \<Rightarrow> (ImportFailed, tasks)
         | Some new \<Rightarrow> (if name \<in> set (tasks @ new) then TaskFound else TaskUnknown, tasks @ new))
      else (TaskUnknown, tasks))"

subsection \<open>Enqueueing\<close>

text \<open>\<open>payload\<close> is the sealed argument list (\<open>_seal\<close>), \<open>attempts\<close> the bound of the task's decorator.\<close>

definition enqueue :: "string \<Rightarrow> string \<Rightarrow> int \<Rightarrow> int \<Rightarrow> datetime \<Rightarrow> job_queue \<Rightarrow> job_queue" where
  "enqueue kind payload attempts delay_seconds now q = q\<lparr>jobs := jobs q @ [\<lparr>j_id = next_job q, j_kind = kind,
     j_payload = Some payload, j_status = JobPending, j_attempts = 0, j_max = attempts,
     j_run_after = now + delay_seconds * us_per_second, j_locked_by = None, j_locked_at = None, j_error = None,
     j_created = now, j_finished = None\<rparr>], next_job := next_job q + 1\<rparr>"

subsection \<open>Running\<close>

text \<open>Jobs left running for too long go back to the queue.\<close>

definition release_stuck :: "int \<Rightarrow> datetime \<Rightarrow> job_queue \<Rightarrow> job_queue" where
  "release_stuck stuck_minutes now q = q\<lparr>jobs := update_where (\<lambda>j. j_status j = JobRunning
       \<and> (case j_locked_at j of None \<Rightarrow> False | Some t \<Rightarrow> t < now - stuck_minutes * 60 * us_per_second))
     (\<lambda>j. j\<lparr>j_status := JobPending, j_locked_by := None\<rparr>) (jobs q)\<rparr>"

definition due_jobs :: "datetime \<Rightarrow> nat \<Rightarrow> job_queue \<Rightarrow> int list" where
  "due_jobs now limit q = map j_id (take limit (sort_key (\<lambda>j. (j_run_after j, j_id j))
     (filter (\<lambda>j. j_status j = JobPending \<and> j_run_after j \<le> now) (jobs q))))"

text \<open>The claim: one UPDATE, which counts its row only for the worker that came first.\<close>

definition claim_job :: "string \<Rightarrow> datetime \<Rightarrow> int \<Rightarrow> job_queue \<Rightarrow> bool \<times> job_queue" where
  "claim_job worker now i q =
     (list_ex (\<lambda>j. j_id j = i \<and> j_status j = JobPending) (jobs q),
      q\<lparr>jobs := update_where (\<lambda>j. j_id j = i \<and> j_status j = JobPending)
        (\<lambda>j. j\<lparr>j_status := JobRunning, j_locked_by := Some worker, j_locked_at := Some now,
               j_attempts := j_attempts j + 1\<rparr>) (jobs q)\<rparr>)"

definition finish_job :: "int \<Rightarrow> job_status \<Rightarrow> string option \<Rightarrow> datetime \<Rightarrow> job_queue \<Rightarrow> job_queue" where
  "finish_job i st error now = set_job i (\<lambda>j. j\<lparr>j_status := st, j_finished := Some now, j_error := error,
     j_locked_by := None, j_payload := (if st = JobDone then None else j_payload j)\<rparr>)"

text \<open>\<open>BACKOFF_SECONDS[min(attempts, 5) - 1]\<close>, where an index of -1 is the last entry.\<close>

definition backoff :: "int \<Rightarrow> int" where
  "backoff attempts = BACKOFF_SECONDS ! nat ((min attempts (int (length BACKOFF_SECONDS)) - 1) mod int (length BACKOFF_SECONDS))"

text \<open>What the worker that loaded \<open>row\<close> writes when the function has ended.\<close>

definition after_run :: "job_row \<Rightarrow> job_outcome \<Rightarrow> datetime \<Rightarrow> job_queue \<Rightarrow> job_queue" where
  "after_run row outcome now q = (case outcome of
     Returned \<Rightarrow> finish_job (j_id row) JobDone None now q
   | Raised e \<Rightarrow>
       if j_max row \<le> j_attempts row then finish_job (j_id row) JobFailed (Some (take 500 e)) now q
       else set_job (j_id row) (\<lambda>j. j\<lparr>j_status := JobPending, j_locked_by := None,
              j_run_after := now + backoff (j_attempts row) * us_per_second, j_error := Some (take 500 e)\<rparr>) q)"

text \<open>
  Why a loaded job cannot run: no such task, or a payload \<open>opens\<close> refuses (a wrong key or an erased
  payload). A module that cannot be imported is neither: the exception leaves \<open>_run_job\<close>.
\<close>

definition unrunnable :: "(string \<Rightarrow> string option) \<Rightarrow> job_row \<Rightarrow> lookup_result \<Rightarrow> string option" where
  "unrunnable opens row found =
     (if found = TaskUnknown then Some (''LookupError: Unknown background task '' @ quote_char # j_kind row @ [quote_char])
      else opens (case j_payload row of None \<Rightarrow> '''' | Some p \<Rightarrow> p))"

record job_env =
  je_worker :: string
  je_stuck_minutes :: int
  je_imports :: "string \<Rightarrow> string list option"
  je_opens :: "string \<Rightarrow> string option"

text \<open>\<open>_run_job\<close>: \<open>False\<close> when an exception leaves it. \<open>run\<close> is what the function does with the loaded row.\<close>

definition run_job :: "job_env \<Rightarrow> (job_row \<Rightarrow> job_outcome) \<Rightarrow> datetime \<Rightarrow> int \<Rightarrow> string list \<Rightarrow> job_queue
    \<Rightarrow> bool \<times> string list \<times> job_queue" where
  "run_job env run now i tasks q = (case job_of i q of
     None \<Rightarrow> (True, tasks, q)
   | Some row \<Rightarrow> (case find_task (je_imports env) (j_kind row) tasks of
       (ImportFailed, tasks') \<Rightarrow> (False, tasks', q)
     | (found, tasks') \<Rightarrow> (case unrunnable (je_opens env) row found of
          Some e \<Rightarrow> (True, tasks', finish_job i JobFailed (Some e) now q)
        | None \<Rightarrow> (True, tasks', after_run row (run row) now q))))"

text \<open>The loop over the due jobs; \<open>clock i\<close> are the times job \<open>i\<close> is claimed and ends.\<close>

fun run_due :: "job_env \<Rightarrow> (int \<Rightarrow> datetime \<times> datetime) \<Rightarrow> (job_row \<Rightarrow> job_outcome) \<Rightarrow> int list \<Rightarrow> nat
    \<Rightarrow> string list \<Rightarrow> job_queue \<Rightarrow> nat option \<times> string list \<times> job_queue" where
  "run_due env clock run [] cnt tasks q = (Some cnt, tasks, q)"
| "run_due env clock run (i # is) cnt tasks q =
     (case claim_job (je_worker env) (fst (clock i)) i q of
        (False, q1) \<Rightarrow> run_due env clock run is cnt tasks q1
      | (True, q1) \<Rightarrow> (case run_job env run (snd (clock i)) i tasks q1 of
          (False, tasks', q2) \<Rightarrow> (None, tasks', q2)
        | (True, tasks', q2) \<Rightarrow> run_due env clock run is (cnt + 1) tasks' q2))"

definition run_pending :: "job_env \<Rightarrow> datetime \<Rightarrow> (int \<Rightarrow> datetime \<times> datetime) \<Rightarrow> (job_row \<Rightarrow> job_outcome) \<Rightarrow> nat
    \<Rightarrow> string list \<Rightarrow> job_queue \<Rightarrow> nat option \<times> string list \<times> job_queue" where
  "run_pending env now clock run limit tasks q =
     (let q1 = release_stuck (je_stuck_minutes env) now q
      in run_due env clock run (due_jobs now limit q1) 0 tasks q1)"

subsection \<open>Operating the queue\<close>

definition retry_failed :: "datetime \<Rightarrow> job_queue \<Rightarrow> nat \<times> job_queue" where
  "retry_failed now q = (length (filter (\<lambda>j. j_status j = JobFailed \<and> j_payload j \<noteq> None) (jobs q)),
     q\<lparr>jobs := update_where (\<lambda>j. j_status j = JobFailed \<and> j_payload j \<noteq> None)
        (\<lambda>j. j\<lparr>j_status := JobPending, j_attempts := 0, j_run_after := now, j_finished := None\<rparr>) (jobs q)\<rparr>)"

text \<open>\<open>queue_status\<close>: how many wait, run and failed, and when the oldest waiting one was due.\<close>

definition queue_status :: "job_queue \<Rightarrow> nat \<times> nat \<times> nat \<times> datetime option" where
  "queue_status q = (let n = (\<lambda>st. length (filter (\<lambda>j. j_status j = st) (jobs q)));
       waiting = map j_run_after (filter (\<lambda>j. j_status j = JobPending) (jobs q))
     in (n JobPending, n JobRunning, n JobFailed, if waiting = [] then None else Some (Min (set waiting))))"

end
