(* ===== verification/Jobs_Machine.thy ===== *)
theory Jobs_Machine
  imports Jobs
begin

text \<open>
  Any number of workers on one queue. A run is in progress from the claim until its worker writes the
  result; the worker may die in between, and a sweep may hand its job to another one. The log keeps
  how the runs ended.
\<close>

record jobs_state =
  queue :: job_queue
  held :: "(string \<times> job_row) list"
  run_log :: "(int \<times> job_outcome) list"

inductive job_work :: "jobs_state \<Rightarrow> jobs_state \<Rightarrow> bool" where
  claim: "claim_job w now i (queue s) = (True, q) \<Longrightarrow> job_of i q = Some row
    \<Longrightarrow> s' = s\<lparr>queue := q, held := held s @ [(w, row)]\<rparr> \<Longrightarrow> job_work s s'"
| complete: "(w, row) \<in> set (held s)
    \<Longrightarrow> s' = s\<lparr>queue := after_run row outcome now (queue s), held := remove1 (w, row) (held s),
           run_log := run_log s @ [(j_id row, outcome)]\<rparr> \<Longrightarrow> job_work s s'"
| give_up: "(w, row) \<in> set (held s)
    \<Longrightarrow> s' = s\<lparr>queue := finish_job (j_id row) JobFailed (Some e) now (queue s), held := remove1 (w, row) (held s)\<rparr>
    \<Longrightarrow> job_work s s'"
| die: "(w, row) \<in> set (held s) \<Longrightarrow> s' = s\<lparr>held := remove1 (w, row) (held s)\<rparr> \<Longrightarrow> job_work s s'"

inductive job_admin :: "jobs_state \<Rightarrow> jobs_state \<Rightarrow> bool" where
  enqueue: "0 < attempts \<Longrightarrow> s' = s\<lparr>queue := enqueue kind payload attempts delay now (queue s)\<rparr> \<Longrightarrow> job_admin s s'"
| retry: "s' = s\<lparr>queue := snd (retry_failed now (queue s))\<rparr> \<Longrightarrow> job_admin s s'"

inductive job_sweep :: "jobs_state \<Rightarrow> jobs_state \<Rightarrow> bool" where
  sweep: "s' = s\<lparr>queue := release_stuck m now (queue s)\<rparr> \<Longrightarrow> job_sweep s s'"

inductive job_run :: "bool \<Rightarrow> jobs_state \<Rightarrow> jobs_state \<Rightarrow> bool" for sweeps where
  start: "job_run sweeps s s"
| work: "job_run sweeps s t \<Longrightarrow> job_work t u \<Longrightarrow> job_run sweeps s u"
| admin: "job_run sweeps s t \<Longrightarrow> job_admin t u \<Longrightarrow> job_run sweeps s u"
| swept: "sweeps \<Longrightarrow> job_run sweeps s t \<Longrightarrow> job_sweep t u \<Longrightarrow> job_run sweeps s u"

subsection \<open>Nothing is lost\<close>

definition ran_well :: "int \<Rightarrow> jobs_state \<Rightarrow> bool" where
  "ran_well i s \<longleftrightarrow> (i, Returned) \<in> set (run_log s)"

definition durable :: "jobs_state \<Rightarrow> bool" where
  "durable s \<longleftrightarrow> (\<forall>j \<in> set (jobs (queue s)). (j_payload j = None \<or> j_status j = JobDone) \<longrightarrow> ran_well (j_id j) s)"

text \<open>Every write keeps a job's identity, and its payload until a run returned.\<close>

definition keeps_job :: "(int \<Rightarrow> bool) \<Rightarrow> job_row \<Rightarrow> job_row \<Rightarrow> bool" where
  "keeps_job ok j j' \<longleftrightarrow> j_id j' = j_id j \<and> j_kind j' = j_kind j \<and> j_max j' = j_max j \<and> j_created j' = j_created j
     \<and> (j_payload j' = j_payload j \<or> ok (j_id j)) \<and> (j_status j' = JobDone \<longrightarrow> j_status j = JobDone \<or> ok (j_id j))"

definition jobs_kept :: "(int \<Rightarrow> bool) \<Rightarrow> job_queue \<Rightarrow> job_queue \<Rightarrow> bool" where
  "jobs_kept ok q q' \<longleftrightarrow> (\<exists>f new. jobs q' = map f (jobs q) @ new \<and> (\<forall>j. keeps_job ok j (f j))
     \<and> (\<forall>j \<in> set new. j_payload j \<noteq> None \<and> j_status j = JobPending))"

lemma kept_update:
  assumes "\<And>j. P j \<Longrightarrow> keeps_job ok j (f j)"
  shows "jobs_kept ok q (q\<lparr>jobs := update_where P f (jobs q)\<rparr>)"
proof -
  have "keeps_job ok j j" for j by (simp add: keeps_job_def)
  then show ?thesis unfolding jobs_kept_def update_where_def
    using assms by (intro exI [of _ "\<lambda>j. if P j then f j else j"] exI [of _ "[]"]) simp
qed

lemma kept_set_job: "(\<And>j. j_id j = i \<Longrightarrow> keeps_job ok j (f j)) \<Longrightarrow> jobs_kept ok q (set_job i f q)"
  unfolding set_job_def by (rule kept_update)

lemma claim_kept: "claim_job w now i q = (b, q') \<Longrightarrow> jobs_kept ok q q'"
  by (auto simp: claim_job_def keeps_job_def intro!: kept_update)

lemma finish_kept: "st = JobDone \<longrightarrow> ok i \<Longrightarrow> jobs_kept ok q (finish_job i st e now q)"
  unfolding finish_job_def by (rule kept_set_job) (auto simp: keeps_job_def)

lemma after_run_kept: "outcome = Returned \<longrightarrow> ok (j_id row) \<Longrightarrow> jobs_kept ok q (after_run row outcome now q)"
  by (auto simp: after_run_def keeps_job_def split: job_outcome.splits intro!: finish_kept kept_set_job)

lemma admin_kept:
  "jobs_kept ok q (snd (retry_failed now q))" "jobs_kept ok q (release_stuck m now q)"
  unfolding retry_failed_def release_stuck_def snd_conv by (rule kept_update, simp add: keeps_job_def)+

lemma enqueue_kept: "jobs_kept ok q (enqueue k p a d now q)"
  unfolding jobs_kept_def by (intro exI [of _ id] exI [of _ "[_]"]) (auto simp: enqueue_def keeps_job_def)

lemma ran_well_log: "ran_well i s \<Longrightarrow> run_log s' = run_log s @ l \<Longrightarrow> ran_well i s'"
  by (simp add: ran_well_def)

definition grows :: "jobs_state \<Rightarrow> jobs_state \<Rightarrow> bool" where
  "grows s s' \<longleftrightarrow> (\<exists>l. run_log s' = run_log s @ l) \<and> jobs_kept (\<lambda>i. ran_well i s') (queue s) (queue s')"

lemma work_grows: "job_work s s' \<Longrightarrow> grows s s'"
proof (induction rule: job_work.induct)
  case (complete w row s s' outcome now)
  then show ?case by (auto simp: grows_def ran_well_def intro!: after_run_kept)
next
  case (die w row s s')
  have "jobs_kept (\<lambda>i. ran_well i s') (queue s) (queue s)"
    unfolding jobs_kept_def by (intro exI [of _ id] exI [of _ "[]"]) (simp add: keeps_job_def)
  with die show ?case by (simp add: grows_def)
qed (auto simp: grows_def intro!: claim_kept finish_kept)

lemma admin_grows: "job_admin s s' \<Longrightarrow> grows s s'"
  by (induction rule: job_admin.induct) (auto simp: grows_def admin_kept enqueue_kept)

lemma sweep_grows: "job_sweep s s' \<Longrightarrow> grows s s'"
  by (induction rule: job_sweep.induct) (auto simp: grows_def admin_kept)

lemma grows_durable:
  assumes "grows s s'" and "durable s"
  shows "durable s'"
  unfolding durable_def
proof (intro ballI impI)
  fix j' assume j': "j' \<in> set (jobs (queue s'))" and gone: "j_payload j' = None \<or> j_status j' = JobDone"
  obtain l f new where l: "run_log s' = run_log s @ l" and rows: "jobs (queue s') = map f (jobs (queue s)) @ new"
    and f: "\<forall>j. keeps_job (\<lambda>i. ran_well i s') j (f j)" and new: "\<forall>j \<in> set new. j_payload j \<noteq> None \<and> j_status j = JobPending"
    using assms(1) unfolding grows_def jobs_kept_def by blast
  have "j' \<notin> set new" using new gone by auto
  then obtain j where j: "j \<in> set (jobs (queue s))" "j' = f j" using j' rows by auto
  have k: "keeps_job (\<lambda>i. ran_well i s') j j'" using f j(2) by simp
  have "ran_well (j_id j) s'" if "j_payload j = None \<or> j_status j = JobDone"
    using that assms(2) j(1) l by (auto simp: durable_def intro: ran_well_log)
  then show "ran_well (j_id j') s'" using k gone by (auto simp: keeps_job_def)
qed

lemma step_keeps:
  assumes "grows t u"
    and old: "\<forall>j \<in> set (jobs (queue s)). \<exists>j' \<in> set (jobs (queue t)). keeps_job (\<lambda>i. ran_well i t) j j'"
  shows "\<forall>j \<in> set (jobs (queue s)). \<exists>j' \<in> set (jobs (queue u)). keeps_job (\<lambda>i. ran_well i u) j j'"
proof
  fix j assume "j \<in> set (jobs (queue s))"
  then obtain k where k: "k \<in> set (jobs (queue t))" "keeps_job (\<lambda>i. ran_well i t) j k" using old by blast
  obtain l f new where l: "run_log u = run_log t @ l" and rows: "jobs (queue u) = map f (jobs (queue t)) @ new"
    and f: "\<forall>j. keeps_job (\<lambda>i. ran_well i u) j (f j)"
    using assms(1) unfolding grows_def jobs_kept_def by blast
  have "keeps_job (\<lambda>i. ran_well i u) j (f k)"
    using k(2) f [rule_format, of k] ran_well_log [OF _ l] unfolding keeps_job_def by auto
  moreover have "f k \<in> set (jobs (queue u))" using k(1) rows by simp
  ultimately show "\<exists>j' \<in> set (jobs (queue u)). keeps_job (\<lambda>i. ran_well i u) j j'" by blast
qed

lemma run_grows: "job_run sw s s' \<Longrightarrow> \<forall>j \<in> set (jobs (queue s)). \<exists>j' \<in> set (jobs (queue s')). keeps_job (\<lambda>i. ran_well i s') j j'"
proof (induction rule: job_run.induct)
  case (start s)
  then show ?case by (auto simp: keeps_job_def)
qed (use step_keeps work_grows admin_grows sweep_grows in blast)+

lemma run_durable: "job_run sw s s' \<Longrightarrow> durable s \<Longrightarrow> durable s'"
  by (induction rule: job_run.induct) (blast intro: grows_durable work_grows admin_grows sweep_grows)+

subsection \<open>One worker per job, as long as nothing is taken for stuck\<close>

definition row_wf :: "job_row \<Rightarrow> bool" where
  "row_wf j \<longleftrightarrow> 0 < j_max j \<and> (j_status j = JobPending \<longrightarrow> j_attempts j < j_max j)"

definition holds_row :: "job_queue \<Rightarrow> job_row \<Rightarrow> bool" where
  "holds_row q row \<longleftrightarrow> (\<exists>j. job_of (j_id row) q = Some j \<and> j_status j = JobRunning
     \<and> j_attempts j = j_attempts row \<and> j_max j = j_max row)"

definition is_done :: "job_queue \<Rightarrow> int \<Rightarrow> bool" where
  "is_done q i \<longleftrightarrow> (\<exists>j. job_of i q = Some j \<and> j_status j = JobDone)"

definition returned_ids :: "jobs_state \<Rightarrow> int list" where
  "returned_ids s = map fst (filter (\<lambda>(i, r). r = Returned) (run_log s))"

definition queue_wf :: "job_queue \<Rightarrow> bool" where
  "queue_wf q \<longleftrightarrow> distinct (map j_id (jobs q)) \<and> (\<forall>j \<in> set (jobs q). j_id j < next_job q \<and> row_wf j)"

definition exclusive :: "jobs_state \<Rightarrow> bool" where
  "exclusive s \<longleftrightarrow> queue_wf (queue s) \<and> distinct (map (j_id \<circ> snd) (held s))
     \<and> (\<forall>h \<in> set (held s). holds_row (queue s) (snd h))
     \<and> distinct (returned_ids s) \<and> (\<forall>i \<in> set (returned_ids s). is_done (queue s) i)"

lemma job_of_update:
  assumes "\<And>j. j_id (f j) = j_id j"
  shows "job_of k (q\<lparr>jobs := update_where P f (jobs q)\<rparr>) = map_option (\<lambda>j. if P j then f j else j) (job_of k q)"
  using assms by (simp add: job_of_def one_where_update_where)

lemma job_of_set:
  assumes "\<And>j. j_id (f j) = j_id j"
  shows "job_of k (set_job i f q) = (if k = i then map_option f (job_of i q) else job_of k q)"
proof -
  have id: "job_of k q = Some j \<Longrightarrow> j_id j = k" for j by (auto simp: job_of_def dest: one_where_Some)
  show ?thesis unfolding set_job_def job_of_update [OF assms] using id by (cases "job_of k q") auto
qed

lemma job_of_in: "job_of k q = Some j \<Longrightarrow> j \<in> set (jobs q) \<and> j_id j = k"
  unfolding job_of_def by (drule one_where_Some) simp

lemma queue_wf_update:
  assumes "queue_wf q" and "\<And>j. j_id (f j) = j_id j" and "\<And>j. j \<in> set (jobs q) \<Longrightarrow> P j \<Longrightarrow> row_wf j \<Longrightarrow> row_wf (f j)"
  shows "queue_wf (q\<lparr>jobs := update_where P f (jobs q)\<rparr>)"
proof -
  have "map j_id (update_where P f (jobs q)) = map j_id (jobs q)" by (rule map_update_where_key) (rule assms(2))
  with assms show ?thesis by (auto simp: queue_wf_def set_update_where)
qed

lemma only_job:
  assumes "queue_wf q" and "j \<in> set (jobs q)"
  shows "job_of (j_id j) q = Some j"
proof -
  obtain k where k: "job_of (j_id j) q = Some k"
    using assms(2) by (cases "job_of (j_id j) q") (auto simp: job_of_def one_where_None)
  have "k = j"
    using job_of_in [OF k] assms unfolding queue_wf_def distinct_map by (auto dest: inj_onD)
  with k show ?thesis by simp
qed

lemma one_where_append_old: "one_where P xs = Some x \<Longrightarrow> one_where P (xs @ ys) = Some x"
  unfolding one_where_def by (induction xs) auto

text \<open>A job that is not running is in nobody's hands, so writing it touches no run.\<close>

lemma claim_exclusive:
  assumes "exclusive s" and c: "claim_job w now i (queue s) = (True, q)" and row: "job_of i q = Some row"
  shows "exclusive (s\<lparr>queue := q, held := held s @ [(w, row)]\<rparr>)"
proof -
  let ?P = "\<lambda>j. j_id j = i \<and> j_status j = JobPending"
  let ?f = "\<lambda>j. j\<lparr>j_status := JobRunning, j_locked_by := Some w, j_locked_at := Some now, j_attempts := j_attempts j + 1\<rparr>"
  have q: "q = (queue s)\<lparr>jobs := update_where ?P ?f (jobs (queue s))\<rparr>"
    and ex: "\<exists>j \<in> set (jobs (queue s)). ?P j" using c by (auto simp: claim_job_def list_ex_iff)
  have wf: "queue_wf (queue s)" using assms(1) by (simp add: exclusive_def)
  obtain j where j: "j \<in> set (jobs (queue s))" "j_id j = i" "j_status j = JobPending" using ex by auto
  have old: "job_of i (queue s) = Some j" using only_job [OF wf j(1)] j(2) by simp
  have new: "job_of k q = (if k = i then Some (?f j) else job_of k (queue s))" for k
  proof -
    have "job_of k (queue s) = Some x \<Longrightarrow> j_id x = k" for x by (simp add: job_of_in)
    then show ?thesis unfolding q by (subst job_of_update) (use old j in \<open>auto intro!: option.map_ident_strong\<close>)
  qed
  have wf': "queue_wf q" unfolding q by (rule queue_wf_update [OF wf]) (auto simp: row_wf_def)
  have r: "row = ?f j" using row new [of i] by simp
  have free: "\<forall>h \<in> set (held s). j_id (snd h) \<noteq> i"
    using assms(1) old j(3) by (auto simp: exclusive_def holds_row_def)
  have "holds_row q (snd h)" if "h \<in> set (held s)" for h
    using assms(1) that free new by (auto simp: exclusive_def holds_row_def)
  moreover have "holds_row q row" unfolding holds_row_def r using new [of i] j(2) by simp
  moreover have "is_done q k" if "k \<in> set (returned_ids s)" for k
  proof -
    have "is_done (queue s) k" using assms(1) that by (simp add: exclusive_def)
    then show ?thesis using new [of k] old j(3) by (auto simp: is_done_def)
  qed
  moreover have "j_id row = i" using r j(2) by simp
  then have dist: "distinct (map (j_id \<circ> snd) (held s @ [(w, row)]))"
    using free assms(1) unfolding exclusive_def by (simp add: image_iff) metis
  ultimately show ?thesis
    using assms(1) wf' dist by (auto simp: exclusive_def returned_ids_def)
qed

text \<open>Ending a run: its row leaves the hands of its worker; nobody else holds it.\<close>

lemma end_exclusive:
  assumes "exclusive s" and h: "h \<in> set (held s)" "j_id (snd h) = i"
    and f: "\<And>j. j_id (f j) = j_id j"
    and wf: "\<And>j. j_status j = JobRunning \<Longrightarrow> j_attempts j = j_attempts (snd h) \<Longrightarrow> j_max j = j_max (snd h) \<Longrightarrow> 0 < j_max j \<Longrightarrow> row_wf (f j)"
    and q: "queue s' = set_job i f (queue s)" and hs: "held s' = remove1 h (held s)"
    and log: "run_log s' = run_log s \<or> (run_log s' = run_log s @ [(i, r)] \<and> (r = Returned \<longrightarrow> (\<forall>j. j_status (f j) = JobDone)))"
  shows "exclusive s'"
proof -
  have old: "queue_wf (queue s)" "holds_row (queue s) (snd h)" using assms(1) h(1) by (simp_all add: exclusive_def)
  then obtain j where j: "job_of i (queue s) = Some j" "j_status j = JobRunning" "j_attempts j = j_attempts (snd h)" "j_max j = j_max (snd h)"
    using h(2) by (auto simp: holds_row_def)
  note new = job_of_set [where f = f, OF f, where i = i and q = "queue s"]
  have "queue_wf (queue s')"
    unfolding q set_job_def
  proof (rule queue_wf_update [OF old(1) f])
    fix x assume "x \<in> set (jobs (queue s))" "j_id x = i" "row_wf x"
    moreover from this have "x = j" using only_job [OF old(1)] j(1) by auto
    ultimately show "row_wf (f x)" using wf j(2-4) by (simp add: row_wf_def)
  qed
  moreover have dist: "distinct (map (j_id \<circ> snd) (held s'))"
    using assms(1) hs by (simp add: exclusive_def distinct_map distinct_remove1 inj_on_def)
  moreover have "holds_row (queue s') (snd x)" if x: "x \<in> set (held s')" for x
  proof -
    have "distinct (held s)" "inj_on (j_id \<circ> snd) (set (held s))" using assms(1) by (simp_all add: exclusive_def distinct_map)
    then have "x \<in> set (held s)" "x \<noteq> h" using x hs by (auto simp: set_remove1_eq)
    moreover from this have "j_id (snd x) \<noteq> i"
      using inj_onD [OF \<open>inj_on _ _\<close>, of x h] h by auto
    ultimately show ?thesis using assms(1) new by (auto simp: exclusive_def holds_row_def q)
  qed
  moreover have not_done: "\<not> is_done (queue s) i" using j by (simp add: is_done_def)
  then have ni: "i \<notin> set (returned_ids s)" using assms(1) by (auto simp: exclusive_def)
  have "distinct (returned_ids s')" using log ni assms(1) by (auto simp: returned_ids_def exclusive_def)
  moreover have "is_done (queue s') k" if k: "k \<in> set (returned_ids s')" for k
  proof (cases "k = i")
    case True
    then have "r = Returned \<and> (\<forall>j. j_status (f j) = JobDone)" using k log ni by (auto simp: returned_ids_def split: if_splits)
    then show ?thesis using new j(1) True by (simp add: is_done_def q)
  next
    case False
    then have "k \<in> set (returned_ids s)" using k log by (auto simp: returned_ids_def split: if_splits)
    then show ?thesis using assms(1) new False by (auto simp: exclusive_def is_done_def q)
  qed
  ultimately show ?thesis by (simp add: exclusive_def)
qed

lemma work_exclusive: "job_work s s' \<Longrightarrow> exclusive s \<Longrightarrow> exclusive s'"
proof (induction rule: job_work.induct)
  case (claim w now i s q row s')
  then show ?case using claim_exclusive by simp
next
  case (complete w row s s' outcome now)
  show ?case
  proof (cases "outcome = Returned \<or> j_max row \<le> j_attempts row")
    case True
    define st where "st = (if outcome = Returned then JobDone else JobFailed)"
    obtain e where q: "queue s' = finish_job (j_id row) st e now (queue s)"
      using complete(2) True by (cases outcome) (auto simp: after_run_def st_def)
    show ?thesis
      by (rule end_exclusive [OF complete(3,1) _ _ _ q [unfolded finish_job_def], where r = outcome])
        (use complete(2) in \<open>auto simp: row_wf_def st_def\<close>)
  next
    case False
    then obtain e where e: "outcome = Raised e" by (cases outcome) auto
    show ?thesis
      by (rule end_exclusive [OF complete(3,1), where i = "j_id row" and r = outcome and f = "\<lambda>j. j\<lparr>j_status := JobPending,
          j_locked_by := None, j_run_after := now + backoff (j_attempts row) * us_per_second, j_error := Some (take 500 e)\<rparr>"])
        (use complete(2) False e in \<open>auto simp: row_wf_def after_run_def\<close>)
  qed
next
  case (give_up w row s s' e now)
  show ?case
    by (rule end_exclusive [OF give_up(3,1), where i = "j_id row" and f = "\<lambda>j. j\<lparr>j_status := JobFailed, j_finished := Some now,
        j_error := Some e, j_locked_by := None, j_payload := (if JobFailed = JobDone then None else j_payload j)\<rparr>"])
      (use give_up(2) in \<open>auto simp: row_wf_def finish_job_def\<close>)
next
  case (die w row s s')
  then show ?case
    by (auto simp: exclusive_def returned_ids_def distinct_map distinct_remove1 inj_on_def dest: notin_set_remove1)
qed

lemma admin_exclusive: "job_admin s s' \<Longrightarrow> exclusive s \<Longrightarrow> exclusive s'"
proof (induction rule: job_admin.induct)
  case (enqueue attempts s' kind payload delay now s)
  have "job_of k (queue s) = Some j \<Longrightarrow> job_of k (queue s') = Some j" for k j
    using enqueue(2) by (simp add: job_of_def enqueue_def one_where_append_old)
  with enqueue show ?case
    by (auto simp: exclusive_def queue_wf_def enqueue_def row_wf_def returned_ids_def holds_row_def is_done_def)
next
  case (retry s' now s)
  let ?f = "\<lambda>j. j\<lparr>j_status := JobPending, j_attempts := 0, j_run_after := now, j_finished := None\<rparr>"
  have q: "queue s' = (queue s)\<lparr>jobs := update_where (\<lambda>j. j_status j = JobFailed \<and> j_payload j \<noteq> None) ?f (jobs (queue s))\<rparr>"
    using retry(1) by (simp add: retry_failed_def)
  have "job_of k (queue s) = Some j \<Longrightarrow> j_status j \<noteq> JobFailed \<Longrightarrow> job_of k (queue s') = Some j" for k j
    unfolding q by (subst job_of_update) auto
  moreover have "queue_wf (queue s')"
    unfolding q by (rule queue_wf_update) (use retry in \<open>auto simp: exclusive_def row_wf_def\<close>)
  moreover have "held s' = held s" "run_log s' = run_log s" using retry(1) by simp_all
  ultimately show ?case using retry(2) unfolding exclusive_def returned_ids_def holds_row_def is_done_def by fastforce
qed

lemma run_exclusive: "job_run False s s' \<Longrightarrow> exclusive s \<Longrightarrow> exclusive s'"
  by (induction rule: job_run.induct) (auto intro: work_exclusive admin_exclusive)

subsection \<open>The queue drains\<close>

definition work_left :: "jobs_state \<Rightarrow> nat" where
  "work_left s = 2 * sum_list (map (\<lambda>j. nat (j_max j - j_attempts j)) (jobs (queue s))) + length (held s)"

lemma sum_list_less:
  fixes g h :: "'a \<Rightarrow> nat"
  assumes "\<forall>x \<in> set xs. g x \<le> h x" and "\<exists>x \<in> set xs. g x < h x"
  shows "sum_list (map g xs) < sum_list (map h xs)"
  using assms
proof (induction xs)
  case (Cons x xs)
  then have "g x \<le> h x" "sum_list (map g xs) \<le> sum_list (map h xs)" by (auto intro: sum_list_mono)
  with Cons show ?case by (cases "g x < h x") auto
qed simp

lemma set_job_work_left:
  assumes "\<And>j. j_attempts (f j) = j_attempts j" "\<And>j. j_max (f j) = j_max j"
  shows "map (\<lambda>j. nat (j_max j - j_attempts j)) (jobs (set_job i f q)) = map (\<lambda>j. nat (j_max j - j_attempts j)) (jobs q)"
  using assms by (simp add: set_job_def update_where_def)

lemma work_decreases:
  assumes "job_work s s'" and "exclusive s"
  shows "work_left s' < work_left s"
  using assms(1)
proof cases
  case (claim w now i q row)
  let ?P = "\<lambda>j. j_id j = i \<and> j_status j = JobPending"
  let ?g = "\<lambda>j. nat (j_max j - j_attempts j) - (if ?P j then 1 else 0)"
  have q: "q = snd (claim_job w now i (queue s))" and "list_ex ?P (jobs (queue s))"
    using claim(1) by (auto simp: claim_job_def)
  then obtain j where j: "j \<in> set (jobs (queue s))" "?P j" by (auto simp: list_ex_iff)
  have "j_attempts j < j_max j" using assms(2) j by (auto simp: exclusive_def queue_wf_def row_wf_def)
  then have "sum_list (map ?g (jobs (queue s))) < sum_list (map (\<lambda>j. nat (j_max j - j_attempts j)) (jobs (queue s)))"
    using j by (intro sum_list_less) (auto intro!: bexI [of _ j])
  moreover have "map (\<lambda>j. nat (j_max j - j_attempts j)) (jobs q) = map ?g (jobs (queue s))"
    unfolding q by (auto simp: claim_job_def update_where_def)
  ultimately show ?thesis using claim(3) by (simp add: work_left_def)
next
  case (complete w row outcome now)
  have "map (\<lambda>j. nat (j_max j - j_attempts j)) (jobs (after_run row outcome now (queue s)))
      = map (\<lambda>j. nat (j_max j - j_attempts j)) (jobs (queue s))"
    by (auto simp: after_run_def finish_job_def set_job_work_left split: job_outcome.splits)
  moreover have "0 < length (held s)" using complete(1) by (auto simp: length_greater_0_conv)
  ultimately show ?thesis using complete by (simp add: work_left_def length_remove1)
next
  case (give_up w row e now)
  have "0 < length (held s)" using give_up(1) by (auto simp: length_greater_0_conv)
  then show ?thesis using give_up by (simp add: work_left_def length_remove1 finish_job_def set_job_work_left)
next
  case (die w row)
  have "0 < length (held s)" using die(1) by (auto simp: length_greater_0_conv)
  then show ?thesis using die by (simp add: work_left_def length_remove1)
qed

inductive job_works :: "nat \<Rightarrow> jobs_state \<Rightarrow> jobs_state \<Rightarrow> bool" where
  none: "job_works 0 s s"
| more: "job_works n s t \<Longrightarrow> job_work t u \<Longrightarrow> job_works (Suc n) s u"

lemma works_exclusive: "job_works n s s' \<Longrightarrow> exclusive s \<Longrightarrow> exclusive s'"
  by (induction rule: job_works.induct) (auto intro: work_exclusive)

lemma works_decrease: "job_works n s s' \<Longrightarrow> exclusive s \<Longrightarrow> n + work_left s' \<le> work_left s"
proof (induction rule: job_works.induct)
  case (more n s t u)
  then have "work_left u < work_left t" using works_exclusive work_decreases by blast
  with more show ?case by simp
qed simp

lemma works_trans: "job_works m t u \<Longrightarrow> job_works n s t \<Longrightarrow> job_works (n + m) s u"
  by (induction rule: job_works.induct) (auto intro: job_works.intros)

subsection \<open>The worker loop takes these steps\<close>

abbreviation idle :: "job_queue \<Rightarrow> (int \<times> job_outcome) list \<Rightarrow> jobs_state" where
  "idle q l \<equiv> \<lparr>queue = q, held = [], run_log = l\<rparr>"

lemma run_job_works:
  assumes "claim_job w t0 i q = (True, q1)" and "run_job env run t1 i tasks q1 = (ok, tasks', q2)"
  shows "\<exists>l. job_works 2 (idle q lg) (idle q2 (lg @ l))"
proof -
  have "list_ex (\<lambda>j. j_id j = i \<and> j_status j = JobPending) (jobs q)" and q1: "q1 = snd (claim_job w t0 i q)"
    using assms(1) by (auto simp: claim_job_def)
  then obtain j where "j \<in> set (jobs q)" "j_id j = i" by (auto simp: list_ex_iff)
  then have "job_of i q \<noteq> None" by (auto simp: job_of_def one_where_None)
  then obtain k where k: "job_of i q = Some k" by blast
  have "job_of i q1 \<noteq> None"
    unfolding q1 claim_job_def snd_conv by (subst job_of_update) (simp_all add: k)
  then obtain row where row: "job_of i q1 = Some row" by blast
  have id: "j_id row = i" using job_of_in [OF row] by simp
  let ?h = "\<lparr>queue = q1, held = [(w, row)], run_log = lg\<rparr>"
  have first: "job_works 1 (idle q lg) ?h"
    using job_works.more [OF job_works.none job_work.claim [where s = "idle q lg"]] assms(1) row by simp
  have "\<exists>l. job_work ?h (idle q2 (lg @ l))"
  proof (cases "find_task (je_imports env) (j_kind row) tasks")
    case (Pair found ts)
    show ?thesis
    proof (cases "found = ImportFailed")
      case True
      then have "q2 = q1" using assms(2) row Pair by (simp add: run_job_def)
      then show ?thesis using job_work.die [where s = ?h and w = w and row = row] by (intro exI [of _ "[]"]) simp
    next
      case False
      then have cases: "(True, ts, q2) = (case unrunnable (je_opens env) row found of
          Some e \<Rightarrow> (True, ts, finish_job i JobFailed (Some e) t1 q1)
        | None \<Rightarrow> (True, ts, after_run row (run row) t1 q1))"
        using assms(2) row Pair by (cases found) (auto simp: run_job_def split: option.splits)
      show ?thesis
      proof (cases "unrunnable (je_opens env) row found")
        case None
        then show ?thesis using cases id job_work.complete [where s = ?h and w = w and row = row and outcome = "run row" and now = t1]
          by (intro exI [of _ "[(i, run row)]"]) simp
      next
        case (Some e)
        then show ?thesis using cases id job_work.give_up [where s = ?h and w = w and row = row and e = e and now = t1]
          by (intro exI [of _ "[]"]) simp
      qed
    qed
  qed
  with works_trans [OF job_works.more [OF job_works.none] first] show ?thesis by (auto simp: numeral_2_eq_2)
qed

lemma run_due_works:
  "run_due env clock run ids cnt tasks q = (res, tasks', q') \<Longrightarrow> \<exists>n l. job_works n (idle q lg) (idle q' (lg @ l))"
proof (induction ids arbitrary: cnt tasks q lg)
  case Nil
  then show ?case by (auto intro!: exI [of _ 0] exI [of _ "[]"] job_works.none)
next
  case (Cons i ids)
  obtain claimed q1 where c: "claim_job (je_worker env) (fst (clock i)) i q = (claimed, q1)" by fastforce
  show ?case
  proof (cases claimed)
    case False
    then have "\<forall>j \<in> set (jobs q). \<not> (j_id j = i \<and> j_status j = JobPending)" using c by (auto simp: claim_job_def list_ex_iff)
    then have "update_where (\<lambda>j. j_id j = i \<and> j_status j = JobPending) f (jobs q) = jobs q" for f
      unfolding update_where_def by (intro map_idI) auto
    then have "q1 = q" using c by (simp add: claim_job_def)
    then show ?thesis using Cons c False by simp
  next
    case True
    obtain ok ts q2 where r: "run_job env run (snd (clock i)) i tasks q1 = (ok, ts, q2)" by (cases "run_job env run (snd (clock i)) i tasks q1") auto
    obtain l where l: "job_works 2 (idle q lg) (idle q2 (lg @ l))" using run_job_works [OF _ r, of "je_worker env" "fst (clock i)" q lg] c True by auto
    show ?thesis
    proof (cases ok)
      case False
      then show ?thesis using Cons.prems c True r l by auto
    next
      case ok: True
      then have "run_due env clock run ids (cnt + 1) ts q2 = (res, tasks', q')" using Cons.prems c True r by simp
      from Cons.IH [OF this] obtain n l' where "job_works n (idle q2 (lg @ l)) (idle q' ((lg @ l) @ l'))" by blast
      from works_trans [OF this l] show ?thesis by (auto simp: append_assoc)
    qed
  qed
qed

end
