(* ===== verification/Jobs_Claims.thy ===== *)
theory Jobs_Claims
  imports Jobs_Machine
begin

text \<open>
  The properties of the background queue: no job is lost, without stuck jobs no two workers run the same
  one, and the queue drains.
\<close>

definition demo_env :: job_env where
  "demo_env = \<lparr>je_worker = ''api:1'', je_stuck_minutes = 15, je_imports = (\<lambda>m. None), je_opens = (\<lambda>p. if p = [] then Some ''InvalidToken: '' else None)\<rparr>"

definition demo_queue :: job_queue where
  "demo_queue = enqueue ''app.services.notify:_send_push'' ''sealed'' 2 0 0 \<lparr>jobs = [], next_job = 1\<rparr>"

lemma demo_queue_eq: "demo_queue = \<lparr>jobs = [\<lparr>j_id = 1, j_kind = ''app.services.notify:_send_push'', j_payload = Some ''sealed'',
   j_status = JobPending, j_attempts = 0, j_max = 2, j_run_after = 0, j_locked_by = None, j_locked_at = None, j_error = None,
   j_created = 0, j_finished = None\<rparr>], next_job = 2\<rparr>"
  by (simp add: demo_queue_def enqueue_def)

lemma demo_exclusive: "exclusive (idle demo_queue [])"
  by (simp add: exclusive_def queue_wf_def demo_queue_eq row_wf_def returned_ids_def)

lemma demo_durable: "durable (idle demo_queue [])"
  by (simp add: durable_def demo_queue_eq)

definition demo_claimed :: jobs_state where
  "demo_claimed = (let q = snd (claim_job ''api:1'' 5 1 demo_queue)
     in \<lparr>queue = q, held = [(''api:1'', the (job_of 1 q))], run_log = []\<rparr>)"

lemma demo_claims: "job_work (idle demo_queue []) demo_claimed"
  by (rule job_work.claim [where w = "''api:1''" and now = 5 and i = 1 and row = "the (job_of 1 (snd (claim_job ''api:1'' 5 1 demo_queue)))"
        and q = "snd (claim_job ''api:1'' 5 1 demo_queue)"])
    (simp_all add: demo_claimed_def Let_def claim_job_def demo_queue_eq job_of_def one_where_def update_where_def)

definition demo_finished :: jobs_state where
  "demo_finished = \<lparr>queue = after_run (snd (hd (held demo_claimed))) Returned 9 (queue demo_claimed), held = [],
     run_log = [(1, Returned)]\<rparr>"

lemma demo_finishes: "job_work demo_claimed demo_finished"
  by (rule job_work.complete [where w = "''api:1''" and row = "snd (hd (held demo_claimed))" and outcome = Returned and now = 9])
    (simp_all add: demo_claimed_def demo_finished_def Let_def claim_job_def demo_queue_eq job_of_def one_where_def update_where_def)

lemma demo_finished_jobs: "map j_status (jobs (queue demo_finished)) = [JobDone]" "run_log demo_finished = [(1, Returned)]"
  by (simp_all add: demo_finished_def demo_claimed_def Let_def claim_job_def demo_queue_eq job_of_def one_where_def update_where_def
      after_run_def finish_job_def set_job_def)



text \<open>C36: As long as no job is swept up as stuck, no job is in two workers' hands, every job's function
  returns at most once, and a job whose function has returned is done.\<close>

theorem jobs_exclusive:
  assumes "job_run False s s'" and "exclusive s"
  shows "distinct (map (\<lambda>h. j_id (snd h)) (held s')) \<and> distinct (map fst (filter (\<lambda>(i, r). r = Returned) (run_log s')))
    \<and> (\<forall>(i, r) \<in> set (run_log s'). r = Returned \<longrightarrow> (\<exists>j. job_of i (queue s') = Some j \<and> j_status j = JobDone))"
proof -
  have ex: "exclusive s'" by (rule run_exclusive [OF assms])
  then have "distinct (map (\<lambda>h. j_id (snd h)) (held s'))" "distinct (map fst (filter (\<lambda>(i, r). r = Returned) (run_log s')))"
    by (simp_all add: exclusive_def returned_ids_def comp_def)
  moreover have "\<exists>j. job_of i (queue s') = Some j \<and> j_status j = JobDone" if "(i, Returned) \<in> set (run_log s')" for i
    using ex that by (force simp: exclusive_def returned_ids_def is_done_def)
  ultimately show ?thesis by auto
qed

theorem jobs_exclusive_witness:
  "job_run False (idle demo_queue []) demo_finished \<and> (\<exists>j. job_of 1 (queue demo_finished) = Some j \<and> j_status j = JobDone)"
proof -
  have r: "job_run False (idle demo_queue []) demo_finished"
    by (rule job_run.work [OF job_run.work [OF job_run.start demo_claims] demo_finishes])
  from jobs_exclusive [OF r demo_exclusive] r show ?thesis by (simp add: demo_finished_jobs)
qed



subsection \<open>What a broken module and a slow worker do\<close>

text \<open>
  A job whose module cannot be imported leaves the batch by an exception: it stays running, without an
  error, and the jobs after it are not run.
\<close>

lemma import_failure_aborts:
  "run_due demo_env (\<lambda>_. (5, 9)) (\<lambda>_. Returned) [1, 2, 3] 0 [] demo_queue
    = (None, [], snd (claim_job ''api:1'' 5 1 demo_queue))"
  by (simp add: run_job_def claim_job_def demo_queue_eq demo_env_def job_of_def one_where_def update_where_def find_task_def
      module_of_def HANDLER_PREFIX_def is_prefix_def)

text \<open>A worker that was swept up as stuck and fails late puts a job back that another one has done, without its payload.\<close>

lemma late_failure_revives:
  assumes "job_of i q = Some j" "j_status j = JobDone" "j_payload j = None" "j_id row = i" "j_attempts row < j_max row"
  shows "\<exists>j'. job_of i (after_run row (Raised e) now q) = Some j' \<and> j_status j' = JobPending \<and> j_payload j' = None"
  using assms by (simp add: after_run_def job_of_set)

end
