(* ===== verification/Db_Session.thy ===== *)
theory Db_Session
  imports Tables
begin

text \<open>
  The database session of a request, \<^verbatim>\<open>app/db/session.py\<close>, and the pool it borrows its connection
  from, \<^verbatim>\<open>app/db/pool.py\<close>. The server is its committed state; an open transaction is a working copy.
  The network is a list of what happens to the next statements: a connection may be lost before a
  statement reaches the server, or after the server has carried it out.
\<close>

subsection \<open>The pool\<close>

record 'c pool =
  idle_conns :: "'c list"
  free_slots :: nat

text \<open>
  \<open>_checkout\<close>: the idle connections, last released first, that are not usable any more are closed;
  a new one is opened when none is left. \<open>connect\<close> may fail.
\<close>

fun checkout :: "('c \<Rightarrow> bool) \<Rightarrow> 'c res \<Rightarrow> 'c list \<Rightarrow> 'c res \<times> 'c list" where
  "checkout usable connect [] = (connect, [])"
| "checkout usable connect (x # idle) = (if usable x then (Inr x, idle) else checkout usable connect idle)"

definition acquire :: "('c \<Rightarrow> bool) \<Rightarrow> 'c res \<Rightarrow> 'c pool \<Rightarrow> 'c res \<times> 'c pool" where
  "acquire usable connect p =
     (if free_slots p = 0 then (Inl (ServiceUnavailable ''Server is busy, please retry''), p)
      else (case checkout usable connect (idle_conns p) of
          (Inl e, idle) \<Rightarrow> (Inl e, p\<lparr>idle_conns := idle\<rparr>)
        | (Inr c, idle) \<Rightarrow> (Inr c, p\<lparr>idle_conns := idle, free_slots := free_slots p - 1\<rparr>)))"

text \<open>\<open>open_conn\<close> tells whether the connection is still open after the rollback \<open>release\<close> may do.\<close>

definition release :: "nat \<Rightarrow> bool \<Rightarrow> bool \<Rightarrow> 'c \<Rightarrow> 'c pool \<Rightarrow> 'c pool" where
  "release pool_size discard open_conn c p =
     p\<lparr>idle_conns := (if \<not> discard \<and> open_conn \<and> length (idle_conns p) < pool_size then c # idle_conns p else idle_conns p),
       free_slots := free_slots p + 1\<rparr>"

subsection \<open>The session\<close>

datatype net_event = NetOk | LostBefore | LostAfter | NetError | NoConnection

datatype hook = CommitHook nat | RollbackHook nat

record 'd world =
  server :: 'd
  leased :: bool
  alive :: bool
  open_tx :: "'d option"
  used :: bool
  broken :: bool
  depth :: nat
  commit_hooks :: "nat list"
  rollback_hooks :: "nat list"
  hooks_run :: "hook list"
  net :: "net_event list"

definition CONNECTION_LOST :: app_error where "CONNECTION_LOST = RuntimeError ''OperationalError: connection lost''"
definition CONNECTION_ERROR :: app_error where "CONNECTION_ERROR = RuntimeError ''OperationalError''"

text \<open>\<open>_connection\<close>: the session's connection, borrowed on first use.\<close>

definition connection :: "'d world \<Rightarrow> unit res \<times> 'd world" where
  "connection w =
     (if leased w then (Inr (), w)
      else (case net w of
          NoConnection # ns \<Rightarrow> (Inl (ServiceUnavailable ''Database is unavailable, please retry''), w\<lparr>net := ns\<rparr>)
        | _ \<Rightarrow> (Inr (), w\<lparr>leased := True, alive := True, open_tx := None, used := False\<rparr>)))"

text \<open>What happens to the next thing sent on the connection; a dead one answers nothing any more.\<close>

definition send :: "'d world \<Rightarrow> net_event \<times> 'd world" where
  "send w = (if \<not> alive w then (LostBefore, w)
     else (case net w of
         [] \<Rightarrow> (NetOk, w)
       | NoConnection # ns \<Rightarrow> (NetOk, w\<lparr>net := ns\<rparr>)
       | n # ns \<Rightarrow> (n, w\<lparr>net := ns\<rparr>)))"

definition discard_lease :: "'d world \<Rightarrow> 'd world" where
  "discard_lease w = w\<lparr>leased := False, open_tx := None\<rparr>"

text \<open>A lost connection takes its open transaction with it.\<close>

definition lose :: "'d world \<Rightarrow> 'd world" where
  "lose w = w\<lparr>alive := False, open_tx := None\<rparr>"

type_synonym ('d, 'a) statement = "'d \<Rightarrow> 'a res \<times> 'd"

text \<open>The statement on the server: in the open transaction, or committed at once. A failed one changes nothing.\<close>

definition carry_out :: "('d, 'a) statement \<Rightarrow> 'd world \<Rightarrow> 'a res \<times> 'd world" where
  "carry_out f w = (case open_tx w of
     Some d \<Rightarrow> (case f d of (Inl e, _) \<Rightarrow> (Inl e, w) | (Inr x, d') \<Rightarrow> (Inr x, w\<lparr>open_tx := Some d'\<rparr>))
   | None \<Rightarrow> (case f (server w) of (Inl e, _) \<Rightarrow> (Inl e, w) | (Inr x, d') \<Rightarrow> (Inr x, w\<lparr>server := d'\<rparr>)))"

lemma send_net: "send w = (n, w') \<Longrightarrow> n \<noteq> NetOk \<Longrightarrow> alive w \<Longrightarrow> length (net w') < length (net w)"
  by (auto simp: send_def split: list.splits net_event.splits if_splits)

lemma send_frame: "send w = (n, w') \<Longrightarrow> \<exists>ns. w' = w\<lparr>net := ns\<rparr>"
  by (cases w) (auto simp: send_def split: list.splits net_event.splits if_splits)

lemma send_net_le: "send w = (n, w') \<Longrightarrow> length (net w') \<le> length (net w)"
  by (auto simp: send_def split: list.splits net_event.splits if_splits)

lemma connection_net_le: "connection w = (r, w') \<Longrightarrow> length (net w') \<le> length (net w)"
  by (auto simp: connection_def split: list.splits net_event.splits if_splits)

lemma connection_leased: "connection w = (Inr u, w') \<Longrightarrow> leased w' \<and> (\<not> leased w \<longrightarrow> alive w') \<and> (leased w \<longrightarrow> w' = w)"
  by (auto simp: connection_def split: list.splits net_event.splits if_splits)

lemma lost_smaller:
  assumes "connection w = (Inr u, w1)" and "send w1 = (n, w2)" and "n \<noteq> NetOk"
  shows "2 * length (net w2) < 2 * length (net w) + (if leased w \<and> \<not> alive w then 1 else 0)"
proof (cases "alive w1")
  case True
  with send_net [OF assms(2,3)] connection_net_le [OF assms(1)] show ?thesis by simp
next
  case False
  then have "leased w" "w1 = w" using connection_leased [OF assms(1)] by auto
  with False send_net_le [OF assms(2)] show ?thesis by simp
qed

lemma lost_smaller':
  assumes "(Inr u, w1) = connection w" and "(n, w2) = send w1" and "n \<noteq> NetOk"
  shows "leased w \<and> \<not> alive w \<Longrightarrow> 2 * length (net w2) < Suc (2 * length (net w))"
    and "\<not> (leased w \<and> \<not> alive w) \<Longrightarrow> length (net w2) < length (net w)"
  using lost_smaller [OF assms(1) [symmetric] assms(2) [symmetric] assms(3)] by auto

lemma carry_out_net [simp]: "net (snd (carry_out f w)) = net w" "leased (snd (carry_out f w)) = leased w"
  by (auto simp: carry_out_def split: option.splits prod.splits sum.splits)

text \<open>
  \<open>_run\<close>: a statement on a connection nothing ran on yet is tried again on another one for as long as
  connections are lost.
\<close>

function (sequential) run_stmt :: "('d, 'a) statement \<Rightarrow> 'd world \<Rightarrow> 'a res \<times> 'd world" where
  "run_stmt f w = (case connection w of
     (Inl e, w1) \<Rightarrow> (Inl e, w1)
   | (Inr _, w1) \<Rightarrow>
       let retryable = \<not> used w1 \<and> depth w1 = 0 in
       (case send w1 of
          (NetError, w2) \<Rightarrow> (Inl CONNECTION_ERROR, w2\<lparr>broken := True\<rparr>)
        | (LostBefore, w2) \<Rightarrow> if retryable then run_stmt f (discard_lease (lose w2))
            else (Inl CONNECTION_LOST, (lose w2)\<lparr>broken := True\<rparr>)
        | (LostAfter, w2) \<Rightarrow> let w3 = lose (snd (carry_out f w2)) in
            if retryable then run_stmt f (discard_lease w3) else (Inl CONNECTION_LOST, w3\<lparr>broken := True\<rparr>)
        | (_, w2) \<Rightarrow> (case carry_out f w2 of
            (Inl e, w3) \<Rightarrow> (Inl e, w3)
          | (Inr x, w3) \<Rightarrow> (Inr x, w3\<lparr>used := True\<rparr>))))"
  by pat_completeness auto

termination
  by (relation "measure (\<lambda>(f, w). 2 * length (net w) + (if leased w \<and> \<not> alive w then 1 else 0))")
    (auto simp: discard_lease_def lose_def intro: lost_smaller')

declare run_stmt.simps [simp del]

subsection \<open>Transactions and hooks\<close>

text \<open>\<open>_begin\<close>: like \<open>_run\<close>, with the working copy as its effect.\<close>

function (sequential) begin_tx :: "'d world \<Rightarrow> unit res \<times> 'd world" where
  "begin_tx w = (case connection w of
     (Inl e, w1) \<Rightarrow> (Inl e, w1)
   | (Inr _, w1) \<Rightarrow> (case send w1 of
        (NetError, w2) \<Rightarrow> (Inl CONNECTION_ERROR, w2\<lparr>broken := True\<rparr>)
      | (NetOk, w2) \<Rightarrow> (Inr (), w2\<lparr>used := True, open_tx := Some (server w2)\<rparr>)
      | (NoConnection, w2) \<Rightarrow> (Inr (), w2\<lparr>used := True, open_tx := Some (server w2)\<rparr>)
      | (_, w2) \<Rightarrow> if \<not> used w1 then begin_tx (discard_lease (lose w2))
          else (Inl CONNECTION_LOST, (lose w2)\<lparr>broken := True\<rparr>)))"
  by pat_completeness auto

termination
  by (relation "measure (\<lambda>w. 2 * length (net w) + (if leased w \<and> \<not> alive w then 1 else 0))")
    (auto simp: discard_lease_def lose_def intro: lost_smaller')

declare begin_tx.simps [simp del]

definition commit :: "'d world \<Rightarrow> unit res \<times> 'd world" where
  "commit w = (case open_tx w of
     None \<Rightarrow> (Inl CONNECTION_LOST, w)
   | Some d \<Rightarrow> (case send w of
        (NetError, w2) \<Rightarrow> (Inl CONNECTION_ERROR, w2)
      | (LostBefore, w2) \<Rightarrow> (Inl CONNECTION_LOST, lose w2)
      | (LostAfter, w2) \<Rightarrow> (Inl CONNECTION_LOST, lose (w2\<lparr>server := d\<rparr>))
      | (_, w2) \<Rightarrow> (Inr (), w2\<lparr>server := d, open_tx := None\<rparr>)))"

definition safe_rollback :: "'d world \<Rightarrow> 'd world" where
  "safe_rollback w =
     (if \<not> leased w then w else if alive w then w\<lparr>open_tx := None\<rparr> else w\<lparr>broken := True\<rparr>)"

definition run_hooks :: "hook list \<Rightarrow> 'd world \<Rightarrow> 'd world" where
  "run_hooks hs w = w\<lparr>commit_hooks := [], rollback_hooks := [], hooks_run := hooks_run w @ hs\<rparr>"

text \<open>\<open>with db.transaction():\<close>: the outermost one begins, commits or rolls back; an inner one only counts.\<close>

definition roll_back :: "app_error \<Rightarrow> 'd world \<Rightarrow> 'a res \<times> 'd world" where
  "roll_back e w = (let w1 = safe_rollback (w\<lparr>depth := 0\<rparr>)
     in (Inl e, run_hooks (map RollbackHook (rollback_hooks w1)) w1))"

definition in_transaction :: "('d world \<Rightarrow> 'a res \<times> 'd world) \<Rightarrow> 'd world \<Rightarrow> 'a res \<times> 'd world" where
  "in_transaction body w =
     (if depth w \<noteq> 0 then
        (case body (w\<lparr>depth := depth w + 1\<rparr>) of (r, w') \<Rightarrow> (r, w'\<lparr>depth := depth w' - 1\<rparr>))
      else (case begin_tx w of
          (Inl e, w1) \<Rightarrow> (Inl e, w1)
        | (Inr _, w1) \<Rightarrow> (case body (w1\<lparr>depth := 1\<rparr>) of
            (Inl e, w2) \<Rightarrow> roll_back e w2
          | (Inr x, w2) \<Rightarrow> (case commit w2 of
              (Inl e, w3) \<Rightarrow> roll_back e w3
            | (Inr _, w3) \<Rightarrow> (Inr x, run_hooks (map CommitHook (commit_hooks w3)) (w3\<lparr>depth := 0\<rparr>))))))"

definition HOOK_OUTSIDE :: app_error where
  "HOOK_OUTSIDE = RuntimeError ''commit/rollback hooks need an open transaction''"

definition on_commit :: "nat \<Rightarrow> 'd world \<Rightarrow> unit res \<times> 'd world" where
  "on_commit h w = (if depth w = 0 then (Inl HOOK_OUTSIDE, w) else (Inr (), w\<lparr>commit_hooks := commit_hooks w @ [h]\<rparr>))"

definition on_rollback :: "nat \<Rightarrow> 'd world \<Rightarrow> unit res \<times> 'd world" where
  "on_rollback h w = (if depth w = 0 then (Inl HOOK_OUTSIDE, w) else (Inr (), w\<lparr>rollback_hooks := rollback_hooks w @ [h]\<rparr>))"

text \<open>\<open>close\<close>: the connection goes back to the pool, or is closed when it broke.\<close>

definition close_session :: "'d world \<Rightarrow> bool option \<times> 'd world" where
  "close_session w = (if leased w then (Some (broken w), w\<lparr>leased := False, open_tx := None\<rparr>) else (None, w))"

subsection \<open>Programs over the session\<close>

text \<open>
  The code of a service as it uses the session: statements, hooks, nested transactions and caught
  exceptions. \<open>abstract\<close> is what it does to the tables when no connection fails.
\<close>

datatype ('d, 'a) prog =
    Finish 'a
  | Fail app_error
  | Statement "('d, 'a) statement" "'a \<Rightarrow> ('d, 'a) prog"
  | OnCommit nat "('d, 'a) prog"
  | OnRollback nat "('d, 'a) prog"
  | Nested "('d, 'a) prog" "'a \<Rightarrow> ('d, 'a) prog"
  | Catch "('d, 'a) prog" "app_error \<Rightarrow> ('d, 'a) prog" "'a \<Rightarrow> ('d, 'a) prog"

primrec abstract :: "('d, 'a) prog \<Rightarrow> 'd \<Rightarrow> 'a res \<times> 'd" where
  "abstract (Finish x) d = (Inr x, d)"
| "abstract (Fail e) d = (Inl e, d)"
| "abstract (Statement f k) d = (case f d of (Inl e, _) \<Rightarrow> (Inl e, d) | (Inr x, d') \<Rightarrow> abstract (k x) d')"
| "abstract (OnCommit h p) d = abstract p d"
| "abstract (OnRollback h p) d = abstract p d"
| "abstract (Nested p k) d = (case abstract p d of (Inl e, d') \<Rightarrow> (Inl e, d') | (Inr x, d') \<Rightarrow> abstract (k x) d')"
| "abstract (Catch p h k) d = (case abstract p d of (Inl e, d') \<Rightarrow> abstract (h e) d' | (Inr x, d') \<Rightarrow> abstract (k x) d')"

primrec execute :: "('d, 'a) prog \<Rightarrow> 'd world \<Rightarrow> 'a res \<times> 'd world" where
  "execute (Finish x) w = (Inr x, w)"
| "execute (Fail e) w = (Inl e, w)"
| "execute (Statement f k) w = (case run_stmt f w of (Inl e, w') \<Rightarrow> (Inl e, w') | (Inr x, w') \<Rightarrow> execute (k x) w')"
| "execute (OnCommit h p) w = (case on_commit h w of (Inl e, w') \<Rightarrow> (Inl e, w') | (Inr _, w') \<Rightarrow> execute p w')"
| "execute (OnRollback h p) w = (case on_rollback h w of (Inl e, w') \<Rightarrow> (Inl e, w') | (Inr _, w') \<Rightarrow> execute p w')"
| "execute (Nested p k) w = (case in_transaction (execute p) w of (Inl e, w') \<Rightarrow> (Inl e, w') | (Inr x, w') \<Rightarrow> execute (k x) w')"
| "execute (Catch p h k) w = (case execute p w of (Inl e, w') \<Rightarrow> execute (h e) w' | (Inr x, w') \<Rightarrow> execute (k x) w')"

end
