(* ===== verification/Db_Refines.thy ===== *)
theory Db_Refines
  imports Db_Session
begin

text \<open>
  The session implements the transactions the services are modelled with: what runs inside
  \<open>with db.transaction()\<close> takes effect as a whole or not at all, whatever connections are lost on the way,
  as long as no commit is lost after the server carried it out.
\<close>

definition tx_ok :: "'d world \<Rightarrow> bool" where
  "tx_ok w \<longleftrightarrow> depth w \<noteq> 0 \<and> leased w \<and> used w \<and> (alive w \<longleftrightarrow> open_tx w \<noteq> None)"

definition inside :: "'d world \<Rightarrow> 'd world \<Rightarrow> bool" where
  "inside w w' \<longleftrightarrow> tx_ok w' \<and> server w' = server w \<and> depth w' = depth w \<and> hooks_run w' = hooks_run w
     \<and> set (net w') \<subseteq> set (net w) \<and> (alive w' \<longrightarrow> alive w)"

definition follows :: "('d \<Rightarrow> 'a res \<times> 'd) \<Rightarrow> 'd world \<Rightarrow> 'a res \<Rightarrow> 'd world \<Rightarrow> bool" where
  "follows f w r w' \<longleftrightarrow> (NetError \<notin> set (net w) \<and> alive w' \<longrightarrow>
     (\<exists>d d'. open_tx w = Some d \<and> f d = (r, d') \<and> open_tx w' = Some d'))"

lemma send_set: "send w = (n, w') \<Longrightarrow> set (net w') \<subseteq> set (net w)"
  by (auto simp: send_def split: list.splits net_event.splits if_splits)

lemma send_in: "send w = (n, w') \<Longrightarrow> n = NetError \<or> n = LostAfter \<Longrightarrow> n \<in> set (net w)"
  by (auto simp: send_def split: list.splits net_event.splits if_splits)

lemma run_stmt_tx:
  assumes "tx_ok w" and "run_stmt f w = (r, w')"
  shows "inside w w' \<and> follows (abstract (Statement f Finish)) w r w'"
proof -
  have conn: "connection w = (Inr (), w)" using assms(1) by (simp add: connection_def tx_ok_def)
  obtain n w2 where s: "send w = (n, w2)" by fastforce
  obtain ns where w2: "w2 = w\<lparr>net := ns\<rparr>" "set ns \<subseteq> set (net w)" using send_frame [OF s] send_set [OF s] by auto
  have used: "used w" "depth w \<noteq> 0" using assms(1) by (simp_all add: tx_ok_def)
  have run: "run_stmt f w = (case n of
       NetError \<Rightarrow> (Inl CONNECTION_ERROR, w2\<lparr>broken := True\<rparr>)
     | LostBefore \<Rightarrow> (Inl CONNECTION_LOST, (lose w2)\<lparr>broken := True\<rparr>)
     | LostAfter \<Rightarrow> (Inl CONNECTION_LOST, (lose (snd (carry_out f w2)))\<lparr>broken := True\<rparr>)
     | _ \<Rightarrow> (case carry_out f w2 of (Inl e, w3) \<Rightarrow> (Inl e, w3) | (Inr x, w3) \<Rightarrow> (Inr x, w3\<lparr>used := True\<rparr>)))"
    by (subst run_stmt.simps) (simp add: conn s used split: net_event.splits)
  show ?thesis
  proof (cases "open_tx w")
    case None
    then have "n = LostBefore" using assms(1) s by (auto simp: tx_ok_def send_def)
    then show ?thesis using run assms w2 by (auto simp: inside_def follows_def tx_ok_def lose_def)
  next
    case (Some d)
    have "n = NetError \<Longrightarrow> NetError \<in> set (net w)" using send_in [OF s] by blast
    moreover have "alive w" using assms(1) Some by (simp add: tx_ok_def)
    ultimately show ?thesis
      using run assms w2 Some
      by (cases n) (auto simp: inside_def follows_def tx_ok_def lose_def carry_out_def split: prod.splits sum.splits)
  qed
qed

lemma inside_trans: "inside w w1 \<Longrightarrow> inside w1 w2 \<Longrightarrow> inside w w2"
  by (auto simp: inside_def)

lemma inside_refl: "tx_ok w \<Longrightarrow> inside w w"
  by (simp add: inside_def)

lemma inside_hooks:
  "tx_ok w \<Longrightarrow> inside w (w\<lparr>commit_hooks := h\<rparr>)" "tx_ok w \<Longrightarrow> inside w (w\<lparr>rollback_hooks := h\<rparr>)"
  by (simp_all add: inside_def tx_ok_def)

lemma follows_seq:
  assumes "inside w w1" and "inside w1 w2" and "follows f w (Inr x) w1" and "follows g w1 r w2"
    and "\<And>d d'. f d = (Inr x, d') \<Longrightarrow> h d = g d'"
  shows "follows h w r w2"
  unfolding follows_def
proof
  assume a: "NetError \<notin> set (net w) \<and> alive w2"
  then have "alive w1" "NetError \<notin> set (net w1)" using assms(1,2) by (auto simp: inside_def)
  with a assms(3,4) obtain d d1 d' where "open_tx w = Some d" "f d = (Inr x, d1)" "g d1 = (r, d')" "open_tx w2 = Some d'"
    unfolding follows_def by fastforce
  with assms(5) show "\<exists>d d'. open_tx w = Some d \<and> h d = (r, d') \<and> open_tx w2 = Some d'" by auto
qed

lemma follows_weaken: "follows f w r w' \<Longrightarrow> (\<And>d d'. f d = (r, d') \<Longrightarrow> g d = (r, d')) \<Longrightarrow> follows g w r w'"
  by (fastforce simp: follows_def)

lemma nested_inside:
  assumes "tx_ok w" and body: "\<And>v r v'. tx_ok v \<Longrightarrow> body v = (r, v') \<Longrightarrow> inside v v' \<and> follows f v r v'"
    and "in_transaction body w = (r, w')"
  shows "inside w w' \<and> follows f w r w'"
proof -
  let ?v = "w\<lparr>depth := depth w + 1\<rparr>"
  obtain v' where v': "body ?v = (r, v')" "w' = v'\<lparr>depth := depth v' - 1\<rparr>"
    using assms(1,3) by (auto simp: in_transaction_def tx_ok_def split: prod.splits)
  have "tx_ok ?v" using assms(1) by (simp add: tx_ok_def)
  from body [OF this v'(1)] have "inside ?v v'" "follows f ?v r v'" by simp_all
  then show ?thesis using v'(2) assms(1) by (auto simp: inside_def follows_def tx_ok_def)
qed

lemma execute_tx:
  "tx_ok w \<Longrightarrow> execute p w = (r, w') \<Longrightarrow> inside w w' \<and> follows (abstract p) w r w'"
proof (induction p arbitrary: w r w')
  case (Finish x)
  then show ?case by (auto simp: inside_refl follows_def tx_ok_def)
next
  case (Fail e)
  then show ?case by (auto simp: inside_refl follows_def tx_ok_def)
next
  case (Statement f k)
  obtain r1 w1 where s: "run_stmt f w = (r1, w1)" by fastforce
  note st = run_stmt_tx [OF Statement.prems(1) s]
  show ?case
  proof (cases r1)
    case (Inl e)
    then have "r = Inl e" "w' = w1" using Statement.prems(2) s by simp_all
    then show ?thesis using st Inl by (auto intro: follows_weaken split: prod.splits sum.splits)
  next
    case (Inr x)
    then have "execute (k x) w1 = (r, w')" using Statement.prems(2) s by simp
    moreover have "tx_ok w1" using st by (simp add: inside_def)
    ultimately have "inside w1 w' \<and> follows (abstract (k x)) w1 r w'" using Statement.IH by blast
    moreover have "follows (abstract (Statement f k)) w r w'" if "inside w1 w'" "follows (abstract (k x)) w1 r w'"
      by (rule follows_seq [OF _ that(1) _ that(2), of w "abstract (Statement f Finish)" x])
        (use st Inr in \<open>auto split: prod.splits sum.splits\<close>)
    ultimately show ?thesis using st inside_trans by blast
  qed
next
  case (OnCommit h p)
  have "execute p (w\<lparr>commit_hooks := commit_hooks w @ [h]\<rparr>) = (r, w')" "tx_ok (w\<lparr>commit_hooks := commit_hooks w @ [h]\<rparr>)"
    using OnCommit.prems by (simp_all add: on_commit_def tx_ok_def)
  from OnCommit.IH [OF this(2,1)] show ?case
    using inside_trans [OF inside_hooks(1) [OF OnCommit.prems(1)]] by (auto simp: follows_def)
next
  case (OnRollback h p)
  have "execute p (w\<lparr>rollback_hooks := rollback_hooks w @ [h]\<rparr>) = (r, w')" "tx_ok (w\<lparr>rollback_hooks := rollback_hooks w @ [h]\<rparr>)"
    using OnRollback.prems by (simp_all add: on_rollback_def tx_ok_def)
  from OnRollback.IH [OF this(2,1)] show ?case
    using inside_trans [OF inside_hooks(2) [OF OnRollback.prems(1)]] by (auto simp: follows_def)
next
  case (Nested p k)
  obtain r1 w1 where s: "in_transaction (execute p) w = (r1, w1)" by fastforce
  note st = nested_inside [OF Nested.prems(1) Nested.IH(1) s]
  show ?case
  proof (cases r1)
    case (Inl e)
    then have "r = Inl e" "w' = w1" using Nested.prems(2) s by simp_all
    then show ?thesis using st Inl by (auto intro: follows_weaken)
  next
    case (Inr x)
    then have "execute (k x) w1 = (r, w')" using Nested.prems(2) s by simp
    moreover have "tx_ok w1" using st by (simp add: inside_def)
    ultimately have "inside w1 w' \<and> follows (abstract (k x)) w1 r w'" using Nested.IH(2) by blast
    moreover have "follows (abstract (Nested p k)) w r w'" if "inside w1 w'" "follows (abstract (k x)) w1 r w'"
      by (rule follows_seq [OF _ that(1) _ that(2), of w "abstract p" x]) (use st Inr in auto)
    ultimately show ?thesis using st inside_trans by blast
  qed
next
  case (Catch p h k)
  obtain r1 w1 where s: "execute p w = (r1, w1)" by fastforce
  note st = Catch.IH(1) [OF Catch.prems(1) s]
  have ok: "tx_ok w1" using st by (simp add: inside_def)
  define q where "q = (case r1 of Inl e \<Rightarrow> h e | Inr x \<Rightarrow> k x)"
  have q: "execute q w1 = (r, w')" using Catch.prems(2) s by (cases r1) (simp_all add: q_def)
  have "inside w1 w' \<and> follows (abstract q) w1 r w'"
  proof (cases r1)
    case (Inl e)
    then show ?thesis using Catch.IH(2) [OF rangeI ok, of e] q by (simp add: q_def)
  next
    case (Inr x)
    then show ?thesis using Catch.IH(3) [OF rangeI ok, of x] q by (simp add: q_def)
  qed
  moreover from this have "follows (abstract (Catch p h k)) w r w'"
    unfolding follows_def
  proof (intro impI)
    assume i: "inside w1 w' \<and> (NetError \<notin> set (net w1) \<and> alive w' \<longrightarrow>
        (\<exists>d d'. open_tx w1 = Some d \<and> abstract q d = (r, d') \<and> open_tx w' = Some d'))"
      and a: "NetError \<notin> set (net w) \<and> alive w'"
    then have "alive w1" "NetError \<notin> set (net w1)" using st by (auto simp: inside_def)
    with a i st obtain d d1 d' where "open_tx w = Some d" "abstract p d = (r1, d1)" "abstract q d1 = (r, d')" "open_tx w' = Some d'"
      unfolding follows_def by fastforce
    then show "\<exists>d d'. open_tx w = Some d \<and> abstract (Catch p h k) d = (r, d') \<and> open_tx w' = Some d'"
      by (cases r1) (auto simp: q_def)
  qed
  ultimately show ?case using st inside_trans by blast
qed

subsection \<open>The outermost transaction\<close>

lemma begin_ok:
  assumes "begin_tx w = (r, w1)" and "open_tx w = None"
  shows "server w1 = server w \<and> depth w1 = depth w \<and> hooks_run w1 = hooks_run w \<and> set (net w1) \<subseteq> set (net w)
    \<and> commit_hooks w1 = commit_hooks w \<and> rollback_hooks w1 = rollback_hooks w
    \<and> (case r of Inl _ \<Rightarrow> open_tx w1 = None | Inr _ \<Rightarrow> leased w1 \<and> used w1 \<and> alive w1 \<and> open_tx w1 = Some (server w))"
  using assms
proof (induction w rule: begin_tx.induct)
  case (1 w)
  obtain rc w0 where c: "connection w = (rc, w0)" by fastforce
  have w0: "server w0 = server w" "depth w0 = depth w" "hooks_run w0 = hooks_run w" "set (net w0) \<subseteq> set (net w)"
    "commit_hooks w0 = commit_hooks w" "rollback_hooks w0 = rollback_hooks w" "open_tx w0 = None"
    using c "1.prems"(2) by (auto simp: connection_def split: list.splits net_event.splits if_splits)
  show ?case
  proof (cases rc)
    case (Inl e)
    then have "r = Inl e" "w1 = w0" using "1.prems"(1) c by (simp_all add: begin_tx.simps [of w])
    then show ?thesis using w0 by simp
  next
    case (Inr u)
    obtain n w2 where s: "send w0 = (n, w2)" by fastforce
    obtain ns where w2: "w2 = w0\<lparr>net := ns\<rparr>" "set ns \<subseteq> set (net w0)" using send_frame [OF s] send_set [OF s] by auto
    have lw: "leased w0" using c Inr connection_leased by blast
    have al: "n = NetOk \<or> n = NoConnection \<Longrightarrow> alive w0" using s by (auto simp: send_def split: if_splits)
    show ?thesis
    proof (cases "(n = LostBefore \<or> n = LostAfter) \<and> \<not> used w0")
      case True
      then have "begin_tx (discard_lease (lose w2)) = (r, w1)"
        using "1.prems"(1) c Inr s by (subst (asm) begin_tx.simps) auto
      moreover have "open_tx (discard_lease (lose w2)) = None" by (simp add: discard_lease_def lose_def)
      ultimately have "server w1 = server (discard_lease (lose w2)) \<and> depth w1 = depth (discard_lease (lose w2))
        \<and> hooks_run w1 = hooks_run (discard_lease (lose w2)) \<and> set (net w1) \<subseteq> set (net (discard_lease (lose w2)))
        \<and> commit_hooks w1 = commit_hooks (discard_lease (lose w2)) \<and> rollback_hooks w1 = rollback_hooks (discard_lease (lose w2))
        \<and> (case r of Inl _ \<Rightarrow> open_tx w1 = None
           | Inr _ \<Rightarrow> leased w1 \<and> used w1 \<and> alive w1 \<and> open_tx w1 = Some (server (discard_lease (lose w2))))"
        using "1.IH" c Inr s True by (cases n) auto
      then show ?thesis using w0 w2 by (cases r) (auto simp: discard_lease_def lose_def)
    next
      case False
      then show ?thesis
        using "1.prems"(1) c Inr s w0 w2 lw al by (subst (asm) begin_tx.simps) (cases n; auto simp: lose_def)
    qed
  qed
qed

lemma commit_ok:
  assumes "tx_ok w" and "commit w = (r, w')" and "LostAfter \<notin> set (net w)"
  shows "depth w' = depth w \<and> hooks_run w' = hooks_run w \<and> leased w' \<and> (alive w' \<or> open_tx w' = None)
    \<and> commit_hooks w' = commit_hooks w \<and> rollback_hooks w' = rollback_hooks w
    \<and> (case r of Inl _ \<Rightarrow> server w' = server w | Inr _ \<Rightarrow> alive w \<and> open_tx w = Some (server w') \<and> open_tx w' = None)"
proof (cases "open_tx w")
  case None
  then show ?thesis using assms(1,2) by (auto simp: commit_def tx_ok_def)
next
  case (Some d)
  obtain n w2 where s: "send w = (n, w2)" by fastforce
  obtain ns where w2: "w2 = w\<lparr>net := ns\<rparr>" using send_frame [OF s] by auto
  have "n \<noteq> LostAfter" using send_in [OF s] assms(3) by blast
  then show ?thesis using assms(1,2) Some s w2 by (cases n) (auto simp: commit_def tx_ok_def lose_def)
qed

lemma roll_back_ok:
  assumes "roll_back e w = (r, w')" and "leased w" and "alive w \<or> open_tx w = None"
  shows "r = Inl e \<and> server w' = server w \<and> depth w' = 0 \<and> open_tx w' = None \<and> commit_hooks w' = [] \<and> rollback_hooks w' = []
    \<and> (\<exists>hs. hooks_run w' = hooks_run w @ map RollbackHook hs)"
  using assms by (auto simp: roll_back_def safe_rollback_def run_hooks_def Let_def)

text \<open>A session between two transactions.\<close>

definition at_rest :: "'d world \<Rightarrow> bool" where
  "at_rest w \<longleftrightarrow> depth w = 0 \<and> open_tx w = None \<and> commit_hooks w = [] \<and> rollback_hooks w = []"

definition tx_result :: "('d, 'a) prog \<Rightarrow> 'd world \<Rightarrow> 'a res \<Rightarrow> 'd world \<Rightarrow> bool" where
  "tx_result p w r w' \<longleftrightarrow> at_rest w' \<and> (case r of
     Inl _ \<Rightarrow> server w' = server w \<and> (\<exists>hs. hooks_run w' = hooks_run w @ map RollbackHook hs)
   | Inr x \<Rightarrow> (NetError \<notin> set (net w) \<longrightarrow> abstract p (server w) = (Inr x, server w'))
       \<and> (\<exists>hs. hooks_run w' = hooks_run w @ map CommitHook hs))"

lemma in_transaction_ok:
  assumes "in_transaction (execute p) w = (r, w')" and rest: "at_rest w" and lost: "LostAfter \<notin> set (net w)"
  shows "tx_result p w r w'"
proof -
  obtain rb w1 where b: "begin_tx w = (rb, w1)" by fastforce
  have w1: "server w1 = server w" "depth w1 = 0" "hooks_run w1 = hooks_run w" "set (net w1) \<subseteq> set (net w)"
    "commit_hooks w1 = []" "rollback_hooks w1 = []"
    "case rb of Inl _ \<Rightarrow> open_tx w1 = None | Inr _ \<Rightarrow> leased w1 \<and> used w1 \<and> alive w1 \<and> open_tx w1 = Some (server w)"
    using begin_ok [OF b] rest by (simp_all add: at_rest_def)
  show ?thesis
  proof (cases rb)
    case (Inl e)
    then have "r = Inl e" "w' = w1" using assms(1) rest b by (simp_all add: in_transaction_def at_rest_def)
    then show ?thesis using w1 Inl by (auto simp: tx_result_def at_rest_def intro: exI [of _ "[]"])
  next
    case (Inr u)
    let ?v = "w1\<lparr>depth := 1\<rparr>"
    obtain r2 w2 where e: "execute p ?v = (r2, w2)" by fastforce
    have v: "tx_ok ?v" using w1 Inr by (simp add: tx_ok_def)
    note ex = execute_tx [OF v e]
    then have w2: "tx_ok w2" "server w2 = server w" "hooks_run w2 = hooks_run w" "set (net w2) \<subseteq> set (net w)"
      using w1 by (auto simp: inside_def)
    show ?thesis
    proof (cases r2)
      case (Inl err)
      then have rb: "roll_back err w2 = (r, w')" using assms(1) rest b Inr e by (simp add: in_transaction_def at_rest_def)
      from roll_back_ok [OF rb] w2 show ?thesis by (auto simp: tx_result_def at_rest_def tx_ok_def)
    next
      case r2: (Inr x)
      obtain r3 w3 where c: "commit w2 = (r3, w3)" by fastforce
      have "LostAfter \<notin> set (net w2)" using lost w2(4) by blast
      note cm = commit_ok [OF w2(1) c this]
      show ?thesis
      proof (cases r3)
        case (Inl err)
        then have rb: "roll_back err w3 = (r, w')" using assms(1) rest b Inr e r2 c by (simp add: in_transaction_def at_rest_def)
        from roll_back_ok [OF rb] cm Inl w2 show ?thesis by (auto simp: tx_result_def at_rest_def)
      next
        case r3: (Inr u3)
        then have res: "r = Inr x" "w' = run_hooks (map CommitHook (commit_hooks w3)) (w3\<lparr>depth := 0\<rparr>)"
          using assms(1) rest b Inr e r2 c by (simp_all add: in_transaction_def at_rest_def)
        have "NetError \<notin> set (net w) \<longrightarrow> abstract p (server w) = (Inr x, server w')"
        proof
          assume "NetError \<notin> set (net w)"
          then have "NetError \<notin> set (net ?v)" using w1(4) by auto
          then show "abstract p (server w) = (Inr x, server w')"
            using ex cm r3 r2 res w1 Inr by (auto simp: follows_def run_hooks_def)
        qed
        then show ?thesis using res cm r3 w2 by (auto simp: tx_result_def at_rest_def run_hooks_def)
      qed
    qed
  qed
qed

subsection \<open>Without network events\<close>

definition quiet :: "'d world \<Rightarrow> bool" where
  "quiet w \<longleftrightarrow> net w = [] \<and> (leased w \<longrightarrow> alive w)"

lemma run_stmt_quiet:
  assumes "quiet w" and "run_stmt f w = (r, w')"
  shows "quiet w'"
proof -
  obtain w1 where c: "connection w = (Inr (), w1)" and w1: "net w1 = []" "leased w1" "alive w1"
    using assms(1) by (cases "leased w") (auto simp: connection_def quiet_def)
  then have "send w1 = (NetOk, w1)" by (simp add: send_def)
  with assms(2) c have "(case carry_out f w1 of (Inl e, w3) \<Rightarrow> (Inl e, w3) | (Inr x, w3) \<Rightarrow> (Inr x, w3\<lparr>used := True\<rparr>)) = (r, w')"
    by (subst (asm) run_stmt.simps) simp
  with w1 show ?thesis by (auto simp: quiet_def carry_out_def split: option.splits prod.splits sum.splits)
qed

lemma begin_quiet: "quiet w \<Longrightarrow> begin_tx w = (r, w') \<Longrightarrow> quiet w' \<and> r = Inr ()"
  by (subst (asm) begin_tx.simps) (auto simp: connection_def quiet_def send_def split: if_splits)

lemma commit_quiet: "quiet w \<Longrightarrow> tx_ok w \<Longrightarrow> alive w \<Longrightarrow> commit w = (r, w') \<Longrightarrow> quiet w' \<and> r = Inr ()"
  by (auto simp: commit_def quiet_def send_def tx_ok_def)

lemma in_transaction_quiet:
  assumes "\<And>v r v'. quiet v \<Longrightarrow> body v = (r, v') \<Longrightarrow> quiet v'" and "quiet w" and "in_transaction body w = (r, w')"
  shows "quiet w'"
proof (cases "depth w = 0")
  case False
  then obtain v' where "body (w\<lparr>depth := depth w + 1\<rparr>) = (r, v')" "w' = v'\<lparr>depth := depth v' - 1\<rparr>"
    using assms(3) by (auto simp: in_transaction_def split: prod.splits)
  moreover have "quiet (w\<lparr>depth := depth w + 1\<rparr>)" using assms(2) by (simp add: quiet_def)
  ultimately have "quiet v'" using assms(1) by blast
  then show ?thesis using \<open>w' = _\<close> by (simp add: quiet_def)
next
  case True
  obtain rb w1 where b: "begin_tx w = (rb, w1)" by fastforce
  obtain r2 w2 where e: "body (w1\<lparr>depth := 1\<rparr>) = (r2, w2)" by fastforce
  have "quiet (w1\<lparr>depth := 1\<rparr>)" using begin_quiet [OF assms(2) b] by (simp add: quiet_def)
  then have q2: "quiet w2" using assms(1) e by blast
  have rq: "quiet v \<Longrightarrow> roll_back e v = (r, v') \<Longrightarrow> quiet v'" for e v r v'
    by (auto simp: roll_back_def safe_rollback_def run_hooks_def quiet_def Let_def)
  have cq: "quiet v \<Longrightarrow> commit v = (r, v') \<Longrightarrow> quiet v'" for v r v'
    by (cases "open_tx v") (auto simp: commit_def quiet_def send_def lose_def split: if_splits)
  note run = assms(3) [unfolded in_transaction_def] True b begin_quiet [OF assms(2) b] e
  show ?thesis
  proof (cases r2)
    case (Inl err)
    then have "roll_back err w2 = (r, w')" using run by simp
    then show ?thesis by (rule rq [OF q2])
  next
    case (Inr x)
    obtain r3 w3 where c: "commit w2 = (r3, w3)" by fastforce
    have q3: "quiet w3" by (rule cq [OF q2 c])
    show ?thesis
    proof (cases r3)
      case (Inl err)
      then have "roll_back err w3 = (r, w')" using run Inr c by simp
      then show ?thesis by (rule rq [OF q3])
    next
      case r3: (Inr u)
      then have "w' = run_hooks (map CommitHook (commit_hooks w3)) (w3\<lparr>depth := 0\<rparr>)" using run Inr c by simp
      then show ?thesis using q3 by (simp add: quiet_def run_hooks_def)
    qed
  qed
qed

lemma execute_quiet: "quiet w \<Longrightarrow> execute p w = (r, w') \<Longrightarrow> quiet w'"
proof (induction p arbitrary: w r w')
  case (Statement f k)
  obtain r1 w1 where s: "run_stmt f w = (r1, w1)" by fastforce
  have q: "quiet w1" by (rule run_stmt_quiet [OF Statement.prems(1) s])
  show ?case using Statement.prems(2) s q Statement.IH [OF rangeI q] by (cases r1) auto
next
  case (Nested p k)
  obtain r1 w1 where s: "in_transaction (execute p) w = (r1, w1)" by fastforce
  have q: "quiet w1" by (rule in_transaction_quiet [OF Nested.IH(1) Nested.prems(1) s])
  show ?case using Nested.prems(2) s q Nested.IH(2) [OF rangeI q] by (cases r1) auto
next
  case (Catch p h k)
  obtain r1 w1 where s: "execute p w = (r1, w1)" by fastforce
  have q: "quiet w1" by (rule Catch.IH(1) [OF Catch.prems(1) s])
  show ?case using Catch.prems(2) s q Catch.IH(2) [OF rangeI q] Catch.IH(3) [OF rangeI q] by (cases r1) auto
next
  case (OnCommit h p)
  obtain r1 w1 where s: "on_commit h w = (r1, w1)" by fastforce
  then have q: "quiet w1" using OnCommit.prems(1) by (auto simp: on_commit_def quiet_def split: if_splits)
  then show ?case using OnCommit.prems(2) s OnCommit.IH [OF q] by (cases r1) auto
next
  case (OnRollback h p)
  obtain r1 w1 where s: "on_rollback h w = (r1, w1)" by fastforce
  then have q: "quiet w1" using OnRollback.prems(1) by (auto simp: on_rollback_def quiet_def split: if_splits)
  then show ?case using OnRollback.prems(2) s OnRollback.IH [OF q] by (cases r1) auto
qed auto

lemma quiet_transaction:
  assumes "quiet w" and rest: "at_rest w" and run: "in_transaction (execute p) w = (r, w')"
  shows "(case abstract p (server w) of (Inl e, _) \<Rightarrow> r = Inl e \<and> server w' = server w
    | (Inr x, d) \<Rightarrow> r = Inr x \<and> server w' = d)"
proof -
  obtain rb w1 where b: "begin_tx w = (rb, w1)" by fastforce
  note bq = begin_quiet [OF assms(1) b]
  have w1: "server w1 = server w" "hooks_run w1 = hooks_run w" "leased w1" "used w1" "alive w1" "open_tx w1 = Some (server w)"
    using begin_ok [OF b] rest bq by (simp_all add: at_rest_def)
  let ?v = "w1\<lparr>depth := 1\<rparr>"
  obtain r2 w2 where e: "execute p ?v = (r2, w2)" by fastforce
  have v: "tx_ok ?v" "quiet ?v" using w1 bq by (simp_all add: tx_ok_def quiet_def)
  have q2: "quiet w2" by (rule execute_quiet [OF v(2) e])
  note ex = execute_tx [OF v(1) e]
  have t2: "tx_ok w2" "alive w2" "server w2 = server w" using ex q2 w1 by (auto simp: inside_def quiet_def tx_ok_def)
  obtain d where ab: "abstract p (server w) = (r2, d)" "open_tx w2 = Some d"
    using ex t2 w1 bq by (auto simp: follows_def quiet_def)
  show ?thesis
  proof (cases r2)
    case (Inl err)
    then have "roll_back err w2 = (r, w')" using run rest b bq e by (simp add: in_transaction_def at_rest_def)
    from roll_back_ok [OF this] t2 ab Inl show ?thesis by (simp add: tx_ok_def)
  next
    case (Inr x)
    obtain r3 w3 where c: "commit w2 = (r3, w3)" by fastforce
    have r3: "r3 = Inr ()" using commit_quiet [OF q2 t2(1,2) c] by simp
    then have res: "r = Inr x" "w' = run_hooks (map CommitHook (commit_hooks w3)) (w3\<lparr>depth := 0\<rparr>)"
      using run rest b bq e Inr c by (simp_all add: in_transaction_def at_rest_def)
    have "LostAfter \<notin> set (net w2)" using q2 by (simp add: quiet_def)
    from commit_ok [OF t2(1) c this] r3 ab Inr res show ?thesis by (simp add: run_hooks_def)
  qed
qed

subsection \<open>The property\<close>


definition demo_world :: "db world" where
  "demo_world = \<lparr>server = empty_db, leased = False, alive = False, open_tx = None, used = False, broken = False, depth = 0,
     commit_hooks = [], rollback_hooks = [], hooks_run = [], net = [LostBefore, NetOk, NetOk, NetOk]\<rparr>"

definition demo_prog :: "(db, int) prog" where
  "demo_prog = OnCommit 7 (Statement (\<lambda>s. (Inr 1, s\<lparr>next_fee := 5\<rparr>)) Finish)"

lemma demo_execution:
  "\<exists>w'. in_transaction (execute demo_prog) demo_world = (Inr 1, w')"
  by (simp add: in_transaction_def begin_tx.simps run_stmt.simps demo_world_def demo_prog_def connection_def send_def carry_out_def
      lose_def discard_lease_def on_commit_def commit_def Let_def)


subsection \<open>A statement that is carried out twice\<close>

text \<open>
  The answer to the first statement of a session may be lost after the server has committed it; the
  statement is then sent again, on another connection, for as often as that happens.
\<close>

lemma lost_answer_repeats:
  "server (snd (run_stmt (\<lambda>s. (Inr (), s\<lparr>next_fee := next_fee s + 1\<rparr>)) (demo_world\<lparr>net := [LostAfter, LostAfter]\<rparr>)))
     = empty_db\<lparr>next_fee := 4\<rparr>"
  by (simp add: run_stmt.simps demo_world_def connection_def send_def carry_out_def lose_def discard_lease_def Let_def empty_db_def)

end
