(* ===== verification/Accounts.thy ===== *)
theory Accounts
  imports Access Handlers
begin

text \<open>
  The tables of accounts and profiles with their UNIQUE keys: the username of a school, the one principal who
  has not left, the admission number of a school and the roll number of a section (migrations 0001, 0003, 0009
  and 0013).
\<close>

subsection \<open>Inserting\<close>

text \<open>Inserting an account: the username of a school and its one principal who has not left are unique.\<close>

definition user_conflict :: "ctx \<Rightarrow> user_row list \<Rightarrow> user_row \<Rightarrow> string option" where
  "user_conflict c rows u =
     (if list_ex (\<lambda>v. u_org v = u_org u \<and> sql_eq c (u_username v) (u_username u)) rows then Some ''uq_users_org_username''
      else if u_type u = Principal \<and> u_left_on u = None
        \<and> list_ex (\<lambda>v. u_org v = u_org u \<and> u_type v = Principal \<and> u_left_on v = None) rows then Some ''uq_users_org_principal''
      else None)"

definition insert_user :: "ctx \<Rightarrow> user_row \<Rightarrow> unit handler" where
  "insert_user c u s = (case user_conflict c (users s) u of
     Some k \<Rightarrow> (Inl (DuplicateKey (Some k)), s)
   | None \<Rightarrow> (Inr (), s\<lparr>users := users s @ [u\<lparr>u_id := next_user s\<rparr>], next_user := next_user s + 1\<rparr>))"

definition same_admission :: "ctx \<Rightarrow> student_profile_row \<Rightarrow> student_profile_row \<Rightarrow> bool" where
  "same_admission c p q = (sp_org p = sp_org q \<and> (case (sp_admission p, sp_admission q) of (Some a, Some b) \<Rightarrow> sql_eq c a b | _ \<Rightarrow> False))"

definition same_roll :: "ctx \<Rightarrow> student_profile_row \<Rightarrow> student_profile_row \<Rightarrow> bool" where
  "same_roll c p q = (sp_section p \<noteq> None \<and> sp_section p = sp_section q
     \<and> (case (sp_roll p, sp_roll q) of (Some a, Some b) \<Rightarrow> sql_eq c a b | _ \<Rightarrow> False))"

definition number_conflict :: "ctx \<Rightarrow> student_profile_row list \<Rightarrow> student_profile_row \<Rightarrow> string option" where
  "number_conflict c rows p =
     (if list_ex (same_admission c p) rows then Some ''uq_student_org_admission_no''
      else if list_ex (same_roll c p) rows then Some ''uq_student_section_roll'' else None)"

definition insert_profile :: "ctx \<Rightarrow> student_profile_row \<Rightarrow> unit handler" where
  "insert_profile c p s =
     (if list_ex (\<lambda>q. sp_user q = sp_user p) (student_profiles s) then (Inl (DuplicateKey (Some ''PRIMARY'')), s)
      else (case number_conflict c (student_profiles s) p of
          Some k \<Rightarrow> (Inl (DuplicateKey (Some k)), s)
        | None \<Rightarrow> (Inr (), s\<lparr>student_profiles := student_profiles s @ [p]\<rparr>)))"

definition insert_teacher_profile :: "teacher_profile_row \<Rightarrow> unit handler" where
  "insert_teacher_profile p s =
     (if list_ex (\<lambda>q. tp_user q = tp_user p) (teacher_profiles s) then (Inl (DuplicateKey (Some ''PRIMARY'')), s)
      else (Inr (), s\<lparr>teacher_profiles := teacher_profiles s @ [p]\<rparr>))"

end
