(* ===== verification/Import_Columns.thy ===== *)
theory Import_Columns
  imports Security
begin

text \<open>
  The columns of the bulk user import, \<^verbatim>\<open>app/services/user_import/columns.py\<close>, and reading the records
  of an uploaded file by its header, \<^verbatim>\<open>csv_io.py\<close>. The records themselves come from the \<^verbatim>\<open>csv\<close> module or
  the spreadsheet reader.
\<close>

subsection \<open>Columns\<close>

text \<open>The texts of a column's description (its example, its help) are left out.\<close>

datatype column_kind = UsernameKind | TextKind | EmailKind | PhoneKind | DateKind | PasswordKind | PhotoKind

datatype profile_table = UsersTable | StudentProfiles | TeacherProfiles

record column =
  col_name :: string
  col_kind :: column_kind
  col_table :: "profile_table option"
  col_max :: "nat option"
  col_required :: bool
  col_aliases :: "string list"

definition PASSWORD_MAX_LENGTH :: nat where "PASSWORD_MAX_LENGTH = 128"
definition EMAIL_MAX_LENGTH :: nat where "EMAIL_MAX_LENGTH = 120"

definition USERNAME :: column where
  "USERNAME = \<lparr>col_name = ''username'', col_kind = UsernameKind, col_table = Some UsersTable, col_max = Some 50, col_required = True,
     col_aliases = [''user_name'', ''login'']\<rparr>"

definition PASSWORD :: column where
  "PASSWORD = \<lparr>col_name = ''password'', col_kind = PasswordKind, col_table = None, col_max = Some PASSWORD_MAX_LENGTH,
     col_required = True, col_aliases = []\<rparr>"

definition FULL_NAME :: column where
  "FULL_NAME = \<lparr>col_name = ''full_name'', col_kind = TextKind, col_table = Some UsersTable, col_max = Some 100, col_required = True,
     col_aliases = [''name'', ''student_name'']\<rparr>"

definition EMAIL :: column where
  "EMAIL = \<lparr>col_name = ''email'', col_kind = EmailKind, col_table = Some UsersTable, col_max = Some EMAIL_MAX_LENGTH,
     col_required = True, col_aliases = [''email_address'', ''e_mail'', ''mail'']\<rparr>"

definition PHONE :: column where
  "PHONE = \<lparr>col_name = ''phone'', col_kind = PhoneKind, col_table = Some UsersTable, col_max = Some 20, col_required = False,
     col_aliases = [''mobile'', ''mobile_no'', ''phone_no'', ''contact'']\<rparr>"

definition PHOTO :: column where
  "PHOTO = \<lparr>col_name = ''photo'', col_kind = PhotoKind, col_table = None, col_max = Some 255, col_required = False,
     col_aliases = [''photo_file'', ''photo_filename'', ''image'']\<rparr>"

definition profile_column :: "profile_table \<Rightarrow> column_kind \<Rightarrow> string \<Rightarrow> nat option \<Rightarrow> string list \<Rightarrow> column" where
  "profile_column t k n m a = \<lparr>col_name = n, col_kind = k, col_table = Some t, col_max = m, col_required = False, col_aliases = a\<rparr>"

definition STUDENT_FIELDS :: "column list" where
  "STUDENT_FIELDS =
     [profile_column StudentProfiles TextKind ''admission_no'' (Some 30) [''admission_number'', ''adm_no'', ''admission''],
      profile_column StudentProfiles TextKind ''roll_no'' (Some 20) [''roll_number'', ''roll''],
      profile_column StudentProfiles DateKind ''dob'' None [''date_of_birth'', ''birth_date''],
      profile_column StudentProfiles TextKind ''father_name'' (Some 100) [''father'', ''fathers_name''],
      profile_column StudentProfiles TextKind ''mother_name'' (Some 100) [''mother'', ''mothers_name''],
      profile_column StudentProfiles PhoneKind ''guardian_phone'' (Some 20) [''parent_phone'', ''guardian_mobile'', ''parent_mobile''],
      profile_column StudentProfiles TextKind ''address'' (Some 255) []]"

definition TEACHER_FIELDS :: "column list" where
  "TEACHER_FIELDS =
     [profile_column TeacherProfiles TextKind ''subject'' (Some 100) [],
      profile_column TeacherProfiles TextKind ''qualification'' (Some 200) [],
      profile_column TeacherProfiles DateKind ''joining_date'' None [''date_of_joining'', ''doj''],
      profile_column TeacherProfiles TextKind ''address'' (Some 255) []]"

definition columns_for :: "user_type \<Rightarrow> column list" where
  "columns_for t = [USERNAME, PASSWORD, FULL_NAME, EMAIL, PHONE]
     @ (if t = Student then STUDENT_FIELDS else if t = Teacher then TEACHER_FIELDS else []) @ [PHOTO]"

text \<open>\<open>str.split()\<close>: the words between white space. The byte order mark lies outside Latin-1.\<close>

fun py_words :: "string \<Rightarrow> string \<Rightarrow> string list" where
  "py_words w [] = (if w = [] then [] else [rev w])"
| "py_words w (c # s) = (if py_isspace c then (if w = [] then [] else [rev w]) @ py_words [] s else py_words (c # w) s)"

definition header_key :: "string \<Rightarrow> string" where
  "header_key h = py_join ''_'' (py_words [] (map (\<lambda>c. if c = CHR ''-'' \<or> c = CHR ''.'' then CHR '' '' else c) (py_lower (py_strip h))))"

definition resolve_headers :: "user_type \<Rightarrow> string \<rightharpoonup> column" where
  "resolve_headers t = map_of (rev (concat (map (\<lambda>co. map (\<lambda>sp. (header_key sp, co)) (col_name co # col_aliases co)) (columns_for t))))"

subsection \<open>Reading the records\<close>

record csv_row =
  cr_number :: nat
  cr_cells :: "(string \<times> string) list"
  cr_problems :: "string list"

record parsed_csv =
  pc_columns :: "column list"
  pc_rows :: "csv_row list"
  pc_warnings :: "string list"

definition REQUIRED_HEADERS :: "string list" where "REQUIRED_HEADERS = [''username'', ''full_name'', ''email'']"

definition FORMULA_PREFIXES :: "char list" where "FORMULA_PREFIXES = [CHR ''='', CHR ''+'', CHR ''-'', CHR ''@'', CHR 0x09, CHR 0x0D]"

definition is_blank :: "string \<Rightarrow> bool" where
  "is_blank cell \<longleftrightarrow> py_strip cell = []"

definition unescape :: "string \<Rightarrow> string" where
  "unescape cell = (let v = py_strip cell in
     if 1 < length v \<and> v ! 0 = quote_char \<and> v ! 1 \<in> set FORMULA_PREFIXES then tl v else v)"

definition quoted :: "string \<Rightarrow> string" where
  "quoted v = quote_char # v @ [quote_char]"

text \<open>The loop over the header: the columns with their positions and the heading they were found under.\<close>

fun header_cells :: "user_type \<Rightarrow> nat \<Rightarrow> string list \<Rightarrow> (column \<times> nat \<times> string) list \<Rightarrow> string list
    \<Rightarrow> ((column \<times> nat \<times> string) list \<times> string list) res" where
  "header_cells t i [] found warns = Inr (found, warns)"
| "header_cells t i (raw # rest) found warns =
     (if is_blank raw then header_cells t (i + 1) rest found warns
      else (case resolve_headers t (header_key raw) of
          None \<Rightarrow> header_cells t (i + 1) rest found (warns @ [''Column '' @ quoted (py_strip raw) @ '' is not used for ''
              @ role_name t @ '' accounts and was ignored.''])
        | Some co \<Rightarrow> (case List.find (\<lambda>(co', _, _). col_name co' = col_name co) found of
            Some (_, _, h) \<Rightarrow> Inl (BadRequest (''The columns '' @ quoted h @ '' and '' @ quoted (py_strip raw)
              @ '' are the same field ('' @ col_name co @ ''); keep only one.''))
          | None \<Rightarrow> header_cells t (i + 1) rest (found @ [(co, i, py_strip raw)]) warns)))"

definition map_headers :: "user_type \<Rightarrow> string list \<Rightarrow> ((column \<times> nat) list \<times> string list) res" where
  "map_headers t header = bindR (header_cells t 0 header [] []) (\<lambda>(found, warns).
     let missing = filter (\<lambda>n. n \<notin> set (map (\<lambda>(co, _, _). col_name co) found)) REQUIRED_HEADERS
     in if missing \<noteq> [] then Inl (BadRequest (''Missing column(s): '' @ py_join '', '' missing
            @ ''. Download the template for the exact headers.''))
        else Inr (map (\<lambda>(co, i, _). (co, i)) found, warns))"

definition csv_row_of :: "(column \<times> nat) list \<Rightarrow> nat \<Rightarrow> nat \<Rightarrow> string list \<Rightarrow> csv_row" where
  "csv_row_of positions width n rec = \<lparr>cr_number = n,
     cr_cells = map (\<lambda>(co, i). (col_name co, if i < length rec then unescape (rec ! i) else [])) positions,
     cr_problems = (if list_ex (\<lambda>c. \<not> is_blank c) (drop width rec)
       then [''This row has more values than there are columns; check for a stray comma.''] else [])\<rparr>"

text \<open>\<open>enumerate(records, start)\<close>.\<close>

definition numbered :: "nat \<Rightarrow> 'a list \<Rightarrow> (nat \<times> 'a) list" where
  "numbered n xs = zip [n ..< n + length xs] xs"

definition blank_record :: "string list \<Rightarrow> bool" where
  "blank_record rec \<longleftrightarrow> list_all is_blank rec"

text \<open>\<open>next\<close> without a default raises \<open>StopIteration\<close> when every record is blank.\<close>

definition parse_records :: "string list list \<Rightarrow> user_type \<Rightarrow> nat \<Rightarrow> parsed_csv res" where
  "parse_records records t max_rows =
     (case dropWhile blank_record records of
        [] \<Rightarrow> Inl (RuntimeError ''StopIteration'')
      | header # rest \<Rightarrow> bindR (map_headers t header) (\<lambda>(positions, warns).
          let start = length (takeWhile blank_record records) + 2;
              rows = map (\<lambda>(n, rec). csv_row_of positions (length header) n rec)
                (filter (\<lambda>(_, rec). \<not> blank_record rec) (numbered start rest))
          in if max_rows < length rows then Inl (BadRequest (''The file has more than '' @ py_str_int (int max_rows)
                 @ '' users. Split it into smaller files.''))
             else if rows = [] then Inl (BadRequest ''The file has a header row but no users.'')
             else Inr \<lparr>pc_columns = map fst positions, pc_rows = rows, pc_warnings = warns\<rparr>))"

definition count_char :: "char \<Rightarrow> string \<Rightarrow> nat" where
  "count_char c s = length (filter (\<lambda>x. x = c) s)"

text \<open>\<open>_delimiter\<close>: \<open>max\<close> keeps the first of equals.\<close>

definition delimiter :: "string \<Rightarrow> char" where
  "delimiter line = (let n = (\<lambda>c. count_char c line); best = (if n (CHR '';'') \<le> n (CHR '','') then CHR '','' else CHR '';'');
       best = (if n (CHR 0x09) \<le> n best then best else CHR 0x09)
     in if n best = 0 then CHR '','' else best)"

definition first_line :: "string list \<Rightarrow> string" where
  "first_line lines = (case dropWhile is_blank lines of [] \<Rightarrow> [] | l # _ \<Rightarrow> l)"

text \<open>
  \<open>parse\<close> on a text file: \<open>lines\<close> is \<open>text.splitlines()\<close>, \<open>read\<close> what the reader of the delimiter makes of
  the text, an error message when it cannot be read.
\<close>

definition parse_csv :: "string list \<Rightarrow> (char \<Rightarrow> string + string list list) \<Rightarrow> user_type \<Rightarrow> nat \<Rightarrow> parsed_csv res" where
  "parse_csv lines read t max_rows =
     (if first_line lines = [] then Inl (BadRequest ''The CSV file is empty. Download the template and fill in one user per row.'')
      else (case read (delimiter (first_line lines)) of
          Inl why \<Rightarrow> Inl (BadRequest (''The CSV file could not be read near line '' @ why
            @ ''. Save it again from your spreadsheet as '' @ quoted ''CSV UTF-8'' @ ''.''))
        | Inr records \<Rightarrow> parse_records records t max_rows))"

text \<open>\<open>parse\<close> on a workbook.\<close>

definition parse_xlsx :: "string list list \<Rightarrow> user_type \<Rightarrow> nat \<Rightarrow> parsed_csv res" where
  "parse_xlsx records t max_rows =
     (if list_all blank_record records then Inl (BadRequest ''The file is empty. Download the template and fill in one user per row.'')
      else parse_records records t max_rows)"

subsection \<open>What reading gives\<close>

lemma map_cr_number: "map cr_number (map (\<lambda>(n, rec). csv_row_of p w n rec) xs) = map fst xs"
  by (induction xs) (auto simp: csv_row_of_def)

text \<open>Every row has its own number: an error message names one row of the sheet.\<close>

lemma parsed_numbers:
  assumes "parse_records records t m = Inr parsed"
  shows "distinct (map cr_number (pc_rows parsed))"
proof -
  have "distinct (map fst (filter P (numbered n xs)))" for P n and xs :: "'a list"
    by (simp add: numbered_def distinct_map_filter)
  with assms show ?thesis
    by (auto simp: parse_records_def Let_def map_cr_number simp del: map_map split: list.splits if_splits)
qed

text \<open>A CSV file that holds nothing but separators leaves the parser by \<open>StopIteration\<close>, an error of the server.\<close>

lemma separators_only_crash:
  "parse_csv ['',,,''] (\<lambda>_. Inr [[[], [], [], []]]) Student 100 = Inl (RuntimeError ''StopIteration'')"
  by (simp add: parse_csv_def first_line_def is_blank_def py_strip_def py_isspace_def py_ord_def delimiter_def count_char_def
      Let_def parse_records_def blank_record_def)

end
