(* ===== verification/Import_Cells.thy ===== *)
theory Import_Cells
  imports Notify Import_Columns
begin

text \<open>
  The rows of a bulk user import and the checks of their cells, the first part of
  \<^verbatim>\<open>app/services/user_import/planner.py\<close>, with the validators of \<^verbatim>\<open>app/core/validators.py\<close>.
\<close>

subsection \<open>Cells\<close>

datatype cell = Text string | Day date

text \<open>
  \<open>fold\<close> on Latin-1: compatibility decomposition without the combining marks, then case folding. The
  fraction slash lies outside Latin-1 and is one stand-in control character.
\<close>

definition fold_char :: "char \<Rightarrow> string" where
  "fold_char c = (let n = py_ord c in
     if n \<in> {160, 168, 175, 180, 184} then '' '' else if n = 170 then ''a'' else if n = 186 then ''o''
     else if n = 178 then ''2'' else if n = 179 then ''3'' else if n = 185 then ''1''
     else if n = 188 then [CHR ''1'', CHR 0x1A, CHR ''4''] else if n = 189 then [CHR ''1'', CHR 0x1A, CHR ''2'']
     else if n = 190 then [CHR ''3'', CHR 0x1A, CHR ''4'']
     else if (192 \<le> n \<and> n \<le> 197) \<or> (224 \<le> n \<and> n \<le> 229) then ''a'' else if n = 199 \<or> n = 231 then ''c''
     else if (200 \<le> n \<and> n \<le> 203) \<or> (232 \<le> n \<and> n \<le> 235) then ''e'' else if (204 \<le> n \<and> n \<le> 207) \<or> (236 \<le> n \<and> n \<le> 239) then ''i''
     else if n = 209 \<or> n = 241 then ''n'' else if (210 \<le> n \<and> n \<le> 214) \<or> (242 \<le> n \<and> n \<le> 246) then ''o''
     else if (217 \<le> n \<and> n \<le> 220) \<or> (249 \<le> n \<and> n \<le> 252) then ''u'' else if n \<in> {221, 253, 255} then ''y''
     else if n = 223 then ''ss'' else [py_lower_char c])"

definition fold_text :: "string \<Rightarrow> string" where
  "fold_text v = concat (map fold_char (py_strip v))"

definition iso_date :: "date \<Rightarrow> string" where
  "iso_date d = fmt0 4 (year_of d) @ ''-'' @ fmt0 2 (month_of d) @ ''-'' @ fmt0 2 (day_of d)"

definition cell_str :: "cell \<Rightarrow> string" where
  "cell_str v = (case v of Text t \<Rightarrow> t | Day d \<Rightarrow> iso_date d)"

text \<open>The truth value of an optional cell.\<close>

definition given :: "cell option \<Rightarrow> bool" where
  "given v = (case v of None \<Rightarrow> False | Some (Text t) \<Rightarrow> t \<noteq> [] | Some (Day _) \<Rightarrow> True)"

subsection \<open>The rows of a plan\<close>

datatype import_action = ACreate | AUpdate | AUnchanged | AError

text \<open>A row of \<open>EXISTING_SQL\<close>: an account with its profile and the names of its class and section.\<close>

record existing =
  ex_user :: user_row
  ex_sp :: "student_profile_row option"
  ex_tp :: "teacher_profile_row option"
  ex_class :: "string option"
  ex_section :: "string option"

record row_plan =
  rp_number :: nat
  rp_username :: string
  rp_action :: import_action
  rp_values :: "string \<Rightarrow> cell option"
  rp_invalid :: "string list"
  rp_changes :: "string list"
  rp_errors :: "string list"
  rp_existing :: "existing option"
  rp_user :: "int option"

record import_section =
  is_section :: int
  is_class :: int
  is_class_name :: string
  is_name :: string

record import_plan =
  pl_type :: user_type
  pl_section :: "import_section option"
  pl_columns :: "column list"
  pl_rows :: "row_plan list"
  pl_warnings :: "string list"

definition add_error :: "string \<Rightarrow> row_plan \<Rightarrow> row_plan" where
  "add_error e r = r\<lparr>rp_errors := rp_errors r @ [e]\<rparr>"

text \<open>\<open>dict.get\<close> on such a row, by the names the columns have in the query.\<close>

definition existing_get :: "existing \<Rightarrow> string \<Rightarrow> cell option" where
  "existing_get e n = (let u = ex_user e; sp = (\<lambda>f. map_option Text (Option.bind (ex_sp e) f)); tp = (\<lambda>f. map_option Text (Option.bind (ex_tp e) f)) in
     if n = ''username'' then Some (Text (u_username u)) else if n = ''full_name'' then Some (Text (u_full_name u))
     else if n = ''email'' then map_option Text (u_email u) else if n = ''phone'' then map_option Text (u_phone u)
     else if n = ''photo_path'' then map_option Text (u_photo u)
     else if n = ''admission_no'' then sp sp_admission else if n = ''roll_no'' then sp sp_roll
     else if n = ''dob'' then map_option Day (Option.bind (ex_sp e) sp_dob)
     else if n = ''father_name'' then sp sp_father else if n = ''mother_name'' then sp sp_mother
     else if n = ''guardian_phone'' then sp sp_guardian_phone else if n = ''sp_address'' then sp sp_address
     else if n = ''subject'' then tp tp_subject else if n = ''qualification'' then tp tp_qualification
     else if n = ''joining_date'' then map_option Day (Option.bind (ex_tp e) tp_joining)
     else if n = ''tp_address'' then tp tp_address else None)"

text \<open>\<open>_EXISTING_ALIASES\<close>.\<close>

definition existing_name :: "profile_table option \<Rightarrow> string \<Rightarrow> string" where
  "existing_name t n = (if n = ''address'' then (case t of Some StudentProfiles \<Rightarrow> ''sp_address'' | Some TeacherProfiles \<Rightarrow> ''tp_address'' | _ \<Rightarrow> n) else n)"

definition final :: "string \<Rightarrow> profile_table option \<Rightarrow> row_plan \<Rightarrow> cell option" where
  "final n t r = (case rp_values r n of Some v \<Rightarrow> Some v
     | None \<Rightarrow> (case rp_existing r of None \<Rightarrow> None | Some e \<Rightarrow> existing_get e (existing_name t n)))"

definition row_action :: "row_plan \<Rightarrow> import_action" where
  "row_action r = (if rp_errors r \<noteq> [] then AError else rp_action r)"

definition rows_with :: "import_action \<Rightarrow> import_plan \<Rightarrow> row_plan list" where
  "rows_with a p = filter (\<lambda>r. rp_errors r = [] \<and> rp_action r = a) (pl_rows p)"

definition has_errors :: "import_plan \<Rightarrow> bool" where
  "has_errors p = list_ex (\<lambda>r. rp_errors r \<noteq> []) (pl_rows p)"

definition signature :: "import_plan \<Rightarrow> (nat \<times> import_action \<times> int option \<times> string list \<times> string list) list" where
  "signature p = map (\<lambda>r. (rp_number r, rp_action r, rp_user r, rp_changes r, rp_errors r)) (pl_rows p)"

definition savable :: "import_plan \<Rightarrow> row_plan list" where
  "savable p = filter (\<lambda>r. rp_errors r = [] \<and> (rp_action r = ACreate \<or> rp_action r = AUpdate)) (pl_rows p)"

definition summary :: "import_plan \<Rightarrow> import_action \<Rightarrow> nat" where
  "summary p a = length (filter (\<lambda>r. row_action r = a) (pl_rows p))"

subsection \<open>Cell checks\<close>

definition label_ok :: "string \<Rightarrow> bool" where
  "label_ok l = (let alnum = (\<lambda>c. ascii_digit c \<or> (65 \<le> py_ord c \<and> py_ord c \<le> 90) \<or> (97 \<le> py_ord c \<and> py_ord c \<le> 122)) in
     l \<noteq> [] \<and> length l \<le> 63 \<and> alnum (hd l) \<and> alnum (last l) \<and> list_all (\<lambda>c. alnum c \<or> c = CHR ''-'') l)"

definition local_char :: "char \<Rightarrow> bool" where
  "local_char c = (ascii_digit c \<or> (65 \<le> py_ord c \<and> py_ord c \<le> 90) \<or> (97 \<le> py_ord c \<and> py_ord c \<le> 122)
     \<or> c \<in> set ''.!#$%&*+/=?^_`{|}~-'' \<or> c = quote_char)"

text \<open>\<open>_EMAIL_RE\<close>; \<open>$\<close> matches before a final line feed too.\<close>

definition is_valid_email :: "string \<Rightarrow> bool" where
  "is_valid_email v = (let w = (if v \<noteq> [] \<and> last v = CHR 0x0A then butlast v else v) in
     length v \<le> EMAIL_MAX_LENGTH
     \<and> (case py_split (CHR ''@'') w of
          [name, domain] \<Rightarrow> name \<noteq> [] \<and> list_all local_char name \<and> 2 \<le> length (py_split (CHR ''.'') domain)
            \<and> list_all label_ok (py_split (CHR ''.'') domain)
        | _ \<Rightarrow> False))"

definition digits_ok :: "nat \<Rightarrow> nat \<Rightarrow> string \<Rightarrow> bool" where
  "digits_ok lo hi s \<longleftrightarrow> lo \<le> length s \<and> length s \<le> hi \<and> list_all ascii_digit s"

definition days_in_month :: "int \<Rightarrow> int \<Rightarrow> int" where
  "days_in_month y m = (if m = 12 then 31 else ordinal y (m + 1) 1 - ordinal y m 1)"

text \<open>\<open>strptime\<close> with \<open>%d\<close>, \<open>%m\<close> (one or two digits) and \<open>%Y\<close> (four) between separators.\<close>

definition civil_date :: "string \<Rightarrow> string \<Rightarrow> string \<Rightarrow> date option" where
  "civil_date ys ms ds = (let y = int (digits_val 0 ys); m = int (digits_val 0 ms); d = int (digits_val 0 ds) in
     if digits_ok 4 4 ys \<and> digits_ok 1 2 ms \<and> digits_ok 1 2 ds \<and> 1 \<le> y \<and> 1 \<le> m \<and> m \<le> 12 \<and> 1 \<le> d \<and> d \<le> days_in_month y m
     then Some (ordinal y m d) else None)"

definition year_first :: "char \<Rightarrow> string \<Rightarrow> date option" where
  "year_first sep t = (case py_split sep t of [y, m, d] \<Rightarrow> civil_date y m d | _ \<Rightarrow> None)"

definition day_first :: "char \<Rightarrow> string \<Rightarrow> date option" where
  "day_first sep t = (case py_split sep t of [d, m, y] \<Rightarrow> civil_date y m d | _ \<Rightarrow> None)"

definition parse_date :: "string \<Rightarrow> date option" where
  "parse_date raw = (let t = hd (py_split (CHR '' '') (py_strip raw))
     in case List.find is_some [year_first (CHR ''-'') t, day_first (CHR ''-'') t, day_first (CHR ''/'') t,
            day_first (CHR ''.'') t, year_first (CHR ''/'') t] of None \<Rightarrow> None | Some d \<Rightarrow> d)"

text \<open>\<open>_EXCEL_NUMBER_RE\<close>, on text without surrounding white space.\<close>

definition excel_number :: "string \<Rightarrow> bool" where
  "excel_number s = (let m = takeWhile (\<lambda>c. c \<noteq> CHR ''e'' \<and> c \<noteq> CHR ''E'') s; r = drop (length m) s;
       ex = (case r of [] \<Rightarrow> [] | _ # x \<Rightarrow> (case x of c # y \<Rightarrow> if c = CHR ''+'' then y else x | [] \<Rightarrow> []))
     in ex \<noteq> [] \<and> list_all ascii_digit ex
        \<and> (case m of [] \<Rightarrow> False | d # f \<Rightarrow> ascii_digit d \<and> (case f of [] \<Rightarrow> True | p # g \<Rightarrow> p = CHR ''.'' \<and> g \<noteq> [] \<and> list_all ascii_digit g)))"

definition phone_ok :: "string \<Rightarrow> bool" where
  "phone_ok s = (let t = (case s of c # r \<Rightarrow> if c = CHR ''+'' then r else s | [] \<Rightarrow> []) in
     (case t of [] \<Rightarrow> False | d # r \<Rightarrow> ascii_digit d \<and> list_all (\<lambda>c. ascii_digit c \<or> c \<in> set '' ()-.'') r)
     \<and> 6 \<le> length (filter py_isdigit_char s))"

definition set_value :: "string \<Rightarrow> cell \<Rightarrow> row_plan \<Rightarrow> row_plan" where
  "set_value n v r = r\<lparr>rp_values := (rp_values r)(n := Some v)\<rparr>"

text \<open>The latest date of a column: today for a birthday, else a year from now.\<close>

definition latest_date :: "ctx \<Rightarrow> string \<Rightarrow> date" where
  "latest_date c label = (let today = school_today c in
     if label = ''dob'' then today else ordinal (year_of today + 1) (month_of today) (min (day_of today) 28))"

definition max_of :: "column \<Rightarrow> nat" where
  "max_of co = (case col_max co of None \<Rightarrow> 0 | Some m \<Rightarrow> m)"

definition check_cell :: "ctx \<Rightarrow> column \<Rightarrow> string \<Rightarrow> row_plan \<Rightarrow> row_plan" where
  "check_cell c co raw r = (let label = col_name co in
     if col_kind co = DateKind then
       (case parse_date raw of
          None \<Rightarrow> add_error (label @ '': '' @ quoted raw @ '' is not a date; use YYYY-MM-DD or DD-MM-YYYY.'') r
        | Some d \<Rightarrow> if latest_date c label < d \<or> year_of d < 1900 then add_error (label @ '': '' @ raw @ '' is not a plausible date.'') r
            else set_value label (Day d) r)
     else if max_of co \<noteq> 0 \<and> max_of co < length raw then
       add_error (label @ '' is too long ('' @ py_str_int (int (length raw)) @ '' characters, max ''
         @ py_str_int (int (max_of co)) @ '').'') r
     else if col_kind co = EmailKind \<and> \<not> is_valid_email raw then
       add_error (label @ '': '' @ quoted raw @ '' '' @ EM_DASH @ '' enter a valid email address.'') r
     else if col_kind co = PhoneKind \<and> excel_number raw then
       add_error (label @ '': '' @ quoted raw @ '' was changed by Excel into a number. Format the column as Text and type the number again.'') r
     else if col_kind co = PhoneKind \<and> \<not> phone_ok raw then
       add_error (label @ '': '' @ quoted raw @ '' is not a phone number (digits, spaces, + - ( ) only).'') r
     else set_value label (Text raw) r)"

definition clean_cell :: "ctx \<Rightarrow> column \<Rightarrow> string \<Rightarrow> row_plan \<Rightarrow> row_plan" where
  "clean_cell c co raw r =
     (if raw = [] then r
      else (let r' = check_cell c co raw r in
        if length (rp_errors r) < length (rp_errors r') then r'\<lparr>rp_invalid := col_name co # rp_invalid r'\<rparr> else r'))"

definition cell_of :: "csv_row \<Rightarrow> string \<Rightarrow> string" where
  "cell_of cr n = (case map_of (cr_cells cr) n of None \<Rightarrow> [] | Some v \<Rightarrow> v)"

definition clean_row :: "ctx \<Rightarrow> column list \<Rightarrow> csv_row \<Rightarrow> row_plan" where
  "clean_row c cols cr = fold (\<lambda>co r. clean_cell c co (cell_of cr (col_name co)) r) cols
     \<lparr>rp_number = cr_number cr, rp_username = cell_of cr ''username'', rp_action = AError, rp_values = (\<lambda>_. None), rp_invalid = [],
      rp_changes = [], rp_errors = cr_problems cr, rp_existing = None, rp_user = None\<rparr>"

end
