(* ===== verification/Import_Plan.thy ===== *)
theory Import_Plan
  imports Import_Cells
begin

text \<open>
  The plan of a bulk user import, \<^verbatim>\<open>app/services/user_import/planner.py\<close>: which rows create a user, which
  update one, which change nothing, and which have problems. Row locks have no effect in a model where a
  query sees one state; reading the photos archive is a parameter.
\<close>

subsection \<open>Usernames\<close>

definition rows_phrase :: "nat list \<Rightarrow> string" where
  "rows_phrase ns = (let t = map (\<lambda>n. py_str_int (int n)) (sort ns)
     in ''rows '' @ (if 1 < length t then py_join '', '' (butlast t) @ '' and '' @ last t else hd t))"

definition mark_duplicate_usernames :: "row_plan list \<Rightarrow> row_plan list" where
  "mark_duplicate_usernames rows = map (\<lambda>r.
     if rp_username r = [] then add_error ''username is required.'' r
     else (let same = filter (\<lambda>q. rp_username q \<noteq> [] \<and> fold_text (rp_username q) = fold_text (rp_username r)) rows in
       if 1 < length same then add_error (''Username '' @ quoted (rp_username r) @ '' is on '' @ rows_phrase (map rp_number same)
         @ ''; keep it on one row only.'') r else r)) rows"

definition CHUNK :: nat where "CHUNK = 500"

definition existing_of :: "db \<Rightarrow> user_row \<Rightarrow> existing" where
  "existing_of s u = (let sp = one_where (\<lambda>p. sp_user p = u_id u) (student_profiles s) in
     \<lparr>ex_user = u, ex_sp = sp, ex_tp = one_where (\<lambda>p. tp_user p = u_id u) (teacher_profiles s),
      ex_class = Option.bind (Option.bind sp sp_class) (\<lambda>i. map_option cl_name (one_where (\<lambda>k. cl_id k = i) (classes s))),
      ex_section = Option.bind (Option.bind sp sp_section) (\<lambda>i. map_option se_name (one_where (\<lambda>k. se_id k = i) (sections s)))\<rparr>)"

definition users_named :: "ctx \<Rightarrow> int \<Rightarrow> string list list \<Rightarrow> db \<Rightarrow> user_row list" where
  "users_named c g parts s = concat (map (\<lambda>part. filter (\<lambda>u. u_org u = g \<and> list_ex (sql_eq c (u_username u)) part) (users s)) parts)"

definition existing_users :: "ctx \<Rightarrow> int \<Rightarrow> string list \<Rightarrow> db \<Rightarrow> string \<Rightarrow> existing option" where
  "existing_users c g names s = map_of (rev (map (\<lambda>u. (fold_text (u_username u), existing_of s u)) (users_named c g (chunks CHUNK (sort_key fold_text (remdups names))) s)))"

subsection \<open>Deciding what a row does\<close>

definition place :: "string option \<Rightarrow> string option \<Rightarrow> string" where
  "place cn sn = (if \<not> opt_is_blank cn \<and> \<not> opt_is_blank sn then the cn @ ''-'' @ the sn else str_or cn ''no section'')"

definition same_cell :: "cell option \<Rightarrow> cell \<Rightarrow> bool" where
  "same_cell current new = (case new of
     Day d \<Rightarrow> current = Some (Day d)
   | Text t \<Rightarrow> (case current of None \<Rightarrow> False | Some v \<Rightarrow> py_strip (cell_str v) = t))"

definition changed_columns :: "row_plan \<Rightarrow> existing \<Rightarrow> column list \<Rightarrow> string list" where
  "changed_columns r e cols = map col_name (filter (\<lambda>co. col_name co \<noteq> ''username'' \<and> col_name co \<noteq> ''password''
     \<and> (case rp_values r (col_name co) of None \<Rightarrow> False
        | Some v \<Rightarrow> col_kind co = PhotoKind \<or> \<not> same_cell (existing_get e (existing_name (col_table co) (col_name co))) v)) cols)"

definition decide_create :: "row_plan \<Rightarrow> row_plan" where
  "decide_create r = (let
       e1 = (if list_ex py_isspace (rp_username r) then [''Usernames cannot contain spaces.''] else []);
       e2 = (if length (rp_username r) < 3 then [''username must be at least 3 characters.''] else []);
       missing = filter (\<lambda>n. rp_values r n = None \<and> n \<notin> set (rp_invalid r)) [''full_name'', ''email'', ''password''];
       e3 = (if missing = [] then [] else [''New user: '' @ py_join '', '' missing @ '' '' @ (if length missing = 1 then ''is'' else ''are'') @ '' required.'']);
       n = length (case rp_values r ''password'' of None \<Rightarrow> [] | Some v \<Rightarrow> cell_str v);
       e4 = (if 0 < n \<and> n < 6 then [''password must be at least 6 characters.''] else [])
     in r\<lparr>rp_errors := rp_errors r @ e1 @ e2 @ e3 @ e4, rp_action := ACreate\<rparr>)"

definition decide :: "user_type \<Rightarrow> import_section option \<Rightarrow> column list \<Rightarrow> (string \<Rightarrow> existing option) \<Rightarrow> row_plan \<Rightarrow> row_plan" where
  "decide t sec cols lookup r0 =
     (if rp_username r0 = [] then r0
      else (case lookup (fold_text (rp_username r0)) of
        None \<Rightarrow> decide_create r0
      | Some e \<Rightarrow> (let u = ex_user e; r = r0\<lparr>rp_existing := Some e, rp_user := Some (u_id u)\<rparr>; here = Option.bind (ex_sp e) sp_section in
          if u_type u \<noteq> t then add_error (''Username '' @ quoted (rp_username r) @ '' is already used by a ''
            @ map (\<lambda>x. if x = CHR ''_'' then CHR ''-'' else x) (role_name (u_type u)) @ '' account.'') r
          else if u_left_on u \<noteq> None then add_error (u_full_name u @ '' is marked as left. Reactivate the account first, then upload again.'') r
          else if t = Student \<and> here \<noteq> map_option is_section sec then
            (if here = None then add_error ''This student already exists but is not in any section. Ask the office to assign the student, then upload again.'' r
             else add_error (u_full_name u @ '' is already enrolled in '' @ place (ex_class e) (ex_section e)
               @ ''. Contact that class teacher (or the office) to move the student, or remove this row.'') r)
          else (let r1 = (if \<not> given (final ''email'' None r) \<and> ''email'' \<notin> set (rp_invalid r)
                          then add_error ''email is required (this account has no email yet).'' r else r);
                    ch = changed_columns r1 e cols
                in r1\<lparr>rp_changes := ch, rp_action := (if ch \<noteq> [] then AUpdate else AUnchanged)\<rparr>))))"

definition drop_password :: "row_plan \<Rightarrow> row_plan" where
  "drop_password r = (if rp_existing r = None then r else r\<lparr>rp_values := (rp_values r)(''password'' := None)\<rparr>)"

subsection \<open>Rules across rows\<close>

definition one_principal :: "int \<Rightarrow> db \<Rightarrow> row_plan list \<Rightarrow> row_plan list" where
  "one_principal g s rows = (let creates = filter (\<lambda>r. rp_action r = ACreate) rows in
     map (\<lambda>r. if rp_action r \<noteq> ACreate then r
       else (case one_where (\<lambda>u. u_org u = g \<and> u_type u = Principal) (users s) of
           Some u \<Rightarrow> add_error (''There is already a principal ('' @ u_username u @ ''). Only one principal is allowed.'') r
         | None \<Rightarrow> if 1 < length creates then add_error (''Only one principal is allowed, but '' @ rows_phrase (map rp_number creates)
               @ '' each add one; keep one.'') r else r)) rows)"

definition typed_key :: "string \<Rightarrow> row_plan \<Rightarrow> string option" where
  "typed_key n r = (if given (rp_values r n) then Some (fold_text (cell_str (the (rp_values r n)))) else None)"

definition mark_repeated :: "string \<Rightarrow> string \<Rightarrow> row_plan list \<Rightarrow> row_plan list" where
  "mark_repeated n label rows = map (\<lambda>r. case typed_key n r of
       None \<Rightarrow> r
     | Some k \<Rightarrow> (let same = filter (\<lambda>q. typed_key n q = Some k) rows in
         if 1 < length same then add_error (label @ '' '' @ cell_str (the (rp_values r n)) @ '' is on '' @ rows_phrase (map rp_number same)
           @ ''; keep it on one row only.'') r else r)) rows"

record holder =
  hd_user :: int
  hd_value :: string
  hd_name :: string
  hd_class :: "string option"
  hd_section :: "string option"

text \<open>A holder of a number: the profile that has it, joined with its account.\<close>

definition holder_of :: "(student_profile_row \<Rightarrow> string option) \<Rightarrow> bool \<Rightarrow> db \<Rightarrow> student_profile_row \<Rightarrow> holder option" where
  "holder_of f placed s p = (case (f p, one_where (\<lambda>u. u_id u = sp_user p) (users s)) of
     (Some v, Some u) \<Rightarrow> Some \<lparr>hd_user = sp_user p, hd_value = v, hd_name = u_full_name u,
        hd_class = (if placed then ex_class (existing_of s u) else None), hd_section = (if placed then ex_section (existing_of s u) else None)\<rparr>
   | _ \<Rightarrow> None)"

definition final_key :: "string \<Rightarrow> row_plan \<Rightarrow> string option" where
  "final_key n r = (let v = final n None r in if given v then Some (fold_text (cell_str (the v))) else None)"

definition is_saved :: "row_plan \<Rightarrow> bool" where
  "is_saved r \<longleftrightarrow> rp_errors r = [] \<and> rp_action r \<noteq> AError"

definition admission_holders :: "ctx \<Rightarrow> int \<Rightarrow> row_plan list \<Rightarrow> db \<Rightarrow> holder list" where
  "admission_holders c g rows s = (let
       values = sort (remdups (map (\<lambda>r. cell_str (the (final ''admission_no'' None r)))
         (filter (\<lambda>r. is_saved r \<and> given (final ''admission_no'' None r)) rows)))
     in concat (map (\<lambda>part. List.map_filter (holder_of sp_admission True s)
         (filter (\<lambda>p. sp_org p = g \<and> (case sp_admission p of None \<Rightarrow> False | Some a \<Rightarrow> list_ex (sql_eq c a) part)) (student_profiles s)))
       (chunks CHUNK values)))"

definition roll_holders :: "int \<Rightarrow> int \<Rightarrow> db \<Rightarrow> holder list" where
  "roll_holders g sec s = List.map_filter (holder_of sp_roll False s)
     (filter (\<lambda>p. sp_org p = g \<and> sp_section p = Some sec) (student_profiles s))"

text \<open>\<open>_check_holders\<close>: the student who keeps the number of a row, among the rows still to be saved.\<close>

definition staying :: "string \<Rightarrow> row_plan list \<Rightarrow> int \<Rightarrow> string option option" where
  "staying n saved = map_of (rev (map (\<lambda>r. (the (rp_user r), final_key n r)) (filter (\<lambda>r. rp_user r \<noteq> None) saved)))"

definition blocking :: "string \<Rightarrow> holder list \<Rightarrow> row_plan list \<Rightarrow> row_plan \<Rightarrow> holder option" where
  "blocking n holders saved r = (case final_key n r of
     None \<Rightarrow> None
   | Some k \<Rightarrow> if k = [] then None
       else List.find (\<lambda>h. fold_text (hd_value h) = k \<and> Some (hd_user h) \<noteq> rp_user r
         \<and> (case staying n saved (hd_user h) of None \<Rightarrow> True | Some k' \<Rightarrow> k' = Some k)) holders)"

definition blocked_error :: "string \<Rightarrow> string \<Rightarrow> holder list \<Rightarrow> bool \<Rightarrow> row_plan list \<Rightarrow> row_plan \<Rightarrow> string list" where
  "blocked_error n label holders in_section saved r = (case blocking n holders saved r of
     None \<Rightarrow> []
   | Some h \<Rightarrow> [label @ '' '' @ cell_str (the (final n None r)) @ '' already belongs to '' @ hd_name h @ '' (''
       @ (if in_section then ''in this section'' else ''in '' @ place (hd_class h) (hd_section h)) @ '').''])"

definition round_errors :: "holder list \<Rightarrow> holder list \<Rightarrow> row_plan list \<Rightarrow> row_plan \<Rightarrow> string list" where
  "round_errors adm rolls saved r = (if is_saved r then blocked_error ''admission_no'' ''Admission number'' adm False saved r
      @ blocked_error ''roll_no'' ''Roll number'' rolls True saved r else [])"

definition number_round :: "holder list \<Rightarrow> holder list \<Rightarrow> row_plan list \<Rightarrow> row_plan list" where
  "number_round adm rolls rows = map (\<lambda>r. r\<lparr>rp_errors := rp_errors r @ round_errors adm rolls (filter is_saved rows) r\<rparr>) rows"

definition round_found :: "holder list \<Rightarrow> holder list \<Rightarrow> row_plan list \<Rightarrow> bool" where
  "round_found adm rolls rows = list_ex (\<lambda>r. round_errors adm rolls (filter is_saved rows) r \<noteq> []) rows"

text \<open>Every round that finds a problem takes one more row out of those that are saved.\<close>

lemma number_round_fewer:
  assumes "round_found adm rolls rows"
  shows "length (filter is_saved (number_round adm rolls rows)) < length (filter is_saved rows)"
proof -
  let ?e = "round_errors adm rolls (filter is_saved rows)"
  have keep: "is_saved (r\<lparr>rp_errors := rp_errors r @ ?e r\<rparr>) \<longleftrightarrow> is_saved r \<and> ?e r = []" for r
    by (auto simp: is_saved_def)
  have "filter is_saved (number_round adm rolls rows) = map (\<lambda>r. r\<lparr>rp_errors := rp_errors r @ ?e r\<rparr>) (filter (\<lambda>r. is_saved r \<and> ?e r = []) rows)"
    by (simp add: number_round_def filter_map comp_def keep)
  then have eq: "length (filter is_saved (number_round adm rolls rows)) = length (filter (\<lambda>r. ?e r = []) (filter is_saved rows))"
    by (simp add: conj_commute)
  obtain r where "r \<in> set rows" "?e r \<noteq> []" using assms by (auto simp: round_found_def list_ex_iff)
  moreover from this have "is_saved r" by (auto simp: round_errors_def split: if_splits)
  ultimately have "length (filter (\<lambda>r. ?e r = []) (filter is_saved rows)) < length (filter is_saved rows)"
    by (intro length_filter_less [of r]) simp_all
  with eq show ?thesis by (simp only:)
qed

function settle_numbers :: "holder list \<Rightarrow> holder list \<Rightarrow> row_plan list \<Rightarrow> row_plan list" where
  "settle_numbers adm rolls rows =
     (if round_found adm rolls rows then settle_numbers adm rolls (number_round adm rolls rows) else rows)"
  by pat_completeness auto
termination by (relation "measure (\<lambda>(_, _, rows). length (filter is_saved rows))") (auto intro: number_round_fewer)

declare settle_numbers.simps [simp del]

definition unique_student_numbers :: "ctx \<Rightarrow> int \<Rightarrow> int \<Rightarrow> db \<Rightarrow> row_plan list \<Rightarrow> row_plan list" where
  "unique_student_numbers c g sec s rows0 = (let rows = mark_repeated ''roll_no'' ''Roll number'' (mark_repeated ''admission_no'' ''Admission number'' rows0)
     in settle_numbers (admission_holders c g rows s) (roll_holders g sec s) rows)"

subsection \<open>Photos\<close>

text \<open>The archive: what is wrong with the file of a name, and the files no row has asked for.\<close>

record photo_archive =
  pa_problem :: "string \<Rightarrow> string option"
  pa_unused :: "string list \<Rightarrow> string list"

definition check_photo :: "photo_archive option \<Rightarrow> row_plan \<Rightarrow> row_plan" where
  "check_photo archive r = (if \<not> given (rp_values r ''photo'') then r
     else (let n = cell_str (the (rp_values r ''photo'')) in case archive of
         None \<Rightarrow> add_error (''Photo '' @ quoted n @ '' is listed but no photos ZIP was uploaded.'') r
       | Some a \<Rightarrow> (case pa_problem a n of None \<Rightarrow> r | Some e \<Rightarrow> if e = [] then r else add_error e r)))"

definition unused_warning :: "photo_archive option \<Rightarrow> row_plan list \<Rightarrow> string list" where
  "unused_warning archive rows = (case archive of None \<Rightarrow> []
     | Some a \<Rightarrow> (let unused = pa_unused a (map (\<lambda>r. cell_str (the (rp_values r ''photo''))) (filter (\<lambda>r. given (rp_values r ''photo'')) rows)) in
         if unused = [] then []
         else [py_str_int (int (length unused)) @ '' photo(s) in the ZIP are not used by any row: '' @ py_join '', '' (take 10 unused)
           @ (if 10 < length unused then '' and '' @ py_str_int (int (length unused) - 10) @ '' more'' else '''') @ ''.'']))"

subsection \<open>The plan\<close>

definition ignored_warning :: "row_plan list \<Rightarrow> string list" where
  "ignored_warning rows = (let n = length (filter (\<lambda>r. rp_existing r \<noteq> None \<and> rp_values r ''password'' \<noteq> None) rows) in
     if n = 0 then []
     else [''Passwords were ignored for '' @ py_str_int (int n) @ '' existing user'' @ (if 1 < n then ''s'' else '''')
       @ '': existing accounts keep their password (they can use '' @ quoted ''Forgot password'' @ '').''])"

definition decided_rows :: "ctx \<Rightarrow> int \<Rightarrow> user_type \<Rightarrow> import_section option \<Rightarrow> parsed_csv \<Rightarrow> db \<Rightarrow> row_plan list" where
  "decided_rows c g t sec parsed s = (let rows = mark_duplicate_usernames (map (clean_row c (pc_columns parsed)) (pc_rows parsed));
       names = filter (\<lambda>n. n \<noteq> []) (map rp_username rows)
     in map (decide t sec (pc_columns parsed) (existing_users c g names s)) rows)"

text \<open>The callers give a section exactly for students.\<close>

definition cross_rows :: "ctx \<Rightarrow> int \<Rightarrow> user_type \<Rightarrow> import_section option \<Rightarrow> db \<Rightarrow> row_plan list \<Rightarrow> row_plan list" where
  "cross_rows c g t sec s rows = (case (t, sec) of
     (Principal, _) \<Rightarrow> one_principal g s rows
   | (Student, Some k) \<Rightarrow> unique_student_numbers c g (is_section k) s rows
   | _ \<Rightarrow> rows)"

definition build :: "ctx \<Rightarrow> user_type \<Rightarrow> import_section option \<Rightarrow> parsed_csv \<Rightarrow> photo_archive option \<Rightarrow> bool \<Rightarrow> db \<Rightarrow> import_plan res" where
  "build c t sec parsed archive photos_checked s = bindR (org_of s) (\<lambda>g.
     let rows1 = decided_rows c g t sec parsed s; rows2 = map drop_password rows1; rows3 = cross_rows c g t sec s rows2;
         photos = list_ex (\<lambda>co. col_name co = ''photo'') (pc_columns parsed); checked = photos \<and> \<not> photos_checked
     in Inr \<lparr>pl_type = t, pl_section = sec, pl_columns = pc_columns parsed,
       pl_rows = (if checked then map (check_photo archive) rows3 else rows3),
       pl_warnings = pc_warnings parsed @ ignored_warning rows1
         @ (if photos then (if checked then unused_warning archive rows3 else [])
            else if archive \<noteq> None then [''A photos ZIP was uploaded but the CSV has no '' @ quoted ''photo'' @ '' column, so no photos were used.'']
            else [])\<rparr>)"

end
