(* ===== verification/Import_Save.thy ===== *)
theory Import_Save
  imports Accounts Import_Plan
begin

text \<open>
  Saving a plan, \<^verbatim>\<open>app/services/user_import/writer.py\<close>, and the import itself, \<^verbatim>\<open>service.py\<close>. The statements
  run one row at a time, each checked against the UNIQUE keys; storing the photos is a parameter.
\<close>

subsection \<open>Statements over many rows\<close>

text \<open>
  \<open>INSERT \<dots> ON DUPLICATE KEY UPDATE\<close>: the row of the first key that is taken, whoever's it is, gets the
  fields instead.
\<close>

definition taken_row :: "ctx \<Rightarrow> student_profile_row list \<Rightarrow> student_profile_row \<Rightarrow> student_profile_row option" where
  "taken_row c rows p = (case one_where (\<lambda>q. sp_user q = sp_user p) rows of Some q \<Rightarrow> Some q
     | None \<Rightarrow> (case one_where (same_admission c p) rows of Some q \<Rightarrow> Some q | None \<Rightarrow> one_where (same_roll c p) rows))"

definition with_fields :: "student_profile_row \<Rightarrow> student_profile_row \<Rightarrow> student_profile_row" where
  "with_fields p q = p\<lparr>sp_user := sp_user q, sp_org := sp_org q, sp_class := sp_class q, sp_section := sp_section q,
     sp_last_class := sp_last_class q, sp_last_section := sp_last_section q\<rparr>"

definition upsert_profile :: "ctx \<Rightarrow> student_profile_row \<Rightarrow> unit handler" where
  "upsert_profile c p s = (case taken_row c (student_profiles s) p of
     None \<Rightarrow> (Inr (), s\<lparr>student_profiles := student_profiles s @ [p]\<rparr>)
   | Some q \<Rightarrow> (case number_conflict c (filter (\<lambda>x. sp_user x \<noteq> sp_user q) (student_profiles s)) (with_fields p q) of
       Some k \<Rightarrow> (Inl (DuplicateKey (Some k)), s)
     | None \<Rightarrow> (Inr (), s\<lparr>student_profiles := update_where (\<lambda>x. sp_user x = sp_user q) (\<lambda>_. with_fields p q) (student_profiles s)\<rparr>)))"

definition upsert_teacher_profile :: "teacher_profile_row \<Rightarrow> unit handler" where
  "upsert_teacher_profile p s = (Inr (), s\<lparr>teacher_profiles :=
     (if list_ex (\<lambda>q. tp_user q = tp_user p) (teacher_profiles s)
      then update_where (\<lambda>q. tp_user q = tp_user p) (\<lambda>q. p\<lparr>tp_designation := tp_designation q\<rparr>) (teacher_profiles s) else teacher_profiles s @ [p])\<rparr>)"

text \<open>A statement over many rows.\<close>

fun execute_many :: "('a \<Rightarrow> unit handler) \<Rightarrow> 'a list \<Rightarrow> unit handler" where
  "execute_many f [] s = (Inr (), s)"
| "execute_many f (x # xs) s = (case f x s of (Inl e, s') \<Rightarrow> (Inl e, s') | (Inr _, s') \<Rightarrow> execute_many f xs s')"

fun all_ok :: "'a res list \<Rightarrow> 'a list res" where
  "all_ok [] = Inr []"
| "all_ok (x # xs) = bindR x (\<lambda>a. bindR (all_ok xs) (\<lambda>as. Inr (a # as)))"

subsection \<open>Creating\<close>

text \<open>\<open>row.values[name]\<close>.\<close>

definition required_text :: "string \<Rightarrow> row_plan \<Rightarrow> string res" where
  "required_text n r = (case rp_values r n of None \<Rightarrow> Inl KeyError | Some v \<Rightarrow> Inr (cell_str v))"

definition photo_key :: "string \<Rightarrow> string" where
  "photo_key n = py_lower (py_strip (last (py_split (CHR ''/'') (map (\<lambda>c. if c = CHR 0x5C then CHR ''/'' else c) n))))"

definition photo_path :: "(string \<rightharpoonup> string) \<Rightarrow> row_plan \<Rightarrow> string option res" where
  "photo_path stored r = (if given (rp_values r ''photo'')
     then (case stored (photo_key (cell_str (the (rp_values r ''photo'')))) of None \<Rightarrow> Inl KeyError | Some p \<Rightarrow> Inr (Some p))
     else Inr None)"

definition hash_passwords :: "ctx \<Rightarrow> import_plan \<Rightarrow> (nat \<rightharpoonup> string) res" where
  "hash_passwords c p = bindR (all_ok (map (\<lambda>r. bindR (required_text ''password'' r) (\<lambda>pw. Inr (rp_number r, hash_password c pw))) (rows_with ACreate p)))
     (\<lambda>hs. Inr (map_of (rev hs)))"

definition new_user :: "int \<Rightarrow> user_type \<Rightarrow> (nat \<rightharpoonup> string) \<Rightarrow> (string \<rightharpoonup> string) \<Rightarrow> row_plan \<Rightarrow> user_row res" where
  "new_user g t hashes stored r = bindR (case hashes (rp_number r) of None \<Rightarrow> Inl KeyError | Some h \<Rightarrow> Inr h) (\<lambda>h.
     bindR (required_text ''full_name'' r) (\<lambda>name. bindR (required_text ''email'' r) (\<lambda>email. bindR (photo_path stored r) (\<lambda>path.
     Inr \<lparr>u_id = 0, u_org = g, u_username = rp_username r, u_password_hash = h, u_full_name = name, u_email = Some email,
       u_phone = map_option cell_str (rp_values r ''phone''), u_photo = path, u_type = t, u_active = True, u_left_on = None, u_left_reason = None,
       u_token_version = 0, u_must_change = True, u_password_changed_at = None\<rparr>))))"

definition with_id :: "(string \<rightharpoonup> int) \<Rightarrow> row_plan \<Rightarrow> row_plan res" where
  "with_id ids r = (case ids (fold_text (rp_username r)) of None \<Rightarrow> Inl KeyError | Some i \<Rightarrow> Inr (r\<lparr>rp_user := Some i\<rparr>))"

definition ids_by_username :: "ctx \<Rightarrow> int \<Rightarrow> string list \<Rightarrow> db \<Rightarrow> string \<rightharpoonup> int" where
  "ids_by_username c g names s = map_of (rev (map (\<lambda>u. (fold_text (u_username u), u_id u)) (users_named c g (chunks CHUNK names) s)))"

text \<open>\<open>_insert_users\<close>: the rows with the ids they got.\<close>

definition insert_users :: "ctx \<Rightarrow> int \<Rightarrow> user_type \<Rightarrow> (nat \<rightharpoonup> string) \<Rightarrow> (string \<rightharpoonup> string) \<Rightarrow> row_plan list \<Rightarrow> row_plan list handler" where
  "insert_users c g t hashes stored rows =
     bindH (query (\<lambda>_. all_ok (map (new_user g t hashes stored) rows))) (\<lambda>us.
     bindH (execute_many (insert_user c) us) (\<lambda>_.
     query (\<lambda>s. all_ok (map (with_id (ids_by_username c g (map rp_username rows) s)) rows))))"

definition cell_day :: "cell option \<Rightarrow> date option" where
  "cell_day v = (case v of Some (Day d) \<Rightarrow> Some d | _ \<Rightarrow> None)"

definition student_profile :: "int \<Rightarrow> import_section \<Rightarrow> int \<Rightarrow> (string \<Rightarrow> cell option) \<Rightarrow> student_profile_row" where
  "student_profile g sec uid v = \<lparr>sp_user = uid, sp_org = g, sp_class = Some (is_class sec), sp_section = Some (is_section sec), sp_last_class = None, sp_last_section = None,
     sp_roll = map_option cell_str (v ''roll_no''), sp_admission = map_option cell_str (v ''admission_no''), sp_dob = cell_day (v ''dob''),
     sp_father = map_option cell_str (v ''father_name''), sp_mother = map_option cell_str (v ''mother_name''),
     sp_guardian_phone = map_option cell_str (v ''guardian_phone''), sp_address = map_option cell_str (v ''address'')\<rparr>"

definition teacher_profile :: "int \<Rightarrow> (string \<Rightarrow> cell option) \<Rightarrow> teacher_profile_row" where
  "teacher_profile uid v = \<lparr>tp_user = uid, tp_designation = None, tp_subject = map_option cell_str (v ''subject''),
     tp_qualification = map_option cell_str (v ''qualification''), tp_joining = cell_day (v ''joining_date''),
     tp_address = map_option cell_str (v ''address'')\<rparr>"

definition insert_profiles :: "ctx \<Rightarrow> int \<Rightarrow> import_plan \<Rightarrow> row_plan list \<Rightarrow> unit handler" where
  "insert_profiles c g p rows = (case (pl_type p, pl_section p) of
     (Student, Some sec) \<Rightarrow> execute_many (\<lambda>r. insert_profile c (student_profile g sec (the (rp_user r)) (rp_values r))) rows
   | (Teacher, _) \<Rightarrow> execute_many (\<lambda>r. insert_teacher_profile (teacher_profile (the (rp_user r)) (rp_values r))) rows
   | _ \<Rightarrow> ret ())"

subsection \<open>Updating\<close>

definition free_moving_numbers :: "row_plan list \<Rightarrow> db \<Rightarrow> db" where
  "free_moving_numbers updates s = (let moving = (\<lambda>n. set (map (\<lambda>r. the (rp_user r)) (filter (\<lambda>r. n \<in> set (rp_changes r)) updates))) in
     s\<lparr>student_profiles := update_where (\<lambda>p. sp_user p \<in> moving ''admission_no'') (\<lambda>p. p\<lparr>sp_admission := None\<rparr>)
        (update_where (\<lambda>p. sp_user p \<in> moving ''roll_no'') (\<lambda>p. p\<lparr>sp_roll := None\<rparr>) (student_profiles s))\<rparr>)"

definition changed_user :: "row_plan \<Rightarrow> string option \<Rightarrow> user_row \<Rightarrow> user_row" where
  "changed_user r path u = (let v = (\<lambda>n. if n \<in> set (rp_changes r) then map_option cell_str (rp_values r n) else None) in
     u\<lparr>u_full_name := (case v ''full_name'' of None \<Rightarrow> u_full_name u | Some t \<Rightarrow> t),
       u_email := (case v ''email'' of None \<Rightarrow> u_email u | Some t \<Rightarrow> Some t),
       u_phone := (case v ''phone'' of None \<Rightarrow> u_phone u | Some t \<Rightarrow> Some t),
       u_photo := (case path of None \<Rightarrow> u_photo u | Some q \<Rightarrow> if q = [] then u_photo u else Some q)\<rparr>)"

text \<open>\<open>_update_users\<close> with its \<open>CASE\<close> update; deleting the old photo file is a hook of the commit.\<close>

definition update_users :: "(string \<rightharpoonup> string) \<Rightarrow> row_plan list \<Rightarrow> unit handler" where
  "update_users stored rows = bindH (query (\<lambda>_. all_ok (map (\<lambda>r. bindR (photo_path stored r) (\<lambda>path. Inr (the (rp_user r), changed_user r path))) rows))) (\<lambda>ch.
     writes (\<lambda>s. s\<lparr>users := map (\<lambda>u. case map_of (rev ch) (u_id u) of None \<Rightarrow> u | Some f \<Rightarrow> f u) (users s)\<rparr>))"

definition profile_fields :: "user_type \<Rightarrow> string list" where
  "profile_fields t = (if t = Student then map col_name STUDENT_FIELDS else if t = Teacher then map col_name TEACHER_FIELDS else [])"

definition upsert_profiles :: "ctx \<Rightarrow> int \<Rightarrow> import_plan \<Rightarrow> row_plan list \<Rightarrow> unit handler" where
  "upsert_profiles c g p rows = (case (pl_type p, pl_section p) of
     (Student, Some sec) \<Rightarrow> execute_many (\<lambda>r. upsert_profile c
        (student_profile g sec (the (rp_user r)) (\<lambda>n. final n (Some StudentProfiles) r))) rows
   | (Teacher, _) \<Rightarrow> execute_many (\<lambda>r. upsert_teacher_profile (teacher_profile (the (rp_user r)) (\<lambda>n. final n (Some TeacherProfiles) r))) rows
   | _ \<Rightarrow> ret ())"

subsection \<open>Applying the plan\<close>

definition touches_profile :: "user_type \<Rightarrow> row_plan \<Rightarrow> bool" where
  "touches_profile t r = list_ex (\<lambda>n. n \<in> set (rp_changes r)) (profile_fields t)"

definition apply_plan :: "ctx \<Rightarrow> import_plan \<Rightarrow> (nat \<rightharpoonup> string) \<Rightarrow> (string \<rightharpoonup> string) \<Rightarrow> (row_plan list \<times> row_plan list) handler" where
  "apply_plan c p hashes stored = (let creates = rows_with ACreate p; updates = rows_with AUpdate p; t = pl_type p in
     bindH (query org_of) (\<lambda>g.
     bindH (writes (if t = Student then free_moving_numbers updates else id)) (\<lambda>_.
     bindH (insert_users c g t hashes stored creates) (\<lambda>created.
     bindH (insert_profiles c g p created) (\<lambda>_.
     bindH (update_users stored updates) (\<lambda>_.
     bindH (upsert_profiles c g p (filter (touches_profile t) updates)) (\<lambda>_. ret (created, updates))))))))"

subsection \<open>The import\<close>

definition MANAGER_TYPES :: "user_type list" where "MANAGER_TYPES = [Coordinator, Teacher, Driver, Student]"

definition importable :: "user_type \<Rightarrow> user_type list" where
  "importable t = (if t = Admin then [Admin, Principal, SubAdmin, Coordinator, Teacher, Driver, Student]
     else if is_manager t then MANAGER_TYPES else if t = Teacher then [Student] else [])"

definition ensure_can_import_type :: "current_user \<Rightarrow> user_type \<Rightarrow> unit res" where
  "ensure_can_import_type actor t =
     (if t \<in> set (importable (cu_type actor)) then Inr ()
      else if cu_type actor = Teacher then Inl (Forbidden ''Teachers can only add students, to the section they are class teacher of.'')
      else if t \<in> set ADMIN_MANAGED \<and> is_manager (cu_type actor) then Inl (Forbidden ''Only admin can create admin/principal/sub-admin accounts'')
      else Inl (Forbidden ''Not allowed to import users''))"

definition section_in :: "int \<Rightarrow> int \<Rightarrow> int \<Rightarrow> db \<Rightarrow> import_section option" where
  "section_in g class_id section_id s = (case one_where (\<lambda>x. se_id x = section_id \<and> se_class x = class_id \<and> se_org x = g) (sections s) of
     None \<Rightarrow> None
   | Some x \<Rightarrow> map_option (\<lambda>k. \<lparr>is_section = se_id x, is_class = se_class x, is_class_name = cl_name k, is_name = se_name x\<rparr>)
       (one_where (\<lambda>k. cl_id k = se_class x) (classes s)))"

definition authorize :: "current_user \<Rightarrow> user_type \<Rightarrow> int option \<Rightarrow> int option \<Rightarrow> db \<Rightarrow> import_section option res" where
  "authorize actor t class_id section_id s = bindR (ensure_can_import_type actor t) (\<lambda>_.
     if t \<noteq> Student then Inr None
     else (case (class_id, section_id) of
         (Some k, Some i) \<Rightarrow> bindR (ensure_can_edit_students actor (Some k) (Some i) s) (\<lambda>_. bindR (org_of s) (\<lambda>g.
           case section_in g k i s of None \<Rightarrow> Inl (NotFound ''Section not found in that class'') | Some x \<Rightarrow> Inr (Some x)))
       | _ \<Rightarrow> Inl (BadRequest ''Choose the class and section the students belong to (class_id and section_id).'')))"

definition CHANGED_WHILE_SAVING :: string where
  "CHANGED_WHILE_SAVING = ''Some of these users were changed by someone else while the file was being saved. Nothing was saved; upload the file again to see the current state.''"

definition list_text :: "int list \<Rightarrow> string" where
  "list_text ids = ''['' @ py_join '', '' (map py_str_int ids) @ '']''"

definition audit_import :: "ctx \<Rightarrow> current_user \<Rightarrow> import_plan \<Rightarrow> row_plan list \<Rightarrow> row_plan list \<Rightarrow> db \<Rightarrow> db" where
  "audit_import c actor p created updated = audit_record c (Some (cu_id actor)) ''users.import'' (Some ''user'') None
     [(''user_type'', role_name (pl_type p)),
      (''section_id'', case pl_section p of None \<Rightarrow> ''None'' | Some k \<Rightarrow> py_str_int (is_section k)),
      (''created'', list_text (map (\<lambda>r. the (rp_user r)) created)), (''updated'', list_text (map (\<lambda>r. the (rp_user r)) updated)),
      (''unchanged'', py_str_int (int (length (rows_with AUnchanged p)))),
      (''skipped_rows'', list_text (map (\<lambda>r. int (rp_number r)) (filter (\<lambda>r. rp_errors r \<noteq> []) (pl_rows p))))]"

text \<open>The rows of the plan with the ids the created users got.\<close>

definition with_ids :: "row_plan list \<Rightarrow> import_plan \<Rightarrow> import_plan" where
  "with_ids created p = p\<lparr>pl_rows := map (\<lambda>r. case map_of (map (\<lambda>q. (rp_number q, q)) created) (rp_number r) of None \<Rightarrow> r | Some q \<Rightarrow> q) (pl_rows p)\<rparr>"

text \<open>
  The saving transaction: the plan is built again, on the database as it is now, and must be the one that
  was checked; a key that is taken after all becomes a conflict.
\<close>

definition save_import :: "ctx \<Rightarrow> current_user \<Rightarrow> user_type \<Rightarrow> import_section option \<Rightarrow> parsed_csv \<Rightarrow> photo_archive option \<Rightarrow> import_plan
    \<Rightarrow> (nat \<rightharpoonup> string) \<Rightarrow> (string \<rightharpoonup> string) \<Rightarrow> import_plan handler" where
  "save_import c actor t sec parsed archive plan hashes stored s = (case transaction (
       bindH (query (build c t sec parsed archive True)) (\<lambda>locked.
       bindH (check (signature locked = signature plan) (Conflict CHANGED_WHILE_SAVING)) (\<lambda>_.
       bindH (apply_plan c locked hashes stored) (\<lambda>(created, updated).
       bindH (writes (audit_import c actor locked created updated)) (\<lambda>_.
       ret ((with_ids created locked)\<lparr>pl_warnings := pl_warnings plan\<rparr>)))))) s of
     (Inl (DuplicateKey k), s') \<Rightarrow> (Inl (Conflict (duplicate_detail k @ ''. Nothing was saved; upload the file again to see the current state.'')), s')
   | res \<Rightarrow> res)"

definition nothing_saved :: "import_plan \<Rightarrow> app_error" where
  "nothing_saved p = (let n = summary p AError in Unprocessable (''Nothing was saved: '' @ py_str_int (int n) @ '' row''
     @ (if 1 < n then ''s have'' else '' has'') @ '' problems and no other row has anything to save.''))"

definition photo_names :: "import_plan \<Rightarrow> string list" where
  "photo_names p = map (\<lambda>r. cell_str (the (rp_values r ''photo''))) (filter (\<lambda>r. given (rp_values r ''photo'')) (savable p))"

text \<open>
  \<open>run_import\<close> of a file read as \<open>file\<close>: \<open>store\<close> keeps the photos of the names, \<open>between\<close> is what other requests do
  to the database after the plan was checked. The result is the plan and whether it was saved.
\<close>

definition run_import :: "ctx \<Rightarrow> current_user \<Rightarrow> user_type \<Rightarrow> int option \<Rightarrow> int option \<Rightarrow> parsed_csv res \<Rightarrow> photo_archive option
    \<Rightarrow> (string list \<Rightarrow> (string \<rightharpoonup> string) res) \<Rightarrow> bool \<Rightarrow> (db \<Rightarrow> db) \<Rightarrow> (import_plan \<times> bool) handler" where
  "run_import c actor t class_id section_id parsed_res archive store dry_run between =
     bindH (query (authorize actor t class_id section_id)) (\<lambda>sec.
     bindH (query (\<lambda>_. parsed_res)) (\<lambda>parsed.
     bindH (query (build c t sec parsed archive False)) (\<lambda>plan.
     if dry_run then ret (plan, False)
     else bindH (check (\<not> (has_errors plan \<and> savable plan = [])) (nothing_saved plan)) (\<lambda>_.
       bindH (query (\<lambda>_. hash_passwords c plan)) (\<lambda>hashes.
       bindH (query (\<lambda>_. if archive \<noteq> None \<and> photo_names plan \<noteq> [] then store (photo_names plan) else Inr (\<lambda>_. None))) (\<lambda>stored.
       bindH (writes between) (\<lambda>_.
       bindH (save_import c actor t sec parsed archive plan hashes stored) (\<lambda>locked. ret (locked, True)))))))))"

end
