(* ===== verification/Import_Props.thy ===== *)
theory Import_Props
  imports Import_Save
begin

text \<open>
  What the plan of a student import guarantees about the rows it saves: their usernames and the numbers
  typed in them are different, they match the accounts and profiles of the database, and no student who
  keeps a number blocks one of them.
\<close>

subsection \<open>Folding\<close>

text \<open>The collation of the database identifies no two strings that \<open>fold\<close> tells apart.\<close>

definition fold_matches :: "ctx \<Rightarrow> bool" where
  "fold_matches c \<longleftrightarrow> (\<forall>a b. sql_eq c a b \<longrightarrow> fold_text a = fold_text b)"

lemma dropWhile_fix: "xs = [] \<or> \<not> P (hd xs) \<Longrightarrow> dropWhile P xs = xs"
  by (cases xs) auto

lemma strip_edges:
  assumes "py_strip v \<noteq> []"
  shows "\<not> py_isspace (hd (py_strip v))" and "\<not> py_isspace (last (py_strip v))"
proof -
  define w where "w = dropWhile py_isspace v"
  have v: "py_strip v = rev (dropWhile py_isspace (rev w))" by (simp add: py_strip_def w_def)
  have "dropWhile py_isspace (rev w) \<noteq> []" using assms v by simp
  then have "\<not> py_isspace (hd (dropWhile py_isspace (rev w)))" by (rule hd_dropWhile)
  then show "\<not> py_isspace (last (py_strip v))" unfolding v last_rev .
  have "w = py_strip v @ rev (takeWhile py_isspace (rev w))"
    by (simp only: v rev_append [symmetric] takeWhile_dropWhile_id rev_rev_ident)
  then obtain u where w: "w = py_strip v @ u" by blast
  then have "w \<noteq> []" using assms by simp
  then have "\<not> py_isspace (hd w)" using hd_dropWhile unfolding w_def by blast
  then show "\<not> py_isspace (hd (py_strip v))" unfolding w using assms by simp
qed

lemma strip_stripped: "v = [] \<or> \<not> py_isspace (hd v) \<and> \<not> py_isspace (last v) \<Longrightarrow> py_strip v = v"
  by (auto simp: py_strip_def dropWhile_fix hd_rev)

lemma py_strip_strip [simp]: "py_strip (py_strip v) = py_strip v"
proof (cases "py_strip v = []")
  case True
  show ?thesis unfolding True by (simp add: py_strip_def)
next
  case False
  then show ?thesis using strip_edges by (intro strip_stripped) simp
qed

lemma fold_strip [simp]: "fold_text (py_strip v) = fold_text v"
  by (simp add: fold_text_def)

lemma fold_char_not_Nil [simp]: "fold_char c \<noteq> []"
  by (simp add: fold_char_def Let_def)

lemma fold_Nil_iff: "fold_text v = [] \<longleftrightarrow> py_strip v = []"
  by (cases "py_strip v") (simp_all add: fold_text_def)

lemma strip_Nil_iff: "py_strip v = [] \<longleftrightarrow> (\<forall>x \<in> set v. py_isspace x)"
proof -
  let ?d = "dropWhile py_isspace v"
  have "py_strip v = [] \<longleftrightarrow> (\<forall>x \<in> set ?d. py_isspace x)" by (simp add: py_strip_def)
  also have "\<dots> \<longleftrightarrow> ?d = []"
  proof
    assume all: "\<forall>x \<in> set ?d. py_isspace x"
    show "?d = []"
    proof (rule ccontr)
      assume ne: "?d \<noteq> []"
      from all hd_in_set [OF ne] hd_dropWhile [OF ne] show False by blast
    qed
  qed (simp only: list.set ball_empty)
  finally show ?thesis by simp
qed

lemma fold_not_Nil: "x \<in> set v \<Longrightarrow> \<not> py_isspace x \<Longrightarrow> fold_text v \<noteq> []"
  by (auto simp: fold_Nil_iff strip_Nil_iff)

lemma fold_iso_date: "fold_text (iso_date d) \<noteq> []"
  by (rule fold_not_Nil [of "CHR ''-''"]) (simp_all add: iso_date_def py_isspace_def py_ord_def)

lemma fold_unescape: "unescape v \<noteq> [] \<Longrightarrow> fold_text (unescape v) \<noteq> []"
proof -
  assume ne: "unescape v \<noteq> []"
  then have s: "py_strip v \<noteq> []" by (auto simp: unescape_def Let_def split: if_splits)
  have "last (unescape v) = last (py_strip v)"
    using ne by (auto simp: unescape_def Let_def last_tl split: if_splits)
  then show ?thesis
    using fold_not_Nil [OF last_in_set [OF ne]] strip_edges(2) [OF s] by simp
qed

subsection \<open>Cleaned rows\<close>

lemma check_cell_fields:
  "rp_number (check_cell c co raw r) = rp_number r" "rp_username (check_cell c co raw r) = rp_username r"
  "rp_action (check_cell c co raw r) = rp_action r" "rp_changes (check_cell c co raw r) = rp_changes r"
  "rp_existing (check_cell c co raw r) = rp_existing r" "rp_user (check_cell c co raw r) = rp_user r"
  by (auto simp: check_cell_def Let_def add_error_def set_value_def split: option.split)

lemma clean_cell_fields [simp]:
  "rp_number (clean_cell c co raw r) = rp_number r" "rp_username (clean_cell c co raw r) = rp_username r"
  "rp_action (clean_cell c co raw r) = rp_action r" "rp_changes (clean_cell c co raw r) = rp_changes r"
  "rp_existing (clean_cell c co raw r) = rp_existing r" "rp_user (clean_cell c co raw r) = rp_user r"
  by (simp_all add: clean_cell_def Let_def check_cell_fields)

lemma clean_fold_fields:
  "rp_number (fold (\<lambda>co r. clean_cell c co (raw co) r) cols r) = rp_number r \<and> rp_username (fold (\<lambda>co r. clean_cell c co (raw co) r) cols r) = rp_username r
   \<and> rp_action (fold (\<lambda>co r. clean_cell c co (raw co) r) cols r) = rp_action r \<and> rp_changes (fold (\<lambda>co r. clean_cell c co (raw co) r) cols r) = rp_changes r
   \<and> rp_existing (fold (\<lambda>co r. clean_cell c co (raw co) r) cols r) = rp_existing r \<and> rp_user (fold (\<lambda>co r. clean_cell c co (raw co) r) cols r) = rp_user r"
  by (induction cols arbitrary: r) simp_all

definition fresh_row :: "row_plan \<Rightarrow> bool" where
  "fresh_row r \<longleftrightarrow> rp_action r = AError \<and> rp_changes r = [] \<and> rp_existing r = None \<and> rp_user r = None"

lemma clean_row_fields [simp]:
  "rp_number (clean_row c cols cr) = cr_number cr" "rp_username (clean_row c cols cr) = cell_of cr ''username''"
  "fresh_row (clean_row c cols cr)"
  using clean_fold_fields [of c "\<lambda>co. cell_of cr (col_name co)"] by (simp_all add: clean_row_def fresh_row_def)

text \<open>Every value comes from a cell of one of the columns and is more than white space.\<close>

definition values_ok :: "column list \<Rightarrow> row_plan \<Rightarrow> bool" where
  "values_ok cols r \<longleftrightarrow> (\<forall>n v. rp_values r n = Some v \<longrightarrow> fold_text (cell_str v) \<noteq> [] \<and> n \<in> col_name ` set cols)"

definition cells_ok :: "csv_row \<Rightarrow> bool" where
  "cells_ok cr \<longleftrightarrow> (\<forall>n. cell_of cr n \<noteq> [] \<longrightarrow> fold_text (cell_of cr n) \<noteq> [])"

lemma clean_cell_value:
  "rp_values (clean_cell c co raw r) n = Some v \<Longrightarrow> rp_values r n = Some v \<or> (n = col_name co \<and> (v = Text raw \<and> raw \<noteq> [] \<or> (\<exists>d. v = Day d)))"
  by (auto simp: clean_cell_def check_cell_def Let_def add_error_def set_value_def split: if_splits option.splits)

lemma clean_row_values:
  assumes "cells_ok cr"
  shows "values_ok cols (clean_row c cols cr)"
proof -
  have step: "values_ok cols (clean_cell c co (cell_of cr (col_name co)) r)" if "values_ok cols r" "co \<in> set cols" for co r
    unfolding values_ok_def
  proof (intro allI impI)
    fix n v assume "rp_values (clean_cell c co (cell_of cr (col_name co)) r) n = Some v"
    from clean_cell_value [OF this] consider "rp_values r n = Some v"
      | "n = col_name co" "v = Text (cell_of cr (col_name co))" "cell_of cr (col_name co) \<noteq> []" | d where "n = col_name co" "v = Day d"
      by blast
    then show "fold_text (cell_str v) \<noteq> [] \<and> n \<in> col_name ` set cols"
    proof cases
      case 1 then show ?thesis using that(1) unfolding values_ok_def by blast
    next
      case 2 then show ?thesis using assms that(2) by (simp add: cells_ok_def cell_str_def)
    next
      case 3 then show ?thesis using that(2) by (simp add: cell_str_def fold_iso_date)
    qed
  qed
  have steps: "set xs \<subseteq> set cols \<Longrightarrow> values_ok cols r \<Longrightarrow> values_ok cols (fold (\<lambda>co r. clean_cell c co (cell_of cr (col_name co)) r) xs r)" for xs r
    by (induction xs arbitrary: r) (simp_all add: step)
  show ?thesis unfolding clean_row_def by (rule steps [OF subset_refl]) (simp add: values_ok_def)
qed

lemma parsed_cells:
  assumes "parse_records records t m = Inr parsed" and "cr \<in> set (pc_rows parsed)"
  shows "cells_ok cr"
proof -
  obtain positions w n rec where cr: "cr = csv_row_of positions w n rec"
    using assms by (auto simp: parse_records_def Let_def split: list.splits if_splits)
  have "v \<noteq> [] \<Longrightarrow> fold_text v \<noteq> []" if "(x, v) \<in> set (cr_cells cr)" for x v
    using that fold_unescape by (auto simp: cr csv_row_of_def split: if_splits)
  then show ?thesis unfolding cells_ok_def cell_of_def by (auto split: option.splits dest: map_of_SomeD)
qed

subsection \<open>Steps that only add errors\<close>

definition more_errors :: "row_plan \<Rightarrow> row_plan \<Rightarrow> bool" where
  "more_errors r r' \<longleftrightarrow> (\<exists>es. r' = r\<lparr>rp_errors := rp_errors r @ es\<rparr>)"

lemma more_errors_refl [simp]: "more_errors r r"
  unfolding more_errors_def by (rule exI [of _ "[]"]) simp

lemma more_errors_add [simp]: "more_errors r (add_error e r)" "more_errors r (r\<lparr>rp_errors := rp_errors r @ es\<rparr>)"
  by (auto simp: more_errors_def add_error_def)

lemma more_errors_trans: "more_errors a b \<Longrightarrow> more_errors b d \<Longrightarrow> more_errors a d"
  by (auto simp: more_errors_def)

lemma more_errors_clean: "more_errors r r' \<Longrightarrow> rp_errors r' = [] \<Longrightarrow> r' = r"
  by (auto simp: more_errors_def)

lemma more_errors_saved: "more_errors r r' \<Longrightarrow> is_saved r' \<Longrightarrow> r' = r"
  by (auto simp: is_saved_def dest: more_errors_clean)

lemma more_errors_number: "more_errors r r' \<Longrightarrow> rp_number r' = rp_number r"
  by (auto simp: more_errors_def)

abbreviation rows_grow :: "row_plan list \<Rightarrow> row_plan list \<Rightarrow> bool" where
  "rows_grow \<equiv> list_all2 more_errors"

lemma rows_grow_map: "(\<And>r. more_errors r (f r)) \<Longrightarrow> rows_grow rows (map f rows)"
  by (simp add: list_all2_conv_all_nth)

lemma rows_grow_refl [simp]: "rows_grow rows rows"
  by (simp add: list_all2_conv_all_nth)

lemma rows_grow_trans: "rows_grow a b \<Longrightarrow> rows_grow b d \<Longrightarrow> rows_grow a d"
  by (rule list_all2_trans [OF more_errors_trans])

lemma rows_grow_saved: "rows_grow rows rows' \<Longrightarrow> r \<in> set rows' \<Longrightarrow> is_saved r \<Longrightarrow> r \<in> set rows"
  by (induction rule: list_all2_induct) (auto dest: more_errors_saved)

lemma rows_grow_numbers: "rows_grow rows rows' \<Longrightarrow> map rp_number rows' = map rp_number rows"
  by (induction rule: list_all2_induct) (auto simp: more_errors_number)

lemma grow_duplicates: "rows_grow rows (mark_duplicate_usernames rows)"
  unfolding mark_duplicate_usernames_def by (rule rows_grow_map) (simp add: Let_def)

lemma grow_repeated: "rows_grow rows (mark_repeated n l rows)"
  unfolding mark_repeated_def by (rule rows_grow_map) (simp add: Let_def split: option.split)

lemma grow_round: "rows_grow rows (number_round adm rolls rows)"
  unfolding number_round_def by (rule rows_grow_map) simp

lemma grow_settle: "rows_grow rows (settle_numbers adm rolls rows)"
proof (induction adm rolls rows rule: settle_numbers.induct)
  case (1 adm rolls rows)
  then show ?case
    by (subst settle_numbers.simps) (auto intro: rows_grow_trans [OF grow_round])
qed

lemma settled: "\<not> round_found adm rolls (settle_numbers adm rolls rows)"
proof (induction adm rolls rows rule: settle_numbers.induct)
  case (1 adm rolls rows)
  then show ?case by (subst settle_numbers.simps) simp
qed

end
