(* ===== verification/Import_Rows.thy ===== *)
theory Import_Rows
  imports Import_Props
begin

text \<open>
  The rows a student import saves, as the numbers are settled: they match accounts and profiles of the
  database, differ in usernames and numbers, and nobody who keeps a number blocks one of them.
\<close>

subsection \<open>Accounts of the file\<close>

lemma users_named_iff: "u \<in> set (users_named c g parts s) \<longleftrightarrow> u \<in> set (users s) \<and> u_org u = g \<and> (\<exists>n \<in> set (concat parts). sql_eq c (u_username u) n)"
  by (auto simp: users_named_def list_ex_iff)

lemma concat_names: "set (concat (chunks CHUNK (sort_key fold_text (remdups names)))) = set names"
  by (subst concat_chunks) (simp_all add: CHUNK_def)

lemma existing_Some:
  assumes "existing_users c g names s k = Some e"
  shows "\<exists>u \<in> set (users s). u_org u = g \<and> e = existing_of s u \<and> fold_text (u_username u) = k"
proof -
  have "(k, e) \<in> set (map (\<lambda>u. (fold_text (u_username u), existing_of s u)) (users_named c g (chunks CHUNK (sort_key fold_text (remdups names))) s))"
    using map_of_SomeD [OF assms [unfolded existing_users_def]] by simp
  then show ?thesis by (auto simp: users_named_iff)
qed

lemma existing_None:
  assumes "existing_users c g names s (fold_text n) = None" and "n \<in> set names" and "fold_matches c"
    and "u \<in> set (users s)" "u_org u = g"
  shows "\<not> sql_eq c (u_username u) n"
proof
  assume eq: "sql_eq c (u_username u) n"
  then have "u \<in> set (users_named c g (chunks CHUNK (sort_key fold_text (remdups names))) s)"
    unfolding users_named_iff concat_names using assms by blast
  moreover have "fold_text (u_username u) = fold_text n" using eq assms(3) by (simp add: fold_matches_def)
  ultimately show False using assms(1) by (force simp: existing_users_def map_of_eq_None_iff)
qed

subsection \<open>Decided rows\<close>

lemma changed_columns_cong: "rp_values r = rp_values q \<Longrightarrow> changed_columns r e cols = changed_columns q e cols"
  by (simp add: changed_columns_def)

lemma final_error: "rp_values (add_error x r) = rp_values r" "rp_existing (add_error x r) = rp_existing r"
  by (simp_all add: add_error_def)

text \<open>A row without problems, as \<open>decide\<close> leaves it.\<close>

definition matched :: "user_type \<Rightarrow> import_section option \<Rightarrow> column list \<Rightarrow> existing \<Rightarrow> row_plan \<Rightarrow> bool" where
  "matched t sec cols e r \<longleftrightarrow> rp_existing r = Some e \<and> rp_user r = Some (u_id (ex_user e)) \<and> u_type (ex_user e) = t
     \<and> (t = Student \<longrightarrow> Option.bind (ex_sp e) sp_section = map_option is_section sec)
     \<and> rp_changes r = changed_columns r e cols \<and> rp_action r = (if rp_changes r \<noteq> [] then AUpdate else AUnchanged)"

lemma decide_keeps:
  "rp_number (decide t sec cols f r) = rp_number r" "rp_username (decide t sec cols f r) = rp_username r"
  "rp_values (decide t sec cols f r) = rp_values r"
  by (auto simp: decide_def decide_create_def add_error_def Let_def split: option.split)

lemma decide_errors: "rp_errors (decide t sec cols f r) = [] \<Longrightarrow> rp_errors r = []"
  by (auto simp: decide_def decide_create_def add_error_def Let_def split: option.splits if_splits)

lemma decide_saved:
  assumes "is_saved (decide t sec cols f r)" and "fresh_row r"
  shows "rp_username r \<noteq> [] \<and> rp_errors r = [] \<and> (case f (fold_text (rp_username r)) of
      None \<Rightarrow> decide t sec cols f r = r\<lparr>rp_action := ACreate\<rparr>
    | Some e \<Rightarrow> matched t sec cols e (decide t sec cols f r))"
proof -
  let ?d = "decide t sec cols f r"
  have err: "rp_errors ?d = []" and act: "rp_action ?d \<noteq> AError" using assms(1) by (simp_all add: is_saved_def)
  have e: "rp_errors r = []" using decide_errors [OF err] .
  have n: "rp_username r \<noteq> []" using act assms(2) by (auto simp: decide_def fresh_row_def)
  show ?thesis
  proof (cases "f (fold_text (rp_username r))")
    case None
    then have d: "?d = decide_create r" using n by (simp add: decide_def)
    then have "rp_errors (decide_create r) = []" using err by simp
    then have "?d = r\<lparr>rp_action := ACreate\<rparr>" unfolding d by (cases r) (simp add: decide_create_def Let_def)
    then show ?thesis using n e None by simp
  next
    case (Some x)
    let ?r = "r\<lparr>rp_existing := Some x, rp_user := Some (u_id (ex_user x))\<rparr>"
    note d = err [unfolded decide_def, simplified n Some Let_def if_False option.case]
    have ok: "u_type (ex_user x) = t" using d n by (auto simp: add_error_def split: if_splits)
    have left: "u_left_on (ex_user x) = None" using d n ok by (auto simp: add_error_def split: if_splits)
    have sec: "\<not> (t = Student \<and> Option.bind (ex_sp x) sp_section \<noteq> map_option is_section sec)"
      using d n ok left by (auto simp: add_error_def split: if_splits)
    have mail: "\<not> (\<not> given (final ''email'' None ?r) \<and> ''email'' \<notin> set (rp_invalid ?r))"
      using d n ok left by (auto simp: add_error_def split: if_splits)
    have "?d = ?r\<lparr>rp_changes := changed_columns ?r x cols, rp_action := (if changed_columns ?r x cols \<noteq> [] then AUpdate else AUnchanged)\<rparr>"
      unfolding decide_def Let_def Some option.case using n ok left
      by (simp only: if_False if_not_P [OF sec] if_not_P [OF mail] not_True_eq_False refl simp_thms)
    then have "matched t sec cols x ?d"
      using ok sec by (simp add: matched_def changed_columns_cong [of ?d ?r] decide_keeps changed_columns_def)
    then show ?thesis using n e Some by simp
  qed
qed

subsection \<open>The rows of the plan\<close>

text \<open>A saved row of a student import: a new account nobody has, or an account of the school in the section.\<close>

definition row_fits :: "ctx \<Rightarrow> int \<Rightarrow> import_section \<Rightarrow> column list \<Rightarrow> db \<Rightarrow> row_plan \<Rightarrow> bool" where
  "row_fits c g sec cols s r \<longleftrightarrow> rp_username r \<noteq> [] \<and> values_ok cols r \<and> (case rp_existing r of
     None \<Rightarrow> rp_action r = ACreate \<and> rp_user r = None \<and> rp_changes r = []
       \<and> (\<forall>u \<in> set (users s). u_org u = g \<longrightarrow> \<not> sql_eq c (u_username u) (rp_username r))
   | Some e \<Rightarrow> matched Student (Some sec) cols e r
       \<and> (\<exists>u \<in> set (users s). e = existing_of s u \<and> u_org u = g \<and> fold_text (u_username u) = fold_text (rp_username r)))"

lemma drop_password_keeps [simp]:
  "rp_number (drop_password r) = rp_number r" "rp_username (drop_password r) = rp_username r" "rp_action (drop_password r) = rp_action r"
  "rp_existing (drop_password r) = rp_existing r" "rp_user (drop_password r) = rp_user r" "rp_changes (drop_password r) = rp_changes r"
  "rp_errors (drop_password r) = rp_errors r" "is_saved (drop_password r) = is_saved r"
  by (simp_all add: drop_password_def is_saved_def)

lemma drop_password_changes [simp]: "changed_columns (drop_password r) e cols = changed_columns r e cols"
  by (auto simp: changed_columns_def drop_password_def intro!: arg_cong [where f = "map col_name"] filter_cong)

lemma drop_password_values: "values_ok cols r \<Longrightarrow> values_ok cols (drop_password r)"
  by (auto simp: values_ok_def drop_password_def split: if_splits)

lemma marked_username:
  assumes "y \<in> set (mark_duplicate_usernames rows)" and "rp_errors y = []"
  shows "y \<in> set rows \<and> rp_username y \<noteq> [] \<and> (\<forall>q \<in> set rows. rp_username q \<noteq> [] \<and> fold_text (rp_username q) = fold_text (rp_username y) \<longrightarrow> q = y)"
proof -
  let ?same = "\<lambda>r q. rp_username q \<noteq> [] \<and> fold_text (rp_username q) = fold_text (rp_username r)"
  obtain x where x: "x \<in> set rows" "y = (if rp_username x = [] then add_error ''username is required.'' x
     else (let same = filter (?same x) rows in
       if 1 < length same then add_error (''Username '' @ quoted (rp_username x) @ '' is on '' @ rows_phrase (map rp_number same)
         @ ''; keep it on one row only.'') x else x))"
    using assms(1) unfolding mark_duplicate_usernames_def by auto
  then have y: "y = x" "rp_username x \<noteq> []" "length (filter (?same x) rows) \<le> 1"
    using assms(2) by (auto simp: Let_def add_error_def split: if_splits)
  have "q = x" if "q \<in> set rows" "?same x q" for q
  proof -
    have "{q, x} \<subseteq> set (filter (?same x) rows)" using that x(1) y(2) by simp
    then have "card {q, x} \<le> 1" using y(3) card_length [of "filter (?same x) rows"] card_mono [of "set (filter (?same x) rows)" "{q, x}"] by simp
    then show ?thesis by (cases "q = x") simp_all
  qed
  with x(1) y show ?thesis by blast
qed

abbreviation cleaned :: "ctx \<Rightarrow> parsed_csv \<Rightarrow> row_plan list" where
  "cleaned c parsed \<equiv> map (clean_row c (pc_columns parsed)) (pc_rows parsed)"

abbreviation file_names :: "ctx \<Rightarrow> parsed_csv \<Rightarrow> string list" where
  "file_names c parsed \<equiv> filter (\<lambda>n. n \<noteq> []) (map rp_username (cleaned c parsed))"

lemma marked_names: "map rp_username (mark_duplicate_usernames rows) = map rp_username rows"
  by (simp add: mark_duplicate_usernames_def Let_def add_error_def)

lemma decided_row:
  assumes "r \<in> set (decided_rows c g t sec parsed s)" and "is_saved r"
  obtains cr where "cr \<in> set (pc_rows parsed)" "clean_row c (pc_columns parsed) cr \<in> set (mark_duplicate_usernames (cleaned c parsed))"
    "rp_errors (clean_row c (pc_columns parsed) cr) = []" "rp_username (clean_row c (pc_columns parsed) cr) \<in> set (file_names c parsed)"
    "r = decide t sec (pc_columns parsed) (existing_users c g (file_names c parsed) s) (clean_row c (pc_columns parsed) cr)"
proof -
  have "decided_rows c g t sec parsed s = map (decide t sec (pc_columns parsed) (existing_users c g (file_names c parsed) s)) (mark_duplicate_usernames (cleaned c parsed))"
    by (simp only: decided_rows_def Let_def marked_names)
  then obtain y where y: "y \<in> set (mark_duplicate_usernames (cleaned c parsed))"
      "r = decide t sec (pc_columns parsed) (existing_users c g (file_names c parsed) s) y"
    using assms(1) by (auto simp only: set_map)
  have e: "rp_errors y = []" using assms(2) decide_errors y(2) by (auto simp: is_saved_def)
  note m = marked_username [OF y(1) e]
  then have "y \<in> set (cleaned c parsed)" by blast
  then obtain cr where "cr \<in> set (pc_rows parsed)" "y = clean_row c (pc_columns parsed) cr" by (auto simp only: set_map)
  moreover have "rp_username y \<in> set (file_names c parsed)" using m unfolding set_filter set_map by blast
  ultimately show thesis using that y e by blast
qed

lemma decided_fits:
  assumes "r \<in> set (decided_rows c g Student (Some sec) parsed s)" and "is_saved r"
    and "\<forall>cr \<in> set (pc_rows parsed). cells_ok cr" and "fold_matches c"
  shows "row_fits c g sec (pc_columns parsed) s r"
proof -
  let ?cols = "pc_columns parsed"
  obtain cr where cr: "cr \<in> set (pc_rows parsed)" and n: "rp_username (clean_row c ?cols cr) \<in> set (file_names c parsed)"
    and r: "r = decide Student (Some sec) ?cols (existing_users c g (file_names c parsed) s) (clean_row c ?cols cr)"
    using decided_row [OF assms(1,2)] .
  let ?x = "clean_row c ?cols cr" and ?f = "existing_users c g (file_names c parsed) s"
  note d = decide_saved [OF assms(2) [unfolded r] clean_row_fields(3)]
  have "values_ok ?cols ?x" using assms(3) cr by (intro clean_row_values) blast
  then have v: "values_ok ?cols r" by (simp add: values_ok_def r decide_keeps)
  show ?thesis
  proof (cases "?f (fold_text (rp_username ?x))")
    case None
    then have "r = ?x\<lparr>rp_action := ACreate\<rparr>" using d r by simp
    moreover have "fresh_row ?x" by simp
    moreover have "\<not> sql_eq c (u_username u) (rp_username ?x)" if "u \<in> set (users s)" "u_org u = g" for u
      using existing_None [OF None n assms(4) that] .
    ultimately show ?thesis using v d by (simp add: row_fits_def fresh_row_def)
  next
    case (Some e)
    then have "matched Student (Some sec) ?cols e r" using d r by simp
    moreover have "rp_existing r = Some e" using calculation by (simp add: matched_def)
    moreover have "rp_username r = rp_username ?x" by (simp add: r decide_keeps)
    ultimately show ?thesis using v d existing_Some [OF Some] by (simp add: row_fits_def) blast
  qed
qed

lemma decided_unique:
  assumes "r \<in> set (decided_rows c g t sec parsed s)" "is_saved r" "q \<in> set (decided_rows c g t sec parsed s)" "is_saved q"
    and "fold_text (rp_username r) = fold_text (rp_username q)"
  shows "r = q"
proof -
  let ?cols = "pc_columns parsed"
  let ?f = "existing_users c g (file_names c parsed) s" and ?rows = "cleaned c parsed"
  obtain x where x: "x \<in> set (mark_duplicate_usernames ?rows)" "rp_errors x = []" "r = decide t sec ?cols ?f x"
    using decided_row [OF assms(1,2)] .
  obtain y where y: "y \<in> set (mark_duplicate_usernames ?rows)" "rp_errors y = []" "q = decide t sec ?cols ?f y"
    using decided_row [OF assms(3,4)] .
  have "fold_text (rp_username x) = fold_text (rp_username y)" using assms(5) x(3) y(3) by (simp add: decide_keeps)
  with marked_username [OF x(1,2)] marked_username [OF y(1,2)] have "x = y" by metis
  with x y show ?thesis by simp
qed

lemma decided_numbers: "map rp_number (decided_rows c g t sec parsed s) = map cr_number (pc_rows parsed)"
  using rows_grow_numbers [OF grow_duplicates, of "map (clean_row c (pc_columns parsed)) (pc_rows parsed)"]
  by (simp add: decided_rows_def Let_def decide_keeps comp_def)

lemma fits_drop_password: "row_fits c g sec cols s r \<Longrightarrow> row_fits c g sec cols s (drop_password r)"
  by (auto simp: row_fits_def matched_def drop_password_values split: option.splits)

subsection \<open>Settled numbers\<close>

definition NUMBERS :: "string list" where "NUMBERS = [''admission_no'', ''roll_no'']"

definition num :: "string \<Rightarrow> student_profile_row \<Rightarrow> string option" where
  "num n p = (if n = ''admission_no'' then sp_admission p else sp_roll p)"

lemma marked_number:
  assumes "r \<in> set (mark_repeated n l rows)" and "rp_errors r = []" and "typed_key n r = Some k" "q \<in> set rows" "typed_key n q = Some k"
  shows "r = q"
proof -
  obtain x where x: "x \<in> set rows" "r = (case typed_key n x of None \<Rightarrow> x | Some k \<Rightarrow> (let same = filter (\<lambda>q. typed_key n q = Some k) rows in
         if 1 < length same then add_error (l @ '' '' @ cell_str (the (rp_values x n)) @ '' is on '' @ rows_phrase (map rp_number same)
           @ ''; keep it on one row only.'') x else x))"
    using assms(1) unfolding mark_repeated_def by auto
  have ne: "rp_errors (add_error e x) \<noteq> []" for e by (simp add: add_error_def)
  have "r = x" using x(2) assms(2) ne by (auto simp: Let_def split: option.splits if_splits)
  then have len: "length (filter (\<lambda>q. typed_key n q = Some k) rows) \<le> 1"
    using x(2) assms(2,3) ne by (simp add: Let_def split: if_splits) metis
  have "{q, x} \<subseteq> set (filter (\<lambda>q. typed_key n q = Some k) rows)" using x(1) \<open>r = x\<close> assms(3-5) by simp
  then have "card {q, x} \<le> 1"
    using len card_length [of "filter (\<lambda>q. typed_key n q = Some k) rows"] card_mono [of "set (filter (\<lambda>q. typed_key n q = Some k) rows)" "{q, x}"] by simp
  then show ?thesis using \<open>r = x\<close> by (cases "q = x") simp_all
qed

text \<open>The students the numbers are checked against.\<close>

definition holders :: "ctx \<Rightarrow> int \<Rightarrow> int \<Rightarrow> row_plan list \<Rightarrow> db \<Rightarrow> string \<Rightarrow> holder list" where
  "holders c g sec rows s n = (if n = ''admission_no'' then admission_holders c g rows s else roll_holders g sec s)"

lemma settled_numbers:
  assumes "rows' = unique_student_numbers c g sec s rows" and "S = filter is_saved rows'"
  shows "rows_grow rows rows'"
    and "\<forall>n \<in> set NUMBERS. \<forall>r \<in> set S. \<forall>q \<in> set S. typed_key n r \<noteq> None \<and> typed_key n r = typed_key n q \<longrightarrow> r = q"
    and "\<exists>cand. (\<forall>r \<in> set S. r \<in> set cand \<and> is_saved r) \<and> (\<forall>n \<in> set NUMBERS. \<forall>r \<in> set S. blocking n (holders c g sec cand s n) S r = None)"
proof -
  define A where "A = mark_repeated ''admission_no'' ''Admission number'' rows"
  define B where "B = mark_repeated ''roll_no'' ''Roll number'' A"
  have rows': "rows' = settle_numbers (admission_holders c g B s) (roll_holders g sec s) B"
    using assms(1) by (simp add: unique_student_numbers_def Let_def A_def B_def)
  have g: "rows_grow rows A" "rows_grow A B" "rows_grow B rows'" unfolding A_def B_def rows' by (simp_all add: grow_repeated grow_settle)
  then show "rows_grow rows rows'" by (meson rows_grow_trans)
  have inB: "r \<in> set B \<and> r \<in> set A \<and> r \<in> set rows \<and> is_saved r" if "r \<in> set S" for r
    proof -
    have r: "is_saved r" "r \<in> set rows'" using that assms(2) by simp_all
    then have "r \<in> set B" using rows_grow_saved [OF g(3)] by blast
    moreover from this have "r \<in> set A" using rows_grow_saved [OF g(2)] r by blast
    moreover from this have "r \<in> set rows" using rows_grow_saved [OF g(1)] r by blast
    ultimately show ?thesis using r by simp
  qed
  show "\<forall>n \<in> set NUMBERS. \<forall>r \<in> set S. \<forall>q \<in> set S. typed_key n r \<noteq> None \<and> typed_key n r = typed_key n q \<longrightarrow> r = q"
  proof (intro ballI impI)
    fix n r q assume n: "n \<in> set NUMBERS" and r: "r \<in> set S" and q: "q \<in> set S" and k: "typed_key n r \<noteq> None \<and> typed_key n r = typed_key n q"
    then obtain k where k: "typed_key n r = Some k" "typed_key n q = Some k" by (metis not_None_eq)
    from n consider "n = ''admission_no''" | "n = ''roll_no''" by (auto simp: NUMBERS_def)
    then show "r = q"
    proof cases
      case 1
      show ?thesis by (rule marked_number [of r n "''Admission number''" rows k]) (use inB r q k 1 in \<open>auto simp: A_def is_saved_def\<close>)
    next
      case 2
      show ?thesis by (rule marked_number [of r n "''Roll number''" A k]) (use inB r q k 2 in \<open>auto simp: B_def is_saved_def\<close>)
    qed
  qed
  have "round_errors (admission_holders c g B s) (roll_holders g sec s) S r = []" if "r \<in> set S" for r
    using settled [of "admission_holders c g B s" "roll_holders g sec s" B] that assms(2)
    by (auto simp: round_found_def list_ex_iff rows')
  then have "blocking n (holders c g sec B s n) S r = None" if "n \<in> set NUMBERS" "r \<in> set S" for n r
    using that inB by (fastforce simp: round_errors_def blocked_error_def holders_def NUMBERS_def split: option.splits)
  then show "\<exists>cand. (\<forall>r \<in> set S. r \<in> set cand \<and> is_saved r) \<and> (\<forall>n \<in> set NUMBERS. \<forall>r \<in> set S. blocking n (holders c g sec cand s n) S r = None)"
    using inB by blast
qed

subsection \<open>The database and the plan\<close>

text \<open>
  The keys of the tables the import writes: ids, the usernames of a school, the admission numbers of a
  school and the roll numbers of a section; profiles belong to accounts and sections of their school, and
  numbers are not blank (migration 0003 and the forms store NULL instead).
\<close>

definition profile_ok :: "db \<Rightarrow> student_profile_row \<Rightarrow> bool" where
  "profile_ok s p \<longleftrightarrow> (\<exists>u \<in> set (users s). u_id u = sp_user p \<and> u_org u = sp_org p)
     \<and> (\<forall>i. sp_section p = Some i \<longrightarrow> (\<exists>x \<in> set (sections s). se_id x = i \<and> se_org x = sp_org p))
     \<and> (\<forall>n \<in> set NUMBERS. \<forall>v. num n p = Some v \<longrightarrow> fold_text v \<noteq> [])"

definition clash :: "ctx \<Rightarrow> student_profile_row \<Rightarrow> student_profile_row \<Rightarrow> bool" where
  "clash c p q \<longleftrightarrow> same_admission c p q \<or> same_roll c p q"

definition accounts_ok :: "ctx \<Rightarrow> db \<Rightarrow> bool" where
  "accounts_ok c s \<longleftrightarrow> distinct (map u_id (users s)) \<and> (\<forall>u \<in> set (users s). u_id u < next_user s)
     \<and> (\<forall>u \<in> set (users s). \<forall>v \<in> set (users s). u_org u = u_org v \<and> sql_eq c (u_username u) (u_username v) \<longrightarrow> u = v)"

definition numbers_ok :: "ctx \<Rightarrow> db \<Rightarrow> bool" where
  "numbers_ok c s \<longleftrightarrow> accounts_ok c s \<and> distinct (map se_id (sections s)) \<and> distinct (map sp_user (student_profiles s))
     \<and> (\<forall>p \<in> set (student_profiles s). profile_ok s p)
     \<and> (\<forall>p \<in> set (student_profiles s). \<forall>q \<in> set (student_profiles s). clash c p q \<longrightarrow> p = q)"

definition plan_rows :: "ctx \<Rightarrow> int \<Rightarrow> import_section \<Rightarrow> column list \<Rightarrow> db \<Rightarrow> row_plan list \<Rightarrow> row_plan list \<Rightarrow> bool" where
  "plan_rows c g sec cols s cand S \<longleftrightarrow> (\<forall>r \<in> set S. row_fits c g sec cols s r \<and> is_saved r \<and> r \<in> set cand)
     \<and> (\<forall>r \<in> set S. \<forall>q \<in> set S. fold_text (rp_username r) = fold_text (rp_username q) \<longrightarrow> r = q)
     \<and> (\<forall>n \<in> set NUMBERS. \<forall>r \<in> set S. \<forall>q \<in> set S. typed_key n r \<noteq> None \<and> typed_key n r = typed_key n q \<longrightarrow> r = q)
     \<and> (\<forall>n \<in> set NUMBERS. \<forall>r \<in> set S. blocking n (holders c g (is_section sec) cand s n) S r = None)"

lemma built_rows:
  assumes "build c Student (Some sec) parsed archive True s = Inr p" and "parse_records records t m = Inr parsed" and "fold_matches c"
  shows "\<exists>g cand. bound_org s = Some g \<and> plan_rows c g sec (pc_columns parsed) s cand (filter is_saved (pl_rows p))"
    and "distinct (map rp_number (pl_rows p))" and "pl_type p = Student" and "pl_section p = Some sec"
proof -
  obtain g where g: "bound_org s = Some g"
    and p: "pl_rows p = unique_student_numbers c g (is_section sec) s (map drop_password (decided_rows c g Student (Some sec) parsed s))"
    and "pl_type p = Student" "pl_section p = Some sec"
    using assms(1) by (auto simp: build_def org_of_def Let_def cross_rows_def split: option.splits)
  then show "pl_type p = Student" "pl_section p = Some sec" by simp_all
  let ?D = "decided_rows c g Student (Some sec) parsed s" and ?S = "filter is_saved (pl_rows p)"
  note num = settled_numbers [OF p refl]
  from rows_grow_numbers [OF num(1)] have "map rp_number (pl_rows p) = map cr_number (pc_rows parsed)"
    by (simp add: comp_def decided_numbers)
  with parsed_numbers [OF assms(2)] show "distinct (map rp_number (pl_rows p))" by simp
  have old: "\<exists>d \<in> set ?D. r = drop_password d \<and> is_saved d" if "r \<in> set ?S" for r
  proof -
    have "r \<in> set (map drop_password ?D)" using rows_grow_saved [OF num(1), of r] that by simp
    with that show ?thesis by auto
  qed
  have cells: "\<forall>cr \<in> set (pc_rows parsed). cells_ok cr" using parsed_cells [OF assms(2)] by blast
  have fits: "row_fits c g sec (pc_columns parsed) s r" if "r \<in> set ?S" for r
    using old [OF that] decided_fits [OF _ _ cells assms(3)] fits_drop_password by blast
  have uniq: "r = q" if rq: "r \<in> set ?S" "q \<in> set ?S" and eq: "fold_text (rp_username r) = fold_text (rp_username q)" for r q
  proof -
    obtain d e where "d \<in> set ?D" "is_saved d" "e \<in> set ?D" "is_saved e" "r = drop_password d" "q = drop_password e"
      using old [OF rq(1)] old [OF rq(2)] by blast
    with decided_unique [of d c g Student "Some sec" parsed s e] eq show ?thesis by simp
  qed
  obtain cand where "\<forall>r \<in> set ?S. r \<in> set cand \<and> is_saved r"
      "\<forall>n \<in> set NUMBERS. \<forall>r \<in> set ?S. blocking n (holders c g (is_section sec) cand s n) ?S r = None"
    using num(3) by blast
  with fits uniq num(2) have "plan_rows c g sec (pc_columns parsed) s cand ?S" unfolding plan_rows_def by blast
  with g show "\<exists>g cand. bound_org s = Some g \<and> plan_rows c g sec (pc_columns parsed) s cand ?S" by blast
qed

lemma unique_key: "distinct (map f xs) \<Longrightarrow> x \<in> set xs \<Longrightarrow> y \<in> set xs \<Longrightarrow> f x = f y \<Longrightarrow> x = y"
  by (simp add: distinct_map inj_on_def)

text \<open>The account and the profile behind a row that changes a student.\<close>

lemma row_student:
  assumes "numbers_ok c s" and "row_fits c g sec cols s r" and "rp_existing r = Some e"
  obtains u :: user_row and p :: student_profile_row where "u \<in> set (users s)" "u_org u = g" "fold_text (u_username u) = fold_text (rp_username r)"
    "e = existing_of s u" "ex_sp e = Some p" "p \<in> set (student_profiles s)" "sp_user p = u_id u" "rp_user r = Some (u_id u)"
    "sp_section p = Some (is_section sec)" "sp_org p = g"
proof -
  obtain u where u: "u \<in> set (users s)" "e = existing_of s u" "u_org u = g" "fold_text (u_username u) = fold_text (rp_username r)"
      and m: "matched Student (Some sec) cols e r"
    using assms(2,3) by (auto simp: row_fits_def)
  have id: "ex_user e = u" using u(2) by (simp add: existing_of_def Let_def)
  obtain p where p: "ex_sp e = Some p" "sp_section p = Some (is_section sec)"
    using m by (auto simp: matched_def bind_eq_Some_conv)
  then have "one_where (\<lambda>p. sp_user p = u_id u) (student_profiles s) = Some p" using u(2) by (simp add: existing_of_def Let_def)
  then have in_p: "p \<in> set (student_profiles s)" "sp_user p = u_id u" by (auto dest: one_where_Some)
  then obtain v where v: "v \<in> set (users s)" "u_id v = sp_user p" "u_org v = sp_org p"
    using assms(1) by (auto simp: numbers_ok_def profile_ok_def)
  have "v = u" by (rule unique_key [of u_id "users s"]) (use assms(1) v(1,2) u(1) in_p in \<open>auto simp: numbers_ok_def accounts_ok_def\<close>)
  with v u in_p p m id show thesis by (intro that) (auto simp: matched_def)
qed

end
