(* ===== verification/Import_Numbers.thy ===== *)
theory Import_Numbers
  imports Import_Rows
begin

text \<open>
  No two students end up with one number: the numbers a saved row may have, before and after it is
  written, clash neither with those of another saved row nor with a student the file does not save.
\<close>

text \<open>The numbers a row's student may have on the way: the final one, or the present one until it is freed.\<close>

definition allowed :: "string \<Rightarrow> row_plan \<Rightarrow> string \<Rightarrow> bool" where
  "allowed n r x \<longleftrightarrow> (given (final n None r) \<and> cell_str (the (final n None r)) = x)
     \<or> (\<exists>e p. rp_existing r = Some e \<and> ex_sp e = Some p \<and> num n p = Some x \<and> n \<notin> set (rp_changes r))"

lemma existing_number: "n \<in> set NUMBERS \<Longrightarrow> ex_sp e = Some p \<Longrightarrow> existing_get e n = map_option Text (num n p)"
proof -
  assume n: "n \<in> set NUMBERS" and p: "ex_sp e = Some p"
  from n consider "n = ''admission_no''" | "n = ''roll_no''" by (auto simp: NUMBERS_def)
  then show ?thesis by cases (simp_all add: existing_get_def num_def Let_def p)
qed

lemma existing_name_number: "n \<in> set NUMBERS \<Longrightarrow> existing_name t n = n"
  by (auto simp: NUMBERS_def existing_name_def)

lemma fold_empty [simp]: "fold_text [] = []"
  by (simp add: fold_Nil_iff py_strip_def)

lemma given_value: "values_ok cols r \<Longrightarrow> rp_values r n = Some v \<Longrightarrow> given (Some v) \<and> fold_text (cell_str v) \<noteq> []"
proof -
  assume "values_ok cols r" "rp_values r n = Some v"
  then have "fold_text (cell_str v) \<noteq> []" unfolding values_ok_def by blast
  then show ?thesis by (cases v) (auto simp: given_def cell_str_def)
qed

lemma unchanged_number:
  assumes "row_fits c g sec cols s r" and n: "n \<in> set NUMBERS" and "rp_existing r = Some e" and "ex_sp e = Some p"
    and "n \<notin> set (rp_changes r)" and v: "rp_values r n = Some v"
  shows "\<exists>x t. num n p = Some x \<and> v = Text t \<and> py_strip x = t"
proof -
  have m: "rp_changes r = changed_columns r e cols" and vals: "values_ok cols r"
    using assms(1,3) by (auto simp: row_fits_def matched_def)
  obtain co where co: "co \<in> set cols" "col_name co = n" using vals v by (auto simp: values_ok_def)
  have other: "n \<noteq> ''username''" "n \<noteq> ''password''" using n by (auto simp: NUMBERS_def)
  let ?P = "\<lambda>co. col_name co \<noteq> ''username'' \<and> col_name co \<noteq> ''password''
     \<and> (case rp_values r (col_name co) of None \<Rightarrow> False
        | Some v \<Rightarrow> col_kind co = PhotoKind \<or> \<not> same_cell (existing_get e (existing_name (col_table co) (col_name co))) v)"
  have "n \<notin> col_name ` {co \<in> set cols. ?P co}" using assms(5) unfolding m changed_columns_def set_map set_filter .
  then have "\<not> ?P co" using co by blast
  then have "same_cell (existing_get e n) v" using co v other by (simp add: existing_name_number [OF n])
  then show ?thesis
    using existing_number [OF n assms(4)] by (auto simp: same_cell_def cell_str_def split: cell.splits option.splits)
qed

text \<open>What is allowed folds to the key the row is checked with.\<close>

lemma allowed_key:
  assumes num: "numbers_ok c s" and fits: "row_fits c g sec cols s r" and n: "n \<in> set NUMBERS" and "allowed n r x"
  shows "final_key n r = Some (fold_text x) \<and> fold_text x \<noteq> []"
proof -
  have vals: "values_ok cols r" using fits by (simp add: row_fits_def)
  have stored: "fold_text y \<noteq> []" if e: "rp_existing r = Some e" "ex_sp e = Some p" "num n p = Some y" for e p y
  proof -
    from row_student [OF num fits e(1)] e(2) have "p \<in> set (student_profiles s)" by (metis option.inject)
    with num n e(3) show ?thesis by (simp add: numbers_ok_def profile_ok_def)
  qed
  from assms(4) consider (fin) "given (final n None r)" "cell_str (the (final n None r)) = x"
    | (cur) e p where "rp_existing r = Some e" "ex_sp e = Some p" "num n p = Some x" "n \<notin> set (rp_changes r)"
    unfolding allowed_def by blast
  then show ?thesis
  proof cases
    case fin
    have "fold_text x \<noteq> []"
    proof (cases "rp_values r n")
      case (Some v)
      then show ?thesis using fin given_value [OF vals Some] by (simp add: final_def)
    next
      case None
      then obtain e where e: "rp_existing r = Some e" and g: "given (existing_get e n)" "cell_str (the (existing_get e n)) = x"
        using fin by (auto simp: final_def given_def existing_name_number [OF n] split: option.splits)
      obtain p where p: "ex_sp e = Some p" using row_student [OF num fits e] by blast
      then obtain y where "num n p = Some y" "x = y"
        using g by (auto simp: existing_number [OF n] given_def cell_str_def split: option.splits)
      then show ?thesis using stored [OF e p] by simp
    qed
    with fin show ?thesis by (simp add: final_key_def Let_def)
  next
    case cur
    have ne: "fold_text x \<noteq> []" using stored cur(1-3) by blast
    show ?thesis
    proof (cases "rp_values r n")
      case None
      then have "final n None r = Some (Text x)"
        using cur by (simp add: final_def existing_name_number [OF n] existing_number [OF n])
      then show ?thesis using ne by (auto simp: final_key_def given_def cell_str_def)
    next
      case (Some v)
      from unchanged_number [OF fits n cur(1,2,4) Some] cur(3) have "v = Text (py_strip x)" by auto
      then show ?thesis using Some ne given_value [OF vals Some] by (simp add: final_key_def final_def cell_str_def)
    qed
  qed
qed

lemma untyped_current:
  assumes num: "numbers_ok c s" and fits: "row_fits c g sec cols s r" and n: "n \<in> set NUMBERS" and "allowed n r x" and "rp_values r n = None"
  obtains e p where "rp_existing r = Some e" "ex_sp e = Some p" "num n p = Some x" "given (final n None r)" "cell_str (the (final n None r)) = x"
proof -
  have ex: "rp_existing r \<noteq> None"
    using assms(4,5) by (cases "rp_existing r") (auto simp: allowed_def final_def given_def)
  then obtain e where e: "rp_existing r = Some e" by blast
  obtain p where p: "ex_sp e = Some p" using row_student [OF num fits e] by blast
  have f: "final n None r = map_option Text (num n p)"
    using assms(5) e p by (simp add: final_def existing_name_number [OF n] existing_number [OF n])
  have "num n p = Some x" using assms(4) e p f by (auto simp: allowed_def given_def cell_str_def split: option.splits)
  moreover have "x \<noteq> []" using allowed_key [OF num fits n assms(4)] by auto
  ultimately show thesis using that e p f by (simp add: given_def cell_str_def)
qed

lemma set_map_filter: "set (List.map_filter f xs) = {y. \<exists>x \<in> set xs. f x = Some y}"
  by (force simp: List.map_filter_def)

text \<open>Who is among the holders.\<close>

lemma holder_found:
  assumes num: "numbers_ok c s" and "n \<in> set NUMBERS" and p: "p \<in> set (student_profiles s)" "sp_org p = g" "num n p = Some y"
    and adm: "n = ''admission_no'' \<Longrightarrow> \<exists>r \<in> set cand. is_saved r \<and> given (final n None r) \<and> sql_eq c y (cell_str (the (final n None r)))"
    and roll: "n = ''roll_no'' \<Longrightarrow> sp_section p = Some sec"
  shows "\<exists>h \<in> set (holders c g sec cand s n). hd_user h = sp_user p \<and> hd_value h = y"
proof -
  have "profile_ok s p" using num p(1) by (simp add: numbers_ok_def)
  then obtain u where u: "one_where (\<lambda>u. u_id u = sp_user p) (users s) = Some u"
    by (cases "one_where (\<lambda>u. u_id u = sp_user p) (users s)") (auto simp: profile_ok_def one_where_None)
  show ?thesis
  proof (cases "n = ''admission_no''")
    case True
    then obtain r where r: "r \<in> set cand" "is_saved r" "given (final n None r)" "sql_eq c y (cell_str (the (final n None r)))" using adm by blast
    define vals where "vals = sort (remdups (map (\<lambda>r. cell_str (the (final ''admission_no'' None r)))
         (filter (\<lambda>r. is_saved r \<and> given (final ''admission_no'' None r)) cand)))"
    have "cell_str (the (final n None r)) \<in> set vals" using r True by (auto simp: vals_def)
    then have "cell_str (the (final n None r)) \<in> set (concat (chunks CHUNK vals))" by (simp add: concat_chunks CHUNK_def)
    then obtain part where part: "part \<in> set (chunks CHUNK vals)" "cell_str (the (final n None r)) \<in> set part" by auto
    have y: "sp_admission p = Some y" using p(3) True by (simp add: num_def)
    let ?F = "filter (\<lambda>p. sp_org p = g \<and> (case sp_admission p of None \<Rightarrow> False | Some a \<Rightarrow> list_ex (sql_eq c a) part)) (student_profiles s)"
    have "p \<in> set ?F" using p y r(4) part(2) by (auto simp: list_ex_iff)
    moreover have "holder_of sp_admission True s p \<noteq> None" using y u by (simp add: holder_of_def)
    ultimately obtain h where h: "h \<in> set (List.map_filter (holder_of sp_admission True s) ?F)" "holder_of sp_admission True s p = Some h"
      unfolding set_map_filter by blast
    then have "h \<in> set (admission_holders c g cand s)"
      using part(1) unfolding admission_holders_def Let_def vals_def [symmetric] by auto
    moreover have "hd_user h = sp_user p \<and> hd_value h = y" using h(2) y u by (auto simp: holder_of_def)
    ultimately show ?thesis using True by (auto simp: holders_def)
  next
    case False
    then have n: "n = ''roll_no''" using assms(2) by (simp add: NUMBERS_def)
    have y: "sp_roll p = Some y" using p(3) n by (simp add: num_def)
    have "p \<in> set (filter (\<lambda>p. sp_org p = g \<and> sp_section p = Some sec) (student_profiles s))" using p roll [OF n] by simp
    moreover obtain h where h: "holder_of sp_roll False s p = Some h" "hd_user h = sp_user p" "hd_value h = y" using y u by (simp add: holder_of_def)
    ultimately have "h \<in> set (roll_holders g sec s)" unfolding roll_holders_def set_map_filter by blast
    with h False show ?thesis by (auto simp: holders_def)
  qed
qed

lemma not_blocked:
  assumes "blocking n hs S r = None" and "final_key n r = Some k" and "k \<noteq> []" and "h \<in> set hs" and "fold_text (hd_value h) = k"
  shows "Some (hd_user h) = rp_user r \<or> (\<exists>k'. staying n S (hd_user h) = Some k' \<and> k' \<noteq> Some k)"
  using assms by (auto simp: blocking_def find_None_iff split: option.splits)

subsection \<open>No two rows clash\<close>

lemma fits_user: "row_fits c g sec cols s r \<Longrightarrow> rp_existing r = None \<Longrightarrow> rp_user r = None"
  by (simp add: row_fits_def)

lemma rows_same_user:
  assumes num: "numbers_ok c s" and plan: "plan_rows c g sec cols s cand S" and r: "r \<in> set S" and q: "q \<in> set S"
    and i: "rp_user r = Some i" "rp_user q = Some i"
  shows "r = q"
proof -
  have fit: "row_fits c g sec cols s r" "row_fits c g sec cols s q" using plan r q by (simp_all add: plan_rows_def)
  obtain e f where e: "rp_existing r = Some e" and f: "rp_existing q = Some f" using fits_user fit i by fastforce
  obtain u where u: "u \<in> set (users s)" "fold_text (u_username u) = fold_text (rp_username r)" "u_id u = i"
    using row_student [OF num fit(1) e] i(1) by (metis option.inject)
  obtain v where v: "v \<in> set (users s)" "fold_text (u_username v) = fold_text (rp_username q)" "u_id v = i"
    using row_student [OF num fit(2) f] i(2) by (metis option.inject)
  have "u = v" by (rule unique_key [of u_id "users s"]) (use num u v in \<open>simp_all add: numbers_ok_def accounts_ok_def\<close>)
  with u v have "fold_text (rp_username r) = fold_text (rp_username q)" by simp
  with plan r q show ?thesis by (simp add: plan_rows_def)
qed

lemma staying_row:
  assumes "numbers_ok c s" and "plan_rows c g sec cols s cand S" and "q \<in> set S" and "rp_user q = Some i"
  shows "staying n S i = Some (final_key n q)"
proof (cases "staying n S i")
  case None
  then have "i \<notin> fst ` set (map (\<lambda>r. (the (rp_user r), final_key n r)) (filter (\<lambda>r. rp_user r \<noteq> None) S))"
    by (simp add: staying_def map_of_eq_None_iff)
  then show ?thesis using assms(3,4) by (force simp: image_iff)
next
  case (Some k)
  then obtain r where "r \<in> set S" "rp_user r = Some i" "k = final_key n r"
    by (auto simp: staying_def dest!: map_of_SomeD)
  with rows_same_user [OF assms(1,2) _ assms(3)] assms(4) Some show ?thesis by blast
qed

lemma staying_other: "\<forall>q \<in> set S. rp_user q \<noteq> Some i \<Longrightarrow> staying n S i = None"
  by (auto simp: staying_def map_of_eq_None_iff)

lemma typed_final: "rp_values r n = Some v \<Longrightarrow> final_key n r = typed_key n r"
  by (simp add: final_key_def final_def typed_key_def)

lemma row_clash_half:
  assumes num: "numbers_ok c s" and plan: "plan_rows c g sec cols s cand S" and n: "n \<in> set NUMBERS"
    and r: "r \<in> set S" and q: "q \<in> set S" and "r \<noteq> q" and f: "fold_text x = fold_text y"
    and x: "allowed n r x" and y: "allowed n q y" and "rp_values q n = None"
  shows False
proof -
  have fit: "row_fits c g sec cols s r" "row_fits c g sec cols s q" using plan r q by (simp_all add: plan_rows_def)
  have cand: "q \<in> set cand" "is_saved q" using plan q by (simp_all add: plan_rows_def)
  have block: "blocking n (holders c g (is_section sec) cand s n) S r = None" using plan n r by (simp add: plan_rows_def)
  obtain e p where e: "rp_existing q = Some e" "ex_sp e = Some p" "num n p = Some y"
      and g: "given (final n None q)" "cell_str (the (final n None q)) = y"
    using untyped_current [OF num fit(2) n y \<open>rp_values q n = None\<close>] .
  obtain i where p: "p \<in> set (student_profiles s)" "sp_user p = i" "rp_user q = Some i" "sp_org p = g" "sp_section p = Some (is_section sec)"
    using row_student [OF num fit(2) e(1)] e(2) by (metis option.inject)
  have "\<exists>h \<in> set (holders c g (is_section sec) cand s n). hd_user h = sp_user p \<and> hd_value h = y"
    by (rule holder_found [OF num n p(1,4) e(3)]) (use g cand p(5) in auto)
  then obtain h where h: "h \<in> set (holders c g (is_section sec) cand s n)" "hd_user h = i" "hd_value h = y" using p(2) by blast
  note key = allowed_key [OF num fit(1) n x] and keyq = allowed_key [OF num fit(2) n y]
  from not_blocked [OF block _ _ h(1)] key f h(3) have "Some i = rp_user r \<or> (\<exists>k'. staying n S i = Some k' \<and> k' \<noteq> Some (fold_text x))"
    unfolding h(2) [symmetric] by simp
  moreover have "Some i \<noteq> rp_user r" using rows_same_user [OF num plan r q _ p(3)] \<open>r \<noteq> q\<close> by metis
  moreover have "staying n S i = Some (Some (fold_text x))" using staying_row [OF num plan q p(3)] keyq f by simp
  ultimately show False by simp
qed

lemma rows_no_clash:
  assumes num: "numbers_ok c s" and plan: "plan_rows c g sec cols s cand S" and "fold_matches c" and n: "n \<in> set NUMBERS"
    and r: "r \<in> set S" and q: "q \<in> set S" and "r \<noteq> q" and x: "allowed n r x" and y: "allowed n q y"
  shows "\<not> sql_eq c x y"
proof
  assume "sql_eq c x y"
  then have f: "fold_text x = fold_text y" using assms(3) by (simp add: fold_matches_def)
  have fit: "row_fits c g sec cols s r" "row_fits c g sec cols s q" using plan r q by (simp_all add: plan_rows_def)
  show False
  proof (cases "rp_values r n = None \<or> rp_values q n = None")
    case True
    then show False using row_clash_half [OF num plan n r q \<open>r \<noteq> q\<close> f x y] row_clash_half [OF num plan n q r _ f [symmetric] y x] \<open>r \<noteq> q\<close> by blast
  next
    case False
    then have "typed_key n r = Some (fold_text x)" "typed_key n q = Some (fold_text y)"
      using allowed_key [OF num fit(1) n x] allowed_key [OF num fit(2) n y] typed_final by (metis not_None_eq)+
    then have "r = q" using plan n r q f unfolding plan_rows_def by (metis option.distinct(1))
    with \<open>r \<noteq> q\<close> show False by simp
  qed
qed

text \<open>Nor does a row clash with a student the file does not save.\<close>

definition in_scope :: "string \<Rightarrow> int \<Rightarrow> int \<Rightarrow> student_profile_row \<Rightarrow> bool" where
  "in_scope n g sec p \<longleftrightarrow> sp_org p = g \<and> (n = ''roll_no'' \<longrightarrow> sp_section p = Some sec)"

lemma row_other_clash:
  assumes num: "numbers_ok c s" and plan: "plan_rows c g sec cols s cand S" and fold: "fold_matches c" and n: "n \<in> set NUMBERS"
    and r: "r \<in> set S" and p: "p \<in> set (student_profiles s)" "\<forall>q \<in> set S. rp_user q \<noteq> Some (sp_user p)"
    and y: "num n p = Some y" "in_scope n g (is_section sec) p" and x: "allowed n r x"
  shows "\<not> sql_eq c x y"
proof
  assume eq: "sql_eq c x y"
  then have f: "fold_text x = fold_text y" using fold by (simp add: fold_matches_def)
  have fit: "row_fits c g sec cols s r" and cand: "r \<in> set cand" "is_saved r" using plan r by (simp_all add: plan_rows_def)
  have block: "blocking n (holders c g (is_section sec) cand s n) S r = None" using plan n r by (simp add: plan_rows_def)
  from x consider (fin) "given (final n None r)" "cell_str (the (final n None r)) = x"
    | (cur) e q where "rp_existing r = Some e" "ex_sp e = Some q" "num n q = Some x"
    unfolding allowed_def by blast
  then show False
  proof cases
    case fin
    have "\<exists>h \<in> set (holders c g (is_section sec) cand s n). hd_user h = sp_user p \<and> hd_value h = y"
    proof (rule holder_found [OF num n p(1) _ y(1)])
      show "sp_org p = g" "n = ''roll_no'' \<Longrightarrow> sp_section p = Some (is_section sec)" using y(2) by (simp_all add: in_scope_def)
      show "\<exists>r \<in> set cand. is_saved r \<and> given (final n None r) \<and> sql_eq c y (cell_str (the (final n None r)))"
        using fin cand eq sql_eq_sym [of c x y] by auto
    qed
    then obtain h where h: "h \<in> set (holders c g (is_section sec) cand s n)" "hd_user h = sp_user p" "hd_value h = y" by blast
    from not_blocked [OF block _ _ h(1)] allowed_key [OF num fit n x] f h(3)
    have "Some (sp_user p) = rp_user r \<or> (\<exists>k'. staying n S (sp_user p) = Some k' \<and> k' \<noteq> Some (fold_text x))"
      unfolding h(2) [symmetric] by simp
    then show False using p(2) r staying_other [OF p(2)] by (metis option.distinct(1))
  next
    case cur
    obtain i where q: "q \<in> set (student_profiles s)" "sp_user q = i" "rp_user r = Some i" "sp_org q = g" "sp_section q = Some (is_section sec)"
      using row_student [OF num fit cur(1)] cur(2) by (metis option.inject)
    from n consider "n = ''admission_no''" | "n = ''roll_no''" by (auto simp: NUMBERS_def)
    then have "clash c q p"
      by cases (use cur(3) y eq q in \<open>simp_all add: clash_def same_admission_def same_roll_def num_def in_scope_def\<close>)
    then have "q = p" using num q(1) p(1) by (simp add: numbers_ok_def)
    with q p(2) r show False by blast
  qed
qed

end
