(* ===== verification/Import_Writes.thy ===== *)
theory Import_Writes
  imports Import_Numbers
begin

text \<open>
  Writing the profiles of a student import: between any two statements every profile is one the file does
  not touch or has numbers its row allows, so no statement meets a key that is taken.
\<close>

definition owns_ok :: "db \<Rightarrow> row_plan list \<Rightarrow> (row_plan \<Rightarrow> int option) \<Rightarrow> bool" where
  "owns_ok s S own \<longleftrightarrow> (\<forall>r \<in> set S. case rp_existing r of None \<Rightarrow> (\<exists>i. own r = Some i \<and> i \<notin> u_id ` set (users s)) | Some _ \<Rightarrow> own r = rp_user r)
     \<and> (\<forall>r \<in> set S. \<forall>q \<in> set S. own r = own q \<longrightarrow> r = q)"

lemma own_inj: "owns_ok s S own \<Longrightarrow> r \<in> set S \<Longrightarrow> q \<in> set S \<Longrightarrow> own r = own q \<Longrightarrow> r = q"
  by (simp add: owns_ok_def)

definition others :: "row_plan list \<Rightarrow> (row_plan \<Rightarrow> int option) \<Rightarrow> student_profile_row \<Rightarrow> bool" where
  "others S own p \<longleftrightarrow> (\<forall>r \<in> set S. own r \<noteq> Some (sp_user p))"

definition row_profile :: "int \<Rightarrow> import_section \<Rightarrow> (row_plan \<Rightarrow> int option) \<Rightarrow> row_plan \<Rightarrow> student_profile_row \<Rightarrow> bool" where
  "row_profile g sec own r p \<longleftrightarrow> own r = Some (sp_user p) \<and> sp_org p = g \<and> sp_section p = Some (is_section sec)
     \<and> (\<forall>n \<in> set NUMBERS. \<forall>x. num n p = Some x \<longrightarrow> allowed n r x)"

definition good :: "int \<Rightarrow> import_section \<Rightarrow> db \<Rightarrow> row_plan list \<Rightarrow> (row_plan \<Rightarrow> int option) \<Rightarrow> student_profile_row \<Rightarrow> bool" where
  "good g sec s S own p \<longleftrightarrow> (p \<in> set (student_profiles s) \<and> others S own p) \<or> (\<exists>r \<in> set S. row_profile g sec own r p)"

definition section_at :: "int \<Rightarrow> import_section \<Rightarrow> db \<Rightarrow> bool" where
  "section_at g sec s \<longleftrightarrow> (\<exists>x \<in> set (sections s). se_id x = is_section sec \<and> se_org x = g)"

lemma clash_sym: "clash c p q \<longleftrightarrow> clash c q p"
  by (auto simp: clash_def same_admission_def same_roll_def sql_eq_sym [of c] split: option.splits)

lemma clash_number:
  assumes "clash c p q"
  obtains n x y where "n \<in> set NUMBERS" "num n p = Some x" "num n q = Some y" "sql_eq c x y"
    "n = ''admission_no'' \<Longrightarrow> sp_org p = sp_org q" "n = ''roll_no'' \<Longrightarrow> sp_section p = sp_section q"
proof -
  consider "same_admission c p q" | "same_roll c p q" using assms by (auto simp: clash_def)
  then show thesis
  proof cases
    case 1
    then obtain x y where "sp_admission p = Some x" "sp_admission q = Some y" "sql_eq c x y" "sp_org p = sp_org q"
      by (auto simp: same_admission_def split: option.splits)
    then show thesis by (intro that [of "''admission_no''" x y]) (simp_all add: num_def NUMBERS_def)
  next
    case 2
    then obtain x y where "sp_roll p = Some x" "sp_roll q = Some y" "sql_eq c x y" "sp_section p = sp_section q"
      by (auto simp: same_roll_def split: option.splits)
    then show thesis by (intro that [of "''roll_no''" x y]) (simp_all add: num_def NUMBERS_def)
  qed
qed

lemma section_org:
  assumes "numbers_ok c s" and "section_at g sec s" and "p \<in> set (student_profiles s)" and "sp_section p = Some (is_section sec)"
  shows "sp_org p = g"
proof -
  obtain x where x: "x \<in> set (sections s)" "se_id x = is_section sec" "se_org x = sp_org p"
  proof -
    have "profile_ok s p" using assms(1,3) by (simp add: numbers_ok_def)
    with assms(4) that show thesis unfolding profile_ok_def by blast
  qed
  obtain y where y: "y \<in> set (sections s)" "se_id y = is_section sec" "se_org y = g" using assms(2) by (auto simp: section_at_def)
  have "x = y" by (rule unique_key [of se_id "sections s"]) (use assms(1) x y in \<open>simp_all add: numbers_ok_def\<close>)
  with x y show ?thesis by simp
qed

lemma row_others_no_clash:
  assumes num: "numbers_ok c s" and plan: "plan_rows c g sec cols s cand S" and fold: "fold_matches c" and sec: "section_at g sec s"
    and own: "owns_ok s S own" and r: "r \<in> set S" "row_profile g sec own r p" and q: "q \<in> set (student_profiles s)" "others S own q"
  shows "\<not> clash c p q"
proof
  assume "clash c p q"
  then obtain n x y where n: "n \<in> set NUMBERS" "num n p = Some x" "num n q = Some y" "sql_eq c x y"
      "n = ''admission_no'' \<Longrightarrow> sp_org p = sp_org q" "n = ''roll_no'' \<Longrightarrow> sp_section p = sp_section q" using clash_number by metis
  have p: "sp_org p = g" "sp_section p = Some (is_section sec)" "allowed n r x" using r(2) n(1,2) by (simp_all add: row_profile_def)
  have "\<forall>t \<in> set S. rp_user t \<noteq> Some (sp_user q)"
  proof (intro ballI notI)
    fix t assume t: "t \<in> set S" and u: "rp_user t = Some (sp_user q)"
    have "row_fits c g sec cols s t" using plan t by (simp add: plan_rows_def)
    then obtain e where "rp_existing t = Some e" using fits_user u by fastforce
    moreover have "case rp_existing t of None \<Rightarrow> (\<exists>i. own t = Some i \<and> i \<notin> u_id ` set (users s)) | Some _ \<Rightarrow> own t = rp_user t"
      using own t unfolding owns_ok_def by blast
    ultimately show False using u t q(2) by (simp add: others_def)
  qed
  moreover have "in_scope n g (is_section sec) q"
    using n p section_org [OF num sec q(1)] by (auto simp: in_scope_def NUMBERS_def)
  ultimately show False using row_other_clash [OF num plan fold n(1) r(1) q(1) _ n(3) _ p(3)] n(4) by blast
qed

lemma good_no_clash:
  assumes num: "numbers_ok c s" and plan: "plan_rows c g sec cols s cand S" and fold: "fold_matches c" and sec: "section_at g sec s"
    and own: "owns_ok s S own" and p: "good g sec s S own p" and q: "good g sec s S own q" and ne: "sp_user p \<noteq> sp_user q"
  shows "\<not> clash c p q"
proof -
  note half = row_others_no_clash [OF num plan fold sec own]
  consider (rows) r t where "r \<in> set S" "row_profile g sec own r p" "t \<in> set S" "row_profile g sec own t q"
    | (left) r where "r \<in> set S" "row_profile g sec own r p" "q \<in> set (student_profiles s)" "others S own q"
    | (right) r where "r \<in> set S" "row_profile g sec own r q" "p \<in> set (student_profiles s)" "others S own p"
    | (none) "p \<in> set (student_profiles s)" "q \<in> set (student_profiles s)"
    using p q unfolding good_def by blast
  then show ?thesis
  proof cases
    case rows
    have "r \<noteq> t" using rows ne by (auto simp: row_profile_def)
    show ?thesis
    proof
      assume "clash c p q"
      then obtain n x y where n: "n \<in> set NUMBERS" "num n p = Some x" "num n q = Some y" "sql_eq c x y" using clash_number by metis
      with rows have "allowed n r x" "allowed n t y" by (simp_all add: row_profile_def)
      with rows_no_clash [OF num plan fold n(1) rows(1,3) \<open>r \<noteq> t\<close>] n(4) show False by blast
    qed
  next
    case left then show ?thesis using half by blast
  next
    case right then show ?thesis using half clash_sym by blast
  next
    case none then show ?thesis using num ne by (auto simp: numbers_ok_def)
  qed
qed

subsection \<open>The table while the file is written\<close>

definition written :: "int \<Rightarrow> import_section \<Rightarrow> db \<Rightarrow> row_plan list \<Rightarrow> (row_plan \<Rightarrow> int option) \<Rightarrow> row_plan list \<Rightarrow> row_plan list
    \<Rightarrow> student_profile_row list \<Rightarrow> bool" where
  "written g sec s S own news upds T \<longleftrightarrow> distinct (map sp_user T) \<and> (\<forall>p \<in> set T. good g sec s S own p)
     \<and> (\<forall>p \<in> set (student_profiles s). others S own p \<longrightarrow> p \<in> set T)
     \<and> (\<forall>r \<in> set S. r \<notin> set news \<longrightarrow> (\<exists>p \<in> set T. own r = Some (sp_user p)))
     \<and> (\<forall>r \<in> set news. \<forall>p \<in> set T. own r \<noteq> Some (sp_user p))
     \<and> (\<forall>r \<in> set S. \<forall>p \<in> set T. own r = Some (sp_user p) \<longrightarrow> r \<in> set upds \<or> (\<forall>n \<in> set NUMBERS. num n p = None \<longrightarrow> final_key n r = None))"

lemma number_conflict_clash: "number_conflict c rows p = None \<longleftrightarrow> (\<forall>q \<in> set rows. \<not> clash c p q)"
  by (auto simp: number_conflict_def list_ex_iff clash_def)

lemma final_table: "n \<in> set NUMBERS \<Longrightarrow> final n t r = final n t' r"
  by (simp only: final_def existing_name_number)

lemma final_given:
  assumes num: "numbers_ok c s" and fits: "row_fits c g sec cols s r" and n: "n \<in> set NUMBERS" and v: "final n t r = Some v"
  shows "given (final n None r) \<and> the (final n None r) = v"
proof -
  note eq = final_table [OF n, of t r None]
  have vals: "values_ok cols r" using fits by (simp add: row_fits_def)
  have "given (Some v)"
  proof (cases "rp_values r n")
    case (Some w) then show ?thesis using v given_value [OF vals Some] by (simp add: final_def)
  next
    case None
    then obtain e where e: "rp_existing r = Some e" and g: "existing_get e n = Some v"
      using v by (auto simp: final_def existing_name_number [OF n] split: option.splits)
    obtain p where p: "ex_sp e = Some p" "p \<in> set (student_profiles s)" using row_student [OF num fits e] by blast
    obtain x where x: "num n p = Some x" "v = Text x" using g by (auto simp: existing_number [OF n p(1)])
    then have "fold_text x \<noteq> []" using num p(2) n by (simp add: numbers_ok_def profile_ok_def)
    then show ?thesis using x by (auto simp: given_def)
  qed
  with v eq show ?thesis by simp
qed

lemma num_student_profile: "n \<in> set NUMBERS \<Longrightarrow> num n (student_profile g sec i v) = map_option cell_str (v n)"
  by (auto simp: NUMBERS_def num_def student_profile_def)

lemma final_profile:
  assumes "numbers_ok c s" and "row_fits c g sec cols s r" and "own r = Some i"
  shows "row_profile g sec own r (student_profile g sec i (\<lambda>n. final n t r))"
    and "\<forall>n \<in> set NUMBERS. num n (student_profile g sec i (\<lambda>n. final n t r)) = None \<longrightarrow> final_key n r = None"
proof -
  show "row_profile g sec own r (student_profile g sec i (\<lambda>n. final n t r))"
    unfolding row_profile_def
  proof (intro conjI ballI allI impI)
    fix n x assume n: "n \<in> set NUMBERS" and x: "num n (student_profile g sec i (\<lambda>n. final n t r)) = Some x"
    then obtain v where "final n t r = Some v" "cell_str v = x" by (auto simp: num_student_profile)
    with final_given [OF assms(1,2) n] show "allowed n r x" by (auto simp: allowed_def)
  qed (simp_all add: student_profile_def assms(3))
  show "\<forall>n \<in> set NUMBERS. num n (student_profile g sec i (\<lambda>n. final n t r)) = None \<longrightarrow> final_key n r = None"
    using final_table [of _ t r None] by (auto simp: num_student_profile final_key_def given_def)
qed

lemma insert_written:
  assumes num: "numbers_ok c s" and plan: "plan_rows c g sec cols s cand S" and fold: "fold_matches c" and sec: "section_at g sec s"
    and own: "owns_ok s S own" and W: "written g sec s S own (r # news) upds (student_profiles t)" and dist: "distinct (r # news)" "set news \<subseteq> set S"
    and r: "r \<in> set S" "rp_existing r = None" "own r = Some i"
  shows "\<exists>T. insert_profile c (student_profile g sec i (rp_values r)) t = (Inr (), t\<lparr>student_profiles := T\<rparr>)
     \<and> written g sec s S own news upds T"
proof -
  let ?p = "student_profile g sec i (rp_values r)" and ?T = "student_profiles t"
  have fits: "row_fits c g sec cols s r" using plan r(1) by (simp add: plan_rows_def)
  have fin: "(\<lambda>n. final n None r) = rp_values r" by (auto simp: final_def r(2) split: option.split)
  note prof = final_profile [where t = None and own = own and r = r, OF num fits r(3), unfolded fin]
  have user: "sp_user ?p = i" by (simp add: student_profile_def)
  have good: "good g sec s S own ?p" using prof(1) r(1) by (auto simp: good_def)
  have new: "\<forall>q \<in> set ?T. sp_user q \<noteq> i" using W r(3) by (auto simp: written_def)
  then have "\<forall>q \<in> set ?T. \<not> clash c ?p q"
    using good_no_clash [OF num plan fold sec own good] W user unfolding written_def by metis
  then have "insert_profile c ?p t = (Inr (), t\<lparr>student_profiles := ?T @ [?p]\<rparr>)"
    using new user by (simp add: insert_profile_def list_ex_iff number_conflict_clash [THEN iffD2])
  moreover have "written g sec s S own news upds (?T @ [?p])"
    unfolding written_def
  proof (intro conjI)
    show "distinct (map sp_user (?T @ [?p]))" using W new user by (auto simp: written_def)
    show "\<forall>p \<in> set (?T @ [?p]). good g sec s S own p" using W good by (auto simp: written_def)
    show "\<forall>p \<in> set (student_profiles s). others S own p \<longrightarrow> p \<in> set (?T @ [?p])" using W by (auto simp: written_def)
    show "\<forall>q \<in> set S. q \<notin> set news \<longrightarrow> (\<exists>p \<in> set (?T @ [?p]). own q = Some (sp_user p))"
    proof (intro ballI impI)
      fix q assume q: "q \<in> set S" "q \<notin> set news"
      show "\<exists>p \<in> set (?T @ [?p]). own q = Some (sp_user p)"
      proof (cases "q = r")
        case True then show ?thesis using r(3) user by simp
      next
        case False
        then have "\<exists>p \<in> set ?T. own q = Some (sp_user p)" using W q by (simp add: written_def)
        then show ?thesis by auto
      qed
    qed
    show "\<forall>q \<in> set news. \<forall>p \<in> set (?T @ [?p]). own q \<noteq> Some (sp_user p)"
    proof (intro ballI)
      fix q p assume q: "q \<in> set news" and p: "p \<in> set (?T @ [?p])"
      have "own q \<noteq> own r" using own_inj [OF own _ r(1), of q] q dist by auto
      moreover have "p \<in> set ?T \<Longrightarrow> own q \<noteq> Some (sp_user p)" using W q by (simp add: written_def)
      ultimately show "own q \<noteq> Some (sp_user p)" using p r(3) user by auto
    qed
    show "\<forall>q \<in> set S. \<forall>p \<in> set (?T @ [?p]). own q = Some (sp_user p) \<longrightarrow> q \<in> set upds \<or> (\<forall>n \<in> set NUMBERS. num n p = None \<longrightarrow> final_key n q = None)"
    proof (intro ballI impI)
      fix q p assume q: "q \<in> set S" and p: "p \<in> set (?T @ [?p])" "own q = Some (sp_user p)"
      show "q \<in> set upds \<or> (\<forall>n \<in> set NUMBERS. num n p = None \<longrightarrow> final_key n q = None)"
      proof (cases "p \<in> set ?T")
        case True
        then show ?thesis using W q p(2) by (simp add: written_def)
      next
        case False
        then have "p = ?p" using p(1) by simp
        moreover have "own q = own r" unfolding r(3) p(2) calculation user ..
        then have "q = r" by (rule own_inj [OF own q r(1)])
        ultimately show ?thesis using prof(2) by simp
      qed
    qed
  qed
  ultimately show ?thesis by blast
qed


lemma num_with_fields [simp]: "num n (with_fields p q) = num n p"
  by (simp add: num_def with_fields_def)

lemma owner:
  assumes "owns_ok s S own" and "r \<in> set S" and "own r = Some (sp_user p)" and "good g sec s S own p"
  shows "row_profile g sec own r p"
proof -
  have "\<not> others S own p" using assms(2,3) by (auto simp: others_def)
  then obtain t where t: "t \<in> set S" "row_profile g sec own t p" using assms(4) by (auto simp: good_def)
  then have "t = r" using own_inj [OF assms(1) _ assms(2)] assms(3) by (simp add: row_profile_def)
  with t show ?thesis by simp
qed

lemma upsert_written:
  assumes num: "numbers_ok c s" and plan: "plan_rows c g sec cols s cand S" and fold: "fold_matches c" and sec: "section_at g sec s"
    and own: "owns_ok s S own" and W: "written g sec s S own [] (r # upds) (student_profiles t)"
    and r: "r \<in> set S" "own r = Some i"
  shows "\<exists>T. upsert_profile c (student_profile g sec i (\<lambda>n. final n (Some StudentProfiles) r)) t = (Inr (), t\<lparr>student_profiles := T\<rparr>)
     \<and> written g sec s S own [] upds T"
proof -
  let ?p = "student_profile g sec i (\<lambda>n. final n (Some StudentProfiles) r)" and ?T = "student_profiles t"
  have fits: "row_fits c g sec cols s r" using plan r(1) by (simp add: plan_rows_def)
  note prof = final_profile [where t = "Some StudentProfiles" and own = own and r = r, OF num fits r(2)]
  have users: "distinct (map sp_user ?T)" and goods: "\<forall>p \<in> set ?T. good g sec s S own p" using W by (simp_all add: written_def)
  obtain q where q: "q \<in> set ?T" "sp_user q = i" using W r by (auto simp: written_def)
  have one: "one_where (\<lambda>x. sp_user x = sp_user ?p) ?T = Some q"
  proof (cases "one_where (\<lambda>x. sp_user x = sp_user ?p) ?T")
    case None
    then show ?thesis using q by (auto simp: one_where_None student_profile_def)
  next
    case (Some x)
    then have "x \<in> set ?T" "sp_user x = i" by (auto dest!: one_where_Some simp: student_profile_def)
    with unique_key [OF users] q Some show ?thesis by metis
  qed
  define w where "w = with_fields ?p q"
  define U where "U = update_where (\<lambda>x. sp_user x = sp_user q) (\<lambda>_. w) ?T"
  have "row_profile g sec own r q" by (rule owner [OF own r(1)]) (use q r goods in simp_all)
  then have rw: "row_profile g sec own r w" using prof(1) q(2) r(2) by (simp add: row_profile_def w_def) (simp add: with_fields_def)
  have wu: "sp_user w = i" using q by (simp add: with_fields_def w_def)
  have good: "good g sec s S own w" using rw r(1) by (auto simp: good_def)
  have "\<not> clash c w x" if "x \<in> set ?T" "sp_user x \<noteq> sp_user q" for x
    by (rule good_no_clash [OF num plan fold sec own good]) (use that goods wu q in auto)
  then have "number_conflict c (filter (\<lambda>x. sp_user x \<noteq> sp_user q) ?T) w = None" by (simp add: number_conflict_clash)
  then have "upsert_profile c ?p t = (Inr (), t\<lparr>student_profiles := U\<rparr>)"
    unfolding upsert_profile_def taken_row_def one option.case U_def w_def by simp
  moreover have "written g sec s S own [] upds U"
    unfolding written_def
  proof (intro conjI)
    have same: "map sp_user U = map sp_user ?T" using wu q by (auto simp: update_where_def U_def)
    then show "distinct (map sp_user U)" using users by simp
    have inU: "x \<in> set U \<longleftrightarrow> x = w \<or> (x \<in> set ?T \<and> sp_user x \<noteq> i)" for x
      using q unfolding U_def set_update_where by auto
    show "\<forall>p \<in> set U. good g sec s S own p" using goods good by (auto simp: inU)
    show "\<forall>p \<in> set (student_profiles s). others S own p \<longrightarrow> p \<in> set U"
      using W r by (auto simp: inU written_def others_def)
    have "sp_user ` set U = sp_user ` set ?T" using same by (metis set_map)
    then show "\<forall>q \<in> set S. q \<notin> set [] \<longrightarrow> (\<exists>p \<in> set U. own q = Some (sp_user p))"
      using W unfolding written_def by (metis imageE image_eqI)
    show "\<forall>q \<in> set S. \<forall>p \<in> set U. own q = Some (sp_user p) \<longrightarrow> q \<in> set upds \<or> (\<forall>n \<in> set NUMBERS. num n p = None \<longrightarrow> final_key n q = None)"
    proof (intro ballI impI)
      fix q' p assume q': "q' \<in> set S" and p: "p \<in> set U" "own q' = Some (sp_user p)"
      show "q' \<in> set upds \<or> (\<forall>n \<in> set NUMBERS. num n p = None \<longrightarrow> final_key n q' = None)"
      proof (cases "p = w")
        case True
        then have "q' = r" using own_inj [OF own q' r(1)] r(2) p(2) wu by simp
        then show ?thesis using True prof(2) by (simp add: w_def)
      next
        case False
        then have "p \<in> set ?T" "sp_user p \<noteq> i" using p(1) inU by blast+
        moreover from this have "q' \<noteq> r" using p(2) r(2) by auto
        ultimately show ?thesis using W q' p(2) by (auto simp: written_def)
      qed
    qed
  qed simp
  ultimately show ?thesis by blast
qed

subsection \<open>Freeing the numbers that move\<close>

definition freed :: "row_plan list \<Rightarrow> student_profile_row \<Rightarrow> student_profile_row" where
  "freed updates p = (let moving = (\<lambda>n. sp_user p \<in> set (map (\<lambda>r. the (rp_user r)) (filter (\<lambda>r. n \<in> set (rp_changes r)) updates))) in
     p\<lparr>sp_admission := (if moving ''admission_no'' then None else sp_admission p), sp_roll := (if moving ''roll_no'' then None else sp_roll p)\<rparr>)"

lemma free_moving: "free_moving_numbers updates s = s\<lparr>student_profiles := map (freed updates) (student_profiles s)\<rparr>"
  by (simp add: free_moving_numbers_def freed_def Let_def update_where_def comp_def)

lemma freed_fields [simp]: "sp_user (freed updates p) = sp_user p" "sp_org (freed updates p) = sp_org p" "sp_section (freed updates p) = sp_section p"
  by (simp_all add: freed_def Let_def)

lemma moving_iff:
  "i \<in> set (map (\<lambda>r. the (rp_user r)) (filter (\<lambda>r. n \<in> set (rp_changes r)) us)) \<longleftrightarrow> (\<exists>r \<in> set us. n \<in> set (rp_changes r) \<and> the (rp_user r) = i)"
  by auto

lemma num_freed:
  "n \<in> set NUMBERS \<Longrightarrow> num n (freed updates p) = (if \<exists>r \<in> set updates. n \<in> set (rp_changes r) \<and> the (rp_user r) = sp_user p then None else num n p)"
proof -
  assume "n \<in> set NUMBERS"
  then consider "n = ''admission_no''" | "n = ''roll_no''" by (auto simp: NUMBERS_def)
  then show ?thesis unfolding freed_def Let_def moving_iff num_def by cases auto
qed

lemma profile_user: "numbers_ok c s \<Longrightarrow> p \<in> set (student_profiles s) \<Longrightarrow> sp_user p \<in> u_id ` set (users s)"
proof -
  assume "numbers_ok c s" "p \<in> set (student_profiles s)"
  then have "profile_ok s p" by (simp add: numbers_ok_def)
  then obtain u where "u \<in> set (users s)" "sp_user p = u_id u" unfolding profile_ok_def by metis
  then show ?thesis by simp
qed

lemma freed_same:
  assumes "\<forall>r \<in> set updates. the (rp_user r) \<noteq> sp_user p"
  shows "freed updates p = p"
proof -
  have "sp_user p \<notin> set (map (\<lambda>r. the (rp_user r)) (filter (\<lambda>r. n \<in> set (rp_changes r)) updates))" for n using assms by auto
  then show ?thesis unfolding freed_def Let_def by simp
qed

lemma profile_row:
  assumes num: "numbers_ok c s" and plan: "plan_rows c g sec cols s cand S" and own: "owns_ok s S own"
    and r: "r \<in> set S" and p: "p \<in> set (student_profiles s)" and eq: "own r = Some (sp_user p)"
  obtains e where "rp_existing r = Some e" "ex_sp e = Some p" "rp_user r = Some (sp_user p)" "sp_org p = g" "sp_section p = Some (is_section sec)"
proof -
  have fits: "row_fits c g sec cols s r" using plan r by (simp add: plan_rows_def)
  have case_own: "case rp_existing r of None \<Rightarrow> (\<exists>i. own r = Some i \<and> i \<notin> u_id ` set (users s)) | Some _ \<Rightarrow> own r = rp_user r"
    using own r unfolding owns_ok_def by blast
  obtain e where e: "rp_existing r = Some e" "own r = rp_user r" using case_own eq profile_user [OF num p] by (cases "rp_existing r") auto
  obtain u :: user_row and q where q: "ex_sp e = Some q" "q \<in> set (student_profiles s)" "sp_user q = u_id u" "rp_user r = Some (u_id u)"
      "sp_org q = g" "sp_section q = Some (is_section sec)" using row_student [OF num fits e(1)] by metis
  have "q = p" by (rule unique_key [of sp_user "student_profiles s"]) (use num q p e eq in \<open>simp_all add: numbers_ok_def\<close>)
  with q e(1) that show thesis by simp
qed

lemma row_of_user:
  assumes num: "numbers_ok c s" and plan: "plan_rows c g sec cols s cand S" and "t \<in> set S" "rp_action t = AUpdate" "the (rp_user t) = i"
  shows "rp_user t = Some i"
proof -
  have "row_fits c g sec cols s t" using plan assms(3) by (simp add: plan_rows_def)
  then have "rp_user t \<noteq> None" using assms(4) by (auto simp: row_fits_def matched_def split: option.splits)
  with assms(5) show ?thesis by auto
qed

lemma moved_number:
  assumes num: "numbers_ok c s" and plan: "plan_rows c g sec cols s cand S" and own: "owns_ok s S own" and n: "n \<in> set NUMBERS"
    and r: "r \<in> set S" and p: "p \<in> set (student_profiles s)" and eq: "own r = Some (sp_user p)"
  shows "num n (freed (filter (\<lambda>r. rp_action r = AUpdate) S) p) = (if n \<in> set (rp_changes r) then None else num n p)"
proof -
  let ?U = "filter (\<lambda>r. rp_action r = AUpdate) S"
  obtain e where e: "rp_existing r = Some e" "rp_user r = Some (sp_user p)" using profile_row [OF num plan own r p eq] by metis
  have "(\<exists>t \<in> set ?U. n \<in> set (rp_changes t) \<and> the (rp_user t) = sp_user p) \<longleftrightarrow> n \<in> set (rp_changes r)"
  proof
    assume "\<exists>t \<in> set ?U. n \<in> set (rp_changes t) \<and> the (rp_user t) = sp_user p"
    then obtain t where t: "t \<in> set S" "rp_action t = AUpdate" "n \<in> set (rp_changes t)" "the (rp_user t) = sp_user p" by auto
    have "t = r" by (rule rows_same_user [OF num plan t(1) r row_of_user [OF num plan t(1,2,4)] e(2)])
    with t(3) show "n \<in> set (rp_changes r)" by simp
  next
    assume ch: "n \<in> set (rp_changes r)"
    have "row_fits c g sec cols s r" using plan r by (simp add: plan_rows_def)
    then have "rp_action r = AUpdate" using ch e(1) by (auto simp: row_fits_def matched_def split: if_splits)
    with r ch e(2) show "\<exists>t \<in> set ?U. n \<in> set (rp_changes t) \<and> the (rp_user t) = sp_user p" by (auto intro!: bexI [of _ r])
  qed
  then show ?thesis unfolding num_freed [OF n] by simp
qed

lemma unchanged_final:
  assumes fits: "row_fits c g sec cols s r" and n: "n \<in> set NUMBERS" and e: "rp_existing r = Some e" "ex_sp e = Some p"
    and "n \<notin> set (rp_changes r)" and "num n p = None"
  shows "final_key n r = None"
proof -
  have "rp_values r n = None" using unchanged_number [OF fits n e assms(5)] assms(6) by (cases "rp_values r n") auto
  then have "final n None r = None" using e assms(6) by (simp add: final_def existing_name_number [OF n] existing_number [OF n])
  then show ?thesis by (simp add: final_key_def given_def)
qed

lemma touches_number: "touches_profile Student r \<longleftrightarrow> (\<exists>n \<in> set (profile_fields Student). n \<in> set (rp_changes r))"
  by (auto simp: touches_profile_def list_ex_iff)

lemma numbers_are_fields: "n \<in> set NUMBERS \<Longrightarrow> n \<in> set (profile_fields Student)"
  by (auto simp: NUMBERS_def profile_fields_def STUDENT_FIELDS_def profile_column_def)

lemma row_kind: "row_fits c g sec cols s r \<Longrightarrow> rp_existing r = None \<longleftrightarrow> rp_action r = ACreate"
  by (cases "rp_existing r") (auto simp: row_fits_def matched_def)

lemma start_written:
  assumes num: "numbers_ok c s" and plan: "plan_rows c g sec cols s cand S" and own: "owns_ok s S own"
  defines "updates \<equiv> filter (\<lambda>r. rp_action r = AUpdate) S"
  shows "written g sec s S own (filter (\<lambda>r. rp_action r = ACreate) S) (filter (touches_profile Student) updates)
    (map (freed updates) (student_profiles s))"
proof -
  let ?T = "map (freed updates) (student_profiles s)"
  have fits: "row_fits c g sec cols s r" if "r \<in> set S" for r using plan that by (simp add: plan_rows_def)
  have own_case: "case rp_existing r of None \<Rightarrow> (\<exists>i. own r = Some i \<and> i \<notin> u_id ` set (users s)) | Some _ \<Rightarrow> own r = rp_user r"
    if "r \<in> set S" for r using own that unfolding owns_ok_def by blast
  have fresh: "own r \<noteq> Some (sp_user p)" if r: "r \<in> set S" "rp_action r = ACreate" and p: "p \<in> set (student_profiles s)" for r p
  proof -
    have none: "rp_existing r = None" using row_kind [OF fits [OF r(1)]] r(2) by simp
    then obtain i where "own r = Some i" "i \<notin> u_id ` set (users s)" using own_case [OF r(1)] unfolding none option.case by blast
    with profile_user [OF num p] show ?thesis by (metis option.inject)
  qed
  have same: "freed updates p = p" if p: "p \<in> set (student_profiles s)" and o: "others S own p" for p
  proof (rule freed_same, intro ballI notI)
    fix t assume "t \<in> set updates" and eq: "the (rp_user t) = sp_user p"
    then have t: "t \<in> set S" "rp_action t = AUpdate" by (simp_all add: updates_def)
    have "rp_existing t \<noteq> None" using row_kind [OF fits [OF t(1)]] t(2) by simp
    then have "own t = rp_user t" using own_case [OF t(1)] by auto
    with row_of_user [OF num plan t eq] o t(1) show False by (simp add: others_def)
  qed
  show ?thesis
    unfolding written_def
  proof (intro conjI)
    have "map sp_user ?T = map sp_user (student_profiles s)" by simp
    then show "distinct (map sp_user ?T)" using num unfolding numbers_ok_def by metis
    show "\<forall>p \<in> set ?T. good g sec s S own p"
    proof
      fix x assume "x \<in> set ?T"
      then obtain p where p: "p \<in> set (student_profiles s)" "x = freed updates p" by auto
      show "good g sec s S own x"
      proof (cases "others S own p")
        case True then show ?thesis using same p by (simp add: good_def)
      next
        case False
        then obtain r where r: "r \<in> set S" "own r = Some (sp_user p)" by (auto simp: others_def)
        obtain e where e: "rp_existing r = Some e" "ex_sp e = Some p" "sp_org p = g" "sp_section p = Some (is_section sec)"
          using profile_row [OF num plan own r(1) p(1) r(2)] by metis
        have "row_profile g sec own r x"
          unfolding row_profile_def p(2)
          using r e moved_number [OF num plan own _ r(1) p(1) r(2), folded updates_def] by (auto simp: allowed_def split: if_splits)
        then show ?thesis using r(1) by (auto simp: good_def)
      qed
    qed
    show "\<forall>p \<in> set (student_profiles s). others S own p \<longrightarrow> p \<in> set ?T"
      using same by (metis image_eqI set_map)
    show "\<forall>r \<in> set S. r \<notin> set (filter (\<lambda>r. rp_action r = ACreate) S) \<longrightarrow> (\<exists>p \<in> set ?T. own r = Some (sp_user p))"
    proof (intro ballI impI)
      fix r assume r: "r \<in> set S" "r \<notin> set (filter (\<lambda>r. rp_action r = ACreate) S)"
      then obtain e where e: "rp_existing r = Some e" using fits [OF r(1)] by (cases "rp_existing r") (auto simp: row_fits_def)
      obtain u :: user_row and p where "p \<in> set (student_profiles s)" "sp_user p = u_id u" "rp_user r = Some (u_id u)"
        using row_student [OF num fits [OF r(1)] e] by metis
      with own_case [OF r(1)] e show "\<exists>p \<in> set ?T. own r = Some (sp_user p)" by (auto intro!: bexI [of _ p])
    qed
    show "\<forall>r \<in> set (filter (\<lambda>r. rp_action r = ACreate) S). \<forall>p \<in> set ?T. own r \<noteq> Some (sp_user p)"
      using fresh by auto
    show "\<forall>r \<in> set S. \<forall>p \<in> set ?T. own r = Some (sp_user p) \<longrightarrow> r \<in> set (filter (touches_profile Student) updates)
        \<or> (\<forall>n \<in> set NUMBERS. num n p = None \<longrightarrow> final_key n r = None)"
    proof (intro ballI impI)
      fix r x assume r: "r \<in> set S" and "x \<in> set ?T" and eq: "own r = Some (sp_user x)"
      then obtain p where p: "p \<in> set (student_profiles s)" "x = freed updates p" by auto
      have eqp: "own r = Some (sp_user p)" using eq p(2) by simp
      obtain e where e: "rp_existing r = Some e" "ex_sp e = Some p" using profile_row [OF num plan own r p(1) eqp] by metis
      note moved = moved_number [OF num plan own _ r p(1) eqp, folded updates_def]
      show "r \<in> set (filter (touches_profile Student) updates) \<or> (\<forall>n \<in> set NUMBERS. num n x = None \<longrightarrow> final_key n r = None)"
      proof (cases "rp_changes r = [] \<or> \<not> touches_profile Student r")
        case True
        then have "n \<notin> set (rp_changes r)" if "n \<in> set NUMBERS" for n
          using that numbers_are_fields touches_number by auto
        then show ?thesis using moved unchanged_final [OF fits [OF r] _ e] p(2) by auto
      next
        case False
        then have "rp_action r = AUpdate" using fits [OF r] e(1) by (auto simp: row_fits_def matched_def split: if_splits)
        then show ?thesis using False r by (simp add: updates_def)
      qed
    qed
  qed
qed

end
