(* ===== verification/Import_Saved.thy ===== *)
theory Import_Saved
  imports Import_Writes
begin

text \<open>
  Saving the whole plan of a student import: the new accounts get their own ids, every statement succeeds
  against the keys, and afterwards the keys hold and every saved row has its numbers.
\<close>

subsection \<open>New accounts\<close>

lemma all_ok_Inr: "all_ok rs = Inr xs \<longleftrightarrow> rs = map Inr xs"
proof (induction rs arbitrary: xs)
  case (Cons r rs)
  then show ?case by (cases r; cases xs) auto
qed auto

lemma all_ok_Inl: "all_ok rs = Inl e \<Longrightarrow> Inl e \<in> set rs"
  by (induction rs) (auto simp: bindR_eq_Inl)

fun numbered_users :: "int \<Rightarrow> user_row list \<Rightarrow> user_row list" where
  "numbered_users i [] = []"
| "numbered_users i (u # us) = u\<lparr>u_id := i\<rparr> # numbered_users (i + 1) us"

definition same_login :: "ctx \<Rightarrow> user_row \<Rightarrow> user_row \<Rightarrow> bool" where
  "same_login c u v \<longleftrightarrow> u_org u = u_org v \<and> sql_eq c (u_username u) (u_username v)"

lemma insert_user_ok:
  assumes "accounts_ok c s" and "\<forall>v \<in> set (users s). \<not> same_login c v u" and "u_type u \<noteq> Principal"
  shows "insert_user c u s = (Inr (), s\<lparr>users := users s @ [u\<lparr>u_id := next_user s\<rparr>], next_user := next_user s + 1\<rparr>)"
    and "accounts_ok c (s\<lparr>users := users s @ [u\<lparr>u_id := next_user s\<rparr>], next_user := next_user s + 1\<rparr>)"
proof -
  have "user_conflict c (users s) u = None" using assms(2,3) by (simp add: user_conflict_def list_ex_iff same_login_def)
  then show "insert_user c u s = (Inr (), s\<lparr>users := users s @ [u\<lparr>u_id := next_user s\<rparr>], next_user := next_user s + 1\<rparr>)"
    by (simp add: insert_user_def)
  have "\<forall>v \<in> set (users s). \<not> (u_org u = u_org v \<and> sql_eq c (u_username u) (u_username v))"
    using assms(2) sql_eq_sym [of c] by (auto simp: same_login_def)
  with assms(1,2) show "accounts_ok c (s\<lparr>users := users s @ [u\<lparr>u_id := next_user s\<rparr>], next_user := next_user s + 1\<rparr>)"
    by (fastforce simp: accounts_ok_def same_login_def)
qed

lemma insert_users_ok:
  assumes "accounts_ok c s" and "\<forall>u \<in> set us. u_type u \<noteq> Principal \<and> (\<forall>v \<in> set (users s). \<not> same_login c v u)"
    and "sorted_wrt (\<lambda>u v. \<not> same_login c u v) us"
  shows "\<exists>n. execute_many (insert_user c) us s = (Inr (), s\<lparr>users := users s @ numbered_users (next_user s) us, next_user := n\<rparr>)
    \<and> accounts_ok c (s\<lparr>users := users s @ numbered_users (next_user s) us, next_user := n\<rparr>)"
  using assms
proof (induction us arbitrary: s)
  case Nil
  then show ?case by (intro exI [of _ "next_user s"]) simp
next
  case (Cons u us)
  let ?s = "s\<lparr>users := users s @ [u\<lparr>u_id := next_user s\<rparr>], next_user := next_user s + 1\<rparr>"
  have one: "insert_user c u s = (Inr (), ?s)" "accounts_ok c ?s"
    using insert_user_ok [OF Cons.prems(1)] Cons.prems(2) by simp_all
  have "\<forall>w \<in> set us. u_type w \<noteq> Principal \<and> (\<forall>v \<in> set (users ?s). \<not> same_login c v w)"
    using Cons.prems(2,3) by (auto simp: same_login_def)
  from Cons.IH [OF one(2) this] Cons.prems(3) obtain n where
    "execute_many (insert_user c) us ?s = (Inr (), ?s\<lparr>users := users ?s @ numbered_users (next_user ?s) us, next_user := n\<rparr>)"
    "accounts_ok c (?s\<lparr>users := users ?s @ numbered_users (next_user ?s) us, next_user := n\<rparr>)" by auto
  with one(1) show ?case by (intro exI [of _ n]) simp
qed

lemma numbered_ids: "u \<in> set (numbered_users i us) \<Longrightarrow> i \<le> u_id u"
  by (induction us arbitrary: i) fastforce+

lemma numbered_row: "v \<in> set us \<Longrightarrow> \<exists>u \<in> set (numbered_users i us). u_org u = u_org v \<and> u_username u = u_username v"
  by (induction us arbitrary: i) fastforce+

lemma new_user_fields:
  "new_user g t hashes stored r = Inr u \<Longrightarrow> u_org u = g \<and> u_username u = rp_username r \<and> u_type u = t"
  by (auto simp: new_user_def split: option.splits)

lemma photo_path_Inl: "photo_path stored r = Inl e \<Longrightarrow> e = KeyError"
  by (auto simp: photo_path_def split: if_splits option.splits)

lemma new_user_Inl: "new_user g t hashes stored r = Inl e \<Longrightarrow> e = KeyError"
  by (auto simp: new_user_def bindR_eq_Inl required_text_def photo_path_Inl split: option.splits)

lemma accounts_unique:
  assumes "accounts_ok c s" and "u \<in> set (users s)" "v \<in> set (users s)" "u_org u = u_org v" "sql_eq c (u_username u) (u_username v)"
  shows "u = v"
  using assms by (simp add: accounts_ok_def)

lemma accounts_okI:
  assumes "distinct (map u_id (users s))" and "\<forall>u \<in> set (users s). u_id u < next_user s"
    and "\<And>u v. u \<in> set (users s) \<Longrightarrow> v \<in> set (users s) \<Longrightarrow> u_org u = u_org v \<and> sql_eq c (u_username u) (u_username v) \<Longrightarrow> u = v"
  shows "accounts_ok c s"
  unfolding accounts_ok_def using assms by blast

lemma ids_of_user:
  assumes "accounts_ok c s" and "fold_matches c" and u: "u \<in> set (users s)" "u_org u = g" "u_username u = n" and n: "n \<in> set names"
    and uniq: "\<forall>m \<in> set names. fold_text m = fold_text n \<longrightarrow> m = n"
  shows "ids_by_username c g names s (fold_text n) = Some (u_id u)"
proof -
  let ?l = "users_named c g (chunks CHUNK names) s"
  have names: "set (concat (chunks CHUNK names)) = set names" by (subst concat_chunks) (simp_all add: CHUNK_def)
  have in_l: "v \<in> set ?l \<longleftrightarrow> v \<in> set (users s) \<and> u_org v = g \<and> (\<exists>m \<in> set names. sql_eq c (u_username v) m)" for v
    unfolding users_named_iff names by simp
  have "u \<in> set ?l" unfolding in_l using u n by (intro conjI bexI [of _ n]) simp_all
  then have "(fold_text n, u_id u) \<in> set (rev (map (\<lambda>u. (fold_text (u_username u), u_id u)) ?l))"
    using u(3) by (auto intro!: image_eqI [of _ _ u])
  then obtain i where i: "ids_by_username c g names s (fold_text n) = Some i"
    using weak_map_of_SomeI unfolding ids_by_username_def by fast
  then have "(fold_text n, i) \<in> set (map (\<lambda>u. (fold_text (u_username u), u_id u)) ?l)"
    by (auto simp: ids_by_username_def dest!: map_of_SomeD)
  then obtain v where v: "v \<in> set ?l" "fold_text (u_username v) = fold_text n" "u_id v = i" by auto
  then obtain m where m: "m \<in> set names" "sql_eq c (u_username v) m" "v \<in> set (users s)" "u_org v = g" by (auto simp: in_l)
  then have "fold_text m = fold_text n" using assms(2) v(2) by (metis fold_matches_def)
  then have "sql_eq c (u_username v) (u_username u)" using uniq m u(3) by auto
  then have "v = u" using accounts_unique [OF assms(1) m(3) u(1)] m(4) u(2) by simp
  with i v show ?thesis by simp
qed

text \<open>The users a plan leaves: same ids, schools and usernames.\<close>

definition users_kept :: "db \<Rightarrow> db \<Rightarrow> bool" where
  "users_kept s s' \<longleftrightarrow> (\<forall>u \<in> set (users s). \<exists>v \<in> set (users s'). u_id v = u_id u \<and> u_org v = u_org u \<and> u_username v = u_username u)"

lemma users_kept_trans: "users_kept s s' \<Longrightarrow> users_kept s' s'' \<Longrightarrow> users_kept s s''"
  unfolding users_kept_def by metis

lemma changed_user_keeps [simp]:
  "u_id (changed_user r path u) = u_id u" "u_org (changed_user r path u) = u_org u" "u_username (changed_user r path u) = u_username u"
  by (simp_all add: changed_user_def Let_def)

lemma accounts_map:
  assumes "accounts_ok c s" and "\<And>u. u_id (f u) = u_id u \<and> u_org (f u) = u_org u \<and> u_username (f u) = u_username u"
    and "users s' = map f (users s)" and "next_user s' = next_user s"
  shows "accounts_ok c s' \<and> users_kept s s'"
proof -
  have ids: "map u_id (users s') = map u_id (users s)" unfolding assms(3) using assms(2) by simp
  have in_s': "v \<in> set (users s') \<longleftrightarrow> (\<exists>u \<in> set (users s). v = f u)" for v unfolding assms(3) by auto
  have "distinct (map u_id (users s'))" using assms(1) unfolding ids accounts_ok_def by blast
  moreover have "\<forall>u \<in> set (users s'). u_id u < next_user s'" using assms(1,2,4) by (auto simp: in_s' accounts_ok_def)
  moreover have "v = w" if "v \<in> set (users s')" "w \<in> set (users s')" "u_org v = u_org w \<and> sql_eq c (u_username v) (u_username w)" for v w
  proof -
    from that(1,2) obtain x y where "x \<in> set (users s)" "v = f x" "y \<in> set (users s)" "w = f y" unfolding in_s' by blast
    moreover from this have "x = y" using accounts_unique [OF assms(1), of x y] assms(2) [of x] assms(2) [of y] that(3) by simp
    ultimately show ?thesis by simp
  qed
  ultimately have "accounts_ok c s'" by (rule accounts_okI)
  moreover have "users_kept s s'"
    unfolding users_kept_def
  proof
    fix u assume "u \<in> set (users s)"
    then show "\<exists>v \<in> set (users s'). u_id v = u_id u \<and> u_org v = u_org u \<and> u_username v = u_username u"
      using assms(2) [of u] in_s' by (intro bexI [of _ "f u"]) blast+
  qed
  ultimately show ?thesis by blast
qed

lemma update_users_result:
  assumes "update_users stored rows s = (res, s')" and "accounts_ok c s"
  shows "(\<exists>e. res = Inl e \<and> e = KeyError) \<or> (res = Inr () \<and> accounts_ok c s' \<and> users_kept s s' \<and> student_profiles s' = student_profiles s
     \<and> sections s' = sections s \<and> bound_org s' = bound_org s)"
proof (cases "all_ok (map (\<lambda>r. bindR (photo_path stored r) (\<lambda>path. Inr (the (rp_user r), changed_user r path))) rows)")
  case (Inl e)
  from all_ok_Inl [OF this] obtain r where r: "Inl e = bindR (photo_path stored r) (\<lambda>path. Inr (the (rp_user r), changed_user r path))"
    by (auto simp only: set_map image_iff)
  have "photo_path stored r = Inl e" using r [symmetric] by (simp add: bindR_eq_Inl)
  then have "e = KeyError" by (rule photo_path_Inl)
  moreover have "update_users stored rows s = (Inl e, s)" unfolding update_users_def bindH_def query_def Inl by simp
  ultimately show ?thesis using assms(1) by simp
next
  case (Inr ch)
  let ?f = "\<lambda>u. case map_of (rev ch) (u_id u) of None \<Rightarrow> u | Some f \<Rightarrow> f u"
  have s': "res = Inr ()" "s' = s\<lparr>users := map ?f (users s)\<rparr>" using assms(1) unfolding update_users_def bindH_def query_def writes_def Inr by simp_all
  have "\<exists>r path. f = changed_user r path" if "(i, f) \<in> set ch" for i f
  proof -
    from Inr have "map Inr ch = map (\<lambda>r. bindR (photo_path stored r) (\<lambda>path. Inr (the (rp_user r), changed_user r path))) rows"
      by (simp add: all_ok_Inr)
    moreover have "Inr (i, f) \<in> set (map Inr ch :: (app_error + int \<times> (user_row \<Rightarrow> user_row)) list)" using that by simp
    ultimately obtain r where "Inr (i, f) = bindR (photo_path stored r) (\<lambda>path. Inr (the (rp_user r), changed_user r path))"
      by (auto simp only: set_map image_iff)
    from this [symmetric] show ?thesis by auto
  qed
  then have "\<exists>r path. f = changed_user r path" if "map_of (rev ch) i = Some f" for i f
    using map_of_SomeD [OF that] by simp
  then have keep: "u_id (?f u) = u_id u \<and> u_org (?f u) = u_org u \<and> u_username (?f u) = u_username u" for u
    by (cases "map_of (rev ch) (u_id u)") (simp, metis changed_user_keeps option.simps(5))
  from accounts_map [OF assms(2) keep, of s'] s' show ?thesis by simp
qed


text \<open>
  Applying the plan of a student import as a whole: the accounts that are created, the profiles that are
  inserted and updated, and the keys that hold when all statements have run.
\<close>

subsection \<open>The ids of the rows\<close>

lemma sorted_wrt_distinct: "distinct xs \<Longrightarrow> (\<And>x y. x \<in> set xs \<Longrightarrow> y \<in> set xs \<Longrightarrow> x \<noteq> y \<Longrightarrow> P x y) \<Longrightarrow> sorted_wrt P xs"
  by (induction xs) auto

definition own_id :: "ctx \<Rightarrow> int \<Rightarrow> string list \<Rightarrow> db \<Rightarrow> row_plan \<Rightarrow> int option" where
  "own_id c g names s r = (if rp_existing r = None then ids_by_username c g names s (fold_text (rp_username r)) else rp_user r)"

definition has_account :: "int \<Rightarrow> db \<Rightarrow> (row_plan \<Rightarrow> int option) \<Rightarrow> row_plan \<Rightarrow> bool" where
  "has_account g s own r \<longleftrightarrow> (\<exists>u \<in> set (users s). own r = Some (u_id u) \<and> u_org u = g \<and> fold_text (u_username u) = fold_text (rp_username r))"

lemma has_account_kept: "users_kept s s' \<Longrightarrow> has_account g s own r \<Longrightarrow> has_account g s' own r"
  unfolding has_account_def users_kept_def by metis

lemma with_ids_ok:
  assumes "\<forall>r \<in> set rows. ids (fold_text (rp_username r)) \<noteq> None"
  shows "all_ok (map (with_id ids) rows) = Inr (map (\<lambda>r. r\<lparr>rp_user := ids (fold_text (rp_username r))\<rparr>) rows)"
  using assms by (induction rows) (auto simp: with_id_def)

lemma new_accounts:
  assumes num: "numbers_ok c s" and plan: "plan_rows c g sec cols s cand S" and fold: "fold_matches c" and dist: "distinct S"
    and t: "users t = users s" "next_user t = next_user s"
  defines "creates \<equiv> filter (\<lambda>r. rp_action r = ACreate) S"
  assumes us: "all_ok (map (new_user g Student hashes stored) creates) = Inr us"
  obtains t' where "execute_many (insert_user c) us t = (Inr (), t')" "accounts_ok c t'" "users_kept t t'"
    "student_profiles t' = student_profiles t" "sections t' = sections t" "bound_org t' = bound_org t"
    "\<And>r. r \<in> set creates \<Longrightarrow> \<exists>u \<in> set (users t'). u_org u = g \<and> u_username u = rp_username r \<and> next_user s \<le> u_id u"
proof -
  define N where "N r = projr (new_user g Student hashes stored r)" for r
  have all: "map Inr us = map (new_user g Student hashes stored) creates" using us by (simp add: all_ok_Inr)
  have N: "new_user g Student hashes stored r = Inr (N r)" if "r \<in> set creates" for r
  proof -
    have "new_user g Student hashes stored r \<in> set (map Inr us)" unfolding all using that by simp
    then show ?thesis by (auto simp: N_def)
  qed
  have us': "us = map N creates"
    using arg_cong [OF all, of "map projr"] by (simp add: N_def comp_def)
  have fields: "u_org (N r) = g \<and> u_username (N r) = rp_username r \<and> u_type (N r) = Student" if "r \<in> set creates" for r
    using new_user_fields [OF N [OF that]] .
  have fits: "row_fits c g sec cols s r" if "r \<in> set S" for r using plan that by (simp add: plan_rows_def)
  have fresh: "\<not> same_login c v (N r)" if "r \<in> set creates" "v \<in> set (users s)" for v r
  proof -
    have r: "r \<in> set S" "rp_action r = ACreate" using that(1) by (simp_all add: creates_def)
    have "rp_existing r = None" using row_kind [OF fits [OF r(1)]] r(2) by simp
    then show ?thesis using fits [OF r(1)] that(2) fields [OF that(1)] by (auto simp: row_fits_def same_login_def)
  qed
  have diff: "\<not> same_login c (N r) (N q)" if "r \<in> set creates" "q \<in> set creates" "r \<noteq> q" for r q
  proof
    assume "same_login c (N r) (N q)"
    then have "fold_text (rp_username r) = fold_text (rp_username q)" using fields that fold by (simp add: same_login_def fold_matches_def)
    then show False using plan that by (auto simp: plan_rows_def creates_def)
  qed
  have "distinct creates" using dist by (simp add: creates_def)
  then have sorted: "sorted_wrt (\<lambda>u v. \<not> same_login c u v) us"
    unfolding us' sorted_wrt_map by (rule sorted_wrt_distinct) (use diff in auto)
  have acc: "accounts_ok c t" using num t by (simp add: numbers_ok_def accounts_ok_def)
  have new: "\<forall>u \<in> set us. u_type u \<noteq> Principal \<and> (\<forall>v \<in> set (users t). \<not> same_login c v u)"
    using fields fresh by (auto simp: us' t)
  obtain n where n: "execute_many (insert_user c) us t = (Inr (), t\<lparr>users := users t @ numbered_users (next_user t) us, next_user := n\<rparr>)"
    "accounts_ok c (t\<lparr>users := users t @ numbered_users (next_user t) us, next_user := n\<rparr>)" using insert_users_ok [OF acc new sorted] by blast
  define t' where "t' = t\<lparr>users := users t @ numbered_users (next_user t) us, next_user := n\<rparr>"
  have "\<exists>u \<in> set (users t'). u_org u = g \<and> u_username u = rp_username r \<and> next_user s \<le> u_id u" if r: "r \<in> set creates" for r
  proof -
    have "N r \<in> set us" using r by (simp add: us')
    from numbered_row [OF this] obtain u where u: "u \<in> set (numbered_users (next_user t) us)" "u_org u = u_org (N r)" "u_username u = u_username (N r)" by blast
    with numbered_ids [OF u(1)] fields [OF r] t show ?thesis by (auto simp: t'_def)
  qed
  moreover have "users_kept t t'" by (auto simp: users_kept_def t'_def)
  ultimately show thesis using that n unfolding t'_def [symmetric] by (simp add: t'_def)
qed

lemma own_ids:
  assumes num: "numbers_ok c s" and plan: "plan_rows c g sec cols s cand S" and fold: "fold_matches c"
    and acc: "accounts_ok c t" and kept: "users_kept s t"
  defines "creates \<equiv> filter (\<lambda>r. rp_action r = ACreate) S"
  defines "own \<equiv> own_id c g (map rp_username creates) t"
  assumes new: "\<And>r. r \<in> set creates \<Longrightarrow> \<exists>u \<in> set (users t). u_org u = g \<and> u_username u = rp_username r \<and> next_user s \<le> u_id u"
  shows "owns_ok s S own" and "\<And>r. r \<in> set S \<Longrightarrow> has_account g t own r"
    and "\<forall>r \<in> set creates. own r = ids_by_username c g (map rp_username creates) t (fold_text (rp_username r)) \<and> own r \<noteq> None"
proof -
  have fits: "row_fits c g sec cols s r" if "r \<in> set S" for r using plan that by (simp add: plan_rows_def)
  have uniq: "r = q" if "r \<in> set S" "q \<in> set S" "fold_text (rp_username r) = fold_text (rp_username q)" for r q
    using plan that by (simp add: plan_rows_def)
  have created: "\<exists>u \<in> set (users t). own r = Some (u_id u) \<and> u_org u = g \<and> u_username u = rp_username r \<and> u_id u \<notin> u_id ` set (users s)"
    if r: "r \<in> set creates" for r
  proof -
    obtain u where u: "u \<in> set (users t)" "u_org u = g" "u_username u = rp_username r" "next_user s \<le> u_id u" using new [OF r] by blast
    have S: "r \<in> set S" "rp_existing r = None" using r row_kind [OF fits, of r] by (simp_all add: creates_def)
    have "m = rp_username r" if m: "m \<in> set (map rp_username creates)" "fold_text m = fold_text (rp_username r)" for m
    proof -
      obtain q where "q \<in> set S" "m = rp_username q" using m(1) by (auto simp: creates_def)
      with uniq [of q r] S(1) m(2) show ?thesis by simp
    qed
    then have "own r = Some (u_id u)"
      using ids_of_user [OF acc fold u(1,2,3), of "map rp_username creates"] r S(2) unfolding own_def own_id_def by simp
    moreover have "u_id u \<notin> u_id ` set (users s)" using u(4) num by (force simp: numbers_ok_def accounts_ok_def)
    ultimately show ?thesis using u by blast
  qed
  have found: "\<exists>u \<in> set (users s). own r = Some (u_id u) \<and> own r = rp_user r \<and> u_org u = g \<and> fold_text (u_username u) = fold_text (rp_username r)"
    if r: "r \<in> set S" "rp_existing r = Some e" for r e
  proof -
    obtain u :: user_row where "u \<in> set (users s)" "u_org u = g" "fold_text (u_username u) = fold_text (rp_username r)" "rp_user r = Some (u_id u)"
      using row_student [OF num fits [OF r(1)] r(2)] by metis
    moreover have "own r = rp_user r" unfolding own_def own_id_def using r(2) by simp
    ultimately show ?thesis by (intro bexI [of _ u]) simp_all
  qed
  have kind: "r \<in> set creates \<or> (\<exists>e. rp_existing r = Some e)" if "r \<in> set S" for r
    using row_kind [OF fits [OF that]] that by (auto simp: creates_def)
  show "\<forall>r \<in> set creates. own r = ids_by_username c g (map rp_username creates) t (fold_text (rp_username r)) \<and> own r \<noteq> None"
  proof
    fix r assume r: "r \<in> set creates"
    then have "rp_existing r = None" using row_kind [OF fits, of r] by (simp add: creates_def)
    with created [OF r] show "own r = ids_by_username c g (map rp_username creates) t (fold_text (rp_username r)) \<and> own r \<noteq> None"
      by (auto simp: own_def own_id_def)
  qed
  show "has_account g t own r" if r: "r \<in> set S" for r
  proof -
    from kind [OF r] show ?thesis
    proof
      assume "r \<in> set creates"
      from created [OF this] show ?thesis by (auto simp: has_account_def)
    next
      assume "\<exists>e. rp_existing r = Some e"
      with found [OF r] have "has_account g s own r" by (auto simp: has_account_def)
      with kept show ?thesis by (rule has_account_kept)
    qed
  qed
  have one: "r = q" if r: "r \<in> set creates" and q: "q \<in> set S" and eq: "own r = own q" for r q
  proof -
    obtain u where u: "u \<in> set (users t)" "own r = Some (u_id u)" "u_username u = rp_username r" "u_id u \<notin> u_id ` set (users s)" using created [OF r] by blast
    have "q \<in> set creates" using kind [OF q] found [OF q] u(2,4) eq by auto
    then obtain v where v: "v \<in> set (users t)" "own q = Some (u_id v)" "u_username v = rp_username q" using created by blast
    have "u = v" by (rule unique_key [of u_id "users t"]) (use acc u v eq in \<open>simp_all add: accounts_ok_def\<close>)
    with u v uniq [of r q] r q show ?thesis by (simp add: creates_def)
  qed
  have inj: "r = q" if r: "r \<in> set S" and q: "q \<in> set S" and eq: "own r = own q" for r q
  proof (cases "r \<in> set creates \<or> q \<in> set creates")
    case True then show ?thesis using one [of r q] one [of q r] r q eq by metis
  next
    case False
    then obtain e f where "rp_existing r = Some e" "rp_existing q = Some f" using kind r q by blast
    with found [OF r] found [OF q] eq obtain i where "rp_user r = Some i" "rp_user q = Some i" by metis
    then show ?thesis by (rule rows_same_user [OF num plan r q])
  qed
  have "case rp_existing r of None \<Rightarrow> (\<exists>i. own r = Some i \<and> i \<notin> u_id ` set (users s)) | Some _ \<Rightarrow> own r = rp_user r" if r: "r \<in> set S" for r
  proof (cases "rp_existing r")
    case None
    then have "r \<in> set creates" using kind [OF r] by simp
    from created [OF this] show ?thesis unfolding None option.case by blast
  next
    case (Some e) then show ?thesis using found [OF r Some] by auto
  qed
  then show "owns_ok s S own" unfolding owns_ok_def using inj by blast
qed

end
