(* ===== verification/Import_Saving.thy ===== *)
theory Import_Saving
  imports Import_Saved
begin

text \<open>
  The statements of a plan run in order over the profiles, the keys that hold when they have run, and the
  plan the saving transaction returns.
\<close>

subsection \<open>The statements of a plan\<close>

lemma insert_all:
  assumes num: "numbers_ok c s" and plan: "plan_rows c g sec cols s cand S" and fold: "fold_matches c" and sec: "section_at g sec s"
    and own: "owns_ok s S own" and W: "written g sec s S own news upds (student_profiles t)"
    and news: "distinct news" "\<And>r. r \<in> set news \<Longrightarrow> r \<in> set S \<and> rp_existing r = None \<and> own r \<noteq> None"
  shows "\<exists>T. execute_many (\<lambda>r. insert_profile c (student_profile g sec (the (rp_user r)) (rp_values r))) (map (\<lambda>r. r\<lparr>rp_user := own r\<rparr>) news) t
       = (Inr (), t\<lparr>student_profiles := T\<rparr>) \<and> written g sec s S own [] upds T"
  using W news
proof (induction news arbitrary: t)
  case Nil then show ?case by (intro exI [of _ "student_profiles t"]) simp
next
  case (Cons r news)
  obtain i where i: "own r = Some i" using Cons.prems(3) [of r] by auto
  have r: "r \<in> set S" "rp_existing r = None" "set news \<subseteq> set S" using Cons.prems(3) by auto
  obtain T where T: "insert_profile c (student_profile g sec i (rp_values r)) t = (Inr (), t\<lparr>student_profiles := T\<rparr>)"
      "written g sec s S own news upds T"
    using insert_written [OF num plan fold sec own Cons.prems(1,2) r(3,1,2) i] by blast
  have "\<exists>T'. execute_many (\<lambda>r. insert_profile c (student_profile g sec (the (rp_user r)) (rp_values r))) (map (\<lambda>r. r\<lparr>rp_user := own r\<rparr>) news)
       (t\<lparr>student_profiles := T\<rparr>) = (Inr (), (t\<lparr>student_profiles := T\<rparr>)\<lparr>student_profiles := T'\<rparr>) \<and> written g sec s S own [] upds T'"
    by (rule Cons.IH) (use T(2) Cons.prems(2,3) in auto)
  with T(1) i show ?case by auto
qed

lemma upsert_all:
  assumes num: "numbers_ok c s" and plan: "plan_rows c g sec cols s cand S" and fold: "fold_matches c" and sec: "section_at g sec s"
    and own: "owns_ok s S own" and W: "written g sec s S own [] upds (student_profiles t)"
    and upds: "\<And>r. r \<in> set upds \<Longrightarrow> r \<in> set S \<and> own r = rp_user r \<and> rp_user r \<noteq> None"
  shows "\<exists>T. execute_many (\<lambda>r. upsert_profile c (student_profile g sec (the (rp_user r)) (\<lambda>n. final n (Some StudentProfiles) r))) upds t
       = (Inr (), t\<lparr>student_profiles := T\<rparr>) \<and> written g sec s S own [] [] T"
  using W upds
proof (induction upds arbitrary: t)
  case Nil then show ?case by (intro exI [of _ "student_profiles t"]) simp
next
  case (Cons r upds)
  obtain i where i: "rp_user r = Some i" "own r = Some i" "r \<in> set S" using Cons.prems(2) [of r] by auto
  obtain T where T: "upsert_profile c (student_profile g sec i (\<lambda>n. final n (Some StudentProfiles) r)) t = (Inr (), t\<lparr>student_profiles := T\<rparr>)"
      "written g sec s S own [] upds T"
    using upsert_written [OF num plan fold sec own Cons.prems(1) i(3,2)] by blast
  have "\<exists>T'. execute_many (\<lambda>r. upsert_profile c (student_profile g sec (the (rp_user r)) (\<lambda>n. final n (Some StudentProfiles) r))) upds
       (t\<lparr>student_profiles := T\<rparr>) = (Inr (), (t\<lparr>student_profiles := T\<rparr>)\<lparr>student_profiles := T'\<rparr>) \<and> written g sec s S own [] [] T'"
    by (rule Cons.IH) (use T(2) Cons.prems(2) in auto)
  with T(1) i show ?case by auto
qed

subsection \<open>The keys afterwards\<close>

definition row_stored :: "int \<Rightarrow> import_section \<Rightarrow> db \<Rightarrow> (row_plan \<Rightarrow> int option) \<Rightarrow> row_plan \<Rightarrow> bool" where
  "row_stored g sec s own r \<longleftrightarrow> has_account g s own r
     \<and> (\<exists>p \<in> set (student_profiles s). own r = Some (sp_user p) \<and> sp_org p = g \<and> sp_section p = Some (is_section sec)
       \<and> (\<forall>n \<in> set NUMBERS. map_option fold_text (num n p) = final_key n r))"

lemma written_stored:
  assumes num: "numbers_ok c s" and plan: "plan_rows c g sec cols s cand S" and own: "owns_ok s S own"
    and W: "written g sec s S own [] [] (student_profiles s')" and r: "r \<in> set S" and acc: "has_account g s' own r"
  shows "row_stored g sec s' own r"
proof -
  obtain p where p: "p \<in> set (student_profiles s')" "own r = Some (sp_user p)" using W r by (auto simp: written_def)
  have "row_profile g sec own r p" by (rule owner [OF own r p(2)]) (use W p(1) in \<open>simp add: written_def\<close>)
  moreover have "map_option fold_text (num n p) = final_key n r" if n: "n \<in> set NUMBERS" for n
  proof (cases "num n p")
    case None then show ?thesis using W r p n by (simp add: written_def)
  next
    case (Some x)
    have "row_fits c g sec cols s r" using plan r by (simp add: plan_rows_def)
    from allowed_key [OF num this n, of x] calculation Some n show ?thesis by (simp add: row_profile_def)
  qed
  ultimately show ?thesis using p acc by (auto simp: row_stored_def row_profile_def)
qed

lemma good_profile_ok:
  assumes num: "numbers_ok c s" and plan: "plan_rows c g sec cols s cand S" and sec: "section_at g sec s"
    and kept: "users_kept s s'" "sections s' = sections s" and acc: "\<And>r. r \<in> set S \<Longrightarrow> has_account g s' own r" and p: "good g sec s S own p"
  shows "profile_ok s' p"
proof -
  from p consider "p \<in> set (student_profiles s)" | r where "r \<in> set S" "row_profile g sec own r p" by (auto simp: good_def)
  then show ?thesis
  proof cases
    case 1
    then have ok: "profile_ok s p" using num by (simp add: numbers_ok_def)
    then obtain u where "u \<in> set (users s)" "u_id u = sp_user p" "u_org u = sp_org p" unfolding profile_ok_def by blast
    then have "\<exists>v \<in> set (users s'). u_id v = sp_user p \<and> u_org v = sp_org p" using kept(1) unfolding users_kept_def by metis
    then show ?thesis using ok kept(2) by (simp add: profile_ok_def)
  next
    case 2
    have "row_fits c g sec cols s r" using plan 2(1) by (simp add: plan_rows_def)
    then have "\<forall>n \<in> set NUMBERS. \<forall>x. num n p = Some x \<longrightarrow> fold_text x \<noteq> []"
      using allowed_key [OF num] 2(2) by (auto simp: row_profile_def)
    moreover have "\<exists>u \<in> set (users s'). u_id u = sp_user p \<and> u_org u = sp_org p"
      using acc [OF 2(1)] 2(2) by (auto simp: has_account_def row_profile_def)
    ultimately show ?thesis using 2(2) sec kept(2) by (auto simp: profile_ok_def row_profile_def section_at_def)
  qed
qed

lemma numbers_after:
  assumes num: "numbers_ok c s" and plan: "plan_rows c g sec cols s cand S" and fold: "fold_matches c" and sec: "section_at g sec s"
    and own: "owns_ok s S own" and W: "written g sec s S own [] [] (student_profiles s')"
    and kept: "users_kept s s'" "sections s' = sections s" "accounts_ok c s'" and acc: "\<And>r. r \<in> set S \<Longrightarrow> has_account g s' own r"
  shows "numbers_ok c s'"
  unfolding numbers_ok_def
proof (intro conjI ballI impI)
  have goods: "good g sec s S own p" if "p \<in> set (student_profiles s')" for p using W that by (simp add: written_def)
  show users: "distinct (map sp_user (student_profiles s'))" using W by (simp add: written_def)
  show "profile_ok s' p" if "p \<in> set (student_profiles s')" for p
    using good_profile_ok [OF num plan sec kept(1,2) acc goods [OF that]] .
  show "p = q" if pq: "p \<in> set (student_profiles s')" "q \<in> set (student_profiles s')" and "clash c p q" for p q
  proof (rule unique_key [OF users pq], rule ccontr)
    assume "sp_user p \<noteq> sp_user q"
    from good_no_clash [OF num plan fold sec own goods [OF pq(1)] goods [OF pq(2)] this] that(3) show False by simp
  qed
qed (use num kept in \<open>simp_all add: numbers_ok_def\<close>)

subsection \<open>The whole plan\<close>

lemma rows_with_saved: "a \<noteq> AError \<Longrightarrow> rows_with a p = filter (\<lambda>r. rp_action r = a) (filter is_saved (pl_rows p))"
  by (auto simp: rows_with_def is_saved_def intro!: filter_cong)

lemma insert_users_cases:
  assumes "all_ok (map (new_user g t hashes stored) rows) = x"
  shows "insert_users c g t hashes stored rows s = (case x of Inl e \<Rightarrow> (Inl e, s) | Inr us \<Rightarrow> bindH (execute_many (insert_user c) us)
     (\<lambda>_. query (\<lambda>s. all_ok (map (with_id (ids_by_username c g (map rp_username rows) s)) rows))) s)"
  using assms by (auto simp: insert_users_def bindH_def query_def split: sum.split)

lemma users_inserted:
  assumes num: "numbers_ok c s" and plan: "plan_rows c g sec cols s cand S" and fold: "fold_matches c" and dist: "distinct S"
    and t: "users t = users s" "next_user t = next_user s"
  defines "creates \<equiv> filter (\<lambda>r. rp_action r = ACreate) S"
  assumes ins: "insert_users c g Student hashes stored creates t = (res, t')"
  shows "res = Inl KeyError \<or> (\<exists>own. res = Inr (map (\<lambda>r. r\<lparr>rp_user := own r\<rparr>) creates) \<and> owns_ok s S own \<and> accounts_ok c t' \<and> users_kept s t'
     \<and> student_profiles t' = student_profiles t \<and> sections t' = sections t \<and> bound_org t' = bound_org t
     \<and> (\<forall>r \<in> set S. has_account g t' own r) \<and> (\<forall>r \<in> set creates. own r \<noteq> None))"
proof (cases "all_ok (map (new_user g Student hashes stored) creates)")
  case (Inl e)
  from all_ok_Inl [OF this] obtain r where "Inl e = new_user g Student hashes stored r" by (auto simp only: set_map image_iff)
  then have "e = KeyError" using new_user_Inl by metis
  with ins insert_users_cases [OF Inl] show ?thesis by simp
next
  case (Inr us)
  obtain u where u: "execute_many (insert_user c) us t = (Inr (), u)" "accounts_ok c u" "users_kept t u"
    "student_profiles u = student_profiles t" "sections u = sections t" "bound_org u = bound_org t"
    "\<And>r. r \<in> set creates \<Longrightarrow> \<exists>v \<in> set (users u). u_org v = g \<and> u_username v = rp_username r \<and> next_user s \<le> u_id v"
    using new_accounts [OF num plan fold dist t, folded creates_def, OF Inr] by blast
  define own where "own = own_id c g (map rp_username creates) u"
  have kept: "users_kept s u" using u(3) t(1) by (simp add: users_kept_def)
  note ids = own_ids [OF num plan fold u(2) kept, folded creates_def, OF u(7), folded own_def]
  let ?ids = "ids_by_username c g (map rp_username creates) u"
  have "all_ok (map (with_id ?ids) creates) = Inr (map (\<lambda>r. r\<lparr>rp_user := ?ids (fold_text (rp_username r))\<rparr>) creates)"
    by (rule with_ids_ok) (use ids(3) in metis)
  also have "map (\<lambda>r. r\<lparr>rp_user := ?ids (fold_text (rp_username r))\<rparr>) creates = map (\<lambda>r. r\<lparr>rp_user := own r\<rparr>) creates"
    using ids(3) by (intro map_cong) simp_all
  finally have "insert_users c g Student hashes stored creates t = (Inr (map (\<lambda>r. r\<lparr>rp_user := own r\<rparr>) creates), u)"
    using insert_users_cases [OF Inr] u(1) by (simp add: bindH_def query_def)
  then have res: "res = Inr (map (\<lambda>r. r\<lparr>rp_user := own r\<rparr>) creates)" "t' = u" using ins by simp_all
  show ?thesis unfolding res using ids u(2,4-6) kept by blast
qed

lemma applied:
  assumes app: "apply_plan c p hashes stored s = (res, s')" and p: "pl_type p = Student" "pl_section p = Some sec" "filter is_saved (pl_rows p) = S"
    and g: "bound_org s = Some g" and num: "numbers_ok c s" and plan: "plan_rows c g sec cols s cand S" and fold: "fold_matches c"
    and sec: "section_at g sec s" and dist: "distinct S"
  shows "res = Inl KeyError \<or> (\<exists>own. res = Inr (map (\<lambda>r. r\<lparr>rp_user := own r\<rparr>) (filter (\<lambda>r. rp_action r = ACreate) S), filter (\<lambda>r. rp_action r = AUpdate) S)
     \<and> owns_ok s S own \<and> (\<forall>r \<in> set S. rp_action r = ACreate \<longrightarrow> own r \<noteq> None) \<and> numbers_ok c s' \<and> (\<forall>r \<in> set S. row_stored g sec s' own r)
     \<and> (\<forall>x \<in> set (student_profiles s). others S own x \<longrightarrow> x \<in> set (student_profiles s')))"
proof -
  define creates updates where "creates = filter (\<lambda>r. rp_action r = ACreate) S" and "updates = filter (\<lambda>r. rp_action r = AUpdate) S"
  have rows: "rows_with ACreate p = creates" "rows_with AUpdate p = updates" by (simp_all add: rows_with_saved p(3) creates_def updates_def)
  have fits: "row_fits c g sec cols s r" if "r \<in> set S" for r using plan that by (simp add: plan_rows_def)
  define t where "t = free_moving_numbers updates s"
  have t: "users t = users s" "next_user t = next_user s" "student_profiles t = map (freed updates) (student_profiles s)"
      "sections t = sections s" "bound_org t = Some g" by (simp_all add: t_def free_moving g)
  obtain res1 t1 where ins: "insert_users c g Student hashes stored creates t = (res1, t1)" by fastforce
  have app1: "(res, s') = (case insert_users c g Student hashes stored creates t of (Inl e, x) \<Rightarrow> (Inl e, x) | (Inr created, x) \<Rightarrow>
     bindH (insert_profiles c g p created) (\<lambda>_. bindH (update_users stored updates) (\<lambda>_.
     bindH (upsert_profiles c g p (filter (touches_profile Student) updates)) (\<lambda>_. ret (created, updates)))) x)"
    using app by (simp add: apply_plan_def rows p(1) Let_def bindH_def query_def writes_def org_of_def g t_def split: sum.splits prod.splits)
  from users_inserted [OF num plan fold dist t(1,2) ins [unfolded creates_def]]
  consider "res1 = Inl KeyError" | own where "res1 = Inr (map (\<lambda>r. r\<lparr>rp_user := own r\<rparr>) creates)" "owns_ok s S own" "accounts_ok c t1" "users_kept s t1"
     "student_profiles t1 = student_profiles t" "sections t1 = sections t" "bound_org t1 = bound_org t"
     "\<forall>r \<in> set S. has_account g t1 own r" "\<forall>r \<in> set creates. own r \<noteq> None" by (auto simp: creates_def)
  then show ?thesis
  proof cases
    case 1 then show ?thesis using app1 ins by simp
  next
    case 2
    note own = 2(2)
    have W: "written g sec s S own creates (filter (touches_profile Student) updates) (student_profiles t1)"
      unfolding 2(5) t(3) creates_def updates_def by (rule start_written [OF num plan own])
    have "\<exists>T. execute_many (\<lambda>r. insert_profile c (student_profile g sec (the (rp_user r)) (rp_values r))) (map (\<lambda>r. r\<lparr>rp_user := own r\<rparr>) creates) t1
       = (Inr (), t1\<lparr>student_profiles := T\<rparr>) \<and> written g sec s S own [] (filter (touches_profile Student) updates) T"
    proof (rule insert_all [OF num plan fold sec own W])
      show "distinct creates" using dist by (simp add: creates_def)
      show "r \<in> set S \<and> rp_existing r = None \<and> own r \<noteq> None" if "r \<in> set creates" for r
        using that 2(9) row_kind [OF fits, of r] by (simp add: creates_def)
    qed
    then obtain T1 where T1: "insert_profiles c g p (map (\<lambda>r. r\<lparr>rp_user := own r\<rparr>) creates) t1 = (Inr (), t1\<lparr>student_profiles := T1\<rparr>)"
      "written g sec s S own [] (filter (touches_profile Student) updates) T1" by (auto simp: insert_profiles_def p)
    obtain res2 t2 where upd: "update_users stored updates (t1\<lparr>student_profiles := T1\<rparr>) = (res2, t2)" by fastforce
    have acc1: "accounts_ok c (t1\<lparr>student_profiles := T1\<rparr>)" using 2(3) by (simp add: accounts_ok_def)
    from update_users_result [OF upd acc1] consider "res2 = Inl KeyError" | "res2 = Inr ()" "accounts_ok c t2" "users_kept t1 t2" "student_profiles t2 = T1"
      "sections t2 = sections t1" by (auto simp: users_kept_def)
    then show ?thesis
    proof cases
      case 1
      have "res = Inl KeyError" using app1 unfolding ins 2(1) by (simp add: bindH_def T1(1) upd 1)
      then show ?thesis by simp
    next
      case U: 2
      have "\<exists>T. execute_many (\<lambda>r. upsert_profile c (student_profile g sec (the (rp_user r)) (\<lambda>n. final n (Some StudentProfiles) r)))
          (filter (touches_profile Student) updates) t2 = (Inr (), t2\<lparr>student_profiles := T\<rparr>) \<and> written g sec s S own [] [] T"
      proof (rule upsert_all [OF num plan fold sec own])
        show "written g sec s S own [] (filter (touches_profile Student) updates) (student_profiles t2)" using T1(2) U(4) by simp
        fix r assume "r \<in> set (filter (touches_profile Student) updates)"
        then have r: "r \<in> set S" "rp_action r = AUpdate" by (simp_all add: updates_def)
        then obtain e where e: "rp_existing r = Some e" using row_kind [OF fits [OF r(1)]] by (cases "rp_existing r") auto
        have "own r = rp_user r" using own r(1) e unfolding owns_ok_def by fastforce
        moreover have "rp_user r \<noteq> None" using row_student [OF num fits [OF r(1)] e] by (metis option.distinct(1))
        ultimately show "r \<in> set S \<and> own r = rp_user r \<and> rp_user r \<noteq> None" using r by simp
      qed
      then obtain T where T: "upsert_profiles c g p (filter (touches_profile Student) updates) t2 = (Inr (), t2\<lparr>student_profiles := T\<rparr>)"
        "written g sec s S own [] [] T" by (auto simp: upsert_profiles_def p)
      have fin: "res = Inr (map (\<lambda>r. r\<lparr>rp_user := own r\<rparr>) creates, updates)" "s' = t2\<lparr>student_profiles := T\<rparr>"
        using app1 unfolding ins 2(1) by (simp_all add: bindH_def T1(1) upd U(1) T(1) ret_def)
      have kept: "users_kept s s'" using users_kept_trans [OF 2(4) U(3)] fin(2) by (simp add: users_kept_def)
      have acc: "has_account g s' own r" if "r \<in> set S" for r
        using has_account_kept [OF U(3)] 2(8) that fin(2) by (simp add: has_account_def)
      have W': "written g sec s S own [] [] (student_profiles s')" using T(2) fin(2) by simp
      have "numbers_ok c s'"
        by (rule numbers_after [OF num plan fold sec own W' kept _ _ acc]) (use U fin(2) 2(6) t(4) in \<open>simp_all add: accounts_ok_def\<close>)
      moreover have "row_stored g sec s' own r" if "r \<in> set S" for r using written_stored [OF num plan own W' that acc [OF that]] .
      moreover have "\<forall>x \<in> set (student_profiles s). others S own x \<longrightarrow> x \<in> set (student_profiles s')" using W' by (simp add: written_def)
      ultimately show ?thesis using fin(1) own 2(9) unfolding creates_def updates_def by auto
    qed
  qed
qed

subsection \<open>Saving\<close>

lemma audit_import_keeps [simp]:
  "users (audit_import c a p x y s) = users s" "student_profiles (audit_import c a p x y s) = student_profiles s"
  "sections (audit_import c a p x y s) = sections s" "next_user (audit_import c a p x y s) = next_user s"
  by (simp_all add: audit_import_def audit_record_def)

lemma numbers_ok_cong:
  assumes "users s = users t" "student_profiles s = student_profiles t" "sections s = sections t" "next_user s = next_user t"
  shows "numbers_ok c s \<longleftrightarrow> numbers_ok c t"
  using assms by (simp add: numbers_ok_def accounts_ok_def profile_ok_def)

lemma authorized_section:
  assumes "authorize actor Student k i s = Inr (Some sec)" and "bound_org s = Some g"
  shows "section_at g sec s"
proof -
  obtain a b where "section_in g a b s = Some sec"
    using assms by (auto simp: authorize_def org_of_def split: option.splits)
  then obtain x where x: "one_where (\<lambda>x. se_id x = b \<and> se_class x = a \<and> se_org x = g) (sections s) = Some x" "is_section sec = se_id x"
    by (auto simp: section_in_def split: option.splits)
  from one_where_Some [OF x(1)] x(2) show ?thesis unfolding section_at_def by (intro bexI [of _ x]) simp_all
qed

text \<open>The rows a saved plan shows are the rows that were applied, the created ones with their ids.\<close>

lemma shown_row:
  assumes dist: "distinct (map rp_number (pl_rows p))"
    and created: "created = map (\<lambda>r. r\<lparr>rp_user := own r\<rparr>) (filter (\<lambda>r. rp_action r = ACreate) (filter is_saved (pl_rows p)))"
    and r: "r \<in> set (pl_rows (with_ids created p))" "is_saved r"
  obtains q where "q \<in> set (pl_rows p)" "is_saved q" "r = (if rp_action q = ACreate then q\<lparr>rp_user := own q\<rparr> else q)"
proof -
  obtain q where q: "q \<in> set (pl_rows p)" "r = (case map_of (map (\<lambda>q. (rp_number q, q)) created) (rp_number q) of None \<Rightarrow> q | Some x \<Rightarrow> x)"
    using r(1) by (auto simp: with_ids_def)
  show thesis
  proof (cases "map_of (map (\<lambda>q. (rp_number q, q)) created) (rp_number q)")
    case None
    then have "r = q" using q(2) by simp
    moreover have "rp_action q \<noteq> ACreate" using None q(1) r(2) calculation by (auto simp: map_of_eq_None_iff created image_iff)
    ultimately show thesis using that [OF q(1)] r(2) by simp
  next
    case (Some x)
    then obtain y where y: "y \<in> set (pl_rows p)" "is_saved y" "rp_action y = ACreate" "x = y\<lparr>rp_user := own y\<rparr>" "rp_number x = rp_number q"
      by (auto simp: created dest!: map_of_SomeD)
    have "y = q" by (rule unique_key [OF dist y(1) q(1)]) (use y in simp)
    then show thesis using that y q(2) Some by simp
  qed
qed

lemma final_key_user [simp]: "final_key n (r\<lparr>rp_user := i\<rparr>) = final_key n r"
  by (simp add: final_key_def final_def split: option.split)

lemma is_saved_user [simp]: "is_saved (r\<lparr>rp_user := i\<rparr>) = is_saved r"
  by (simp add: is_saved_def)

lemma save_import_changed:
  "build c t sec parsed archive True s = Inr locked \<Longrightarrow> signature locked \<noteq> signature plan
    \<Longrightarrow> save_import c actor t sec parsed archive plan hashes stored s = (Inl (Conflict CHANGED_WHILE_SAVING), s)"
  by (simp add: save_import_def transaction_def handler_defs)

lemma save_import_missing:
  "build c t sec parsed archive True s = Inr locked \<Longrightarrow> signature locked = signature plan \<Longrightarrow> apply_plan c locked hashes stored s = (Inl KeyError, s1)
    \<Longrightarrow> save_import c actor t sec parsed archive plan hashes stored s = (Inl KeyError, s)"
  by (simp add: save_import_def transaction_def handler_defs)

lemma save_import_applied:
  "build c t sec parsed archive True s = Inr locked \<Longrightarrow> signature locked = signature plan
    \<Longrightarrow> apply_plan c locked hashes stored s = (Inr (created, updated), s1)
    \<Longrightarrow> save_import c actor t sec parsed archive plan hashes stored s
      = (Inr ((with_ids created locked)\<lparr>pl_warnings := pl_warnings plan\<rparr>), audit_import c actor locked created updated s1)"
  by (simp add: save_import_def transaction_def handler_defs)

lemma row_shown:
  assumes dist: "distinct (map rp_number (pl_rows p))"
    and created: "created = map (\<lambda>r. r\<lparr>rp_user := own r\<rparr>) (filter (\<lambda>r. rp_action r = ACreate) (filter is_saved (pl_rows p)))"
    and q: "q \<in> set (pl_rows p)" "is_saved q"
  shows "(if rp_action q = ACreate then q\<lparr>rp_user := own q\<rparr> else q) \<in> set (pl_rows (with_ids created p))"
proof -
  let ?m = "map_of (map (\<lambda>q. (rp_number q, q)) created)"
  have "(case ?m (rp_number q) of None \<Rightarrow> q | Some x \<Rightarrow> x) = (if rp_action q = ACreate then q\<lparr>rp_user := own q\<rparr> else q)"
  proof (cases "?m (rp_number q)")
    case None
    then have "rp_action q \<noteq> ACreate" using q by (auto simp: map_of_eq_None_iff created image_iff)
    with None show ?thesis by simp
  next
    case (Some x)
    then obtain y where y: "y \<in> set (pl_rows p)" "is_saved y" "rp_action y = ACreate" "x = y\<lparr>rp_user := own y\<rparr>" "rp_number x = rp_number q"
      by (auto simp: created dest!: map_of_SomeD)
    have "y = q" by (rule unique_key [OF dist y(1) q(1)]) (use y in simp)
    with y Some show ?thesis by simp
  qed
  with q(1) show ?thesis by (auto simp: with_ids_def intro!: image_eqI [of _ _ q])
qed

lemma row_stored_cong:
  "users s = users t \<Longrightarrow> student_profiles s = student_profiles t \<Longrightarrow> row_stored g sec s own r = row_stored g sec t own r"
  by (simp add: row_stored_def has_account_def)

end
