(* ===== verification/Import_Demo.thy ===== *)
theory Import_Demo
  imports Import_Saving Demo
begin

text \<open>
  A class of two and a file that swaps their roll numbers, worked through step by step: reading the header,
  the plan, and the statements that save it.
\<close>

subsection \<open>A file that swaps two roll numbers\<close>

definition pupil :: "int \<Rightarrow> string \<Rightarrow> student_profile_row" where
  "pupil i roll = \<lparr>sp_user = i, sp_org = 1, sp_class = Some 7, sp_section = Some 8, sp_last_class = None, sp_last_section = None, sp_roll = Some roll, sp_admission = None, sp_dob = None,
     sp_father = None, sp_mother = None, sp_guardian_phone = None, sp_address = None\<rparr>"

definition import_db :: db where
  "import_db = empty_db\<lparr>orgs := [demo_org], bound_org := Some 1,
     users := [demo_user 1 ''head'' Principal, demo_user 2 ''mira'' Student, demo_user 3 ''devi'' Student], next_user := 4,
     classes := [\<lparr>cl_id = 7, cl_org = 1, cl_name = ''5'', cl_fee = None\<rparr>],
     sections := [\<lparr>se_id = 8, se_org = 1, se_class = 7, se_name = ''A''\<rparr>], student_profiles := [pupil 2 ''1'', pupil 3 ''2'']\<rparr>"

definition import_section_a :: import_section where
  "import_section_a = \<lparr>is_section = 8, is_class = 7, is_class_name = ''5'', is_name = ''A''\<rparr>"

definition head_user :: current_user where
  "head_user = \<lparr>cu_id = 1, cu_username = ''head'', cu_full_name = ''head'', cu_email = None, cu_phone = None, cu_type = Principal,
     cu_active = True, cu_session = ''s1'', cu_must_change = False, cu_org = 1, cu_org_code = ''DEFAULT'', cu_org_name = ''Model School''\<rparr>"

definition roll_column :: column where
  "roll_column = profile_column StudentProfiles TextKind ''roll_no'' (Some 20) [''roll_number'', ''roll'']"

definition swap_file :: parsed_csv where
  "swap_file = \<lparr>pc_columns = [USERNAME, FULL_NAME, EMAIL, roll_column],
     pc_rows = [\<lparr>cr_number = 2, cr_cells = [(''username'', ''mira''), (''full_name'', []), (''email'', []), (''roll_no'', ''2'')], cr_problems = []\<rparr>,
       \<lparr>cr_number = 3, cr_cells = [(''username'', ''devi''), (''full_name'', []), (''email'', []), (''roll_no'', ''1'')], cr_problems = []\<rparr>],
     pc_warnings = []\<rparr>"

lemma folds: "fold_text ''mira'' = ''mira''" "fold_text ''devi'' = ''devi''" "fold_text ''1'' = ''1''" "fold_text ''2'' = ''2''"
  "py_strip ''1'' = ''1''" "py_strip ''2'' = ''2''" by code_simp+

definition swap_row :: "nat \<Rightarrow> string \<Rightarrow> string \<Rightarrow> row_plan" where
  "swap_row i n roll = \<lparr>rp_number = i, rp_username = n, rp_action = AError, rp_values = [''username'' \<mapsto> Text n, ''roll_no'' \<mapsto> Text roll], rp_invalid = [],
      rp_changes = [], rp_errors = [], rp_existing = None, rp_user = None\<rparr>"

lemma cleaned_swap: "map (clean_row c (pc_columns swap_file)) (pc_rows swap_file) = [swap_row 2 ''mira'' ''2'', swap_row 3 ''devi'' ''1'']"
  by (simp add: swap_file_def clean_row_def clean_cell_def check_cell_def cell_of_def swap_row_def USERNAME_def FULL_NAME_def EMAIL_def roll_column_def
     profile_column_def max_of_def set_value_def Let_def)

lemma marked_swap: "mark_duplicate_usernames [swap_row 2 ''mira'' ''2'', swap_row 3 ''devi'' ''1''] = [swap_row 2 ''mira'' ''2'', swap_row 3 ''devi'' ''1'']"
  by (simp add: mark_duplicate_usernames_def swap_row_def folds)

definition swap_existing :: "int \<Rightarrow> string \<Rightarrow> string \<Rightarrow> existing" where
  "swap_existing i n roll = \<lparr>ex_user = demo_user i n Student, ex_sp = Some (pupil i roll), ex_tp = None, ex_class = Some ''5'', ex_section = Some ''A''\<rparr>"

lemma import_db_fields:
  "users import_db = [demo_user 1 ''head'' Principal, demo_user 2 ''mira'' Student, demo_user 3 ''devi'' Student]" "next_user import_db = 4"
  "student_profiles import_db = [pupil 2 ''1'', pupil 3 ''2'']" "teacher_profiles import_db = []" "bound_org import_db = Some 1"
  "classes import_db = [\<lparr>cl_id = 7, cl_org = 1, cl_name = ''5'', cl_fee = None\<rparr>]"
  "sections import_db = [\<lparr>se_id = 8, se_org = 1, se_class = 7, se_name = ''A''\<rparr>]"
  by (simp_all add: import_db_def empty_db_def)

lemma pupil_fields: "sp_user (pupil i r) = i" "sp_org (pupil i r) = 1" "sp_class (pupil i r) = Some 7" "sp_section (pupil i r) = Some 8"
  "sp_roll (pupil i r) = Some r" "sp_admission (pupil i r) = None"
  by (simp_all add: pupil_def)

lemma names: "chunks CHUNK (sort_key fold_text (remdups [''mira'', ''devi''])) = [[''devi'', ''mira'']]" by code_simp

lemma existing_swap: "existing_of import_db (demo_user 2 ''mira'' Student) = swap_existing 2 ''mira'' ''1''"
  "existing_of import_db (demo_user 3 ''devi'' Student) = swap_existing 3 ''devi'' ''2''"
  by (simp_all add: existing_of_def swap_existing_def import_db_fields one_where_def pupil_fields)

lemma found_swap: "existing_users (demo 0) 1 [''mira'', ''devi''] import_db ''mira'' = Some (swap_existing 2 ''mira'' ''1'')"
   "existing_users (demo 0) 1 [''mira'', ''devi''] import_db ''devi'' = Some (swap_existing 3 ''devi'' ''2'')"
  unfolding existing_users_def names users_named_def import_db_fields by (simp_all add: folds existing_swap)

definition decided_swap :: "nat \<Rightarrow> int \<Rightarrow> string \<Rightarrow> string \<Rightarrow> string \<Rightarrow> row_plan" where
  "decided_swap k i n old roll = (swap_row k n roll)\<lparr>rp_existing := Some (swap_existing i n old), rp_user := Some i, rp_changes := [''roll_no''], rp_action := AUpdate\<rparr>"

lemma decide_swap: "decide Student (Some import_section_a) (pc_columns swap_file) (existing_users (demo 0) 1 [''mira'', ''devi''] import_db) (swap_row 2 ''mira'' ''2'')
  = decided_swap 2 2 ''mira'' ''1'' ''2''"
  "decide Student (Some import_section_a) (pc_columns swap_file) (existing_users (demo 0) 1 [''mira'', ''devi''] import_db) (swap_row 3 ''devi'' ''1'')
  = decided_swap 3 3 ''devi'' ''2'' ''1''"
  by (simp_all add: decide_def swap_row_def folds found_swap Let_def decided_swap_def swap_existing_def pupil_fields import_section_a_def final_def
    existing_name_def existing_get_def changed_columns_def swap_file_def USERNAME_def FULL_NAME_def EMAIL_def roll_column_def profile_column_def same_cell_def given_def cell_str_def demo_user_def)

lemma decided_rows_swap: "decided_rows (demo 0) 1 Student (Some import_section_a) swap_file import_db = [decided_swap 2 2 ''mira'' ''1'' ''2'', decided_swap 3 3 ''devi'' ''2'' ''1'']"
proof -
  have "filter (\<lambda>n. n \<noteq> []) (map rp_username [swap_row 2 ''mira'' ''2'', swap_row 3 ''devi'' ''1'']) = [''mira'', ''devi'']" by (simp add: swap_row_def)
  then show ?thesis unfolding decided_rows_def cleaned_swap marked_swap Let_def by (simp only: decide_swap list.map)
qed

lemma dropped_swap: "drop_password (decided_swap k i n old roll) = decided_swap k i n old roll"
  by (simp add: drop_password_def decided_swap_def swap_row_def)

lemma swap_fields: "rp_number (decided_swap k i n old roll) = k" "rp_errors (decided_swap k i n old roll) = []" "rp_user (decided_swap k i n old roll) = Some i"
  "rp_changes (decided_swap k i n old roll) = [''roll_no'']" "rp_action (decided_swap k i n old roll) = AUpdate"  "is_saved (decided_swap k i n old roll)"
  "final ''roll_no'' None (decided_swap k i n old roll) = Some (Text roll)" "final ''admission_no'' None (decided_swap k i n old roll) = None"
  "rp_values (decided_swap k i n old roll) = [''username'' \<mapsto> Text n, ''roll_no'' \<mapsto> Text roll]"
  by (simp_all add: decided_swap_def swap_row_def is_saved_def final_def existing_name_def existing_get_def swap_existing_def pupil_fields)

lemma swap_keys: "final_key ''roll_no'' (decided_swap k i n old roll) = (if roll = [] then None else Some (fold_text roll))" "final_key ''admission_no'' (decided_swap k i n old roll) = None"
  "typed_key ''roll_no'' (decided_swap k i n old roll) = (if roll = [] then None else Some (fold_text roll))" "typed_key ''admission_no'' (decided_swap k i n old roll) = None"
  by (simp_all add: final_key_def typed_key_def swap_fields given_def cell_str_def)

abbreviation swap_rows :: "row_plan list" where "swap_rows \<equiv> [decided_swap 2 2 ''mira'' ''1'' ''2'', decided_swap 3 3 ''devi'' ''2'' ''1'']"

lemma settled_swap: "unique_student_numbers (demo 0) 1 8 import_db swap_rows = swap_rows"
proof -
  have rep: "mark_repeated ''admission_no'' l swap_rows = swap_rows" "mark_repeated ''roll_no'' l swap_rows = swap_rows" for l
    by (simp_all add: mark_repeated_def swap_keys folds)
  have adm: "admission_holders (demo 0) 1 swap_rows import_db = []"
    by (simp add: admission_holders_def import_db_fields pupil_fields)
  have roll: "roll_holders 1 8 import_db = [\<lparr>hd_user = 2, hd_value = ''1'', hd_name = ''mira'', hd_class = None, hd_section = None\<rparr>,
      \<lparr>hd_user = 3, hd_value = ''2'', hd_name = ''devi'', hd_class = None, hd_section = None\<rparr>]"
    by (simp add: roll_holders_def import_db_fields pupil_fields holder_of_def one_where_def List.map_filter_def)
  have stay: "staying ''roll_no'' swap_rows = [2 \<mapsto> Some ''2'', 3 \<mapsto> Some ''1'']"
    by (simp add: staying_def swap_fields swap_keys folds)
  have "\<not> round_found [] (roll_holders 1 8 import_db) swap_rows"
    by (simp add: round_found_def round_errors_def blocked_error_def blocking_def roll stay swap_fields swap_keys folds)
  then show ?thesis by (simp add: unique_student_numbers_def Let_def rep adm settle_numbers.simps)
qed

definition swap_plan :: import_plan where
  "swap_plan = \<lparr>pl_type = Student, pl_section = Some import_section_a, pl_columns = pc_columns swap_file, pl_rows = swap_rows, pl_warnings = []\<rparr>"

lemma built_swap: "build (demo 0) Student (Some import_section_a) swap_file None checked import_db = Inr swap_plan"
proof -
  have "is_section import_section_a = 8" by (simp add: import_section_a_def)
  moreover have "\<not> list_ex (\<lambda>co. col_name co = ''photo'') (pc_columns swap_file)" "pc_warnings swap_file = []"
    by (simp_all add: swap_file_def USERNAME_def FULL_NAME_def EMAIL_def roll_column_def profile_column_def)
  moreover have "ignored_warning swap_rows = []" by (simp add: ignored_warning_def swap_fields)
  ultimately show ?thesis
    by (simp add: build_def org_of_def import_db_fields decided_rows_swap Let_def cross_rows_def dropped_swap settled_swap swap_plan_def)
qed

definition swap_profile :: "row_plan \<Rightarrow> student_profile_row" where
  "swap_profile r = student_profile 1 import_section_a (the (rp_user r)) (\<lambda>n. final n (Some StudentProfiles) r)"

lemma swap_profile: "sp_user (swap_profile (decided_swap k i n old roll)) = i" "sp_org (swap_profile r) = 1" "sp_section (swap_profile r) = Some 8"
  "sp_roll (swap_profile (decided_swap k i n old roll)) = Some roll" "sp_admission (swap_profile (decided_swap k i n old roll)) = None"
proof -
  have "final ''roll_no'' (Some StudentProfiles) (decided_swap k i n old roll) = Some (Text roll)"
     "final ''admission_no'' (Some StudentProfiles) (decided_swap k i n old roll) = None"
    by (simp_all add: final_table [of _ "Some StudentProfiles" _ None] NUMBERS_def swap_fields(7,8))
  then show "sp_user (swap_profile (decided_swap k i n old roll)) = i" "sp_org (swap_profile r) = 1" "sp_section (swap_profile r) = Some 8"
    "sp_roll (swap_profile (decided_swap k i n old roll)) = Some roll" "sp_admission (swap_profile (decided_swap k i n old roll)) = None"
    by (simp_all add: swap_profile_def student_profile_def import_section_a_def swap_fields cell_str_def)
qed

definition pupil_without_roll :: "int \<Rightarrow> student_profile_row" where "pupil_without_roll i = (pupil i [])\<lparr>sp_roll := None\<rparr>"

lemma without_roll: "sp_user (pupil_without_roll i) = i" "sp_org (pupil_without_roll i) = 1" "sp_section (pupil_without_roll i) = Some 8"
    "sp_roll (pupil_without_roll i) = None" "sp_admission (pupil_without_roll i) = None"
  by (simp_all add: pupil_without_roll_def pupil_fields)

definition swapped :: "row_plan \<Rightarrow> int \<Rightarrow> student_profile_row" where "swapped r i = with_fields (swap_profile r) (pupil_without_roll i)"

lemma swapped: "sp_user (swapped r i) = i" "sp_org (swapped r i) = 1" "sp_section (swapped r i) = Some 8"
  "sp_roll (swapped (decided_swap k j n old roll) i) = Some roll" "sp_admission (swapped (decided_swap k j n old roll) i) = None"
  by (simp_all add: swapped_def with_fields_def without_roll swap_profile)

lemma upsert_first: "student_profiles t = [pupil_without_roll 2, pupil_without_roll 3] \<Longrightarrow> upsert_profile (demo 0) (swap_profile (decided_swap 2 2 ''mira'' ''1'' ''2'')) t
     = (Inr (), t\<lparr>student_profiles := [swapped (decided_swap 2 2 ''mira'' ''1'' ''2'') 2, pupil_without_roll 3]\<rparr>)"
  unfolding upsert_profile_def taken_row_def one_where_def
  by (simp add: swap_profile without_roll swapped_def [symmetric] number_conflict_def same_admission_def same_roll_def swapped update_where_def)

lemma upsert_second: "student_profiles t = [swapped (decided_swap 2 2 ''mira'' ''1'' ''2'') 2, pupil_without_roll 3] \<Longrightarrow> upsert_profile (demo 0) (swap_profile (decided_swap 3 3 ''devi'' ''2'' ''1'')) t
     = (Inr (), t\<lparr>student_profiles := [swapped (decided_swap 2 2 ''mira'' ''1'' ''2'') 2, swapped (decided_swap 3 3 ''devi'' ''2'' ''1'') 3]\<rparr>)"
  unfolding upsert_profile_def taken_row_def one_where_def
  by (simp add: swap_profile without_roll swapped_def [symmetric] number_conflict_def same_admission_def same_roll_def swapped update_where_def)

lemma freed_swap: "student_profiles (free_moving_numbers swap_rows import_db) = [pupil_without_roll 2, pupil_without_roll 3]"
    by (simp add: free_moving_numbers_def import_db_fields update_where_def pupil_fields swap_fields pupil_without_roll_def) (simp add: pupil_def)

lemma upserts_swap:
  assumes "student_profiles t = [pupil_without_roll 2, pupil_without_roll 3]"
  shows "\<exists>t'. execute_many (\<lambda>r. upsert_profile (demo 0) (swap_profile r)) swap_rows t = (Inr (), t') \<and> map sp_roll (student_profiles t') = [Some ''2'', Some ''1'']"
  using upsert_first [OF assms] upsert_second by (simp add: swapped)

lemma roll_field: "sp_roll (with_fields p q) = sp_roll p" "sp_admission (with_fields p q) = sp_admission p" by (simp_all add: with_fields_def)

lemma saved_swap:
  "\<exists>p t. save_import (demo 0) head_user Student (Some import_section_a) swap_file None swap_plan hashes stored import_db = (Inr p, t)
    \<and> map sp_roll (student_profiles t) = [Some ''2'', Some ''1'']"
proof -
  have rows: "rows_with ACreate swap_plan = []" "rows_with AUpdate swap_plan = swap_rows"
    by (simp_all add: rows_with_def swap_plan_def swap_fields)
  have kind: "pl_type swap_plan = Student" "pl_section swap_plan = Some import_section_a" by (simp_all add: swap_plan_def)
  have touch: "filter (touches_profile Student) swap_rows = swap_rows"
    by (simp add: touches_profile_def swap_fields profile_fields_def STUDENT_FIELDS_def profile_column_def)
  obtain us where upd: "update_users stored swap_rows t = (Inr (), t\<lparr>users := us t\<rparr>)" for t
    by (simp add: update_users_def bindH_def query_def writes_def photo_path_def swap_fields given_def)
  have "\<exists>t. apply_plan (demo 0) swap_plan hashes stored import_db = (Inr ([], swap_rows), t) \<and> map sp_roll (student_profiles t) = [Some ''2'', Some ''1'']"
  proof -
    define t0 where "t0 = free_moving_numbers swap_rows import_db"
    obtain t1 where "execute_many (\<lambda>r. upsert_profile (demo 0) (swap_profile r)) swap_rows (t0\<lparr>users := us t0\<rparr>) = (Inr (), t1)"
        "map sp_roll (student_profiles t1) = [Some ''2'', Some ''1'']" using upserts_swap [of "t0\<lparr>users := us t0\<rparr>"] freed_swap by (auto simp: t0_def)
    moreover have "upsert_profiles (demo 0) 1 swap_plan swap_rows = execute_many (\<lambda>r. upsert_profile (demo 0) (swap_profile r)) swap_rows"
      unfolding upsert_profiles_def kind swap_profile_def by simp
    moreover have "insert_users (demo 0) 1 Student hashes stored [] t = (Inr [], t)" "insert_profiles (demo 0) 1 swap_plan [] t = (Inr (), t)" for t
      by (simp_all add: insert_users_def handler_defs insert_profiles_def kind)
    moreover have "org_of import_db = Inr 1" by (simp add: org_of_def import_db_fields)
    ultimately show ?thesis using upd [of t0]
      unfolding apply_plan_def rows kind Let_def touch bindH_def query_def writes_def ret_def t0_def [symmetric]
      by (simp only: prod.case sum.case if_P refl t0_def [symmetric] prod.inject ex_simps simp_thms)
  qed
  then show ?thesis
  proof (elim exE conjE)
    fix t assume app: "apply_plan (demo 0) swap_plan hashes stored import_db = (Inr ([], swap_rows), t)"
      and rolls: "map sp_roll (student_profiles t) = [Some ''2'', Some ''1'']"
    show ?thesis
      by (intro exI conjI, rule save_import_applied [OF built_swap refl app]) (simp only: audit_import_keeps rolls)
  qed
qed

lemma student_keys: "list_all (\<lambda>co. list_all (\<lambda>sp. header_key sp = sp) (col_name co # col_aliases co)) (columns_for Student)"
  by code_simp

lemma student_headers: "resolve_headers Student = map_of (rev (concat (map (\<lambda>co. map (\<lambda>sp. (sp, co)) (col_name co # col_aliases co)) (columns_for Student))))"
proof -
  have "map (\<lambda>co. map (\<lambda>sp. (header_key sp, co)) (col_name co # col_aliases co)) (columns_for Student)
    = map (\<lambda>co. map (\<lambda>sp. (sp, co)) (col_name co # col_aliases co)) (columns_for Student)"
    using student_keys by (intro map_cong refl) (auto simp: list_all_iff)
  then show ?thesis unfolding resolve_headers_def by (simp only:)
qed

lemma swap_headers: "resolve_headers Student ''username'' = Some USERNAME" "resolve_headers Student ''full_name'' = Some FULL_NAME"
  "resolve_headers Student ''email'' = Some EMAIL" "resolve_headers Student ''roll_no'' = Some roll_column"
  by (simp_all add: student_headers columns_for_def STUDENT_FIELDS_def profile_column_def USERNAME_def FULL_NAME_def EMAIL_def roll_column_def PASSWORD_def PHONE_def PHOTO_def)

lemma swap_keys_kept: "header_key ''username'' = ''username''" "header_key ''full_name'' = ''full_name''" "header_key ''email'' = ''email''" "header_key ''roll_no'' = ''roll_no''"
  by code_simp+

definition swap_records :: "string list list" where
  "swap_records = [[''username'', ''full_name'', ''email'', ''roll_no''], [''mira'', [], [], ''2''], [''devi'', [], [], ''1'']]"

lemma stripped: "py_strip ''username'' = ''username''" "py_strip ''full_name'' = ''full_name''" "py_strip ''email'' = ''email''" "py_strip ''roll_no'' = ''roll_no''"
  "py_strip ''mira'' = ''mira''" "py_strip ''devi'' = ''devi''" "py_strip [] = []"
  by code_simp+

lemma plain_cells: "unescape ''mira'' = ''mira''" "unescape ''devi'' = ''devi''" "unescape ''1'' = ''1''" "unescape ''2'' = ''2''" "unescape [] = []"
  by code_simp+

lemma parsed_swap: "parse_records swap_records Student 500 = Inr swap_file"
proof -
  have "map_headers Student (hd swap_records) = Inr ([(USERNAME, 0), (FULL_NAME, 1), (EMAIL, 2), (roll_column, 3)], [])"
    by (simp add: map_headers_def swap_records_def is_blank_def stripped swap_headers swap_keys_kept REQUIRED_HEADERS_def USERNAME_def FULL_NAME_def EMAIL_def roll_column_def profile_column_def)
  then show ?thesis
    by (simp add: parse_records_def swap_records_def blank_record_def is_blank_def stripped folds numbered_def csv_row_of_def plain_cells Let_def swap_file_def
      USERNAME_def FULL_NAME_def EMAIL_def roll_column_def profile_column_def)
qed

lemma allowed_swap: "authorize head_user Student (Some 7) (Some 8) import_db = Inr (Some import_section_a)" by code_simp

lemma start_swap: "numbers_ok (demo 0) import_db"
  by (simp add: numbers_ok_def accounts_ok_def profile_ok_def clash_def same_admission_def same_roll_def import_db_fields pupil_fields NUMBERS_def num_def folds)

end
