(* ===== verification/Import_Claims.thy ===== *)
theory Import_Claims
  imports Import_Demo
begin

text \<open>
  Types of the values of a plan: every value stands under a column of the user type and fits it, so the
  tables can store what the plan holds.
\<close>

definition cell_typed :: "ctx \<Rightarrow> column \<Rightarrow> cell \<Rightarrow> bool" where
  "cell_typed c co v \<longleftrightarrow> (case v of
     Day d \<Rightarrow> col_kind co = DateKind \<and> 1900 \<le> year_of d \<and> d \<le> latest_date c (col_name co)
   | Text x \<Rightarrow> col_kind co \<noteq> DateKind \<and> x \<noteq> [] \<and> (max_of co \<noteq> 0 \<longrightarrow> length x \<le> max_of co)
       \<and> (col_kind co = EmailKind \<longrightarrow> is_valid_email x) \<and> (col_kind co = PhoneKind \<longrightarrow> phone_ok x \<and> \<not> excel_number x))"

definition row_typed :: "ctx \<Rightarrow> column list \<Rightarrow> row_plan \<Rightarrow> bool" where
  "row_typed c cols r \<longleftrightarrow> (\<forall>n v. rp_values r n = Some v \<longrightarrow> (\<exists>co \<in> set cols. col_name co = n \<and> cell_typed c co v))"

lemma check_cell_typed: "raw \<noteq> [] \<Longrightarrow> rp_values (check_cell c co raw r) n = Some v \<Longrightarrow> rp_values r n = Some v \<or> n = col_name co \<and> cell_typed c co v"
  by (auto simp: check_cell_def Let_def add_error_def set_value_def cell_typed_def not_less split: if_splits option.splits)

lemma clean_cell_typed:
  assumes "row_typed c cols r" and "co \<in> set cols"
  shows "row_typed c cols (clean_cell c co raw r)"
  unfolding row_typed_def
proof (intro allI impI)
  fix n v assume v: "rp_values (clean_cell c co raw r) n = Some v"
  show "\<exists>co \<in> set cols. col_name co = n \<and> cell_typed c co v"
  proof (cases "raw = []")
    case True
    then show ?thesis using v assms(1) by (simp add: clean_cell_def row_typed_def)
  next
    case False
    then have "rp_values (check_cell c co raw r) n = Some v" using v by (simp add: clean_cell_def Let_def split: if_splits)
    from check_cell_typed [OF False this] show ?thesis using assms by (auto simp: row_typed_def)
  qed
qed

lemma clean_row_typed: "row_typed c cols (clean_row c cols cr)"
proof -
  have steps: "set xs \<subseteq> set cols \<Longrightarrow> row_typed c cols r \<Longrightarrow> row_typed c cols (fold (\<lambda>co r. clean_cell c co (cell_of cr (col_name co)) r) xs r)" for xs r
    by (induction xs arbitrary: r) (simp_all add: clean_cell_typed)
  show ?thesis unfolding clean_row_def by (rule steps [OF subset_refl]) (simp add: row_typed_def)
qed

subsection \<open>The steps of the plan\<close>

lemma more_errors_values: "more_errors r r' \<Longrightarrow> rp_values r' = rp_values r"
  by (auto simp: more_errors_def)

lemma grow_typed:
  assumes "rows_grow rows rows'" and "\<forall>r \<in> set rows. row_typed c cols r"
  shows "\<forall>r \<in> set rows'. row_typed c cols r"
proof
  have grown: "\<forall>r' \<in> set rows'. \<exists>r \<in> set rows. more_errors r r'" using assms(1) by (induction rule: list_all2_induct) auto
  fix r' assume "r' \<in> set rows'"
  then obtain r where "r \<in> set rows" "more_errors r r'" using grown by blast
  then show "row_typed c cols r'" using assms(2) by (simp add: row_typed_def more_errors_values)
qed

lemma grow_principal: "rows_grow rows (one_principal g s rows)"
  unfolding one_principal_def Let_def by (rule rows_grow_map) (simp split: option.split)

lemma grow_photos: "rows_grow rows (map (check_photo archive) rows)"
  by (rule rows_grow_map) (simp add: check_photo_def Let_def split: option.split)

lemma grow_cross: "rows_grow rows (cross_rows c g t sec s rows)"
proof -
  have "rows_grow rows (unique_student_numbers c g i s rows)" for i
    unfolding unique_student_numbers_def Let_def by (rule rows_grow_trans [OF rows_grow_trans [OF grow_repeated grow_repeated] grow_settle])
  then show ?thesis by (simp add: cross_rows_def grow_principal split: user_type.split option.split)
qed

lemma drop_password_typed: "row_typed c cols r \<Longrightarrow> row_typed c cols (drop_password r)"
  by (auto simp: row_typed_def drop_password_def split: if_splits)

lemma decided_typed: "r \<in> set (decided_rows c g t sec parsed s) \<Longrightarrow> row_typed c (pc_columns parsed) r"
proof -
  assume "r \<in> set (decided_rows c g t sec parsed s)"
  then obtain x f where x: "x \<in> set (mark_duplicate_usernames (cleaned c parsed))" "r = decide t sec (pc_columns parsed) f x"
    by (auto simp: decided_rows_def Let_def)
  have "row_typed c (pc_columns parsed) x" using grow_typed [OF grow_duplicates, of "cleaned c parsed"] x(1) by (auto simp: clean_row_typed)
  then show ?thesis by (simp add: x(2) row_typed_def decide_keeps)
qed

lemma built_typed:
  assumes "build c t sec parsed archive checked s = Inr p" and "r \<in> set (pl_rows p)"
  shows "row_typed c (pc_columns parsed) r"
proof -
  obtain g photos where rows: "pl_rows p = (if photos then map (check_photo archive) (cross_rows c g t sec s (map drop_password (decided_rows c g t sec parsed s)))
      else cross_rows c g t sec s (map drop_password (decided_rows c g t sec parsed s)))"
    using assms(1) by (auto simp: build_def Let_def)
  let ?D = "map drop_password (decided_rows c g t sec parsed s)"
  have "\<forall>r \<in> set ?D. row_typed c (pc_columns parsed) r" using decided_typed drop_password_typed by fastforce
  moreover have "rows_grow ?D (pl_rows p)" unfolding rows using rows_grow_trans [OF grow_cross grow_photos] grow_cross by simp
  ultimately show ?thesis using grow_typed assms(2) by blast
qed

subsection \<open>The columns of a file\<close>

lemma resolved_column: "resolve_headers t h = Some co \<Longrightarrow> co \<in> set (columns_for t)"
  by (auto simp: resolve_headers_def dest!: map_of_SomeD)

lemma header_cells_columns:
  "header_cells t i cells fs warns = Inr (fs', warns') \<Longrightarrow> (\<forall>(co, _, _) \<in> set fs. co \<in> set (columns_for t))
    \<Longrightarrow> (\<forall>(co, _, _) \<in> set fs'. co \<in> set (columns_for t))"
  by (induction t i cells fs warns rule: header_cells.induct) (auto split: if_splits option.splits dest: resolved_column)

lemma parsed_columns:
  assumes "parse_records records t limit = Inr parsed"
  shows "set (pc_columns parsed) \<subseteq> set (columns_for t)"
proof -
  obtain header positions warns where "map_headers t header = Inr (positions, warns)" "pc_columns parsed = map fst positions"
    using assms by (auto simp: parse_records_def Let_def split: list.splits if_splits)
  moreover from this obtain fs where "header_cells t 0 header [] [] = Inr fs" "positions = map (\<lambda>(co, i, _). (co, i)) (fst fs)"
    by (auto simp: map_headers_def Let_def split: if_splits)
  ultimately show ?thesis using header_cells_columns [of t 0 header "[]" "[]"] by (cases fs) (force simp: image_iff)
qed

lemma text_columns: "co \<in> set (columns_for t) \<Longrightarrow> col_kind co \<noteq> DateKind \<Longrightarrow> max_of co \<noteq> 0"
  by (auto simp: columns_for_def STUDENT_FIELDS_def TEACHER_FIELDS_def profile_column_def max_of_def USERNAME_def PASSWORD_def
    FULL_NAME_def EMAIL_def PHONE_def PHOTO_def PASSWORD_MAX_LENGTH_def EMAIL_MAX_LENGTH_def split: if_splits)


text \<open>
  What the bulk import promises: saving keeps the keys of the school whatever the file moves around, and the
  values of a plan fit the columns they are stored in.
\<close>

text \<open>C39: saving a student import never fails because a username, an admission number or a roll number is
  taken, even when the file swaps or shifts the numbers of a section. It fails without writing anything, or
  afterwards every key holds, every saved row has an account of its username and a profile in the section
  with the numbers the plan shows, and the students the file does not name keep their profile.\<close>

theorem import_keeps_numbers:
  assumes parsed: "parse_records records Student limit = Inr parsed" and auth: "authorize actor Student k i s = Inr (Some sec)"
    and fold: "fold_matches c" and num: "numbers_ok c s"
    and save: "save_import c actor Student (Some sec) parsed archive plan hashes stored s = (res, s')"
  shows "case res of
      Inl e \<Rightarrow> s' = s \<and> (e = Conflict CHANGED_WHILE_SAVING \<or> e = KeyError)
    | Inr p \<Rightarrow> numbers_ok c s'
        \<and> (\<forall>r \<in> set (pl_rows p). is_saved r \<longrightarrow> (\<exists>u \<in> set (users s'). \<exists>q \<in> set (student_profiles s').
              rp_user r = Some (u_id u) \<and> Some (u_org u) = bound_org s \<and> fold_text (u_username u) = fold_text (rp_username r)
            \<and> sp_user q = u_id u \<and> sp_section q = Some (is_section sec) \<and> (\<forall>n \<in> set NUMBERS. map_option fold_text (num n q) = final_key n r)))
        \<and> (\<forall>q \<in> set (student_profiles s). (\<forall>r \<in> set (pl_rows p). is_saved r \<longrightarrow> rp_user r \<noteq> Some (sp_user q)) \<longrightarrow> q \<in> set (student_profiles s'))"
proof -
  have "bound_org s \<noteq> None" using auth by (auto simp: authorize_def org_of_def split: option.splits)
  then obtain locked where b: "build c Student (Some sec) parsed archive True s = Inr locked"
    by (auto simp: build_def org_of_def Let_def)
  let ?S = "filter is_saved (pl_rows locked)"
  obtain g cand where g: "bound_org s = Some g" and plan: "plan_rows c g sec (pc_columns parsed) s cand ?S"
    using built_rows(1) [OF b parsed fold] by blast
  note built = built_rows(2-4) [OF b parsed fold]
  have dist: "distinct ?S" using built(1) by (simp add: distinct_map)
  note sec = authorized_section [OF auth g]
  show ?thesis
  proof (cases "signature locked = signature plan")
    case False
    then show ?thesis using save save_import_changed [OF b] by auto
  next
    case same: True
    obtain ares t where app: "apply_plan c locked hashes stored s = (ares, t)" by fastforce
    from applied [OF app built(2,3) refl g num plan fold sec dist] show ?thesis
    proof
      assume "ares = Inl KeyError"
      then show ?thesis using save save_import_missing [OF b same] app by auto
    next
      let ?creates = "filter (\<lambda>r. rp_action r = ACreate) ?S" and ?updates = "filter (\<lambda>r. rp_action r = AUpdate) ?S"
      assume "\<exists>own. ares = Inr (map (\<lambda>r. r\<lparr>rp_user := own r\<rparr>) ?creates, ?updates)
         \<and> owns_ok s ?S own \<and> (\<forall>r \<in> set ?S. rp_action r = ACreate \<longrightarrow> own r \<noteq> None) \<and> numbers_ok c t \<and> (\<forall>r \<in> set ?S. row_stored g sec t own r)
         \<and> (\<forall>x \<in> set (student_profiles s). others ?S own x \<longrightarrow> x \<in> set (student_profiles t))"
      then obtain own where ares: "ares = Inr (map (\<lambda>r. r\<lparr>rp_user := own r\<rparr>) ?creates, ?updates)" and own: "owns_ok s ?S own"
        and ok: "numbers_ok c t" "\<forall>r \<in> set ?S. row_stored g sec t own r" "\<forall>x \<in> set (student_profiles s). others ?S own x \<longrightarrow> x \<in> set (student_profiles t)"
        by blast
      define created where "created = map (\<lambda>r. r\<lparr>rp_user := own r\<rparr>) ?creates"
      define p where "p = (with_ids created locked)\<lparr>pl_warnings := pl_warnings plan\<rparr>"
      have res: "res = Inr p" "s' = audit_import c actor locked created ?updates t"
        using save save_import_applied [OF b same app [unfolded ares, folded created_def], where actor = actor] by (simp_all add: p_def)
      have own_kind: "(if rp_action q = ACreate then q\<lparr>rp_user := own q\<rparr> else q) = q\<lparr>rp_user := own q\<rparr>" if q: "q \<in> set ?S" for q
      proof -
        have "row_fits c g sec (pc_columns parsed) s q" using plan q by (simp add: plan_rows_def)
        from row_kind [OF this] have "rp_action q \<noteq> ACreate \<Longrightarrow> own q = rp_user q"
          using own q unfolding owns_ok_def by (cases "rp_existing q") auto
        then show ?thesis by simp
      qed
      have stored: "\<exists>u \<in> set (users s'). \<exists>q \<in> set (student_profiles s').
              rp_user r = Some (u_id u) \<and> Some (u_org u) = bound_org s \<and> fold_text (u_username u) = fold_text (rp_username r)
            \<and> sp_user q = u_id u \<and> sp_section q = Some (is_section sec) \<and> (\<forall>n \<in> set NUMBERS. map_option fold_text (num n q) = final_key n r)"
        if r: "r \<in> set (pl_rows p)" "is_saved r" for r
      proof -
        obtain q where q: "q \<in> set ?S" "r = q\<lparr>rp_user := own q\<rparr>"
          using shown_row [OF built(1) created_def, of r] r own_kind by (auto simp: p_def)
        then have "row_stored g sec s' own q" using ok(2) by (simp add: res row_stored_def has_account_def)
        then obtain u x where "u \<in> set (users s')" "own q = Some (u_id u)" "u_org u = g" "fold_text (u_username u) = fold_text (rp_username q)"
            "x \<in> set (student_profiles s')" "own q = Some (sp_user x)" "sp_section x = Some (is_section sec)"
            "\<forall>n \<in> set NUMBERS. map_option fold_text (num n x) = final_key n q"
          unfolding row_stored_def has_account_def by blast
        with q(2) g show ?thesis by (intro bexI [of _ u] bexI [of _ x]) simp_all
      qed
      have kept: "q \<in> set (student_profiles s')"
        if q: "q \<in> set (student_profiles s)" "\<forall>r \<in> set (pl_rows p). is_saved r \<longrightarrow> rp_user r \<noteq> Some (sp_user q)" for q
      proof -
        have "own r \<noteq> Some (sp_user q)" if r: "r \<in> set ?S" for r
          using row_shown [OF built(1) created_def, of r] own_kind [OF r] r q(2) by (auto simp: p_def)
        then have "others ?S own q" by (auto simp: others_def)
        then show ?thesis using ok(3) q(1) by (auto simp: res)
      qed
      have "numbers_ok c s'" using ok(1) numbers_ok_cong [of s' t] by (simp add: res)
      with stored kept show ?thesis by (simp only: res(1) sum.case) blast
    qed
  qed
qed

lemma import_keeps_numbers_witness:
  "\<exists>p t. save_import (demo 0) head_user Student (Some import_section_a) swap_file None swap_plan (\<lambda>_. None) (\<lambda>_. None) import_db = (Inr p, t)
    \<and> map sp_roll (student_profiles t) = [Some ''2'', Some ''1''] \<and> numbers_ok (demo 0) t"
proof -
  have "\<exists>p t. save_import (demo 0) head_user Student (Some import_section_a) swap_file None swap_plan (\<lambda>_. None) (\<lambda>_. None) import_db = (Inr p, t)
    \<and> map sp_roll (student_profiles t) = [Some ''2'', Some ''1'']" by (rule saved_swap)
  then show ?thesis
  proof (elim exE conjE)
    fix p t assume save: "save_import (demo 0) head_user Student (Some import_section_a) swap_file None swap_plan (\<lambda>_. None) (\<lambda>_. None) import_db = (Inr p, t)"
      and rolls: "map sp_roll (student_profiles t) = [Some ''2'', Some ''1'']"
    have "fold_matches (demo 0)" by (simp add: fold_matches_def)
    from import_keeps_numbers [OF parsed_swap allowed_swap this start_swap save] have "numbers_ok (demo 0) t" by simp
    with save rolls show ?thesis by (intro exI conjI)
  qed
qed

subsection \<open>What a plan holds\<close>

text \<open>C40: the plan of an import is well typed. Whatever the cells of the file hold, every value of every row
  stands under a column that accounts of this type have; it is a date, not before 1900 and not after the latest
  plausible one, exactly under a date column, and otherwise a text that is not empty, no longer than the
  database column, a valid address under email and a phone number under a phone column.\<close>

theorem import_values_typed:
  assumes "parse_records records t limit = Inr parsed" and "build c t sec parsed archive checked s = Inr p"
    and "r \<in> set (pl_rows p)" and "rp_values r n = Some v"
  shows "\<exists>co \<in> set (columns_for t). col_name co = n \<and> (case v of
      Day d \<Rightarrow> col_kind co = DateKind \<and> 1900 \<le> year_of d \<and> d \<le> latest_date c n
    | Text x \<Rightarrow> col_kind co \<noteq> DateKind \<and> x \<noteq> [] \<and> length x \<le> max_of co
        \<and> (col_kind co = EmailKind \<longrightarrow> is_valid_email x) \<and> (col_kind co = PhoneKind \<longrightarrow> phone_ok x))"
proof -
  obtain co where co: "co \<in> set (pc_columns parsed)" "col_name co = n" "cell_typed c co v"
    using built_typed [OF assms(2,3)] assms(4) by (auto simp: row_typed_def)
  then have "co \<in> set (columns_for t)" using parsed_columns [OF assms(1)] by blast
  with co text_columns show ?thesis by (intro bexI [of _ co]) (auto simp: cell_typed_def split: cell.split)
qed

lemma import_values_typed_witness:
  "\<exists>co \<in> set (columns_for Student). col_name co = ''roll_no'' \<and> length ''2'' \<le> max_of co"
  using import_values_typed [where r = "decided_swap 2 2 ''mira'' ''1'' ''2''" and n = "''roll_no''" and v = "Text ''2''", OF parsed_swap built_swap]
  by (auto simp: swap_plan_def swap_fields)

text \<open>
  A photo the archive does not have is a problem of its row, yet no other row of the file can be saved: the
  plan that is built again for saving skips the photos, so it never is the one that was checked.
\<close>

lemma bad_photo_blocks:
  assumes "build c t sec parsed archive False s = Inr plan" and "list_ex (\<lambda>co. col_name co = ''photo'') (pc_columns parsed)"
    and "build c t sec parsed archive True s = Inr locked" and "r \<in> set (pl_rows locked)" and "check_photo archive r \<noteq> r"
  shows "save_import c actor t sec parsed archive plan hashes stored s = (Inl (Conflict CHANGED_WHILE_SAVING), s)"
proof (rule save_import_changed [OF assms(3)])
  have rows: "pl_rows plan = map (check_photo archive) (pl_rows locked)"
    using assms(1-3) by (auto simp: build_def Let_def)
  have "more_errors r (check_photo archive r)" by (simp add: check_photo_def Let_def split: option.split)
  then have "rp_errors (check_photo archive r) \<noteq> rp_errors r" using assms(5) by (auto simp: more_errors_def)
  then have "map rp_errors (pl_rows plan) \<noteq> map rp_errors (pl_rows locked)" using assms(4) by (auto simp: rows)
  moreover have "map (\<lambda>(_, _, _, _, e). e) (signature q) = map rp_errors (pl_rows q)" for q by (simp add: signature_def)
  ultimately show "signature locked \<noteq> signature plan" by metis
qed

end
