(* ===== verification/Leaving.thy ===== *)
theory Leaving
  imports Accounts Sub_Responses
begin

text \<open>
  People leaving the school and coming back, \<^verbatim>\<open>app/services/leaving.py\<close>: an account is marked as left, never
  deleted. A name starting with \<open>left_\<close> is a part of \<open>mark_left\<close>.
\<close>

subsection \<open>Checks\<close>

definition USERNAME_TAKEN :: string where "USERNAME_TAKEN = ''Username already exists''"

definition username_taken :: "ctx \<Rightarrow> string \<Rightarrow> db \<Rightarrow> string option res" where
  "username_taken c username s = bindR (org_of s) (\<lambda>g.
     Inr (case one_where (\<lambda>u. u_org u = g \<and> sql_eq c (u_username u) username) (users s) of
         None \<Rightarrow> None
       | Some u \<Rightarrow> Some (if u_left_on u \<noteq> None
           then USERNAME_TAKEN @ '': it belongs to '' @ u_full_name u @ '', who is marked as left. ''
             @ ''Reactivate that account, or choose another username.''
           else USERNAME_TAKEN)))"

definition leaving_target :: "int \<Rightarrow> db \<Rightarrow> user_row res" where
  "leaving_target uid s = bindR (org_of s) (\<lambda>g.
     case one_where (\<lambda>u. u_id u = uid \<and> u_org u = g) (users s) of
       None \<Rightarrow> Inl (NotFound ''User not found'') | Some u \<Rightarrow> Inr u)"

definition check_rights :: "current_user \<Rightarrow> user_row \<Rightarrow> unit res" where
  "check_rights actor target =
     (if u_id target = cu_id actor then Inl (BadRequest (''You can'' @ [quote_char] @ ''t mark your own account as left''))
      else if u_type target \<in> set ADMIN_MANAGED \<and> cu_type actor \<noteq> Admin then Inl (Forbidden ''Only admin can change this account'')
      else Inr ())"

subsection \<open>Marking someone as left\<close>

text \<open>The account is closed and signed out everywhere.\<close>

definition left_account :: "ctx \<Rightarrow> int \<Rightarrow> string option \<Rightarrow> db \<Rightarrow> db" where
  "left_account c uid reason s = (let
       s1 = s\<lparr>users := update_where (\<lambda>u. u_id u = uid) (\<lambda>u. u\<lparr>u_active := False, u_left_on := Some (school_today c), u_left_reason := reason,
         u_token_version := u_token_version u + 1\<rparr>) (users s)\<rparr>;
       s2 = forget_user_devices uid (revoke_all c uid ''left'' s1)
     in s2\<lparr>reset_codes := delete_where (\<lambda>r. rc_user r = uid) (reset_codes s2)\<rparr>)"

definition left_student :: "int \<Rightarrow> int \<Rightarrow> db \<Rightarrow> db" where
  "left_student g uid s = s\<lparr>
     student_profiles := update_where (\<lambda>p. sp_user p = uid) (\<lambda>p. p\<lparr>sp_last_class := sp_class p, sp_last_section := sp_section p,
       sp_class := None, sp_section := None\<rparr>) (student_profiles s),
     shift_students := delete_where (\<lambda>x. so_student x = uid) (shift_students s),
     bus_students := delete_where (\<lambda>r. rd_student r = uid \<and> rd_org r = g) (bus_students s)\<rparr>"

text \<open>\<open>_close_open_substitutions\<close>; the count is of the rows each statement changed.\<close>

definition left_note :: string where "left_note = ''Left the school''"

definition answer_open :: "ctx \<Rightarrow> (sub_row \<Rightarrow> bool) \<Rightarrow> sub_status \<Rightarrow> sub_row list \<Rightarrow> sub_row list" where
  "answer_open c P st = update_where P (\<lambda>r. r\<lparr>r_status := st, r_responded_at := Some (mysql_now c), r_response_note := Some left_note,
     r_updated_at := mysql_now c\<rparr>)"

definition close_open_substitutions :: "ctx \<Rightarrow> int \<Rightarrow> int \<Rightarrow> date \<Rightarrow> db \<Rightarrow> int \<times> db" where
  "close_open_substitutions c g uid today s = (let
       mine = (\<lambda>st r. r_org r = g \<and> r_substitute r = uid \<and> r_status r = st \<and> today \<le> r_date r);
       theirs = (\<lambda>r. r_org r = g \<and> r_requester r = uid \<and> (r_status r = Pending \<or> r_status r = Accepted) \<and> today \<le> r_date r);
       r0 = sub_requests s;
       r1 = answer_open c (mine Pending) Declined r0;
       r2 = answer_open c (mine Accepted) Withdrawn r1;
       r3 = update_where theirs (\<lambda>r. r\<lparr>r_status := Cancelled, r_updated_at := mysql_now c\<rparr>) r2
     in (int (length (filter (mine Pending) r0)) + int (length (filter (mine Accepted) r1)) + int (length (filter theirs r2)),
         s\<lparr>sub_requests := r3\<rparr>))"

text \<open>Deleting a timetable slot leaves the requests made for it without one (\<open>ON DELETE SET NULL\<close>).\<close>

definition delete_slots :: "(slot_row \<Rightarrow> bool) \<Rightarrow> db \<Rightarrow> db" where
  "delete_slots P s = (let gone = map t_id (filter P (slots s)) in
     s\<lparr>slots := delete_where P (slots s),
       sub_requests := update_where (\<lambda>r. case r_slot r of None \<Rightarrow> False | Some i \<Rightarrow> i \<in> set gone) (\<lambda>r. r\<lparr>r_slot := None\<rparr>) (sub_requests s)\<rparr>)"

record staff_left =
  sl_assignments :: int
  sl_periods :: int
  sl_closed :: int
  sl_leaves :: int

definition left_staff :: "ctx \<Rightarrow> int \<Rightarrow> int \<Rightarrow> db \<Rightarrow> staff_left \<times> db" where
  "left_staff c g uid s = (let
       taught = (\<lambda>a. ta_teacher a = uid \<and> ta_org a = g);
       slot = (\<lambda>t. t_teacher t = uid \<and> t_org t = g);
       s1 = delete_slots slot (s\<lparr>assignments := delete_where taught (assignments s)\<rparr>);
       s2 = s1\<lparr>vehicles := update_where (\<lambda>v. v_driver v = Some uid \<and> v_org v = g) (\<lambda>v. v\<lparr>v_driver := None\<rparr>) (vehicles s1)\<rparr>;
       (closed, s3) = close_open_substitutions c g uid (school_today c) s2;
       waiting = (\<lambda>l. l_org l = g \<and> l_user l = uid \<and> l_status l = LPending)
     in (\<lparr>sl_assignments = int (length (filter taught (assignments s))), sl_periods = int (length (filter slot (slots s))),
          sl_closed = closed, sl_leaves = int (length (filter waiting (leaves s3)))\<rparr>,
         s3\<lparr>leaves := update_where waiting (\<lambda>l. l\<lparr>l_status := LCancelled\<rparr>) (leaves s3)\<rparr>))"

definition none_text :: "string option \<Rightarrow> string" where
  "none_text x = (case x of None \<Rightarrow> ''None'' | Some t \<Rightarrow> t)"

definition none_int :: "int option \<Rightarrow> string" where
  "none_int x = (case x of None \<Rightarrow> ''None'' | Some i \<Rightarrow> py_str_int i)"

definition profile_details :: "int \<Rightarrow> db \<Rightarrow> (string \<times> string) list" where
  "profile_details uid s = (case one_where (\<lambda>p. sp_user p = uid) (student_profiles s) of None \<Rightarrow> []
     | Some p \<Rightarrow> [(''class_id'', none_int (sp_class p)), (''section_id'', none_int (sp_section p)), (''roll_no'', none_text (sp_roll p))])"

definition clean_reason :: "string option \<Rightarrow> string option" where
  "clean_reason reason = or_none (take 255 (py_strip (str_or reason '''')))"

text \<open>What is current ends; the action and the details the audit log gets.\<close>

definition left_duties :: "ctx \<Rightarrow> int \<Rightarrow> user_type \<Rightarrow> int \<Rightarrow> (string \<times> (string \<times> string) list) handler" where
  "left_duties c g t uid = (if t = Student
     then bindH (reads (profile_details uid)) (\<lambda>d. bindH (writes (left_student g uid)) (\<lambda>_. ret (''student.left'', d)))
     else (\<lambda>s. let (n, s') = left_staff c g uid s in (Inr (''user.left'',
       [(''assignments_removed'', py_str_int (sl_assignments n)), (''periods_removed'', py_str_int (sl_periods n)),
        (''substitutions_closed'', py_str_int (sl_closed n)), (''leaves_cancelled'', py_str_int (sl_leaves n))]), s')))"

text \<open>The answer carries the date twice, as a day and, for older clients, under another key.\<close>

definition mark_left :: "ctx \<Rightarrow> current_user \<Rightarrow> int \<Rightarrow> string option \<Rightarrow> date handler" where
  "mark_left c actor uid reason0 = (let reason = clean_reason reason0 in transaction (
     bindH (query (leaving_target uid)) (\<lambda>target.
     bindH (query (\<lambda>_. check_rights actor target)) (\<lambda>_.
     bindH (check (u_left_on target = None) (Conflict ''This account is already marked as left'')) (\<lambda>_.
     bindH (query org_of) (\<lambda>g.
     bindH (writes (left_account c uid reason)) (\<lambda>_.
     let common = [(''username'', u_username target), (''user_type'', role_name (u_type target)), (''reason'', none_text reason)] in
     bindH (left_duties c g (u_type target) uid) (\<lambda>(action, details).
     bindH (writes (audit_record c (Some (cu_id actor)) action (Some ''user'') (Some (py_str_int uid)) (common @ details))) (\<lambda>_.
     ret (school_today c))))))))))"

subsection \<open>Coming back\<close>

text \<open>Where a reactivated student is put: the class, the section and whether the roll number was taken.\<close>

datatype placed = NotMoved | Placed int int bool | NeedsClass

definition section_again :: "int \<Rightarrow> student_profile_row \<Rightarrow> db \<Rightarrow> (int \<times> int) option" where
  "section_again g p s = (case (sp_last_class p, sp_last_section p) of
     (Some k, Some i) \<Rightarrow> if list_ex (\<lambda>x. se_id x = i \<and> se_class x = k \<and> se_org x = g) (sections s) then Some (k, i) else None
   | _ \<Rightarrow> None)"

definition roll_taken :: "ctx \<Rightarrow> student_profile_row \<Rightarrow> int \<Rightarrow> db \<Rightarrow> bool" where
  "roll_taken c p i s = (case sp_roll p of None \<Rightarrow> False
     | Some r \<Rightarrow> r \<noteq> [] \<and> list_ex (\<lambda>q. sp_section q = Some i \<and> (case sp_roll q of None \<Rightarrow> False | Some r' \<Rightarrow> sql_eq c r' r)) (student_profiles s))"

definition placed_again :: "bool \<Rightarrow> student_profile_row \<Rightarrow> student_profile_row" where
  "placed_again taken p = p\<lparr>sp_class := sp_last_class p, sp_section := sp_last_section p, sp_last_class := None, sp_last_section := None,
     sp_roll := (if taken then None else sp_roll p)\<rparr>"

text \<open>The statements meet the UNIQUE keys of the tables.\<close>

definition write_user :: "ctx \<Rightarrow> int \<Rightarrow> (user_row \<Rightarrow> user_row) \<Rightarrow> unit handler" where
  "write_user c uid f s = (case one_where (\<lambda>u. u_id u = uid) (users s) of None \<Rightarrow> (Inr (), s)
     | Some u \<Rightarrow> (case user_conflict c (filter (\<lambda>v. u_id v \<noteq> uid) (users s)) (f u) of
         Some k \<Rightarrow> (Inl (DuplicateKey (Some k)), s)
       | None \<Rightarrow> (Inr (), s\<lparr>users := update_where (\<lambda>v. u_id v = uid) f (users s)\<rparr>)))"

definition write_profile :: "ctx \<Rightarrow> int \<Rightarrow> (student_profile_row \<Rightarrow> student_profile_row) \<Rightarrow> unit handler" where
  "write_profile c uid f s = (case one_where (\<lambda>p. sp_user p = uid) (student_profiles s) of None \<Rightarrow> (Inr (), s)
     | Some p \<Rightarrow> (case number_conflict c (filter (\<lambda>q. sp_user q \<noteq> uid) (student_profiles s)) (f p) of
         Some k \<Rightarrow> (Inl (DuplicateKey (Some k)), s)
       | None \<Rightarrow> (Inr (), s\<lparr>student_profiles := update_where (\<lambda>q. sp_user q = uid) f (student_profiles s)\<rparr>)))"

definition place_student :: "ctx \<Rightarrow> int \<Rightarrow> int \<Rightarrow> placed handler" where
  "place_student c g uid s = (case one_where (\<lambda>p. sp_user p = uid) (student_profiles s) of
     None \<Rightarrow> (Inr NotMoved, s)
   | Some p \<Rightarrow> if sp_class p \<noteq> None then (Inr NotMoved, s)
       else (case section_again g p s of
           None \<Rightarrow> (Inr NeedsClass, s)
         | Some (k, i) \<Rightarrow> (let taken = roll_taken c p i s in
             bindH (write_profile c uid (placed_again taken)) (\<lambda>_. ret (Placed k i taken)) s)))"

definition reactivate :: "ctx \<Rightarrow> current_user \<Rightarrow> int \<Rightarrow> placed handler" where
  "reactivate c actor uid = transaction (
     bindH (query (leaving_target uid)) (\<lambda>target.
     bindH (query (\<lambda>_. check_rights actor target)) (\<lambda>_.
     bindH (check (\<not> (u_active target \<and> u_left_on target = None)) (Conflict ''This account is already active'')) (\<lambda>_.
     bindH (query org_of) (\<lambda>g.
     bindH (reads (\<lambda>s. list_ex (\<lambda>u. u_org u = g \<and> u_type u = Principal \<and> u_left_on u = None \<and> u_id u \<noteq> uid) (users s))) (\<lambda>other.
     bindH (check (\<not> (u_type target = Principal \<and> other)) (Conflict ''The school already has a principal. Only one principal is allowed.'')) (\<lambda>_.
     bindH (write_user c uid (\<lambda>u. u\<lparr>u_active := True, u_left_on := None, u_left_reason := None\<rparr>)) (\<lambda>_.
     bindH (if u_type target = Student then place_student c g uid else ret NotMoved) (\<lambda>placed.
     bindH (writes (audit_record c (Some (cu_id actor)) ''user.reactivate'' (Some ''user'') (Some (py_str_int uid))
        [(''username'', u_username target)])) (\<lambda>_. ret placed))))))))))"

end
