(* ===== verification/People.thy ===== *)
theory People
  imports Leaving Import_Cells
begin

text \<open>
  Staff accounts, \<^verbatim>\<open>app/services/users.py\<close>, and students, \<^verbatim>\<open>app/services/students.py\<close>, with the bodies their
  forms accept. A field of an update that the request may leave out is an option of the field's type.
\<close>

subsection \<open>Bodies\<close>

text \<open>\<open>clean_email\<close>: blank values are passed through; a bad address is refused by the form.\<close>

definition clean_email :: "string option \<Rightarrow> string option res" where
  "clean_email v = (if opt_is_blank (map_option py_strip v) then Inr v
     else (let t = py_strip (the v) in if is_valid_email t then Inr (Some t) else Inl ValueError))"

definition email_required :: "ctx \<Rightarrow> string option \<Rightarrow> unit res" where
  "email_required c v = (if require_user_email (conf c) \<and> py_strip (str_or v '''') = [] then Inl ValueError else Inr ())"

definition blank_is_none :: "string option \<Rightarrow> string option" where
  "blank_is_none v = or_none (py_strip (str_or v ''''))"

record teacher_info =
  ti_designation :: "string option"
  ti_subject :: "string option"
  ti_qualification :: "string option"
  ti_joining :: "date option"
  ti_address :: "string option"

record staff_body =
  st_username :: string
  st_password :: string
  st_full_name :: string
  st_email :: "string option"
  st_phone :: "string option"
  st_type :: user_type
  st_info :: "teacher_info option"

text \<open>\<open>StaffCreate\<close>: the lengths, the address and, where the school asks for one, that it is there.\<close>

definition staff_create :: "ctx \<Rightarrow> staff_body \<Rightarrow> staff_body res" where
  "staff_create c b =
     (if length (st_username b) < 3 \<or> 50 < length (st_username b) \<or> length (st_password b) < 6
        \<or> PASSWORD_MAX_LENGTH < length (st_password b) \<or> st_type b = Student then Inl ValueError
      else bindR (clean_email (st_email b)) (\<lambda>e. bindR (email_required c e) (\<lambda>_. Inr (b\<lparr>st_email := e\<rparr>))))"

record staff_update =
  up_full_name :: "string option"
  up_email :: "string option option"
  up_phone :: "string option option"

text \<open>\<open>StaffUpdate\<close>: a name that is sent is not empty; the address is checked when it is sent.\<close>

definition staff_change :: "ctx \<Rightarrow> staff_update \<Rightarrow> staff_update res" where
  "staff_change c b =
     (if (case up_full_name b of None \<Rightarrow> False | Some n \<Rightarrow> n = [] \<or> 100 < length n)
        \<or> (case up_phone b of Some (Some p) \<Rightarrow> 20 < length p | _ \<Rightarrow> False) then Inl ValueError
      else bindR (case up_email b of None \<Rightarrow> Inr None
        | Some e \<Rightarrow> bindR (clean_email e) (\<lambda>e'. bindR (email_required c e') (\<lambda>_. Inr (Some e')))) (\<lambda>e. Inr (b\<lparr>up_email := e\<rparr>)))"

subsection \<open>Staff\<close>

definition ensure_no_other_principal :: "int option \<Rightarrow> db \<Rightarrow> unit res" where
  "ensure_no_other_principal uid s = bindR (org_of s) (\<lambda>g.
     case one_where (\<lambda>u. u_org u = g \<and> u_type u = Principal \<and> u_left_on u = None) (users s) of
       Some u \<Rightarrow> if Some (u_id u) \<noteq> uid
         then Inl (Conflict (''There is already a principal ('' @ u_username u @ ''). Only one principal is allowed.'')) else Inr ()
     | None \<Rightarrow> Inr ())"

definition new_account :: "ctx \<Rightarrow> int \<Rightarrow> string \<Rightarrow> string \<Rightarrow> string \<Rightarrow> string option \<Rightarrow> string option \<Rightarrow> user_type \<Rightarrow> user_row" where
  "new_account c g username password name email phone t = \<lparr>u_id = 0, u_org = g, u_username = username, u_password_hash = hash_password c password,
     u_full_name = name, u_email = email, u_phone = phone, u_photo = None, u_type = t, u_active = True, u_left_on = None, u_left_reason = None,
     u_token_version = 0, u_must_change = False, u_password_changed_at = None\<rparr>"

text \<open>The insert of an account gives its id; \<open>Username already exists\<close> is the answer to the key a race meets.\<close>

definition insert_account :: "ctx \<Rightarrow> (string option \<Rightarrow> bool) \<Rightarrow> user_row \<Rightarrow> int handler" where
  "insert_account c mine u s = (case insert_user c u s of
     (Inl (DuplicateKey k), s') \<Rightarrow> (if mine k then (Inl (Conflict USERNAME_TAKEN), s') else (Inl (DuplicateKey k), s'))
   | (Inl e, s') \<Rightarrow> (Inl e, s')
   | (Inr _, s') \<Rightarrow> (Inr (next_user s), s'))"

definition refuse_taken :: "string option \<Rightarrow> unit res" where
  "refuse_taken t = (case t of None \<Rightarrow> Inr () | Some m \<Rightarrow> Inl (Conflict m))"

definition info_row :: "int \<Rightarrow> teacher_info \<Rightarrow> teacher_profile_row" where
  "info_row uid t = \<lparr>tp_user = uid, tp_designation = ti_designation t, tp_subject = ti_subject t, tp_qualification = ti_qualification t,
     tp_joining = ti_joining t, tp_address = ti_address t\<rparr>"

definition no_info :: teacher_info where
  "no_info = \<lparr>ti_designation = None, ti_subject = None, ti_qualification = None, ti_joining = None, ti_address = None\<rparr>"

definition create_staff :: "ctx \<Rightarrow> current_user \<Rightarrow> staff_body \<Rightarrow> int handler" where
  "create_staff c actor b =
     bindH (check (\<not> (st_type b \<in> set ADMIN_MANAGED \<and> cu_type actor \<noteq> Admin)) (Forbidden ''Only admin can create admin/principal/sub-admin accounts'')) (\<lambda>_.
     transaction (
     bindH (query (\<lambda>s. if st_type b = Principal then ensure_no_other_principal None s else Inr ())) (\<lambda>_.
     bindH (query (username_taken c (st_username b))) (\<lambda>taken.
     bindH (query (\<lambda>_. refuse_taken taken)) (\<lambda>_.
     bindH (query org_of) (\<lambda>g.
     bindH (insert_account c (\<lambda>k. k = None \<or> k = Some ''uq_users_org_username'')
       (new_account c g (st_username b) (st_password b) (st_full_name b) (st_email b) (st_phone b) (st_type b))) (\<lambda>uid.
     bindH (if st_type b = Teacher then insert_teacher_profile (info_row uid (case st_info b of None \<Rightarrow> no_info | Some t \<Rightarrow> t)) else ret ()) (\<lambda>_.
     bindH (writes (audit_record c (Some (cu_id actor)) ''user.create'' (Some ''user'') (Some (py_str_int uid))
        [(''username'', st_username b), (''user_type'', role_name (st_type b))])) (\<lambda>_. ret uid)))))))))"

definition user_in :: "int \<Rightarrow> int \<Rightarrow> db \<Rightarrow> user_row option" where
  "user_in g uid s = one_where (\<lambda>u. u_id u = uid \<and> u_org u = g) (users s)"

definition changed_fields :: "(string \<times> bool) list \<Rightarrow> string" where
  "changed_fields fs = ''['' @ py_join '', '' (map (\<lambda>(n, _). quote_char # n @ [quote_char]) (filter snd fs)) @ '']''"

definition merge :: "'a option \<Rightarrow> 'a \<Rightarrow> 'a" where
  "merge change current = (case change of None \<Rightarrow> current | Some v \<Rightarrow> v)"

definition rewrite_user :: "int \<Rightarrow> (user_row \<Rightarrow> user_row) \<Rightarrow> db \<Rightarrow> db" where
  "rewrite_user uid f s = s\<lparr>users := update_where (\<lambda>u. u_id u = uid) f (users s)\<rparr>"

definition staff_fields :: "staff_update \<Rightarrow> user_row \<Rightarrow> user_row \<Rightarrow> user_row" where
  "staff_fields b u v = v\<lparr>u_full_name := merge (up_full_name b) (u_full_name u), u_email := merge (up_email b) (u_email u),
     u_phone := merge (up_phone b) (u_phone u)\<rparr>"

definition update_staff :: "ctx \<Rightarrow> current_user \<Rightarrow> int \<Rightarrow> staff_update \<Rightarrow> unit handler" where
  "update_staff c actor uid b = transaction (
     bindH (query org_of) (\<lambda>g.
     bindH (found (user_in g uid) (NotFound ''User not found'')) (\<lambda>u.
     bindH (check (u_type u \<noteq> Student) (BadRequest ''Students are edited with PUT /students/{id}'')) (\<lambda>_.
     bindH (check (\<not> (u_type u \<in> set ADMIN_MANAGED \<and> cu_type actor \<noteq> Admin)) (Forbidden ''Only admin can edit this account'')) (\<lambda>_.
     bindH (writes (rewrite_user uid (staff_fields b u))) (\<lambda>_.
     writes (audit_record c (Some (cu_id actor)) ''user.update'' (Some ''user'') (Some (py_str_int uid))
       [(''fields'', changed_fields [(''email'', up_email b \<noteq> None), (''full_name'', up_full_name b \<noteq> None), (''phone'', up_phone b \<noteq> None)])])))))))"

datatype status_filter = OnlyActive | OnlyLeft | Everyone

definition in_status :: "status_filter \<Rightarrow> user_row \<Rightarrow> bool" where
  "in_status f u = (case f of OnlyActive \<Rightarrow> u_left_on u = None | OnlyLeft \<Rightarrow> u_left_on u \<noteq> None | Everyone \<Rightarrow> True)"

text \<open>\<open>list_users\<close> before it is ordered and cut into pages.\<close>

definition listed_users :: "user_type option \<Rightarrow> status_filter \<Rightarrow> db \<Rightarrow> user_row list res" where
  "listed_users t f s = bindR (org_of s) (\<lambda>g. Inr (filter (\<lambda>u. u_org u = g \<and> (case t of None \<Rightarrow> u_type u \<noteq> Student | Some t \<Rightarrow> u_type u = t)
     \<and> in_status f u) (users s)))"

definition delete_user :: "ctx \<Rightarrow> current_user \<Rightarrow> int \<Rightarrow> string option \<Rightarrow> date handler" where
  "delete_user c actor uid reason = mark_left c actor uid reason"

text \<open>\<open>save_upload\<close> is storage: the path it gives, or its error.\<close>

definition upload_photo :: "current_user \<Rightarrow> int \<Rightarrow> string res \<Rightarrow> string handler" where
  "upload_photo actor uid stored = transaction (
     bindH (query org_of) (\<lambda>g.
     bindH (found (user_in g uid) (NotFound ''User not found'')) (\<lambda>u.
     bindH (query (\<lambda>s. if u_type u = Student
         then (let p = one_where (\<lambda>p. sp_user p = uid) (student_profiles s) in
           ensure_can_edit_students actor (Option.bind p sp_class) (Option.bind p sp_section) s)
         else if \<not> is_manager (cu_type actor) then Inl (Forbidden ''Not allowed'') else Inr ())) (\<lambda>_.
     bindH (query (\<lambda>_. stored)) (\<lambda>path.
     bindH (writes (rewrite_user uid (u_photo_update (\<lambda>_. Some path)))) (\<lambda>_. ret path))))))"

record info_update =
  iu_designation :: "string option option"
  iu_subject :: "string option option"
  iu_qualification :: "string option option"
  iu_joining :: "date option option"
  iu_address :: "string option option"

definition merged_info :: "info_update \<Rightarrow> int \<Rightarrow> teacher_profile_row option \<Rightarrow> teacher_profile_row" where
  "merged_info b uid p = (let old = (\<lambda>f. Option.bind p f) in
     \<lparr>tp_user = uid, tp_designation = merge (iu_designation b) (old tp_designation), tp_subject = merge (iu_subject b) (old tp_subject),
       tp_qualification = merge (iu_qualification b) (old tp_qualification), tp_joining = merge (iu_joining b) (Option.bind p tp_joining),
       tp_address = merge (iu_address b) (old tp_address)\<rparr>)"

definition update_teacher_info :: "int \<Rightarrow> info_update \<Rightarrow> unit handler" where
  "update_teacher_info uid b = transaction (
     bindH (query org_of) (\<lambda>g.
     bindH (found (\<lambda>s. one_where (\<lambda>u. u_id u = uid \<and> u_org u = g \<and> u_type u = Teacher) (users s)) (NotFound ''Teacher not found'')) (\<lambda>_.
     bindH (reads (\<lambda>s. one_where (\<lambda>p. tp_user p = uid) (teacher_profiles s))) (\<lambda>p.
     let row = merged_info b uid p in
     writes (\<lambda>s. s\<lparr>teacher_profiles := (case p of None \<Rightarrow> teacher_profiles s @ [row]
       | Some _ \<Rightarrow> update_where (\<lambda>q. tp_user q = uid) (\<lambda>_. row) (teacher_profiles s))\<rparr>)))))"

subsection \<open>Students\<close>

record student_body =
  sb_username :: string
  sb_password :: string
  sb_class :: int
  sb_section :: int
  sb_full_name :: string
  sb_email :: "string option"
  sb_phone :: "string option"
  sb_roll :: "string option"
  sb_admission :: "string option"
  sb_dob :: "date option"
  sb_father :: "string option"
  sb_mother :: "string option"
  sb_guardian_phone :: "string option"
  sb_address :: "string option"

definition student_create :: "ctx \<Rightarrow> student_body \<Rightarrow> student_body res" where
  "student_create c b =
     (if length (sb_username b) < 3 \<or> 50 < length (sb_username b) \<or> length (sb_password b) < 6 \<or> PASSWORD_MAX_LENGTH < length (sb_password b)
      then Inl ValueError
      else bindR (clean_email (sb_email b)) (\<lambda>e. bindR (email_required c e) (\<lambda>_.
        Inr (b\<lparr>sb_email := e, sb_roll := blank_is_none (sb_roll b), sb_admission := blank_is_none (sb_admission b)\<rparr>))))"

definition ensure_section_in_class :: "int option \<Rightarrow> int option \<Rightarrow> db \<Rightarrow> unit res" where
  "ensure_section_in_class class_id section_id s = bindR (org_of s) (\<lambda>g.
     if list_ex (\<lambda>x. Some (se_id x) = section_id \<and> Some (se_class x) = class_id \<and> se_org x = g) (sections s) then Inr ()
     else Inl (NotFound ''Section not found in that class''))"

definition body_profile :: "int \<Rightarrow> int \<Rightarrow> student_body \<Rightarrow> student_profile_row" where
  "body_profile g uid b = \<lparr>sp_user = uid, sp_org = g, sp_class = Some (sb_class b), sp_section = Some (sb_section b), sp_last_class = None,
     sp_last_section = None, sp_roll = sb_roll b, sp_admission = sb_admission b, sp_dob = sb_dob b, sp_father = sb_father b,
     sp_mother = sb_mother b, sp_guardian_phone = sb_guardian_phone b, sp_address = sb_address b\<rparr>"

definition create_student :: "ctx \<Rightarrow> current_user \<Rightarrow> student_body \<Rightarrow> int handler" where
  "create_student c actor b = transaction (
     bindH (query (ensure_can_edit_students actor (Some (sb_class b)) (Some (sb_section b)))) (\<lambda>_.
     bindH (query (ensure_section_in_class (Some (sb_class b)) (Some (sb_section b)))) (\<lambda>_.
     bindH (query (username_taken c (sb_username b))) (\<lambda>taken.
     bindH (query (\<lambda>_. refuse_taken taken)) (\<lambda>_.
     bindH (query org_of) (\<lambda>g.
     bindH (insert_account c (\<lambda>_. True) (new_account c g (sb_username b) (sb_password b) (sb_full_name b) (sb_email b) (sb_phone b) Student)) (\<lambda>uid.
     bindH (insert_profile c (body_profile g uid b)) (\<lambda>_.
     bindH (writes (audit_record c (Some (cu_id actor)) ''student.create'' (Some ''user'') (Some (py_str_int uid))
        [(''class_id'', py_str_int (sb_class b)), (''section_id'', py_str_int (sb_section b))])) (\<lambda>_. ret uid)))))))))"

text \<open>\<open>get_student\<close>: the account and its profile, which the left joins may leave out.\<close>

definition get_student :: "int \<Rightarrow> db \<Rightarrow> (user_row \<times> student_profile_row option) res" where
  "get_student uid s = bindR (org_of s) (\<lambda>g.
     case one_where (\<lambda>u. u_id u = uid \<and> u_org u = g \<and> u_type u = Student) (users s) of
       None \<Rightarrow> Inl (NotFound ''Student not found'')
     | Some u \<Rightarrow> Inr (u, one_where (\<lambda>p. sp_user p = uid) (student_profiles s)))"

definition viewable_student :: "current_user \<Rightarrow> int \<Rightarrow> db \<Rightarrow> (user_row \<times> student_profile_row option) res" where
  "viewable_student user uid s = bindR (get_student uid s) (\<lambda>(u, p).
     bindR (ensure_can_view_section user (Option.bind p sp_class) (Option.bind p sp_section) s) (\<lambda>_. Inr (u, p)))"

record student_update =
  su_full_name :: string
  su_email :: "string option option"
  su_phone :: "string option option"
  su_class :: "int option option"
  su_section :: "int option option"
  su_roll :: "string option option"
  su_admission :: "string option option"
  su_dob :: "date option option"
  su_father :: "string option option"
  su_mother :: "string option option"
  su_guardian_phone :: "string option option"
  su_address :: "string option option"

definition clean_update :: "ctx \<Rightarrow> student_update \<Rightarrow> student_update res" where
  "clean_update c b = bindR (case su_email b of None \<Rightarrow> Inr None
       | Some e \<Rightarrow> bindR (clean_email e) (\<lambda>e'. bindR (email_required c e') (\<lambda>_. Inr (Some e')))) (\<lambda>e.
     Inr (b\<lparr>su_email := e, su_roll := map_option blank_is_none (su_roll b), su_admission := map_option blank_is_none (su_admission b)\<rparr>))"

definition student_fields :: "student_update \<Rightarrow> user_row \<Rightarrow> user_row \<Rightarrow> user_row" where
  "student_fields b u v = v\<lparr>u_full_name := su_full_name b, u_email := merge (su_email b) (u_email u), u_phone := merge (su_phone b) (u_phone u)\<rparr>"

text \<open>A field that is sent with a value, not left out and not null.\<close>

definition has_value :: "'a option option \<Rightarrow> bool" where
  "has_value change = (case change of Some (Some _) \<Rightarrow> True | _ \<Rightarrow> False)"

definition given_or :: "int option option \<Rightarrow> int option \<Rightarrow> int option" where
  "given_or change old = (case change of Some (Some v) \<Rightarrow> Some v | _ \<Rightarrow> old)"

definition moved_profile :: "student_update \<Rightarrow> int option \<Rightarrow> int option \<Rightarrow> student_profile_row option \<Rightarrow> student_profile_row \<Rightarrow> student_profile_row" where
  "moved_profile b new_class new_section p q = (let old = (\<lambda>f. Option.bind p f) in
     q\<lparr>sp_class := new_class, sp_section := new_section, sp_roll := merge (su_roll b) (old sp_roll),
       sp_admission := merge (su_admission b) (old sp_admission), sp_dob := merge (su_dob b) (Option.bind p sp_dob),
       sp_father := merge (su_father b) (old sp_father), sp_mother := merge (su_mother b) (old sp_mother),
       sp_guardian_phone := merge (su_guardian_phone b) (old sp_guardian_phone), sp_address := merge (su_address b) (old sp_address)\<rparr>)"

definition update_fields :: "student_update \<Rightarrow> string" where
  "update_fields b = changed_fields [(''address'', su_address b \<noteq> None), (''admission_no'', su_admission b \<noteq> None), (''class_id'', su_class b \<noteq> None),
     (''dob'', su_dob b \<noteq> None), (''email'', su_email b \<noteq> None), (''father_name'', su_father b \<noteq> None), (''full_name'', True),
     (''guardian_phone'', su_guardian_phone b \<noteq> None), (''mother_name'', su_mother b \<noteq> None), (''phone'', su_phone b \<noteq> None),
     (''roll_no'', su_roll b \<noteq> None), (''section_id'', su_section b \<noteq> None)]"

definition update_student :: "ctx \<Rightarrow> current_user \<Rightarrow> int \<Rightarrow> student_update \<Rightarrow> unit handler" where
  "update_student c user uid b = transaction (
     bindH (query (get_student uid)) (\<lambda>(u, p).
     let old_class = Option.bind p sp_class; old_section = Option.bind p sp_section;
         new_class = given_or (su_class b) old_class;
         new_section = given_or (su_section b) old_section;
         moving = (new_class, new_section) \<noteq> (old_class, old_section) in
     bindH (query (ensure_can_edit_students user old_class old_section)) (\<lambda>_.
     bindH (check (\<not> (u_left_on u \<noteq> None \<and> (has_value (su_class b) \<or> has_value (su_section b))))
       (Conflict ''This student is marked as left. Reactivate them before moving them to a class.'')) (\<lambda>_.
     bindH (query (\<lambda>s. if moving then ensure_section_in_class new_class new_section s else Inr ())) (\<lambda>_.
     bindH (query (\<lambda>s. if moving then ensure_can_edit_students user new_class new_section s else Inr ())) (\<lambda>_.
     bindH (writes (rewrite_user uid (student_fields b u))) (\<lambda>_.
     bindH (write_profile c uid (moved_profile b new_class new_section p)) (\<lambda>_.
     writes (audit_record c (Some (cu_id user)) ''student.update'' (Some ''user'') (Some (py_str_int uid))
       [(''fields'', update_fields b), (''class_id'', none_int new_class), (''section_id'', none_int new_section)])))))))))"

definition delete_student :: "ctx \<Rightarrow> current_user \<Rightarrow> int \<Rightarrow> string option \<Rightarrow> date handler" where
  "delete_student c user uid reason =
     bindH (check (is_manager (cu_type user)) (Forbidden ''Only the school office can mark a student as left'')) (\<lambda>_.
     bindH (query (get_student uid)) (\<lambda>_. mark_left c user uid reason))"

end
