(* ===== verification/Leaving_Props.thy ===== *)
theory Leaving_Props
  imports People Import_Claims Sub_Props Auth_Tokens
begin

text \<open>
  What leaving does to a school, step by step: the account, the sessions, the duties and the substitution
  requests; and what coming back restores.
\<close>

lemma ball_update_where: "(\<forall>x \<in> set (update_where P f xs). Q x) \<longleftrightarrow> (\<forall>x \<in> set xs. Q (if P x then f x else x))"
  by (auto simp: set_update_where)

subsection \<open>The statements of \<open>mark_left\<close>\<close>

lemma left_account_fields:
  "users (left_account c uid reason s) = update_where (\<lambda>u. u_id u = uid) (\<lambda>u. u\<lparr>u_active := False, u_left_on := Some (school_today c), u_left_reason := reason,
     u_token_version := u_token_version u + 1\<rparr>) (users s)"
  "student_profiles (left_account c uid reason s) = student_profiles s" "sections (left_account c uid reason s) = sections s"
  "classes (left_account c uid reason s) = classes s" "next_user (left_account c uid reason s) = next_user s"
  "sub_requests (left_account c uid reason s) = sub_requests s" "leaves (left_account c uid reason s) = leaves s"
  "assignments (left_account c uid reason s) = assignments s" "slots (left_account c uid reason s) = slots s"
  "vehicles (left_account c uid reason s) = vehicles s" "fees (left_account c uid reason s) = fees s"
  "payments (left_account c uid reason s) = payments s" "attendance (left_account c uid reason s) = attendance s"
  "bound_org (left_account c uid reason s) = bound_org s" "audit (left_account c uid reason s) = audit s"
  "teacher_profiles (left_account c uid reason s) = teacher_profiles s"
  "devices (left_account c uid reason s) = delete_where (\<lambda>d. d_user d = uid) (devices s)"
  "reset_codes (left_account c uid reason s) = delete_where (\<lambda>r. rc_user r = uid) (reset_codes s)"
  "shift_students (left_account c uid reason s) = shift_students s" "bus_students (left_account c uid reason s) = bus_students s"
  by (simp_all add: left_account_def Let_def revoke_all_def forget_user_devices_def)

lemma left_account_sessions: "live_count uid (left_account c uid reason s) = 0"
proof -
  have "live_count uid (left_account c uid reason s) = live_count uid (revoke_all c uid ''left'' (s\<lparr>users := users (left_account c uid reason s)\<rparr>))"
    by (simp add: live_count_def left_account_fields) (simp add: left_account_def Let_def forget_user_devices_def revoke_all_def)
  then show ?thesis by (simp add: revoke_all_none_live)
qed

lemma left_student_fields:
  "users (left_student g uid s) = users s" "sections (left_student g uid s) = sections s" "sessions (left_student g uid s) = sessions s"
  "next_user (left_student g uid s) = next_user s" "devices (left_student g uid s) = devices s"
  "sub_requests (left_student g uid s) = sub_requests s" "leaves (left_student g uid s) = leaves s"
  "assignments (left_student g uid s) = assignments s" "slots (left_student g uid s) = slots s" "vehicles (left_student g uid s) = vehicles s"
  "fees (left_student g uid s) = fees s" "payments (left_student g uid s) = payments s" "attendance (left_student g uid s) = attendance s"
  "reset_codes (left_student g uid s) = reset_codes s" "classes (left_student g uid s) = classes s" "audit (left_student g uid s) = audit s"
  by (simp_all add: left_student_def)

text \<open>The substitution requests a leaving teacher leaves behind, row by row.\<close>

definition slot_gone :: "int list \<Rightarrow> sub_row \<Rightarrow> sub_row" where
  "slot_gone gone r = (case r_slot r of None \<Rightarrow> r | Some i \<Rightarrow> if i \<in> set gone then r\<lparr>r_slot := None\<rparr> else r)"

definition left_request :: "ctx \<Rightarrow> int \<Rightarrow> int \<Rightarrow> int list \<Rightarrow> sub_row \<Rightarrow> sub_row" where
  "left_request c g uid gone r0 = (let r = slot_gone gone r0 in
     if r_org r = g \<and> school_today c \<le> r_date r \<and> is_open (r_status r)
     then if r_substitute r = uid
       then r\<lparr>r_status := (if r_status r = Pending then Declined else Withdrawn), r_responded_at := Some (mysql_now c),
         r_response_note := Some left_note, r_updated_at := mysql_now c\<rparr>
       else if r_requester r = uid then r\<lparr>r_status := Cancelled, r_updated_at := mysql_now c\<rparr> else r
     else r)"

lemma slot_gone_fields [simp]:
  "r_org (slot_gone gone r) = r_org r" "r_status (slot_gone gone r) = r_status r" "r_date (slot_gone gone r) = r_date r"
  "r_substitute (slot_gone gone r) = r_substitute r" "r_requester (slot_gone gone r) = r_requester r"
  "r_leave (slot_gone gone r) = r_leave r" "r_id (slot_gone gone r) = r_id r" "r_period (slot_gone gone r) = r_period r"
  by (simp_all add: slot_gone_def split: option.split)

lemma slot_gone_update: "(if (case r_slot r of None \<Rightarrow> False | Some i \<Rightarrow> i \<in> set gone) then r\<lparr>r_slot := None\<rparr> else r) = slot_gone gone r"
  by (simp add: slot_gone_def split: option.split)

lemma left_staff_fields:
  assumes "left_staff c g uid s = (n, s')"
  shows "users s' = users s" "sections s' = sections s" "sessions s' = sessions s" "next_user s' = next_user s" "devices s' = devices s"
    "student_profiles s' = student_profiles s" "fees s' = fees s" "payments s' = payments s" "attendance s' = attendance s" "reset_codes s' = reset_codes s"
    "classes s' = classes s" "audit s' = audit s" "assignments s' = delete_where (\<lambda>a. ta_teacher a = uid \<and> ta_org a = g) (assignments s)"
    "slots s' = delete_where (\<lambda>t. t_teacher t = uid \<and> t_org t = g) (slots s)"
    "vehicles s' = update_where (\<lambda>v. v_driver v = Some uid \<and> v_org v = g) (\<lambda>v. v\<lparr>v_driver := None\<rparr>) (vehicles s)"
    "leaves s' = update_where (\<lambda>l. l_org l = g \<and> l_user l = uid \<and> l_status l = LPending) (\<lambda>l. l\<lparr>l_status := LCancelled\<rparr>) (leaves s)"
  using assms by (auto simp: left_staff_def delete_slots_def close_open_substitutions_def Let_def)

lemma close_open_rows:
  "sub_requests (snd (close_open_substitutions c g uid today s)) = map (\<lambda>r.
     if r_org r = g \<and> today \<le> r_date r \<and> is_open (r_status r)
     then if r_substitute r = uid
       then r\<lparr>r_status := (if r_status r = Pending then Declined else Withdrawn), r_responded_at := Some (mysql_now c),
         r_response_note := Some left_note, r_updated_at := mysql_now c\<rparr>
       else if r_requester r = uid then r\<lparr>r_status := Cancelled, r_updated_at := mysql_now c\<rparr> else r
     else r) (sub_requests s)"
  unfolding close_open_substitutions_def Let_def snd_conv answer_open_def update_where_def map_map
  apply (rule trans [OF subs.rows_set])
  apply (rule map_cong [OF refl])
  subgoal for r
    by (cases "r_org r = g"; cases "today \<le> r_date r"; cases "r_substitute r = uid"; cases "r_status r"; simp add: is_open_def)
  done

lemma left_staff_requests:
  assumes "left_staff c g uid s = (n, s')"
  shows "sub_requests s' = map (left_request c g uid (map t_id (filter (\<lambda>t. t_teacher t = uid \<and> t_org t = g) (slots s)))) (sub_requests s)"
proof -
  have "sub_requests s' = sub_requests (snd (close_open_substitutions c g uid (school_today c) (delete_slots (\<lambda>t. t_teacher t = uid \<and> t_org t = g) s)))"
    using assms by (auto simp: left_staff_def delete_slots_def close_open_substitutions_def Let_def)
  also have "\<dots> = map (left_request c g uid (map t_id (filter (\<lambda>t. t_teacher t = uid \<and> t_org t = g) (slots s)))) (sub_requests s)"
    by (simp add: close_open_rows delete_slots_def Let_def update_where_def slot_gone_update left_request_def comp_def)
  finally show ?thesis .
qed

subsection \<open>What a finished \<open>mark_left\<close> did\<close>

lemma target_ok: "leaving_target uid s = Inr u \<longleftrightarrow> (\<exists>g. bound_org s = Some g \<and> one_where (\<lambda>u. u_id u = uid \<and> u_org u = g) (users s) = Some u)"
  by (auto simp: leaving_target_def org_of_def split: option.splits)

lemma rights_ok: "check_rights actor u = Inr x \<longleftrightarrow> u_id u \<noteq> cu_id actor \<and> (u_type u \<in> set ADMIN_MANAGED \<longrightarrow> cu_type actor = Admin)"
  by (auto simp: check_rights_def)

lemma left_duties_ok:
  "left_duties c g t uid s = (Inr x, s') \<Longrightarrow> s' = (if t = Student then left_student g uid s else snd (left_staff c g uid s))"
  by (auto simp: left_duties_def svc_simps split: if_splits prod.splits)

lemma mark_left_ok:
  assumes "mark_left c actor uid reason s = (Inr d, s')"
  obtains g u a where "bound_org s = Some g" "one_where (\<lambda>u. u_id u = uid \<and> u_org u = g) (users s) = Some u" "u_left_on u = None"
    "uid \<noteq> cu_id actor" "u_type u \<in> set ADMIN_MANAGED \<longrightarrow> cu_type actor = Admin" "d = school_today c"
    "s' = (if u_type u = Student then left_student g uid (left_account c uid (clean_reason reason) s)
       else snd (left_staff c g uid (left_account c uid (clean_reason reason) s)))\<lparr>audit := a\<rparr>"
proof -
  let ?s1 = "left_account c uid (clean_reason reason) s"
  from assms obtain g u s2 x a where u: "leaving_target uid s = Inr u" "check_rights actor u = Inr ()" "u_left_on u = None" "org_of s = Inr g"
      and mid: "left_duties c g (u_type u) uid ?s1 = (Inr x, s2)" and s': "d = school_today c" "s' = s2\<lparr>audit := a\<rparr>"
    by (auto simp: mark_left_def Let_def svc_simps audit_record_def split: prod.splits)
  note mid = left_duties_ok [OF mid]
  obtain g' where "bound_org s = Some g'" "one_where (\<lambda>u. u_id u = uid \<and> u_org u = g') (users s) = Some u" using u(1) by (auto simp: target_ok)
  moreover from this have "g' = g" "u_id u = uid" using u(4) by (auto simp: org_of_def dest: one_where_Some)
  ultimately show thesis using u(2,3) s' by (intro that) (simp_all add: rights_ok mid)
qed

lemma mark_left_fields:
  assumes "mark_left c actor uid reason s = (Inr d, s')"
  defines "s1 \<equiv> left_account c uid (clean_reason reason) s"
  shows "users s' = users s1" "sections s' = sections s" "sessions s' = sessions s1" "next_user s' = next_user s" "devices s' = devices s1"
    "fees s' = fees s" "payments s' = payments s" "attendance s' = attendance s" "reset_codes s' = reset_codes s1" "classes s' = classes s"
proof -
  obtain g and u :: user_row and a where s': "s' = (if u_type u = Student then left_student g uid s1 else snd (left_staff c g uid s1))\<lparr>audit := a\<rparr>"
    by (rule mark_left_ok [OF assms(1), folded s1_def], rule that, assumption)
  obtain n t where st: "left_staff c g uid s1 = (n, t)" by (cases "left_staff c g uid s1")
  show "users s' = users s1" "sections s' = sections s" "sessions s' = sessions s1" "next_user s' = next_user s" "devices s' = devices s1"
    "fees s' = fees s" "payments s' = payments s" "attendance s' = attendance s" "reset_codes s' = reset_codes s1" "classes s' = classes s"
    unfolding s' by (simp_all add: left_student_fields st left_staff_fields [OF st]) (simp_all add: s1_def left_account_fields)
qed

text \<open>A signed-out account that is not active stays out: no password, no token gets it a session.\<close>

lemma inactive_no_login:
  assumes "\<And>u. u \<in> set (users s) \<Longrightarrow> u_id u = uid \<Longrightarrow> \<not> u_active u"
    and "login c sid salt username password code cid answer supported s = (Inr tr, s')"
  shows "tr_user_id tr \<noteq> uid"
proof
  assume tr: "tr_user_id tr = uid"
  from login_success [OF assms(2)] obtain g s2 where s2: "users s2 = users s"
    and cp: "check_password c sid salt g (account_key (o_id g) username) username password s2 = (Inr tr, s')" by blast
  from check_password_success [OF cp] obtain u x where u: "find_login c (o_id g) username s2 = Some u" "u_active u" "tr = make_token_response c u g x"
    by blast
  moreover have "u_id u = uid" using u(3) tr by (simp add: make_token_response_def split: prod.splits)
  ultimately show False using assms(1) [of u] s2 by (auto simp: find_login_def dest: one_where_Some)
qed

text \<open>The requests a leaving teacher leaves keep the keys and statuses of the substitution requests.\<close>

lemma left_request_keys: "same_keys r (left_request c g uid gone r)"
  by (simp add: same_keys_def left_request_def Let_def slot_gone_def split: option.split)

lemma left_request_status: "r_status (left_request c g uid gone r) = r_status r \<or> \<not> is_open (r_status (left_request c g uid gone r))"
  by (simp add: left_request_def Let_def is_open_def)

lemma left_request_closed:
  assumes "r_org r = g" "school_today c \<le> r_date r" "is_open (r_status (left_request c g uid gone r))"
  shows "r_substitute r \<noteq> uid \<and> r_requester r \<noteq> uid"
  using assms by (auto simp: left_request_def Let_def is_open_def split: if_splits)

lemma left_request_past:
  "\<not> (r_org r = g \<and> school_today c \<le> r_date r \<and> is_open (r_status r)) \<Longrightarrow> left_request c g uid gone r = slot_gone gone r"
  by (auto simp: left_request_def Let_def)

end
