(* ===== verification/People_Props.thy ===== *)
theory People_Props
  imports Leaving_Props
begin

text \<open>
  The keys of accounts and profiles over the services that write them: what each statement keeps.
\<close>

subsection \<open>The keys\<close>

text \<open>The school has one principal who has not left (migration 0013).\<close>

definition sitting :: "user_row \<Rightarrow> bool" where
  "sitting u \<longleftrightarrow> u_type u = Principal \<and> u_left_on u = None"

definition one_principal :: "db \<Rightarrow> bool" where
  "one_principal s \<longleftrightarrow> (\<forall>u \<in> set (users s). \<forall>v \<in> set (users s). sitting u \<and> sitting v \<and> u_org u = u_org v \<longrightarrow> u = v)"

definition people_ok :: "ctx \<Rightarrow> db \<Rightarrow> bool" where
  "people_ok c s \<longleftrightarrow> numbers_ok c s \<and> one_principal s"

lemma user_conflict_None:
  "user_conflict c rows u = None \<longleftrightarrow> (\<forall>v \<in> set rows. u_org v = u_org u \<longrightarrow> \<not> sql_eq c (u_username v) (u_username u))
     \<and> (\<forall>v \<in> set rows. sitting u \<and> sitting v \<longrightarrow> u_org v \<noteq> u_org u)"
  by (auto simp: user_conflict_def list_ex_iff sitting_def)

lemma number_conflict_None: "number_conflict c rows p = None \<longleftrightarrow> (\<forall>q \<in> set rows. \<not> clash c p q)"
  by (auto simp: number_conflict_def list_ex_iff clash_def)

lemma clash_swap: "clash c p q = clash c q p"
  by (auto simp: clash_def same_admission_def same_roll_def sql_eq_sym split: option.split)

lemma people_cong:
  "people_ok c s \<Longrightarrow> users t = users s \<Longrightarrow> next_user t = next_user s \<Longrightarrow> sections t = sections s \<Longrightarrow> student_profiles t = student_profiles s
     \<Longrightarrow> people_ok c t"
  by (simp add: people_ok_def one_principal_def numbers_ok_def accounts_ok_def profile_ok_def)

subsection \<open>Accounts\<close>

lemma numbers_users:
  assumes "numbers_ok c s" and "accounts_ok c t" and "users_kept s t" and "sections t = sections s" and "student_profiles t = student_profiles s"
  shows "numbers_ok c t"
proof -
  have "profile_ok t p" if "profile_ok s p" for p
    using that assms(3,4) unfolding profile_ok_def users_kept_def by metis
  then show ?thesis using assms unfolding numbers_ok_def by simp
qed

text \<open>Statements that change neither the id, the school, the username nor the role of an account.\<close>

lemma people_map:
  assumes ok: "people_ok c s" and keep: "\<And>u. u_id (f u) = u_id u \<and> u_org (f u) = u_org u \<and> u_username (f u) = u_username u"
    and sit: "\<And>u v. u \<in> set (users s) \<Longrightarrow> v \<in> set (users s) \<Longrightarrow> sitting (f u) \<Longrightarrow> sitting (f v) \<Longrightarrow> u_org u = u_org v \<Longrightarrow> u = v"
    and t: "users t = map f (users s)" "next_user t = next_user s" "sections t = sections s" "student_profiles t = student_profiles s"
  shows "people_ok c t"
proof -
  from ok have num: "numbers_ok c s" by (simp add: people_ok_def)
  then have "accounts_ok c s" by (simp add: numbers_ok_def)
  from accounts_map [OF this keep t(1,2)] have "accounts_ok c t" "users_kept s t" by simp_all
  from numbers_users [OF num this t(3,4)] have "numbers_ok c t" .
  moreover have "one_principal t"
    unfolding one_principal_def t(1)
  proof (intro ballI impI, elim conjE)
    fix v w assume v: "v \<in> set (map f (users s))" "w \<in> set (map f (users s))" "sitting v" "sitting w" "u_org v = u_org w"
    then obtain x y where xy: "x \<in> set (users s)" "v = f x" "y \<in> set (users s)" "w = f y" by auto
    with v keep [of x] keep [of y] have "x = y" by (intro sit) simp_all
    with xy show "v = w" by simp
  qed
  ultimately show ?thesis by (simp add: people_ok_def)
qed

lemma people_update:
  assumes ok: "people_ok c s" and keep: "\<And>u. u_id (f u) = u_id u \<and> u_org (f u) = u_org u \<and> u_username (f u) = u_username u"
    and sit: "\<And>u. sitting (f u) \<Longrightarrow> sitting u" and t: "t = s\<lparr>users := update_where (\<lambda>u. u_id u = uid) f (users s)\<rparr>"
  shows "people_ok c t"
proof (rule people_map [OF ok])
  let ?f = "\<lambda>u. if u_id u = uid then f u else u"
  show "u_id (?f u) = u_id u \<and> u_org (?f u) = u_org u \<and> u_username (?f u) = u_username u" for u using keep by simp
  show "u = v" if uv: "u \<in> set (users s)" "v \<in> set (users s)" "sitting (?f u)" "sitting (?f v)" "u_org u = u_org v" for u v
  proof -
    have "sitting u" "sitting v" using uv(3,4) sit by (auto split: if_splits)
    then show ?thesis using ok uv by (simp add: people_ok_def one_principal_def)
  qed
  show "users t = map ?f (users s)" by (simp add: t update_where_def)
qed (simp_all add: t)

lemma write_user_ok:
  assumes "write_user c uid f s = (r, s')" and "r = Inr ()"
  shows "s' = s\<lparr>users := update_where (\<lambda>u. u_id u = uid) f (users s)\<rparr>"
    and "one_where (\<lambda>u. u_id u = uid) (users s) = Some u \<Longrightarrow> user_conflict c (filter (\<lambda>v. u_id v \<noteq> uid) (users s)) (f u) = None"
proof -
  have "update_where P f xs = xs" if "one_where P xs = None" for P and xs :: "user_row list"
    using that by (induction xs) (auto simp: one_where_def update_where_def split: if_splits)
  then show "s' = s\<lparr>users := update_where (\<lambda>u. u_id u = uid) f (users s)\<rparr>"
    using assms by (auto simp: write_user_def split: option.splits)
qed (use assms in \<open>auto simp: write_user_def split: option.splits\<close>)

lemma people_write_user:
  assumes ok: "people_ok c s" and keep: "\<And>u. u_id (f u) = u_id u \<and> u_org (f u) = u_org u \<and> u_username (f u) = u_username u"
    and w: "write_user c uid f s = (Inr (), t)"
  shows "people_ok c t"
proof (rule people_map [OF ok])
  let ?f = "\<lambda>u. if u_id u = uid then f u else u"
  have dist: "distinct (map u_id (users s))" using ok by (simp add: people_ok_def numbers_ok_def accounts_ok_def)
  have new: "u_org v \<noteq> u_org u" if uv: "u \<in> set (users s)" "v \<in> set (users s)" "u_id u = uid" "u_id v \<noteq> uid" "sitting (f u)" "sitting v" for u v
  proof -
    have "one_where (\<lambda>x. u_id x = uid) (users s) = Some u"
      using usrs.lookup_unique [of s u] dist uv(1,3) by (simp add: usrs.lookup_def usrs.keys_unique_def)
    from write_user_ok(2) [OF w refl this] show ?thesis using uv keep [of u] by (simp add: user_conflict_None)
  qed
  show "u_id (?f u) = u_id u \<and> u_org (?f u) = u_org u \<and> u_username (?f u) = u_username u" for u using keep by simp
  show "u = v" if uv: "u \<in> set (users s)" "v \<in> set (users s)" "sitting (?f u)" "sitting (?f v)" "u_org u = u_org v" for u v
  proof -
    consider "u_id u = uid" "u_id v = uid" | "u_id u = uid" "u_id v \<noteq> uid" | "u_id u \<noteq> uid" "u_id v = uid" | "u_id u \<noteq> uid" "u_id v \<noteq> uid" by blast
    then show ?thesis
    proof cases
      case 1 then show ?thesis using unique_key [OF dist uv(1,2)] by simp
    next
      case 2 then show ?thesis using new [of u v] uv by simp
    next
      case 3 then show ?thesis using new [of v u] uv by simp
    next
      case 4 then show ?thesis using ok uv by (simp add: people_ok_def one_principal_def)
    qed
  qed
  show "users t = map ?f (users s)" using write_user_ok(1) [OF w refl] by (simp add: update_where_def)
qed (use write_user_ok(1) [OF w refl] in simp_all)

lemma people_insert_user:
  assumes ok: "people_ok c s" and ins: "insert_user c u s = (Inr x, t)"
  shows "people_ok c t"
proof -
  let ?u = "u\<lparr>u_id := next_user s\<rparr>"
  have num: "numbers_ok c s" and acc: "accounts_ok c s" using ok by (simp_all add: people_ok_def numbers_ok_def)
  have t: "t = s\<lparr>users := users s @ [?u], next_user := next_user s + 1\<rparr>" and free: "user_conflict c (users s) u = None"
    using ins by (auto simp: insert_user_def split: option.splits)
  have "accounts_ok c t"
  proof (rule accounts_okI)
    have "next_user s \<notin> u_id ` set (users s)" using acc by (auto simp: accounts_ok_def)
    then show "distinct (map u_id (users t))" using acc by (simp add: t accounts_ok_def)
    show "\<forall>v \<in> set (users t). u_id v < next_user t" using acc by (auto simp: t accounts_ok_def)
    show "v = w" if "v \<in> set (users t)" "w \<in> set (users t)" "u_org v = u_org w \<and> sql_eq c (u_username v) (u_username w)" for v w
    proof -
      have "v \<in> set (users s) \<or> v = ?u" "w \<in> set (users s) \<or> w = ?u" using that(1,2) by (auto simp: t)
      then show ?thesis
        using that(3) free accounts_unique [OF acc, of v w] by (auto simp: user_conflict_None sql_eq_sym)
    qed
  qed
  moreover have "users_kept s t" by (auto simp: users_kept_def t)
  ultimately have "numbers_ok c t" using numbers_users [OF num] by (simp add: t)
  moreover have "one_principal t"
    unfolding one_principal_def
  proof (intro ballI impI)
    fix v w assume "v \<in> set (users t)" "w \<in> set (users t)" "sitting v \<and> sitting w \<and> u_org v = u_org w"
    moreover from this have "v \<in> set (users s) \<or> v = ?u" "w \<in> set (users s) \<or> w = ?u" by (auto simp: t)
    moreover have "sitting ?u = sitting u" "u_org ?u = u_org u" by (simp_all add: sitting_def)
    ultimately show "v = w" using free ok by (auto simp: user_conflict_None people_ok_def one_principal_def)
  qed
  ultimately show ?thesis by (simp add: people_ok_def)
qed

subsection \<open>Profiles\<close>

lemma people_update_profile:
  assumes ok: "people_ok c s" and p: "one_where (\<lambda>q. sp_user q = uid) (student_profiles s) = Some p"
    and new: "sp_user (f p) = uid" "profile_ok s (f p)" "\<And>q. q \<in> set (student_profiles s) \<Longrightarrow> sp_user q \<noteq> uid \<Longrightarrow> \<not> clash c (f p) q"
    and t: "users t = users s" "next_user t = next_user s" "sections t = sections s"
      "student_profiles t = update_where (\<lambda>q. sp_user q = uid) f (student_profiles s)"
  shows "people_ok c t"
proof -
  have num: "numbers_ok c s" using ok by (simp add: people_ok_def)
  then have dist: "distinct (map sp_user (student_profiles s))" by (simp add: numbers_ok_def)
  have mem: "p \<in> set (student_profiles s)" "sp_user p = uid" using p by (auto dest: one_where_Some)
  have only: "q = p" if "q \<in> set (student_profiles s)" "sp_user q = uid" for q
    using unique_key [OF dist that(1) mem(1)] that(2) mem(2) by simp
  have rows: "q \<in> set (student_profiles t) \<Longrightarrow> q = f p \<or> q \<in> set (student_profiles s) \<and> sp_user q \<noteq> uid" for q
    using only by (auto simp: t(4) set_update_where split: if_splits)
  have "map sp_user (student_profiles t) = map sp_user (student_profiles s)"
    unfolding t(4) update_where_def map_map by (rule map_cong [OF refl]) (use only new(1) in auto)
  then have dist': "distinct (map sp_user (student_profiles t))" using dist by (simp only:)
  have okt: "profile_ok t q" if "profile_ok s q" for q using that by (simp add: profile_ok_def t)
  have "numbers_ok c t"
    unfolding numbers_ok_def
  proof (intro conjI ballI impI)
    show "accounts_ok c t" "distinct (map se_id (sections t))" using num t(1-3) by (simp_all add: numbers_ok_def accounts_ok_def)
    show "profile_ok t q" if "q \<in> set (student_profiles t)" for q
      using rows [OF that] okt new(2) num by (auto simp: numbers_ok_def)
    show "a = b" if "a \<in> set (student_profiles t)" "b \<in> set (student_profiles t)" "clash c a b" for a b
      using rows [OF that(1)] rows [OF that(2)] that(3) new(3) clash_swap [of c a b] num by (auto simp: numbers_ok_def)
  qed (rule dist')
  moreover have "one_principal t" using ok by (simp add: people_ok_def one_principal_def t(1))
  ultimately show ?thesis by (simp add: people_ok_def)
qed

lemma people_insert_profile:
  assumes ok: "people_ok c s" and ins: "insert_profile c p s = (Inr x, t)" and p: "profile_ok s p"
  shows "people_ok c t"
proof -
  have num: "numbers_ok c s" using ok by (simp add: people_ok_def)
  have t: "t = s\<lparr>student_profiles := student_profiles s @ [p]\<rparr>" and free: "number_conflict c (student_profiles s) p = None"
    and new: "\<forall>q \<in> set (student_profiles s). sp_user q \<noteq> sp_user p"
    using ins by (auto simp: insert_profile_def list_ex_iff split: option.splits if_splits)
  have okt: "profile_ok t q" if "profile_ok s q" for q using that by (simp add: profile_ok_def t)
  have "numbers_ok c t"
    unfolding numbers_ok_def
  proof (intro conjI ballI impI)
    show "accounts_ok c t" "distinct (map se_id (sections t))" using num by (simp_all add: t numbers_ok_def accounts_ok_def)
    show "distinct (map sp_user (student_profiles t))" using num new by (auto simp: t numbers_ok_def)
    show "profile_ok t q" if "q \<in> set (student_profiles t)" for q
      using that okt p num by (auto simp: t numbers_ok_def)
    show "a = b" if "a \<in> set (student_profiles t)" "b \<in> set (student_profiles t)" "clash c a b" for a b
    proof -
      have "a \<in> set (student_profiles s) \<or> a = p" "b \<in> set (student_profiles s) \<or> b = p" using that(1,2) by (auto simp: t)
      then show ?thesis using that(3) free num clash_swap [of c a b] by (auto simp: number_conflict_None numbers_ok_def)
    qed
  qed
  moreover have "one_principal t" using ok by (simp add: people_ok_def one_principal_def t)
  ultimately show ?thesis by (simp add: people_ok_def)
qed

end
