(* ===== verification/People_Steps.thy ===== *)
theory People_Steps
  imports People_Props
begin

text \<open>
  Each service that writes accounts and profiles keeps the keys: creating, editing, leaving, coming back.
\<close>

subsection \<open>Staff\<close>

lemma audit_people [simp]:
  "users (audit_record c a b d e f s) = users s" "next_user (audit_record c a b d e f s) = next_user s" "sections (audit_record c a b d e f s) = sections s"
  "student_profiles (audit_record c a b d e f s) = student_profiles s" "bound_org (audit_record c a b d e f s) = bound_org s"
  by (simp_all add: audit_record_def)

lemma audit_people_ok: "people_ok c s \<Longrightarrow> people_ok c (audit_record c' a b d e f s)"
  by (rule people_cong) simp_all

lemma rewrite_people:
  "people_ok c s \<Longrightarrow> (\<And>u. u_id (f u) = u_id u \<and> u_org (f u) = u_org u \<and> u_username (f u) = u_username u) \<Longrightarrow> (\<And>u. sitting (f u) \<Longrightarrow> sitting u)
     \<Longrightarrow> people_ok c (rewrite_user uid f s)"
  by (rule people_update) (simp_all add: rewrite_user_def)

lemma staff_fields_people:
  "u_id (staff_fields b u v) = u_id v" "u_org (staff_fields b u v) = u_org v" "u_username (staff_fields b u v) = u_username v" "sitting (staff_fields b u v) = sitting v"
  by (simp_all add: staff_fields_def sitting_def)

lemma student_fields_people:
  "u_id (student_fields b u v) = u_id v" "u_org (student_fields b u v) = u_org v" "u_username (student_fields b u v) = u_username v" "sitting (student_fields b u v) = sitting v"
  by (simp_all add: student_fields_def sitting_def)

lemma insert_account_ok:
  assumes "insert_account c mine u s = (Inr uid, t)"
  shows "insert_user c u s = (Inr (), t)" and "uid = next_user s"
proof -
  have "(\<exists>x. insert_user c u s = (Inr x, t)) \<and> uid = next_user s"
    using assms by (auto simp: insert_account_def split: prod.splits sum.splits app_error.splits if_splits)
  then show "insert_user c u s = (Inr (), t)" "uid = next_user s" by auto
qed

lemma insert_account_fields:
  assumes "insert_account c mine u s = (Inr uid, t)"
  shows "users t = users s @ [u\<lparr>u_id := next_user s\<rparr>]" "sections t = sections s" "student_profiles t = student_profiles s" "bound_org t = bound_org s"
  using insert_account_ok(1) [OF assms] by (auto simp: insert_user_def split: option.splits)

lemma people_account:
  "people_ok c s \<Longrightarrow> insert_account c mine u s = (Inr uid, t) \<Longrightarrow> people_ok c t"
  by (rule people_insert_user [OF _ insert_account_ok(1)])

lemma insert_teacher_people:
  "people_ok c s \<Longrightarrow> insert_teacher_profile p s = (r, t) \<Longrightarrow> people_ok c t"
  by (auto simp: insert_teacher_profile_def split: if_splits intro: people_cong)

lemma create_staff_people:
  assumes ok: "people_ok c s" and run: "create_staff c actor b s = (Inr uid, t)"
  shows "people_ok c t"
proof -
  let ?u = "\<lambda>g. new_account c g (st_username b) (st_password b) (st_full_name b) (st_email b) (st_phone b) (st_type b)"
  let ?p = "info_row uid (case st_info b of None \<Rightarrow> no_info | Some t \<Rightarrow> t)"
  obtain g s1 s2 mine x A B C D E where ins: "insert_account c mine (?u g) s = (Inr uid, s1)"
    and tp: "(if st_type b = Teacher then insert_teacher_profile ?p else ret ()) s1 = (Inr x, s2)"
    and t: "t = audit_record c A B C D E s2"
    using run unfolding create_staff_def svc_simps by auto
  have "people_ok c s1" by (rule people_account [OF ok ins])
  then have "people_ok c s2" using tp insert_teacher_people by (auto simp: ret_iff split: if_splits)
  then show ?thesis unfolding t by (rule audit_people_ok)
qed

lemma update_staff_people:
  assumes ok: "people_ok c s" and run: "update_staff c actor uid b s = (Inr x, t)"
  shows "people_ok c t"
proof -
  obtain u :: user_row and A B C D E where t: "t = audit_record c A B C D E (rewrite_user uid (staff_fields b u) s)"
    using run unfolding update_staff_def svc_simps by auto
  show ?thesis unfolding t
    by (intro audit_people_ok rewrite_people ok) (simp_all add: staff_fields_people)
qed

lemma upload_photo_people:
  assumes ok: "people_ok c s" and run: "upload_photo actor uid stored s = (Inr path, t)"
  shows "people_ok c t"
proof -
  have t: "t = rewrite_user uid (u_photo_update (\<lambda>_. Some path)) s"
    using run unfolding upload_photo_def svc_simps by auto
  show ?thesis unfolding t by (intro rewrite_people ok) (simp_all add: sitting_def)
qed

subsection \<open>Students\<close>

lemma blank_is_none_Some: "blank_is_none v = Some x \<Longrightarrow> fold_text x \<noteq> []"
  by (auto simp: blank_is_none_def or_none_def fold_Nil_iff split: if_splits)

text \<open>The numbers of a profile that are not blank.\<close>

definition numbers_given :: "string option \<Rightarrow> string option \<Rightarrow> bool" where
  "numbers_given roll adm \<longleftrightarrow> (\<forall>x. roll = Some x \<or> adm = Some x \<longrightarrow> fold_text x \<noteq> [])"

lemma profile_okI:
  assumes "u \<in> set (users s)" "u_id u = sp_user p" "u_org u = sp_org p"
    and "\<And>i. sp_section p = Some i \<Longrightarrow> \<exists>x \<in> set (sections s). se_id x = i \<and> se_org x = sp_org p"
    and "numbers_given (sp_roll p) (sp_admission p)"
  shows "profile_ok s p"
  using assms unfolding profile_ok_def by (auto simp: numbers_given_def NUMBERS_def num_def)

lemma profile_ok_numbers: "profile_ok s p \<Longrightarrow> numbers_given (sp_roll p) (sp_admission p)"
  by (auto simp: profile_ok_def numbers_given_def NUMBERS_def num_def)

lemma section_in_class_ok:
  assumes "ensure_section_in_class k i s = Inr x" and "bound_org s = Some g"
  shows "\<exists>x \<in> set (sections s). Some (se_id x) = i \<and> Some (se_class x) = k \<and> se_org x = g"
  using assms by (auto simp: ensure_section_in_class_def org_of_def list_ex_iff split: if_splits)

lemma create_student_people:
  assumes ok: "people_ok c s" and body: "student_create c b0 = Inr b" and run: "create_student c actor b s = (Inr uid, t)"
  shows "people_ok c t"
proof -
  let ?u = "\<lambda>g. new_account c g (sb_username b) (sb_password b) (sb_full_name b) (sb_email b) (sb_phone b) Student"
  obtain g s1 s2 mine x y A B C D E where g: "org_of s = Inr g" and sec: "ensure_section_in_class (Some (sb_class b)) (Some (sb_section b)) s = Inr y"
    and ins: "insert_account c mine (?u g) s = (Inr uid, s1)" and prof: "insert_profile c (body_profile g uid b) s1 = (Inr x, s2)"
    and t: "t = audit_record c A B C D E s2"
    using run unfolding create_student_def svc_simps by auto
  note s1 = insert_account_fields [OF ins]
  have org: "bound_org s = Some g" using g by (auto simp: org_of_def split: option.splits)
  have given: "numbers_given (sb_roll b) (sb_admission b)"
    using body by (auto simp: student_create_def numbers_given_def dest!: blank_is_none_Some split: if_splits)
  have "profile_ok s1 (body_profile g uid b)"
  proof (rule profile_okI)
    show "(?u g)\<lparr>u_id := next_user s\<rparr> \<in> set (users s1)" by (simp add: s1)
  qed (use section_in_class_ok [OF sec org] given insert_account_ok(2) [OF ins] in \<open>auto simp: body_profile_def new_account_def s1\<close>)
  then have "people_ok c s2" by (rule people_insert_profile [OF people_account [OF ok ins] prof])
  then show ?thesis unfolding t by (rule audit_people_ok)
qed

lemma write_profile_ok:
  assumes "write_profile c uid f s = (Inr x, t)"
  shows "t = s\<lparr>student_profiles := update_where (\<lambda>q. sp_user q = uid) f (student_profiles s)\<rparr>"
    and "one_where (\<lambda>p. sp_user p = uid) (student_profiles s) = Some p \<Longrightarrow> number_conflict c (filter (\<lambda>q. sp_user q \<noteq> uid) (student_profiles s)) (f p) = None"
proof -
  have "update_where P f xs = xs" if "one_where P xs = None" for P and xs :: "student_profile_row list"
    using that by (induction xs) (auto simp: one_where_def update_where_def split: if_splits)
  then show "t = s\<lparr>student_profiles := update_where (\<lambda>q. sp_user q = uid) f (student_profiles s)\<rparr>"
    using assms by (auto simp: write_profile_def split: option.splits)
qed (use assms in \<open>auto simp: write_profile_def split: option.splits\<close>)

text \<open>A written profile keeps the keys when its section is one of its school and its numbers are not blank.\<close>

lemma people_write_profile:
  assumes ok: "people_ok c s" and run: "write_profile c uid f s = (Inr x, t)"
    and keep: "\<And>p. sp_user (f p) = sp_user p" "\<And>p. sp_org (f p) = sp_org p"
    and new: "\<And>p. one_where (\<lambda>q. sp_user q = uid) (student_profiles s) = Some p \<Longrightarrow> profile_ok s p \<Longrightarrow> profile_ok s (f p)"
  shows "people_ok c t"
proof (cases "one_where (\<lambda>q. sp_user q = uid) (student_profiles s)")
  case None
  then show ?thesis using run ok by (simp add: write_profile_def)
next
  case (Some p)
  have p: "p \<in> set (student_profiles s)" "sp_user p = uid" using Some by (auto dest: one_where_Some)
  have "profile_ok s p" using ok p(1) by (simp add: people_ok_def numbers_ok_def)
  show ?thesis
  proof (rule people_update_profile [OF ok Some])
    show "profile_ok s (f p)" by (rule new [OF Some \<open>profile_ok s p\<close>])
    show "\<not> clash c (f p) q" if "q \<in> set (student_profiles s)" "sp_user q \<noteq> uid" for q
      using write_profile_ok(2) [OF run Some] that by (auto simp: number_conflict_None)
  qed (use write_profile_ok(1) [OF run] p(2) in \<open>simp_all add: keep\<close>)
qed

lemma get_student_ok:
  assumes "get_student uid s = Inr (u, p)"
  obtains g where "bound_org s = Some g" "u \<in> set (users s)" "u_id u = uid" "u_org u = g" "u_type u = Student"
    "p = one_where (\<lambda>p. sp_user p = uid) (student_profiles s)"
  using assms by (auto simp: get_student_def org_of_def dest: one_where_Some split: option.splits)

lemma update_student_people:
  assumes ok: "people_ok c s" and body: "clean_update c b0 = Inr b" and run: "update_student c user uid b s = (Inr x, t)"
  shows "people_ok c t"
proof -
  define place where "place = (\<lambda>p :: student_profile_row option. (given_or (su_class b) (Option.bind p sp_class), given_or (su_section b) (Option.bind p sp_section)))"
  obtain u :: user_row and p s2 y z A B C D E where get: "get_student uid s = Inr (u, p)"
      and sec: "(if place p \<noteq> (Option.bind p sp_class, Option.bind p sp_section) then ensure_section_in_class (fst (place p)) (snd (place p)) s else Inr ()) = Inr z"
      and w: "write_profile c uid (moved_profile b (fst (place p)) (snd (place p)) p) (rewrite_user uid (student_fields b u) s) = (Inr y, s2)"
      and t: "t = audit_record c A B C D E s2"
    using run unfolding update_student_def Let_def svc_simps place_def fst_conv snd_conv
    by (auto simp: svc_simps split: prod.splits)
  define k where "k = fst (place p)"
  define i where "i = snd (place p)"
  define s1 where "s1 = rewrite_user uid (student_fields b u) s"
  have kp: "place p = (k, i)" by (simp add: k_def i_def)
  note sec = sec [unfolded kp fst_conv snd_conv] and w = w [unfolded kp fst_conv snd_conv, folded s1_def]
  from get obtain g where u: "bound_org s = Some g" "u \<in> set (users s)" "u_id u = uid" "u_org u = g"
    "p = one_where (\<lambda>p. sp_user p = uid) (student_profiles s)" by (rule get_student_ok)
  have ok1: "people_ok c s1" unfolding s1_def by (intro rewrite_people ok) (simp_all add: student_fields_people)
  have same: "sections s1 = sections s" "student_profiles s1 = student_profiles s" by (simp_all add: s1_def rewrite_user_def)
  have given: "numbers_given (merge (su_roll b) (sp_roll q)) (merge (su_admission b) (sp_admission q))" if "profile_ok s1 q" for q
    using body profile_ok_numbers [OF that]
    by (auto simp: clean_update_def numbers_given_def merge_def dest!: blank_is_none_Some split: option.splits)
  have "people_ok c s2"
  proof (rule people_write_profile [OF ok1 w])
    fix q assume q: "one_where (\<lambda>p. sp_user p = uid) (student_profiles s1) = Some q" "profile_ok s1 q"
    then have pq: "p = Some q" "sp_user q = uid" using u(5) same by (auto dest: one_where_Some)
    from q(2) obtain v where v: "v \<in> set (users s1)" "u_id v = sp_user q" "u_org v = sp_org q"
      and secq: "\<And>i. sp_section q = Some i \<Longrightarrow> \<exists>x \<in> set (sections s1). se_id x = i \<and> se_org x = sp_org q" by (auto simp: profile_ok_def)
    have "sp_org q = g"
    proof -
      obtain w where w: "w \<in> set (users s)" "u_id w = u_id v" "u_org w = u_org v"
        using v(1) by (auto simp: s1_def rewrite_user_def set_update_where student_fields_def split: if_splits)
      have "w = u"
        by (rule unique_key [of u_id "users s"]) (use ok w u v(2) pq(2) in \<open>simp_all add: people_ok_def numbers_ok_def accounts_ok_def\<close>)
      then show ?thesis using w u v by simp
    qed
    show "profile_ok s1 (moved_profile b k i p q)"
    proof (rule profile_okI [OF v(1)])
      fix j assume j: "sp_section (moved_profile b k i p q) = Some j"
      then have "i = Some j" by (simp add: moved_profile_def Let_def)
      then show "\<exists>x \<in> set (sections s1). se_id x = j \<and> se_org x = sp_org (moved_profile b k i p q)"
        using sec secq section_in_class_ok [of k i s z g] u(1) \<open>sp_org q = g\<close>
        by (cases "(k, i) \<noteq> (Option.bind p sp_class, Option.bind p sp_section)") (auto simp: pq same moved_profile_def Let_def)
    qed (use v given [OF q(2)] in \<open>simp_all add: moved_profile_def Let_def pq\<close>)
  qed (simp_all add: moved_profile_def Let_def)
  then show ?thesis unfolding t by (rule audit_people_ok)
qed

end
