(* ===== verification/Returning.thy ===== *)
theory Returning
  imports People_Steps
begin

text \<open>
  Leaving and coming back over the keys of the school: \<open>mark_left\<close> frees the roll number, and \<open>reactivate\<close>
  never takes one that is in use.
\<close>

subsection \<open>Leaving\<close>

definition out_of_class :: "student_profile_row \<Rightarrow> student_profile_row" where
  "out_of_class p = p\<lparr>sp_last_class := sp_class p, sp_last_section := sp_section p, sp_class := None, sp_section := None\<rparr>"

lemma left_student_profiles: "student_profiles (left_student g uid s) = update_where (\<lambda>p. sp_user p = uid) out_of_class (student_profiles s)"
  by (simp add: left_student_def out_of_class_def [abs_def])

lemma out_of_class_fields [simp]:
  "sp_user (out_of_class p) = sp_user p" "sp_org (out_of_class p) = sp_org p" "sp_section (out_of_class p) = None" "sp_class (out_of_class p) = None"
  "sp_roll (out_of_class p) = sp_roll p" "sp_admission (out_of_class p) = sp_admission p" "sp_last_class (out_of_class p) = sp_class p"
  "sp_last_section (out_of_class p) = sp_section p"
  by (simp_all add: out_of_class_def)

lemma out_of_class_ok: "profile_ok s p \<Longrightarrow> profile_ok s (out_of_class p)"
  by (auto simp: profile_ok_def NUMBERS_def num_def)

lemma out_of_class_clash: "clash c (out_of_class p) q \<Longrightarrow> clash c p q"
  by (auto simp: clash_def same_admission_def same_roll_def)

lemma left_student_people:
  assumes ok: "people_ok c s"
  shows "people_ok c (left_student g uid s)"
proof (cases "one_where (\<lambda>q. sp_user q = uid) (student_profiles s)")
  case None
  then have "update_where (\<lambda>p. sp_user p = uid) out_of_class (student_profiles s) = student_profiles s"
    unfolding update_where_def by (intro map_idI) (auto simp: one_where_None)
  then show ?thesis using ok by (intro people_cong [OF ok]) (simp_all add: left_student_profiles left_student_fields)
next
  case (Some p)
  then have p: "p \<in> set (student_profiles s)" "sp_user p = uid" by (auto dest: one_where_Some)
  have num: "numbers_ok c s" using ok by (simp add: people_ok_def)
  show ?thesis
  proof (rule people_update_profile [OF ok Some])
    show "profile_ok s (out_of_class p)" using num p(1) by (intro out_of_class_ok) (simp add: numbers_ok_def)
    show "\<not> clash c (out_of_class p) q" if "q \<in> set (student_profiles s)" "sp_user q \<noteq> uid" for q
      using num p that by (auto simp: numbers_ok_def dest!: out_of_class_clash)
  qed (simp_all add: left_student_profiles left_student_fields p(2))
qed

lemma mark_left_people:
  assumes ok: "people_ok c s" and run: "mark_left c actor uid reason s = (Inr d, t)"
  shows "people_ok c t"
proof -
  define s1 where "s1 = left_account c uid (clean_reason reason) s"
  obtain g and u :: user_row and a where t: "t = (if u_type u = Student then left_student g uid s1 else snd (left_staff c g uid s1))\<lparr>audit := a\<rparr>"
    by (rule mark_left_ok [OF run, folded s1_def], rule that, assumption)
  have ok1: "people_ok c s1"
    by (rule people_cong [OF people_update [OF ok _ _ refl, of "\<lambda>u. u\<lparr>u_active := False, u_left_on := Some (school_today c),
        u_left_reason := clean_reason reason, u_token_version := u_token_version u + 1\<rparr>" uid]])
      (simp_all add: s1_def left_account_fields sitting_def)
  obtain n s2 where st: "left_staff c g uid s1 = (n, s2)" by (cases "left_staff c g uid s1")
  have "people_ok c (if u_type u = Student then left_student g uid s1 else s2)"
    using left_student_people [OF ok1] people_cong [OF ok1] left_staff_fields [OF st] by simp
  then show ?thesis by (rule people_cong) (simp_all add: t st)
qed

subsection \<open>coming back\<close>

definition returned :: "user_row \<Rightarrow> user_row" where
  "returned u = u\<lparr>u_active := True, u_left_on := None, u_left_reason := None\<rparr>"

lemma returned_fields [simp]: "u_id (returned u) = u_id u" "u_org (returned u) = u_org u" "u_username (returned u) = u_username u" "u_type (returned u) = u_type u"
  "u_left_on (returned u) = None"
  by (simp_all add: returned_def)

lemma reactivate_ok:
  assumes "reactivate c actor uid s = (Inr pl, t)"
  obtains g u s1 s2 A B C D E where "bound_org s = Some g" "one_where (\<lambda>u. u_id u = uid \<and> u_org u = g) (users s) = Some u"
    "uid \<noteq> cu_id actor" "\<not> (u_active u \<and> u_left_on u = None)" "write_user c uid returned s = (Inr (), s1)"
    "(if u_type u = Student then place_student c g uid else ret NotMoved) s1 = (Inr pl, s2)" "t = audit_record c A B C D E s2"
proof -
  from assms obtain u and g :: int and s1 s2 A B C D E where u: "leaving_target uid s = Inr u" "check_rights actor u = Inr ()" "\<not> (u_active u \<and> u_left_on u = None)" "org_of s = Inr g"
      and w: "write_user c uid returned s = (Inr (), s1)"
      and pl: "(if u_type u = Student then place_student c g uid else ret NotMoved) s1 = (Inr pl, s2)" and t: "t = audit_record c A B C D E s2"
    unfolding reactivate_def svc_simps returned_def [abs_def] by auto
  obtain g' where g: "bound_org s = Some g'" "one_where (\<lambda>u. u_id u = uid \<and> u_org u = g') (users s) = Some u" using u(1) by (auto simp: target_ok)
  moreover from this have "g' = g" "u_id u = uid" using u(4) by (auto simp: org_of_def dest: one_where_Some)
  ultimately show thesis using u w pl t by (intro that [of g u]) (simp_all add: rights_ok)
qed

lemma placed_again_fields [simp]:
  "sp_user (placed_again taken p) = sp_user p" "sp_org (placed_again taken p) = sp_org p" "sp_section (placed_again taken p) = sp_last_section p"
  "sp_admission (placed_again taken p) = sp_admission p" "sp_roll (placed_again taken p) = (if taken then None else sp_roll p)"
  by (simp_all add: placed_again_def)

text \<open>The place a student gets back is free: another student's number is never met.\<close>

lemma placed_again_free:
  assumes ok: "numbers_ok c s" and p: "p \<in> set (student_profiles s)" and sec: "section_again g p s = Some (k, i)"
    and q: "q \<in> set (student_profiles s)" "sp_user q \<noteq> sp_user p"
  shows "\<not> clash c (placed_again (roll_taken c p i s) p) q"
proof
  assume cl: "clash c (placed_again (roll_taken c p i s) p) q"
  have pok: "profile_ok s p" using ok p by (simp add: numbers_ok_def)
  have "\<not> same_admission c p q" using ok p q by (auto simp: numbers_ok_def clash_def)
  moreover have "same_admission c (placed_again (roll_taken c p i s) p) q = same_admission c p q" by (simp add: same_admission_def)
  ultimately have roll: "same_roll c (placed_again (roll_taken c p i s) p) q" using cl by (simp add: clash_def)
  then obtain a b where ab: "\<not> roll_taken c p i s" "sp_roll p = Some a" "sp_roll q = Some b" "sql_eq c a b" "sp_section q = sp_last_section p"
    by (auto simp: same_roll_def split: option.splits if_splits)
  have "sp_last_section p = Some i" using sec by (auto simp: section_again_def split: option.splits if_splits)
  moreover have "a \<noteq> []" using profile_ok_numbers [OF pok] ab(2) by (auto simp: numbers_given_def)
  ultimately have "roll_taken c p i s" using ab q(1) by (auto simp: roll_taken_def list_ex_iff sql_eq_sym intro!: bexI [of _ q])
  with ab(1) show False ..
qed

lemma place_student_result:
  assumes ok: "numbers_ok c s"
  shows "place_student c g uid s = (case one_where (\<lambda>p. sp_user p = uid) (student_profiles s) of
      None \<Rightarrow> (Inr NotMoved, s)
    | Some p \<Rightarrow> if sp_class p \<noteq> None then (Inr NotMoved, s)
      else (case section_again g p s of None \<Rightarrow> (Inr NeedsClass, s)
        | Some (k, i) \<Rightarrow> (Inr (Placed k i (roll_taken c p i s)),
            s\<lparr>student_profiles := update_where (\<lambda>q. sp_user q = uid) (placed_again (roll_taken c p i s)) (student_profiles s)\<rparr>)))"
proof (cases "one_where (\<lambda>p. sp_user p = uid) (student_profiles s)")
  case (Some p)
  then have p: "p \<in> set (student_profiles s)" "sp_user p = uid" by (auto dest: one_where_Some)
  have "number_conflict c (filter (\<lambda>q. sp_user q \<noteq> uid) (student_profiles s)) (placed_again (roll_taken c p i s) p) = None"
    if "section_again g p s = Some (k, i)" for k i
    using placed_again_free [OF ok p(1) that] p(2) by (auto simp: number_conflict_None)
  then show ?thesis
    by (auto simp: place_student_def Some Let_def write_profile_def bindH_def ret_def split: option.split)
qed (simp add: place_student_def)

lemma reactivate_people:
  assumes ok: "people_ok c s" and run: "reactivate c actor uid s = (Inr pl, t)"
  shows "people_ok c t"
proof -
  obtain g and u :: user_row and s1 s2 A B C D E where w: "write_user c uid returned s = (Inr (), s1)"
    and pl: "(if u_type u = Student then place_student c g uid else ret NotMoved) s1 = (Inr pl, s2)" and t: "t = audit_record c A B C D E s2"
    and g: "bound_org s = Some g" "one_where (\<lambda>u. u_id u = uid \<and> u_org u = g) (users s) = Some u"
    by (rule reactivate_ok [OF run], rule that, assumption+)
  have ok1: "people_ok c s1" by (rule people_write_user [OF ok _ w]) simp
  have "people_ok c s2"
  proof (cases "s2 = s1")
    case False
    have num: "numbers_ok c s1" using ok1 by (simp add: people_ok_def)
    from pl False obtain p k i where p: "one_where (\<lambda>p. sp_user p = uid) (student_profiles s1) = Some p" "section_again g p s1 = Some (k, i)"
      and s2: "s2 = s1\<lparr>student_profiles := update_where (\<lambda>q. sp_user q = uid) (placed_again (roll_taken c p i s1)) (student_profiles s1)\<rparr>"
      by (auto simp: place_student_result [OF num] ret_def split: if_splits option.splits)
    have mem: "p \<in> set (student_profiles s1)" "sp_user p = uid" using p(1) by (auto dest: one_where_Some)
    have pok: "profile_ok s1 p" using num mem(1) by (simp add: numbers_ok_def)
    then obtain v where v: "v \<in> set (users s1)" "u_id v = sp_user p" "u_org v = sp_org p" by (auto simp: profile_ok_def)
    have "sp_org p = g"
    proof -
      have u: "u \<in> set (users s)" "u_id u = uid" "u_org u = g" using g(2) by (auto dest: one_where_Some)
      have "returned u \<in> set (users s1)" using u by (auto simp: write_user_ok(1) [OF w refl] set_update_where)
      moreover have "distinct (map u_id (users s1))" using num by (simp add: numbers_ok_def accounts_ok_def)
      ultimately have "v = returned u" using unique_key [of u_id "users s1" v "returned u"] v u(2) mem(2) by simp
      then show ?thesis using v(3) u(3) by simp
    qed
    show ?thesis
    proof (rule people_update_profile [OF ok1 p(1), where f = "placed_again (roll_taken c p i s1)"])
      show "profile_ok s1 (placed_again (roll_taken c p i s1) p)"
      proof (rule profile_okI [OF v(1)])
        show "\<exists>x \<in> set (sections s1). se_id x = j \<and> se_org x = sp_org (placed_again (roll_taken c p i s1) p)"
          if "sp_section (placed_again (roll_taken c p i s1) p) = Some j" for j
          using that p(2) \<open>sp_org p = g\<close> by (auto simp: section_again_def list_ex_iff split: option.splits if_splits)
      qed (use v profile_ok_numbers [OF pok] in \<open>auto simp: numbers_given_def\<close>)
      show "\<not> clash c (placed_again (roll_taken c p i s1) p) q" if "q \<in> set (student_profiles s1)" "sp_user q \<noteq> uid" for q
        using placed_again_free [OF num mem(1) p(2) that(1)] that(2) mem(2) by simp
    qed (simp_all add: s2 mem(2))
  qed (simp add: ok1)
  then show ?thesis unfolding t by (rule audit_people_ok)
qed

subsection \<open>How \<open>reactivate\<close> fails\<close>

lemma target_error: "leaving_target uid s \<noteq> Inl (DuplicateKey k)"
  by (auto simp: leaving_target_def org_of_def split: option.splits)

lemma rights_error: "check_rights actor u \<noteq> Inl (DuplicateKey k)"
  by (auto simp: check_rights_def split: if_splits)

lemma org_error: "org_of s \<noteq> Inl (DuplicateKey k)"
  by (auto simp: org_of_def split: option.splits)

text \<open>The account's own key is free: no other principal is in office, and its username is its own.\<close>

lemma returned_free:
  assumes ok: "people_ok c s" and u: "one_where (\<lambda>u. u_id u = uid) (users s) = Some u"
    and other: "\<not> (u_type u = Principal \<and> list_ex (\<lambda>v. u_org v = u_org u \<and> u_type v = Principal \<and> u_left_on v = None \<and> u_id v \<noteq> uid) (users s))"
  shows "write_user c uid returned s = (Inr (), s\<lparr>users := update_where (\<lambda>u. u_id u = uid) returned (users s)\<rparr>)"
proof -
  have mem: "u \<in> set (users s)" "u_id u = uid" using one_where_Some [OF u] by simp_all
  have acc: "accounts_ok c s" using ok by (simp add: people_ok_def numbers_ok_def)
  have "user_conflict c (filter (\<lambda>v. u_id v \<noteq> uid) (users s)) (returned u) = None"
    using accounts_unique [OF acc _ mem(1)] other mem(2) by (auto simp: user_conflict_None sitting_def list_ex_iff)
  then show ?thesis by (simp add: write_user_def u)
qed

lemma place_student_no_error: "numbers_ok c s \<Longrightarrow> place_student c g uid s \<noteq> (Inl e, s')"
  by (auto simp: place_student_result split: option.split)

lemma reactivate_error:
  assumes ok: "people_ok c s" and run: "reactivate c actor uid s = (Inl e, s')"
  shows "s' = s \<and> e \<noteq> DuplicateKey k"
proof -
  have "s' = s" using run unfolding reactivate_def by (rule transaction_error)
  moreover have "e \<noteq> DuplicateKey k"
  proof
    assume e: "e = DuplicateKey k"
    obtain u and g :: int where u: "leaving_target uid s = Inr u" "org_of s = Inr g"
        and other: "\<not> (u_type u = Principal \<and> list_ex (\<lambda>v. u_org v = g \<and> u_type v = Principal \<and> u_left_on v = None \<and> u_id v \<noteq> uid) (users s))"
        and fails: "(\<exists>s1. write_user c uid returned s = (Inl e, s1))
          \<or> (\<exists>x s1 s2. write_user c uid returned s = (Inr x, s1) \<and> (if u_type u = Student then place_student c g uid else ret NotMoved) s1 = (Inl e, s2))"
      using run unfolding e reactivate_def transaction_Inl bindH_Inl svc_simps check_Inl returned_def [abs_def]
      by (auto simp: target_error rights_error org_error)
    obtain g' where g: "bound_org s = Some g'" "one_where (\<lambda>u. u_id u = uid \<and> u_org u = g') (users s) = Some u" using u(1) by (auto simp: target_ok)
    then have "g' = g" "u_org u = g" using u(2) by (auto simp: org_of_def dest: one_where_Some)
    have "distinct (map u_id (users s))" using ok by (simp add: people_ok_def numbers_ok_def accounts_ok_def)
    then have "one_where (\<lambda>u. u_id u = uid) (users s) = Some u"
      using usrs.lookup_unique [of s u] one_where_Some [OF g(2)] by (auto simp: usrs.lookup_def usrs.keys_unique_def)
    note w = returned_free [OF ok this other [folded \<open>u_org u = g\<close>]]
    have "numbers_ok c (s\<lparr>users := update_where (\<lambda>u. u_id u = uid) returned (users s)\<rparr>)"
      using people_write_user [OF ok _ w] by (simp add: people_ok_def)
    with fails w show False by (auto simp: place_student_no_error ret_iff split: if_splits)
  qed
  ultimately show ?thesis by blast
qed

end
