(* ===== verification/Leaving_Claims.thy ===== *)
theory Leaving_Claims
  imports Returning Session_Claims
begin

text \<open>
  What leaving and coming back promise: the account is closed everywhere and nothing it did is lost, a teacher's
  duties are handed over, and a reactivated student gets back what is still free.
\<close>

subsection \<open>A school with a leaving teacher\<close>

definition leaving_db :: db where
  "leaving_db = import_db\<lparr>users := users import_db @ [demo_user 4 ''ravi'' Teacher], next_user := 5,
     slots := [\<lparr>t_id = 1, t_org = 1, t_teacher = 4, t_day = 1, t_period = 2, t_class = 7, t_section = 8, t_subject = None\<rparr>]\<rparr>"

definition school_people :: "user_row list" where
  "school_people = [demo_user 1 ''head'' Principal, demo_user 2 ''mira'' Student, demo_user 3 ''devi'' Student, demo_user 4 ''ravi'' Teacher]"

lemma leaving_db_fields [simp]:
  "users leaving_db = school_people" "bound_org leaving_db = Some 1" "student_profiles leaving_db = [pupil 2 ''1'', pupil 3 ''2'']"
  "sections leaving_db = [\<lparr>se_id = 8, se_org = 1, se_class = 7, se_name = ''A''\<rparr>]" "sub_requests leaving_db = []" "next_sub leaving_db = 1"
  by (simp_all add: leaving_db_def school_people_def import_db_def empty_db_def)

lemma leaving_user_fields [simp]:
  "u_id (demo_user i n t) = i" "u_org (demo_user i n t) = 1" "u_type (demo_user i n t) = t" "u_left_on (demo_user i n t) = None" "u_active (demo_user i n t) = True"
  "u_username (demo_user i n t) = n"
  by (simp_all add: demo_user_def)

lemma head_user_fields [simp]: "cu_id head_user = 1" "cu_type head_user = Principal"
  by (simp_all add: head_user_def)

lemma leaving_found: "one_where (\<lambda>u. u_id u = 4 \<and> u_org u = 1) school_people = Some (demo_user 4 ''ravi'' Teacher)"
  "one_where (\<lambda>u. u_id u = 2 \<and> u_org u = 1) school_people = Some (demo_user 2 ''mira'' Student)"
  by (simp_all add: one_where_def school_people_def)

lemma ravi_leaves: "\<exists>s'. mark_left (demo 0) head_user 4 None leaving_db = (Inr (school_today (demo 0)), s')"
  by (simp add: mark_left_def Let_def transaction_def bindH_def query_def leaving_target_def org_of_def leaving_found check_rights_def check_def
      ADMIN_MANAGED_def writes_def left_account_fields left_duties_def ret_def split: prod.split)

subsection \<open>Leaving\<close>

text \<open>C7: Once an account is marked as left nobody can use it: it is inactive, no access token, refresh token
  or password signs its owner in, its push devices and reset codes are gone, the other accounts keep every
  field, and the fees, payments and attendance of the school stay as they were.\<close>

theorem mark_left_signs_out:
  assumes left: "mark_left c actor uid reason s = (Inr d, s')"
  shows "users s' = map (\<lambda>u. if u_id u = uid then u\<lparr>u_active := False, u_left_on := Some (school_today c), u_left_reason := clean_reason reason,
        u_token_version := u_token_version u + 1\<rparr> else u) (users s)
    \<and> \<not> (\<exists>cu t. authenticate c' tok s' = (Inr cu, t) \<and> cu_id cu = uid)
    \<and> \<not> (\<exists>tr t. refresh c' rt s' = (Inr tr, t) \<and> tr_user_id tr = uid)
    \<and> \<not> (\<exists>tr t. login c' sid salt name pw code cid ans cap s' = (Inr tr, t) \<and> tr_user_id tr = uid)
    \<and> uid \<notin> rc_user ` set (reset_codes s') \<and> uid \<notin> d_user ` set (devices s')
    \<and> fees s' = fees s \<and> payments s' = payments s \<and> attendance s' = attendance s"
proof -
  note f = mark_left_fields [OF left]
  have "live_count uid s' = 0"
    using left_account_sessions [of uid c "clean_reason reason" s] f(3) by (simp add: live_count_def)
  note out = signed_out [OF this]
  have "\<not> u_active u" if "u \<in> set (users s')" "u_id u = uid" for u
  proof -
    from that(1) obtain v :: user_row where "u = (if u_id v = uid then v\<lparr>u_active := False, u_left_on := Some (school_today c), u_left_reason := clean_reason reason,
        u_token_version := u_token_version v + 1\<rparr> else v)"
      unfolding f(1) left_account_fields set_update_where by blast
    with that(2) show ?thesis by (simp split: if_splits)
  qed
  note no_login = inactive_no_login [OF this]
  have "uid \<notin> rc_user ` set (reset_codes s')" "uid \<notin> d_user ` set (devices s')" by (auto simp: f left_account_fields)
  moreover have "\<not> (\<exists>cu t. authenticate c' tok s' = (Inr cu, t) \<and> cu_id cu = uid)" using out(1) by blast
  moreover have "\<not> (\<exists>tr t. refresh c' rt s' = (Inr tr, t) \<and> tr_user_id tr = uid)" using out(2) by blast
  moreover have "\<not> (\<exists>tr t. login c' sid salt name pw code cid ans cap s' = (Inr tr, t) \<and> tr_user_id tr = uid)" using no_login by blast
  moreover have "users s' = map (\<lambda>u. if u_id u = uid then u\<lparr>u_active := False, u_left_on := Some (school_today c), u_left_reason := clean_reason reason,
        u_token_version := u_token_version u + 1\<rparr> else u) (users s)"
    by (simp only: f(1) left_account_fields update_where_def)
  ultimately show ?thesis using f by (intro conjI)
qed

lemma mark_left_signs_out_witness:
  "\<exists>s'. mark_left (demo 0) head_user 4 None leaving_db = (Inr (school_today (demo 0)), s')
     \<and> \<not> (\<exists>tr t. login (demo 60) ''s'' ''salt'' ''ravi'' ''pw'' None None None False s' = (Inr tr, t) \<and> tr_user_id tr = 4)"
proof -
  obtain s' where left: "mark_left (demo 0) head_user 4 None leaving_db = (Inr (school_today (demo 0)), s')" using ravi_leaves by blast
  from mark_left_signs_out [OF left] have "\<not> (\<exists>tr t. login (demo 60) ''s'' ''salt'' ''ravi'' ''pw'' None None None False s' = (Inr tr, t) \<and> tr_user_id tr = 4)" by blast
  with left show ?thesis by blast
qed

text \<open>C8: A member of staff who leaves holds nothing that is current: no class, period, vehicle or pending
  leave of the school, and no substitution request from today on waits for them or covers for them. The requests
  before today and those already answered stay, only a deleted period is forgotten, and the rules of the
  requests hold as before.\<close>

theorem left_staff_hands_over:
  assumes left: "mark_left c actor uid reason s = (Inr d, s')" and u: "one_where (\<lambda>u. u_id u = uid \<and> u_org u = g) (users s) = Some u"
    and g: "bound_org s = Some g" and staff: "u_type u \<noteq> Student"
  shows "(\<forall>a \<in> set (assignments s'). \<not> (ta_org a = g \<and> ta_teacher a = uid)) \<and> (\<forall>t \<in> set (slots s'). \<not> (t_org t = g \<and> t_teacher t = uid))
    \<and> (\<forall>v \<in> set (vehicles s'). \<not> (v_org v = g \<and> v_driver v = Some uid)) \<and> (\<forall>l \<in> set (leaves s'). \<not> (l_org l = g \<and> l_user l = uid \<and> l_status l = LPending))
    \<and> (\<forall>r \<in> set (sub_requests s'). r_org r = g \<and> school_today c \<le> r_date r \<and> is_open (r_status r) \<longrightarrow> r_substitute r \<noteq> uid \<and> r_requester r \<noteq> uid)
    \<and> length (sub_requests s') = length (sub_requests s)
    \<and> (\<forall>(r, r') \<in> set (zip (sub_requests s) (sub_requests s')). r_date r < school_today c \<or> \<not> is_open (r_status r) \<longrightarrow> r' = r \<or> r' = r\<lparr>r_slot := None\<rparr>)
    \<and> (subs_inv s \<longrightarrow> subs_inv s')"
proof -
  define s1 where "s1 = left_account c uid (clean_reason reason) s"
  obtain g' and u' :: user_row and a where g': "bound_org s = Some g'" "one_where (\<lambda>u. u_id u = uid \<and> u_org u = g') (users s) = Some u'"
    and s': "s' = (if u_type u' = Student then left_student g' uid s1 else snd (left_staff c g' uid s1))\<lparr>audit := a\<rparr>"
    by (rule mark_left_ok [OF left, folded s1_def], rule that, assumption+)
  have same: "g' = g" "u' = u" using g' g u by simp_all
  obtain n s2 where st: "left_staff c g uid s1 = (n, s2)" by (cases "left_staff c g uid s1")
  have s2: "s' = s2\<lparr>audit := a\<rparr>" using s' staff by (simp add: same st)
  note f = left_staff_fields [OF st]
  let ?f = "left_request c g uid (map t_id (filter (\<lambda>t. t_teacher t = uid \<and> t_org t = g) (slots s1)))"
  have rows: "sub_requests s' = map ?f (sub_requests s)"
    using left_staff_requests [OF st] by (simp add: s2) (simp add: s1_def left_account_fields)
  have "r_substitute r \<noteq> uid \<and> r_requester r \<noteq> uid"
    if "r \<in> set (sub_requests s')" "r_org r = g \<and> school_today c \<le> r_date r \<and> is_open (r_status r)" for r
  proof -
    from that(1) obtain q where q: "r = ?f q" unfolding rows by auto
    have "same_keys q (?f q)" by (rule left_request_keys)
    then show ?thesis using left_request_closed [of q g c uid] that(2) by (auto simp: q same_keys_def)
  qed
  moreover have "r' = r \<or> r' = r\<lparr>r_slot := None\<rparr>"
    if "(r, r') \<in> set (zip (sub_requests s) (sub_requests s'))" "r_date r < school_today c \<or> \<not> is_open (r_status r)" for r r'
  proof -
    have "r' = ?f r" using that(1) by (auto simp: rows zip_map2 zip_same)
    then show ?thesis using left_request_past [of r g c uid] that(2) by (auto simp: slot_gone_def split: option.splits)
  qed
  moreover have "subs_inv s'" if "subs_inv s"
  proof (rule inv_cong [OF inv_map [OF that, of ?f]])
    show "same_keys r (?f r)" for r by (rule left_request_keys)
    show "r_status (?f r) = r_status r \<or> \<not> is_open (r_status (?f r))" for r by (rule left_request_status)
    show "next_sub s' = next_sub (s\<lparr>sub_requests := map ?f (sub_requests s)\<rparr>)"
      using st by (auto simp: s2 left_staff_def delete_slots_def close_open_substitutions_def Let_def s1_def left_account_def revoke_all_def forget_user_devices_def)
  qed (simp add: rows)
  moreover have "\<forall>a \<in> set (assignments s'). \<not> (ta_org a = g \<and> ta_teacher a = uid)" "\<forall>t \<in> set (slots s'). \<not> (t_org t = g \<and> t_teacher t = uid)"
    by (auto simp: s2 f)
  moreover have "\<forall>v \<in> set (vehicles s'). \<not> (v_org v = g \<and> v_driver v = Some uid)" "\<forall>l \<in> set (leaves s'). \<not> (l_org l = g \<and> l_user l = uid \<and> l_status l = LPending)"
    by (simp_all add: s2 f ball_update_where) blast
  moreover have "length (sub_requests s') = length (sub_requests s)" by (simp add: rows)
  ultimately show ?thesis by (intro conjI) blast+
qed

lemma left_staff_hands_over_witness:
  "\<exists>s'. mark_left (demo 0) head_user 4 None leaving_db = (Inr (school_today (demo 0)), s') \<and> slots leaving_db \<noteq> [] \<and> slots s' = []"
proof -
  obtain s' where left: "mark_left (demo 0) head_user 4 None leaving_db = (Inr (school_today (demo 0)), s')" using ravi_leaves by blast
  have "one_where (\<lambda>u. u_id u = 4 \<and> u_org u = 1) (users leaving_db) = Some (demo_user 4 ''ravi'' Teacher)" by (simp add: leaving_found)
  from left_staff_hands_over [OF left this] have "\<forall>t \<in> set (slots s'). \<not> (t_org t = 1 \<and> t_teacher t = 4)" by simp
  moreover have "set (slots s') \<subseteq> set (slots leaving_db)"
    by (rule mark_left_ok [OF left]) (auto simp: left_student_fields left_account_fields left_staff_def Let_def delete_slots_def close_open_substitutions_def split: if_splits)
  moreover have "slots leaving_db \<noteq> []" "\<forall>t \<in> set (slots leaving_db). t_org t = 1 \<and> t_teacher t = 4" by (simp_all add: leaving_db_def)
  ultimately have "slots s' = []" by (metis all_not_in_conv set_empty subsetD)
  with left show ?thesis by (simp add: leaving_db_def)
qed

subsection \<open>Coming back\<close>

lemma one_where_user:
  assumes "distinct (map u_id (users s))" and "one_where (\<lambda>u. u_id u = uid \<and> u_org u = g) (users s) = Some u"
  shows "one_where (\<lambda>u. u_id u = uid) (users s) = Some u"
  using usrs.lookup_unique [of s u] assms one_where_Some [OF assms(2)] by (auto simp: usrs.lookup_def usrs.keys_unique_def)


lemma people_leaving_db: "people_ok (demo 0) leaving_db"
proof -
  have "accounts_ok (demo 0) leaving_db" by (simp add: accounts_ok_def school_people_def) (simp add: leaving_db_def)
  then have "numbers_ok (demo 0) leaving_db"
    by (auto simp: numbers_ok_def profile_ok_def school_people_def pupil_def NUMBERS_def num_def folds clash_def same_admission_def same_roll_def)
  then show ?thesis by (simp add: people_ok_def one_principal_def school_people_def sitting_def)
qed

lemma mira_leaves: "\<exists>s'. mark_left (demo 0) head_user 2 None leaving_db = (Inr (school_today (demo 0)), s')"
  by (simp add: mark_left_def Let_def transaction_def bindH_def query_def leaving_target_def org_of_def leaving_found check_rights_def check_def
      ADMIN_MANAGED_def writes_def left_account_fields left_duties_def reads_def ret_def split: prod.split)

lemma mira_rows:
  assumes "mark_left (demo 0) head_user 2 None leaving_db = (Inr d, s1)"
  shows "bound_org s1 = Some 1" "student_profiles s1 = [out_of_class (pupil 2 ''1''), pupil 3 ''2'']"
    "users s1 = [demo_user 1 ''head'' Principal, (demo_user 2 ''mira'' Student)\<lparr>u_active := False, u_left_on := Some (school_today (demo 0)),
       u_left_reason := None, u_token_version := u_token_version (demo_user 2 ''mira'' Student) + 1\<rparr>, demo_user 3 ''devi'' Student, demo_user 4 ''ravi'' Teacher]"
proof -
  have r: "clean_reason None = None" by code_simp
  obtain g and u :: user_row and a where u: "bound_org leaving_db = Some g" "one_where (\<lambda>u. u_id u = 2 \<and> u_org u = g) (users leaving_db) = Some u"
    and s1: "s1 = (if u_type u = Student then left_student g 2 (left_account (demo 0) 2 (clean_reason None) leaving_db)
      else snd (left_staff (demo 0) g 2 (left_account (demo 0) 2 (clean_reason None) leaving_db)))\<lparr>audit := a\<rparr>"
    by (rule mark_left_ok [OF assms], rule that, assumption+)
  from u have "g = 1" "u_type u = Student" by (auto simp: leaving_found)
  with s1 have s1: "s1 = (left_student 1 2 (left_account (demo 0) 2 None leaving_db))\<lparr>audit := a\<rparr>" by (simp add: r)
  show "bound_org s1 = Some 1" by (simp add: s1 left_student_def left_account_fields)
  show "student_profiles s1 = [out_of_class (pupil 2 ''1''), pupil 3 ''2'']"
    by (simp add: s1 left_student_profiles left_account_fields update_where_def pupil_def)
  show "users s1 = [demo_user 1 ''head'' Principal, (demo_user 2 ''mira'' Student)\<lparr>u_active := False, u_left_on := Some (school_today (demo 0)),
       u_left_reason := None, u_token_version := u_token_version (demo_user 2 ''mira'' Student) + 1\<rparr>, demo_user 3 ''devi'' Student, demo_user 4 ''ravi'' Teacher]"
    by (simp add: s1 left_student_fields left_account_fields update_where_def school_people_def)
qed

lemma mira_returns:
  assumes left: "mark_left (demo 0) head_user 2 None leaving_db = (Inr d, s1)"
  shows "\<exists>pl t. reactivate (demo 0) head_user 2 s1 = (Inr pl, t)"
proof -
  have ok: "people_ok (demo 0) s1" by (rule mark_left_people [OF people_leaving_db left])
  note rows = mira_rows [OF left]
  have "one_where (\<lambda>u. u_id u = 2) (users s1) = Some ((demo_user 2 ''mira'' Student)\<lparr>u_active := False, u_left_on := Some (school_today (demo 0)),
       u_left_reason := None, u_token_version := u_token_version (demo_user 2 ''mira'' Student) + 1\<rparr>)"
    by (simp add: rows one_where_def)
  note w = returned_free [OF ok this]
  have num: "numbers_ok (demo 0) (s1\<lparr>users := update_where (\<lambda>u. u_id u = 2) returned (users s1)\<rparr>)"
    using people_write_user [OF ok _ w] by (simp add: people_ok_def)
  have place: "\<exists>pl t. place_student (demo 0) 1 2 (s1\<lparr>users := update_where (\<lambda>u. u_id u = 2) returned (users s1)\<rparr>) = (Inr pl, t)"
    using place_student_no_error [OF num] by (metis prod.collapse sum.exhaust)
  have target: "leaving_target 2 s1 = Inr ((demo_user 2 ''mira'' Student)\<lparr>u_active := False, u_left_on := Some (school_today (demo 0)),
       u_left_reason := None, u_token_version := u_token_version (demo_user 2 ''mira'' Student) + 1\<rparr>)"
    by (simp add: leaving_target_def org_of_def rows one_where_def)
  show ?thesis
    using place w
    by (auto simp: reactivate_def returned_def [abs_def] transaction_def bindH_def query_def target check_rights_def check_def ADMIN_MANAGED_def org_of_def rows(1)
        reads_def writes_def ret_def)
qed


text \<open>C10: Coming back never meets a key of the database: when \<open>reactivate\<close> refuses, it is with one of its own
  answers, before it has written anything.\<close>

theorem reactivate_no_duplicate_key:
  assumes "people_ok c s" and "reactivate c actor uid s = (Inl e, s')"
  shows "s' = s \<and> (\<forall>k. e \<noteq> DuplicateKey k)"
  using reactivate_error [OF assms] by blast

lemma reactivate_no_duplicate_key_witness:
  "\<exists>e. reactivate (demo 0) head_user 1 leaving_db = (Inl e, leaving_db) \<and> e \<noteq> DuplicateKey (Some ''uq_users_org_principal'')"
proof -
  have "leaving_target 1 leaving_db = Inr (demo_user 1 ''head'' Principal)"
    by (simp add: leaving_target_def org_of_def school_people_def one_where_def)
  then obtain e where "reactivate (demo 0) head_user 1 leaving_db = (Inl e, leaving_db)"
    by (simp add: reactivate_def transaction_def bindH_def query_def check_rights_def)
  with reactivate_no_duplicate_key [OF people_leaving_db this] show ?thesis by blast
qed

subsection \<open>Runs of the office\<close>

text \<open>What the office does to accounts and profiles, each with the bodies its forms accept.\<close>

inductive office_step :: "ctx \<Rightarrow> db \<Rightarrow> db \<Rightarrow> bool" for c where
  hired: "staff_create c b0 = Inr b \<Longrightarrow> create_staff c actor b s = (Inr i, t) \<Longrightarrow> office_step c s t"
| edited: "staff_change c up0 = Inr up \<Longrightarrow> update_staff c actor uid up s = (Inr x, t) \<Longrightarrow> office_step c s t"
| admitted: "student_create c sb0 = Inr sb \<Longrightarrow> create_student c actor sb s = (Inr i, t) \<Longrightarrow> office_step c s t"
| changed: "clean_update c su0 = Inr su \<Longrightarrow> update_student c actor uid su s = (Inr x, t) \<Longrightarrow> office_step c s t"
| photo: "upload_photo actor uid stored s = (Inr path, t) \<Longrightarrow> office_step c s t"
| left: "mark_left c actor uid reason s = (Inr d, t) \<Longrightarrow> office_step c s t"
| again: "reactivate c actor uid s = (Inr pl, t) \<Longrightarrow> office_step c s t"

inductive office_run :: "ctx \<Rightarrow> db \<Rightarrow> db \<Rightarrow> bool" for c where
  start: "office_run c s s"
| step: "office_run c s t \<Longrightarrow> office_step c t u \<Longrightarrow> office_run c s u"

lemma office_step_people: "office_step c s t \<Longrightarrow> people_ok c s \<Longrightarrow> people_ok c t"
  by (induction rule: office_step.induct)
    (blast intro: create_staff_people update_staff_people create_student_people update_student_people upload_photo_people mark_left_people reactivate_people)+

lemma office_run_people: "office_run c s t \<Longrightarrow> people_ok c s \<Longrightarrow> people_ok c t"
  by (induction rule: office_run.induct) (blast intro: office_step_people)+



end
