(* ===== verification/Student_Attendance.thy ===== *)
theory Student_Attendance
  imports Access Handlers
begin

text \<open>
  A student's attendance for a month and for the session, \<^verbatim>\<open>app/services/student_attendance.py\<close>. A dict of
  the code that is keyed by days is the list of its rows; the test that a day lies in a month, on the year and
  the month of the day, is written on the ordinals of the month.
\<close>

subsection \<open>Months\<close>

definition first_day :: "int \<Rightarrow> int \<Rightarrow> date" where
  "first_day y m = ordinal y m 1"

definition next_month :: "int \<times> int \<Rightarrow> int \<times> int" where
  "next_month ym = (case ym of (y, m) \<Rightarrow> if m = 12 then (y + 1, 1) else (y, m + 1))"

text \<open>\<open>calendar.monthrange(year, month)[1]\<close>.\<close>

definition days_in :: "int \<Rightarrow> int \<Rightarrow> int" where
  "days_in y m = (case next_month (y, m) of (y', m') \<Rightarrow> first_day y' m' - first_day y m)"

definition month_days :: "int \<Rightarrow> int \<Rightarrow> date list" where
  "month_days y m = map (\<lambda>n. first_day y m + int n) [0..<nat (days_in y m)]"

definition in_month :: "int \<Rightarrow> int \<Rightarrow> date \<Rightarrow> bool" where
  "in_month y m d \<longleftrightarrow> first_day y m \<le> d \<and> d < first_day y m + days_in y m"

text \<open>\<open>_months\<close>: the months of a range, the first and the last included.\<close>

definition month_number :: "int \<times> int \<Rightarrow> int" where
  "month_number ym = (case ym of (y, m) \<Rightarrow> 12 * y + m)"

definition months :: "int \<times> int \<Rightarrow> int \<times> int \<Rightarrow> (int \<times> int) list" where
  "months start stop = map (\<lambda>n. (next_month ^^ n) start) [0..<nat (month_number stop - month_number start + 1)]"

text \<open>\<open>session_bounds\<close> of \<^verbatim>\<open>app/services/school_profile.py\<close>: the first and last day of the session a day lies in.\<close>

definition session_bounds :: "int \<Rightarrow> date \<Rightarrow> date \<times> date" where
  "session_bounds month today = (let
       m = (if 1 \<le> month \<and> month \<le> 12 then month else 4);
       y = (if m \<le> month_of today then year_of today else year_of today - 1);
       (ey, em) = (if 1 < m then (y + 1, m - 1) else (y, 12))
     in (first_day y m, ordinal (ey + em div 12) (em mod 12 + 1) 1 - 1))"

subsection \<open>Counts\<close>

text \<open>\<open>round\<close> to a whole number: halves go to the even neighbour.\<close>

definition round_even :: "int \<Rightarrow> int \<Rightarrow> int" where
  "round_even a b = (let q = a div b; r = a mod b in
     if 2 * r < b then q else if b < 2 * r then q + 1 else if even q then q else q + 1)"

definition percent :: "int \<Rightarrow> int \<Rightarrow> int \<Rightarrow> int option" where
  "percent present half_days working = (if working = 0 then None else Some (round_even ((2 * present + half_days) * 50) working))"

definition is_working_day :: "date list \<Rightarrow> date \<Rightarrow> bool" where
  "is_working_day off d \<longleftrightarrow> weekday d \<noteq> SUNDAY \<and> d \<notin> set off"

type_synonym records = "(date \<times> attendance_status) list"

record month_count =
  mc_year :: int
  mc_month :: int
  mc_days :: int
  mc_sundays :: int
  mc_holidays :: int
  mc_working :: int
  mc_working_total :: int
  mc_present :: int
  mc_absent :: int
  mc_half_day :: int
  mc_leave :: int
  mc_percent :: "int option"

definition status_count :: "int \<Rightarrow> int \<Rightarrow> attendance_status \<Rightarrow> records \<Rightarrow> int" where
  "status_count y m st records = int (length (filter (\<lambda>(d, x). in_month y m d \<and> x = st) records))"

definition counted_day :: "date list \<Rightarrow> records \<Rightarrow> date \<Rightarrow> date \<Rightarrow> bool" where
  "counted_day off records today d \<longleftrightarrow> is_working_day off d \<and> (d < today \<or> d = today \<and> d \<in> fst ` set records)"

definition month_counts :: "int \<Rightarrow> int \<Rightarrow> date list \<Rightarrow> records \<Rightarrow> date \<Rightarrow> month_count" where
  "month_counts y m hs records today = (let
       days = days_in y m;
       sundays = int (length (filter (\<lambda>d. weekday d = SUNDAY) (month_days y m)));
       off = int (length (filter (\<lambda>d. in_month y m d \<and> weekday d \<noteq> SUNDAY) hs));
       working = int (length (filter (counted_day hs records today) (month_days y m)));
       present = status_count y m Present records;
       half = status_count y m HalfDay records
     in \<lparr>mc_year = y, mc_month = m, mc_days = days, mc_sundays = sundays, mc_holidays = off, mc_working = working,
       mc_working_total = days - sundays - off, mc_present = present, mc_absent = status_count y m Absent records, mc_half_day = half,
       mc_leave = status_count y m OnLeave records, mc_percent = percent present half working\<rparr>)"

text \<open>\<open>_holidays\<close> and \<open>_records\<close>: the school's holidays and the student's marks of a range of days.\<close>

definition holidays_between :: "date \<Rightarrow> date \<Rightarrow> db \<Rightarrow> (date \<times> string) list res" where
  "holidays_between a b s = bindR (org_of s) (\<lambda>g.
     Inr (map (\<lambda>h. (h_date h, h_name h)) (filter (\<lambda>h. h_org h = g \<and> a \<le> h_date h \<and> h_date h \<le> b) (holidays s))))"

definition records_between :: "int \<Rightarrow> date \<Rightarrow> date \<Rightarrow> db \<Rightarrow> records res" where
  "records_between uid a b s = bindR (org_of s) (\<lambda>g.
     Inr (map (\<lambda>r. (at_date r, at_status r)) (filter (\<lambda>r. at_org r = g \<and> at_student r = uid \<and> a \<le> at_date r \<and> at_date r \<le> b) (attendance s))))"

subsection \<open>The session\<close>

text \<open>The totals, for the first and the last day of the session; the percentage with one decimal is the quotient of two whole numbers.\<close>

record attendance_overview =
  ao_months :: "month_count list"
  ao_working :: int
  ao_working_total :: int
  ao_present :: int
  ao_absent :: int
  ao_half_day :: int
  ao_leave :: int
  ao_holidays :: int
  ao_rate :: "(int \<times> int) option"

definition sum_of :: "(month_count \<Rightarrow> int) \<Rightarrow> month_count list \<Rightarrow> int" where
  "sum_of f ms = sum_list (map f ms)"

definition overview :: "ctx \<Rightarrow> int \<Rightarrow> date \<Rightarrow> date \<Rightarrow> db \<Rightarrow> attendance_overview res" where
  "overview c uid a b s = bindR (holidays_between a b s) (\<lambda>hs. bindR (records_between uid a b s) (\<lambda>rs.
     let today = school_today c;
         all_months = map (\<lambda>(y, m). month_counts y m (map fst hs) rs today) (months (year_of a, month_of a) (year_of b, month_of b));
         shown = filter (\<lambda>mc. month_number (mc_year mc, mc_month mc) \<le> month_number (year_of today, month_of today)) all_months;
         working = sum_of mc_working all_months; present = sum_of mc_present all_months; half = sum_of mc_half_day all_months
     in Inr \<lparr>ao_months = shown, ao_working = working, ao_working_total = sum_of mc_working_total all_months, ao_present = present,
          ao_absent = sum_of mc_absent all_months, ao_half_day = half, ao_leave = sum_of mc_leave all_months, ao_holidays = sum_of mc_holidays all_months,
          ao_rate = (if working = 0 then None else Some ((2 * present + half) * 50, working))\<rparr>))"

subsection \<open>One month, day by day\<close>

datatype day_kind = Marked attendance_status | Holiday | Sunday | NotMarked

record student_day =
  sdv_date :: date
  sdv_status :: day_kind
  sdv_holiday :: "string option"
  sdv_future :: bool

definition day_status :: "(date \<times> string) list \<Rightarrow> records \<Rightarrow> date \<Rightarrow> day_kind" where
  "day_status hs rs d = (case map_of rs d of Some st \<Rightarrow> Marked st
     | None \<Rightarrow> if d \<in> fst ` set hs then Holiday else if weekday d = SUNDAY then Sunday else NotMarked)"

definition student_day_of :: "(date \<times> string) list \<Rightarrow> records \<Rightarrow> date \<Rightarrow> date \<Rightarrow> student_day" where
  "student_day_of hs rs today d = \<lparr>sdv_date = d, sdv_status = day_status hs rs d, sdv_holiday = map_of hs d, sdv_future = today < d\<rparr>"

text \<open>What a day adds to the summary: a day still to come is not \<open>not marked\<close> yet, a holiday on a Sunday is not counted.\<close>

definition in_summary :: "date \<Rightarrow> student_day \<Rightarrow> bool" where
  "in_summary today v \<longleftrightarrow> (sdv_status v \<noteq> NotMarked \<or> sdv_date v < today) \<and> sdv_status v \<noteq> Sunday
     \<and> \<not> (sdv_status v = Holiday \<and> weekday (sdv_date v) = SUNDAY)"

definition summary_count :: "date \<Rightarrow> day_kind \<Rightarrow> student_day list \<Rightarrow> int" where
  "summary_count today st vs = int (length (filter (\<lambda>v. in_summary today v \<and> sdv_status v = st) vs))"

record month_view =
  mv_days :: "student_day list"
  mv_summary :: "(day_kind \<times> int) list"
  mv_counts :: month_count

definition month_of_student :: "ctx \<Rightarrow> int \<Rightarrow> int \<Rightarrow> int \<Rightarrow> db \<Rightarrow> month_view res" where
  "month_of_student c uid y m s =
     (if \<not> (1 \<le> m \<and> m \<le> 12 \<and> 2000 \<le> y \<and> y \<le> 2100) then Inl (BadRequest ''Invalid month'')
      else (let first = first_day y m; last = first + days_in y m - 1 in
        bindR (holidays_between first last s) (\<lambda>hs. bindR (records_between uid first last s) (\<lambda>rs.
          let today = school_today c; days = map (student_day_of hs rs today) (month_days y m) in
          Inr \<lparr>mv_days = days,
            mv_summary = map (\<lambda>st. (st, summary_count today st days)) [Marked Present, Marked HalfDay, Marked Absent, Marked OnLeave, Holiday, NotMarked],
            mv_counts = month_counts y m (map fst hs) rs today\<rparr>))))"

end
