(* ===== verification/Attendance.thy ===== *)
theory Attendance
  imports Access Handlers Notify Import_Cells
begin

text \<open>
  Marking the attendance of a section for a day, \<^verbatim>\<open>app/services/attendance.py\<close>: who may mark, the upsert of
  the marks, and telling the parents what changed.
\<close>

subsection \<open>Numbers and lists\<close>

record day_stats =
  ds_present :: int
  ds_absent :: int
  ds_on_leave :: int
  ds_half_day :: int
  ds_marked :: int
  ds_rate :: "(int \<times> int) option"

text \<open>\<open>stats\<close>; the percentage with one decimal is the quotient \<open>present * 100 / marked\<close>, and none for the 0.0 of a day without marks.\<close>

definition attendance_stats :: "ctx \<Rightarrow> date option \<Rightarrow> db \<Rightarrow> day_stats res" where
  "attendance_stats c day s = bindR (org_of s) (\<lambda>g. let
       d = (case day of None \<Rightarrow> school_today c | Some d \<Rightarrow> d);
       rows = filter (\<lambda>r. at_org r = g \<and> at_date r = d) (attendance s);
       count = (\<lambda>st. int (length (filter (\<lambda>r. at_status r = st) rows)));
       marked = int (length rows)
     in Inr \<lparr>ds_present = count Present, ds_absent = count Absent, ds_on_leave = count OnLeave, ds_half_day = count HalfDay, ds_marked = marked,
          ds_rate = (if marked = 0 then None else Some (count Present * 100, marked))\<rparr>)"

definition section_class :: "int \<Rightarrow> db \<Rightarrow> int res" where
  "section_class sid s = bindR (org_of s) (\<lambda>g. case one_where (\<lambda>x. se_id x = sid \<and> se_org x = g) (sections s) of
     None \<Rightarrow> Inl (NotFound ''Section not found'') | Some x \<Rightarrow> Inr (se_class x))"

text \<open>\<open>get_attendance\<close> before it is ordered: the active students of the section with their mark of the day.\<close>

definition get_attendance :: "current_user \<Rightarrow> int \<Rightarrow> date \<Rightarrow> db \<Rightarrow> (int \<times> string \<times> string option \<times> attendance_status option) list res" where
  "get_attendance user sid day s = bindR (section_class sid s) (\<lambda>k. bindR (ensure_can_view_section user (Some k) (Some sid) s) (\<lambda>_. bindR (org_of s) (\<lambda>g.
     Inr (concat (map (\<lambda>p. map (\<lambda>u. (u_id u, u_full_name u, sp_roll p,
         map_option at_status (one_where (\<lambda>r. at_student r = u_id u \<and> at_date r = day) (attendance s))))
       (filter (\<lambda>u. u_id u = sp_user p \<and> u_active u) (users s)))
       (filter (\<lambda>p. sp_org p = g \<and> sp_section p = Some sid) (student_profiles s)))))))"

subsection \<open>Marking\<close>

record attendance_body =
  ab_section :: int
  ab_date :: date
  ab_records :: "(int \<times> attendance_status) list"

text \<open>\<open>_statuses\<close>: the marks the day has already.\<close>

definition statuses :: "int \<Rightarrow> date \<Rightarrow> int list \<Rightarrow> db \<Rightarrow> int \<Rightarrow> attendance_status option" where
  "statuses g day ids s i = (if i \<in> set ids
     then map_option at_status (one_where (\<lambda>r. at_org r = g \<and> at_date r = day \<and> at_student r = i) (attendance s)) else None)"

text \<open>One row of the upsert; the key is the student and the date, and only the mark and who made it are replaced.\<close>

definition upsert_mark :: "int \<Rightarrow> int \<Rightarrow> date \<Rightarrow> int \<Rightarrow> int \<times> attendance_status \<Rightarrow> attendance_row list \<Rightarrow> attendance_row list" where
  "upsert_mark g sid day marker rec rows = (case rec of (i, st) \<Rightarrow>
     if list_ex (\<lambda>r. at_student r = i \<and> at_date r = day) rows
     then update_where (\<lambda>r. at_student r = i \<and> at_date r = day) (\<lambda>r. r\<lparr>at_status := st, at_marked_by := marker\<rparr>) rows
     else rows @ [\<lparr>at_org = g, at_student = i, at_section = sid, at_date = day, at_status = st, at_marked_by = marker\<rparr>])"

subsection \<open>Telling the parents\<close>

text \<open>A Python dict that is filled in order: a later value takes the place of an earlier one.\<close>

fun put :: "'k \<Rightarrow> 'v \<Rightarrow> ('k \<times> 'v) list \<Rightarrow> ('k \<times> 'v) list" where
  "put k v [] = [(k, v)]"
| "put k v ((k', v') # xs) = (if k' = k then (k, v) # xs else (k', v') # put k v xs)"

definition changed_marks :: "(int \<Rightarrow> attendance_status option) \<Rightarrow> (int \<times> attendance_status) list \<Rightarrow> (int \<times> attendance_status) list" where
  "changed_marks previous recs = fold (\<lambda>(i, st) d. put i st d) (filter (\<lambda>(i, st). previous i \<noteq> Some st) recs) []"

definition TICK :: string where "TICK = map char_of [0xE2, 0x9C, 0x85 :: nat]"
definition CLOCK :: string where "CLOCK = map char_of [0xF0, 0x9F, 0x95, 0x90 :: nat]"
definition WARNING :: string where "WARNING = map char_of [0xE2, 0x9A, 0xA0, 0xEF, 0xB8, 0x8F :: nat]"
definition MEMO :: string where "MEMO = map char_of [0xF0, 0x9F, 0x93, 0x9D :: nat]"

fun status_word :: "attendance_status \<Rightarrow> string" where
  "status_word Present = ''present''"
| "status_word Absent = ''absent''"
| "status_word OnLeave = ''on leave''"
| "status_word HalfDay = ''marked half day''"

definition mark_title :: "bool \<Rightarrow> date \<Rightarrow> bool \<Rightarrow> string \<Rightarrow> attendance_status \<Rightarrow> string" where
  "mark_title is_today day again name st = (let
       when = (if is_today then ''today'' else ''on '' @ day_month day);
       suffix = (if is_today then '' ('' @ day_month day @ '')'' else '''')
     in if again then ''Attendance updated: '' @ name @ '' is now '' @ status_word st @ (if is_today then '''' else '' ('' @ day_month day @ '')'')
        else (case st of
          Present \<Rightarrow> (if is_today then TICK @ '' '' @ name @ '' is present today'' else TICK @ '' '' @ name @ '' was present '' @ when)
        | HalfDay \<Rightarrow> CLOCK @ '' '' @ name @ '' attended half the day '' @ when @ suffix
        | Absent \<Rightarrow> WARNING @ '' '' @ name @ '' was marked absent '' @ when @ suffix
        | OnLeave \<Rightarrow> MEMO @ '' '' @ name @ '' is on leave '' @ when @ suffix))"

definition child_name :: "int \<Rightarrow> int \<Rightarrow> db \<Rightarrow> string" where
  "child_name g i s = (case one_where (\<lambda>u. u_org u = g \<and> u_id u = i) (users s) of None \<Rightarrow> ''Your child'' | Some u \<Rightarrow> first_name (Some (u_full_name u)))"

definition notify_parents :: "ctx \<Rightarrow> int \<Rightarrow> attendance_body \<Rightarrow> (int \<Rightarrow> attendance_status option) \<Rightarrow> unit handler" where
  "notify_parents c g b previous = (let changed = changed_marks previous (ab_records b) in
     if changed = [] then ret ()
     else bindH (query (\<lambda>_. route ''attendance'' True)) (\<lambda>data.
       writes (\<lambda>s. notify_each c (map (\<lambda>(i, st). \<lparr>it_user = i,
           it_title = mark_title (ab_date b = school_today c) (ab_date b) (previous i \<noteq> None) (child_name g i s) st, it_body = None, it_data = Some data\<rparr>) changed)
         ''attendance'' True s)))"

definition mark_attendance :: "ctx \<Rightarrow> current_user \<Rightarrow> attendance_body \<Rightarrow> nat handler" where
  "mark_attendance c user b =
     bindH (check (ab_date b \<le> school_today c) (BadRequest (''Attendance can'' @ [quote_char] @ ''t be marked for a future date''))) (\<lambda>_.
     transaction (
     bindH (query (section_class (ab_section b))) (\<lambda>k.
     bindH (query (ensure_can_edit_students user (Some k) (Some (ab_section b)))) (\<lambda>_.
     bindH (query (ensure_students_in_section (ab_section b) (map fst (ab_records b)))) (\<lambda>_.
     bindH (query org_of) (\<lambda>g.
     bindH (reads (statuses g (ab_date b) (map fst (ab_records b)))) (\<lambda>previous.
     bindH (writes (\<lambda>s. s\<lparr>attendance := fold (upsert_mark g (ab_section b) (ab_date b) (cu_id user)) (ab_records b) (attendance s)\<rparr>)) (\<lambda>_.
     bindH (writes (audit_record c (Some (cu_id user)) ''attendance.mark'' (Some ''section'') (Some (py_str_int (ab_section b)))
       [(''date'', iso_date (ab_date b)), (''records'', py_str_int (int (length (ab_records b))))])) (\<lambda>_.
     bindH (notify_parents c g b previous) (\<lambda>_. ret (length (ab_records b))))))))))))"

end
