(* ===== verification/Attendance_Claims.thy ===== *)
theory Attendance_Claims
  imports Student_Attendance Attendance Import_Demo
begin

text \<open>
  What the attendance screens promise: the numbers of a month are the days they name, marking a day records
  exactly what was sent, and only the parents of a changed mark are told.
\<close>

subsection \<open>The days of a month\<close>

lemma div_before:
  fixes y :: int
  assumes "0 < k"
  shows "(y - 1) div k = (if y mod k = 0 then y div k - 1 else y div k)"
proof (cases "y mod k = 0")
  case True
  have "y - 1 = k * (y div k - 1) + (k - 1)" using True mult_div_mod_eq [of k y] by (simp add: right_diff_distrib)
  from int_div_pos_eq [OF this] assms True show ?thesis by simp
next
  case False
  have "0 \<le> y mod k" "y mod k < k" using assms by simp_all
  moreover have "y - 1 = k * (y div k) + (y mod k - 1)" by simp
  ultimately show ?thesis using int_div_pos_eq [of "y - 1" k "y div k" "y mod k - 1"] False by simp
qed

text \<open>The leap days up to a year, kept folded: the days of a month are then plain sums.\<close>

definition leaps :: "int \<Rightarrow> int" where
  "leaps y = y div 4 - y div 100 + y div 400"

lemma leaps_mono: "leaps (y - 1) \<le> leaps y"
proof -
  have "y mod 4 = 0" if "y mod 100 = 0" using that mod_mod_cancel [of 4 100 y] by simp
  then show ?thesis unfolding leaps_def div_before [OF zero_less_numeral] by (auto split: if_splits)
qed

lemma ordinal_leaps:
  "ordinal y m d = (if m \<le> 2 then 365 * (y - 1) + leaps (y - 1) + (153 * (m + 9) + 2) div 5
     else 365 * y + leaps y + (153 * (m - 3) + 2) div 5) + d - 306"
proof -
  have sum: "x + p - q + r + (k + d - 1) - 305 = x + (p - q + r) + k + d - 306" for x p q r k :: int by simp
  have "(2 < m) = (\<not> m \<le> 2)" by auto
  then show ?thesis by (cases "m \<le> 2") (simp_all only: ordinal_def leaps_def Let_def sum if_True if_False simp_thms)
qed

lemma days_in_pos:
  assumes "1 \<le> m" and "m \<le> 12"
  shows "28 \<le> days_in y m"
proof -
  have "m = 1 \<or> m = 2 \<or> m = 3 \<or> m = 4 \<or> m = 5 \<or> m = 6 \<or> m = 7 \<or> m = 8 \<or> m = 9 \<or> m = 10 \<or> m = 11 \<or> m = 12"
    using assms by presburger
  then show ?thesis
    by (elim disjE; use leaps_mono [of y] in \<open>simp add: days_in_def next_month_def first_day_def ordinal_leaps\<close>)
qed

lemma month_days: "set (month_days y m) = {d. in_month y m d}" "distinct (month_days y m)"
proof -
  show "distinct (month_days y m)" by (simp add: month_days_def distinct_map inj_on_def)
  have "d \<in> set (month_days y m)" if "in_month y m d" for d
    unfolding month_days_def set_map
    by (rule image_eqI [of _ _ "nat (d - first_day y m)"]) (use that in \<open>auto simp: in_month_def\<close>)
  moreover have "in_month y m d" if "d \<in> set (month_days y m)" for d
    using that by (auto simp: month_days_def in_month_def)
  ultimately show "set (month_days y m) = {d. in_month y m d}" by blast
qed

lemma finite_month [simp]: "finite {d. in_month y m d \<and> P d}"
proof -
  have "finite {d. in_month y m d}" unfolding month_days(1) [symmetric] by simp
  then show ?thesis by (rule rev_finite_subset) auto
qed

lemma length_filter_month: "length (filter P (month_days y m)) = card {d. in_month y m d \<and> P d}"
proof -
  have "distinct (filter P (month_days y m))" by (simp add: month_days(2))
  from distinct_card [OF this] show ?thesis by (simp add: month_days(1))
qed

text \<open>Sundays, holidays on other days and working days make up the month.\<close>

lemma working_total:
  assumes "0 \<le> days_in y m" and "distinct hs"
  shows "days_in y m - int (length (filter (\<lambda>d. weekday d = SUNDAY) (month_days y m))) - int (length (filter (\<lambda>d. in_month y m d \<and> weekday d \<noteq> SUNDAY) hs))
    = int (card {d. in_month y m d \<and> is_working_day hs d})"
proof -
  let ?M = "{d. in_month y m d}" and ?S = "{d. in_month y m d \<and> weekday d = SUNDAY}" and ?H = "{d. in_month y m d \<and> weekday d \<noteq> SUNDAY \<and> d \<in> set hs}"
    and ?W = "{d. in_month y m d \<and> is_working_day hs d}"
  have "distinct (filter (\<lambda>d. in_month y m d \<and> weekday d \<noteq> SUNDAY) hs)" using assms(2) by simp
  from distinct_card [OF this, symmetric]
  have "length (filter (\<lambda>d. in_month y m d \<and> weekday d \<noteq> SUNDAY) hs) = card (set (filter (\<lambda>d. in_month y m d \<and> weekday d \<noteq> SUNDAY) hs))" .
  also have "set (filter (\<lambda>d. in_month y m d \<and> weekday d \<noteq> SUNDAY) hs) = ?H" by auto
  finally have off: "length (filter (\<lambda>d. in_month y m d \<and> weekday d \<noteq> SUNDAY) hs) = card ?H" .
  have "?M = ?S \<union> ?H \<union> ?W" by (auto simp: is_working_day_def)
  moreover have "card (?S \<union> ?H \<union> ?W) = card ?S + card ?H + card ?W"
    by (subst card_Un_disjoint; (subst card_Un_disjoint)?) (auto simp: is_working_day_def)
  moreover have "card ?M = nat (days_in y m)"
    using distinct_card [OF month_days(2) [of y m]] by (simp add: month_days(1)) (simp add: month_days_def)
  ultimately have "nat (days_in y m) = card ?S + card ?H + card ?W" by simp
  then show ?thesis using assms(1) off by (simp add: length_filter_month)
qed

subsection \<open>Rounding\<close>

lemma round_even_near:
  assumes "0 < b"
  shows "\<bar>2 * b * round_even a b - 2 * a\<bar> \<le> b"
proof -
  define q where "q = a div b"
  define r where "r = a mod b"
  have a: "a = b * q + r" "0 \<le> r" "r < b" using assms by (simp_all add: q_def r_def)
  have "round_even a b = q \<and> 2 * r \<le> b \<or> round_even a b = q + 1 \<and> b \<le> 2 * r"
    by (auto simp: round_even_def Let_def q_def [symmetric] r_def [symmetric])
  moreover have "2 * b * q - 2 * a = - (2 * r)" "2 * b * (q + 1) - 2 * a = 2 * b - 2 * r" by (simp_all add: a(1) algebra_simps)
  ultimately show ?thesis using a(2,3) by auto
qed

lemma round_even_bounds:
  assumes "0 < b" and "0 \<le> a" and "a \<le> n * b"
  shows "0 \<le> round_even a b \<and> round_even a b \<le> n"
proof -
  have "a div b \<le> (n * b) div b" using assms by (intro zdiv_mono1)
  then have q: "0 \<le> a div b" "a div b \<le> n" using assms by (simp_all add: pos_imp_zdiv_nonneg_iff)
  have "a mod b = 0" if "a div b = n"
  proof -
    have "a = b * n + a mod b" "0 \<le> a mod b" using that assms(1) mult_div_mod_eq [of b a] by simp_all
    then show ?thesis using assms(3) by (simp add: mult.commute)
  qed
  with q assms(1) show ?thesis by (cases "a div b = n") (auto simp: round_even_def Let_def)
qed

subsection \<open>Marks\<close>

lemma status_count_card:
  assumes "distinct (map fst rs)"
  shows "status_count y m st rs = int (card {d. in_month y m d \<and> (d, st) \<in> set rs})"
proof -
  let ?F = "filter (\<lambda>(d, x). in_month y m d \<and> x = st) rs"
  have "distinct (map fst ?F)" using assms by (simp add: distinct_map_filter)
  then have "length ?F = card (set (map fst ?F))" by (metis distinct_card length_map)
  also have "set (map fst ?F) = {d. in_month y m d \<and> (d, st) \<in> set rs}" by force
  finally show ?thesis by (simp add: status_count_def)
qed

lemma marks_disjoint:
  assumes "distinct (map fst rs)" and "(d, a) \<in> set rs" and "(d, b) \<in> set rs"
  shows "a = b"
  using eq_key_imp_eq_value [OF assms] .

text \<open>C13: The numbers of a month are what they say: the working days are the days that are neither a Sunday nor a
  holiday, those counted so far lie before today (or are today, once marked), each status counts the days
  marked with it, and the percentage is the nearest whole number to the share of the days attended. When only
  working days that have come were marked, the marks never exceed the days counted and the percentage lies
  between 0 and 100.\<close>

theorem attendance_month_exact:
  assumes m: "1 \<le> m" "m \<le> 12" and rs: "distinct (map fst rs)" and hs: "distinct hs" and mc: "mc = month_counts y m hs rs today"
  shows "mc_working_total mc = int (card {d. in_month y m d \<and> weekday d \<noteq> SUNDAY \<and> d \<notin> set hs})
    \<and> mc_working mc = int (card {d. in_month y m d \<and> weekday d \<noteq> SUNDAY \<and> d \<notin> set hs \<and> (d < today \<or> d = today \<and> d \<in> fst ` set rs)})
    \<and> mc_present mc = int (card {d. in_month y m d \<and> (d, Present) \<in> set rs}) \<and> mc_absent mc = int (card {d. in_month y m d \<and> (d, Absent) \<in> set rs})
    \<and> mc_half_day mc = int (card {d. in_month y m d \<and> (d, HalfDay) \<in> set rs}) \<and> mc_leave mc = int (card {d. in_month y m d \<and> (d, OnLeave) \<in> set rs})
    \<and> (case mc_percent mc of None \<Rightarrow> mc_working mc = 0
       | Some p \<Rightarrow> \<bar>2 * mc_working mc * p - (2 * mc_present mc + mc_half_day mc) * 100\<bar> \<le> mc_working mc)
    \<and> ((\<forall>d \<in> fst ` set rs. in_month y m d \<longrightarrow> counted_day hs rs today d)
       \<longrightarrow> mc_present mc + mc_absent mc + mc_half_day mc + mc_leave mc \<le> mc_working mc \<and> (\<forall>p. mc_percent mc = Some p \<longrightarrow> 0 \<le> p \<and> p \<le> 100))"
proof -
  let ?day = "\<lambda>st. {d. in_month y m d \<and> (d, st) \<in> set rs}" and ?C = "{d. in_month y m d \<and> counted_day hs rs today d}"
  have total: "mc_working_total mc = int (card {d. in_month y m d \<and> is_working_day hs d})"
    using working_total [of y m hs] days_in_pos [OF m, of y] hs by (simp add: mc month_counts_def Let_def)
  have working: "mc_working mc = int (card ?C)"
    by (simp add: mc month_counts_def Let_def length_filter_month)
  have st: "mc_present mc = int (card (?day Present))" "mc_absent mc = int (card (?day Absent))" "mc_half_day mc = int (card (?day HalfDay))"
    "mc_leave mc = int (card (?day OnLeave))"
    by (simp_all add: mc month_counts_def Let_def status_count_card [OF rs])
  have pc: "mc_percent mc = percent (mc_present mc) (mc_half_day mc) (mc_working mc)" by (simp add: mc month_counts_def Let_def)
  have near: "case mc_percent mc of None \<Rightarrow> mc_working mc = 0
      | Some p \<Rightarrow> \<bar>2 * mc_working mc * p - (2 * mc_present mc + mc_half_day mc) * 100\<bar> \<le> mc_working mc"
  proof (cases "mc_working mc = 0")
    case False
    then have "0 < mc_working mc" using working by linarith
    from round_even_near [OF this, of "(2 * mc_present mc + mc_half_day mc) * 50"] False show ?thesis
      by (simp add: pc percent_def algebra_simps)
  qed (simp add: pc percent_def)
  have fit: "mc_present mc + mc_absent mc + mc_half_day mc + mc_leave mc \<le> mc_working mc"
    if "\<forall>d \<in> fst ` set rs. in_month y m d \<longrightarrow> counted_day hs rs today d"
  proof -
    have "card (?day Present \<union> ?day Absent \<union> ?day HalfDay \<union> ?day OnLeave) \<le> card ?C"
      by (rule card_mono) (use that in force)+
    moreover have "card (?day Present \<union> ?day Absent \<union> ?day HalfDay \<union> ?day OnLeave)
        = card (?day Present) + card (?day Absent) + card (?day HalfDay) + card (?day OnLeave)"
    proof -
      have "?day a \<inter> ?day b = {}" if "a \<noteq> b" for a b using marks_disjoint [OF rs] that by blast
      then have dis: "(?day Present \<union> ?day Absent \<union> ?day HalfDay) \<inter> ?day OnLeave = {}" "(?day Present \<union> ?day Absent) \<inter> ?day HalfDay = {}"
        "?day Present \<inter> ?day Absent = {}" by (simp_all add: Int_Un_distrib2)
      show ?thesis by (simp only: card_Un_disjoint [OF _ _ dis(1)] card_Un_disjoint [OF _ _ dis(2)] card_Un_disjoint [OF _ _ dis(3)] finite_month finite_Un simp_thms)
    qed
    ultimately show ?thesis by (simp add: st working)
  qed
  have "0 \<le> p \<and> p \<le> 100" if "\<forall>d \<in> fst ` set rs. in_month y m d \<longrightarrow> counted_day hs rs today d" and p: "mc_percent mc = Some p" for p
  proof -
    have pos: "p = round_even ((2 * mc_present mc + mc_half_day mc) * 50) (mc_working mc)" "mc_working mc \<noteq> 0"
      using p by (auto simp: pc percent_def split: if_splits)
    from pos(2) have gt: "0 < mc_working mc" using working by linarith
    show ?thesis unfolding pos(1) by (rule round_even_bounds [OF gt]) (use fit [OF that(1)] in \<open>simp_all add: st\<close>)
  qed
  then have "(\<forall>d \<in> fst ` set rs. in_month y m d \<longrightarrow> counted_day hs rs today d)
       \<longrightarrow> mc_present mc + mc_absent mc + mc_half_day mc + mc_leave mc \<le> mc_working mc \<and> (\<forall>p. mc_percent mc = Some p \<longrightarrow> 0 \<le> p \<and> p \<le> 100)"
    using fit by blast
  with total [unfolded is_working_day_def] working [unfolded is_working_day_def counted_day_def conj_assoc] st near show ?thesis by (intro conjI)
qed

lemma attendance_month_exact_witness:
  "mc_working (month_counts 2026 5 [] [(739748, Present)] 739749) = int (card {d. in_month 2026 5 d \<and> weekday d \<noteq> SUNDAY \<and> d < 739749})"
proof -
  have "{d. in_month 2026 5 d \<and> weekday d \<noteq> SUNDAY \<and> d \<notin> set [] \<and> (d < 739749 \<or> d = 739749 \<and> d \<in> fst ` set [(739748, Present)])}
      = {d. in_month 2026 5 d \<and> weekday d \<noteq> SUNDAY \<and> d < 739749}" by auto
  with attendance_month_exact [of 5 "[(739748, Present)]" "[]" _ 2026 739749, OF _ _ _ _ refl] show ?thesis by simp
qed

text \<open>
  Nothing keeps a mark on a working day: a student marked present on a Sunday and on the Monday after has
  attended two days of one.
\<close>

lemma sunday_mark_over_100:
  "mc_percent (month_counts 2026 2 [] [(739648, Present), (739649, Present)] 739649) = Some 200"
  by code_simp

subsection \<open>Marking a day\<close>

text \<open>The mark of a student on a day, and the key of the table.\<close>

definition mark_in :: "attendance_row list \<Rightarrow> int \<Rightarrow> date \<Rightarrow> attendance_status option" where
  "mark_in rows i d = map_option at_status (one_where (\<lambda>r. at_student r = i \<and> at_date r = d) rows)"

definition one_mark :: "attendance_row list \<Rightarrow> bool" where
  "one_mark rows \<longleftrightarrow> distinct (map (\<lambda>r. (at_student r, at_date r)) rows)"

lemma one_where_snoc_other: "\<not> P x \<Longrightarrow> one_where P (rs @ [x]) = one_where P rs"
  unfolding one_where_def by (induction rs) auto

lemma one_where_snoc_new: "\<not> list_ex P rs \<Longrightarrow> P x \<Longrightarrow> one_where P (rs @ [x]) = Some x"
  unfolding one_where_def by (induction rs) auto

lemma upsert_mark_in:
  "mark_in (upsert_mark g sid day m (i, st) rows) j d = (if j = i \<and> d = day then Some st else mark_in rows j d)"
proof (cases "list_ex (\<lambda>r. at_student r = i \<and> at_date r = day) rows")
  case True
  then obtain r where "one_where (\<lambda>r. at_student r = i \<and> at_date r = day) rows = Some r"
    by (cases "one_where (\<lambda>r. at_student r = i \<and> at_date r = day) rows") (auto simp: one_where_None list_ex_iff)
  then show ?thesis using True by (auto simp: upsert_mark_def mark_in_def one_where_update_where option.map_comp comp_def intro!: option.map_cong
      dest!: one_where_Some split: if_splits)
next
  case False
  then show ?thesis by (auto simp: upsert_mark_def mark_in_def one_where_snoc_new one_where_snoc_other)
qed

lemma upsert_one_mark:
  assumes "one_mark rows"
  shows "one_mark (upsert_mark g sid day m rec rows)"
proof -
  have "map (\<lambda>r. (at_student r, at_date r)) (update_where P (\<lambda>r. r\<lparr>at_status := st, at_marked_by := m\<rparr>) rows) = map (\<lambda>r. (at_student r, at_date r)) rows" for P st
    by (simp add: update_where_def)
  then show ?thesis using assms by (cases rec) (auto simp: one_mark_def upsert_mark_def list_ex_iff)
qed

lemma marks_upserted:
  "one_mark rows \<Longrightarrow> one_mark (fold (upsert_mark g sid day m) recs rows)"
  "mark_in (fold (upsert_mark g sid day m) recs rows) i d
     = (if d = day then case map_of (rev recs) i of Some st \<Rightarrow> Some st | None \<Rightarrow> mark_in rows i d else mark_in rows i d)"
proof (induction recs arbitrary: rows)
  case (Cons rec recs)
  { case 1 then show ?case using Cons(1) upsert_one_mark by simp }
  { case 2 show ?case by (cases rec) (auto simp: Cons(2) upsert_mark_in map_add_def split: option.splits) }
qed simp_all

lemma put_new: "k \<notin> fst ` set d \<Longrightarrow> put k v d = d @ [(k, v)]"
  by (induction d) auto

lemma put_all:
  "distinct (map fst (d @ recs)) \<Longrightarrow> fold (\<lambda>(i, st) d. put i st d) recs d = d @ recs"
  by (induction recs arbitrary: d) (auto simp: put_new)

lemma changed_marks_distinct:
  assumes "distinct (map fst recs)"
  shows "changed_marks previous recs = filter (\<lambda>(i, st). previous i \<noteq> Some st) recs"
  unfolding changed_marks_def using put_all [of "[]" "filter (\<lambda>(i, st). previous i \<noteq> Some st) recs"] assms by (simp add: distinct_map_filter)

text \<open>The marks of the school's own students are read back by the query on the school.\<close>

lemma statuses_mark:
  assumes "\<forall>r \<in> set (attendance s). at_student r \<in> set ids \<longrightarrow> at_org r = g" and "i \<in> set ids"
  shows "statuses g day ids s i = mark_in (attendance s) i day"
proof -
  have "one_where (\<lambda>r. at_org r = g \<and> at_date r = day \<and> at_student r = i) rows = one_where (\<lambda>r. at_student r = i \<and> at_date r = day) rows"
    if "\<forall>r \<in> set rows. at_student r \<in> set ids \<longrightarrow> at_org r = g" for rows
    using that assms(2) unfolding one_where_def by (induction rows) auto
  from this [OF assms(1)] show ?thesis using assms(2) by (simp add: statuses_def mark_in_def)
qed

text \<open>The state a finished request leaves, from the marks the day had.\<close>

definition marked_state :: "ctx \<Rightarrow> current_user \<Rightarrow> attendance_body \<Rightarrow> int \<Rightarrow> notice_data \<Rightarrow> db \<Rightarrow> db" where
  "marked_state c user b g data s = (let
       s1 = audit_record c (Some (cu_id user)) ''attendance.mark'' (Some ''section'') (Some (py_str_int (ab_section b)))
         [(''date'', iso_date (ab_date b)), (''records'', py_str_int (int (length (ab_records b))))]
         (s\<lparr>attendance := fold (upsert_mark g (ab_section b) (ab_date b) (cu_id user)) (ab_records b) (attendance s)\<rparr>);
       previous = statuses g (ab_date b) (map fst (ab_records b)) s; changed = changed_marks previous (ab_records b)
     in if changed = [] then s1 else notify_each c (map (\<lambda>(i, st). \<lparr>it_user = i,
          it_title = mark_title (ab_date b = school_today c) (ab_date b) (previous i \<noteq> None) (child_name g i s1) st, it_body = None, it_data = Some data\<rparr>) changed)
        ''attendance'' True s1)"

lemma mark_attendance_ok:
  assumes run: "mark_attendance c user b s = (Inr n, s')" and g: "bound_org s = Some g"
  obtains data where "ab_date b \<le> school_today c" "ensure_students_in_section (ab_section b) (map fst (ab_records b)) s = Inr ()"
    "n = length (ab_records b)" "s' = marked_state c user b g data s"
proof -
  have "\<exists>data. route ''attendance'' True = Inr data" by (simp add: route_def STUDENT_ROUTES_def)
  then obtain data where data: "route ''attendance'' True = Inr data" by blast
  show thesis
    by (rule that [of data]) (use run data g in \<open>auto simp: mark_attendance_def notify_parents_def svc_simps org_of_def Let_def marked_state_def split: if_splits\<close>)
qed

lemma notify_each_told:
  "notifications s0 = notifications s
   \<Longrightarrow> map n_user (drop (length (notifications s)) (notifications (notify_each c items k p s0))) = filter (\<lambda>i. i \<noteq> 0) (map it_user items)"
  by (auto simp: notify_each_def Let_def notification_of_def filter_map comp_def filter_empty_conv)


text \<open>Two pupils of the demo school, one of them present and both marked.\<close>

definition monday_marks :: attendance_body where
  "monday_marks = \<lparr>ab_section = 8, ab_date = school_today (demo 0), ab_records = [(2, Present), (3, Absent)]\<rparr>"

definition marked_db :: db where
  "marked_db = import_db\<lparr>attendance := [\<lparr>at_org = 1, at_student = 2, at_section = 8, at_date = school_today (demo 0), at_status = Present, at_marked_by = 1\<rparr>]\<rparr>"

lemma monday_marked: "\<exists>s'. mark_attendance (demo 0) head_user monday_marks marked_db = (Inr 2, s')"
  by (simp add: mark_attendance_def monday_marks_def marked_db_def import_db_def empty_db_def head_user_def notify_parents_def bindH_def check_def query_def reads_def writes_def
      transaction_def ret_def section_class_def org_of_def one_where_def ensure_can_edit_students_def ensure_students_in_section_def is_manager_def MANAGERS_def pupil_def route_def
      STUDENT_ROUTES_def Let_def image_iff Bex_def cong: conj_cong split: prod.split)


text \<open>
  A request may name a student twice. The last mark is recorded, but the parents are told the last one that differs
  from what was recorded before: a child who was and stays absent is announced as present.
\<close>

lemma repeated_student_told_wrong:
  "mark_in (fold (upsert_mark 1 8 5 1) [(2, Present), (2, Absent)] [\<lparr>at_org = 1, at_student = 2, at_section = 8, at_date = 5, at_status = Absent, at_marked_by = 1\<rparr>]) 2 5 = Some Absent"
  "changed_marks (\<lambda>i. if i = 2 then Some Absent else None) [(2, Present), (2, Absent)] = [(2, Present)]"
  by code_simp+

end
