(* ===== verification/Classes.thy ===== *)
theory Classes
  imports Leaving Fees
begin

text \<open>
  Classes, sections and the subjects of a class, \<^verbatim>\<open>app/services/classes.py\<close>. What the database does when a class
  or a section is deleted is written out from the foreign keys of migrations 0001, 0008, 0011, 0013, 0015 and 0017: a
  record (\<open>RESTRICT\<close>) stops the statement, current set-up goes with it (\<open>CASCADE\<close>), students and lesson plans
  lose only the link (\<open>SET NULL\<close>). The link tables of notices and messages are not modelled.
\<close>

subsection \<open>Subjects\<close>

text \<open>\<open>_clean_subjects\<close>: trimmed, each once (whatever the case), in order.\<close>

fun clean_subjects_from :: "string list \<Rightarrow> string list \<Rightarrow> string list" where
  "clean_subjects_from seen [] = []"
| "clean_subjects_from seen (s # ss) = (let name = py_strip s in
     if name \<noteq> [] \<and> py_lower name \<notin> set seen then take 100 name # clean_subjects_from (py_lower name # seen) ss
     else clean_subjects_from seen ss)"

definition clean_subjects :: "string list \<Rightarrow> string list" where
  "clean_subjects ss = clean_subjects_from [] ss"

text \<open>The key \<open>(class_id, name)\<close> compares names as the collation does.\<close>

fun insert_subjects :: "ctx \<Rightarrow> int \<Rightarrow> string list \<Rightarrow> unit handler" where
  "insert_subjects c k [] s = (Inr (), s)"
| "insert_subjects c k (n # ns) s =
     (if list_ex (\<lambda>r. cs_class r = k \<and> sql_eq c (cs_name r) n) (class_subjects s) then (Inl (DuplicateKey (Some ''uq_class_subject'')), s)
      else insert_subjects c k ns (s\<lparr>class_subjects := class_subjects s @ [\<lparr>cs_class = k, cs_name = n\<rparr>]\<rparr>))"

definition set_subjects :: "ctx \<Rightarrow> int \<Rightarrow> string list \<Rightarrow> unit handler" where
  "set_subjects c k ss =
     bindH (writes (\<lambda>s. s\<lparr>class_subjects := delete_where (\<lambda>r. cs_class r = k) (class_subjects s)\<rparr>)) (\<lambda>_.
     insert_subjects c k (clean_subjects ss))"

subsection \<open>New classes and sections\<close>

record class_body =
  kb_name :: string
  kb_fee :: "rat option"
  kb_subjects :: "string list"

definition parse_class :: "class_body \<Rightarrow> class_body res" where
  "parse_class b = (if kb_name b = [] \<or> 50 < length (kb_name b) \<or> (case kb_fee b of None \<Rightarrow> False | Some a \<Rightarrow> a < 0)
     then Inl (Unprocessable ''a field is out of range'') else Inr b)"

text \<open>\<open>except DuplicateKey: raise Conflict(\<dots>)\<close>.\<close>

definition duplicate_is :: "string \<Rightarrow> 'a handler \<Rightarrow> 'a handler" where
  "duplicate_is msg m s = (case m s of (Inl (DuplicateKey k), s') \<Rightarrow> (Inl (Conflict msg), s') | r \<Rightarrow> r)"

definition class_named :: "ctx \<Rightarrow> int \<Rightarrow> string \<Rightarrow> db \<Rightarrow> bool" where
  "class_named c g n s = list_ex (\<lambda>k. cl_org k = g \<and> sql_eq c (cl_name k) n) (classes s)"

definition insert_class :: "ctx \<Rightarrow> int \<Rightarrow> string \<Rightarrow> int option \<Rightarrow> int handler" where
  "insert_class c g n fee s = (if class_named c g n s then (Inl (DuplicateKey (Some ''uq_classes_org_name'')), s)
     else (Inr (next_class s), s\<lparr>classes := classes s @ [\<lparr>cl_id = next_class s, cl_org = g, cl_name = n, cl_fee = fee\<rparr>], next_class := next_class s + 1\<rparr>))"

definition create_class :: "ctx \<Rightarrow> class_body \<Rightarrow> int handler" where
  "create_class c b0 = bindH (query (\<lambda>_. parse_class b0)) (\<lambda>b. transaction (
     bindH (query org_of) (\<lambda>g.
     bindH (reads (class_named c g (kb_name b))) (\<lambda>taken.
     bindH (check (\<not> taken) (Conflict ''Class already exists'')) (\<lambda>_.
     bindH (duplicate_is ''Class already exists'' (insert_class c g (kb_name b) (map_option to_paise (kb_fee b)))) (\<lambda>k.
     bindH (if kb_subjects b = [] then ret () else set_subjects c k (kb_subjects b)) (\<lambda>_. ret k)))))))"

definition class_of_org :: "int \<Rightarrow> int \<Rightarrow> db \<Rightarrow> class_row option" where
  "class_of_org g k s = one_where (\<lambda>x. cl_id x = k \<and> cl_org x = g) (classes s)"

definition update_subjects :: "ctx \<Rightarrow> int \<Rightarrow> string list \<Rightarrow> string list handler" where
  "update_subjects c k ss = transaction (
     bindH (query org_of) (\<lambda>g.
     bindH (found (class_of_org g k) (NotFound ''Class not found'')) (\<lambda>_.
     bindH (set_subjects c k ss) (\<lambda>_.
     reads (\<lambda>s. map cs_name (filter (\<lambda>r. cs_class r = k) (class_subjects s)))))))"

definition section_named :: "ctx \<Rightarrow> int \<Rightarrow> string \<Rightarrow> db \<Rightarrow> bool" where
  "section_named c k n s = list_ex (\<lambda>x. se_class x = k \<and> sql_eq c (se_name x) n) (sections s)"

definition insert_section :: "ctx \<Rightarrow> int \<Rightarrow> int \<Rightarrow> string \<Rightarrow> int handler" where
  "insert_section c g k n s = (if section_named c k n s then (Inl (DuplicateKey (Some ''uq_class_section'')), s)
     else (Inr (next_section s), s\<lparr>sections := sections s @ [\<lparr>se_id = next_section s, se_org = g, se_class = k, se_name = n\<rparr>], next_section := next_section s + 1\<rparr>))"

definition create_section :: "ctx \<Rightarrow> int \<Rightarrow> string \<Rightarrow> int handler" where
  "create_section c k n = bindH (check (n \<noteq> [] \<and> length n \<le> 10) (Unprocessable ''a field is out of range'')) (\<lambda>_. transaction (
     bindH (query org_of) (\<lambda>g.
     bindH (found (class_of_org g k) (NotFound ''Class not found'')) (\<lambda>_.
     bindH (reads (section_named c k n)) (\<lambda>taken.
     bindH (check (\<not> taken) (Conflict ''Section already exists'')) (\<lambda>_.
     duplicate_is ''Section already exists'' (insert_section c g k n)))))))"

text \<open>\<open>list_classes\<close>: by name, the sections of a class by name, its subjects in their order.\<close>

record section_view =
  zv_row :: section_row
  zv_students :: int
  zv_teacher :: "string option"

definition section_view_of :: "db \<Rightarrow> section_row \<Rightarrow> section_view" where
  "section_view_of s x = \<lparr>zv_row = x, zv_students = int (length (filter (\<lambda>p. sp_section p = Some (se_id x)) (student_profiles s))),
     zv_teacher = first_row (List.map_filter (\<lambda>a. map_option u_full_name (one_where (\<lambda>u. u_id u = ta_teacher a) (users s)))
       (filter (\<lambda>a. ta_section a = se_id x \<and> ta_class_teacher a) (assignments s)))\<rparr>"

definition list_classes :: "ctx \<Rightarrow> db \<Rightarrow> (class_row \<times> section_view list \<times> string list) list res" where
  "list_classes c s = bindR (org_of s) (\<lambda>g. Inr (map (\<lambda>k. (k,
       map (section_view_of s) (sort_key (\<lambda>x. collation c (se_name x)) (filter (\<lambda>x. se_org x = g \<and> se_class x = cl_id k) (sections s))),
       map cs_name (filter (\<lambda>r. cs_class r = cl_id k) (class_subjects s))))
     (sort_key (\<lambda>k. collation c (cl_name k)) (filter (\<lambda>k. cl_org k = g) (classes s)))))"

subsection \<open>The roll of a section\<close>

text \<open>\<open>CAST(roll_no AS UNSIGNED)\<close>: the digits at the start; a missing number comes first.\<close>

definition roll_number :: "string option \<Rightarrow> int option" where
  "roll_number t = map_option (\<lambda>x. let d = takeWhile ascii_digit (py_lstrip x) in if d = [] then 0 else int (digits_val 0 d)) t"

definition roll_order :: "ctx \<Rightarrow> user_row \<times> student_profile_row \<Rightarrow> bool \<times> int \<times> string" where
  "roll_order c up = (case up of (u, p) \<Rightarrow> (case roll_number (sp_roll p) of None \<Rightarrow> (False, 0, collation c (u_full_name u)) | Some n \<Rightarrow> (True, n, collation c (u_full_name u))))"

definition on_roll :: "int \<Rightarrow> db \<Rightarrow> (user_row \<times> student_profile_row) list" where
  "on_roll i s = concat (map (\<lambda>p. map (\<lambda>u. (u, p)) (filter (\<lambda>u. u_id u = sp_user p \<and> u_active u) (users s)))
     (filter (\<lambda>p. sp_section p = Some i) (student_profiles s)))"

subsection \<open>What a class or section holds\<close>

definition count_of :: "('a \<Rightarrow> bool) \<Rightarrow> 'a list \<Rightarrow> int" where
  "count_of P xs = int (length (filter P xs))"

definition section_records :: "int list \<Rightarrow> db \<Rightarrow> (string \<times> int) list" where
  "section_records ids s = (if ids = [] then [] else [
     (''attendance'', count_of (\<lambda>r. at_section r \<in> set ids) (attendance s)),
     (''homework'', count_of (\<lambda>h. hw_section h \<in> set ids) (class_homework s)),
     (''documents'', count_of (\<lambda>d. dc_section d \<in> Some ` set ids) (documents s)),
     (''substitutions'', count_of (\<lambda>r. r_section r \<in> set ids) (sub_requests s))])"

definition exams_with_results :: "int \<Rightarrow> db \<Rightarrow> int list" where
  "exams_with_results k s = remdups (map er_exam (filter (\<lambda>r. list_ex (\<lambda>e. e_id e = er_exam r \<and> e_class e = Some k) (exams s)) (exam_results s)))"

definition class_records :: "int \<Rightarrow> int list \<Rightarrow> db \<Rightarrow> (string \<times> int) list" where
  "class_records k ids s = [
     (''attendance'', count_of (\<lambda>r. at_section r \<in> set ids) (attendance s)),
     (''homework'', count_of (\<lambda>h. hw_class h = k) (class_homework s)),
     (''documents'', count_of (\<lambda>d. dc_class d = Some k \<or> dc_section d \<in> Some ` set ids) (documents s)),
     (''substitutions'', count_of (\<lambda>r. r_class r = k \<or> r_section r \<in> set ids) (sub_requests s)),
     (''lesson_plans'', count_of (\<lambda>p. lp_class p = k) (lesson_plans s)),
     (''exams_with_results'', int (length (exams_with_results k s)))]"

definition RECORD_WORDS :: "(string \<times> string \<times> string) list" where
  "RECORD_WORDS = [(''attendance'', ''attendance record'', ''attendance records''), (''homework'', ''homework post'', ''homework posts''),
     (''documents'', ''timetable / syllabus file'', ''timetable / syllabus files''), (''substitutions'', ''substitution record'', ''substitution records''),
     (''lesson_plans'', ''lesson plan'', ''lesson plans''), (''exams_with_results'', ''exam with results'', ''exams with results'')]"

text \<open>The format \<open>:,\<close> of a count; \<open>commas\<close> works from the right.\<close>

fun commas :: "string \<Rightarrow> string" where
  "commas (a # b # d # e # xs) = a # b # d # CHR '','' # commas (e # xs)"
| "commas xs = xs"

definition thousands :: "int \<Rightarrow> string" where
  "thousands n = rev (commas (rev (py_str_int n)))"

definition record_phrase :: "string \<times> int \<Rightarrow> string" where
  "record_phrase kn = (case kn of (k, n) \<Rightarrow> thousands n @ '' ''
     @ (case map_of RECORD_WORDS k of None \<Rightarrow> [] | Some (one, many) \<Rightarrow> if n = 1 then one else many))"

definition describe :: "(string \<times> int) list \<Rightarrow> string" where
  "describe held = (let parts = map record_phrase held in
     if length parts = 1 then hd parts else py_join '', '' (butlast parts) @ '' and '' @ List.last parts)"

definition refuse :: "string \<Rightarrow> (string \<times> int) list \<Rightarrow> string \<Rightarrow> unit res" where
  "refuse what records advice = (let held = filter (\<lambda>(_, n). n \<noteq> 0) records in
     if held = [] then Inr ()
     else Inl (Conflict (what @ '' can'' @ [quote_char] @ ''t be deleted: it holds '' @ describe held @ '', and deleting it would erase them. '' @ advice)))"

subsection \<open>Deleting\<close>

text \<open>\<open>storage.delete_after_commit\<close>: files to remove once the request's change is final.\<close>

definition drop_files :: "string list \<Rightarrow> db \<Rightarrow> db" where
  "drop_files paths s = s\<lparr>dropped_files := dropped_files s @ filter (\<lambda>p. p \<noteq> []) paths\<rparr>"

definition sections_in_use :: "int list \<Rightarrow> db \<Rightarrow> bool" where
  "sections_in_use ids s = (list_ex (\<lambda>r. at_section r \<in> set ids) (attendance s) \<or> list_ex (\<lambda>h. hw_section h \<in> set ids) (class_homework s)
     \<or> list_ex (\<lambda>d. dc_section d \<in> Some ` set ids) (documents s) \<or> list_ex (\<lambda>r. r_section r \<in> set ids) (sub_requests s))"

definition class_in_use :: "int \<Rightarrow> db \<Rightarrow> bool" where
  "class_in_use k s = (list_ex (\<lambda>h. hw_class h = k) (class_homework s) \<or> list_ex (\<lambda>d. dc_class d = Some k) (documents s)
     \<or> list_ex (\<lambda>r. r_class r = k) (sub_requests s) \<or> list_ex (\<lambda>p. lp_class p = k) (lesson_plans s) \<or> exams_with_results k s \<noteq> [])"

text \<open>The rows that go with sections, and the links that are cleared.\<close>

definition cascade_sections :: "int list \<Rightarrow> db \<Rightarrow> db" where
  "cascade_sections ids s = (let s1 = delete_slots (\<lambda>t. t_section t \<in> set ids) s in
     s1\<lparr>sections := delete_where (\<lambda>x. se_id x \<in> set ids) (sections s1),
       assignments := delete_where (\<lambda>a. ta_section a \<in> set ids) (assignments s1),
       student_profiles := update_where (\<lambda>p. sp_section p \<in> Some ` set ids) (\<lambda>p. p\<lparr>sp_section := None\<rparr>) (student_profiles s1),
       lesson_plans := update_where (\<lambda>p. lp_section p \<in> Some ` set ids) (\<lambda>p. p\<lparr>lp_section := None\<rparr>) (lesson_plans s1)\<rparr>)"

definition cascade_class :: "int \<Rightarrow> db \<Rightarrow> db" where
  "cascade_class k s = (let gone = map e_id (filter (\<lambda>e. e_class e = Some k) (exams s)); s1 = delete_slots (\<lambda>t. t_class t = k) s in
     s1\<lparr>classes := delete_where (\<lambda>x. cl_id x = k) (classes s1), class_subjects := delete_where (\<lambda>r. cs_class r = k) (class_subjects s1),
       assignments := delete_where (\<lambda>a. ta_class a = k) (assignments s1),
       student_profiles := update_where (\<lambda>p. sp_class p = Some k) (\<lambda>p. p\<lparr>sp_class := None\<rparr>) (student_profiles s1),
       exams := delete_where (\<lambda>e. e_class e = Some k) (exams s1),
       exam_papers := delete_where (\<lambda>p. pa_class p = k \<or> pa_exam p \<in> set gone) (exam_papers s1)\<rparr>)"

definition sections_of :: "int \<Rightarrow> db \<Rightarrow> int list" where
  "sections_of k s = map se_id (filter (\<lambda>x. se_class x = k) (sections s))"

text \<open>The two statements \<open>DELETE FROM sections\<close> and \<open>DELETE FROM classes\<close>.\<close>

definition delete_section_row :: "int \<Rightarrow> unit handler" where
  "delete_section_row i s = (if sections_in_use [i] s then (Inl (IntegrityError 1451), s) else (Inr (), cascade_sections [i] s))"

definition delete_class_row :: "int \<Rightarrow> unit handler" where
  "delete_class_row k s = (if class_in_use k s \<or> sections_in_use (sections_of k s) s then (Inl (IntegrityError 1451), s)
     else (Inr (), cascade_class k (cascade_sections (sections_of k s) s)))"

definition class_paper_files :: "int \<Rightarrow> db \<Rightarrow> string list" where
  "class_paper_files k s = List.map_filter e_paper (filter (\<lambda>e. e_class e = Some k) (exams s)) @ map pa_path (filter (\<lambda>p. pa_class p = k) (exam_papers s))"

definition delete_class :: "ctx \<Rightarrow> int option \<Rightarrow> int \<Rightarrow> unit handler" where
  "delete_class c actor k = transaction (
     bindH (query org_of) (\<lambda>g.
     bindH (found (class_of_org g k) (NotFound ''Class not found'')) (\<lambda>cls.
     bindH (reads (sections_of k)) (\<lambda>ids.
     bindH (query (\<lambda>s. refuse (cl_name cls) (class_records k ids s)
       ''A class with records stays; move its students to another class if it is no longer used.'')) (\<lambda>_.
     bindH (reads (class_paper_files k)) (\<lambda>papers.
     bindH (reads (\<lambda>s. count_of (\<lambda>p. sp_class p = Some k) (student_profiles s))) (\<lambda>students.
     bindH (delete_class_row k) (\<lambda>_.
     bindH (writes (drop_files papers)) (\<lambda>_.
     writes (audit_record c actor ''class.delete'' (Some ''class'') (Some (py_str_int k))
       [(''name'', cl_name cls), (''sections'', py_str_int (int (length ids))), (''students_unassigned'', py_str_int students)]))))))))))"

definition section_with_class :: "int \<Rightarrow> int \<Rightarrow> int \<Rightarrow> db \<Rightarrow> (section_row \<times> class_row) option" where
  "section_with_class g k i s = (case one_where (\<lambda>x. se_id x = i \<and> se_class x = k \<and> se_org x = g) (sections s) of None \<Rightarrow> None
     | Some x \<Rightarrow> map_option (\<lambda>cls. (x, cls)) (one_where (\<lambda>cls. cl_id cls = se_class x) (classes s)))"

definition delete_section :: "ctx \<Rightarrow> int option \<Rightarrow> int \<Rightarrow> int \<Rightarrow> unit handler" where
  "delete_section c actor k i = transaction (
     bindH (query org_of) (\<lambda>g.
     bindH (found (section_with_class g k i) (NotFound ''Section not found'')) (\<lambda>(x, cls).
     bindH (query (\<lambda>s. refuse (''Section '' @ se_name x) (section_records [i] s)
       ''A section with records stays; move its students to another section if it is no longer used.'')) (\<lambda>_.
     bindH (reads (\<lambda>s. count_of (\<lambda>p. sp_section p = Some i) (student_profiles s))) (\<lambda>students.
     bindH (delete_section_row i) (\<lambda>_.
     writes (audit_record c actor ''section.delete'' (Some ''section'') (Some (py_str_int i))
       [(''class_id'', py_str_int k), (''class'', cl_name cls), (''name'', se_name x), (''students_unassigned'', py_str_int students)])))))))"

end
