(* ===== verification/Duties.thy ===== *)
theory Duties
  imports Classes
begin

text \<open>
  Who teaches where and when: the assignments of \<^verbatim>\<open>app/services/assignments.py\<close> and the weekly timetable of
  \<^verbatim>\<open>app/services/timetable.py\<close>. A list is ordered as the query orders it.
\<close>

subsection \<open>Assignments\<close>

record assignment_body =
  asg_teacher :: int
  asg_class :: int
  asg_section :: int
  asg_class_teacher :: bool
  asg_subject :: "string option"

definition role_word :: "bool \<Rightarrow> string" where
  "role_word ct = (if ct then ''class_teacher'' else ''subject_teacher'')"

definition active_teacher :: "int \<Rightarrow> int \<Rightarrow> db \<Rightarrow> user_row option" where
  "active_teacher g i s = one_where (\<lambda>u. u_id u = i \<and> u_org u = g \<and> u_type u = Teacher \<and> u_left_on u = None) (users s)"

definition section_in_class :: "int \<Rightarrow> int \<Rightarrow> int \<Rightarrow> db \<Rightarrow> section_row option" where
  "section_in_class g k i s = one_where (\<lambda>x. se_id x = i \<and> se_class x = k \<and> se_org x = g) (sections s)"

text \<open>\<open>subject <=> %s\<close>: two nulls are the same.\<close>

definition subject_matches :: "ctx \<Rightarrow> string option \<Rightarrow> string option \<Rightarrow> bool" where
  "subject_matches c a b = (case (a, b) of (None, None) \<Rightarrow> True | (Some x, Some y) \<Rightarrow> sql_eq c x y | _ \<Rightarrow> False)"

text \<open>The body does not limit the subject: one that is too long for its column raises pymysql's \<open>DataError\<close>, which no handler knows.\<close>

definition insert_assignment :: "ctx \<Rightarrow> int \<Rightarrow> assignment_body \<Rightarrow> int handler" where
  "insert_assignment c g b s =
     (if (case asg_subject b of None \<Rightarrow> False | Some t \<Rightarrow> 100 < length t) then (Inl (RuntimeError ''Data too long for column''), s)
      else if list_ex (\<lambda>a. ta_teacher a = asg_teacher b \<and> ta_section a = asg_section b \<and> ta_class_teacher a = asg_class_teacher b
          \<and> ta_subject a \<noteq> None \<and> subject_matches c (ta_subject a) (asg_subject b)) (assignments s)
      then (Inl (DuplicateKey (Some ''uq_assignment'')), s)
      else (Inr (next_assignment s), s\<lparr>assignments := assignments s @ [\<lparr>ta_id = next_assignment s, ta_org = g, ta_teacher = asg_teacher b,
          ta_class = asg_class b, ta_section = asg_section b, ta_class_teacher = asg_class_teacher b, ta_subject = asg_subject b\<rparr>],
        next_assignment := next_assignment s + 1\<rparr>))"

definition assignment_checks :: "ctx \<Rightarrow> assignment_body \<Rightarrow> db \<Rightarrow> unit res" where
  "assignment_checks c b s =
     (if asg_class_teacher b \<and> list_ex (\<lambda>a. ta_teacher a = asg_teacher b \<and> ta_class_teacher a) (assignments s)
      then Inl (Conflict ''This teacher is already a class teacher of another section'')
      else if asg_class_teacher b \<and> list_ex (\<lambda>a. ta_section a = asg_section b \<and> ta_class_teacher a) (assignments s)
      then Inl (Conflict ''This section already has a class teacher'')
      else if list_ex (\<lambda>a. ta_teacher a = asg_teacher b \<and> ta_section a = asg_section b \<and> ta_class_teacher a = asg_class_teacher b
          \<and> subject_matches c (ta_subject a) (asg_subject b)) (assignments s)
      then Inl (Conflict ''Assignment already exists'') else Inr ())"

definition create_assignment :: "ctx \<Rightarrow> current_user \<Rightarrow> assignment_body \<Rightarrow> int handler" where
  "create_assignment c actor b = transaction (
     bindH (query org_of) (\<lambda>g.
     bindH (found (active_teacher g (asg_teacher b)) (NotFound ''Teacher not found'')) (\<lambda>_.
     bindH (found (section_in_class g (asg_class b) (asg_section b)) (NotFound ''Section not found in that class'')) (\<lambda>_.
     bindH (query (assignment_checks c b)) (\<lambda>_.
     bindH (insert_assignment c g b) (\<lambda>i.
     bindH (writes (audit_record c (Some (cu_id actor)) ''assignment.create'' (Some ''teacher_assignment'') (Some (py_str_int i))
        [(''teacher_id'', py_str_int (asg_teacher b)), (''class_id'', py_str_int (asg_class b)), (''section_id'', py_str_int (asg_section b)),
         (''role'', role_word (asg_class_teacher b)), (''subject'', none_text (asg_subject b))])) (\<lambda>_. ret i)))))))"

text \<open>A row with the names the joins add.\<close>

definition named_rows :: "(int \<times> int \<times> int) \<Rightarrow> 'a \<Rightarrow> db \<Rightarrow> ('a \<times> string \<times> string \<times> string) list" where
  "named_rows ids r s = (case ids of (teacher, k, i) \<Rightarrow>
     concat (map (\<lambda>u. concat (map (\<lambda>cls. map (\<lambda>x. (r, u_full_name u, cl_name cls, se_name x)) (filter (\<lambda>x. se_id x = i) (sections s)))
       (filter (\<lambda>cls. cl_id cls = k) (classes s)))) (filter (\<lambda>u. u_id u = teacher) (users s))))"

definition list_assignments :: "ctx \<Rightarrow> int option \<Rightarrow> int option \<Rightarrow> db \<Rightarrow> (assignment_row \<times> string \<times> string \<times> string) list res" where
  "list_assignments c teacher section s = bindR (org_of s) (\<lambda>g. Inr (sort_key (\<lambda>(_, _, k, x). (collation c k, collation c x)) (concat (map (\<lambda>a. named_rows (ta_teacher a, ta_class a, ta_section a) a s)
     (filter (\<lambda>a. ta_org a = g \<and> (case teacher of None \<Rightarrow> True | Some i \<Rightarrow> ta_teacher a = i)
        \<and> (case section of None \<Rightarrow> True | Some i \<Rightarrow> ta_section a = i)) (assignments s))))))"

definition my_assignments :: "current_user \<Rightarrow> db \<Rightarrow> assignment_view list res" where
  "my_assignments user s = get_assignments (cu_id user) None None s"

definition delete_assignment :: "ctx \<Rightarrow> current_user \<Rightarrow> int \<Rightarrow> unit handler" where
  "delete_assignment c actor i = transaction (
     bindH (query org_of) (\<lambda>g.
     bindH (reads (\<lambda>s. list_ex (\<lambda>a. ta_id a = i \<and> ta_org a = g) (assignments s))) (\<lambda>there.
     bindH (writes (\<lambda>s. s\<lparr>assignments := delete_where (\<lambda>a. ta_id a = i \<and> ta_org a = g) (assignments s)\<rparr>)) (\<lambda>_.
     bindH (check there (NotFound ''Assignment not found'')) (\<lambda>_.
     writes (audit_record c (Some (cu_id actor)) ''assignment.delete'' (Some ''teacher_assignment'') (Some (py_str_int i)) []))))))"

subsection \<open>The timetable\<close>

type_synonym slot_view = "slot_row \<times> string \<times> string \<times> string"

definition slot_views :: "(slot_row \<Rightarrow> bool) \<Rightarrow> db \<Rightarrow> slot_view list" where
  "slot_views P s = concat (map (\<lambda>t. named_rows (t_teacher t, t_class t, t_section t) t s) (filter P (slots s)))"

definition ordered_slots :: "(slot_row \<Rightarrow> bool) \<Rightarrow> db \<Rightarrow> slot_view list" where
  "ordered_slots P s = sort_key (\<lambda>(t, _). (t_day t, t_period t)) (slot_views P s)"

definition my_timetable :: "current_user \<Rightarrow> db \<Rightarrow> slot_view list res" where
  "my_timetable user s = bindR (org_of s) (\<lambda>g. Inr (ordered_slots (\<lambda>t. t_org t = g \<and> t_teacher t = cu_id user) s))"

definition list_timetable :: "current_user \<Rightarrow> int option \<Rightarrow> db \<Rightarrow> slot_view list res" where
  "list_timetable user teacher s =
     bindR (if cu_type user = Teacher then Inr (Some (cu_id user)) else if is_manager (cu_type user) then Inr teacher else Inl (Forbidden ''Not allowed'')) (\<lambda>who.
     bindR (org_of s) (\<lambda>g. Inr (ordered_slots (\<lambda>t. t_org t = g \<and> (case who of None \<Rightarrow> True | Some i \<Rightarrow> t_teacher t = i)) s)))"

record slot_body =
  slb_teacher :: int
  slb_day :: int
  slb_period :: int
  slb_class :: int
  slb_section :: int
  slb_subject :: "string option"

definition parse_slot :: "slot_body \<Rightarrow> slot_body res" where
  "parse_slot b = (if slb_day b < 0 \<or> 6 < slb_day b \<or> slb_period b < 1 \<or> 12 < slb_period b
       \<or> (case slb_subject b of None \<Rightarrow> False | Some t \<Rightarrow> 100 < length t)
     then Inl (Unprocessable ''a field is out of range'') else Inr b)"

text \<open>\<open>INSERT \<dots> ON DUPLICATE KEY UPDATE\<close> on the key of teacher, day and period.\<close>

definition upsert_row :: "int \<Rightarrow> slot_body \<Rightarrow> db \<Rightarrow> db" where
  "upsert_row g b s = (let key = (\<lambda>t. t_teacher t = slb_teacher b \<and> t_day t = slb_day b \<and> t_period t = slb_period b);
       subject = or_none (take 100 (py_strip (str_or (slb_subject b) ''''))) in
     if list_ex key (slots s)
     then s\<lparr>slots := update_where key (\<lambda>t. t\<lparr>t_class := slb_class b, t_section := slb_section b, t_subject := subject\<rparr>) (slots s)\<rparr>
     else s\<lparr>slots := slots s @ [\<lparr>t_id = next_slot s, t_org = g, t_teacher = slb_teacher b, t_day = slb_day b, t_period = slb_period b,
         t_class = slb_class b, t_section = slb_section b, t_subject = subject\<rparr>], next_slot := next_slot s + 1\<rparr>)"

definition upsert_slot :: "slot_body \<Rightarrow> slot_view option handler" where
  "upsert_slot b0 = bindH (query (\<lambda>_. parse_slot b0)) (\<lambda>b. transaction (
     bindH (query periods_per_day) (\<lambda>limit.
     bindH (check (case limit of None \<Rightarrow> True | Some n \<Rightarrow> slb_period b \<le> n)
       (Unprocessable (''The school day has '' @ py_str_int (the limit) @ '' periods (see school timings)''))) (\<lambda>_.
     bindH (query org_of) (\<lambda>g.
     bindH (found (active_teacher g (slb_teacher b)) (NotFound ''Teacher not found'')) (\<lambda>_.
     bindH (found (section_in_class g (slb_class b) (slb_section b)) (NotFound ''Section not in that class'')) (\<lambda>_.
     bindH (writes (upsert_row g b)) (\<lambda>_.
     reads (\<lambda>s. first_row (slot_views (\<lambda>t. t_org t = g \<and> t_teacher t = slb_teacher b \<and> t_day t = slb_day b \<and> t_period t = slb_period b) s))))))))))"

definition delete_slot :: "int \<Rightarrow> unit handler" where
  "delete_slot i = bindH (query org_of) (\<lambda>g.
     bindH (reads (\<lambda>s. list_ex (\<lambda>t. t_id t = i \<and> t_org t = g) (slots s))) (\<lambda>there.
     bindH (writes (delete_slots (\<lambda>t. t_id t = i \<and> t_org t = g))) (\<lambda>_.
     check there (NotFound ''Slot not found''))))"

subsection \<open>A dated week\<close>

definition SCHOOL_DAYS :: int where "SCHOOL_DAYS = 6"

record week_day =
  wd_date :: date
  wd_day :: int
  wd_holiday :: "string option"
  wd_on_leave :: bool

record week_sub =
  ws_row :: sub_view
  ws_covered :: bool

record week_view =
  wk_start :: date
  wk_end :: date
  wk_days :: "week_day list"
  wk_slots :: "slot_view list"
  wk_subs :: "week_sub list"

text \<open>One substitution per day, period and kind, the first of the order: accepted ones first, then the newest.\<close>

fun first_of_each :: "(int \<times> int \<times> bool) list \<Rightarrow> week_sub list \<Rightarrow> week_sub list" where
  "first_of_each seen [] = []"
| "first_of_each seen (x # xs) = (let key = (r_date (sv_row (ws_row x)), r_period (sv_row (ws_row x)), ws_covered x) in
     if key \<in> set seen then first_of_each seen xs else x # first_of_each (key # seen) xs)"

definition week_subs :: "int \<Rightarrow> int \<Rightarrow> date \<Rightarrow> date \<Rightarrow> db \<Rightarrow> week_sub list" where
  "week_subs g teacher monday saturday s = first_of_each [] (map (\<lambda>v. \<lparr>ws_row = v, ws_covered = (r_requester (sv_row v) = teacher)\<rparr>)
     (sort_key (\<lambda>v. let r = sv_row v in (r_date r, r_period r, if r_status r = Accepted then 0 else 1 :: int, - r_updated_at r, - r_id r))
       (sub_select (\<lambda>r. r_org r = g \<and> (r_substitute r = teacher \<or> r_requester r = teacher) \<and> monday \<le> r_date r \<and> r_date r \<le> saturday
          \<and> (r_status r = Pending \<or> r_status r = Accepted)) s)))"

definition week :: "ctx \<Rightarrow> current_user \<Rightarrow> date option \<Rightarrow> int option \<Rightarrow> db \<Rightarrow> week_view res" where
  "week c user start teacher0 s = bindR (org_of s) (\<lambda>g. let
       teacher = (if is_manager (cu_type user) then (case teacher0 of None \<Rightarrow> cu_id user | Some i \<Rightarrow> i) else cu_id user);
       day0 = (case start of None \<Rightarrow> school_today c | Some d \<Rightarrow> d);
       monday = day0 - weekday day0; saturday = monday + SCHOOL_DAYS - 1;
       away = filter (\<lambda>l. l_org l = g \<and> l_user l = teacher \<and> (l_status l = LPending \<or> l_status l = LApproved)
          \<and> l_from l \<le> saturday \<and> monday \<le> l_to l) (leaves s)
     in Inr \<lparr>wk_start = monday, wk_end = saturday,
          wk_days = map (\<lambda>n. \<lparr>wd_date = monday + n, wd_day = n,
             wd_holiday = map_option h_name (one_where (\<lambda>h. h_org h = g \<and> h_date h = monday + n) (holidays s)),
             wd_on_leave = list_ex (\<lambda>l. l_from l \<le> monday + n \<and> monday + n \<le> l_to l) away\<rparr>) (map int [0..<nat SCHOOL_DAYS]),
          wk_slots = ordered_slots (\<lambda>t. t_org t = g \<and> t_teacher t = teacher) s,
          wk_subs = week_subs g teacher monday saturday s\<rparr>)"

end
