(* ===== verification/Exams.thy ===== *)
theory Exams
  imports Classes
begin

text \<open>
  Exams, question papers and marks, \<^verbatim>\<open>app/services/exams.py\<close>. A number of a request is a rational, a DECIMAL(6,2)
  column its hundredths; what the storage makes of an uploaded file is an argument of the operation. In the details of
  the audit log a number is written in hundredths.
\<close>

subsection \<open>Numbers\<close>

definition MARKS_LIMIT :: rat where "MARKS_LIMIT = 10000"

text \<open>MySQL rounds half up and refuses what the column cannot hold; no handler knows the \<open>DataError\<close>.\<close>

definition hundredths :: "rat \<Rightarrow> int" where
  "hundredths x = \<lfloor>x * 100 + 1/2\<rfloor>"

definition COLUMN_MAX :: int where "COLUMN_MAX = 999999"

definition fits :: "rat option \<Rightarrow> bool" where
  "fits x = (case x of None \<Rightarrow> True | Some v \<Rightarrow> hundredths v \<le> COLUMN_MAX)"

definition number_of :: "int option \<Rightarrow> rat option" where
  "number_of v = map_option (\<lambda>n. of_int n / 100) v"

text \<open>The format \<open>:g\<close> of a number from 0.0001 up to the limit: six digits, no trailing zeros.\<close>

definition g_decimals :: "rat \<Rightarrow> nat" where
  "g_decimals x = (if 1000 \<le> x then 2 else if 100 \<le> x then 3 else if 10 \<le> x then 4 else if 1 \<le> x then 5 else if 1/10 \<le> x then 6
     else if 1/100 \<le> x then 7 else if 1/1000 \<le> x then 8 else 9)"

definition strip_zeros :: "string \<Rightarrow> string" where
  "strip_zeros t = (let r = dropWhile (\<lambda>d. d = CHR ''0'') (rev t) in rev (if r \<noteq> [] \<and> hd r = CHR ''.'' then tl r else r))"

definition format_g :: "rat \<Rightarrow> string" where
  "format_g x = (let p = g_decimals x; n = x * 10 ^ p; f = \<lfloor>n\<rfloor>; r = n - of_int f;
       q = (if r < 1/2 then f else if 1/2 < r then f + 1 else if even f then f else f + 1)
     in strip_zeros (py_str_int (q div 10 ^ p) @ ''.'' @ fmt0 p (q mod 10 ^ p)))"

definition opt_text :: "int option \<Rightarrow> string" where
  "opt_text x = none_int x"

subsection \<open>Exams\<close>

datatype exam_status = Upcoming | Ongoing | Completed

definition exam_status_of :: "ctx \<Rightarrow> exam_row \<Rightarrow> exam_status" where
  "exam_status_of c e = (if school_today c < e_start e then Upcoming else if e_end e < school_today c then Completed else Ongoing)"

definition exam_in :: "int \<Rightarrow> int \<Rightarrow> db \<Rightarrow> exam_row option" where
  "exam_in g i s = one_where (\<lambda>e. e_id e = i \<and> e_org e = g) (exams s)"

definition get_exam :: "int \<Rightarrow> exam_row handler" where
  "get_exam i = bindH (query org_of) (\<lambda>g. found (exam_in g i) (NotFound ''Exam not found''))"

definition applies_to_class :: "exam_row \<Rightarrow> int \<Rightarrow> bool" where
  "applies_to_class e k \<longleftrightarrow> e_class e = None \<or> e_class e = Some k"

record exam_stats =
  xs_upcoming :: int
  xs_ongoing :: int
  xs_completed :: int
  xs_published :: int
  xs_total :: int

definition exam_stats_of :: "ctx \<Rightarrow> db \<Rightarrow> exam_stats res" where
  "exam_stats_of c s = bindR (org_of s) (\<lambda>g. let es = filter (\<lambda>e. e_org e = g) (exams s) in
     Inr \<lparr>xs_upcoming = count_of (\<lambda>e. exam_status_of c e = Upcoming) es, xs_ongoing = count_of (\<lambda>e. exam_status_of c e = Ongoing) es,
       xs_completed = count_of (\<lambda>e. exam_status_of c e = Completed) es, xs_published = count_of e_published es, xs_total = int (length es)\<rparr>)"

definition list_exams :: "ctx \<Rightarrow> db \<Rightarrow> (exam_row \<times> string option \<times> exam_status \<times> int) list res" where
  "list_exams c s = bindR (org_of s) (\<lambda>g. Inr (map (\<lambda>e. (e, Option.bind (e_class e) (\<lambda>k. map_option cl_name (one_where (\<lambda>x. cl_id x = k) (classes s))),
       exam_status_of c e, count_of (\<lambda>p. pa_exam p = e_id e) (exam_papers s)))
     (sort_key (\<lambda>e. - e_start e) (filter (\<lambda>e. e_org e = g) (exams s)))))"

record exam_body =
  xb_name :: string
  xb_class :: "int option"
  xb_start :: date
  xb_end :: date
  xb_max :: "rat option"

definition max_valid :: "rat option \<Rightarrow> bool" where
  "max_valid x = (case x of None \<Rightarrow> True | Some v \<Rightarrow> 0 < v \<and> v < MARKS_LIMIT)"

definition parse_exam :: "exam_body \<Rightarrow> exam_body res" where
  "parse_exam b = (if xb_name b = [] \<or> 150 < length (xb_name b) \<or> \<not> max_valid (xb_max b) then Inl (Unprocessable ''a field is out of range'')
     else if xb_end b < xb_start b then Inl (Unprocessable ''end_date must be on/after start_date'') else Inr b)"

definition too_long :: app_error where "too_long = RuntimeError ''Data too long for column''"
definition out_of_range :: app_error where "out_of_range = RuntimeError ''Out of range value for column''"

definition create_exam :: "exam_body \<Rightarrow> int handler" where
  "create_exam b0 = bindH (query (\<lambda>_. parse_exam b0)) (\<lambda>b.
     bindH (query org_of) (\<lambda>g.
     bindH (query (\<lambda>s. case xb_class b of None \<Rightarrow> Inr () | Some k \<Rightarrow> if class_of_org g k s = None then Inl (NotFound ''Class not found'') else Inr ())) (\<lambda>_.
     bindH (check (fits (xb_max b)) out_of_range) (\<lambda>_.
     bindH (reads next_exam) (\<lambda>i.
     bindH (writes (\<lambda>s. s\<lparr>exams := exams s @ [\<lparr>e_id = i, e_org = g, e_name = xb_name b, e_class = xb_class b, e_start = xb_start b, e_end = xb_end b,
         e_published = False, e_max = map_option hundredths (xb_max b), e_paper = None, e_paper_name = None\<rparr>], next_exam := i + 1\<rparr>)) (\<lambda>_. ret i))))))"

text \<open>\<open>exam_detail\<close>: the classes an exam applies to with their counts, and the sections of the results screen.\<close>

record exam_class =
  xc_row :: class_row
  xc_subjects :: int
  xc_papers :: int
  xc_students :: int

record exam_view =
  xv_exam :: exam_row
  xv_status :: exam_status
  xv_classes :: "exam_class list"
  xv_sections :: "(section_row \<times> string \<times> int) list"

definition exam_detail :: "ctx \<Rightarrow> int \<Rightarrow> db \<Rightarrow> exam_view res" where
  "exam_detail c i s = bindR (org_of s) (\<lambda>g. case exam_in g i s of None \<Rightarrow> Inl (NotFound ''Exam not found'')
     | Some e \<Rightarrow> Inr \<lparr>xv_exam = e, xv_status = exam_status_of c e,
         xv_classes = map (\<lambda>k. \<lparr>xc_row = k, xc_subjects = count_of (\<lambda>r. cs_class r = cl_id k) (class_subjects s),
             xc_papers = count_of (\<lambda>p. pa_exam p = i \<and> pa_class p = cl_id k) (exam_papers s),
             xc_students = count_of (\<lambda>p. sp_class p = Some (cl_id k)) (student_profiles s)\<rparr>)
           (sort_key (\<lambda>k. collation c (cl_name k)) (filter (\<lambda>k. cl_org k = g \<and> applies_to_class e (cl_id k)) (classes s))),
         xv_sections = sort_key (\<lambda>(x, k, _). (collation c k, collation c (se_name x))) (List.map_filter (\<lambda>x. map_option (\<lambda>k. (x, cl_name k, count_of (\<lambda>p. sp_section p = Some (se_id x)) (student_profiles s)))
             (one_where (\<lambda>k. cl_id k = se_class x) (classes s)))
           (filter (\<lambda>x. se_org x = g \<and> applies_to_class e (se_class x)) (sections s)))\<rparr>)"

text \<open>The update: \<open>None\<close> is a field left out, \<open>Some None\<close> a null. A null date meets the comparison of the two.\<close>

record exam_update =
  xu_name :: "string option option"
  xu_start :: "date option option"
  xu_end :: "date option option"
  xu_published :: "bool option option"
  xu_max :: "rat option option"

definition or_current :: "'a option option \<Rightarrow> 'a option \<Rightarrow> 'a option" where
  "or_current change current = (case change of None \<Rightarrow> current | Some v \<Rightarrow> v)"

definition new_dates :: "exam_update \<Rightarrow> exam_row \<Rightarrow> (date \<times> date) res" where
  "new_dates b e = (case (or_current (xu_start b) (Some (e_start e)), or_current (xu_end b) (Some (e_end e))) of
     (Some a, Some z) \<Rightarrow> if z < a then Inl (BadRequest ''end_date must be on/after start_date'') else Inr (a, z)
   | _ \<Rightarrow> Inl TypeError)"

definition new_name :: "exam_update \<Rightarrow> exam_row \<Rightarrow> string res" where
  "new_name b e = (case or_current (xu_name b) (Some (e_name e)) of None \<Rightarrow> Inl (IntegrityError 1048)
     | Some n \<Rightarrow> if 150 < length n then Inl too_long else Inr n)"

definition new_published :: "exam_update \<Rightarrow> exam_row \<Rightarrow> bool" where
  "new_published b e = (or_current (xu_published b) (Some (e_published e)) = Some True)"

definition new_max :: "exam_update \<Rightarrow> exam_row \<Rightarrow> int option res" where
  "new_max b e = (case xu_max b of None \<Rightarrow> Inr (e_max e) | Some v \<Rightarrow> if fits v then Inr (map_option hundredths v) else Inl out_of_range)"

definition publish_action :: "exam_update \<Rightarrow> exam_row \<Rightarrow> string option" where
  "publish_action b e = (if xu_published b \<noteq> None \<and> new_published b e \<noteq> e_published e
     then Some (if new_published b e then ''exam.results_published'' else ''exam.results_unpublished'') else None)"

definition update_exam :: "ctx \<Rightarrow> current_user \<Rightarrow> int \<Rightarrow> exam_update \<Rightarrow> unit handler" where
  "update_exam c actor i b =
     bindH (check (case xu_max b of None \<Rightarrow> True | Some v \<Rightarrow> max_valid v) (Unprocessable ''a field is out of range'')) (\<lambda>_. transaction (
     bindH (get_exam i) (\<lambda>e.
     bindH (query (\<lambda>_. new_dates b e)) (\<lambda>(a, z).
     bindH (query (\<lambda>_. new_name b e)) (\<lambda>n.
     bindH (query (\<lambda>_. new_max b e)) (\<lambda>m.
     bindH (writes (\<lambda>s. s\<lparr>exams := update_where (\<lambda>e. e_id e = i) (\<lambda>e. e\<lparr>e_name := n, e_start := a, e_end := z,
         e_published := new_published b e, e_max := m\<rparr>) (exams s)\<rparr>)) (\<lambda>_.
     case publish_action b e of None \<Rightarrow> ret ()
     | Some act \<Rightarrow> writes (audit_record c (Some (cu_id actor)) act (Some ''exam'') (Some (py_str_int i)) []))))))))"

definition students_with_results :: "int \<Rightarrow> db \<Rightarrow> int list" where
  "students_with_results i s = remdups (map er_student (filter (\<lambda>r. er_exam r = i) (exam_results s)))"

text \<open>\<open>DELETE FROM exams\<close>: marks are \<open>RESTRICT\<close>ed, papers go along.\<close>

definition delete_exam_row :: "int \<Rightarrow> unit handler" where
  "delete_exam_row i s = (if list_ex (\<lambda>r. er_exam r = i) (exam_results s) then (Inl (IntegrityError 1451), s)
     else (Inr (), s\<lparr>exams := delete_where (\<lambda>e. e_id e = i) (exams s), exam_papers := delete_where (\<lambda>p. pa_exam p = i) (exam_papers s)\<rparr>))"

definition delete_exam :: "ctx \<Rightarrow> current_user \<Rightarrow> int \<Rightarrow> unit handler" where
  "delete_exam c actor i = transaction (
     bindH (get_exam i) (\<lambda>e.
     bindH (reads (\<lambda>s. int (length (students_with_results i s)))) (\<lambda>n.
     bindH (check (n = 0) (Conflict (''This exam can'' @ [quote_char] @ ''t be deleted: it has results for ''
        @ (if n = 1 then ''1 student'' else thousands n @ '' students'')
        @ '', and deleting it would erase them. To hide the marks from parents, unpublish the results instead.''))) (\<lambda>_.
     bindH (reads (\<lambda>s. map pa_path (filter (\<lambda>p. pa_exam p = i) (exam_papers s)))) (\<lambda>papers.
     bindH (delete_exam_row i) (\<lambda>_.
     bindH (writes (drop_files (str_or (e_paper e) '''' # papers))) (\<lambda>_.
     writes (audit_record c (Some (cu_id actor)) ''exam.delete'' (Some ''exam'') (Some (py_str_int i)) []))))))))"

end
