(* ===== verification/Exam_Results.thy ===== *)
theory Exam_Results
  imports Exams
begin

text \<open>
  Question papers of a class and subject, and the marks of a section, the rest of \<^verbatim>\<open>app/services/exams.py\<close>.
\<close>

subsection \<open>Question papers\<close>

text \<open>What \<open>storage.save_upload\<close> returns: the path and the cleaned name of the upload.\<close>

type_synonym stored_file = "string \<times> string option"

definition class_papers :: "int \<Rightarrow> int \<Rightarrow> db \<Rightarrow> (exam_row \<times> class_row \<times> (string \<times> paper_row option) list) res" where
  "class_papers i k s = bindR (org_of s) (\<lambda>g. case exam_in g i s of None \<Rightarrow> Inl (NotFound ''Exam not found'')
     | Some e \<Rightarrow> if \<not> applies_to_class e k then Inl (NotFound ''Class not in this exam'')
         else (case class_of_org g k s of None \<Rightarrow> Inl (NotFound ''Class not found'')
           | Some cls \<Rightarrow> let papers = filter (\<lambda>p. pa_exam p = i \<and> pa_class p = k) (exam_papers s);
               subjects = map cs_name (filter (\<lambda>r. cs_class r = k) (class_subjects s));
               all_subjects = subjects @ filter (\<lambda>n. n \<notin> set subjects) (dedup_first (map pa_subject papers))
             in Inr (e, cls, map (\<lambda>n. (n, one_where (\<lambda>p. pa_subject p = n) papers)) all_subjects)))"

definition paper_name :: "stored_file \<Rightarrow> string option" where
  "paper_name f = Some (str_or (snd f) ''question-paper.pdf'')"

definition insert_paper :: "int \<Rightarrow> int \<Rightarrow> string \<Rightarrow> stored_file \<Rightarrow> int \<Rightarrow> int handler" where
  "insert_paper i k subject f by s = (if 100 < length subject then (Inl too_long, s)
     else (Inr (next_paper s), s\<lparr>exam_papers := exam_papers s @ [\<lparr>pa_id = next_paper s, pa_exam = i, pa_class = k, pa_subject = subject,
         pa_path = fst f, pa_name = paper_name f, pa_by = by\<rparr>], next_paper := next_paper s + 1\<rparr>))"

definition save_paper :: "ctx \<Rightarrow> int \<Rightarrow> int \<Rightarrow> string \<Rightarrow> stored_file \<Rightarrow> int \<Rightarrow> int handler" where
  "save_paper c i k subject f by s = (case one_where (\<lambda>p. pa_exam p = i \<and> pa_class p = k \<and> sql_eq c (pa_subject p) subject) (exam_papers s) of
     None \<Rightarrow> insert_paper i k subject f by s
   | Some old \<Rightarrow> (Inr (pa_id old), drop_files [pa_path old] (s\<lparr>exam_papers := update_where (\<lambda>p. pa_id p = pa_id old)
       (\<lambda>p. p\<lparr>pa_path := fst f, pa_name := paper_name f, pa_by := by\<rparr>) (exam_papers s)\<rparr>)))"

definition upload_subject_paper :: "ctx \<Rightarrow> current_user \<Rightarrow> int \<Rightarrow> int \<Rightarrow> string \<Rightarrow> stored_file res \<Rightarrow> int handler" where
  "upload_subject_paper c actor i k subject0 stored = (let subject = py_strip subject0 in
     bindH (check (subject \<noteq> []) (BadRequest ''Subject is required'')) (\<lambda>_. transaction (
     bindH (get_exam i) (\<lambda>e.
     bindH (check (applies_to_class e k) (NotFound ''Class not in this exam'')) (\<lambda>_.
     bindH (query org_of) (\<lambda>g.
     bindH (found (class_of_org g k) (NotFound ''Class not found'')) (\<lambda>_.
     bindH (query (\<lambda>_. stored)) (\<lambda>f.
     bindH (save_paper c i k subject f (cu_id actor)) (\<lambda>p.
     bindH (writes (audit_record c (Some (cu_id actor)) ''exam_paper.upload'' (Some ''exam_paper'') (Some (py_str_int p))
       [(''exam_id'', py_str_int i), (''class_id'', py_str_int k), (''subject'', subject)])) (\<lambda>_. ret p))))))))))"

definition paper_of :: "int \<Rightarrow> int \<Rightarrow> int \<Rightarrow> db \<Rightarrow> paper_row option" where
  "paper_of g i p s = (if list_ex (\<lambda>e. e_id e = i \<and> e_org e = g) (exams s) then one_where (\<lambda>x. pa_id x = p \<and> pa_exam x = i) (exam_papers s) else None)"

definition delete_subject_paper :: "ctx \<Rightarrow> current_user \<Rightarrow> int \<Rightarrow> int \<Rightarrow> unit handler" where
  "delete_subject_paper c actor i p = transaction (
     bindH (query org_of) (\<lambda>g.
     bindH (found (paper_of g i p) (NotFound ''Paper not found'')) (\<lambda>x.
     bindH (writes (\<lambda>s. s\<lparr>exam_papers := delete_where (\<lambda>x. pa_id x = p) (exam_papers s)\<rparr>)) (\<lambda>_.
     bindH (writes (drop_files [pa_path x])) (\<lambda>_.
     writes (audit_record c (Some (cu_id actor)) ''exam_paper.delete'' (Some ''exam_paper'') (Some (py_str_int p)) [(''exam_id'', py_str_int i)]))))))"

definition upload_legacy_paper :: "ctx \<Rightarrow> current_user \<Rightarrow> int \<Rightarrow> stored_file res \<Rightarrow> unit handler" where
  "upload_legacy_paper c actor i stored = transaction (
     bindH (get_exam i) (\<lambda>e.
     bindH (query (\<lambda>_. stored)) (\<lambda>f.
     bindH (writes (\<lambda>s. s\<lparr>exams := update_where (\<lambda>e. e_id e = i) (\<lambda>e. e\<lparr>e_paper := Some (fst f), e_paper_name := snd f\<rparr>) (exams s)\<rparr>)) (\<lambda>_.
     bindH (writes (drop_files [str_or (e_paper e) ''''])) (\<lambda>_.
     writes (audit_record c (Some (cu_id actor)) ''exam_paper.upload'' (Some ''exam'') (Some (py_str_int i)) [(''legacy'', ''True'')]))))))"

definition subject_paper_file :: "int \<Rightarrow> int \<Rightarrow> db \<Rightarrow> stored_file res" where
  "subject_paper_file i p s = bindR (org_of s) (\<lambda>g. case paper_of g i p s of None \<Rightarrow> Inl (NotFound ''Paper not found'')
     | Some x \<Rightarrow> Inr (pa_path x, Some (str_or (pa_name x) ''question-paper.pdf'')))"

definition legacy_paper_file :: "int \<Rightarrow> db \<Rightarrow> stored_file res" where
  "legacy_paper_file i s = bindR (org_of s) (\<lambda>g. case exam_in g i s of None \<Rightarrow> Inl (NotFound ''Exam not found'')
     | Some e \<Rightarrow> if opt_is_blank (e_paper e) then Inl (NotFound ''No question paper uploaded'')
         else Inr (the (e_paper e), Some (str_or (e_paper_name e) ''question-paper.pdf'')))"

subsection \<open>Marks\<close>

definition section_in_exam :: "exam_row \<Rightarrow> int \<Rightarrow> db \<Rightarrow> section_row res" where
  "section_in_exam e i s = bindR (org_of s) (\<lambda>g. case one_where (\<lambda>x. se_id x = i \<and> se_org x = g) (sections s) of
     None \<Rightarrow> Inl (NotFound (''Section not in this exam'' @ [quote_char] @ ''s class''))
   | Some x \<Rightarrow> if applies_to_class e (se_class x) then Inr x else Inl (NotFound (''Section not in this exam'' @ [quote_char] @ ''s class'')))"

text \<open>\<open>_subjects\<close>: the subjects of the class, then those its papers and marks name.\<close>

definition exam_subjects :: "int \<Rightarrow> int \<Rightarrow> db \<Rightarrow> string list" where
  "exam_subjects i k s = (let names = map cs_name (filter (\<lambda>r. cs_class r = k) (class_subjects s));
       used = map pa_subject (filter (\<lambda>p. pa_exam p = i \<and> pa_class p = k) (exam_papers s))
         @ map er_subject (filter (\<lambda>r. er_exam r = i \<and> er_subject r \<noteq> []
             \<and> list_ex (\<lambda>p. sp_user p = er_student r \<and> sp_class p = Some k) (student_profiles s)) (exam_results s))
     in names @ filter (\<lambda>n. n \<noteq> [] \<and> n \<notin> set names) (dedup_first used))"

definition exam_subject :: "int \<Rightarrow> int \<Rightarrow> string option \<Rightarrow> db \<Rightarrow> string res" where
  "exam_subject i k subject s = (let name = py_strip (str_or subject '''') in
     if name \<noteq> [] \<and> name \<notin> set (exam_subjects i k s)
     then Inl (BadRequest (quote_char # name @ [quote_char] @ '' is not a subject of this class'')) else Inr name)"

record result_entry =
  re_student :: int
  re_marks :: "rat option"
  re_grade :: "string option"
  re_remarks :: "string option"

record results_body =
  rb_section :: int
  rb_subject :: "string option"
  rb_max :: "rat option"
  rb_results :: "result_entry list"

definition long_text :: "nat \<Rightarrow> string option \<Rightarrow> bool" where
  "long_text n t = (case t of None \<Rightarrow> False | Some x \<Rightarrow> n < length x)"

definition entry_valid :: "result_entry \<Rightarrow> bool" where
  "entry_valid r \<longleftrightarrow> (case re_marks r of None \<Rightarrow> True | Some m \<Rightarrow> 0 \<le> m \<and> m < MARKS_LIMIT) \<and> \<not> long_text 10 (re_grade r) \<and> \<not> long_text 255 (re_remarks r)"

definition parse_results :: "results_body \<Rightarrow> results_body res" where
  "parse_results b = (if long_text 100 (rb_subject b) \<or> \<not> max_valid (rb_max b) \<or> \<not> list_all entry_valid (rb_results b)
     then Inl (Unprocessable ''a field is out of range'') else Inr b)"

definition result_entries :: "results_body \<Rightarrow> result_entry list" where
  "result_entries b = filter (\<lambda>r. re_marks r \<noteq> None \<or> \<not> opt_is_blank (re_grade r)) (rb_results b)"

definition too_high :: "rat option \<Rightarrow> result_entry \<Rightarrow> bool" where
  "too_high m r = (case (m, re_marks r) of (Some most, Some x) \<Rightarrow> most < x | _ \<Rightarrow> False)"

definition entry_name :: "int \<Rightarrow> db \<Rightarrow> result_entry \<Rightarrow> string" where
  "entry_name g s r = (case one_where (\<lambda>u. u_org u = g \<and> u_id u = re_student r) (users s) of None \<Rightarrow> py_str_int (re_student r) | Some u \<Rightarrow> u_full_name u)"

definition refuse_too_high :: "int \<Rightarrow> rat option \<Rightarrow> result_entry list \<Rightarrow> db \<Rightarrow> unit res" where
  "refuse_too_high g m entries s = (let bad = filter (too_high m) entries in
     if bad = [] then Inr ()
     else Inl (BadRequest (''Marks can'' @ [quote_char] @ ''t be more than the maximum ('' @ format_g (the m) @ ''): ''
       @ py_join '', '' (map (entry_name g s) (take 3 bad)) @ (if 3 < length bad then '' and '' @ py_str_int (int (length bad) - 3) @ '' more'' else ''''))))"

text \<open>One row of the upsert on the key of exam, student and subject.\<close>

definition upsert_result :: "ctx \<Rightarrow> int \<Rightarrow> string \<Rightarrow> rat option \<Rightarrow> result_entry \<Rightarrow> result_row list \<Rightarrow> result_row list" where
  "upsert_result c i subject m r rows = (let key = (\<lambda>x. er_exam x = i \<and> er_student x = re_student r \<and> sql_eq c (er_subject x) subject);
       marks = map_option hundredths (re_marks r); most = map_option hundredths m in
     if list_ex key rows then update_where key (\<lambda>x. x\<lparr>er_marks := marks, er_max := most, er_grade := re_grade r, er_remarks := re_remarks r\<rparr>) rows
     else rows @ [\<lparr>er_exam = i, er_student = re_student r, er_subject = subject, er_marks = marks, er_max = most, er_grade = re_grade r, er_remarks = re_remarks r\<rparr>])"

definition write_results :: "ctx \<Rightarrow> int \<Rightarrow> string \<Rightarrow> rat option \<Rightarrow> result_entry list \<Rightarrow> unit handler" where
  "write_results c i subject m entries s = (if entries \<noteq> [] \<and> \<not> fits m \<or> list_ex (\<lambda>r. \<not> fits (re_marks r)) entries then (Inl out_of_range, s)
     else (Inr (), s\<lparr>exam_results := fold (upsert_result c i subject m) entries (exam_results s)\<rparr>))"

definition entry_text :: "result_entry \<Rightarrow> string" where
  "entry_text r = py_str_int (re_student r) @ '': '' @ opt_text (map_option hundredths (re_marks r)) @ '', '' @ none_text (re_grade r)"

definition save_results :: "ctx \<Rightarrow> current_user \<Rightarrow> int \<Rightarrow> results_body \<Rightarrow> unit handler" where
  "save_results c user i b0 = bindH (query (\<lambda>_. parse_results b0)) (\<lambda>b. transaction (
     bindH (get_exam i) (\<lambda>e.
     bindH (query (section_in_exam e (rb_section b))) (\<lambda>x.
     bindH (query (\<lambda>s. if cu_type user \<noteq> Teacher then Inr True else is_assigned user (Some (se_class x)) (Some (rb_section b)) s)) (\<lambda>allowed.
     bindH (check allowed (Forbidden ''Not assigned to this section'')) (\<lambda>_.
     bindH (query (exam_subject i (se_class x) (rb_subject b))) (\<lambda>subject.
     let m = (case rb_max b of Some v \<Rightarrow> Some v | None \<Rightarrow> number_of (e_max e)); entries = result_entries b in
     bindH (query (ensure_students_in_section (rb_section b) (map re_student entries))) (\<lambda>_.
     bindH (query org_of) (\<lambda>g.
     bindH (query (refuse_too_high g m entries)) (\<lambda>_.
     bindH (write_results c i subject m entries) (\<lambda>_.
     writes (audit_record c (Some (cu_id user)) ''exam_results.save'' (Some ''exam'') (Some (py_str_int i))
       [(''section_id'', py_str_int (rb_section b)), (''subject'', none_text (or_none subject)), (''max_marks'', opt_text (map_option hundredths m)),
        (''results'', py_join ''; '' (map entry_text entries))]))))))))))))"

subsection \<open>The results screen\<close>

definition section_roll :: "ctx \<Rightarrow> int \<Rightarrow> db \<Rightarrow> (user_row \<times> student_profile_row) list" where
  "section_roll c i s = sort_key (roll_order c) (on_roll i s)"

record result_view =
  rv_student :: int
  rv_name :: string
  rv_roll :: "string option"
  rv_result :: "result_row option"

record results_view =
  rs_exam :: exam_row
  rs_rows :: "result_view list"
  rs_subject :: string
  rs_max :: "int option"
  rs_subjects :: "string list"

definition exam_results_view :: "ctx \<Rightarrow> current_user \<Rightarrow> int \<Rightarrow> int \<Rightarrow> string option \<Rightarrow> db \<Rightarrow> results_view res" where
  "exam_results_view c user i section subject s = bindR (org_of s) (\<lambda>g. case exam_in g i s of None \<Rightarrow> Inl (NotFound ''Exam not found'')
     | Some e \<Rightarrow> bindR (section_in_exam e section s) (\<lambda>x.
        bindR (ensure_can_view_section user (Some (se_class x)) (Some section) s) (\<lambda>_.
        bindR (exam_subject i (se_class x) subject s) (\<lambda>name.
        let rows = map (\<lambda>(u, p). \<lparr>rv_student = u_id u, rv_name = u_full_name u, rv_roll = sp_roll p,
              rv_result = one_where (\<lambda>r. er_student r = u_id u \<and> er_exam r = i \<and> sql_eq c (er_subject r) name) (exam_results s)\<rparr>) (section_roll c section s);
            saved = first_row (List.map_filter (\<lambda>v. Option.bind (rv_result v) er_max) rows)
        in Inr \<lparr>rs_exam = e, rs_rows = rows, rs_subject = name, rs_max = (case saved of Some m \<Rightarrow> Some m | None \<Rightarrow> e_max e),
             rs_subjects = exam_subjects i (se_class x) s\<rparr>))))"

end
