(* ===== verification/Homework.thy ===== *)
theory Homework
  imports Classes
begin

text \<open>
  Homework of a section and who has handed it in, \<^verbatim>\<open>app/services/homework.py\<close>, and lesson plans,
  \<^verbatim>\<open>app/services/lessons.py\<close>. A student without a row of the submissions is pending. What the storage makes of an upload
  is an argument. The old homework of single students, which the student app merges in, is not modelled.
\<close>

subsection \<open>Reading\<close>

definition active_student :: "db \<Rightarrow> int \<Rightarrow> bool" where
  "active_student s i = list_ex (\<lambda>u. u_id u = i \<and> u_active u) (users s)"

definition in_section_now :: "int \<Rightarrow> db \<Rightarrow> int \<Rightarrow> bool" where
  "in_section_now sec s i = list_ex (\<lambda>p. sp_user p = i \<and> sp_section p = Some sec) (student_profiles s)"

definition students_of :: "int \<Rightarrow> db \<Rightarrow> int list" where
  "students_of sec s = map sp_user (filter (\<lambda>p. sp_section p = Some sec \<and> active_student s (sp_user p)) (student_profiles s))"

record homework_view =
  hv_row :: homework_row
  hv_total :: int
  hv_submitted :: int
  hv_late :: int
  hv_pending :: int

definition handed_in :: "homework_row \<Rightarrow> submission_status \<Rightarrow> db \<Rightarrow> int" where
  "handed_in h st s = count_of (\<lambda>x. hs_homework x = hw_id h \<and> hs_status x = st \<and> in_section_now (hw_section h) s (hs_student x)
     \<and> active_student s (hs_student x)) (submissions s)"

definition shape_homework :: "db \<Rightarrow> homework_row \<Rightarrow> homework_view" where
  "shape_homework s h = (let total = int (length (students_of (hw_section h) s)); submitted = handed_in h Submitted s; late = handed_in h SubLate s in
     \<lparr>hv_row = h, hv_total = total, hv_submitted = submitted, hv_late = late, hv_pending = max (total - submitted - late) 0\<rparr>)"

definition homework_section_class :: "int \<Rightarrow> db \<Rightarrow> int res" where
  "homework_section_class sec s = bindR (org_of s) (\<lambda>g. case one_where (\<lambda>x. se_id x = sec \<and> se_org x = g) (sections s) of
     None \<Rightarrow> Inl (NotFound ''Section not found'') | Some x \<Rightarrow> Inr (se_class x))"

definition get_homework :: "int \<Rightarrow> db \<Rightarrow> homework_row res" where
  "get_homework i s = bindR (org_of s) (\<lambda>g. case one_where (\<lambda>h. hw_id h = i \<and> hw_org h = g) (class_homework s) of
     None \<Rightarrow> Inl (NotFound ''Homework not found'') | Some h \<Rightarrow> Inr h)"

definition viewable :: "current_user \<Rightarrow> int \<Rightarrow> db \<Rightarrow> homework_row res" where
  "viewable user i s = bindR (get_homework i s) (\<lambda>h. bindR (ensure_can_view_section user (Some (hw_class h)) (Some (hw_section h)) s) (\<lambda>_. Inr h))"

definition editable :: "current_user \<Rightarrow> int \<Rightarrow> db \<Rightarrow> homework_row res" where
  "editable user i s = bindR (get_homework i s) (\<lambda>h.
     if \<not> is_manager (cu_type user) \<and> hw_by h \<noteq> cu_id user
     then bindR (ensure_can_view_section user (Some (hw_class h)) (Some (hw_section h)) s) (\<lambda>_.
       Inl (Forbidden ''Only the teacher who set this homework (or admins) can change it''))
     else Inr h)"

definition check_due :: "ctx \<Rightarrow> date option \<Rightarrow> unit res" where
  "check_due c due = (case due of None \<Rightarrow> Inr ()
     | Some d \<Rightarrow> if d < school_today c then Inl (Unprocessable (''due_date can'' @ [quote_char] @ ''t be in the past'')) else Inr ())"

definition list_homework :: "current_user \<Rightarrow> int option \<Rightarrow> int option \<Rightarrow> page option \<Rightarrow> db \<Rightarrow> (homework_view page_result) res" where
  "list_homework user k0 sec page s = (if \<not> is_manager (cu_type user) \<and> (k0 = None \<or> sec = None)
     then Inl (BadRequest ''class_id and section_id required'')
     else bindR (case (sec, k0) of (Some i, None) \<Rightarrow> bindR (homework_section_class i s) (\<lambda>k. Inr (Some k)) | _ \<Rightarrow> Inr k0) (\<lambda>k.
       bindR (if is_manager (cu_type user) then Inr () else ensure_can_view_section user k sec s) (\<lambda>_.
       bindR (org_of s) (\<lambda>g. Inr (fetch (\<lambda>v. (- hw_created_at (hv_row v), - hw_id (hv_row v))) (map (shape_homework s)
         (filter (\<lambda>h. hw_org h = g \<and> (case k of None \<Rightarrow> True | Some x \<Rightarrow> hw_class h = x) \<and> (case sec of None \<Rightarrow> True | Some x \<Rightarrow> hw_section h = x))
           (class_homework s))) page None)))))"

subsection \<open>Writing\<close>

record homework_body =
  hb_class :: "int option"
  hb_section :: "int option"
  hb_title :: string
  hb_subject :: "string option"
  hb_note :: "string option"
  hb_due :: "date option"

definition parse_homework :: "homework_body \<Rightarrow> homework_body res" where
  "parse_homework b = (if hb_title b = [] \<or> 200 < length (hb_title b) \<or> (case hb_subject b of None \<Rightarrow> False | Some t \<Rightarrow> 100 < length t)
     then Inl (Unprocessable ''a field is out of range'') else Inr b)"

definition homework_label :: "homework_body \<Rightarrow> string" where
  "homework_label b = py_join ('' '' @ EM_DASH @ '' '') (filter (\<lambda>t. t \<noteq> []) [str_or (hb_subject b) '''', hb_title b])"

definition BOOKS :: string where "BOOKS = map char_of [0xF0, 0x9F, 0x93, 0x9A :: nat]"

definition clean_text :: "string option \<Rightarrow> string option" where
  "clean_text t = or_none (py_strip (str_or t ''''))"

definition tell_section :: "ctx \<Rightarrow> int \<Rightarrow> string \<Rightarrow> string option \<Rightarrow> unit handler" where
  "tell_section c sec title note = bindH (query (\<lambda>_. route ''homework'' True)) (\<lambda>data.
     writes (\<lambda>s. notify c (students_of sec s) ''homework'' title note (Some data) s))"

definition insert_homework :: "ctx \<Rightarrow> int \<Rightarrow> current_user \<Rightarrow> int \<Rightarrow> int \<Rightarrow> homework_body \<Rightarrow> int handler" where
  "insert_homework c g user k sec b s = (Inr (next_homework s), s\<lparr>class_homework := class_homework s @ [\<lparr>hw_id = next_homework s, hw_org = g,
     hw_class = k, hw_section = sec, hw_subject = clean_text (hb_subject b), hw_title = py_strip (hb_title b), hw_note = hb_note b, hw_due = hb_due b,
     hw_by = cu_id user, hw_created_at = mysql_now c, hw_file = None\<rparr>], next_homework := next_homework s + 1\<rparr>)"

text \<open>Class and section of a new homework are required.\<close>

definition create_homework :: "ctx \<Rightarrow> current_user \<Rightarrow> int \<Rightarrow> int \<Rightarrow> homework_body \<Rightarrow> int handler" where
  "create_homework c user k sec b0 = bindH (query (\<lambda>_. parse_homework b0)) (\<lambda>b. transaction (
     bindH (query (homework_section_class sec)) (\<lambda>k'.
     bindH (check (k' = k) (NotFound ''Section not in that class'')) (\<lambda>_.
     bindH (query (ensure_can_view_section user (Some k) (Some sec))) (\<lambda>_.
     bindH (query (\<lambda>_. check_due c (hb_due b))) (\<lambda>_.
     bindH (query org_of) (\<lambda>g.
     bindH (insert_homework c g user k sec b) (\<lambda>i.
     bindH (tell_section c sec (BOOKS @ '' New homework: '' @ homework_label b
        @ (case hb_due b of None \<Rightarrow> '''' | Some d \<Rightarrow> '' (due '' @ day_month d @ '')'')) (or_none (str_or (hb_note b) ''''))) (\<lambda>_. ret i)))))))))"

definition moves :: "int option \<Rightarrow> int \<Rightarrow> bool" where
  "moves new old = (case new of None \<Rightarrow> False | Some x \<Rightarrow> x \<noteq> old)"

definition update_homework :: "ctx \<Rightarrow> current_user \<Rightarrow> int \<Rightarrow> homework_body \<Rightarrow> unit handler" where
  "update_homework c user i b0 = bindH (query (\<lambda>_. parse_homework b0)) (\<lambda>b. transaction (
     bindH (query (editable user i)) (\<lambda>h.
     bindH (check (\<not> moves (hb_class b) (hw_class h) \<and> \<not> moves (hb_section b) (hw_section h))
       (BadRequest (''The class and section of a homework can'' @ [quote_char] @ ''t be changed''))) (\<lambda>_.
     bindH (query (\<lambda>_. if hb_due b \<noteq> hw_due h then check_due c (hb_due b) else Inr ())) (\<lambda>_.
     bindH (writes (\<lambda>s. s\<lparr>class_homework := update_where (\<lambda>x. hw_id x = i) (\<lambda>x. x\<lparr>hw_subject := clean_text (hb_subject b),
        hw_title := py_strip (hb_title b), hw_note := hb_note b, hw_due := hb_due b\<rparr>) (class_homework s)\<rparr>)) (\<lambda>_.
     if hb_due b = hw_due h then ret ()
     else tell_section c (hw_section h) (BOOKS @ '' Homework due date changed: '' @ homework_label b @ '' (''
        @ (case hb_due b of None \<Rightarrow> ''no due date any more'' | Some d \<Rightarrow> ''now due '' @ day_month d) @ '')'') None))))))"

definition file_path :: "attached option \<Rightarrow> string" where
  "file_path f = (case f of None \<Rightarrow> [] | Some a \<Rightarrow> af_path a)"

text \<open>The submissions of a homework go with it.\<close>

definition delete_homework :: "current_user \<Rightarrow> int \<Rightarrow> unit handler" where
  "delete_homework user i = transaction (
     bindH (query (editable user i)) (\<lambda>h.
     bindH (writes (\<lambda>s. s\<lparr>class_homework := delete_where (\<lambda>x. hw_id x = i) (class_homework s),
        submissions := delete_where (\<lambda>x. hs_homework x = i) (submissions s)\<rparr>)) (\<lambda>_.
     writes (drop_files [file_path (hw_file h)]))))"

definition set_file :: "int \<Rightarrow> attached option \<Rightarrow> db \<Rightarrow> db" where
  "set_file i f s = s\<lparr>class_homework := update_where (\<lambda>x. hw_id x = i) (\<lambda>x. x\<lparr>hw_file := f\<rparr>) (class_homework s)\<rparr>"

definition attach :: "current_user \<Rightarrow> int \<Rightarrow> attached res \<Rightarrow> unit handler" where
  "attach user i stored = transaction (
     bindH (query (editable user i)) (\<lambda>h. bindH (query (\<lambda>_. stored)) (\<lambda>a.
     bindH (writes (set_file i (Some a))) (\<lambda>_. writes (drop_files [file_path (hw_file h)])))))"

definition remove_attachment :: "current_user \<Rightarrow> int \<Rightarrow> unit handler" where
  "remove_attachment user i = transaction (
     bindH (query (editable user i)) (\<lambda>h. bindH (writes (set_file i None)) (\<lambda>_. writes (drop_files [file_path (hw_file h)]))))"

subsection \<open>Submissions\<close>

definition submission_of :: "int \<Rightarrow> int \<Rightarrow> db \<Rightarrow> submission_status" where
  "submission_of i student s = (case one_where (\<lambda>x. hs_homework x = i \<and> hs_student x = student) (submissions s) of
     None \<Rightarrow> SubPending | Some x \<Rightarrow> hs_status x)"

text \<open>\<open>submissions\<close>, by roll number, name and id.\<close>

definition list_submissions :: "ctx \<Rightarrow> current_user \<Rightarrow> int \<Rightarrow> db \<Rightarrow> (int \<times> submission_status) list res" where
  "list_submissions c user i s = bindR (viewable user i s) (\<lambda>h.
     Inr (map (\<lambda>(u, _). (u_id u, submission_of i (u_id u) s)) (sort_key (\<lambda>up. (roll_order c up, u_id (fst up))) (on_roll (hw_section h) s))))"

definition upsert_submission :: "int \<Rightarrow> int \<Rightarrow> int \<times> submission_status \<Rightarrow> submission_row list \<Rightarrow> submission_row list" where
  "upsert_submission i by item rows = (case item of (student, st) \<Rightarrow>
     if list_ex (\<lambda>x. hs_homework x = i \<and> hs_student x = student) rows
     then update_where (\<lambda>x. hs_homework x = i \<and> hs_student x = student) (\<lambda>x. x\<lparr>hs_status := st, hs_by := by\<rparr>) rows
     else rows @ [\<lparr>hs_homework = i, hs_student = student, hs_status = st, hs_by = by\<rparr>])"

definition set_status :: "current_user \<Rightarrow> int \<Rightarrow> (int \<times> submission_status) list \<Rightarrow> db \<Rightarrow> db" where
  "set_status user i items s = s\<lparr>submissions := fold (upsert_submission i (cu_id user)) items (submissions s)\<rparr>"

definition save_submissions :: "current_user \<Rightarrow> int \<Rightarrow> (int \<times> submission_status) list \<Rightarrow> unit handler" where
  "save_submissions user i items = bindH (check (length items \<le> 1000) (Unprocessable ''a field is out of range'')) (\<lambda>_. transaction (
     bindH (query (viewable user i)) (\<lambda>h.
     bindH (query (ensure_students_in_section (hw_section h) (map fst items))) (\<lambda>_.
     writes (set_status user i items)))))"

definition class_homework_for_student :: "int \<Rightarrow> int \<Rightarrow> db \<Rightarrow> homework_row option" where
  "class_homework_for_student student i s = one_where (\<lambda>h. hw_id h = i
     \<and> list_ex (\<lambda>p. sp_user p = student \<and> sp_section p = Some (hw_section h) \<and> sp_class p = Some (hw_class h)) (student_profiles s)) (class_homework s)"

subsection \<open>Lesson plans\<close>

record lesson_body =
  lsb_class :: int
  lsb_section :: "int option"
  lsb_heading :: string
  lsb_from :: "string option"
  lsb_to :: "string option"
  lsb_remark :: "string option"

text \<open>\<open>_optional_date\<close>; \<open>read\<close> is \<open>date.fromisoformat\<close>, none where it raises.\<close>

definition optional_date :: "(string \<Rightarrow> date option) \<Rightarrow> string option \<Rightarrow> string \<Rightarrow> date option res" where
  "optional_date read v field = (if opt_is_blank v then Inr None
     else (case read (the v) of None \<Rightarrow> Inl (BadRequest (field @ '' must be a date (YYYY-MM-DD)'')) | Some d \<Rightarrow> Inr (Some d)))"

definition insert_plan :: "ctx \<Rightarrow> int \<Rightarrow> current_user \<Rightarrow> lesson_body \<Rightarrow> date option \<Rightarrow> date option \<Rightarrow> int handler" where
  "insert_plan c g user b first until s = (Inr (next_plan s), s\<lparr>lesson_plans := lesson_plans s @ [\<lparr>lp_id = next_plan s, lp_org = g, lp_teacher = cu_id user,
     lp_class = lsb_class b, lp_section = lsb_section b, lp_heading = lsb_heading b, lp_from = first, lp_to = until, lp_remark = lsb_remark b,
     lp_created_at = mysql_now c\<rparr>], next_plan := next_plan s + 1\<rparr>)"

text \<open>Each upload is stored and recorded in turn; one that is refused undoes the whole plan.\<close>

type_synonym lesson_upload = "string \<times> string option \<times> string"

fun save_lesson_files :: "int \<Rightarrow> lesson_upload res list \<Rightarrow> int list handler" where
  "save_lesson_files i [] s = (Inr [], s)"
| "save_lesson_files i (Inl e # fs) s = (Inl e, s)"
| "save_lesson_files i (Inr (path, name, kind) # fs) s = bindH (save_lesson_files i fs) (\<lambda>ids. ret (next_lesson_file s # ids))
     (s\<lparr>lesson_files := lesson_files s @ [\<lparr>lf_id = next_lesson_file s, lf_plan = i, lf_path = path, lf_name = str_or name ''file'', lf_type = kind\<rparr>],
        next_lesson_file := next_lesson_file s + 1\<rparr>)"

definition create_lesson_plan :: "ctx \<Rightarrow> (string \<Rightarrow> date option) \<Rightarrow> current_user \<Rightarrow> lesson_body \<Rightarrow> lesson_upload res list \<Rightarrow> (int \<times> int list) handler" where
  "create_lesson_plan c read teacher b files =
     bindH (query (\<lambda>_. optional_date read (lsb_from b) ''duration_start'')) (\<lambda>first.
     bindH (query (\<lambda>_. optional_date read (lsb_to b) ''duration_end'')) (\<lambda>until. transaction (
     bindH (query (is_assigned teacher (Some (lsb_class b)) (lsb_section b))) (\<lambda>ok.
     bindH (check ok (Forbidden ''You are not assigned to this class/section'')) (\<lambda>_.
     bindH (query org_of) (\<lambda>g.
     bindH (insert_plan c g teacher b first until) (\<lambda>i.
     bindH (save_lesson_files i files) (\<lambda>ids. ret (i, ids)))))))))"

definition list_lesson_plans :: "current_user \<Rightarrow> int option \<Rightarrow> int option \<Rightarrow> page option \<Rightarrow> db \<Rightarrow> ((lesson_row \<times> lesson_file_row list) page_result) res" where
  "list_lesson_plans user teacher k page s = bindR (org_of s) (\<lambda>g. let
       who = (if cu_type user = Teacher then Some (cu_id user) else teacher) in
     Inr (fetch (\<lambda>(p, _). (- lp_created_at p, - lp_id p)) (map (\<lambda>p. (p, filter (\<lambda>f. lf_plan f = lp_id p) (lesson_files s)))
       (filter (\<lambda>p. lp_org p = g \<and> (case who of None \<Rightarrow> True | Some i \<Rightarrow> lp_teacher p = i) \<and> (case k of None \<Rightarrow> True | Some x \<Rightarrow> lp_class p = x)) (lesson_plans s))) page None))"

definition download_lesson_file :: "int \<Rightarrow> db \<Rightarrow> lesson_file_row res" where
  "download_lesson_file i s = bindR (org_of s) (\<lambda>g. case one_where (\<lambda>f. lf_id f = i \<and> list_ex (\<lambda>p. lp_id p = lf_plan f \<and> lp_org p = g) (lesson_plans s)) (lesson_files s) of
     None \<Rightarrow> Inl (NotFound ''File not found'') | Some f \<Rightarrow> Inr f)"

definition delete_lesson_plan :: "current_user \<Rightarrow> int \<Rightarrow> unit handler" where
  "delete_lesson_plan user i = transaction (
     bindH (query org_of) (\<lambda>g.
     bindH (found (\<lambda>s. one_where (\<lambda>p. lp_id p = i \<and> lp_org p = g) (lesson_plans s)) (NotFound ''Lesson plan not found'')) (\<lambda>p.
     bindH (check (\<not> (cu_type user = Teacher \<and> lp_teacher p \<noteq> cu_id user)) (Forbidden ''Not your lesson plan'')) (\<lambda>_.
     bindH (check (cu_type user \<noteq> SubAdmin) (Forbidden ''Not allowed'')) (\<lambda>_.
     bindH (reads (\<lambda>s. map lf_path (filter (\<lambda>f. lf_plan f = i) (lesson_files s)))) (\<lambda>paths.
     bindH (writes (\<lambda>s. s\<lparr>lesson_plans := delete_where (\<lambda>p. lp_id p = i) (lesson_plans s),
        lesson_files := delete_where (\<lambda>f. lf_plan f = i) (lesson_files s)\<rparr>)) (\<lambda>_.
     writes (drop_files paths))))))))"

end
