(* ===== verification/Transport.thy ===== *)
theory Transport
  imports Classes
begin

text \<open>
  Vehicles and the students who ride them, \<^verbatim>\<open>app/services/transport.py\<close>. Times are seconds after midnight.
\<close>

subsection \<open>Vehicles\<close>

definition hhmm :: "int \<Rightarrow> string" where
  "hhmm t = (let m = t div 60 in fmt0 2 (m div 60) @ '':'' @ fmt0 2 (m mod 60))"

record vehicle_stats =
  vs_total :: int
  vs_active :: int
  vs_routes :: int

definition vehicle_stats_of :: "ctx \<Rightarrow> db \<Rightarrow> vehicle_stats res" where
  "vehicle_stats_of c s = bindR (org_of s) (\<lambda>g. let vs = filter (\<lambda>v. v_org v = g) (vehicles s) in
     Inr \<lparr>vs_total = int (length vs), vs_active = count_of (\<lambda>v. v_status v = InService) vs,
       vs_routes = int (length (remdups (map (collation c) (List.map_filter v_route vs))))\<rparr>)"

definition list_vehicles :: "ctx \<Rightarrow> db \<Rightarrow> (vehicle_row \<times> string option \<times> int) list res" where
  "list_vehicles c s = bindR (org_of s) (\<lambda>g. Inr (map (\<lambda>v. (v,
       Option.bind (v_driver v) (\<lambda>i. map_option u_full_name (one_where (\<lambda>u. u_id u = i) (users s))),
       count_of (\<lambda>r. rd_vehicle r = v_id v) (bus_students s))) (sort_key (\<lambda>v. collation c (v_no v)) (filter (\<lambda>v. v_org v = g) (vehicles s)))))"

definition check_driver :: "int option \<Rightarrow> db \<Rightarrow> unit res" where
  "check_driver d s = (case d of None \<Rightarrow> Inr ()
     | Some i \<Rightarrow> bindR (org_of s) (\<lambda>g. if list_ex (\<lambda>u. u_id u = i \<and> u_org u = g \<and> u_type u = Driver \<and> u_left_on u = None) (users s)
         then Inr () else Inl (NotFound ''Driver account not found'')))"

definition shift_ends :: "'t::linorder option \<Rightarrow> 't option \<Rightarrow> unit res" where
  "shift_ends a z = (case (a, z) of (Some x, Some y) \<Rightarrow> if y \<le> x then Inl (BadRequest ''The shift must end after it starts'') else Inr () | _ \<Rightarrow> Inr ())"

text \<open>The columns a request sets.\<close>

record vehicle_body =
  vb_no :: string
  vb_driver_name :: string
  vb_driver_phone :: "string option"
  vb_route :: "string option"
  vb_capacity :: "int option"
  vb_status :: vehicle_status
  vb_type :: vehicle_type
  vb_driver :: "int option"
  vb_shift_name :: "string option"
  vb_shift_start :: "int option"
  vb_shift_end :: "int option"

definition parse_vehicle :: "vehicle_body \<Rightarrow> vehicle_body res" where
  "parse_vehicle b = (if vb_no b = [] \<or> 30 < length (vb_no b) \<or> vb_driver_name b = [] \<or> 100 < length (vb_driver_name b)
       \<or> (case vb_capacity b of None \<Rightarrow> False | Some n \<Rightarrow> n \<le> 0) \<or> (case vb_shift_name b of None \<Rightarrow> False | Some t \<Rightarrow> 50 < length t)
     then Inl (Unprocessable ''a field is out of range'') else Inr b)"

definition vehicle_columns :: "vehicle_body \<Rightarrow> vehicle_row \<Rightarrow> vehicle_row" where
  "vehicle_columns b v = v\<lparr>v_no := vb_no b, v_driver_name := vb_driver_name b, v_driver_phone := vb_driver_phone b, v_route := vb_route b,
     v_capacity := vb_capacity b, v_status := vb_status b, v_type := vb_type b, v_driver := vb_driver b, v_shift_name := vb_shift_name b,
     v_shift_start := vb_shift_start b, v_shift_end := vb_shift_end b\<rparr>"

definition vehicle_no_taken :: "ctx \<Rightarrow> int \<Rightarrow> string \<Rightarrow> vehicle_row list \<Rightarrow> bool" where
  "vehicle_no_taken c g n rows = list_ex (\<lambda>v. v_org v = g \<and> sql_eq c (v_no v) n) rows"

definition empty_vehicle :: "int \<Rightarrow> int \<Rightarrow> vehicle_row" where
  "empty_vehicle i g = \<lparr>v_id = i, v_org = g, v_no = [], v_driver_name = [], v_driver_phone = None, v_route = None, v_capacity = None,
     v_status = InService, v_type = Bus, v_driver = None, v_shift_name = None, v_shift_start = None, v_shift_end = None\<rparr>"

text \<open>The texts the body does not limit must still fit their columns.\<close>

definition vehicle_texts_fit :: "vehicle_row \<Rightarrow> bool" where
  "vehicle_texts_fit v \<longleftrightarrow> length (v_no v) \<le> 30 \<and> length (v_driver_name v) \<le> 100 \<and> length (str_or (v_driver_phone v) '''') \<le> 20
     \<and> length (str_or (v_route v) '''') \<le> 150"

definition data_too_long :: app_error where "data_too_long = RuntimeError ''Data too long for column''"

definition insert_vehicle :: "ctx \<Rightarrow> int \<Rightarrow> vehicle_body \<Rightarrow> int handler" where
  "insert_vehicle c g b s = (let v = vehicle_columns b (empty_vehicle (next_vehicle s) g) in
     if \<not> vehicle_texts_fit v then (Inl data_too_long, s)
     else if vehicle_no_taken c g (vb_no b) (vehicles s) then (Inl (DuplicateKey (Some ''uq_vehicles_org_vehicle_no'')), s)
     else (Inr (next_vehicle s), s\<lparr>vehicles := vehicles s @ [v], next_vehicle := next_vehicle s + 1\<rparr>))"

definition create_vehicle :: "ctx \<Rightarrow> vehicle_body \<Rightarrow> int handler" where
  "create_vehicle c b0 = bindH (query (\<lambda>_. parse_vehicle b0)) (\<lambda>b.
     bindH (query org_of) (\<lambda>g.
     bindH (reads (\<lambda>s. vehicle_no_taken c g (vb_no b) (vehicles s))) (\<lambda>taken.
     bindH (check (\<not> taken) (Conflict ''Vehicle number already exists'')) (\<lambda>_.
     bindH (query (check_driver (vb_driver b))) (\<lambda>_.
     bindH (query (\<lambda>_. shift_ends (vb_shift_start b) (vb_shift_end b))) (\<lambda>_.
     duplicate_is ''Vehicle number already exists'' (insert_vehicle c g b)))))))"

text \<open>
  The update: \<open>None\<close> is a field left out, \<open>Some None\<close> a null, which the four columns that are never null ignore.
\<close>

record vehicle_update =
  vu_no :: "string option option"
  vu_driver_name :: "string option option"
  vu_driver_phone :: "string option option"
  vu_route :: "string option option"
  vu_capacity :: "int option option"
  vu_status :: "vehicle_status option option"
  vu_type :: "vehicle_type option option"
  vu_driver :: "int option option"
  vu_shift_name :: "string option option"
  vu_shift_start :: "int option option"
  vu_shift_end :: "int option option"

definition kept :: "'a option option \<Rightarrow> 'a \<Rightarrow> 'a" where
  "kept change current = (case change of Some (Some v) \<Rightarrow> v | _ \<Rightarrow> current)"

definition replaced :: "'a option option \<Rightarrow> 'a option \<Rightarrow> 'a option" where
  "replaced change current = (case change of None \<Rightarrow> current | Some v \<Rightarrow> v)"

definition merged_vehicle :: "vehicle_update \<Rightarrow> vehicle_row \<Rightarrow> vehicle_body" where
  "merged_vehicle b v = \<lparr>vb_no = kept (vu_no b) (v_no v), vb_driver_name = kept (vu_driver_name b) (v_driver_name v),
     vb_driver_phone = replaced (vu_driver_phone b) (v_driver_phone v), vb_route = replaced (vu_route b) (v_route v),
     vb_capacity = replaced (vu_capacity b) (v_capacity v), vb_status = kept (vu_status b) (v_status v), vb_type = kept (vu_type b) (v_type v),
     vb_driver = replaced (vu_driver b) (v_driver v), vb_shift_name = replaced (vu_shift_name b) (v_shift_name v),
     vb_shift_start = replaced (vu_shift_start b) (v_shift_start v), vb_shift_end = replaced (vu_shift_end b) (v_shift_end v)\<rparr>"

definition write_vehicle :: "ctx \<Rightarrow> int \<Rightarrow> int \<Rightarrow> vehicle_body \<Rightarrow> unit handler" where
  "write_vehicle c g i b s = (if \<not> vehicle_texts_fit (vehicle_columns b (empty_vehicle i g)) then (Inl data_too_long, s)
     else if vehicle_no_taken c g (vb_no b) (filter (\<lambda>v. v_id v \<noteq> i) (vehicles s)) then (Inl (DuplicateKey (Some ''uq_vehicles_org_vehicle_no'')), s)
     else (Inr (), s\<lparr>vehicles := update_where (\<lambda>v. v_id v = i) (vehicle_columns b) (vehicles s)\<rparr>))"

definition vehicle_in :: "int \<Rightarrow> int \<Rightarrow> db \<Rightarrow> vehicle_row option" where
  "vehicle_in g i s = one_where (\<lambda>v. v_id v = i \<and> v_org v = g) (vehicles s)"

text \<open>Only a driver that is sent is looked up; the times are compared as the texts \<open>HH:MM\<close>.\<close>

definition update_vehicle :: "ctx \<Rightarrow> int \<Rightarrow> vehicle_update \<Rightarrow> unit handler" where
  "update_vehicle c i b = bindH (check (case vu_shift_name b of Some (Some t) \<Rightarrow> length t \<le> 50 | _ \<Rightarrow> True) (Unprocessable ''a field is out of range'')) (\<lambda>_.
     transaction (
     bindH (query org_of) (\<lambda>g.
     bindH (found (vehicle_in g i) (NotFound ''Vehicle not found'')) (\<lambda>v.
     bindH (query (case vu_driver b of None \<Rightarrow> (\<lambda>_. Inr ()) | Some d \<Rightarrow> check_driver d)) (\<lambda>_.
     let m = merged_vehicle b v in
     bindH (query (\<lambda>_. shift_ends (map_option hhmm (vb_shift_start m)) (map_option hhmm (vb_shift_end m)))) (\<lambda>_.
     duplicate_is ''Vehicle number already exists'' (write_vehicle c g i m)))))))"

text \<open>Deleting a vehicle takes its trips with their stops and its riders along.\<close>

definition delete_vehicle :: "int \<Rightarrow> unit handler" where
  "delete_vehicle i = bindH (query org_of) (\<lambda>g.
     bindH (found (vehicle_in g i) (NotFound ''Vehicle not found'')) (\<lambda>_.
     writes (\<lambda>s. let gone = map sf_id (filter (\<lambda>x. sf_vehicle x = i) (shifts s)) in
       s\<lparr>vehicles := delete_where (\<lambda>v. v_id v = i \<and> v_org v = g) (vehicles s), shifts := delete_where (\<lambda>x. sf_vehicle x = i) (shifts s),
         shift_students := delete_where (\<lambda>x. so_shift x \<in> set gone) (shift_students s),
         bus_students := delete_where (\<lambda>r. rd_vehicle r = i) (bus_students s)\<rparr>)))"

subsection \<open>Riders\<close>

record ride_body =
  rdb_stop :: "string option"
  rdb_pickup :: "int option"
  rdb_drop :: "int option"

definition active_pupil :: "int \<Rightarrow> int \<Rightarrow> db \<Rightarrow> bool" where
  "active_pupil g i s = list_ex (\<lambda>u. u_id u = i \<and> u_org u = g \<and> u_type u = Student \<and> u_left_on u = None) (users s)"

definition stripped :: "string option \<Rightarrow> string option" where
  "stripped t = or_none (py_strip (str_or t ''''))"

definition upsert_ride :: "int \<Rightarrow> int \<Rightarrow> int \<Rightarrow> ride_body \<Rightarrow> ride_row list \<Rightarrow> ride_row list" where
  "upsert_ride g i student b rows =
     (if list_ex (\<lambda>r. rd_student r = student) rows
      then update_where (\<lambda>r. rd_student r = student) (\<lambda>r. r\<lparr>rd_vehicle := i, rd_stop := stripped (rdb_stop b), rd_pickup := rdb_pickup b, rd_drop := rdb_drop b\<rparr>) rows
      else rows @ [\<lparr>rd_student = student, rd_org = g, rd_vehicle = i, rd_stop = stripped (rdb_stop b), rd_pickup = rdb_pickup b, rd_drop = rdb_drop b\<rparr>])"

definition assign_student :: "int \<Rightarrow> int \<Rightarrow> ride_body \<Rightarrow> unit handler" where
  "assign_student i student b = bindH (check (case rdb_stop b of None \<Rightarrow> True | Some t \<Rightarrow> length t \<le> 150) (Unprocessable ''a field is out of range'')) (\<lambda>_.
     transaction (
     bindH (query org_of) (\<lambda>g.
     bindH (found (vehicle_in g i) (NotFound ''Vehicle not found'')) (\<lambda>_.
     bindH (reads (active_pupil g student)) (\<lambda>ok.
     bindH (check ok (NotFound ''Student not found'')) (\<lambda>_.
     writes (\<lambda>s. s\<lparr>bus_students := upsert_ride g i student b (bus_students s)\<rparr>)))))))"

definition remove_student :: "int \<Rightarrow> int \<Rightarrow> unit handler" where
  "remove_student i student = bindH (query org_of) (\<lambda>g.
     bindH (reads (\<lambda>s. list_ex (\<lambda>r. rd_org r = g \<and> rd_vehicle r = i \<and> rd_student r = student) (bus_students s))) (\<lambda>there.
     bindH (writes (\<lambda>s. s\<lparr>bus_students := delete_where (\<lambda>r. rd_org r = g \<and> rd_vehicle r = i \<and> rd_student r = student) (bus_students s)\<rparr>)) (\<lambda>_.
     check there (NotFound ''Student is not on this vehicle''))))"

text \<open>The riders by pickup time, stop and name; a missing time or stop comes first.\<close>

definition rider_order :: "ctx \<Rightarrow> ride_row \<times> string \<times> student_profile_row option \<Rightarrow> bool \<times> int \<times> bool \<times> string \<times> string" where
  "rider_order c x = (case x of (r, name, _) \<Rightarrow> (rd_pickup r \<noteq> None, case rd_pickup r of None \<Rightarrow> 0 | Some t \<Rightarrow> t, rd_stop r \<noteq> None,
     collation c (str_or (rd_stop r) ''''), collation c name))"

definition vehicle_students :: "ctx \<Rightarrow> int \<Rightarrow> db \<Rightarrow> (ride_row \<times> string \<times> student_profile_row option) list res" where
  "vehicle_students c i s = bindR (org_of s) (\<lambda>g. if vehicle_in g i s = None then Inl (NotFound ''Vehicle not found'')
     else Inr (sort_key (rider_order c) (concat (map (\<lambda>r. map (\<lambda>u. (r, u_full_name u, one_where (\<lambda>p. sp_user p = u_id u) (student_profiles s)))
         (filter (\<lambda>u. u_id u = rd_student r) (users s))) (filter (\<lambda>r. rd_org r = g \<and> rd_vehicle r = i) (bus_students s))))))"

text \<open>The parent's view: the seat, the vehicle, the name and phone shown for its driver.\<close>

record transport_view =
  tv_ride :: ride_row
  tv_vehicle :: vehicle_row
  tv_driver_name :: string
  tv_driver_phone :: "string option"

definition for_student :: "int \<Rightarrow> db \<Rightarrow> transport_view option res" where
  "for_student student s = bindR (org_of s) (\<lambda>g. Inr (
     Option.bind (one_where (\<lambda>r. rd_student r = student \<and> rd_org r = g) (bus_students s)) (\<lambda>r.
     map_option (\<lambda>v. let d = Option.bind (v_driver v) (\<lambda>i. one_where (\<lambda>u. u_id u = i) (users s)) in
       \<lparr>tv_ride = r, tv_vehicle = v, tv_driver_name = (case d of None \<Rightarrow> v_driver_name v | Some u \<Rightarrow> u_full_name u),
        tv_driver_phone = (case v_driver_phone v of Some p \<Rightarrow> Some p | None \<Rightarrow> Option.bind d u_phone)\<rparr>)
     (one_where (\<lambda>v. v_id v = rd_vehicle r \<and> v_org v = rd_org r) (vehicles s)))))"

end
