(* ===== verification/Driver_Routine.thy ===== *)
theory Driver_Routine
  imports Transport
begin

text \<open>
  The trips of a vehicle with their stops, and a driver's day, \<^verbatim>\<open>app/services/driver_routine.py\<close>. Times are seconds
  after midnight; a body's time has whole seconds and no zone.
\<close>

definition NOON :: int where "NOON = 43200"
definition DEFAULT_WEEKDAYS :: "int list" where "DEFAULT_WEEKDAYS = [0, 1, 2, 3, 4, 5]"

subsection \<open>Shapes\<close>

text \<open>A student at a door: the account, the profile with the names of class and section, and the stop.\<close>

record door =
  dr_student :: int
  dr_name :: string
  dr_photo :: "string option"
  dr_phone :: "string option"
  dr_profile :: "student_profile_row option"
  dr_class :: "string option"
  dr_section :: "string option"
  dr_stop_no :: int
  dr_time :: "string option"
  dr_stop :: "string option"
  dr_landmark :: "string option"
  dr_latitude :: "int option"
  dr_longitude :: "int option"
  dr_notes :: "string option"

text \<open>The key is \<open>s<id>\<close> for a trip and \<open>v<id>\<close> for the one shift a vehicle had before there were trips.\<close>

record trip =
  trp_key :: string
  trp_shift :: "int option"
  trp_name :: string
  trp_kind :: trip_type
  trp_start :: "string option"
  trp_end :: "string option"
  trp_weekdays :: "int list"
  trp_active :: bool
  trp_vehicle :: vehicle_row
  trp_doors :: "door list"

definition door_of :: "db \<Rightarrow> user_row \<Rightarrow> int option \<Rightarrow> string option \<Rightarrow> string option \<Rightarrow> int option \<Rightarrow> int option \<Rightarrow> string option \<Rightarrow> door" where
  "door_of s u t stop landmark lat long notes = (let p = one_where (\<lambda>p. sp_user p = u_id u) (student_profiles s) in
     \<lparr>dr_student = u_id u, dr_name = u_full_name u, dr_photo = u_photo u, dr_phone = u_phone u, dr_profile = p,
      dr_class = Option.bind (Option.bind p sp_class) (\<lambda>k. map_option cl_name (one_where (\<lambda>x. cl_id x = k) (classes s))),
      dr_section = Option.bind (Option.bind p sp_section) (\<lambda>i. map_option se_name (one_where (\<lambda>x. se_id x = i) (sections s))),
      dr_stop_no = 0, dr_time = map_option hhmm t, dr_stop = stop, dr_landmark = landmark, dr_latitude = lat, dr_longitude = long, dr_notes = notes\<rparr>)"

definition with_stop_numbers :: "door list \<Rightarrow> door list" where
  "with_stop_numbers ds = map (\<lambda>(d, n). d\<lparr>dr_stop_no := int n + 1\<rparr>) (zip ds [0..<length ds])"

definition trip_order :: "trip \<Rightarrow> string \<times> string \<times> string" where
  "trip_order t = (str_or (trp_start t) ''99:99'', v_no (trp_vehicle t), trp_name t)"

subsection \<open>The trips of vehicles\<close>

definition active_in :: "int \<Rightarrow> int \<Rightarrow> db \<Rightarrow> user_row list" where
  "active_in g i s = filter (\<lambda>u. u_id u = i \<and> u_org u = g \<and> u_active u) (users s)"

text \<open>The stops of a trip in order: the stop name of the seat stands in for a missing one.\<close>

definition stop_doors :: "ctx \<Rightarrow> int \<Rightarrow> shift_row \<Rightarrow> db \<Rightarrow> door list" where
  "stop_doors c g r s = map snd (sort_key (\<lambda>(x, d). (so_order x, so_time x = None, case so_time x of None \<Rightarrow> 0 | Some t \<Rightarrow> t, collation c (dr_name d)))
     (concat (map (\<lambda>x. map (\<lambda>u. (x, door_of s u (so_time x)
          (case so_name x of Some n \<Rightarrow> Some n | None \<Rightarrow> Option.bind (one_where (\<lambda>rd. rd_student rd = u_id u \<and> rd_org rd = u_org u) (bus_students s)) rd_stop)
          (so_landmark x) (so_latitude x) (so_longitude x) (so_notes x))) (active_in g (so_student x) s))
       (filter (\<lambda>x. so_shift x = sf_id r) (shift_students s)))))"

definition shift_trip :: "ctx \<Rightarrow> int \<Rightarrow> vehicle_row \<Rightarrow> db \<Rightarrow> shift_row \<Rightarrow> trip" where
  "shift_trip c g v s r = \<lparr>trp_key = CHR ''s'' # py_str_int (sf_id r), trp_shift = Some (sf_id r), trp_name = sf_name r, trp_kind = sf_trip r,
     trp_start = Some (hhmm (sf_start r)), trp_end = Some (hhmm (sf_end r)), trp_weekdays = sf_weekdays r, trp_active = sf_active r,
     trp_vehicle = v, trp_doors = with_stop_numbers (stop_doors c g r s)\<rparr>"

text \<open>\<open>_legacy_shifts\<close>: a vehicle without trips has the one shift of its row, a drop from noon on, with the riders by time.\<close>

definition ride_order :: "(int option \<times> string option \<times> door) \<Rightarrow> bool \<times> string \<times> string \<times> string" where
  "ride_order x = (case x of (t, stop, d) \<Rightarrow> (t = None, str_or (map_option hhmm t) '''', str_or stop '''', dr_name d))"

definition legacy_riders :: "int \<Rightarrow> vehicle_row \<Rightarrow> trip_type \<Rightarrow> db \<Rightarrow> door list" where
  "legacy_riders g v kind s = map (\<lambda>(_, _, d). d) (sort_key ride_order (concat (map (\<lambda>r. let t = (if kind = Pickup then rd_pickup r else rd_drop r) in
       map (\<lambda>u. (t, rd_stop r, door_of s u t (rd_stop r) None None None None)) (active_in g (rd_student r) s))
     (filter (\<lambda>r. rd_org r = g \<and> rd_vehicle r = v_id v) (bus_students s)))))"

definition legacy_trip :: "int \<Rightarrow> db \<Rightarrow> vehicle_row \<Rightarrow> trip option" where
  "legacy_trip g s v = (let kind = (case v_shift_start v of None \<Rightarrow> Pickup | Some t \<Rightarrow> if NOON \<le> t div 60 * 60 then Drop else Pickup); riders = legacy_riders g v kind s in
     if riders = [] \<and> v_shift_start v = None then None
     else Some \<lparr>trp_key = CHR ''v'' # py_str_int (v_id v), trp_shift = None, trp_name = str_or (v_shift_name v) '''', trp_kind = kind,
       trp_start = map_option hhmm (v_shift_start v), trp_end = map_option hhmm (v_shift_end v), trp_weekdays = DEFAULT_WEEKDAYS, trp_active = True,
       trp_vehicle = v, trp_doors = with_stop_numbers riders\<rparr>)"

text \<open>\<open>_shifts_for\<close>: a vehicle with trips, even switched-off ones, no longer shows its old shift.\<close>

definition shifts_for :: "ctx \<Rightarrow> int \<Rightarrow> vehicle_row list \<Rightarrow> bool \<Rightarrow> db \<Rightarrow> trip list" where
  "shifts_for c g vs only_active s = (let
       rows = (\<lambda>v. filter (\<lambda>r. sf_org r = g \<and> sf_vehicle r = v_id v) (shifts s));
       old = filter (\<lambda>v. rows v = []) vs
     in sort_key trip_order (concat (map (\<lambda>v. map (shift_trip c g v s) (filter (\<lambda>r. only_active \<longrightarrow> sf_active r) (sort_key sf_start (rows v)))) vs)
          @ List.map_filter (legacy_trip g s) old))"

subsection \<open>The driver's day\<close>

record day_routine =
  dy_date :: date
  dy_weekday :: int
  dy_today :: bool
  dy_time :: datetime
  dy_holiday :: "string option"
  dy_vehicles :: "vehicle_row list"
  dy_trips :: "trip list"

definition routine :: "ctx \<Rightarrow> int \<Rightarrow> date \<Rightarrow> db \<Rightarrow> day_routine res" where
  "routine c driver day s = bindR (org_of s) (\<lambda>g. let
       vs = sort_key (\<lambda>v. collation c (v_no v)) (filter (\<lambda>v. v_org v = g \<and> v_driver v = Some driver) (vehicles s));
       holiday = map_option h_name (one_where (\<lambda>h. h_org h = g \<and> h_date h = day) (holidays s))
     in Inr \<lparr>dy_date = day, dy_weekday = weekday day, dy_today = (day = school_today c), dy_time = school_now c, dy_holiday = holiday, dy_vehicles = vs,
          dy_trips = (if holiday \<noteq> None then [] else filter (\<lambda>t. weekday day \<in> set (trp_weekdays t)) (shifts_for c g vs True s))\<rparr>)"

subsection \<open>Managing trips\<close>

record shift_body =
  shb_name :: string
  shb_trip :: trip_type
  shb_start :: int
  shb_end :: int
  shb_weekdays :: "int list"
  shb_active :: bool

definition check_weekdays :: "int list \<Rightarrow> int list res" where
  "check_weekdays ds = (if ds = [] \<or> list_ex (\<lambda>d. d < 0 \<or> 6 < d) ds
     then Inl (Unprocessable ''weekdays must be numbers 0 (Mon) to 6 (Sun), at least one'') else Inr (sort (remdups ds)))"

definition name_fits :: "string \<Rightarrow> bool" where
  "name_fits n \<longleftrightarrow> n \<noteq> [] \<and> length n \<le> 50"

definition parse_shift :: "shift_body \<Rightarrow> shift_body res" where
  "parse_shift b = (if \<not> name_fits (shb_name b) then Inl (Unprocessable ''a field is out of range'')
     else bindR (check_weekdays (shb_weekdays b)) (\<lambda>ds. Inr (b\<lparr>shb_weekdays := ds\<rparr>)))"

definition find_vehicle :: "int \<Rightarrow> vehicle_row handler" where
  "find_vehicle i = bindH (query org_of) (\<lambda>g. found (vehicle_in g i) (NotFound ''Vehicle not found''))"

definition find_shift :: "int \<Rightarrow> int \<Rightarrow> shift_row handler" where
  "find_shift v i = bindH (query org_of) (\<lambda>g. found (\<lambda>s. one_where (\<lambda>r. sf_id r = i \<and> sf_vehicle r = v \<and> sf_org r = g) (shifts s)) (NotFound ''Shift not found''))"

definition list_shifts :: "ctx \<Rightarrow> int \<Rightarrow> trip list handler" where
  "list_shifts c v = bindH (find_vehicle v) (\<lambda>row. bindH (query org_of) (\<lambda>g. reads (shifts_for c g [row] False)))"

definition ends_after :: "int \<Rightarrow> int \<Rightarrow> unit res" where
  "ends_after a z = shift_ends (Some a) (Some z)"

definition create_shift :: "int \<Rightarrow> shift_body \<Rightarrow> int handler" where
  "create_shift v b0 = bindH (query (\<lambda>_. parse_shift b0)) (\<lambda>b.
     bindH (find_vehicle v) (\<lambda>_.
     bindH (query (\<lambda>_. ends_after (shb_start b) (shb_end b))) (\<lambda>_.
     bindH (query org_of) (\<lambda>g.
     bindH (reads next_shift) (\<lambda>i.
     bindH (writes (\<lambda>s. s\<lparr>shifts := shifts s @ [\<lparr>sf_id = i, sf_org = g, sf_vehicle = v, sf_name = py_strip (shb_name b), sf_trip = shb_trip b,
        sf_start = shb_start b, sf_end = shb_end b, sf_weekdays = shb_weekdays b, sf_active = shb_active b\<rparr>], next_shift := i + 1\<rparr>)) (\<lambda>_. ret i))))))"

text \<open>A field left out and a null both keep the column. A stored time is read back without its seconds.\<close>

record shift_update =
  fu_name :: "string option"
  fu_trip :: "trip_type option"
  fu_start :: "int option"
  fu_end :: "int option"
  fu_weekdays :: "int list option"
  fu_active :: "bool option"

definition or_stored :: "'a option \<Rightarrow> 'a \<Rightarrow> 'a" where
  "or_stored change current = (case change of None \<Rightarrow> current | Some v \<Rightarrow> v)"

definition whole_minutes :: "int \<Rightarrow> int" where
  "whole_minutes t = t div 60 * 60"

definition parse_shift_update :: "shift_update \<Rightarrow> shift_update res" where
  "parse_shift_update b = (if (case fu_name b of None \<Rightarrow> False | Some n \<Rightarrow> \<not> name_fits n) then Inl (Unprocessable ''a field is out of range'')
     else (case fu_weekdays b of None \<Rightarrow> Inr b | Some ds \<Rightarrow> bindR (check_weekdays ds) (\<lambda>ds'. Inr (b\<lparr>fu_weekdays := Some ds'\<rparr>))))"

definition merged_shift :: "shift_update \<Rightarrow> shift_row \<Rightarrow> shift_row" where
  "merged_shift b r = r\<lparr>sf_name := py_strip (or_stored (fu_name b) (sf_name r)), sf_trip := or_stored (fu_trip b) (sf_trip r),
     sf_start := or_stored (fu_start b) (whole_minutes (sf_start r)), sf_end := or_stored (fu_end b) (whole_minutes (sf_end r)),
     sf_weekdays := or_stored (fu_weekdays b) (sf_weekdays r), sf_active := or_stored (fu_active b) (sf_active r)\<rparr>"

definition update_shift :: "int \<Rightarrow> int \<Rightarrow> shift_update \<Rightarrow> unit handler" where
  "update_shift v i b0 = bindH (query (\<lambda>_. parse_shift_update b0)) (\<lambda>b. transaction (
     bindH (find_vehicle v) (\<lambda>_.
     bindH (find_shift v i) (\<lambda>r.
     let m = merged_shift b r in
     bindH (query (\<lambda>_. ends_after (sf_start m) (sf_end m))) (\<lambda>_.
     writes (\<lambda>s. s\<lparr>shifts := update_where (\<lambda>x. sf_id x = i \<and> sf_org x = sf_org r) (merged_shift b) (shifts s)\<rparr>))))))"

definition delete_shift :: "int \<Rightarrow> int \<Rightarrow> unit handler" where
  "delete_shift v i = bindH (find_vehicle v) (\<lambda>_.
     bindH (find_shift v i) (\<lambda>r.
     writes (\<lambda>s. s\<lparr>shifts := delete_where (\<lambda>x. sf_id x = i \<and> sf_org x = sf_org r) (shifts s),
       shift_students := delete_where (\<lambda>x. so_shift x = i) (shift_students s)\<rparr>)))"

subsection \<open>The stops of a trip\<close>

text \<open>Latitude and longitude in millionths of a degree.\<close>

record stop_body =
  stb_student :: int
  stb_time :: "int option"
  stb_stop :: "string option"
  stb_landmark :: "string option"
  stb_latitude :: "int option"
  stb_longitude :: "int option"
  stb_notes :: "string option"

definition at_most :: "nat \<Rightarrow> string option \<Rightarrow> bool" where
  "at_most n t = (case t of None \<Rightarrow> True | Some x \<Rightarrow> length x \<le> n)"

definition degrees :: "int \<Rightarrow> int option \<Rightarrow> bool" where
  "degrees n x = (case x of None \<Rightarrow> True | Some v \<Rightarrow> - (n * 1000000) \<le> v \<and> v \<le> n * 1000000)"

definition stop_valid :: "stop_body \<Rightarrow> bool" where
  "stop_valid b \<longleftrightarrow> at_most 150 (stb_stop b) \<and> at_most 150 (stb_landmark b) \<and> at_most 300 (stb_notes b) \<and> degrees 90 (stb_latitude b) \<and> degrees 180 (stb_longitude b)"

definition stop_of :: "int \<Rightarrow> stop_body \<times> nat \<Rightarrow> stop_row" where
  "stop_of i bn = (case bn of (b, n) \<Rightarrow> \<lparr>so_shift = i, so_student = stb_student b, so_order = int n + 1, so_time = stb_time b, so_name = stripped (stb_stop b),
     so_landmark = stripped (stb_landmark b), so_latitude = stb_latitude b, so_longitude = stb_longitude b, so_notes = stripped (stb_notes b)\<rparr>)"

definition stops_of :: "int \<Rightarrow> stop_body list \<Rightarrow> stop_row list" where
  "stops_of i bs = map (stop_of i) (zip bs [0..<length bs])"

definition missing_pupils :: "int \<Rightarrow> int list \<Rightarrow> db \<Rightarrow> int list" where
  "missing_pupils g ids s = filter (\<lambda>i. \<not> active_pupil g i s) ids"

definition save_shift_students :: "int \<Rightarrow> int \<Rightarrow> stop_body list \<Rightarrow> nat handler" where
  "save_shift_students v i bs =
     bindH (check (length bs \<le> 200 \<and> list_all stop_valid bs) (Unprocessable ''a field is out of range'')) (\<lambda>_.
     bindH (check (distinct (map stb_student bs)) (BadRequest ''A student is listed twice'')) (\<lambda>_. transaction (
     bindH (find_vehicle v) (\<lambda>_.
     bindH (find_shift v i) (\<lambda>_.
     bindH (query org_of) (\<lambda>g.
     bindH (query (\<lambda>s. case missing_pupils g (map stb_student bs) s of [] \<Rightarrow> Inr () | j # _ \<Rightarrow> Inl (NotFound (''Student not found: '' @ py_str_int j)))) (\<lambda>_.
     bindH (writes (\<lambda>s. s\<lparr>shift_students := delete_where (\<lambda>x. so_shift x = i) (shift_students s) @ stops_of i bs\<rparr>)) (\<lambda>_. ret (length bs)))))))))"

end
