(* ===== verification/Records.thy ===== *)
theory Records
  imports Duties Exam_Results Homework Driver_Routine Leaving_Props
begin

text \<open>
  What no tidying up takes away: the records of the school, and the relation of the operations that delete set-up or
  close an account. A handler that is put together from harmless steps is harmless; the locale carries that once for
  every relation that is reflexive and transitive.
\<close>

subsection \<open>Handlers made of harmless steps\<close>

definition kept_by :: "(db \<Rightarrow> db \<Rightarrow> bool) \<Rightarrow> 'a handler \<Rightarrow> bool" where
  "kept_by R m \<longleftrightarrow> (\<forall>s r s'. m s = (r, s') \<longrightarrow> R s s')"

lemma kept_byD: "kept_by R m \<Longrightarrow> m s = (r, s') \<Longrightarrow> R s s'"
  by (auto simp: kept_by_def)

lemma kept_byI: "(\<And>s r s'. m s = (r, s') \<Longrightarrow> R s s') \<Longrightarrow> kept_by R m"
  by (auto simp: kept_by_def)

locale frame =
  fixes R :: "db \<Rightarrow> db \<Rightarrow> bool"
  assumes same: "R s s" and chain: "R s t \<Longrightarrow> R t u \<Longrightarrow> R s u"
begin

lemma bind: "kept_by R m \<Longrightarrow> (\<And>x. kept_by R (k x)) \<Longrightarrow> kept_by R (bindH m k)"
proof (rule kept_byI)
  fix s r s'
  assume m: "kept_by R m" and k: "\<And>x. kept_by R (k x)" and run: "bindH m k s = (r, s')"
  obtain q t where q: "m s = (q, t)" by (cases "m s")
  from run q show "R s s'" by (cases q) (auto simp: bindH_def intro: kept_byD [OF m] chain [OF kept_byD [OF m q] kept_byD [OF k]])
qed

lemma pure: "kept_by R (ret x)" "kept_by R (raise e)" "kept_by R (check b e)" "kept_by R (query q)" "kept_by R (reads f)" "kept_by R (found h e)"
  by (auto simp: kept_by_def ret_def raise_def check_def query_def reads_def found_def same split: option.splits if_splits)

lemma writing: "(\<And>s. R s (f s)) \<Longrightarrow> kept_by R (writes f)"
  by (auto simp: kept_by_def writes_def)

lemma commit: "kept_by R m \<Longrightarrow> kept_by R (transaction m)"
  unfolding kept_by_def transaction_def by (auto split: prod.splits sum.splits intro: same)

lemma renamed: "kept_by R m \<Longrightarrow> kept_by R (duplicate_is msg m)"
  unfolding kept_by_def duplicate_is_def by (auto split: prod.splits sum.splits app_error.splits)

lemma branch: "kept_by R m \<Longrightarrow> kept_by R n \<Longrightarrow> kept_by R (if b then m else n)"
  by simp

lemma split: "(\<And>x y. kept_by R (f x y)) \<Longrightarrow> kept_by R (case p of (x, y) \<Rightarrow> f x y)"
  by (cases p) simp

lemmas steps = bind pure writing commit renamed branch split

end

subsection \<open>Records\<close>

text \<open>
  The records: attendance, marks, homework and who handed it in, documents, fees, payments and claims in full; lesson
  plans but for the link to a section, substitution requests but for their answer and the link to a period.
\<close>

definition plan_core :: "lesson_row \<Rightarrow> lesson_row" where
  "plan_core p = p\<lparr>lp_section := None\<rparr>"

definition request_core :: "sub_row \<Rightarrow> sub_row" where
  "request_core r = r\<lparr>r_slot := None, r_status := Pending, r_responded_at := None, r_response_note := None, r_updated_at := 0\<rparr>"

definition records_of :: "db \<Rightarrow> attendance_row list \<times> result_row list \<times> homework_row list \<times> submission_row list \<times> document_row list
    \<times> fee_row list \<times> payment_row list \<times> claim_row list \<times> lesson_row list \<times> lesson_file_row list \<times> sub_row list \<times> salary_row list \<times> staff_day_row list" where
  "records_of s = (attendance s, exam_results s, class_homework s, submissions s, documents s, fees s, payments s, fee_claims s,
     map plan_core (lesson_plans s), lesson_files s, map request_core (sub_requests s), salaries s, staff_days s)"

definition records_kept :: "db \<Rightarrow> db \<Rightarrow> bool" where
  "records_kept s s' \<longleftrightarrow> records_of s' = records_of s \<and> (\<exists>more. audit s' = audit s @ more)"

interpretation rk: frame records_kept
  by unfold_locales (auto simp: records_kept_def)

lemma records_keptI: "records_of s' = records_of s \<Longrightarrow> audit s' = audit s \<Longrightarrow> records_kept s s'"
  by (simp add: records_kept_def)

lemma kept_audit: "records_kept s (audit_record c a b d e f s)"
  by (simp add: records_kept_def records_of_def audit_record_def)

lemma kept_drop_files: "records_kept s (drop_files ps s)"
  by (simp add: records_kept_def records_of_def drop_files_def)

lemma request_core_slot: "request_core (r\<lparr>r_slot := x\<rparr>) = request_core r"
  by (simp add: request_core_def)

lemma kept_delete_slots: "records_kept s (delete_slots P s)"
  by (rule records_keptI) (auto simp: records_of_def delete_slots_def Let_def update_where_def request_core_slot comp_def)

lemma plan_core_section: "plan_core (p\<lparr>lp_section := x\<rparr>) = plan_core p"
  by (simp add: plan_core_def)

lemma kept_cascade_sections: "records_kept s (cascade_sections ids s)"
proof (rule rk.chain [OF kept_delete_slots [of s "\<lambda>t. t_section t \<in> set ids"]])
  show "records_kept (delete_slots (\<lambda>t. t_section t \<in> set ids) s) (cascade_sections ids s)"
    by (rule records_keptI) (auto simp: records_of_def cascade_sections_def Let_def update_where_def plan_core_section comp_def)
qed

lemma kept_cascade_class: "records_kept s (cascade_class k s)"
proof (rule rk.chain [OF kept_delete_slots [of s "\<lambda>t. t_class t = k"]])
  show "records_kept (delete_slots (\<lambda>t. t_class t = k) s) (cascade_class k s)"
    by (rule records_keptI) (simp_all add: records_of_def cascade_class_def Let_def)
qed

lemma kept_rows:
  "kept_by records_kept (delete_section_row i)" "kept_by records_kept (delete_class_row k)" "kept_by records_kept (delete_exam_row i)"
  by (auto simp: kept_by_def delete_section_row_def delete_class_row_def delete_exam_row_def rk.same
      intro: kept_cascade_sections rk.chain [OF kept_cascade_sections kept_cascade_class] records_keptI simp: records_of_def)

subsection \<open>Operations that tidy up\<close>

lemma kept_delete_class: "kept_by records_kept (delete_class c actor k)"
  unfolding delete_class_def by (intro rk.steps kept_rows kept_audit kept_drop_files)

lemma kept_delete_section: "kept_by records_kept (delete_section c actor k i)"
  unfolding delete_section_def by (intro rk.steps kept_rows kept_audit)

lemma kept_get_exam: "kept_by records_kept (get_exam i)"
  unfolding get_exam_def by (intro rk.steps)

lemma kept_delete_exam: "kept_by records_kept (delete_exam c actor i)"
  unfolding delete_exam_def by (intro rk.steps kept_rows kept_audit kept_drop_files kept_get_exam)

lemma kept_delete_subject_paper: "kept_by records_kept (delete_subject_paper c actor i p)"
  unfolding delete_subject_paper_def by (intro rk.steps kept_audit kept_drop_files; simp add: records_keptI records_of_def)

lemma kept_delete_assignment: "kept_by records_kept (delete_assignment c actor i)"
  unfolding delete_assignment_def by (intro rk.steps kept_audit; simp add: records_keptI records_of_def)

lemma kept_delete_slot: "kept_by records_kept (delete_slot i)"
  unfolding delete_slot_def by (intro rk.steps kept_delete_slots)

lemma kept_delete_vehicle: "kept_by records_kept (delete_vehicle i)"
  unfolding delete_vehicle_def by (intro rk.steps; simp add: records_keptI records_of_def Let_def)

lemma kept_find: "kept_by records_kept (find_vehicle v)" "kept_by records_kept (find_shift v i)"
  unfolding find_vehicle_def find_shift_def by (intro rk.steps)+

lemma kept_delete_shift: "kept_by records_kept (delete_shift v i)"
  unfolding delete_shift_def by (intro rk.steps kept_find; simp add: records_keptI records_of_def)

lemma kept_insert_subjects: "records_kept s (snd (insert_subjects c k ns s))"
proof (induction ns arbitrary: s)
  case (Cons n ns)
  have "records_kept s (s\<lparr>class_subjects := class_subjects s @ [\<lparr>cs_class = k, cs_name = n\<rparr>]\<rparr>)" by (rule records_keptI) (simp_all add: records_of_def)
  from rk.chain [OF this Cons] show ?case by (simp add: rk.same)
qed (simp add: rk.same)

lemma kept_update_subjects: "kept_by records_kept (update_subjects c k ss)"
proof -
  have "kept_by records_kept (insert_subjects c k ns)" for ns by (rule kept_byI) (metis kept_insert_subjects snd_conv)
  then show ?thesis unfolding update_subjects_def set_subjects_def by (intro rk.steps; simp add: records_keptI records_of_def)
qed

lemma left_request_core: "request_core (left_request c g uid gone r) = request_core r"
  by (simp add: left_request_def Let_def request_core_def slot_gone_def split: option.split)

lemma kept_mark_left: "kept_by records_kept (mark_left c actor uid reason)"
proof (rule kept_byI)
  fix s r s'
  assume run: "mark_left c actor uid reason s = (r, s')"
  show "records_kept s s'"
  proof (cases r)
    case (Inl e)
    with run show ?thesis by (auto simp: mark_left_def Let_def dest: transaction_error intro: rk.same)
  next
    case (Inr d)
    define s1 where "s1 = left_account c uid (clean_reason reason) s"
    have s1: "records_of s1 = records_of s" "audit s1 = audit s" "sub_requests s1 = sub_requests s"
      by (simp_all add: s1_def records_of_def left_account_def Let_def revoke_all_def forget_user_devices_def)
    have student: "records_of (left_student g uid s1) = records_of s1" for g by (simp add: records_of_def left_student_def)
    have staff: "records_of (snd (left_staff c g uid s1)) = records_of s1" for g
    proof -
      obtain n t where st: "left_staff c g uid s1 = (n, t)" by (cases "left_staff c g uid s1")
      have "map request_core (sub_requests t) = map request_core (sub_requests s1)"
        unfolding left_staff_requests [OF st] by (simp add: left_request_core)
      then show ?thesis using st by (auto simp: records_of_def left_staff_def delete_slots_def close_open_substitutions_def Let_def)
    qed
    obtain g and u :: user_row and a b where "s' = audit_record c (Some (cu_id actor)) a (Some ''user'') (Some (py_str_int uid)) b
        (if u_type u = Student then left_student g uid s1 else snd (left_staff c g uid s1))"
      using run Inr unfolding mark_left_def Let_def s1_def by (auto simp: svc_simps dest!: left_duties_ok split: prod.splits)
    then show ?thesis using s1 student staff by (auto simp: records_kept_def records_of_def audit_record_def left_student_def left_staff_def delete_slots_def
        close_open_substitutions_def Let_def)
  qed
qed

end
