(* ===== verification/Records_Claims.thy ===== *)
theory Records_Claims
  imports Records Attendance_Claims Leaving_Claims
begin

text \<open>
  What deleting promises: a class can go exactly when the foreign keys let it go, and no tidying up erases a record.
\<close>

subsection \<open>When a class may be deleted\<close>

lemma count_of_zero [simp]: "count_of P xs = 0 \<longleftrightarrow> \<not> list_ex P xs"
  by (simp add: count_of_def filter_empty_conv list_ex_iff)

lemma refuse_ok: "refuse what recs advice = Inr x \<longleftrightarrow> (\<forall>kn \<in> set recs. snd kn = 0)"
  by (auto simp: refuse_def Let_def filter_empty_conv split_def)

lemma refuse_conflict: "refuse what recs advice = Inl e \<Longrightarrow> \<exists>m. e = Conflict m"
  by (auto simp: refuse_def Let_def split: if_splits)

text \<open>The homework of a section is the homework of its class.\<close>

definition homework_tied :: "db \<Rightarrow> bool" where
  "homework_tied s \<longleftrightarrow> (\<forall>h \<in> set (class_homework s). \<forall>x \<in> set (sections s). se_id x = hw_section h \<longrightarrow> se_class x = hw_class h)"

lemma class_records_free:
  assumes "homework_tied s"
  shows "(\<forall>kn \<in> set (class_records k (sections_of k s) s). snd kn = 0) \<longleftrightarrow> \<not> class_in_use k s \<and> \<not> sections_in_use (sections_of k s) s"
proof -
  have "list_ex (\<lambda>h. hw_section h \<in> set (sections_of k s)) (class_homework s) \<Longrightarrow> list_ex (\<lambda>h. hw_class h = k) (class_homework s)"
    using assms by (auto simp: list_ex_iff sections_of_def homework_tied_def)
  then show ?thesis by (auto simp: class_records_def class_in_use_def sections_in_use_def list_ex_iff)
qed

lemma section_records_free: "(\<forall>kn \<in> set (section_records [i] s). snd kn = 0) \<longleftrightarrow> \<not> sections_in_use [i] s"
  by (auto simp: section_records_def sections_in_use_def)

definition class_gone :: "ctx \<Rightarrow> int option \<Rightarrow> int \<Rightarrow> class_row \<Rightarrow> db \<Rightarrow> db" where
  "class_gone c actor k cls s = audit_record c actor ''class.delete'' (Some ''class'') (Some (py_str_int k))
     [(''name'', cl_name cls), (''sections'', py_str_int (int (length (sections_of k s)))),
      (''students_unassigned'', py_str_int (count_of (\<lambda>p. sp_class p = Some k) (student_profiles s)))]
     (drop_files (class_paper_files k s) (cascade_class k (cascade_sections (sections_of k s) s)))"

lemma delete_class_eq:
  assumes "bound_org s = Some g" and "homework_tied s"
  shows "delete_class c actor k s = (case class_of_org g k s of None \<Rightarrow> (Inl (NotFound ''Class not found''), s)
     | Some cls \<Rightarrow> (case refuse (cl_name cls) (class_records k (sections_of k s) s) ''A class with records stays; move its students to another class if it is no longer used.'' of
         Inl e \<Rightarrow> (Inl e, s) | Inr _ \<Rightarrow> (Inr (), class_gone c actor k cls s)))"
proof -
  have "class_in_use k s = False \<and> sections_in_use (sections_of k s) s = False" if "refuse what (class_records k (sections_of k s) s) advice = Inr x" for what advice x
    using that class_records_free [OF assms(2)] by (simp add: refuse_ok)
  then show ?thesis using assms(1)
    by (auto simp: delete_class_def transaction_def bindH_def query_def found_def reads_def writes_def org_of_def delete_class_row_def class_gone_def
        split: option.split sum.split)
qed



subsection \<open>Records stay\<close>

text \<open>One request that deletes set-up or closes an account, whatever its outcome.\<close>

inductive tidy_step :: "db \<Rightarrow> db \<Rightarrow> bool" where
  tidy_class: "delete_class c actor k s = (r, s') \<Longrightarrow> tidy_step s s'"
| tidy_section: "delete_section c actor k i s = (r, s') \<Longrightarrow> tidy_step s s'"
| tidy_exam: "delete_exam c user i s = (r, s') \<Longrightarrow> tidy_step s s'"
| tidy_paper: "delete_subject_paper c user i p s = (r, s') \<Longrightarrow> tidy_step s s'"
| tidy_duty: "delete_assignment c user i s = (r, s') \<Longrightarrow> tidy_step s s'"
| tidy_slot: "delete_slot i s = (r, s') \<Longrightarrow> tidy_step s s'"
| tidy_subjects: "update_subjects c k ss s = (q, s') \<Longrightarrow> tidy_step s s'"
| tidy_vehicle: "delete_vehicle i s = (r, s') \<Longrightarrow> tidy_step s s'"
| tidy_trip: "delete_shift v i s = (r, s') \<Longrightarrow> tidy_step s s'"
| tidy_account: "mark_left c user uid reason s = (d, s') \<Longrightarrow> tidy_step s s'"

lemmas kept_tidy = kept_delete_class kept_delete_section kept_delete_exam kept_delete_subject_paper kept_delete_assignment kept_delete_slot
  kept_update_subjects kept_delete_vehicle kept_delete_shift kept_mark_left

lemma tidy_step_kept: "tidy_step s s' \<Longrightarrow> records_kept s s'"
  by (induction rule: tidy_step.induct) (auto intro: kept_tidy [THEN kept_byD])

lemma tidy_run_kept: "tidy_step\<^sup>*\<^sup>* s s' \<Longrightarrow> records_kept s s'"
  by (induction rule: rtranclp_induct) (auto intro: rk.same rk.chain tidy_step_kept)

text \<open>C15: No sequence of deletions of classes, sections, exams, papers, duties, periods, subjects, vehicles and trips and
  of accounts marked as left erases a record of the school: attendance, marks, homework and its submissions, documents,
  fees, payments, claims, salaries and staff attendance are the same rows, lesson plans and substitution requests keep
  all but the link and the answer, and the audit log only grows.\<close>

theorem records_never_erased:
  assumes "tidy_step\<^sup>*\<^sup>* s s'"
  shows "attendance s' = attendance s \<and> exam_results s' = exam_results s \<and> class_homework s' = class_homework s \<and> submissions s' = submissions s
    \<and> documents s' = documents s \<and> fees s' = fees s \<and> payments s' = payments s \<and> fee_claims s' = fee_claims s
    \<and> salaries s' = salaries s \<and> staff_days s' = staff_days s \<and> lesson_files s' = lesson_files s
    \<and> map (\<lambda>p. p\<lparr>lp_section := None\<rparr>) (lesson_plans s') = map (\<lambda>p. p\<lparr>lp_section := None\<rparr>) (lesson_plans s)
    \<and> map (\<lambda>r. (r_id r, r_requester r, r_substitute r, r_date r, r_period r, r_class r, r_section r, r_subject r)) (sub_requests s')
      = map (\<lambda>r. (r_id r, r_requester r, r_substitute r, r_date r, r_period r, r_class r, r_section r, r_subject r)) (sub_requests s)
    \<and> (\<exists>more. audit s' = audit s @ more)"
proof -
  let ?key = "\<lambda>r. (r_id r, r_requester r, r_substitute r, r_date r, r_period r, r_class r, r_section r, r_subject r)"
  have "?key (request_core r) = ?key r" for r by (simp add: request_core_def)
  then have key: "map ?key (map request_core rs) = map ?key rs" for rs by simp
  have plan: "plan_core = (\<lambda>p. p\<lparr>lp_section := None\<rparr>)" by (simp add: plan_core_def [abs_def])
  from tidy_run_kept [OF assms] have kept: "records_of s' = records_of s" "\<exists>more. audit s' = audit s @ more" by (simp_all add: records_kept_def)
  then have core: "map request_core (sub_requests s') = map request_core (sub_requests s)" by (simp add: records_of_def)
  have "map ?key (sub_requests s') = map ?key (map request_core (sub_requests s'))" by (simp only: key)
  also have "\<dots> = map ?key (sub_requests s)" by (simp only: core key)
  finally have "map ?key (sub_requests s') = map ?key (sub_requests s)" .
  with kept show ?thesis by (simp add: records_of_def plan)
qed

lemma records_never_erased_witness:
  "\<exists>s'. tidy_step\<^sup>*\<^sup>* leaving_db s' \<and> fees s' = fees leaving_db \<and> users s' \<noteq> users leaving_db"
proof -
  obtain s' where left: "mark_left (demo 0) head_user 4 None leaving_db = (Inr (school_today (demo 0)), s')" using ravi_leaves by blast
  have run: "tidy_step\<^sup>*\<^sup>* leaving_db s'" using tidy_account [OF left] by blast
  have "users s' \<noteq> users leaving_db"
    by (simp add: mark_left_fields(1) [OF left] left_account_fields update_where_def) (simp add: school_people_def demo_user_def)
  with records_never_erased [OF run] run show ?thesis by blast
qed

end
