(* ===== verification/Duty_Claims.thy ===== *)
theory Duty_Claims
  imports Records_Claims
begin

text \<open>
  Who teaches what stays possible: every duty and every period belongs to a teacher in office and to a section of its
  class and school, whatever the office does with people, classes and sections.
\<close>

subsection \<open>The rules of the duties\<close>

definition teacher_now :: "user_row \<Rightarrow> bool" where
  "teacher_now u \<longleftrightarrow> u_type u = Teacher \<and> u_left_on u = None"

definition duty_placed :: "db \<Rightarrow> int \<Rightarrow> int \<Rightarrow> int \<Rightarrow> int \<Rightarrow> bool" where
  "duty_placed s g teacher k i \<longleftrightarrow> (\<exists>u \<in> set (users s). u_id u = teacher \<and> u_org u = g \<and> teacher_now u)
     \<and> (\<exists>x \<in> set (sections s). se_id x = i \<and> se_class x = k \<and> se_org x = g)"

definition ids_ok :: "db \<Rightarrow> bool" where
  "ids_ok s \<longleftrightarrow> distinct (map u_id (users s)) \<and> (\<forall>u \<in> set (users s). u_id u < next_user s)"

lemma ids_ok_ids:
  assumes "map u_id (users s') = map u_id (users s)" and "next_user s' = next_user s"
  shows "ids_ok s' = ids_ok s"
proof -
  have eq: "ids_ok t \<longleftrightarrow> distinct (map u_id (users t)) \<and> (\<forall>i \<in> set (map u_id (users t)). i < next_user t)" for t by (simp add: ids_ok_def)
  show ?thesis by (simp only: eq assms)
qed

lemma one_account: "ids_ok s \<Longrightarrow> u \<in> set (users s) \<Longrightarrow> v \<in> set (users s) \<Longrightarrow> u_id u = u_id v \<Longrightarrow> u = v"
  by (auto simp: ids_ok_def distinct_map dest: inj_onD)

definition class_teachers :: "db \<Rightarrow> assignment_row list" where
  "class_teachers s = filter ta_class_teacher (assignments s)"

definition slot_key :: "slot_row \<Rightarrow> int \<times> int \<times> int" where
  "slot_key t = (t_teacher t, t_day t, t_period t)"

definition duties_ok :: "db \<Rightarrow> bool" where
  "duties_ok s \<longleftrightarrow> ids_ok s
     \<and> (\<forall>a \<in> set (assignments s). duty_placed s (ta_org a) (ta_teacher a) (ta_class a) (ta_section a))
     \<and> (\<forall>t \<in> set (slots s). duty_placed s (t_org t) (t_teacher t) (t_class t) (t_section t))
     \<and> distinct (map ta_teacher (class_teachers s)) \<and> distinct (map ta_section (class_teachers s)) \<and> distinct (map slot_key (slots s))"

subsection \<open>Steps that leave the duties alone\<close>

definition calm :: "db \<Rightarrow> db \<Rightarrow> bool" where
  "calm s s' \<longleftrightarrow> assignments s' = assignments s \<and> slots s' = slots s \<and> set (sections s) \<subseteq> set (sections s')
     \<and> (\<forall>u \<in> set (users s). teacher_now u \<longrightarrow> (\<exists>v \<in> set (users s'). u_id v = u_id u \<and> u_org v = u_org u \<and> teacher_now v))
     \<and> (ids_ok s \<longrightarrow> ids_ok s')"

interpretation ca: frame calm
proof
  show "calm s s" for s by (auto simp: calm_def)
  show "calm s u" if "calm s t" "calm t u" for s t u
  proof -
    have "\<exists>v \<in> set (users u). u_id v = u_id x \<and> u_org v = u_org x \<and> teacher_now v" if x: "x \<in> set (users s)" "teacher_now x" for x
    proof -
      from x \<open>calm s t\<close> obtain y where "y \<in> set (users t)" "u_id y = u_id x" "u_org y = u_org x" "teacher_now y" by (auto simp: calm_def)
      with \<open>calm t u\<close> show ?thesis by (fastforce simp: calm_def)
    qed
    then show ?thesis using that by (auto simp: calm_def)
  qed
qed

lemma calm_duties: "calm s s' \<Longrightarrow> duties_ok s \<Longrightarrow> duties_ok s'"
proof -
  assume calm: "calm s s'" and ok: "duties_ok s"
  have "duty_placed s' g i k x" if "duty_placed s g i k x" for g i k x
  proof -
    from that obtain u where "u \<in> set (users s)" "u_id u = i" "u_org u = g" "teacher_now u" by (auto simp: duty_placed_def)
    with calm have "\<exists>v \<in> set (users s'). u_id v = i \<and> u_org v = g \<and> teacher_now v" by (auto simp: calm_def)
    then show ?thesis using that calm by (auto simp: duty_placed_def calm_def)
  qed
  then show "duties_ok s'" using calm ok by (auto simp: duties_ok_def calm_def class_teachers_def)
qed

text \<open>What a step does not name does not matter.\<close>

lemma calmI:
  assumes "assignments s' = assignments s" "slots s' = slots s" "set (sections s) \<subseteq> set (sections s')" "users s' = users s" "next_user s' = next_user s"
  shows "calm s s'"
  using assms by (auto simp: calm_def ids_ok_def)

lemma calm_audit: "calm s (audit_record c a b d e f s)"
  by (rule calmI) (simp_all add: audit_record_def)

lemma calm_users:
  assumes "\<And>u. u_id (f u) = u_id u \<and> u_org (f u) = u_org u \<and> u_type (f u) = u_type u" and "\<And>u. u_left_on u = None \<Longrightarrow> u_left_on (f u) = None"
  shows "calm s (s\<lparr>users := update_where P f (users s)\<rparr>)"
proof -
  let ?f = "\<lambda>u. if P u then f u else u"
  have f: "u_id (?f u) = u_id u" "u_org (?f u) = u_org u" "u_type (?f u) = u_type u" "u_left_on u = None \<Longrightarrow> u_left_on (?f u) = None" for u
    using assms by simp_all
  have ids: "map u_id (update_where P f us) = map u_id us" for us using f(1) by (simp add: update_where_def)
  have "\<exists>v \<in> set (update_where P f (users s)). u_id v = u_id u \<and> u_org v = u_org u \<and> teacher_now v" if "u \<in> set (users s)" "teacher_now u" for u
    by (rule bexI [of _ "?f u"]) (use that f in \<open>auto simp: teacher_now_def update_where_def\<close>)
  moreover have "ids_ok (s\<lparr>users := update_where P f (users s)\<rparr>)" if "ids_ok s"
    using that assms(1) unfolding ids_ok_def by (simp add: ids) (auto simp: update_where_def)
  ultimately show ?thesis by (auto simp: calm_def)
qed

lemma calm_rewrite:
  assumes "\<And>u. u_id (f u) = u_id u \<and> u_org (f u) = u_org u \<and> u_type (f u) = u_type u" and "\<And>u. u_left_on u = None \<Longrightarrow> u_left_on (f u) = None"
  shows "calm s (rewrite_user i f s)"
  unfolding rewrite_user_def by (rule calm_users [OF assms])

lemma calm_insert_user: "kept_by calm (insert_user c u)"
  by (rule kept_byI) (auto simp: insert_user_def ca.same calm_def ids_ok_def split: option.splits intro: less_trans)

lemma calm_insert_account: "kept_by calm (insert_account c mine u)"
  by (rule kept_byI) (auto simp: insert_account_def split: prod.splits sum.splits app_error.splits if_splits dest!: kept_byD [OF calm_insert_user])

lemma calm_rows:
  "kept_by calm (insert_profile c p)" "kept_by calm (insert_teacher_profile t)" "kept_by calm (write_profile c i f)"
  by (rule kept_byI; auto simp: insert_profile_def insert_teacher_profile_def write_profile_def ca.same split: if_splits option.splits intro: calmI)+

lemma calm_write_user:
  assumes "\<And>u. u_id (f u) = u_id u \<and> u_org (f u) = u_org u \<and> u_type (f u) = u_type u" and "\<And>u. u_left_on u = None \<Longrightarrow> u_left_on (f u) = None"
  shows "kept_by calm (write_user c i f)"
  by (rule kept_byI) (auto simp: write_user_def ca.same split: option.splits intro!: calm_users [OF assms])

lemma calm_place: "kept_by calm (place_student c g i)"
proof (rule kept_byI)
  fix s r s'
  assume run: "place_student c g i s = (r, s')"
  have keep: "kept_by calm (bindH (write_profile c i f) (\<lambda>_. ret x))" for f and x :: placed by (intro ca.steps calm_rows)
  from run show "calm s s'" by (auto simp: place_student_def Let_def ca.same split: option.splits if_splits dest: kept_byD [OF keep])
qed

lemma calm_office:
  "kept_by calm (create_staff c actor b)" "kept_by calm (update_staff c actor i up)" "kept_by calm (create_student c actor sb)"
  "kept_by calm (update_student c actor i su)" "kept_by calm (upload_photo actor i stored)" "kept_by calm (reactivate c actor i)"
  unfolding create_staff_def update_staff_def create_student_def update_student_def upload_photo_def reactivate_def Let_def
  by (intro ca.steps calm_audit calm_rewrite calm_insert_account calm_rows calm_write_user calm_place; simp add: staff_fields_def student_fields_def)+

lemma calm_insert_subjects: "kept_by calm (insert_subjects c k ns)"
proof (rule kept_byI)
  show "insert_subjects c k ns s = (r, s') \<Longrightarrow> calm s s'" for s r s'
  proof (induction ns arbitrary: s)
    case (Cons n ns)
    have "calm s (s\<lparr>class_subjects := class_subjects s @ [\<lparr>cs_class = k, cs_name = n\<rparr>]\<rparr>)" by (rule calmI) simp_all
    with Cons show ?case by (auto split: if_splits intro: ca.same ca.chain)
  qed (simp add: ca.same)
qed

lemma calm_set_up:
  "kept_by calm (create_class c kb)" "kept_by calm (update_subjects c k ss)" "kept_by calm (create_section c k n)"
proof -
  have ins: "kept_by calm (insert_class c g n fee)" "kept_by calm (insert_section c g k n)" for g n fee
    by (rule kept_byI; auto simp: insert_class_def insert_section_def ca.same split: if_splits intro: calmI)+
  have sub: "kept_by calm (set_subjects c k ns)" for k ns
    unfolding set_subjects_def by (intro ca.steps calm_insert_subjects calmI; simp)
  show "kept_by calm (create_class c kb)" "kept_by calm (update_subjects c k ss)" "kept_by calm (create_section c k n)"
    unfolding create_class_def update_subjects_def create_section_def by (intro ca.steps ins sub)+
qed

subsection \<open>Steps that change them\<close>

lemma duties_fewer:
  assumes ok: "duties_ok s" and fewer: "\<exists>P. assignments s' = filter P (assignments s)" "\<exists>Q. slots s' = filter Q (slots s)"
    and left: "\<And>a. a \<in> set (assignments s') \<Longrightarrow> duty_placed s' (ta_org a) (ta_teacher a) (ta_class a) (ta_section a)"
      "\<And>t. t \<in> set (slots s') \<Longrightarrow> duty_placed s' (t_org t) (t_teacher t) (t_class t) (t_section t)" and ids: "ids_ok s'"
  shows "duties_ok s'"
proof -
  obtain P Q where "assignments s' = filter P (assignments s)" "slots s' = filter Q (slots s)" using fewer by blast
  moreover have "distinct (map f (filter ta_class_teacher (filter P xs)))" if "distinct (map f (filter ta_class_teacher xs))" for f :: "assignment_row \<Rightarrow> int" and xs
    using that by (induction xs) auto
  ultimately show ?thesis using assms by (simp add: duties_ok_def class_teachers_def distinct_map_filter)
qed

lemma duties_delete_assignment:
  assumes ok: "duties_ok s" and run: "delete_assignment c actor i s = (r, s')"
  shows "duties_ok s'"
proof (cases r)
  case (Inl e)
  then show ?thesis using run ok by (auto simp: delete_assignment_def dest: transaction_error)
next
  case (Inr x)
  then obtain g A B C D E where s': "s' = audit_record c A B C D E (s\<lparr>assignments := delete_where (\<lambda>a. ta_id a = i \<and> ta_org a = g) (assignments s)\<rparr>)"
    using run by (auto simp: delete_assignment_def svc_simps)
  show ?thesis
    by (rule duties_fewer [OF ok]) (use ok in \<open>auto simp: s' audit_record_def delete_where_def duties_ok_def duty_placed_def ids_ok_def intro: filter_True [symmetric]\<close>)
qed

lemma duties_delete_slots:
  assumes "duties_ok s"
  shows "duties_ok (delete_slots P s)"
  by (rule duties_fewer [OF assms])
     (use assms in \<open>auto simp: delete_slots_def Let_def delete_where_def duties_ok_def duty_placed_def ids_ok_def intro: filter_True [symmetric]\<close>)

lemma duties_delete_slot:
  assumes ok: "duties_ok s" and run: "delete_slot i s = (r, s')"
  shows "duties_ok s'"
proof -
  have "s' = s \<or> (\<exists>P. s' = delete_slots P s)"
    using run by (auto simp: delete_slot_def bindH_def query_def reads_def writes_def check_def split: sum.splits if_splits prod.splits)
  then show ?thesis using ok duties_delete_slots by auto
qed

lemma placed_less:
  assumes "duty_placed s g j k i" and "users s' = users s" and "sections s' = filter P (sections s)" and "\<And>x. se_id x = i \<Longrightarrow> se_class x = k \<Longrightarrow> P x"
  shows "duty_placed s' g j k i"
proof -
  obtain x where "x \<in> set (sections s)" "se_id x = i" "se_class x = k" "se_org x = g" using assms(1) by (auto simp: duty_placed_def)
  then have "\<exists>x \<in> set (sections s'). se_id x = i \<and> se_class x = k \<and> se_org x = g" using assms(3,4) by auto
  with assms(1,2) show ?thesis by (simp add: duty_placed_def)
qed

lemma duties_cascade_sections:
  assumes ok: "duties_ok s"
  shows "duties_ok (cascade_sections ids s)"
proof -
  have f: "users (cascade_sections ids s) = users s" "next_user (cascade_sections ids s) = next_user s"
    "sections (cascade_sections ids s) = filter (\<lambda>x. se_id x \<notin> set ids) (sections s)"
    "assignments (cascade_sections ids s) = filter (\<lambda>a. ta_section a \<notin> set ids) (assignments s)"
    "slots (cascade_sections ids s) = filter (\<lambda>t. t_section t \<notin> set ids) (slots s)"
    by (simp_all add: cascade_sections_def delete_slots_def Let_def delete_where_def)
  show ?thesis
  proof (rule duties_fewer [OF ok])
    show "duty_placed (cascade_sections ids s) (ta_org a) (ta_teacher a) (ta_class a) (ta_section a)" if "a \<in> set (assignments (cascade_sections ids s))" for a
      by (rule placed_less [OF _ f(1,3)]) (use that ok in \<open>auto simp: f duties_ok_def\<close>)
    show "duty_placed (cascade_sections ids s) (t_org t) (t_teacher t) (t_class t) (t_section t)" if "t \<in> set (slots (cascade_sections ids s))" for t
      by (rule placed_less [OF _ f(1,3)]) (use that ok in \<open>auto simp: f duties_ok_def\<close>)
  qed (use ok in \<open>auto simp: f ids_ok_def duties_ok_def\<close>)
qed

lemma duties_cascade_class:
  assumes ok: "duties_ok s"
  shows "duties_ok (cascade_class k s)"
proof -
  have f: "users (cascade_class k s) = users s" "next_user (cascade_class k s) = next_user s" "sections (cascade_class k s) = sections s"
    "assignments (cascade_class k s) = filter (\<lambda>a. ta_class a \<noteq> k) (assignments s)" "slots (cascade_class k s) = filter (\<lambda>t. t_class t \<noteq> k) (slots s)"
    by (simp_all add: cascade_class_def delete_slots_def Let_def delete_where_def)
  show ?thesis
    by (rule duties_fewer [OF ok]) (use ok in \<open>auto simp: f ids_ok_def duties_ok_def duty_placed_def\<close>)
qed

lemma duties_files: "duties_ok s \<Longrightarrow> duties_ok (drop_files ps s)" "duties_ok s \<Longrightarrow> duties_ok (audit_record c a b d e f s)"
  by (simp_all add: duties_ok_def duty_placed_def ids_ok_def class_teachers_def drop_files_def audit_record_def)

lemma duties_delete_class:
  assumes ok: "duties_ok s" and run: "delete_class c actor k s = (r, s')"
  shows "duties_ok s'"
proof (cases r)
  case (Inl e)
  then show ?thesis using run ok by (auto simp: delete_class_def dest: transaction_error)
next
  case (Inr x)
  then obtain A B C D E ps where "s' = audit_record c A B C D E (drop_files ps (cascade_class k (cascade_sections (sections_of k s) s)))"
    using run by (auto simp: delete_class_def svc_simps delete_class_row_def split: if_splits)
  then show ?thesis using ok by (simp add: duties_files duties_cascade_class duties_cascade_sections)
qed

lemma duties_delete_section:
  assumes ok: "duties_ok s" and run: "delete_section c actor k i s = (r, s')"
  shows "duties_ok s'"
proof (cases r)
  case (Inl e)
  then show ?thesis using run ok by (auto simp: delete_section_def dest: transaction_error)
next
  case (Inr x)
  then obtain A B C D E where "s' = audit_record c A B C D E (cascade_sections [i] s)"
    using run by (auto simp: delete_section_def svc_simps delete_section_row_def split: if_splits prod.splits)
  then show ?thesis using ok by (simp add: duties_files duties_cascade_sections)
qed

lemma active_teacher_placed:
  assumes "active_teacher g i s = Some u" and "section_in_class g k x s = Some sec"
  shows "duty_placed s g i k x"
  using one_where_Some [OF assms(1) [unfolded active_teacher_def]] one_where_Some [OF assms(2) [unfolded section_in_class_def]]
  by (auto simp: duty_placed_def teacher_now_def)

lemma duties_create_assignment:
  assumes ok: "duties_ok s" and run: "create_assignment c actor b s = (r, s')"
  shows "duties_ok s'"
proof (cases r)
  case (Inl e)
  then show ?thesis using run ok by (auto simp: create_assignment_def dest: transaction_error)
next
  case (Inr j)
  with run have fin: "create_assignment c actor b s = (Inr j, s')" by simp
  obtain g u x s1 A B C D E where u: "active_teacher g (asg_teacher b) s = Some u" and x: "section_in_class g (asg_class b) (asg_section b) s = Some x"
    and checks: "assignment_checks c b s = Inr ()" and ins: "insert_assignment c g b s = (Inr j, s1)" and s': "s' = audit_record c A B C D E s1"
    using fin unfolding create_assignment_def svc_simps by auto
  let ?a = "\<lparr>ta_id = next_assignment s, ta_org = g, ta_teacher = asg_teacher b, ta_class = asg_class b, ta_section = asg_section b,
    ta_class_teacher = asg_class_teacher b, ta_subject = asg_subject b\<rparr>"
  have s1: "s1 = s\<lparr>assignments := assignments s @ [?a], next_assignment := next_assignment s + 1\<rparr>"
    using ins by (auto simp: insert_assignment_def split: if_splits)
  have placed: "duty_placed s g (asg_teacher b) (asg_class b) (asg_section b)" by (rule active_teacher_placed [OF u x])
  have "asg_class_teacher b \<longrightarrow> asg_teacher b \<notin> ta_teacher ` set (class_teachers s) \<and> asg_section b \<notin> ta_section ` set (class_teachers s)"
    using checks by (auto simp: assignment_checks_def list_ex_iff class_teachers_def split: if_splits)
  then have "duties_ok s1" using ok placed by (auto simp: s1 duties_ok_def duty_placed_def ids_ok_def class_teachers_def)
  then show ?thesis by (simp add: s' duties_files)
qed

lemma duties_upsert_row:
  assumes ok: "duties_ok s" and placed: "duty_placed s g (slb_teacher b) (slb_class b) (slb_section b)"
  shows "duties_ok (upsert_row g b s)"
proof -
  let ?key = "\<lambda>t. t_teacher t = slb_teacher b \<and> t_day t = slb_day b \<and> t_period t = slb_period b"
  have org: "t_org t = g" if "t \<in> set (slots s)" "?key t" for t
  proof -
    have "duty_placed s (t_org t) (slb_teacher b) (t_class t) (t_section t)" using ok that by (auto simp: duties_ok_def)
    then obtain u where u: "u \<in> set (users s)" "u_id u = slb_teacher b" "u_org u = t_org t" by (auto simp: duty_placed_def)
    obtain v where v: "v \<in> set (users s)" "u_id v = slb_teacher b" "u_org v = g" using placed by (auto simp: duty_placed_def)
    have "u = v" using ok by (intro one_account [of s] u(1) v(1)) (simp_all add: duties_ok_def u v)
    then show ?thesis using u v by simp
  qed
  have keys: "map slot_key (update_where P (\<lambda>t. t\<lparr>t_class := k, t_section := i, t_subject := z\<rparr>) ts) = map slot_key ts" for P k i z ts
    by (simp add: update_where_def slot_key_def)
  show ?thesis
  proof (cases "list_ex ?key (slots s)")
    case True
    then show ?thesis using ok placed org
      by (auto simp: upsert_row_def Let_def duties_ok_def keys class_teachers_def ids_ok_def set_update_where) (auto simp: duty_placed_def)
  next
    case False
    then have "(slb_teacher b, slb_day b, slb_period b) \<notin> slot_key ` set (slots s)" by (auto simp: slot_key_def list_ex_iff)
    then show ?thesis using False ok placed by (auto simp: upsert_row_def Let_def duties_ok_def class_teachers_def ids_ok_def duty_placed_def slot_key_def)
  qed
qed

lemma duties_upsert_slot:
  assumes ok: "duties_ok s" and run: "upsert_slot b s = (r, s')"
  shows "duties_ok s'"
proof (cases r)
  case (Inl e)
  then have "s' = s" using run by (auto simp: upsert_slot_def bindH_Inl query_iff dest: transaction_error)
  then show ?thesis using ok by simp
next
  case (Inr j)
  with run have fin: "upsert_slot b s = (Inr j, s')" by simp
  obtain b' g u x where "active_teacher g (slb_teacher b') s = Some u" "section_in_class g (slb_class b') (slb_section b') s = Some x" "s' = upsert_row g b' s"
    using fin unfolding upsert_slot_def svc_simps by auto
  then show ?thesis using duties_upsert_row [OF ok active_teacher_placed] by simp
qed

lemma duties_mark_left:
  assumes ok: "duties_ok s" and run: "mark_left c actor i reason s = (Inr d, s')"
  shows "duties_ok s'"
proof -
  define s1 where "s1 = left_account c i (clean_reason reason) s"
  obtain g and u :: user_row and a where u: "one_where (\<lambda>u. u_id u = i \<and> u_org u = g) (users s) = Some u"
    and s': "s' = (if u_type u = Student then left_student g i s1 else snd (left_staff c g i s1))\<lparr>audit := a\<rparr>"
    by (rule mark_left_ok [OF run, folded s1_def], rule that, assumption+)
  have u': "u \<in> set (users s)" "u_id u = i" "u_org u = g" using one_where_Some [OF u] by simp_all
  have only: "v = u" if "v \<in> set (users s)" "u_id v = i" for v
    using ok that u' by (intro one_account [of s]) (simp_all add: duties_ok_def)
  have s1: "assignments s1 = assignments s" "slots s1 = slots s" "sections s1 = sections s" "next_user s1 = next_user s"
    "users s1 = update_where (\<lambda>u. u_id u = i) (\<lambda>u. u\<lparr>u_active := False, u_left_on := Some (school_today c), u_left_reason := clean_reason reason,
       u_token_version := u_token_version u + 1\<rparr>) (users s)"
    by (simp_all add: s1_def left_account_fields)
  have fields: "users s' = users s1" "sections s' = sections s1" "next_user s' = next_user s1"
    "assignments s' = (if u_type u = Student then assignments s else filter (\<lambda>a. \<not> (ta_teacher a = i \<and> ta_org a = g)) (assignments s))"
    "slots s' = (if u_type u = Student then slots s else filter (\<lambda>t. \<not> (t_teacher t = i \<and> t_org t = g)) (slots s))"
  proof -
    obtain n t where st: "left_staff c g i s1 = (n, t)" by (cases "left_staff c g i s1")
    show "users s' = users s1" "sections s' = sections s1" "next_user s' = next_user s1"
      "assignments s' = (if u_type u = Student then assignments s else filter (\<lambda>a. \<not> (ta_teacher a = i \<and> ta_org a = g)) (assignments s))"
      "slots s' = (if u_type u = Student then slots s else filter (\<lambda>t. \<not> (t_teacher t = i \<and> t_org t = g)) (slots s))"
      by (simp_all add: s' st left_staff_fields [OF st] left_student_fields s1 delete_where_def)
  qed
  have ids: "ids_ok s'"
  proof -
    have "map u_id (users s1) = map u_id (users s)" unfolding s1 by (simp add: update_where_def)
    then have "ids_ok s' = ids_ok s" by (intro ids_ok_ids) (simp_all add: fields(1,3) s1(4))
    then show ?thesis using ok by (simp add: duties_ok_def)
  qed
  have stays: "duty_placed s' h j k x" if "duty_placed s h j k x" "j \<noteq> i" for h j k x
    using that by (auto simp: duty_placed_def fields s1 update_where_def)
  have gone: "h = g \<and> u_type u \<noteq> Student" if pl: "duty_placed s h i k x" for h k x
  proof -
    obtain v where v: "v \<in> set (users s)" "u_id v = i" "u_org v = h" "u_type v = Teacher" using pl by (auto simp: duty_placed_def teacher_now_def)
    from only [OF v(1,2)] v u' show ?thesis by simp
  qed
  show ?thesis
  proof (rule duties_fewer [OF ok _ _ _ _ ids])
    show "\<exists>P. assignments s' = filter P (assignments s)" "\<exists>Q. slots s' = filter Q (slots s)"
      unfolding fields by (auto intro: filter_True [symmetric])
    show "duty_placed s' (ta_org a) (ta_teacher a) (ta_class a) (ta_section a)" if "a \<in> set (assignments s')" for a
    proof -
      have "duty_placed s (ta_org a) (ta_teacher a) (ta_class a) (ta_section a)" using that ok by (auto simp: fields duties_ok_def split: if_splits)
      moreover from this have "ta_teacher a \<noteq> i" using gone that by (auto simp: fields split: if_splits)
      ultimately show ?thesis by (rule stays)
    qed
    show "duty_placed s' (t_org t) (t_teacher t) (t_class t) (t_section t)" if "t \<in> set (slots s')" for t
    proof -
      have "duty_placed s (t_org t) (t_teacher t) (t_class t) (t_section t)" using that ok by (auto simp: fields duties_ok_def split: if_splits)
      moreover from this have "t_teacher t \<noteq> i" using gone that by (auto simp: fields split: if_splits)
      ultimately show ?thesis by (rule stays)
    qed
  qed
qed

subsection \<open>Every run\<close>

text \<open>One request of the office: people, duties, periods, classes and sections, whatever its outcome.\<close>

inductive duty_step :: "ctx \<Rightarrow> db \<Rightarrow> db \<Rightarrow> bool" for c where
  people: "office_step c s t \<Longrightarrow> duty_step c s t"
| new_duty: "create_assignment c actor b s = (r, t) \<Longrightarrow> duty_step c s t"
| no_duty: "delete_assignment c actor i s = (x, t) \<Longrightarrow> duty_step c s t"
| new_slot: "upsert_slot sl s = (v, t) \<Longrightarrow> duty_step c s t"
| no_slot: "delete_slot i s = (x, t) \<Longrightarrow> duty_step c s t"
| new_class: "create_class c kb s = (j, t) \<Longrightarrow> duty_step c s t"
| subjects: "update_subjects c k ss s = (q, t) \<Longrightarrow> duty_step c s t"
| new_section: "create_section c k n s = (j, t) \<Longrightarrow> duty_step c s t"
| no_class: "delete_class c by k s = (x, t) \<Longrightarrow> duty_step c s t"
| no_section: "delete_section c by k i s = (x, t) \<Longrightarrow> duty_step c s t"

lemma office_step_duties: "office_step c s t \<Longrightarrow> duties_ok s \<Longrightarrow> duties_ok t"
  by (induction rule: office_step.induct) (blast intro: duties_mark_left calm_duties calm_office [THEN kept_byD])+

lemma duty_step_ok: "duty_step c s t \<Longrightarrow> duties_ok s \<Longrightarrow> duties_ok t"
  by (induction rule: duty_step.induct)
    (blast intro: office_step_duties duties_create_assignment duties_delete_assignment duties_upsert_slot duties_delete_slot duties_delete_class duties_delete_section
      calm_duties calm_set_up [THEN kept_byD])+

lemma duty_run_ok: "(duty_step c)\<^sup>*\<^sup>* s t \<Longrightarrow> duties_ok s \<Longrightarrow> duties_ok t"
  by (induction rule: rtranclp_induct) (blast intro: duty_step_ok)+


definition ravi_duty :: assignment_body where
  "ravi_duty = \<lparr>asg_teacher = 4, asg_class = 7, asg_section = 8, asg_class_teacher = True, asg_subject = None\<rparr>"


end
