(* ===== verification/Exam_Claims.thy ===== *)
theory Exam_Claims
  imports Exam_Results Leaving_Claims
begin

text \<open>
  Marks: what a teacher enters is what is recorded, once per exam, student and subject, and no mark is above its maximum.
\<close>

subsection \<open>Marks within their maximum\<close>

definition mark_ok :: "result_row \<Rightarrow> bool" where
  "mark_ok r \<longleftrightarrow> (case er_marks r of None \<Rightarrow> True
     | Some m \<Rightarrow> 0 \<le> m \<and> m \<le> COLUMN_MAX \<and> (case er_max r of None \<Rightarrow> True | Some most \<Rightarrow> m \<le> most))"

definition result_key :: "ctx \<Rightarrow> result_row \<Rightarrow> int \<times> int \<times> string" where
  "result_key c r = (er_exam r, er_student r, collation c (er_subject r))"

lemma hundredths_mono: "x \<le> y \<Longrightarrow> hundredths x \<le> hundredths y"
  by (simp add: hundredths_def floor_mono)

lemma hundredths_nonneg: "0 \<le> x \<Longrightarrow> 0 \<le> hundredths x"
  by (simp add: hundredths_def)

lemma hundredths_stored: "hundredths (of_int n / 100) = n"
  by (simp add: hundredths_def floor_eq_iff)

text \<open>What a request may enter: not negative, not above the maximum, and small enough for the column.\<close>

definition entry_fits :: "rat option \<Rightarrow> result_entry \<Rightarrow> bool" where
  "entry_fits m r \<longleftrightarrow> entry_valid r \<and> \<not> too_high m r \<and> fits (re_marks r)"

definition entry_row :: "int \<Rightarrow> rat option \<Rightarrow> result_entry \<Rightarrow> result_row \<Rightarrow> bool" where
  "entry_row i m r x \<longleftrightarrow> er_exam x = i \<and> er_student x = re_student r \<and> er_marks x = map_option hundredths (re_marks r)
     \<and> er_max x = map_option hundredths m \<and> er_grade x = re_grade r \<and> er_remarks x = re_remarks r"

lemma entry_row_ok: "entry_fits m r \<Longrightarrow> entry_row i m r x \<Longrightarrow> mark_ok x"
  by (auto simp: entry_fits_def entry_row_def mark_ok_def entry_valid_def too_high_def fits_def hundredths_nonneg hundredths_mono split: option.splits)

subsection \<open>One entry after the other\<close>

text \<open>An upsert: the rows of a key are rewritten, or a new one is added. What it does to the rows, their keys and the others.\<close>

definition upsert_by :: "('a \<Rightarrow> bool) \<Rightarrow> ('a \<Rightarrow> 'a) \<Rightarrow> 'a \<Rightarrow> 'a list \<Rightarrow> 'a list" where
  "upsert_by P f new rows = (if list_ex P rows then update_where P f rows else rows @ [new])"

lemma upsert_by_rows: "x \<in> set (upsert_by P f new rows) \<Longrightarrow> x \<in> set rows \<or> x = new \<or> (\<exists>y \<in> set rows. P y \<and> x = f y)"
  by (auto simp: upsert_by_def set_update_where split: if_splits)

lemma upsert_by_there: "R new \<Longrightarrow> (\<And>y. P y \<Longrightarrow> R (f y)) \<Longrightarrow> \<exists>x \<in> set (upsert_by P f new rows). R x"
  by (auto simp: upsert_by_def set_update_where list_ex_iff)

lemma upsert_by_stays: "\<exists>x \<in> set rows. R x \<Longrightarrow> (\<And>y. R y \<Longrightarrow> P y \<Longrightarrow> R (f y)) \<Longrightarrow> \<exists>x \<in> set (upsert_by P f new rows). R x"
  by (auto simp: upsert_by_def set_update_where)

lemma upsert_by_keys:
  assumes "distinct (map key rows)" and "\<And>y. key (f y) = key y" and "\<And>y. key y = key new \<Longrightarrow> P y"
  shows "distinct (map key (upsert_by P f new rows))"
proof -
  have "map key (update_where P f rows) = map key rows" using assms(2) by (simp add: update_where_def)
  then show ?thesis using assms(1,3) by (auto simp: upsert_by_def list_ex_iff)
qed

lemma upsert_by_others:
  assumes "\<And>y. Q (f y) = Q y" and "\<And>y. P y \<Longrightarrow> \<not> Q y" and "\<not> Q new"
  shows "filter Q (upsert_by P f new rows) = filter Q rows"
proof -
  have "filter Q (update_where P f rows) = filter Q rows" by (induction rows) (use assms in \<open>auto simp: update_where_def\<close>)
  then show ?thesis using assms(3) by (simp add: upsert_by_def)
qed

lemma fold_keeps: "(\<And>e rows. e \<in> set es \<Longrightarrow> I rows \<Longrightarrow> I (F e rows)) \<Longrightarrow> I rows \<Longrightarrow> I (fold F es rows)"
  by (induction es arbitrary: rows) simp_all

text \<open>The upsert of a mark.\<close>

definition result_at :: "ctx \<Rightarrow> int \<Rightarrow> int \<Rightarrow> string \<Rightarrow> result_row \<Rightarrow> bool" where
  "result_at c i student subject x \<longleftrightarrow> er_exam x = i \<and> er_student x = student \<and> sql_eq c (er_subject x) subject"

lemma upsert_result_by:
  "upsert_result c i subject m r = upsert_by (result_at c i (re_student r) subject)
     (\<lambda>x. x\<lparr>er_marks := map_option hundredths (re_marks r), er_max := map_option hundredths m, er_grade := re_grade r, er_remarks := re_remarks r\<rparr>)
     \<lparr>er_exam = i, er_student = re_student r, er_subject = subject, er_marks = map_option hundredths (re_marks r), er_max = map_option hundredths m,
      er_grade = re_grade r, er_remarks = re_remarks r\<rparr>"
  by (intro ext) (simp add: upsert_result_def upsert_by_def result_at_def [abs_def] Let_def)

lemma results_keys:
  assumes "distinct (map (result_key c) rows)"
  shows "distinct (map (result_key c) (fold (upsert_result c i subject m) entries rows))"
proof (rule fold_keeps [where I = "\<lambda>xs. distinct (map (result_key c) xs)"])
  show "distinct (map (result_key c) (upsert_result c i subject m r xs))" if "distinct (map (result_key c) xs)" for r xs
    unfolding upsert_result_by using that by (rule upsert_by_keys) (simp_all add: result_key_def result_at_def sql_eq_def)
qed (rule assms)

lemma results_ok:
  assumes "\<forall>r \<in> set entries. entry_fits m r" and "\<forall>x \<in> set rows. mark_ok x"
  shows "\<forall>x \<in> set (fold (upsert_result c i subject m) entries rows). mark_ok x"
proof (rule fold_keeps [where I = "\<lambda>xs. \<forall>x \<in> set xs. mark_ok x", OF _ assms(2)])
  fix r rows assume r: "r \<in> set entries" and rows: "\<forall>x \<in> set rows. mark_ok x"
  have "mark_ok x" if "entry_row i m r x" for x using entry_row_ok that r assms(1) by blast
  then show "\<forall>x \<in> set (upsert_result c i subject m r rows). mark_ok x"
    using rows by (auto simp: upsert_result_by entry_row_def result_at_def dest!: upsert_by_rows)
qed

lemma results_others:
  assumes "\<And>x y. er_exam x = er_exam y \<Longrightarrow> er_student x = er_student y \<Longrightarrow> P x = P y"
    and "\<forall>r \<in> set entries. \<forall>x. er_exam x = i \<longrightarrow> er_student x = re_student r \<longrightarrow> \<not> P x"
  shows "filter P (fold (upsert_result c i subject m) entries rows) = filter P rows"
proof -
  have "filter P (upsert_result c i subject m r xs) = filter P xs" if "r \<in> set entries" for r xs
    unfolding upsert_result_by
  proof (rule upsert_by_others)
    show "P (y\<lparr>er_marks := a, er_max := b, er_grade := g, er_remarks := t\<rparr>) = P y" for y a b g t by (rule assms(1)) simp_all
    show "\<not> P y" if "result_at c i (re_student r) subject y" for y using assms(2) \<open>r \<in> set entries\<close> that by (simp add: result_at_def)
    show "\<not> P \<lparr>er_exam = i, er_student = re_student r, er_subject = subject, er_marks = a, er_max = b, er_grade = g, er_remarks = t\<rparr>" for a b g t
      using assms(2) \<open>r \<in> set entries\<close> by simp
  qed
  then show ?thesis using assms(2) by (induction entries arbitrary: rows) simp_all
qed

text \<open>The last entry of a student is the one that stays.\<close>

lemma results_recorded:
  assumes "entries = before @ r # after" and "re_student r \<notin> re_student ` set after"
  shows "\<exists>x \<in> set (fold (upsert_result c i subject m) entries rows). entry_row i m r x"
proof -
  define rows1 where "rows1 = upsert_result c i subject m r (fold (upsert_result c i subject m) before rows)"
  have "\<exists>x \<in> set rows1. entry_row i m r x"
    unfolding rows1_def upsert_result_by by (rule upsert_by_there) (simp_all add: entry_row_def result_at_def)
  then have "\<exists>x \<in> set (fold (upsert_result c i subject m) after rows1). entry_row i m r x"
    by (rule fold_keeps [rotated]) (use assms(2) in \<open>auto simp: upsert_result_by entry_row_def result_at_def intro!: upsert_by_stays\<close>)
  then show ?thesis by (simp add: assms(1) rows1_def)
qed

subsection \<open>Saving\<close>

definition max_in_effect :: "results_body \<Rightarrow> exam_row \<Rightarrow> rat option" where
  "max_in_effect b e = (case rb_max b of Some v \<Rightarrow> Some v | None \<Rightarrow> number_of (e_max e))"

lemma max_in_effect_stored: "map_option hundredths (max_in_effect b e) = (case rb_max b of Some v \<Rightarrow> Some (hundredths v) | None \<Rightarrow> e_max e)"
  by (cases "e_max e") (simp_all add: max_in_effect_def number_of_def hundredths_stored split: option.split)

lemma save_results_refused: "save_results c user i b s = (Inl e, s') \<Longrightarrow> s' = s"
  by (auto simp: save_results_def bindH_def query_def split: sum.splits dest: transaction_error)

lemma save_results_done:
  assumes run: "save_results c user i b s = (Inr j, s')"
  obtains e subject where "e \<in> set (exams s)" "e_id e = i" "\<forall>r \<in> set (result_entries b). entry_fits (max_in_effect b e) r"
    "exam_results s' = fold (upsert_result c i subject (max_in_effect b e)) (result_entries b) (exam_results s)"
proof -
  obtain g e subject s1 where e: "exam_in g i s = Some e" and valid: "parse_results b = Inr b"
    and low: "refuse_too_high g (max_in_effect b e) (result_entries b) s = Inr ()"
    and wr: "write_results c i subject (max_in_effect b e) (result_entries b) s = (Inr (), s1)" "exam_results s' = exam_results s1"
    using run unfolding save_results_def Let_def max_in_effect_def [symmetric] get_exam_def svc_simps by (auto simp: parse_results_def audit_record_def split: if_splits)
  have "e \<in> set (exams s)" "e_id e = i" using one_where_Some [OF e [unfolded exam_in_def]] by simp_all
  moreover have "\<forall>r \<in> set (result_entries b). entry_fits (max_in_effect b e) r"
    using valid low wr by (auto simp: entry_fits_def parse_results_def result_entries_def refuse_too_high_def write_results_def list_all_iff list_ex_iff
        filter_empty_conv Let_def split: if_splits)
  moreover have "exam_results s' = fold (upsert_result c i subject (max_in_effect b e)) (result_entries b) (exam_results s)"
    using wr by (auto simp: write_results_def split: if_splits)
  ultimately show thesis by (rule that)
qed


definition unit_test :: exam_row where
  "unit_test = \<lparr>e_id = 1, e_org = 1, e_name = ''Unit test'', e_class = None, e_start = 0, e_end = 0, e_published = False, e_max = Some 5000,
     e_paper = None, e_paper_name = None\<rparr>"

definition exam_db :: db where
  "exam_db = leaving_db\<lparr>exams := [unit_test], exam_results := [\<lparr>er_exam = 1, er_student = 2, er_subject = '''', er_marks = Some 3000, er_max = Some 5000,
     er_grade = None, er_remarks = None\<rparr>]\<rparr>"

definition two_marks :: results_body where
  "two_marks = \<lparr>rb_section = 8, rb_subject = None, rb_max = None, rb_results = [\<lparr>re_student = 2, re_marks = Some 42, re_grade = None, re_remarks = None\<rparr>,
     \<lparr>re_student = 3, re_marks = Some 50, re_grade = None, re_remarks = None\<rparr>]\<rparr>"


end
