(* ===== verification/Marks_Sheet.thy ===== *)
theory Marks_Sheet
  imports Exam_Results
begin

text \<open>
  The marks of a section in one sheet, and the upload of a filled-in sheet, \<^verbatim>\<open>app/services/exam_results_import.py\<close>. The cells
  come from \<^verbatim>\<open>spreadsheet.read_rows\<close> as texts and are an argument, like the refusals of that reader. A number in a cell is
  the number it writes, not the nearest binary one.
\<close>

subsection \<open>Numbers in cells\<close>

text \<open>\<open>float(text)\<close>: digits with a point, an exponent and single underscores between digits, or a name.\<close>

datatype py_float = Finite rat | Infinite bool | NotANumber

definition signed :: "string \<Rightarrow> bool \<times> string" where
  "signed t = (case t of [] \<Rightarrow> (False, []) | ch # r \<Rightarrow> if ch = CHR ''-'' then (True, r) else if ch = CHR ''+'' then (False, r) else (False, t))"

fun joints_ok :: "string list \<Rightarrow> bool" where
  "joints_ok (a # b # gs) \<longleftrightarrow> a \<noteq> [] \<and> ascii_digit (last a) \<and> b \<noteq> [] \<and> ascii_digit (hd b) \<and> joints_ok (b # gs)"
| "joints_ok gs \<longleftrightarrow> True"

definition exponent :: "string \<Rightarrow> int option" where
  "exponent t = (case t of [] \<Rightarrow> Some 0
     | ch # r \<Rightarrow> if py_lower_char ch \<noteq> CHR ''e'' then None
         else (case signed r of (neg, d) \<Rightarrow> if d \<noteq> [] \<and> list_all ascii_digit d then Some (if neg then - int (digits_val 0 d) else int (digits_val 0 d)) else None))"

definition decimal :: "string \<Rightarrow> rat option" where
  "decimal t = (let w = takeWhile ascii_digit t; r = dropWhile ascii_digit t;
       (f, r') = (case r of [] \<Rightarrow> ([], []) | ch # x \<Rightarrow> if ch = CHR ''.'' then (takeWhile ascii_digit x, dropWhile ascii_digit x) else ([], r))
     in if w = [] \<and> f = [] then None
        else map_option (\<lambda>e. of_nat (digits_val 0 (w @ f)) * power_int 10 (e - int (length f))) (exponent r'))"

definition float_of :: "string \<Rightarrow> py_float option" where
  "float_of t = (case signed (py_strip t) of (neg, r) \<Rightarrow> let word = py_lower r in
     if word = ''inf'' \<or> word = ''infinity'' then Some (Infinite neg) else if word = ''nan'' then Some NotANumber
     else if joints_ok (py_split (CHR ''_'') r)
       then map_option (\<lambda>x. Finite (if neg then - x else x)) (decimal (filter (\<lambda>ch. ch \<noteq> CHR ''_'') r)) else None)"

subsection \<open>Who and what\<close>

text \<open>\<open>_norm\<close>: blanks around go, runs of blanks become one, letters small.\<close>

fun squeeze :: "bool \<Rightarrow> string \<Rightarrow> string" where
  "squeeze after_blank [] = []"
| "squeeze after_blank (ch # t) = (if py_isspace ch then (if after_blank then squeeze True t else CHR '' '' # squeeze True t) else ch # squeeze False t)"

definition norm_text :: "string \<Rightarrow> string" where
  "norm_text t = py_lower (squeeze False (py_strip t))"

definition can_import :: "current_user \<Rightarrow> int \<Rightarrow> int \<Rightarrow> db \<Rightarrow> bool res" where
  "can_import user k section s = (if is_manager (cu_type user) then Inr True
     else if cu_type user = Teacher then is_class_teacher user (Some k) (Some section) s else Inr False)"

definition NOT_CLASS_TEACHER :: app_error where
  "NOT_CLASS_TEACHER = Forbidden ''Only the class teacher of this section (or admins) can upload results''"

definition NO_SUBJECTS :: app_error where
  "NO_SUBJECTS = BadRequest (''This class has no subjects yet '' @ EM_DASH @ '' add them (Classes '' @ map char_of [0xE2, 0x86, 0x92 :: nat]
     @ '' Subjects) before uploading marks'')"

type_synonym roll_entry = "user_row \<times> student_profile_row"

definition sheet_order :: "ctx \<Rightarrow> roll_entry \<Rightarrow> (bool \<times> int) \<times> string \<times> string" where
  "sheet_order c up = (case up of (u, p) \<Rightarrow> ((case roll_number (sp_roll p) of None \<Rightarrow> (False, 0) | Some n \<Rightarrow> (True, n)),
     collation c (str_or (sp_roll p) ''''), collation c (u_full_name u)))"

definition sheet_students :: "ctx \<Rightarrow> int \<Rightarrow> int \<Rightarrow> db \<Rightarrow> roll_entry list" where
  "sheet_students c g section s = sort_key (sheet_order c) (filter (\<lambda>(u, p). sp_org p = g) (on_roll section s))"

text \<open>\<open>_context\<close>: the exam, the section and the subjects marks can be entered for.\<close>

definition sheet_context :: "current_user \<Rightarrow> int \<Rightarrow> int \<Rightarrow> db \<Rightarrow> (int \<times> exam_row \<times> section_row \<times> string list) res" where
  "sheet_context user i section s = bindR (org_of s) (\<lambda>g. case exam_in g i s of None \<Rightarrow> Inl (NotFound ''Exam not found'')
     | Some e \<Rightarrow> bindR (section_in_exam e section s) (\<lambda>x. bindR (ensure_can_view_section user (Some (se_class x)) (Some section) s) (\<lambda>_.
         Inr (g, e, x, exam_subjects i (se_class x) s))))"

subsection \<open>The sheet\<close>

datatype sheet_mark = Away | Points int

text \<open>Totals and maxima in hundredths; the percentage is the quotient of the two, rounded.\<close>

record sheet_line =
  sl_pupil :: roll_entry
  sl_marks :: "(string \<times> sheet_mark option) list"
  sl_remarks :: "string option"
  sl_total :: "(int \<times> int) option"

record marks_sheet =
  ms_exam :: exam_row
  ms_section :: section_row
  ms_subjects :: "(string \<times> int option) list"
  ms_lines :: "sheet_line list"
  ms_can_import :: bool

definition ABSENT :: string where "ABSENT = ''AB''"

definition is_absent :: "result_row \<Rightarrow> bool" where
  "is_absent r \<longleftrightarrow> er_marks r = None \<and> py_upper (str_or (er_grade r) '''') = ABSENT"

definition subject_max :: "result_row list \<Rightarrow> exam_row \<Rightarrow> string \<Rightarrow> int option" where
  "subject_max saved e sub = (case first_row (List.map_filter er_max (filter (\<lambda>r. er_subject r = sub) saved)) of Some m \<Rightarrow> Some m | None \<Rightarrow> e_max e)"

definition shown_mark :: "result_row option \<Rightarrow> sheet_mark option" where
  "shown_mark r = (case r of None \<Rightarrow> None | Some x \<Rightarrow> if is_absent x then Some Away else map_option Points (er_marks x))"

text \<open>What a subject adds to the totals: nothing without a mark or a maximum.\<close>

definition mark_counted :: "result_row list \<Rightarrow> exam_row \<Rightarrow> string \<Rightarrow> result_row option \<Rightarrow> (int \<times> int) option" where
  "mark_counted saved e sub r = (case (shown_mark r, case Option.bind r er_max of Some m \<Rightarrow> Some m | None \<Rightarrow> subject_max saved e sub) of
     (Some m, Some most) \<Rightarrow> if most = 0 then None else Some (case m of Away \<Rightarrow> 0 | Points n \<Rightarrow> n, most)
   | _ \<Rightarrow> None)"

definition sheet_line_of :: "result_row list \<Rightarrow> exam_row \<Rightarrow> string list \<Rightarrow> roll_entry \<Rightarrow> sheet_line" where
  "sheet_line_of saved e subjects up = (let mine = (\<lambda>sub. one_where (\<lambda>r. er_student r = u_id (fst up) \<and> er_subject r = sub) saved);
       parts = List.map_filter (\<lambda>sub. mark_counted saved e sub (mine sub)) subjects
     in \<lparr>sl_pupil = up, sl_marks = map (\<lambda>sub. (sub, shown_mark (mine sub))) subjects, sl_remarks = Option.bind (mine '''') er_remarks,
         sl_total = (if parts = [] then None else Some (sum_list (map fst parts), sum_list (map snd parts)))\<rparr>)"

definition sheet :: "ctx \<Rightarrow> current_user \<Rightarrow> int \<Rightarrow> int \<Rightarrow> db \<Rightarrow> marks_sheet res" where
  "sheet c user i section s = bindR (sheet_context user i section s) (\<lambda>(g, e, x, subjects).
     bindR (can_import user (se_class x) section s) (\<lambda>may.
     let students = sheet_students c g section s;
         saved = filter (\<lambda>r. er_exam r = i \<and> er_student r \<in> (\<lambda>(u, p). u_id u) ` set students) (exam_results s)
     in Inr \<lparr>ms_exam = e, ms_section = x, ms_subjects = map (\<lambda>sub. (sub, subject_max saved e sub)) subjects,
          ms_lines = map (sheet_line_of saved e subjects) students, ms_can_import = may\<rparr>))"

text \<open>The rows of the template, before they become a workbook: who, the marks saved, the remark.\<close>

definition template_rows :: "ctx \<Rightarrow> current_user \<Rightarrow> int \<Rightarrow> int \<Rightarrow> db \<Rightarrow> (string list \<times> (roll_entry \<times> sheet_mark option list \<times> string) list) res" where
  "template_rows c user i section s = bindR (sheet c user i section s) (\<lambda>m.
     if \<not> ms_can_import m then Inl NOT_CLASS_TEACHER else if ms_subjects m = [] then Inl NO_SUBJECTS
     else Inr (map fst (ms_subjects m), map (\<lambda>l. (sl_pupil l, map snd (sl_marks l), str_or (sl_remarks l) '''')) (ms_lines m)))"

subsection \<open>The header of an upload\<close>

record import_error =
  ie_row :: nat
  ie_column :: string
  ie_message :: string

record marks_header =
  mh_subjects :: "(nat \<times> string) list"
  mh_ids :: "(string \<times> nat) list"
  mh_errors :: "import_error list"

definition id_name :: "string \<Rightarrow> string option" where
  "id_name key = map_of [(''student_id'', ''student_id''), (''admission_no'', ''admission_no''), (''roll_no'', ''roll_no''), (''student_name'', ''student_name''),
     (''name'', ''student_name''), (''admission_number'', ''admission_no''), (''roll'', ''roll_no''), (''roll_number'', ''roll_no''),
     (''remarks'', ''remarks''), (''remark'', ''remarks'')] key"

definition subject_called :: "string list \<Rightarrow> string \<Rightarrow> string option" where
  "subject_called subjects h = map_of (rev (map (\<lambda>x. (norm_text x, x)) subjects)) h"

definition header_step :: "string list \<Rightarrow> nat \<times> string \<Rightarrow> marks_header \<Rightarrow> marks_header" where
  "header_step subjects cell m = (case cell of (i, raw) \<Rightarrow> let h = norm_text raw; key = map (\<lambda>ch. if ch = CHR '' '' then CHR ''_'' else ch) h in
     if h = [] then m
     else (case id_name key of Some k \<Rightarrow> m\<lparr>mh_ids := (k, i) # mh_ids m\<rparr>
       | None \<Rightarrow> (case subject_called subjects h of
           Some sub \<Rightarrow> (if sub \<in> snd ` set (mh_subjects m) then m\<lparr>mh_errors := mh_errors m @ [\<lparr>ie_row = 1, ie_column = raw, ie_message = ''Subject column appears twice''\<rparr>]\<rparr> else m)
             \<lparr>mh_subjects := mh_subjects m @ [(i, sub)]\<rparr>
         | None \<Rightarrow> m\<lparr>mh_errors := mh_errors m @ [\<lparr>ie_row = 1, ie_column = raw,
             ie_message = ''Not a subject of this class (subjects: '' @ py_join '', '' subjects @ '')''\<rparr>]\<rparr>)))"

definition id_column :: "marks_header \<Rightarrow> string \<Rightarrow> nat option" where
  "id_column m k = map_of (mh_ids m) k"

definition WHO :: "string list" where "WHO = [''student_id'', ''admission_no'', ''roll_no'']"

definition read_header :: "string list \<Rightarrow> string list \<Rightarrow> marks_header" where
  "read_header subjects row = (let m = fold (header_step subjects) (zip [0..<length row] row) \<lparr>mh_subjects = [], mh_ids = [], mh_errors = []\<rparr>;
       e1 = (if list_ex (\<lambda>k. id_column m k \<noteq> None) WHO then [] else [\<lparr>ie_row = 1, ie_column = [], ie_message = ''Add a student_id, admission_no or roll_no column''\<rparr>]);
       e2 = (if mh_subjects m = [] \<and> id_column m ''remarks'' = None then [\<lparr>ie_row = 1, ie_column = [], ie_message = ''No subject columns found''\<rparr>] else [])
     in m\<lparr>mh_errors := mh_errors m @ e1 @ e2\<rparr>)"

subsection \<open>The rows of an upload\<close>

definition cell_at :: "string list \<Rightarrow> nat option \<Rightarrow> string" where
  "cell_at row i = (case i of None \<Rightarrow> [] | Some n \<Rightarrow> if n < length row then py_strip (row ! n) else [])"

text \<open>The row of maxima of the old template is passed over, like an empty row.\<close>

definition is_max_row :: "marks_header \<Rightarrow> string list \<Rightarrow> bool" where
  "is_max_row m row \<longleftrightarrow> list_ex (\<lambda>k. py_upper (cell_at row (id_column m k)) = ''MAX'') WHO"

definition data_rows :: "marks_header \<Rightarrow> string list list \<Rightarrow> (nat \<times> string list) list" where
  "data_rows m rows = filter (\<lambda>(n, row). list_ex (\<lambda>t. py_strip t \<noteq> []) row \<and> \<not> is_max_row m row) (zip [2..<2 + length rows] rows)"

text \<open>A student is found by the id, else by the admission number, else by the roll number; of two with one number the last.\<close>

definition find_pupil :: "roll_entry list \<Rightarrow> string \<Rightarrow> string \<Rightarrow> string \<Rightarrow> roll_entry option" where
  "find_pupil students sid adm roll =
     (case (if sid = [] then None else one_where (\<lambda>(u, p). py_str_int (u_id u) = sid) students) of Some up \<Rightarrow> Some up
      | None \<Rightarrow> (case (if adm = [] then None else one_where (\<lambda>(u, p). str_or (sp_admission p) '''' \<noteq> [] \<and> norm_text (str_or (sp_admission p) '''') = norm_text adm) (rev students)) of
          Some up \<Rightarrow> Some up
        | None \<Rightarrow> (if roll = [] then None else one_where (\<lambda>(u, p). str_or (sp_roll p) '''' \<noteq> [] \<and> norm_text (str_or (sp_roll p) '''') = norm_text roll) (rev students))))"

definition pupil_of_row :: "marks_header \<Rightarrow> roll_entry list \<Rightarrow> string list \<Rightarrow> roll_entry option" where
  "pupil_of_row m students row = find_pupil students (cell_at row (id_column m ''student_id'')) (cell_at row (id_column m ''admission_no'')) (cell_at row (id_column m ''roll_no''))"

definition row_name :: "marks_header \<Rightarrow> string list \<Rightarrow> string" where
  "row_name m row = (case filter (\<lambda>t. t \<noteq> []) (map (\<lambda>k. cell_at row (id_column m k)) (WHO @ [''student_name''])) of [] \<Rightarrow> ''?'' | t # _ \<Rightarrow> t)"

text \<open>A mark of the sheet: absent, or a number, which may be the one that is none.\<close>

definition ABSENT_WORDS :: "string list" where "ABSENT_WORDS = [''ab'', ''abs'', ''absent'']"

datatype entered = Missing | Scored rat | Unreadable

definition read_mark :: "rat \<Rightarrow> string \<Rightarrow> string + entered option" where
  "read_mark most v = (if v = [] then Inr None else if py_lower v \<in> set ABSENT_WORDS then Inr (Some Missing)
     else (case float_of v of None \<Rightarrow> Inl (quote_char # v @ [quote_char] @ '' is not a number (use AB for absent)'')
       | Some NotANumber \<Rightarrow> Inr (Some Unreadable)
       | Some (Infinite neg) \<Rightarrow> Inl (v @ '' '' @ EM_DASH @ '' marks must be between 0 and '' @ format_g most)
       | Some (Finite x) \<Rightarrow> if x < 0 \<or> MARKS_LIMIT \<le> x \<or> most < x then Inl (v @ '' '' @ EM_DASH @ '' marks must be between 0 and '' @ format_g most)
           else Inr (Some (Scored x))))"

type_synonym sheet_entry = "int \<times> string \<times> entered"

definition row_marks :: "marks_header \<Rightarrow> rat \<Rightarrow> int \<Rightarrow> string list \<Rightarrow> sheet_entry list" where
  "row_marks m most student row = List.map_filter (\<lambda>(i, sub). case read_mark most (cell_at row (Some i)) of Inr (Some x) \<Rightarrow> Some (student, sub, x) | _ \<Rightarrow> None) (mh_subjects m)"

definition row_errors :: "marks_header \<Rightarrow> rat \<Rightarrow> nat \<Rightarrow> string list \<Rightarrow> import_error list" where
  "row_errors m most n row = List.map_filter (\<lambda>(i, sub). case read_mark most (cell_at row (Some i)) of
     Inl t \<Rightarrow> Some \<lparr>ie_row = n, ie_column = sub, ie_message = t\<rparr> | Inr _ \<Rightarrow> None) (mh_subjects m)"

definition row_remarks :: "marks_header \<Rightarrow> int \<Rightarrow> string list \<Rightarrow> (int \<times> string) list" where
  "row_remarks m student row = (let t = take 255 (cell_at row (id_column m ''remarks'')) in if t = [] then [] else [(student, t)])"

record sheet_state =
  st_entries :: "sheet_entry list"
  st_remarks :: "(int \<times> string) list"
  st_seen :: "(int \<times> nat) list"
  st_errors :: "import_error list"

definition sheet_row :: "marks_header \<Rightarrow> rat \<Rightarrow> roll_entry list \<Rightarrow> nat \<times> string list \<Rightarrow> sheet_state \<Rightarrow> sheet_state" where
  "sheet_row m most students nr st = (case nr of (n, row) \<Rightarrow> (case pupil_of_row m students row of
     None \<Rightarrow> st\<lparr>st_errors := st_errors st @ [\<lparr>ie_row = n, ie_column = [],
       ie_message = ''Student '' @ quote_char # row_name m row @ [quote_char] @ '' is not in this section''\<rparr>]\<rparr>
   | Some (u, p) \<Rightarrow> (case map_of (st_seen st) (u_id u) of
       Some before \<Rightarrow> st\<lparr>st_errors := st_errors st @ [\<lparr>ie_row = n, ie_column = [], ie_message = u_full_name u @ '' is already on row '' @ py_str_int (int before)\<rparr>]\<rparr>
     | None \<Rightarrow> st\<lparr>st_entries := st_entries st @ row_marks m most (u_id u) row, st_remarks := st_remarks st @ row_remarks m (u_id u) row,
         st_seen := st_seen st @ [(u_id u, n)], st_errors := st_errors st @ row_errors m most n row\<rparr>)))"

definition read_sheet :: "marks_header \<Rightarrow> rat \<Rightarrow> roll_entry list \<Rightarrow> (nat \<times> string list) list \<Rightarrow> sheet_state" where
  "read_sheet m most students rows = fold (sheet_row m most students) rows \<lparr>st_entries = [], st_remarks = [], st_seen = [], st_errors = []\<rparr>"

text \<open>The answer also lists the first 200 errors; the detail names the first.\<close>

definition file_invalid :: "import_error list \<Rightarrow> app_error" where
  "file_invalid es = (let e = hd es in BadRequest (''Nothing was saved '' @ EM_DASH @ '' fix the file: row '' @ py_str_int (int (ie_row e))
     @ (if ie_column e = [] then [] else '', '' @ ie_column e) @ '': '' @ ie_message e
     @ (if 1 < length es then '' (and '' @ py_str_int (int (length es) - 1) @ '' more)'' else [])))"

subsection \<open>Saving an upload\<close>

text \<open>The two upserts on the key of exam, student and subject: a number keeps a grade but not an old AB.\<close>

definition NOT_A_VALUE :: app_error where "NOT_A_VALUE = RuntimeError ''nan can not be used with MySQL''"

definition upsert_entry :: "ctx \<Rightarrow> int \<Rightarrow> rat \<Rightarrow> sheet_entry \<Rightarrow> result_row list \<Rightarrow> result_row list" where
  "upsert_entry c i most en rows = (case en of (student, sub, x) \<Rightarrow> let
       key = (\<lambda>r. er_exam r = i \<and> er_student r = student \<and> sql_eq c (er_subject r) sub);
       marks = (case x of Scored n \<Rightarrow> Some (hundredths n) | _ \<Rightarrow> None); grade = (if x = Missing then Some ABSENT else None);
       kept_grade = (\<lambda>old. if marks = None then grade else (case old of None \<Rightarrow> None | Some t \<Rightarrow> if sql_eq c t ABSENT then None else Some t)) in
     if list_ex key rows then update_where key (\<lambda>r. r\<lparr>er_marks := marks, er_max := Some (hundredths most), er_grade := kept_grade (er_grade r)\<rparr>) rows
     else rows @ [\<lparr>er_exam = i, er_student = student, er_subject = sub, er_marks = marks, er_max = Some (hundredths most), er_grade = grade, er_remarks = None\<rparr>])"

definition upsert_remark :: "ctx \<Rightarrow> int \<Rightarrow> int \<times> string \<Rightarrow> result_row list \<Rightarrow> result_row list" where
  "upsert_remark c i sr rows = (case sr of (student, t) \<Rightarrow> let key = (\<lambda>r. er_exam r = i \<and> er_student r = student \<and> sql_eq c (er_subject r) '''') in
     if list_ex key rows then update_where key (\<lambda>r. r\<lparr>er_remarks := Some t\<rparr>) rows
     else rows @ [\<lparr>er_exam = i, er_student = student, er_subject = '''', er_marks = None, er_max = None, er_grade = None, er_remarks = Some t\<rparr>])"

definition entry_storable :: "rat \<Rightarrow> sheet_entry \<Rightarrow> app_error option" where
  "entry_storable most en = (case snd (snd en) of Unreadable \<Rightarrow> Some NOT_A_VALUE
     | Scored n \<Rightarrow> if fits (Some n) \<and> fits (Some most) then None else Some out_of_range
     | Missing \<Rightarrow> if fits (Some most) then None else Some out_of_range)"

definition write_entries :: "ctx \<Rightarrow> int \<Rightarrow> rat \<Rightarrow> sheet_entry list \<Rightarrow> unit handler" where
  "write_entries c i most ens s = (case List.map_filter (entry_storable most) ens of e # _ \<Rightarrow> (Inl e, s)
     | [] \<Rightarrow> (Inr (), s\<lparr>exam_results := fold (upsert_entry c i most) ens (exam_results s)\<rparr>))"

definition write_remarks :: "ctx \<Rightarrow> int \<Rightarrow> (int \<times> string) list \<Rightarrow> db \<Rightarrow> db" where
  "write_remarks c i rs s = s\<lparr>exam_results := fold (upsert_remark c i) rs (exam_results s)\<rparr>"

definition publish_exam :: "int \<Rightarrow> rat \<Rightarrow> exam_row \<Rightarrow> unit handler" where
  "publish_exam i most e s = (if e_max e = None \<and> \<not> fits (Some most) then (Inl out_of_range, s)
     else (Inr (), s\<lparr>exams := update_where (\<lambda>x. e_id x = i)
       (\<lambda>x. x\<lparr>e_published := True, e_max := (case e_max x of None \<Rightarrow> Some (hundredths most) | Some m \<Rightarrow> Some m)\<rparr>) (exams s)\<rparr>))"

record import_done =
  id_students :: nat
  id_marks :: nat
  id_absent :: nat
  id_remarks :: nat
  id_max :: rat
  id_subjects :: "string list"

definition import_report :: "marks_header \<Rightarrow> rat \<Rightarrow> string list \<Rightarrow> sheet_state \<Rightarrow> import_done" where
  "import_report m most subjects st = \<lparr>id_students = length (st_seen st), id_marks = length (st_entries st),
     id_absent = length (filter (\<lambda>(_, _, x). x = Missing) (st_entries st)), id_remarks = length (st_remarks st), id_max = most,
     id_subjects = filter (\<lambda>sub. sub \<in> snd ` set (mh_subjects m)) subjects\<rparr>"

text \<open>Subjects are in the audit log by their code points, numbers in hundredths.\<close>

definition import_details :: "int \<Rightarrow> bool \<Rightarrow> marks_header \<Rightarrow> import_done \<Rightarrow> (string \<times> string) list" where
  "import_details section fresh m d = [(''section_id'', py_str_int section), (''students'', py_str_int (int (id_students d))), (''marks'', py_str_int (int (id_marks d))),
     (''absent'', py_str_int (int (id_absent d))), (''max_marks'', py_str_int (hundredths (id_max d))), (''published'', if fresh then ''True'' else ''False''),
     (''subjects'', py_join '', '' (sort_key (map py_ord) (remdups (map snd (mh_subjects m)))))]"

text \<open>Reading the rows and saving them, for the exam and section that were found.\<close>

definition save_sheet :: "ctx \<Rightarrow> current_user \<Rightarrow> int \<Rightarrow> int \<Rightarrow> int \<Rightarrow> exam_row \<Rightarrow> string list \<Rightarrow> rat \<Rightarrow> string list list \<Rightarrow> import_done handler" where
  "save_sheet c user i section g e subjects most rows =
     bindH (check (rows \<noteq> []) (RuntimeError ''list index out of range'')) (\<lambda>_.
     bindH (reads (\<lambda>_. read_header subjects (hd rows))) (\<lambda>m.
     bindH (check (mh_errors m = []) (file_invalid (mh_errors m))) (\<lambda>_.
     bindH (reads (\<lambda>s. read_sheet m most (sheet_students c g section s) (data_rows m (tl rows)))) (\<lambda>st.
     bindH (check (st_errors st = []) (file_invalid (st_errors st))) (\<lambda>_.
     bindH (check (st_entries st \<noteq> [] \<or> st_remarks st \<noteq> []) (BadRequest ''The file has no marks to save'')) (\<lambda>_.
     bindH (write_entries c i most (st_entries st)) (\<lambda>_.
     bindH (writes (write_remarks c i (st_remarks st))) (\<lambda>_.
     bindH (publish_exam i most e) (\<lambda>_.
     bindH (writes (audit_record c (Some (cu_id user)) ''exam_results.import'' (Some ''exam'') (Some (py_str_int i))
       (import_details section (\<not> e_published e) m (import_report m most subjects st)))) (\<lambda>_.
     ret (import_report m most subjects st)))))))))))"

definition valid_max :: "rat option \<Rightarrow> rat res" where
  "valid_max most0 = (case most0 of
       Some t \<Rightarrow> if 0 < t \<and> t < MARKS_LIMIT then Inr t else Inl (BadRequest ''Enter the maximum marks (out of) for this exam, e.g. 50 or 100'')
     | None \<Rightarrow> Inl (BadRequest ''Enter the maximum marks (out of) for this exam, e.g. 50 or 100''))"

text \<open>The maximum of the form: \<open>None\<close> is a missing, infinite or undefined number. The file is read before the transaction.\<close>

definition import_results :: "ctx \<Rightarrow> current_user \<Rightarrow> int \<Rightarrow> int \<Rightarrow> string list list res \<Rightarrow> rat option \<Rightarrow> import_done handler" where
  "import_results c user i section file most0 =
     bindH (query (\<lambda>_. valid_max most0)) (\<lambda>most.
     bindH (query (\<lambda>_. file)) (\<lambda>rows. transaction (
     bindH (query (sheet_context user i section)) (\<lambda>(g, e, x, subjects).
     bindH (query (can_import user (se_class x) section)) (\<lambda>may.
     bindH (check may NOT_CLASS_TEACHER) (\<lambda>_.
     bindH (check (subjects \<noteq> []) NO_SUBJECTS) (\<lambda>_.
     save_sheet c user i section g e subjects most rows)))))))"

end
