(* ===== verification/Sheet_Claims.thy ===== *)
theory Sheet_Claims
  imports Marks_Sheet Exam_Claims
begin

text \<open>
  Uploading a filled-in marks sheet: every cell of the file is recorded as it reads, or nothing is.
\<close>

subsection \<open>The header\<close>

definition header_good :: "string list \<Rightarrow> marks_header \<Rightarrow> bool" where
  "header_good subjects m \<longleftrightarrow> snd ` set (mh_subjects m) \<subseteq> set subjects \<and> (mh_errors m = [] \<longrightarrow> distinct (map snd (mh_subjects m)))"

lemma subject_called_in: "subject_called subjects h = Some sub \<Longrightarrow> sub \<in> set subjects"
  by (auto simp: subject_called_def dest!: map_of_SomeD)

lemma header_step_good: "header_good subjects m \<Longrightarrow> header_good subjects (header_step subjects cell m)"
  by (auto simp: header_step_def header_good_def Let_def subject_called_in split: prod.splits option.splits)

lemma read_header_good:
  assumes "mh_errors (read_header subjects row) = []"
  shows "distinct (map snd (mh_subjects (read_header subjects row)))" "snd ` set (mh_subjects (read_header subjects row)) \<subseteq> set subjects"
proof -
  let ?m = "fold (header_step subjects) (zip [0..<length row] row) \<lparr>mh_subjects = [], mh_ids = [], mh_errors = []\<rparr>"
  have "header_good subjects ?m"
    by (rule fold_keeps [where I = "header_good subjects"]) (simp_all add: header_step_good, simp add: header_good_def)
  moreover have "mh_errors ?m = []" using assms by (simp add: read_header_def Let_def)
  ultimately show "distinct (map snd (mh_subjects (read_header subjects row)))" "snd ` set (mh_subjects (read_header subjects row)) \<subseteq> set subjects"
    by (simp_all add: header_good_def read_header_def Let_def)
qed

subsection \<open>The rows\<close>

text \<open>What a row without an error stands for.\<close>

definition row_student :: "marks_header \<Rightarrow> roll_entry list \<Rightarrow> nat \<times> string list \<Rightarrow> int" where
  "row_student m students nr = u_id (fst (the (pupil_of_row m students (snd nr))))"

lemma sheet_row_ok:
  assumes "st_errors (sheet_row m most students nr st) = []"
  shows "st_errors st = []" "pupil_of_row m students (snd nr) \<noteq> None" "row_errors m most (fst nr) (snd nr) = []"
    "row_student m students nr \<notin> fst ` set (st_seen st)"
    "st_entries (sheet_row m most students nr st) = st_entries st @ row_marks m most (row_student m students nr) (snd nr)"
    "st_seen (sheet_row m most students nr st) = st_seen st @ [(row_student m students nr, fst nr)]"
proof -
  obtain n row where nr: "nr = (n, row)" by (cases nr)
  from assms obtain u p where up: "pupil_of_row m students row = Some (u, p)" by (cases "pupil_of_row m students row") (auto simp: sheet_row_def nr)
  from assms up have new: "map_of (st_seen st) (u_id u) = None" by (cases "map_of (st_seen st) (u_id u)") (simp_all add: sheet_row_def nr)
  have eq: "sheet_row m most students nr st = st\<lparr>st_entries := st_entries st @ row_marks m most (u_id u) row,
      st_remarks := st_remarks st @ row_remarks m (u_id u) row, st_seen := st_seen st @ [(u_id u, n)], st_errors := st_errors st @ row_errors m most n row\<rparr>"
    by (simp add: sheet_row_def nr up new)
  have who: "row_student m students nr = u_id u" by (simp add: row_student_def nr up)
  from new have "u_id u \<notin> fst ` set (st_seen st)" by (simp only: map_of_eq_None_iff not_False_eq_True)
  then show "st_errors st = []" "pupil_of_row m students (snd nr) \<noteq> None" "row_errors m most (fst nr) (snd nr) = []"
    "row_student m students nr \<notin> fst ` set (st_seen st)"
    "st_entries (sheet_row m most students nr st) = st_entries st @ row_marks m most (row_student m students nr) (snd nr)"
    "st_seen (sheet_row m most students nr st) = st_seen st @ [(row_student m students nr, fst nr)]"
    using assms unfolding who eq by (simp_all add: nr up)
qed

lemma sheet_rows_ok:
  "st_errors (fold (sheet_row m most students) nrs st) = [] \<Longrightarrow>
     st_errors st = [] \<and> (\<forall>nr \<in> set nrs. pupil_of_row m students (snd nr) \<noteq> None \<and> row_errors m most (fst nr) (snd nr) = [])
     \<and> distinct (map (row_student m students) nrs) \<and> row_student m students ` set nrs \<inter> fst ` set (st_seen st) = {}
     \<and> st_entries (fold (sheet_row m most students) nrs st) = st_entries st @ concat (map (\<lambda>nr. row_marks m most (row_student m students nr) (snd nr)) nrs)"
proof (induction nrs arbitrary: st)
  case (Cons nr nrs)
  let ?st = "sheet_row m most students nr st"
  from Cons.prems have fin: "st_errors (fold (sheet_row m most students) nrs ?st) = []" by simp
  note IH = Cons.IH [OF fin]
  from IH have "st_errors ?st = []" by blast
  note row = sheet_row_ok [OF this]
  from IH row show ?case by auto
qed simp

lemma read_sheet_ok:
  assumes "st_errors (read_sheet m most students nrs) = []"
  shows "\<forall>nr \<in> set nrs. pupil_of_row m students (snd nr) \<noteq> None \<and> row_errors m most (fst nr) (snd nr) = []"
    "distinct (map (row_student m students) nrs)"
    "st_entries (read_sheet m most students nrs) = concat (map (\<lambda>nr. row_marks m most (row_student m students nr) (snd nr)) nrs)"
  using sheet_rows_ok [OF assms [unfolded read_sheet_def]] by (simp_all add: read_sheet_def)

lemma set_map_filter_iff: "y \<in> set (List.map_filter f xs) \<longleftrightarrow> (\<exists>x \<in> set xs. f x = Some y)"
  by (induction xs) (auto simp: List.map_filter_simps split: option.splits)

lemma map_filter_none: "List.map_filter f xs = [] \<longleftrightarrow> (\<forall>x \<in> set xs. f x = None)"
  by (induction xs) (auto simp: List.map_filter_simps split: option.splits)

text \<open>The marks of a row: one for each cell with a text, under its student and subject.\<close>

lemma row_marks_iff:
  "(j, sub, x) \<in> set (row_marks m most student row) \<longleftrightarrow> j = student \<and> (\<exists>k. (k, sub) \<in> set (mh_subjects m) \<and> read_mark most (cell_at row (Some k)) = Inr (Some x))"
proof -
  have "(case r of Inr (Some x') \<Rightarrow> Some (student, sub', x') | _ \<Rightarrow> None) = Some (j, sub, x) \<longleftrightarrow> j = student \<and> sub' = sub \<and> r = Inr (Some x)"
    for r :: "string + entered option" and sub' by (auto split: sum.splits option.splits)
  then show ?thesis unfolding row_marks_def set_map_filter_iff by (auto simp: Bex_def)
qed

lemma row_cell_read:
  assumes "row_errors m most n row = []" and "(k, sub) \<in> set (mh_subjects m)" and "cell_at row (Some k) \<noteq> []"
  obtains x where "read_mark most (cell_at row (Some k)) = Inr (Some x)"
proof -
  have "\<not> (\<exists>t. read_mark most (cell_at row (Some k)) = Inl t)"
  proof
    assume "\<exists>t. read_mark most (cell_at row (Some k)) = Inl t"
    then obtain t where "read_mark most (cell_at row (Some k)) = Inl t" by blast
    then have "\<lparr>ie_row = n, ie_column = sub, ie_message = t\<rparr> \<in> set (row_errors m most n row)"
      unfolding row_errors_def set_map_filter_iff by (intro bexI [OF _ assms(2)]) simp
    then show False by (simp add: assms(1))
  qed
  then obtain y where y: "read_mark most (cell_at row (Some k)) = Inr y" by (cases "read_mark most (cell_at row (Some k))") auto
  moreover have "y \<noteq> None" using y assms(3) by (auto simp: read_mark_def split: if_splits option.splits py_float.splits)
  ultimately show thesis using that by auto
qed

lemma map_filter_keys:
  assumes "\<And>x y. g x = Some y \<Longrightarrow> key y = h x" and "distinct (map h xs)"
  shows "distinct (map key (List.map_filter g xs)) \<and> key ` set (List.map_filter g xs) \<subseteq> h ` set xs"
  using assms(2)
proof (induction xs)
  case (Cons x xs)
  then have IH: "distinct (map key (List.map_filter g xs))" "key ` set (List.map_filter g xs) \<subseteq> h ` set xs" and new: "h x \<notin> h ` set xs" by simp_all
  show ?case
  proof (cases "g x")
    case None
    then show ?thesis using IH by (auto simp: List.map_filter_simps)
  next
    case (Some y)
    then have "key y = h x" by (rule assms(1))
    then show ?thesis using IH new Some by (auto simp: List.map_filter_simps)
  qed
qed (simp add: List.map_filter_simps)

lemma row_marks_distinct:
  assumes "distinct (map snd (mh_subjects m))" and "inj_on f (set (map snd (mh_subjects m)))"
  shows "distinct (map (\<lambda>(j, sub, x). (j, f sub)) (row_marks m most student row))"
proof -
  have "distinct (map f (map snd (mh_subjects m)))" using assms by (simp only: distinct_map)
  then have "distinct (map (Pair student) (map f (map snd (mh_subjects m))))" by (simp only: distinct_map [of "Pair student"]) (simp add: inj_on_def)
  moreover have "(\<lambda>(i, sub). (student, f sub)) = Pair student \<circ> f \<circ> (snd :: nat \<times> string \<Rightarrow> string)" by (auto simp: fun_eq_iff)
  ultimately have "distinct (map (\<lambda>(i, sub). (student, f sub)) (mh_subjects m))" by (simp add: comp_assoc)
  from map_filter_keys [OF _ this, where key = "\<lambda>(j, sub, x). (j, f sub)"
      and g = "\<lambda>(i, sub). case read_mark most (cell_at row (Some i)) of Inr (Some x) \<Rightarrow> Some (student, sub, x) | _ \<Rightarrow> None"]
  show ?thesis unfolding row_marks_def by (fastforce split: sum.splits option.splits)
qed

lemma distinct_concat_keys:
  assumes "distinct (map h nrs)" and "\<And>nr. nr \<in> set nrs \<Longrightarrow> distinct (map key (g nr))" and "\<And>nr e. nr \<in> set nrs \<Longrightarrow> e \<in> set (g nr) \<Longrightarrow> fst (key e) = h nr"
  shows "distinct (map key (concat (map g nrs)))"
  using assms
proof (induction nrs)
  case (Cons nr nrs)
  have "key e \<noteq> key e'" if "e \<in> set (g nr)" "nr' \<in> set nrs" "e' \<in> set (g nr')" for e e' nr'
  proof -
    have "fst (key e) = h nr" "fst (key e') = h nr'" using Cons.prems(3) that by simp_all
    moreover have "h nr \<noteq> h nr'" using Cons.prems(1) that(2) by auto
    ultimately show ?thesis by metis
  qed
  moreover have "distinct (map key (concat (map g nrs)))" by (rule Cons.IH) (use Cons.prems in auto)
  moreover have "distinct (map key (g nr))" by (rule Cons.prems(2)) simp
  moreover have "set (map key (g nr)) \<inter> set (map key (concat (map g nrs))) = {}" using calculation(1) by fastforce
  ultimately show ?case by simp
qed simp

subsection \<open>Writing\<close>

definition entry_marks :: "entered \<Rightarrow> int option" where
  "entry_marks x = (case x of Scored n \<Rightarrow> Some (hundredths n) | _ \<Rightarrow> None)"

definition entry_kept :: "ctx \<Rightarrow> entered \<Rightarrow> string option \<Rightarrow> string option" where
  "entry_kept c x old = (if entry_marks x = None then (if x = Missing then Some ABSENT else None)
     else (case old of None \<Rightarrow> None | Some t \<Rightarrow> if sql_eq c t ABSENT then None else Some t))"

lemma upsert_entry_by:
  "upsert_entry c i most (student, sub, x) = upsert_by (result_at c i student sub)
     (\<lambda>r. r\<lparr>er_marks := entry_marks x, er_max := Some (hundredths most), er_grade := entry_kept c x (er_grade r)\<rparr>)
     \<lparr>er_exam = i, er_student = student, er_subject = sub, er_marks = entry_marks x, er_max = Some (hundredths most),
      er_grade = (if x = Missing then Some ABSENT else None), er_remarks = None\<rparr>"
  by (intro ext) (simp add: upsert_entry_def upsert_by_def result_at_def [abs_def] entry_marks_def entry_kept_def Let_def cong: option.case_cong)

lemma upsert_remark_by:
  "upsert_remark c i (student, t) = upsert_by (result_at c i student '''') (\<lambda>r. r\<lparr>er_remarks := Some t\<rparr>)
     \<lparr>er_exam = i, er_student = student, er_subject = '''', er_marks = None, er_max = None, er_grade = None, er_remarks = Some t\<rparr>"
  by (intro ext) (simp add: upsert_remark_def upsert_by_def result_at_def [abs_def] Let_def)

definition upload :: "ctx \<Rightarrow> int \<Rightarrow> rat \<Rightarrow> sheet_state \<Rightarrow> result_row list \<Rightarrow> result_row list" where
  "upload c i most st rows = fold (upsert_remark c i) (st_remarks st) (fold (upsert_entry c i most) (st_entries st) rows)"

lemma upload_keeps:
  assumes "\<And>student sub x rows. (student, sub, x) \<in> set (st_entries st) \<Longrightarrow> I rows \<Longrightarrow> I (upsert_entry c i most (student, sub, x) rows)"
    and "\<And>student t rows. (student, t) \<in> set (st_remarks st) \<Longrightarrow> I rows \<Longrightarrow> I (upsert_remark c i (student, t) rows)" and "I rows"
  shows "I (upload c i most st rows)"
  unfolding upload_def by (intro fold_keeps [where I = I]) (use assms in auto)

lemma upload_keys:
  assumes "distinct (map (result_key c) rows)" shows "distinct (map (result_key c) (upload c i most st rows))"
proof (rule upload_keeps [where I = "\<lambda>xs. distinct (map (result_key c) xs)"])
  show "distinct (map (result_key c) (upsert_entry c i most (student, sub, x) xs))" if "distinct (map (result_key c) xs)" for student sub x xs
    unfolding upsert_entry_by using that by (rule upsert_by_keys) (simp_all add: result_key_def result_at_def sql_eq_def)
  show "distinct (map (result_key c) (upsert_remark c i (student, t) xs))" if "distinct (map (result_key c) xs)" for student t xs
    unfolding upsert_remark_by using that by (rule upsert_by_keys) (simp_all add: result_key_def result_at_def sql_eq_def)
qed (rule assms)

text \<open>A mark that is read lies between nothing and the maximum.\<close>

lemma read_mark_range: "read_mark most v = Inr (Some (Scored n)) \<Longrightarrow> 0 \<le> n \<and> n \<le> most \<and> float_of v = Some (Finite n) \<and> py_lower v \<notin> set ABSENT_WORDS"
  by (auto simp: read_mark_def split: if_splits option.splits py_float.splits)

lemma read_mark_missing: "read_mark most v = Inr (Some Missing) \<Longrightarrow> py_lower v \<in> set ABSENT_WORDS"
  by (auto simp: read_mark_def split: if_splits option.splits py_float.splits)

definition entry_good :: "rat \<Rightarrow> sheet_entry \<Rightarrow> bool" where
  "entry_good most en \<longleftrightarrow> entry_storable most en = None \<and> (\<forall>n. snd (snd en) = Scored n \<longrightarrow> 0 \<le> n \<and> n \<le> most)"

lemma entry_mark_ok: "entry_good most (student, sub, x) \<Longrightarrow> er_marks r = entry_marks x \<Longrightarrow> er_max r = Some (hundredths most) \<Longrightarrow> mark_ok r"
  by (auto simp: mark_ok_def entry_good_def entry_marks_def entry_storable_def fits_def hundredths_nonneg hundredths_mono split: entered.splits if_splits)

lemma remark_mark_ok: "mark_ok (r\<lparr>er_remarks := t\<rparr>) = mark_ok r" "mark_ok \<lparr>er_exam = i, er_student = j, er_subject = sub, er_marks = None, er_max = m, er_grade = g, er_remarks = t\<rparr>"
  by (simp_all add: mark_ok_def split: option.split)

lemma upload_marks:
  assumes "\<forall>en \<in> set (st_entries st). entry_good most en" and "\<forall>x \<in> set rows. mark_ok x"
  shows "\<forall>x \<in> set (upload c i most st rows). mark_ok x"
proof (rule upload_keeps [where I = "\<lambda>xs. \<forall>x \<in> set xs. mark_ok x", OF _ _ assms(2)])
  show "\<forall>r \<in> set (upsert_entry c i most (student, sub, x) xs). mark_ok r"
    if "(student, sub, x) \<in> set (st_entries st)" "\<forall>r \<in> set xs. mark_ok r" for student sub x xs
    using that(2) entry_mark_ok [OF bspec [OF assms(1) that(1)]] unfolding upsert_entry_by by (auto dest!: upsert_by_rows)
  show "\<forall>r \<in> set (upsert_remark c i (student, t) xs). mark_ok r" if "\<forall>r \<in> set xs. mark_ok r" for student t xs
    using that by (auto simp: upsert_remark_by remark_mark_ok dest!: upsert_by_rows)
qed

lemma upload_others:
  assumes same: "\<And>x y. er_exam x = er_exam y \<Longrightarrow> er_student x = er_student y \<Longrightarrow> er_subject x = er_subject y \<Longrightarrow> P x = P y"
    and entries: "\<And>student sub x r. (student, sub, x) \<in> set (st_entries st) \<Longrightarrow> result_at c i student sub r \<Longrightarrow> \<not> P r"
    and remarks: "\<And>student t r. (student, t) \<in> set (st_remarks st) \<Longrightarrow> result_at c i student '''' r \<Longrightarrow> \<not> P r"
  shows "filter P (upload c i most st rows) = filter P rows"
proof (rule upload_keeps [where I = "\<lambda>xs. filter P xs = filter P rows"])
  have upd: "P (r\<lparr>er_marks := a, er_max := b, er_grade := g\<rparr>) = P r" "P (r\<lparr>er_remarks := t\<rparr>) = P r" for r a b g t
    by (rule same; simp)+
  show "filter P (upsert_entry c i most (student, sub, x) xs) = filter P rows"
    if "(student, sub, x) \<in> set (st_entries st)" "filter P xs = filter P rows" for student sub x xs
    unfolding upsert_entry_by that(2) [symmetric]
    by (rule upsert_by_others) (use entries [OF that(1)] in \<open>simp_all add: upd result_at_def sql_eq_def\<close>)
  show "filter P (upsert_remark c i (student, t) xs) = filter P rows"
    if "(student, t) \<in> set (st_remarks st)" "filter P xs = filter P rows" for student t xs
    unfolding upsert_remark_by that(2) [symmetric]
    by (rule upsert_by_others) (use remarks [OF that(1)] in \<open>simp_all add: upd result_at_def sql_eq_def\<close>)
qed simp

text \<open>Every entry is there at the end, since no other has its student and subject.\<close>

definition entry_in :: "ctx \<Rightarrow> int \<Rightarrow> rat \<Rightarrow> sheet_entry \<Rightarrow> result_row \<Rightarrow> bool" where
  "entry_in c i most en r \<longleftrightarrow> result_at c i (fst en) (fst (snd en)) r \<and> er_marks r = entry_marks (snd (snd en)) \<and> er_max r = Some (hundredths most)
     \<and> (snd (snd en) = Missing \<longrightarrow> er_grade r = Some ABSENT)"

lemma upload_recorded:
  assumes keys: "distinct (map (\<lambda>(j, sub, x). (j, collation c sub)) (st_entries st))" and en: "en \<in> set (st_entries st)"
  shows "\<exists>r \<in> set (upload c i most st rows). entry_in c i most en r"
proof -
  obtain before after where split: "st_entries st = before @ en # after" using split_list [OF en] by blast
  obtain student sub x where e: "en = (student, sub, x)" by (cases en)
  define rows1 where "rows1 = upsert_entry c i most en (fold (upsert_entry c i most) before rows)"
  have "\<exists>r \<in> set rows1. entry_in c i most en r"
    unfolding rows1_def e upsert_entry_by
    by (rule upsert_by_there) (simp_all add: entry_in_def result_at_def sql_eq_def entry_kept_def entry_marks_def)
  then have "\<exists>r \<in> set (fold (upsert_entry c i most) after rows1). entry_in c i most en r"
  proof (rule fold_keeps [where I = "\<lambda>xs. \<exists>r \<in> set xs. entry_in c i most en r", rotated])
    fix en' :: sheet_entry and xs :: "result_row list" assume after: "en' \<in> set after" and there: "\<exists>r \<in> set xs. entry_in c i most en r"
    obtain student' sub' x' where e': "en' = (student', sub', x')" by (cases en')
    have "(student', collation c sub') \<noteq> (student, collation c sub)" using keys after by (force simp: split e e')
    then have "\<not> (result_at c i student' sub' r \<and> entry_in c i most en r)" for r by (auto simp: result_at_def sql_eq_def entry_in_def e)
    then show "\<exists>r \<in> set (upsert_entry c i most en' xs). entry_in c i most en r"
      unfolding e' upsert_entry_by by (intro upsert_by_stays [OF there]) blast
  qed
  then have "\<exists>r \<in> set (fold (upsert_remark c i) (st_remarks st) (fold (upsert_entry c i most) after rows1)). entry_in c i most en r"
  proof (rule fold_keeps [where I = "\<lambda>xs. \<exists>r \<in> set xs. entry_in c i most en r", rotated])
    fix sr :: "int \<times> string" and xs :: "result_row list" assume there: "\<exists>r \<in> set xs. entry_in c i most en r"
    obtain student' t where sr: "sr = (student', t)" by (cases sr)
    show "\<exists>r \<in> set (upsert_remark c i sr xs). entry_in c i most en r"
      unfolding sr upsert_remark_by by (rule upsert_by_stays [OF there]) (simp add: entry_in_def result_at_def)
  qed
  then show ?thesis by (simp add: upload_def split rows1_def)
qed

subsection \<open>The whole upload\<close>

lemma import_results_refused: "import_results c user i section file most s = (Inl e, s') \<Longrightarrow> s' = s"
  by (auto simp: import_results_def bindH_def query_def split: sum.splits dest: transaction_error)

lemma save_sheet_done:
  assumes "save_sheet c user i section g e subjects t rows s = (Inr d, s')"
  obtains m st where "m = read_header subjects (hd rows)" "mh_errors m = []"
    "st = read_sheet m t (sheet_students c g section s) (data_rows m (tl rows))" "st_errors st = []"
    "\<forall>en \<in> set (st_entries st). entry_storable t en = None" "exam_results s' = upload c i t st (exam_results s)"
    "exams s' = update_where (\<lambda>y. e_id y = i) (\<lambda>y. y\<lparr>e_published := True, e_max := (case e_max y of None \<Rightarrow> Some (hundredths t) | Some n \<Rightarrow> Some n)\<rparr>) (exams s)"
proof -
  obtain m st s1 s2 where m: "m = read_header subjects (hd rows)" "mh_errors m = []"
    and st: "st = read_sheet m t (sheet_students c g section s) (data_rows m (tl rows))" "st_errors st = []"
    and wr: "write_entries c i t (st_entries st) s = (Inr (), s1)" and pub: "publish_exam i t e (write_remarks c i (st_remarks st) s1) = (Inr (), s2)"
    and fin: "exam_results s' = exam_results s2" "exams s' = exams s2"
    using assms unfolding save_sheet_def svc_simps by (auto simp: audit_record_def)
  from wr have "List.map_filter (entry_storable t) (st_entries st) = []" and s1: "s1 = s\<lparr>exam_results := fold (upsert_entry c i t) (st_entries st) (exam_results s)\<rparr>"
    by (simp_all add: write_entries_def split: list.splits)
  then have "\<forall>en \<in> set (st_entries st). entry_storable t en = None" by (simp add: map_filter_none)
  moreover from pub fin s1 have "exam_results s' = upload c i t st (exam_results s)"
    "exams s' = update_where (\<lambda>y. e_id y = i) (\<lambda>y. y\<lparr>e_published := True, e_max := (case e_max y of None \<Rightarrow> Some (hundredths t) | Some n \<Rightarrow> Some n)\<rparr>) (exams s)"
    by (auto simp: publish_exam_def write_remarks_def upload_def split: if_splits)
  ultimately show thesis using m st by (intro that) simp_all
qed

lemma import_results_done:
  assumes run: "import_results c user i section file most0 s = (Inr d, s')"
  obtains rows t g e x where "file = Inr rows" "most0 = Some t" "bound_org s = Some g" "section_in_exam e section s = Inr x"
    "save_sheet c user i section g e (exam_subjects i (se_class x) s) t rows s = (Inr d, s')"
proof -
  obtain rows t where input: "file = Inr rows" "valid_max most0 = Inr t" using run unfolding import_results_def svc_simps by blast
  then have "most0 = Some t" by (auto simp: valid_max_def split: option.splits if_splits)
  obtain g e x subjects where ctx: "sheet_context user i section s = Inr (g, e, x, subjects)" and save: "save_sheet c user i section g e subjects t rows s = (Inr d, s')"
    using run input unfolding import_results_def svc_simps by (auto simp: svc_simps)
  from ctx have "bound_org s = Some g" "section_in_exam e section s = Inr x" "subjects = exam_subjects i (se_class x) s"
    by (auto simp: sheet_context_def bindR_def org_of_def split: option.splits sum.splits)
  with input \<open>most0 = Some t\<close> save show thesis by (intro that) simp_all
qed

lemma pupil_of_row_in: "pupil_of_row m students row = Some up \<Longrightarrow> up \<in> set students"
  by (auto simp: pupil_of_row_def find_pupil_def split: if_splits option.splits dest!: one_where_Some)

lemma read_sheet_remarks:
  assumes "(j, t) \<in> set (st_remarks (read_sheet m most students nrs))"
  shows "j \<in> (\<lambda>(u, p). u_id u) ` set students"
proof -
  have "fst ` set (st_remarks (read_sheet m most students nrs)) \<subseteq> (\<lambda>(u, p). u_id u) ` set students"
    unfolding read_sheet_def
  proof (rule fold_keeps [where I = "\<lambda>st. fst ` set (st_remarks st) \<subseteq> (\<lambda>(u, p). u_id u) ` set students"])
    fix nr :: "nat \<times> string list" and st :: sheet_state assume "fst ` set (st_remarks st) \<subseteq> (\<lambda>(u, p). u_id u) ` set students"
    then show "fst ` set (st_remarks (sheet_row m most students nr st)) \<subseteq> (\<lambda>(u, p). u_id u) ` set students"
      by (auto simp: sheet_row_def row_remarks_def Let_def split: prod.splits option.splits if_splits dest!: pupil_of_row_in)
  qed simp
  with assms show ?thesis by force
qed

text \<open>What a cell of the file says, and how it is recorded.\<close>

definition filled_in :: "marks_header \<Rightarrow> roll_entry list \<Rightarrow> string list list \<Rightarrow> int \<Rightarrow> string \<Rightarrow> string \<Rightarrow> bool" where
  "filled_in m students rows j sub v \<longleftrightarrow> v \<noteq> [] \<and> (\<exists>(n, row) \<in> set (data_rows m (tl rows)). map_option (\<lambda>(u, p). u_id u) (pupil_of_row m students row) = Some j
     \<and> (\<exists>k. (k, sub) \<in> set (mh_subjects m) \<and> cell_at row (Some k) = v))"

definition recorded_as :: "ctx \<Rightarrow> int \<Rightarrow> rat \<Rightarrow> int \<Rightarrow> string \<Rightarrow> string \<Rightarrow> result_row \<Rightarrow> bool" where
  "recorded_as c i t j sub v x \<longleftrightarrow> result_at c i j sub x \<and> er_max x = Some (hundredths t)
     \<and> (if py_lower v \<in> set ABSENT_WORDS then er_marks x = None \<and> er_grade x = Some ABSENT
        else \<exists>n. float_of v = Some (Finite n) \<and> 0 \<le> n \<and> n \<le> t \<and> er_marks x = Some (hundredths n))"

lemma read_mark_scored: "read_mark most v = Inr (Some x) \<Longrightarrow> x \<noteq> Unreadable \<Longrightarrow>
    if py_lower v \<in> set ABSENT_WORDS then x = Missing else \<exists>n. x = Scored n \<and> float_of v = Some (Finite n) \<and> 0 \<le> n \<and> n \<le> most"
  by (auto simp: read_mark_def split: if_splits option.splits py_float.splits)

lemma read_mark_filled: "read_mark most v = Inr (Some x) \<Longrightarrow> v \<noteq> []"
  by (auto simp: read_mark_def)

text \<open>The entries of a file without errors are its filled-in cells.\<close>

lemma read_sheet_entries:
  assumes st: "st = read_sheet m t students (data_rows m (tl rows))" and ok: "st_errors st = []"
  shows "(j, sub, x) \<in> set (st_entries st) \<Longrightarrow> \<exists>v. filled_in m students rows j sub v \<and> read_mark t v = Inr (Some x)"
    and "filled_in m students rows j sub v \<Longrightarrow> \<exists>x. (j, sub, x) \<in> set (st_entries st) \<and> read_mark t v = Inr (Some x)"
proof -
  note rows = read_sheet_ok [OF ok [unfolded st], folded st]
  have who: "map_option (\<lambda>(u, p). u_id u) (pupil_of_row m students (snd nr)) = Some j \<longleftrightarrow> row_student m students nr = j" if "nr \<in> set (data_rows m (tl rows))" for nr
    using rows(1) that by (force simp: row_student_def)
  show "\<exists>v. filled_in m students rows j sub v \<and> read_mark t v = Inr (Some x)" if "(j, sub, x) \<in> set (st_entries st)"
  proof -
    from that obtain nr k where nr: "nr \<in> set (data_rows m (tl rows))" "j = row_student m students nr" "(k, sub) \<in> set (mh_subjects m)"
      "read_mark t (cell_at (snd nr) (Some k)) = Inr (Some x)" unfolding rows(3) by (auto simp: row_marks_iff)
    let ?v = "cell_at (snd nr) (Some k)"
    have "filled_in m students rows j sub ?v"
      unfolding filled_in_def by (intro conjI bexI [OF _ nr(1)]) (use who [OF nr(1)] nr read_mark_filled [OF nr(4)] in \<open>auto split: prod.split\<close>)
    with nr(4) show ?thesis by blast
  qed
  show "\<exists>x. (j, sub, x) \<in> set (st_entries st) \<and> read_mark t v = Inr (Some x)" if "filled_in m students rows j sub v"
  proof -
    from that obtain nr k where nr: "nr \<in> set (data_rows m (tl rows))" "row_student m students nr = j" "(k, sub) \<in> set (mh_subjects m)"
      "cell_at (snd nr) (Some k) = v" "v \<noteq> []" unfolding filled_in_def using who by fastforce
    moreover have "row_errors m t (fst nr) (snd nr) = []" using rows(1) nr(1) by blast
    ultimately obtain x where "read_mark t v = Inr (Some x)" by (metis row_cell_read)
    with nr show ?thesis unfolding rows(3) by (force simp: row_marks_iff)
  qed
qed

lemma read_sheet_keys:
  assumes st: "st = read_sheet m t students (data_rows m (tl rows))" and ok: "st_errors st = []"
    and "distinct (map snd (mh_subjects m))" and "inj_on f (snd ` set (mh_subjects m))"
  shows "distinct (map (\<lambda>(j, sub, x). (j, f sub)) (st_entries st))"
proof -
  note rows = read_sheet_ok [OF ok [unfolded st], folded st]
  show ?thesis unfolding rows(3)
    by (rule distinct_concat_keys [OF rows(2)]) (use assms(3,4) in \<open>auto simp: row_marks_iff intro!: row_marks_distinct\<close>)
qed

lemma stored_good:
  assumes "\<forall>en \<in> set (st_entries st). entry_storable t en = None" and st: "st = read_sheet m t students (data_rows m (tl rows))" "st_errors st = []"
  shows "\<forall>en \<in> set (st_entries st). entry_good t en"
proof
  fix en assume en: "en \<in> set (st_entries st)"
  obtain j sub x where e: "en = (j, sub, x)" by (cases en)
  obtain v where "read_mark t v = Inr (Some x)" using read_sheet_entries(1) [OF st] en unfolding e by blast
  then have "0 \<le> n \<and> n \<le> t" if "x = Scored n" for n using read_mark_range that by blast
  with assms(1) en show "entry_good t en" by (auto simp: entry_good_def e)
qed

lemma publish_rows:
  fixes y :: exam_row
  assumes "y \<in> set (update_where (\<lambda>y. e_id y = i) (\<lambda>y. y\<lparr>e_published := True, e_max := (case e_max y of None \<Rightarrow> Some n | Some k \<Rightarrow> Some k)\<rparr>) xs)" and "e_id y = i"
  shows "e_published y \<and> e_max y \<noteq> None"
proof -
  from assms(1) obtain x :: exam_row where "y = (if e_id x = i then x\<lparr>e_published := True, e_max := (case e_max x of None \<Rightarrow> Some n | Some k \<Rightarrow> Some k)\<rparr> else x)"
    by (auto simp only: update_where_def set_map)
  with assms(2) show ?thesis by (cases "e_max x") (simp_all split: if_splits)
qed

lemma sheet_students_ids: "(\<lambda>(u, p). u_id u) ` set (sheet_students c g section s) \<subseteq> (\<lambda>(u, p). u_id u) ` set (on_roll section s)"
  by (auto simp: sheet_students_def)

lemma filled_in_known: "filled_in m students rows j sub v \<Longrightarrow> j \<in> (\<lambda>(u, p). u_id u) ` set students"
  by (force simp: filled_in_def dest: pupil_of_row_in)

lemma entry_recorded: "entry_in c i t (j, sub, x) r \<Longrightarrow> read_mark t v = Inr (Some x) \<Longrightarrow> x \<noteq> Unreadable \<Longrightarrow> recorded_as c i t j sub v r"
  by (drule (1) read_mark_scored) (auto simp: entry_in_def recorded_as_def entry_marks_def split: if_splits)

lemma saved_upload:
  assumes rows: "m = read_header subjects (hd rows)" "mh_errors m = []" "st = read_sheet m t students (data_rows m (tl rows))" "st_errors st = []"
    and storable: "\<forall>en \<in> set (st_entries st). entry_storable t en = None" and saved: "after = upload c i t st before"
  shows "inj_on (collation c) (snd ` set (mh_subjects m)) \<Longrightarrow> filled_in m students rows j sub v \<Longrightarrow> \<exists>x \<in> set after. recorded_as c i t j sub v x"
    and "\<not> sql_eq c sub '''' \<Longrightarrow> \<forall>sub' v. sql_eq c sub' sub \<longrightarrow> \<not> filled_in m students rows j sub' v
      \<Longrightarrow> filter (result_at c i j sub) after = filter (result_at c i j sub) before"
    and "\<forall>nr \<in> set (data_rows m (tl rows)). pupil_of_row m students (snd nr) \<noteq> None"
    and "k \<noteq> i \<Longrightarrow> filter (\<lambda>x. er_exam x = k) after = filter (\<lambda>x. er_exam x = k) before"
    and "j \<notin> (\<lambda>(u, p). u_id u) ` set students \<Longrightarrow> filter (\<lambda>x. er_student x = j) after = filter (\<lambda>x. er_student x = j) before"
proof -
  note entries = read_sheet_entries [OF rows(3,4)]
  show "\<exists>x \<in> set after. recorded_as c i t j sub v x" if inj: "inj_on (collation c) (snd ` set (mh_subjects m))" and cell: "filled_in m students rows j sub v"
  proof -
    have "distinct (map snd (mh_subjects m))" using read_header_good rows(1,2) by blast
    note keys = read_sheet_keys [OF rows(3,4) this inj]
    obtain x where x: "(j, sub, x) \<in> set (st_entries st)" "read_mark t v = Inr (Some x)" using entries(2) [OF cell] by blast
    obtain r where "r \<in> set after" "entry_in c i t (j, sub, x) r" unfolding saved using upload_recorded [OF keys x(1)] by blast
    moreover have "x \<noteq> Unreadable" using storable x(1) by (auto simp: entry_storable_def)
    ultimately show ?thesis using entry_recorded [OF _ x(2)] by blast
  qed
  show "filter (result_at c i j sub) after = filter (result_at c i j sub) before"
    if sub: "\<not> sql_eq c sub ''''" and empty: "\<forall>sub' v. sql_eq c sub' sub \<longrightarrow> \<not> filled_in m students rows j sub' v"
    unfolding saved
  proof (rule upload_others)
    show "\<not> result_at c i j sub r" if "(j', sub', x) \<in> set (st_entries st)" "result_at c i j' sub' r" for j' sub' x r
      using entries(1) [OF that(1)] that(2) empty by (auto simp: result_at_def sql_eq_def)
  qed (use sub in \<open>auto simp: result_at_def sql_eq_def\<close>)
  show "\<forall>nr \<in> set (data_rows m (tl rows)). pupil_of_row m students (snd nr) \<noteq> None"
    using read_sheet_ok(1) [OF rows(4) [unfolded rows(3)]] by blast
  show "filter (\<lambda>x. er_exam x = k) after = filter (\<lambda>x. er_exam x = k) before" if "k \<noteq> i"
    unfolding saved by (rule upload_others) (use that in \<open>simp_all add: result_at_def\<close>)
  show "filter (\<lambda>x. er_student x = j) after = filter (\<lambda>x. er_student x = j) before" if "j \<notin> (\<lambda>(u, p). u_id u) ` set students"
    unfolding saved by (rule upload_others)
      (use that entries(1) filled_in_known read_sheet_remarks [of _ _ m t students, folded rows(3)] in \<open>fastforce simp: result_at_def rows(3)\<close>)+
qed

text \<open>C18: An upload of marks records the file or nothing. When it is refused nothing changes; otherwise every row is of a
  student of the section, and every cell with a text under a subject is recorded as it reads: AB as absent, a number in
  hundredths between nothing and the maximum of the form. A cell left empty keeps the mark already saved, the marks of
  other exams and of students outside the section stay, the exam is published with a maximum, and no mark exceeds its own.\<close>

theorem marks_upload_exact:
  assumes run: "import_results c user i section file most0 s = (r, s')"
    and keys: "distinct (map (\<lambda>x. (er_exam x, er_student x, collation c (er_subject x))) (exam_results s))" and marks: "\<forall>x \<in> set (exam_results s). mark_ok x"
  shows "distinct (map (\<lambda>x. (er_exam x, er_student x, collation c (er_subject x))) (exam_results s')) \<and> (\<forall>x \<in> set (exam_results s'). mark_ok x)
    \<and> (\<forall>k. k \<noteq> i \<longrightarrow> filter (\<lambda>x. er_exam x = k) (exam_results s') = filter (\<lambda>x. er_exam x = k) (exam_results s))
    \<and> (\<forall>j. j \<notin> (\<lambda>(u, p). u_id u) ` set (on_roll section s) \<longrightarrow> filter (\<lambda>x. er_student x = j) (exam_results s') = filter (\<lambda>x. er_student x = j) (exam_results s))
    \<and> (case r of Inl e \<Rightarrow> s' = s
       | Inr d \<Rightarrow> (\<forall>y \<in> set (exams s'). e_id y = i \<longrightarrow> e_published y \<and> e_max y \<noteq> None)
         \<and> (\<exists>rows t g e x. file = Inr rows \<and> most0 = Some t \<and> bound_org s = Some g \<and> section_in_exam e section s = Inr x
           \<and> (let m = read_header (exam_subjects i (se_class x) s) (hd rows); students = sheet_students c g section s in
              (\<forall>nr \<in> set (data_rows m (tl rows)). pupil_of_row m students (snd nr) \<noteq> None)
              \<and> (inj_on (collation c) (snd ` set (mh_subjects m)) \<longrightarrow> (\<forall>j sub v. filled_in m students rows j sub v \<longrightarrow> (\<exists>x \<in> set (exam_results s'). recorded_as c i t j sub v x)))
              \<and> (\<forall>j sub. \<not> sql_eq c sub '''' \<longrightarrow> (\<forall>sub' v. sql_eq c sub' sub \<longrightarrow> \<not> filled_in m students rows j sub' v)
                  \<longrightarrow> filter (result_at c i j sub) (exam_results s') = filter (result_at c i j sub) (exam_results s)))))"
proof (cases r)
  case (Inl e)
  then have "s' = s" using run import_results_refused by blast
  then show ?thesis using keys marks by (simp add: Inl)
next
  case (Inr d)
  obtain rows t g e x where input: "file = Inr rows" "most0 = Some t" "bound_org s = Some g" "section_in_exam e section s = Inr x"
    and save: "save_sheet c user i section g e (exam_subjects i (se_class x) s) t rows s = (Inr d, s')"
    by (rule import_results_done [OF run [unfolded Inr]]) (rule that)
  define m where "m = read_header (exam_subjects i (se_class x) s) (hd rows)"
  define students where "students = sheet_students c g section s"
  obtain st where read: "mh_errors m = []" "st = read_sheet m t students (data_rows m (tl rows))" "st_errors st = []"
    and storable: "\<forall>en \<in> set (st_entries st). entry_storable t en = None" and saved: "exam_results s' = upload c i t st (exam_results s)"
    and exams: "exams s' = update_where (\<lambda>y. e_id y = i) (\<lambda>y. y\<lparr>e_published := True, e_max := (case e_max y of None \<Rightarrow> Some (hundredths t) | Some n \<Rightarrow> Some n)\<rparr>) (exams s)"
    by (rule save_sheet_done [OF save]) (rule that, simp_all add: m_def students_def)
  have known: "(\<lambda>(u, p). u_id u) ` set students \<subseteq> (\<lambda>(u, p). u_id u) ` set (on_roll section s)" unfolding students_def by (rule sheet_students_ids)
  note upload = saved_upload [OF m_def read storable saved]
  have key: "result_key c = (\<lambda>x. (er_exam x, er_student x, collation c (er_subject x)))" by (simp add: result_key_def [abs_def])
  have "distinct (map (\<lambda>x. (er_exam x, er_student x, collation c (er_subject x))) (exam_results s'))"
    unfolding saved by (rule upload_keys [of c "exam_results s" i t st, unfolded key, OF keys])
  moreover have "\<forall>x \<in> set (exam_results s'). mark_ok x" unfolding saved by (rule upload_marks [OF stored_good [OF storable read(2,3)] marks])
  moreover have "filter (\<lambda>x. er_student x = j) (exam_results s') = filter (\<lambda>x. er_student x = j) (exam_results s)" if "j \<notin> (\<lambda>(u, p). u_id u) ` set (on_roll section s)" for j
    by (rule upload(5)) (rule contra_subsetD [OF known that])
  moreover have "\<forall>y \<in> set (exams s'). e_id y = i \<longrightarrow> e_published y \<and> e_max y \<noteq> None"
    using publish_rows [of _ i "hundredths t" "exams s", folded exams] by blast
  moreover have "\<exists>rows t g e x. file = Inr rows \<and> most0 = Some t \<and> bound_org s = Some g \<and> section_in_exam e section s = Inr x
      \<and> (let m = read_header (exam_subjects i (se_class x) s) (hd rows); students = sheet_students c g section s in
         (\<forall>nr \<in> set (data_rows m (tl rows)). pupil_of_row m students (snd nr) \<noteq> None)
         \<and> (inj_on (collation c) (snd ` set (mh_subjects m)) \<longrightarrow> (\<forall>j sub v. filled_in m students rows j sub v \<longrightarrow> (\<exists>x \<in> set (exam_results s'). recorded_as c i t j sub v x)))
         \<and> (\<forall>j sub. \<not> sql_eq c sub '''' \<longrightarrow> (\<forall>sub' v. sql_eq c sub' sub \<longrightarrow> \<not> filled_in m students rows j sub' v)
             \<longrightarrow> filter (result_at c i j sub) (exam_results s') = filter (result_at c i j sub) (exam_results s)))"
    by (intro exI conjI, rule input, rule input, rule input, rule input) (unfold Let_def m_def [symmetric] students_def [symmetric], intro conjI allI impI upload, simp_all)
  ultimately show ?thesis using upload(4) by (simp only: Inr sum.case simp_thms) blast
qed

definition maths_db :: db where
  "maths_db = exam_db\<lparr>class_subjects := [\<lparr>cs_class = 7, cs_name = ''Maths''\<rparr>]\<rparr>"

definition maths_file :: "string list list" where
  "maths_file = [[''roll_no'', ''Maths''], [''1'', ''42.5''], [''2'', ''ab'']]"

definition maths_class :: "roll_entry list" where
  "maths_class = [(demo_user 2 ''mira'' Student, pupil 2 ''1''), (demo_user 3 ''devi'' Student, pupil 3 ''2'')]"

definition maths_header :: marks_header where
  "maths_header = \<lparr>mh_subjects = [(1, ''Maths'')], mh_ids = [(''roll_no'', 0)], mh_errors = []\<rparr>"

lemma maths_header: "read_header [''Maths''] (hd maths_file) = maths_header"
  unfolding maths_header_def by code_simp

lemma maths_rolls: "roll_number (Some ''1'') = Some 1" "roll_number (Some ''2'') = Some 2" by code_simp+

lemma maths_on_roll: "on_roll 8 maths_db = maths_class"
  by (simp add: on_roll_def maths_db_def exam_db_def maths_class_def school_people_def pupil_def)

lemma maths_students: "sheet_students (demo 0) 1 8 maths_db = maths_class"
  by (simp add: sheet_students_def maths_on_roll) (simp add: maths_class_def sheet_order_def pupil_def maths_rolls less_eq_prod_def)

lemma maths_read: "read_sheet maths_header 50 maths_class (data_rows maths_header (tl maths_file))
    = \<lparr>st_entries = [(2, ''Maths'', Scored (85 / 2)), (3, ''Maths'', Missing)], st_remarks = [], st_seen = [(2, 2), (3, 3)], st_errors = []\<rparr>"
  by code_simp

lemma maths_subjects: "exam_subjects 1 7 maths_db = [''Maths'']"
  by (simp add: exam_subjects_def maths_db_def exam_db_def leaving_db_def import_db_def empty_db_def)

lemma maths_fields: "bound_org maths_db = Some 1" "exams maths_db = [unit_test]" "sections maths_db = [\<lparr>se_id = 8, se_org = 1, se_class = 7, se_name = ''A''\<rparr>]"
  by (simp_all add: maths_db_def exam_db_def)

lemma maths_section: "section_in_exam unit_test 8 maths_db = Inr \<lparr>se_id = 8, se_org = 1, se_class = 7, se_name = ''A''\<rparr>"
  by (simp add: section_in_exam_def bindR_def org_of_def maths_fields one_where_def applies_to_class_def unit_test_def)

lemma maths_context: "sheet_context head_user 1 8 maths_db = Inr (1, unit_test, \<lparr>se_id = 8, se_org = 1, se_class = 7, se_name = ''A''\<rparr>, [''Maths''])"
proof -
  have "exam_in 1 1 maths_db = Some unit_test" by (simp add: exam_in_def maths_fields one_where_def unit_test_def)
  then show ?thesis by (simp add: sheet_context_def bindR_def org_of_def maths_fields maths_section ensure_can_view_section_def maths_subjects)
qed

lemma maths_cells: "data_rows maths_header (tl maths_file) = [(2, [''1'', ''42.5'']), (3, [''2'', ''ab''])]"
  "pupil_of_row maths_header maths_class [''2'', ''ab''] = Some (demo_user 3 ''devi'' Student, pupil 3 ''2'')" "cell_at [''2'', ''ab''] (Some 1) = ''ab''"
  by code_simp+

lemma maths_uploaded: "\<exists>d s'. import_results (demo 0) head_user 1 8 (Inr maths_file) (Some 50) maths_db = (Inr d, s') \<and> id_absent d = 1"
proof -
  have rows: "maths_file \<noteq> []" "mh_errors maths_header = []" by (simp_all add: maths_file_def maths_header_def)
  have "fst (save_sheet (demo 0) head_user 1 8 1 unit_test [''Maths''] 50 maths_file maths_db)
      = Inr (import_report maths_header 50 [''Maths''] (read_sheet maths_header 50 maths_class (data_rows maths_header (tl maths_file))))"
    by (simp add: save_sheet_def bindH_def check_def reads_def writes_def ret_def maths_header rows maths_students maths_read write_entries_def List.map_filter_simps
        entry_storable_def fits_def hundredths_def COLUMN_MAX_def publish_exam_def unit_test_def)
  then obtain s1 where "save_sheet (demo 0) head_user 1 8 1 unit_test [''Maths''] 50 maths_file maths_db
      = (Inr (import_report maths_header 50 [''Maths''] (read_sheet maths_header 50 maths_class (data_rows maths_header (tl maths_file)))), s1)" by (metis prod.collapse)
  then have "fst (import_results (demo 0) head_user 1 8 (Inr maths_file) (Some 50) maths_db)
      = Inr (import_report maths_header 50 [''Maths''] (read_sheet maths_header 50 maths_class (data_rows maths_header (tl maths_file))))"
    by (simp add: import_results_def bindH_def query_def valid_max_def MARKS_LIMIT_def transaction_def maths_context can_import_def check_def)
  moreover have "id_absent (import_report maths_header 50 [''Maths''] (read_sheet maths_header 50 maths_class (data_rows maths_header (tl maths_file)))) = 1"
    by (simp add: maths_read import_report_def)
  ultimately show ?thesis by (metis prod.collapse)
qed

lemma marks_upload_exact_witness:
  "\<exists>d s'. import_results (demo 0) head_user 1 8 (Inr maths_file) (Some 50) maths_db = (Inr d, s') \<and> id_absent d = 1
     \<and> (\<exists>x \<in> set (exam_results s'). recorded_as (demo 0) 1 50 3 ''Maths'' ''ab'' x) \<and> (\<forall>x \<in> set (exam_results s'). mark_ok x)"
proof -
  obtain d s' where run: "import_results (demo 0) head_user 1 8 (Inr maths_file) (Some 50) maths_db = (Inr d, s')" and absent: "id_absent d = 1" using maths_uploaded by blast
  have ok: "distinct (map (\<lambda>x. (er_exam x, er_student x, collation (demo 0) (er_subject x))) (exam_results maths_db))" "\<forall>x \<in> set (exam_results maths_db). mark_ok x"
    by (simp_all add: maths_db_def exam_db_def mark_ok_def COLUMN_MAX_def)
  note claim = marks_upload_exact [OF run ok, unfolded sum.case Let_def]
  have filled: "filled_in maths_header maths_class maths_file 3 ''Maths'' ''ab''"
    unfolding filled_in_def maths_cells by (simp add: maths_cells maths_cells(3) [simplified] maths_header_def [THEN arg_cong, of mh_subjects])
  from claim obtain rows t g e x where eqs: "Inr maths_file = (Inr rows :: string list list res)" "Some 50 = Some t" "bound_org maths_db = Some g"
    and sec: "section_in_exam e 8 maths_db = Inr x" and saved: "inj_on (collation (demo 0)) (snd ` set (mh_subjects (read_header (exam_subjects 1 (se_class x) maths_db) (hd rows))))
      \<longrightarrow> (\<forall>j sub v. filled_in (read_header (exam_subjects 1 (se_class x) maths_db) (hd rows)) (sheet_students (demo 0) g 8 maths_db) rows j sub v
        \<longrightarrow> (\<exists>x \<in> set (exam_results s'). recorded_as (demo 0) 1 t j sub v x))"
    by (elim conjE exE) (rule that; assumption)
  have "rows = maths_file" "t = 50" "g = 1" using eqs by (simp_all add: maths_fields)
  have "se_class x = 7" using sec by (auto simp: section_in_exam_def bindR_def org_of_def maths_fields one_where_def split: if_splits)
  have "\<exists>x \<in> set (exam_results s'). recorded_as (demo 0) 1 50 3 ''Maths'' ''ab'' x"
    using saved [unfolded \<open>rows = maths_file\<close> \<open>t = 50\<close> \<open>g = 1\<close> \<open>se_class x = 7\<close> maths_subjects maths_header maths_students] filled by (auto simp: maths_header_def)
  with run absent claim show ?thesis by blast
qed

end
