(* ===== verification/Homework_Claims.thy ===== *)
theory Homework_Claims
  imports Homework Leaving_Claims
begin

text \<open>
  The numbers shown with a homework are those of the list of its students.
\<close>

subsection \<open>The roll and the submissions\<close>

definition roll_keys :: "db \<Rightarrow> bool" where
  "roll_keys s \<longleftrightarrow> distinct (map u_id (users s)) \<and> distinct (map sp_user (student_profiles s))
     \<and> distinct (map (\<lambda>x. (hs_homework x, hs_student x)) (submissions s))"

text \<open>A key finds at most one row.\<close>

lemma filter_key:
  assumes "distinct (map key xs)" shows "filter (\<lambda>x. key x = k \<and> P x) xs = (case find (\<lambda>x. key x = k \<and> P x) xs of None \<Rightarrow> [] | Some x \<Rightarrow> [x])"
  using assms
proof (induction xs)
  case (Cons x xs)
  have "filter (\<lambda>y. key y = k \<and> P y) xs = []" if "key x = k" using Cons.prems that by (auto simp: filter_empty_conv) (metis image_eqI)
  then show ?case using Cons by auto
qed simp

lemma on_roll_students:
  assumes "roll_keys s" shows "map (\<lambda>(u, p). u_id u) (on_roll sec s) = students_of sec s"
proof -
  have one: "map u_id (filter (\<lambda>u. u_id u = i \<and> u_active u) (users s)) = (if active_student s i then [i] else [])" for i
    using assms filter_key [of u_id "users s" i u_active] unfolding roll_keys_def active_student_def list_ex_iff
    by (auto split: option.splits simp: find_None_iff find_Some_iff)
  have "map (\<lambda>(u, p). u_id u) (concat (map (\<lambda>p. map (\<lambda>u. (u, p)) (filter (\<lambda>u. u_id u = sp_user p \<and> u_active u) (users s))) ps))
      = concat (map (\<lambda>p. if active_student s (sp_user p) then [sp_user p] else []) ps)" for ps :: "student_profile_row list"
    by (induction ps) (simp_all add: one comp_def)
  moreover have "concat (map (\<lambda>p. if active_student s (sp_user p) then [sp_user p] else []) (filter (\<lambda>p. sp_section p = Some sec) ps))
      = map sp_user (filter (\<lambda>p. sp_section p = Some sec \<and> active_student s (sp_user p)) ps)" for ps :: "student_profile_row list"
    by (induction ps) simp_all
  ultimately show ?thesis unfolding on_roll_def students_of_def by (simp only:)
qed

lemma students_distinct: "roll_keys s \<Longrightarrow> distinct (students_of sec s)"
  by (simp add: roll_keys_def students_of_def distinct_map_filter)

lemma students_of_iff: "j \<in> set (students_of sec s) \<longleftrightarrow> in_section_now sec s j \<and> active_student s j"
  by (auto simp: students_of_def in_section_now_def list_ex_iff)

lemma submission_of_iff:
  assumes "roll_keys s" "st \<noteq> SubPending"
  shows "submission_of i j s = st \<longleftrightarrow> (\<exists>x \<in> set (submissions s). hs_homework x = i \<and> hs_student x = j \<and> hs_status x = st)"
proof
  assume "submission_of i j s = st"
  then show "\<exists>x \<in> set (submissions s). hs_homework x = i \<and> hs_student x = j \<and> hs_status x = st"
    using assms(2) by (auto simp: submission_of_def split: option.splits dest!: one_where_Some)
next
  assume "\<exists>x \<in> set (submissions s). hs_homework x = i \<and> hs_student x = j \<and> hs_status x = st"
  then obtain x where x: "x \<in> set (submissions s)" "hs_homework x = i" "hs_student x = j" "hs_status x = st" by blast
  obtain y where y: "one_where (\<lambda>x. hs_homework x = i \<and> hs_student x = j) (submissions s) = Some y"
    using x one_where_None [of "\<lambda>x. hs_homework x = i \<and> hs_student x = j" "submissions s"] by (cases "one_where (\<lambda>x. hs_homework x = i \<and> hs_student x = j) (submissions s)") auto
  have "inj_on (\<lambda>x. (hs_homework x, hs_student x)) (set (submissions s))" using assms(1) by (simp add: roll_keys_def distinct_map)
  then have "y = x" using x one_where_Some [OF y] by (auto dest: inj_onD)
  then show "submission_of i j s = st" using y x by (simp add: submission_of_def)
qed

lemma handed_in_listed:
  assumes keys: "roll_keys s" and st: "st \<noteq> SubPending"
  shows "handed_in h st s = count_of (\<lambda>j. submission_of (hw_id h) j s = st) (students_of (hw_section h) s)"
proof -
  let ?P = "\<lambda>x. hs_homework x = hw_id h \<and> hs_status x = st \<and> in_section_now (hw_section h) s (hs_student x) \<and> active_student s (hs_student x)"
  let ?xs = "filter ?P (submissions s)" and ?js = "filter (\<lambda>j. submission_of (hw_id h) j s = st) (students_of (hw_section h) s)"
  have "inj_on (\<lambda>x. (hs_homework x, hs_student x)) (set (submissions s))" "distinct (submissions s)"
    using keys by (simp_all add: roll_keys_def distinct_map)
  then have "distinct (map hs_student ?xs)" by (auto simp: distinct_map inj_on_def)
  moreover have "distinct ?js" by (simp add: students_distinct [OF keys])
  moreover have "set (map hs_student ?xs) = set ?js"
    by (auto simp: students_of_iff submission_of_iff [OF keys st])
  ultimately have "length (map hs_student ?xs) = length ?js"
    using distinct_card [of "map hs_student ?xs"] distinct_card [of ?js] by (simp only:)
  then show ?thesis by (simp add: handed_in_def count_of_def)
qed

lemma three_statuses:
  "int (length js) = count_of (\<lambda>j. f j = Submitted) js + count_of (\<lambda>j. f j = SubLate) js + count_of (\<lambda>j. f j = SubPending) js"
proof (induction js)
  case (Cons j js)
  then show ?case by (cases "f j") (simp_all add: count_of_def)
qed (simp add: count_of_def)

lemma count_listed:
  assumes keys: "roll_keys s"
  shows "count_of (\<lambda>(_, st). st = want) (map (\<lambda>(u, _). (u_id u, submission_of i (u_id u) s)) (sort_key f (on_roll sec s)))
    = count_of (\<lambda>j. submission_of i j s = want) (students_of sec s)"
proof -
  have "count_of (\<lambda>(_, st). st = want) (map (\<lambda>(u, _). (u_id u, submission_of i (u_id u) s)) xs)
      = int (size (filter_mset (\<lambda>j. submission_of i j s = want) (mset (map (\<lambda>(u, p). u_id u) xs))))" for xs :: "(user_row \<times> student_profile_row) list"
    by (induction xs) (auto simp: count_of_def)
  moreover have "mset (map (\<lambda>(u, p). u_id u) (sort_key f (on_roll sec s))) = mset (students_of sec s)"
    unfolding on_roll_students [OF keys, symmetric] by simp
  moreover have "count_of (\<lambda>j. submission_of i j s = want) js = int (size (filter_mset (\<lambda>j. submission_of i j s = want) (mset js)))" for js
    by (induction js) (simp_all add: count_of_def)
  ultimately show ?thesis by simp
qed

subsection \<open>The numbers of a homework\<close>

text \<open>C19: Whoever may see a homework sees numbers that agree with its list of students: everybody now in the section with an
  active account is counted once, as submitted, late or pending, just as the list shows them.\<close>

theorem homework_counts_exact:
  assumes keys: "distinct (map u_id (users s))" "distinct (map sp_user (student_profiles s))"
      "distinct (map (\<lambda>x. (hs_homework x, hs_student x)) (submissions s))"
    and h: "get_homework i s = Inr h" and rows: "list_submissions c user i s = Inr xs"
  shows "hv_total (shape_homework s h) = int (length xs)
    \<and> hv_submitted (shape_homework s h) = count_of (\<lambda>(_, st). st = Submitted) xs
    \<and> hv_late (shape_homework s h) = count_of (\<lambda>(_, st). st = SubLate) xs
    \<and> hv_pending (shape_homework s h) = count_of (\<lambda>(_, st). st = SubPending) xs
    \<and> distinct (map fst xs) \<and> set (map fst xs) = set (students_of (hw_section h) s)"
proof -
  have ok: "roll_keys s" using keys by (simp add: roll_keys_def)
  have id: "hw_id h = i" using h by (auto simp: get_homework_def bindR_def split: option.splits sum.splits dest!: one_where_Some)
  obtain f :: "user_row \<times> student_profile_row \<Rightarrow> (bool \<times> int \<times> string) \<times> int"
    where xs: "xs = map (\<lambda>(u, _). (u_id u, submission_of i (u_id u) s)) (sort_key f (on_roll (hw_section h) s))"
    using rows h by (auto simp: list_submissions_def viewable_def bindR_def split: sum.splits)
  have fst: "map fst xs = map (\<lambda>(u, p). u_id u) (sort_key f (on_roll (hw_section h) s))" by (simp add: xs comp_def split_def)
  have mset: "mset (map fst xs) = mset (students_of (hw_section h) s)"
    unfolding fst on_roll_students [OF ok, symmetric] by simp
  have len: "int (length xs) = int (length (students_of (hw_section h) s))" using arg_cong [OF mset, of size] by simp
  have counts: "count_of (\<lambda>(_, st). st = want) xs = count_of (\<lambda>j. submission_of i j s = want) (students_of (hw_section h) s)" for want
    unfolding xs by (rule count_listed [OF ok])
  have "distinct (map fst xs)" "set (map fst xs) = set (students_of (hw_section h) s)"
    using mset students_distinct [OF ok] by (metis mset_eq_imp_distinct_iff, metis mset_eq_setD)
  moreover have "hv_submitted (shape_homework s h) = count_of (\<lambda>(_, st). st = Submitted) xs" "hv_late (shape_homework s h) = count_of (\<lambda>(_, st). st = SubLate) xs"
    by (simp_all add: shape_homework_def Let_def handed_in_listed [OF ok] counts id)
  moreover have "hv_pending (shape_homework s h) = count_of (\<lambda>(_, st). st = SubPending) xs"
    using three_statuses [of "students_of (hw_section h) s" "\<lambda>j. submission_of i j s"]
    by (simp add: shape_homework_def Let_def handed_in_listed [OF ok] counts id) (simp add: count_of_def)
  ultimately show ?thesis by (simp add: len shape_homework_def Let_def)
qed

definition essay :: homework_row where
  "essay = \<lparr>hw_id = 1, hw_org = 1, hw_class = 7, hw_section = 8, hw_subject = None, hw_title = ''Essay'', hw_note = None, hw_due = None,
     hw_by = 1, hw_created_at = 0, hw_file = None\<rparr>"

definition essay_db :: db where
  "essay_db = leaving_db\<lparr>class_homework := [essay], submissions := [\<lparr>hs_homework = 1, hs_student = 2, hs_status = SubLate, hs_by = 1\<rparr>]\<rparr>"

lemma homework_counts_exact_witness:
  "\<exists>xs. list_submissions (demo 0) head_user 1 essay_db = Inr xs \<and> hv_pending (shape_homework essay_db essay) = count_of (\<lambda>(_, st). st = SubPending) xs"
proof -
  have h: "get_homework 1 essay_db = Inr essay"
    by (simp add: get_homework_def essay_db_def bindR_def org_of_def essay_def one_where_def)
  obtain xs where rows: "list_submissions (demo 0) head_user 1 essay_db = Inr xs"
    by (simp add: list_submissions_def viewable_def h bindR_def ensure_can_view_section_def is_manager_def MANAGERS_def)
  have keys: "distinct (map u_id (users essay_db))" "distinct (map sp_user (student_profiles essay_db))"
    "distinct (map (\<lambda>x. (hs_homework x, hs_student x)) (submissions essay_db))"
    by (simp_all add: essay_db_def school_people_def pupil_def)
  from homework_counts_exact [OF keys h rows] rows show ?thesis by blast
qed

end
