(* ===== verification/Trip_Claims.thy ===== *)
theory Trip_Claims
  imports Driver_Routine Leaving_Claims
begin

text \<open>
  The stops of a trip: what a manager saves is what the driver sees, in the same order.
\<close>

subsection \<open>Stops\<close>

definition rides :: "db \<Rightarrow> int \<Rightarrow> stop_body \<Rightarrow> bool" where
  "rides s g b \<longleftrightarrow> (\<exists>u \<in> set (users s). u_id u = stb_student b \<and> u_org u = g \<and> u_active u)"

lemma stops_of_students: "map so_student (stops_of i bs) = map stb_student bs"
  by (simp add: stops_of_def stop_of_def split_def comp_def) (simp add: map_fst_zip [unfolded comp_def] flip: map_map [of stb_student fst, unfolded comp_def])

lemma stops_of_order: "map so_order (stops_of i bs) = map (\<lambda>n. int n + 1) [0..<length bs]"
  by (simp add: stops_of_def stop_of_def split_def comp_def flip: map_map [of "\<lambda>n. int n + 1" snd, unfolded comp_def])

lemma stops_of_shift: "x \<in> set (stops_of i bs) \<Longrightarrow> so_shift x = i"
  by (auto simp: stops_of_def stop_of_def)

lemma saved_stops:
  assumes "shift_students t = delete_where (\<lambda>x. so_shift x = i) (shift_students s) @ stops_of i bs"
  shows "filter (\<lambda>x. so_shift x = i) (shift_students t) = stops_of i bs"
    and "k \<noteq> i \<Longrightarrow> filter (\<lambda>x. so_shift x = k) (shift_students t) = filter (\<lambda>x. so_shift x = k) (shift_students s)"
proof -
  have "filter (\<lambda>x. so_shift x = i) (stops_of i bs) = stops_of i bs" "filter (\<lambda>x. so_shift x = k) (stops_of i bs) = []" if "k \<noteq> i" for k
    using that by (auto simp: filter_id_conv filter_empty_conv stops_of_shift)
  then show "filter (\<lambda>x. so_shift x = i) (shift_students t) = stops_of i bs"
    "k \<noteq> i \<Longrightarrow> filter (\<lambda>x. so_shift x = k) (shift_students t) = filter (\<lambda>x. so_shift x = k) (shift_students s)"
    unfolding assms delete_where_def by (auto simp: filter_id_conv stops_of_shift intro!: filter_cong)
qed

text \<open>An id is one account, so every stop is at most one door.\<close>

lemma active_in_one:
  assumes "distinct (map u_id (users s))" "u \<in> set (users s)" "u_id u = j" "u_org u = g" "u_active u"
  shows "active_in g j s = [u]"
proof -
  have "filter (\<lambda>v. u_id v = j \<and> u_org v = g \<and> u_active v) us = [u]" if "distinct (map u_id us)" "u \<in> set us" for us
    using that
  proof (induction us)
    case (Cons v us)
    show ?case
    proof (cases "u = v")
      case True
      then have "filter (\<lambda>w. u_id w = j \<and> u_org w = g \<and> u_active w) us = []" using Cons.prems(1) assms(3) by (auto simp: filter_empty_conv) (metis image_eqI)
      then show ?thesis using True assms by simp
    next
      case False
      then have "u_id v \<noteq> j" using Cons.prems assms(3) by auto
      then show ?thesis using Cons False by simp
    qed
  qed simp
  then show ?thesis using assms by (simp add: active_in_def)
qed

definition own_stop :: "db \<Rightarrow> user_row \<Rightarrow> string option" where
  "own_stop s u = Option.bind (one_where (\<lambda>rd. rd_student rd = u_id u \<and> rd_org rd = u_org u) (bus_students s)) rd_stop"

text \<open>The door of a stop, as the driver sees it.\<close>

definition door_shows :: "db \<Rightarrow> stop_body \<Rightarrow> door \<Rightarrow> bool" where
  "door_shows s b d \<longleftrightarrow> dr_student d = stb_student b \<and> dr_time d = map_option hhmm (stb_time b) \<and> dr_landmark d = stripped (stb_landmark b)
     \<and> dr_latitude d = stb_latitude b \<and> dr_longitude d = stb_longitude b \<and> dr_notes d = stripped (stb_notes b)
     \<and> (stripped (stb_stop b) \<noteq> None \<longrightarrow> dr_stop d = stripped (stb_stop b))"

definition doors_in :: "int \<Rightarrow> db \<Rightarrow> stop_row list \<Rightarrow> (stop_row \<times> door) list" where
  "doors_in g s xs = concat (map (\<lambda>x. map (\<lambda>u. (x, door_of s u (so_time x) (case so_name x of Some n \<Rightarrow> Some n | None \<Rightarrow> own_stop s u)
     (so_landmark x) (so_latitude x) (so_longitude x) (so_notes x))) (active_in g (so_student x) s)) xs)"

lemma doors_in_saved:
  assumes ids: "distinct (map u_id (users s))"
  shows "list_all2 (\<lambda>(b, n) (x, d). x = stop_of i (b, n) \<and> door_shows s b d) (filter (\<lambda>(b, n). rides s g b) bns) (doors_in g s (map (stop_of i) bns))"
proof (induction bns)
  case (Cons bn bns)
  obtain b n where bn: "bn = (b, n)" by (cases bn)
  show ?case
  proof (cases "rides s g b")
    case True
    then obtain u where "u \<in> set (users s)" "u_id u = stb_student b" "u_org u = g" "u_active u" by (auto simp: rides_def)
    moreover from this have one: "active_in g (stb_student b) s = [u]" using active_in_one [OF ids] by blast
    ultimately show ?thesis using Cons True by (auto simp: bn doors_in_def stop_of_def door_shows_def door_of_def Let_def split: option.splits)
  next
    case False
    then have "active_in g (stb_student b) s = []" by (auto simp: rides_def active_in_def filter_empty_conv)
    then show ?thesis using Cons False by (simp add: bn doors_in_def stop_of_def)
  qed
qed (simp add: doors_in_def)

lemma stop_doors_in:
  assumes "sf_id r = i"
  shows "stop_doors c g r s = map snd (sort_key (\<lambda>(x, d). (so_order x, so_time x = None, case so_time x of None \<Rightarrow> 0 | Some t \<Rightarrow> t, collation c (dr_name d)))
    (doors_in g s (filter (\<lambda>x. so_shift x = i) (shift_students s))))"
  unfolding stop_doors_def doors_in_def own_stop_def assms ..

text \<open>Stops already come in their order.\<close>

lemma doors_sorted:
  assumes "sorted_wrt (<) (map (\<lambda>(x, d). so_order x) xs)"
  shows "sort_key (\<lambda>(x, d). (so_order x, so_time x = None, case so_time x of None \<Rightarrow> 0 | Some t \<Rightarrow> t, collation c (dr_name d))) xs = (xs :: (stop_row \<times> door) list)"
proof (rule sort_key_id_if_sorted)
  show "sorted (map (\<lambda>(x, d). (so_order x, so_time x = None, case so_time x of None \<Rightarrow> 0 | Some t \<Rightarrow> t, collation c (dr_name d))) xs)"
    using assms by (induction xs) (auto simp: less_eq_prod_def less_prod_def)
qed

lemma saved_doors:
  assumes ids: "distinct (map u_id (users s))" and r: "sf_id r = i" and stops: "filter (\<lambda>x. so_shift x = i) (shift_students s) = stops_of i bs"
  shows "list_all2 (door_shows s) (filter (rides s g) bs) (stop_doors c g r s)"
proof -
  let ?bns = "filter (\<lambda>(b, n). rides s g b) (zip bs [0..<length bs])" and ?xs = "doors_in g s (stops_of i bs)"
  have all: "list_all2 (\<lambda>(b, n) (x, d). x = stop_of i (b, n) \<and> door_shows s b d) ?bns ?xs"
    unfolding stops_of_def by (rule doors_in_saved [OF ids])
  have orders: "map (\<lambda>(x, d). so_order x) xs = map (\<lambda>(b, n). int n + 1) bns" and shown: "list_all2 (door_shows s) (map fst bns) (map snd xs)"
    if "list_all2 (\<lambda>(b, n) (x, d). x = stop_of i (b, n) \<and> door_shows s b d) bns xs" for bns :: "(stop_body \<times> nat) list" and xs
    using that by (induction rule: list_all2_induct) (auto simp: stop_of_def)
  have "sorted_wrt (<) (map snd (zip bs [0..<length bs]))" by simp
  then have "sorted_wrt (<) (map snd ?bns)" unfolding sorted_wrt_map by (rule sorted_wrt_filter)
  then have "sorted_wrt (<) (map (\<lambda>(b, n). int n + 1) ?bns)" unfolding sorted_wrt_map by (rule sorted_wrt_mono_rel [rotated]) auto
  then have "sort_key (\<lambda>(x, d). (so_order x, so_time x = None, case so_time x of None \<Rightarrow> 0 | Some t \<Rightarrow> t, collation c (dr_name d))) ?xs = ?xs"
    by (intro doors_sorted) (simp add: orders [OF all])
  moreover have "map fst ?bns = filter (rides s g) bs"
  proof -
    have "map fst (filter (\<lambda>(b, n). rides s g b) (zip xs ns)) = filter (rides s g) xs" if "length ns = length xs" for xs :: "stop_body list" and ns :: "nat list"
      using that by (induction xs ns rule: list_induct2') auto
    then show ?thesis by simp
  qed
  ultimately show ?thesis using shown [OF all] by (simp add: stop_doors_in [OF r] stops)
qed

subsection \<open>Saving\<close>

lemma save_shift_students_done:
  assumes "save_shift_students v i bs s = (Inr n, s')"
  shows "n = length bs" "distinct (map stb_student bs)" "s' = s\<lparr>shift_students := delete_where (\<lambda>x. so_shift x = i) (shift_students s) @ stops_of i bs\<rparr>"
proof -
  have "n = length bs \<and> distinct (map stb_student bs) \<and> s' = s\<lparr>shift_students := delete_where (\<lambda>x. so_shift x = i) (shift_students s) @ stops_of i bs\<rparr>"
    using assms unfolding save_shift_students_def svc_simps by (auto simp: find_vehicle_def find_shift_def svc_simps neq_Nil_conv split: if_splits list.splits)
  then show "n = length bs" "distinct (map stb_student bs)" "s' = s\<lparr>shift_students := delete_where (\<lambda>x. so_shift x = i) (shift_students s) @ stops_of i bs\<rparr>"
    by simp_all
qed

text \<open>C20: The stops a manager saves for a trip are the ones its driver is shown: the students with an active account, each once,
  in the order sent and numbered from one, with the time, place and notes entered. The stops of the other trips stay.\<close>

theorem stops_roundtrip:
  assumes run: "save_shift_students v i bs s = (Inr n, s')" and ids: "distinct (map u_id (users s))" and r: "sf_id r = i"
  shows "n = length bs
    \<and> map dr_student (trp_doors (shift_trip c g w s' r)) = filter (\<lambda>j. \<exists>u \<in> set (users s). u_id u = j \<and> u_org u = g \<and> u_active u) (map stb_student bs)
    \<and> distinct (map dr_student (trp_doors (shift_trip c g w s' r)))
    \<and> map dr_stop_no (trp_doors (shift_trip c g w s' r)) = map (\<lambda>k. int k + 1) [0..<length (trp_doors (shift_trip c g w s' r))]
    \<and> (\<forall>d \<in> set (trp_doors (shift_trip c g w s' r)). \<exists>b \<in> set bs. door_shows s' b d)
    \<and> (\<forall>r2. sf_id r2 \<noteq> i \<longrightarrow> trp_doors (shift_trip c g w s' r2) = trp_doors (shift_trip c g w s r2))"
proof -
  note kept = save_shift_students_done [OF run]
  have same: "users s' = users s" "bus_students s' = bus_students s" "student_profiles s' = student_profiles s" "classes s' = classes s" "sections s' = sections s"
    by (simp_all add: kept(3))
  have stops: "shift_students s' = delete_where (\<lambda>x. so_shift x = i) (shift_students s) @ stops_of i bs" by (simp add: kept(3))
  define ds where "ds = stop_doors c g r s'"
  have doors: "list_all2 (door_shows s') (filter (rides s' g) bs) ds"
    unfolding ds_def by (rule saved_doors [OF _ r saved_stops(1) [OF stops]]) (simp add: same ids)
  have trip: "trp_doors (shift_trip c g w s' r) = with_stop_numbers ds" by (simp add: shift_trip_def ds_def)
  have nos: "map dr_student (with_stop_numbers ds) = map dr_student ds" "map dr_stop_no (with_stop_numbers ds) = map (\<lambda>k. int k + 1) [0..<length ds]"
    "length (with_stop_numbers ds) = length ds"
    by (simp_all add: with_stop_numbers_def split_def comp_def map_fst_zip [unfolded comp_def]
        flip: map_map [of dr_student fst, unfolded comp_def] map_map [of "\<lambda>k. int k + 1" snd, unfolded comp_def])
  have students: "map dr_student ds = filter (\<lambda>j. \<exists>u \<in> set (users s). u_id u = j \<and> u_org u = g \<and> u_active u) (map stb_student bs)"
  proof -
    have "map dr_student ds = map stb_student (filter (rides s' g) bs)" using doors by (induction rule: list_all2_induct) (simp_all add: door_shows_def)
    then show ?thesis by (simp add: filter_map comp_def rides_def [abs_def] same)
  qed
  moreover have "distinct (map dr_student ds)" unfolding students using kept(2) by (rule distinct_filter)
  moreover have "\<exists>b \<in> set bs. door_shows s' b d" if "d \<in> set (with_stop_numbers ds)" for d
  proof -
    from that obtain d0 m where d0: "d0 \<in> set ds" "d = d0\<lparr>dr_stop_no := m\<rparr>" by (auto simp: with_stop_numbers_def dest: set_zip_leftD)
    have "\<exists>b \<in> set xs. P b d" if "list_all2 P xs ds" "d \<in> set ds" for P :: "stop_body \<Rightarrow> door \<Rightarrow> bool" and xs ds d
      using that by (induction rule: list_all2_induct) auto
    from this [OF doors d0(1)] obtain b where "b \<in> set bs" "door_shows s' b d0" by auto
    then show ?thesis using d0(2) by (auto simp: door_shows_def)
  qed
  moreover have "trp_doors (shift_trip c g w s' r2) = trp_doors (shift_trip c g w s r2)" if "sf_id r2 \<noteq> i" for r2
  proof -
    have "doors_in g s' = doors_in g s" by (intro ext) (unfold doors_in_def active_in_def door_of_def own_stop_def same, rule refl)
    then show ?thesis by (simp add: shift_trip_def stop_doors_in [OF refl] saved_stops(2) [OF stops that])
  qed
  ultimately show ?thesis by (simp add: trip nos kept(1))
qed

definition morning :: shift_row where
  "morning = \<lparr>sf_id = 1, sf_org = 1, sf_vehicle = 1, sf_name = ''Morning'', sf_trip = Pickup, sf_start = 25200, sf_end = 30600,
     sf_weekdays = DEFAULT_WEEKDAYS, sf_active = True\<rparr>"

definition bus :: vehicle_row where
  "bus = (empty_vehicle 1 1)\<lparr>v_no := ''KA-1''\<rparr>"

definition trip_db :: db where
  "trip_db = leaving_db\<lparr>vehicles := [bus], shifts := [morning], shift_students := []\<rparr>"

definition two_stops :: "stop_body list" where
  "two_stops = map (\<lambda>(j, t). \<lparr>stb_student = j, stb_time = Some t, stb_stop = None, stb_landmark = None, stb_latitude = None, stb_longitude = None, stb_notes = None\<rparr>)
     [(3, 25800), (2, 26400)]"

lemma stops_roundtrip_witness:
  "\<exists>s'. save_shift_students 1 1 two_stops trip_db = (Inr 2, s') \<and> map dr_student (trp_doors (shift_trip (demo 0) 1 bus s' morning)) = [3, 2]"
proof -
  obtain s' where run: "save_shift_students 1 1 two_stops trip_db = (Inr 2, s')"
    by (simp add: save_shift_students_def two_stops_def bindH_def check_def transaction_def find_vehicle_def find_shift_def query_def found_def reads_def writes_def ret_def
        org_of_def vehicle_in_def missing_pupils_def active_pupil_def stop_valid_def at_most_def degrees_def trip_db_def bus_def empty_vehicle_def morning_def one_where_def
        school_people_def)
  have ids: "distinct (map u_id (users trip_db))" by (simp add: trip_db_def school_people_def)
  from stops_roundtrip [OF run ids, of morning "demo 0" 1 bus] run show ?thesis
    by (simp add: morning_def two_stops_def trip_db_def school_people_def)
qed

end
